(* ===== verification/Prelude.thy ===== *)
theory Prelude
  imports Main "HOL-Library.Word"
begin

text \<open>
  Shared vocabulary of the development: machine integers and byte strings, results that carry
  an error (Rust's \<^verbatim>\<open>Result\<close>, with \<open>Inl\<close> the error and \<open>Inr\<close> the value), the byte-order
  conversions of the \<^verbatim>\<open>byteorder\<close> crate, and a cursor over a byte string (what
  \<^verbatim>\<open>std::io::Cursor\<close> leaves to be read).  The lemmas below are about these only; the
  collection \<open>bytes_simps\<close> gathers the facts the component proofs simplify with.
\<close>

unbundle bit_operations_syntax

named_theorems bytes_simps "lengths, round trips and reads of the byte encodings"
named_theorems result_simps "equations of the result combinators"

section \<open>Machine integers and byte strings\<close>

type_synonym u8 = "8 word"
type_synonym u16 = "16 word"
type_synonym u32 = "32 word"
type_synonym u64 = "64 word"
type_synonym bytes = "u8 list"

section \<open>Results\<close>

text \<open>\<open>result_bind\<close> is Rust's \<^verbatim>\<open>?\<close>: an error ends the computation.\<close>

definition result_bind :: "'e + 'a \<Rightarrow> ('a \<Rightarrow> 'e + 'b) \<Rightarrow> 'e + 'b" where
  "result_bind r f = (case r of Inl e \<Rightarrow> Inl e | Inr x \<Rightarrow> f x)"

definition result_map :: "('a \<Rightarrow> 'b) \<Rightarrow> 'e + 'a \<Rightarrow> 'e + 'b" where
  "result_map f r = (case r of Inl e \<Rightarrow> Inl e | Inr x \<Rightarrow> Inr (f x))"

definition map_err :: "('e \<Rightarrow> 'f) \<Rightarrow> 'e + 'a \<Rightarrow> 'f + 'a" where
  "map_err f r = (case r of Inl e \<Rightarrow> Inl (f e) | Inr x \<Rightarrow> Inr x)"

definition ok_or :: "'e \<Rightarrow> 'a option \<Rightarrow> 'e + 'a" where
  "ok_or e x = (case x of None \<Rightarrow> Inl e | Some v \<Rightarrow> Inr v)"

lemma result_bind_simps [simp, result_simps]:
  "result_bind (Inl e) f = Inl e"
  "result_bind (Inr x) f = f x"
  by (simp_all add: result_bind_def)

lemma result_map_simps [simp, result_simps]:
  "result_map g (Inl e) = Inl e"
  "result_map g (Inr x) = Inr (g x)"
  by (simp_all add: result_map_def)

lemma map_err_simps [simp, result_simps]:
  "map_err h (Inl e) = Inl (h e)"
  "map_err h (Inr x) = Inr x"
  by (simp_all add: map_err_def)

lemma ok_or_simps [simp, result_simps]:
  "ok_or e None = Inl e"
  "ok_or e (Some x) = Inr x"
  by (simp_all add: ok_or_def)

lemma result_bind_eq_Inr_conv: "result_bind r f = Inr y \<longleftrightarrow> (\<exists>x. r = Inr x \<and> f x = Inr y)"
  by (cases r) auto

lemma result_map_eq_Inr_conv: "result_map f r = Inr y \<longleftrightarrow> (\<exists>x. r = Inr x \<and> y = f x)"
  by (cases r) auto

lemma result_map_eq_Inl_conv: "result_map f r = Inl e \<longleftrightarrow> r = Inl e"
  by (cases r) auto

lemma map_err_eq_Inr_conv [simp]: "map_err h r = Inr y \<longleftrightarrow> r = Inr y"
  by (cases r) auto

lemma ok_or_eq_Inr_conv [simp]: "ok_or e x = Inr y \<longleftrightarrow> x = Some y"
  by (cases x) auto

lemma result_bind_eq_Inl_conv:
  "result_bind r f = Inl e \<longleftrightarrow> r = Inl e \<or> (\<exists>x. r = Inr x \<and> f x = Inl e)"
  by (cases r) auto

lemmas result_convs = result_bind_eq_Inl_conv result_map_eq_Inl_conv result_bind_eq_Inr_conv result_map_eq_Inr_conv

section \<open>Errors of \<^verbatim>\<open>std::io\<close>\<close>

text \<open>
  An \<^verbatim>\<open>std::io::Error\<close> is modelled by its kind; the message text, which is only logged or
  displayed, is not modelled.  \<open>Io_UnexpectedEof\<close> is what \<^verbatim>\<open>read_exact\<close> and the
  \<^verbatim>\<open>byteorder\<close> readers return at the end of a cursor.
\<close>

datatype io_error = Io_InvalidData | Io_InvalidInput | Io_UnexpectedEof

section \<open>Byte order\<close>

definition be_u16 :: "u16 \<Rightarrow> bytes" where
  "be_u16 w = [ucast (drop_bit 8 w), ucast w]"

definition be_u32 :: "u32 \<Rightarrow> bytes" where
  "be_u32 w = [ucast (drop_bit 24 w), ucast (drop_bit 16 w), ucast (drop_bit 8 w), ucast w]"

text \<open>\<^verbatim>\<open>write_u24\<close> writes the low three bytes of a 32-bit value.\<close>

definition be_u24 :: "u32 \<Rightarrow> bytes" where
  "be_u24 w = [ucast (drop_bit 16 w), ucast (drop_bit 8 w), ucast w]"

definition le_u32 :: "u32 \<Rightarrow> bytes" where
  "le_u32 w = [ucast w, ucast (drop_bit 8 w), ucast (drop_bit 16 w), ucast (drop_bit 24 w)]"

definition le_u64 :: "u64 \<Rightarrow> bytes" where
  "le_u64 w = [ucast w, ucast (drop_bit 8 w), ucast (drop_bit 16 w), ucast (drop_bit 24 w),
     ucast (drop_bit 32 w), ucast (drop_bit 40 w), ucast (drop_bit 48 w), ucast (drop_bit 56 w)]"

definition u16_of_be :: "u8 \<Rightarrow> u8 \<Rightarrow> u16" where
  "u16_of_be a b = push_bit 8 (ucast a) OR ucast b"

definition u32_of_be :: "u8 \<Rightarrow> u8 \<Rightarrow> u8 \<Rightarrow> u8 \<Rightarrow> u32" where
  "u32_of_be a b c d =
     push_bit 24 (ucast a) OR push_bit 16 (ucast b) OR push_bit 8 (ucast c) OR ucast d"

lemma length_byte_order [simp, bytes_simps]:
  "length (be_u16 w) = 2" "length (be_u32 v) = 4" "length (be_u24 v) = 3"
  "length (le_u32 v) = 4" "length (le_u64 x) = 8"
  by (simp_all add: be_u16_def be_u32_def be_u24_def le_u32_def le_u64_def)

lemma u16_of_be_be [simp, bytes_simps]:
  "u16_of_be (ucast (drop_bit 8 w)) (ucast w) = w"
  unfolding u16_of_be_def by (rule bit_word_eqI) (auto simp: bit_simps)

lemma u32_of_be_be [simp, bytes_simps]:
  "u32_of_be (ucast (drop_bit 24 w)) (ucast (drop_bit 16 w)) (ucast (drop_bit 8 w)) (ucast w) = w"
  unfolding u32_of_be_def
proof (rule bit_word_eqI)
  fix n
  assume "n < LENGTH(32)"
  then consider "n < 8" | "8 \<le> n \<and> n < 16" | "16 \<le> n \<and> n < 24" | "24 \<le> n \<and> n < 32"
    by fastforce
  then show "bit (push_bit 24 (ucast (ucast (drop_bit 24 w) :: u8)) OR
      push_bit 16 (ucast (ucast (drop_bit 16 w) :: u8)) OR
      push_bit 8 (ucast (ucast (drop_bit 8 w) :: u8)) OR ucast (ucast w :: u8) :: u32) n = bit w n"
    by cases (simp_all add: bit_simps, auto)
qed

lemma u8_bit_high: "8 \<le> n \<Longrightarrow> \<not> bit (b :: u8) n"
  using bit_imp_le_length [of b n] by auto

lemma be_u32_of_be: "be_u32 (u32_of_be a b c d) = [a, b, c, d]"
  unfolding be_u32_def u32_of_be_def
  by (auto intro!: bit_word_eqI simp: bit_simps u8_bit_high)

lemma be_u16_of_be: "be_u16 (u16_of_be a b) = [a, b]"
  unfolding be_u16_def u16_of_be_def
  by (auto intro!: bit_word_eqI simp: bit_simps u8_bit_high)

lemma be_u32_inj: "be_u32 v = be_u32 w \<Longrightarrow> v = w"
  unfolding be_u32_def by (drule arg_cong [where f = "\<lambda>l. u32_of_be (l ! 0) (l ! 1) (l ! 2) (l ! 3)"]) simp

lemma unat_of_nat_u16 [bytes_simps]: "n < 65536 \<Longrightarrow> unat (of_nat n :: u16) = n"
  by (simp add: unat_of_nat take_bit_eq_mod)

text \<open>An 8-bit counter below its maximum does not wrap when incremented.\<close>

lemma unat_u8_less: "unat (b :: u8) < 256"
  using unsigned_less [of b, where ?'a = nat] by simp

lemma unat_u8_inc: "b \<noteq> (255 :: u8) \<Longrightarrow> unat (b + 1) = Suc (unat b)"
proof -
  assume "b \<noteq> 255"
  then have "unat b \<noteq> 255" using unsigned_word_eqI [where ?'a = nat, of b 255] by auto
  then have "unat b < 255" using unat_u8_less [of b] by simp
  then show ?thesis by (simp add: unat_word_ariths)
qed

text \<open>A property of every byte can be checked byte by byte.\<close>

lemma u8_all_iff: "(\<forall>b :: u8. P b) \<longleftrightarrow> list_all (\<lambda>n. P (word_of_nat n)) [0..<256]"
proof
  assume "list_all (\<lambda>n. P (word_of_nat n)) [0..<256]"
  then have P: "P (word_of_nat n)" if "n < 256" for n
    using that by (simp add: list_all_iff)
  show "\<forall>b. P b"
  proof
    fix b :: u8
    show "P b" using P [OF unat_u8_less [of b]] by simp
  qed
qed (simp add: list_all_iff)

lemma u8_high_bit: "(b :: u8) AND 0x80 = 0 \<longleftrightarrow> b \<le> 0x7F"
proof -
  have "b AND 0x80 = 0 \<longleftrightarrow> \<not> bit b 7"
    using and_exp_eq_0_iff_not_bit [of b 7] by simp
  also have "bit b 7 \<longleftrightarrow> bit (unat b) 7"
    by (simp add: bit_unsigned_iff)
  also have "\<dots> \<longleftrightarrow> odd (unat b div 128)"
    by (simp add: bit_iff_odd)
  also have "unat b div 128 = (if 128 \<le> unat b then 1 else 0)"
    using unat_u8_less [of b] by (auto intro: div_nat_eqI)
  also have "odd (if 128 \<le> unat b then 1 else 0 :: nat) \<longleftrightarrow> 128 \<le> unat b"
    by simp
  finally show ?thesis
    by (auto simp: word_le_nat_alt)
qed

section \<open>A cursor over a byte string\<close>

text \<open>A cursor is what is left to read; each reader returns the value and the rest.\<close>

fun read_u8 :: "bytes \<Rightarrow> io_error + (u8 \<times> bytes)" where
  "read_u8 (b # bs) = Inr (b, bs)"
| "read_u8 [] = Inl Io_UnexpectedEof"

fun read_u16_be :: "bytes \<Rightarrow> io_error + (u16 \<times> bytes)" where
  "read_u16_be (a # b # bs) = Inr (u16_of_be a b, bs)"
| "read_u16_be _ = Inl Io_UnexpectedEof"

fun read_u32_be :: "bytes \<Rightarrow> io_error + (u32 \<times> bytes)" where
  "read_u32_be (a # b # c # d # bs) = Inr (u32_of_be a b c d, bs)"
| "read_u32_be _ = Inl Io_UnexpectedEof"

definition read_exact :: "nat \<Rightarrow> bytes \<Rightarrow> io_error + (bytes \<times> bytes)" where
  "read_exact n bs = (if length bs < n then Inl Io_UnexpectedEof else Inr (take n bs, drop n bs))"

lemma read_u16_be_append [simp, bytes_simps]: "read_u16_be (be_u16 w @ bs) = Inr (w, bs)"
  by (simp add: be_u16_def)

lemma read_u32_be_append [simp, bytes_simps]: "read_u32_be (be_u32 w @ bs) = Inr (w, bs)"
  by (simp add: be_u32_def)

lemma read_exact_append [bytes_simps]: "length xs = n \<Longrightarrow> read_exact n (xs @ ys) = Inr (xs, ys)"
  by (auto simp: read_exact_def)

lemma read_u8_eq_Inr: "read_u8 bs = Inr (b, rest) \<longleftrightarrow> bs = b # rest"
  by (cases bs) auto

text \<open>\<^verbatim>\<open>slice.get(i)\<close> and \<^verbatim>\<open>slice.get(n..)\<close>.\<close>

definition slice_get :: "'a list \<Rightarrow> nat \<Rightarrow> 'a option" where
  "slice_get xs i = (if i < length xs then Some (xs ! i) else None)"

definition slice_from :: "'a list \<Rightarrow> nat \<Rightarrow> 'a list option" where
  "slice_from xs i = (if i \<le> length xs then Some (drop i xs) else None)"

definition slice_upto :: "'a list \<Rightarrow> nat \<Rightarrow> 'a list option" where
  "slice_upto xs i = (if i \<le> length xs then Some (take i xs) else None)"

lemma slice_from_drop: "(case slice_from xs n of None \<Rightarrow> [] | Some d \<Rightarrow> d) = drop n xs"
  by (simp add: slice_from_def)

lemma slice_get_append [bytes_simps]:
  "length xs = k \<Longrightarrow> slice_get (xs @ y # ys) k = Some y"
  by (auto simp: slice_get_def)

lemma slice_upto_append [bytes_simps]:
  "length xs = k \<Longrightarrow> slice_upto (xs @ ys) k = Some xs"
  by (auto simp: slice_upto_def)

section \<open>Lists\<close>

lemma take_eq_append_drop: "n \<le> length xs \<Longrightarrow> take n xs @ drop n xs = xs"
  by simp

lemma list_all_butlast: "list_all P xs \<Longrightarrow> list_all P (butlast xs)"
  by (auto simp: list_all_iff dest: in_set_butlastD)

end
