(* ===== verification/Message_Framing.thy ===== *)
theory Message_Framing
  imports Prelude
begin

text \<open>
  The contract of a packet framing, shared by CTAPHID and CTAP over BLE: a sender cuts a message
  into packets, a parser is updated packet by packet until it reports that the message is
  complete.  The receive loops of the channels rely on this contract only.
\<close>

text \<open>The length of the data of continuation packets, summed as the parsers do.\<close>

lemma foldl_payload_len:
  "foldl (\<lambda>n cont. n + (length cont - k)) m conts = m + length (concat (map (drop k) conts))"
  by (induction conts arbitrary: m) auto

text \<open>Packets that the parser accepts without reporting an error or a complete message.\<close>

fun feed :: "('p \<Rightarrow> bytes \<Rightarrow> ('e + bool) \<times> 'p) \<Rightarrow> 'p \<Rightarrow> bytes list \<Rightarrow> 'p option" where
  "feed update p [] = Some p"
| "feed update p (x # xs) =
     (case update p x of
        (Inr False, p') \<Rightarrow> feed update p' xs
      | _ \<Rightarrow> None)"

text \<open>
  The receive loop over a stream of packets: \<open>None\<close> when the stream ends before the message is
  complete (the loop still waits), otherwise the result and what is left of the stream.
\<close>

fun receive :: "('p \<Rightarrow> bytes \<Rightarrow> ('e + bool) \<times> 'p) \<Rightarrow> ('p \<Rightarrow> 'e + 'm) \<Rightarrow> 'p \<Rightarrow> bytes list
    \<Rightarrow> (('e + 'm) \<times> bytes list) option" where
  "receive update message p [] = None"
| "receive update message p (x # xs) =
     (case update p x of
        (Inl e, _) \<Rightarrow> Some (Inl e, xs)
      | (Inr True, p') \<Rightarrow> Some (message p', xs)
      | (Inr False, p') \<Rightarrow> receive update message p' xs)"

lemma feed_append:
  "feed update p (xs @ ys) = Option.bind (feed update p xs) (\<lambda>q. feed update q ys)"
  by (induction xs arbitrary: p) (auto split: prod.splits sum.splits bool.splits)

lemma receive_feed:
  "feed update p xs = Some q \<Longrightarrow> receive update message p (xs @ ys) = receive update message q ys"
  by (induction xs arbitrary: p) (auto split: prod.splits sum.splits bool.splits)

lemma receive_rest_length:
  "receive update message p xs = Some (r, rest) \<Longrightarrow> length rest < length xs"
  by (induction xs arbitrary: p) (auto split: prod.splits sum.splits bool.splits intro: less_SucI)

text \<open>Receiving several messages, each with a fresh parser.\<close>

fun receive_all :: "('p \<Rightarrow> bytes \<Rightarrow> ('e + bool) \<times> 'p) \<Rightarrow> ('p \<Rightarrow> 'e + 'm) \<Rightarrow> 'p \<Rightarrow> nat \<Rightarrow> bytes list
    \<Rightarrow> (('e + 'm) list \<times> bytes list) option" where
  "receive_all update message start 0 xs = Some ([], xs)"
| "receive_all update message start (Suc n) xs =
     (case receive update message start xs of
        None \<Rightarrow> None
      | Some (r, ys) \<Rightarrow>
          (case receive_all update message start n ys of
             None \<Rightarrow> None
           | Some (rs, zs) \<Rightarrow> Some (r # rs, zs)))"

text \<open>
  The laws: a message the sender can carry becomes a non-empty list of packets, all but the last
  leave the parser waiting, and the last completes a message equal to the one sent.  \<open>wire\<close> is
  what the link does to a packet (a HID report is padded).
\<close>

locale message_framing =
  fixes packets :: "'m \<Rightarrow> 'e + bytes list"
    and update :: "'p \<Rightarrow> bytes \<Rightarrow> ('e + bool) \<times> 'p"
    and start :: 'p
    and message :: "'p \<Rightarrow> 'e + 'm"
    and wire :: "bytes \<Rightarrow> bytes"
    and carried :: "'m \<Rightarrow> bool"
  assumes nonempty: "carried m \<Longrightarrow> packets m = Inr ps \<Longrightarrow> ps \<noteq> []"
    and waits: "carried m \<Longrightarrow> packets m = Inr ps \<Longrightarrow>
      \<exists>p. feed update start (map wire (butlast ps)) = Some p"
    and completes: "carried m \<Longrightarrow> packets m = Inr ps \<Longrightarrow>
      feed update start (map wire (butlast ps)) = Some p \<Longrightarrow>
      \<exists>p'. update p (wire (last ps)) = (Inr True, p') \<and> message p' = Inr m"
begin

lemma receive_one:
  assumes "carried m" and "packets m = Inr ps"
  shows "receive update message start (map wire ps @ rest) = Some (Inr m, rest)"
proof -
  obtain p where p: "feed update start (map wire (butlast ps)) = Some p"
    using waits [OF assms] by blast
  obtain p' where p': "update p (wire (last ps)) = (Inr True, p')" "message p' = Inr m"
    using completes [OF assms p] by blast
  have "ps = butlast ps @ [last ps]"
    using nonempty [OF assms] by simp
  then have "map wire ps = map wire (butlast ps) @ [wire (last ps)]"
    by (metis list.simps(8) list.simps(9) map_append)
  then show ?thesis
    by (simp add: receive_feed [OF p] p')
qed

lemma receive_sequence:
  assumes "list_all2 (\<lambda>m ps. carried m \<and> packets m = Inr ps) ms pss"
  shows "receive_all update message start (length ms) (concat (map (map wire) pss) @ rest)
    = Some (map Inr ms, rest)"
  using assms
proof (induction ms pss rule: list_all2_induct)
  case Nil
  then show ?case by simp
next
  case (Cons m ms ps pss)
  then show ?case
    using receive_one [of m ps "concat (map (map wire) pss) @ rest"] by simp
qed

text \<open>A proper prefix of the packets never completes a message.\<close>

lemma prefix_waits:
  assumes "carried m" and "packets m = Inr ps" and "k < length ps"
  shows "receive update message start (map wire (take k ps)) = None"
proof -
  obtain p where p: "feed update start (map wire (butlast ps)) = Some p"
    using waits [OF assms(1,2)] by blast
  have "butlast ps = take k ps @ drop k (butlast ps)"
    using assms(3) by (metis append_take_drop_id take_butlast)
  then have "map wire (butlast ps) = map wire (take k ps) @ map wire (drop k (butlast ps))"
    by (metis map_append)
  then have "feed update start (map wire (take k ps)) \<noteq> None"
    using p by (cases "feed update start (map wire (take k ps))") (auto simp: feed_append)
  then obtain q where "feed update start (map wire (take k ps)) = Some q" by blast
  from receive_feed [OF this, of message "[]"] show ?thesis by simp
qed

end

end
