(* ===== verification/Hid_Framing.thy ===== *)
theory Hid_Framing
  imports Message_Framing
begin

text \<open>
  CTAPHID framing, \<^verbatim>\<open>libwebauthn/src/transport/hid/framing.rs\<close>: a message of a channel, a
  command and a payload is cut into packets (one initialization packet and up to 127
  continuation packets), and a parser reassembles the packets it is fed.
\<close>

section \<open>Constants and data\<close>

definition BROADCAST_CID :: u32 where "BROADCAST_CID = 0xFFFFFFFF"
definition PACKET_INITIAL_HEADER_SIZE :: nat where "PACKET_INITIAL_HEADER_SIZE = 7"
definition PACKET_INITIAL_CMD_MASK :: u8 where "PACKET_INITIAL_CMD_MASK = 0x80"
definition PACKET_CONT_HEADER_SIZE :: nat where "PACKET_CONT_HEADER_SIZE = 5"
definition PACKET_CONT_SEQ_MAX :: u8 where "PACKET_CONT_SEQ_MAX = 0x7F"

lemmas hid_consts = PACKET_INITIAL_HEADER_SIZE_def PACKET_INITIAL_CMD_MASK_def
  PACKET_CONT_HEADER_SIZE_def PACKET_CONT_SEQ_MAX_def BROADCAST_CID_def

datatype hid_command = Hid_Ping | Hid_Msg | Hid_Lock | Hid_Init | Hid_Wink | Hid_Cbor
  | Hid_Cancel | Hid_Sync | Hid_KeepAlive | Hid_Error

text \<open>\<^verbatim>\<open>self.cmd as u8\<close> and, from \<^verbatim>\<open>TryFromPrimitive\<close>, \<^verbatim>\<open>u8::try_into\<close>.\<close>

fun hid_command_to_u8 :: "hid_command \<Rightarrow> u8" where
  "hid_command_to_u8 Hid_Ping = 0x01"
| "hid_command_to_u8 Hid_Msg = 0x03"
| "hid_command_to_u8 Hid_Lock = 0x04"
| "hid_command_to_u8 Hid_Init = 0x06"
| "hid_command_to_u8 Hid_Wink = 0x08"
| "hid_command_to_u8 Hid_Cbor = 0x10"
| "hid_command_to_u8 Hid_Cancel = 0x11"
| "hid_command_to_u8 Hid_Sync = 0x3C"
| "hid_command_to_u8 Hid_KeepAlive = 0x3B"
| "hid_command_to_u8 Hid_Error = 0x3F"

definition hid_commands :: "hid_command list" where
  "hid_commands = [Hid_Ping, Hid_Msg, Hid_Lock, Hid_Init, Hid_Wink, Hid_Cbor, Hid_Cancel,
     Hid_Sync, Hid_KeepAlive, Hid_Error]"

definition hid_command_of_u8 :: "u8 \<Rightarrow> hid_command option" where
  "hid_command_of_u8 b = List.find (\<lambda>c. hid_command_to_u8 c = b) hid_commands"

record hid_message =
  hm_cid :: u32
  hm_cmd :: hid_command
  hm_payload :: bytes

definition hid_message_new :: "u32 \<Rightarrow> hid_command \<Rightarrow> bytes \<Rightarrow> hid_message" where
  "hid_message_new cid cmd payload = \<lparr>hm_cid = cid, hm_cmd = cmd, hm_payload = payload\<rparr>"

definition hid_message_broadcast :: "hid_command \<Rightarrow> bytes \<Rightarrow> hid_message" where
  "hid_message_broadcast cmd payload = hid_message_new BROADCAST_CID cmd payload"

section \<open>Sending: a message as packets\<close>

text \<open>
  The \<^verbatim>\<open>while payload.peek().is_some()\<close> loop of \<^verbatim>\<open>HidMessage::packets\<close>: \<open>payload\<close> is what
  the iterator has left, \<open>seq\<close> the 8-bit sequence number.  The loop stops with an error as soon
  as the sequence number passes \<open>0x7F\<close>, which it is tested for after it was incremented.
\<close>

function hid_cont_packets :: "nat \<Rightarrow> u32 \<Rightarrow> u8 \<Rightarrow> bytes \<Rightarrow> io_error + bytes list" where
  "hid_cont_packets packet_size cid seq payload =
     (if payload = [] then Inr []
      else
        let packet = be_u32 cid @ [seq] @ take (packet_size - PACKET_CONT_HEADER_SIZE) payload;
            payload' = drop (packet_size - PACKET_CONT_HEADER_SIZE) payload;
            seq' = seq + 1
        in if seq' > 0x7F then Inl Io_InvalidData
           else result_map (\<lambda>packets. packet # packets)
                  (hid_cont_packets packet_size cid seq' payload'))"
  by pat_completeness auto
termination
proof (relation "measure (\<lambda>(n, cid, seq, p). if seq = 255 then 300 else 256 - unat seq)", goal_cases)
  case 1
  show ?case by simp
next
  case (2 packet_size cid seq payload x xa xb)
  then have b: "unat (seq + 1) \<le> 127"
    by (simp add: word_less_nat_alt not_less)
  show ?case
  proof (cases "seq = 255")
    case True
    then show ?thesis using 2 by simp
  next
    case False
    then have "unat (seq + 1) = Suc (unat seq)" by (rule unat_u8_inc)
    with b False 2 show ?thesis by auto
  qed
qed

declare hid_cont_packets.simps [simp del]

definition hid_message_packets :: "hid_message \<Rightarrow> nat \<Rightarrow> io_error + bytes list" where
  "hid_message_packets msg packet_size =
     (if packet_size < PACKET_INITIAL_HEADER_SIZE + 1 then Inl Io_InvalidData
      else
        let payload = hm_payload msg;
            initial = be_u32 (hm_cid msg)
              @ [hid_command_to_u8 (hm_cmd msg) OR PACKET_INITIAL_CMD_MASK]
              @ be_u16 (of_nat (length payload))
              @ take (packet_size - PACKET_INITIAL_HEADER_SIZE) payload
        in result_map (\<lambda>packets. initial # packets)
             (hid_cont_packets packet_size (hm_cid msg) 0
                (drop (packet_size - PACKET_INITIAL_HEADER_SIZE) payload)))"

section \<open>Receiving: the parser\<close>

datatype hid_parser_state = Hid_MorePacketsExpected | Hid_Done

record hid_message_parser =
  hmp_packets :: "bytes list"

definition hid_parser_new :: hid_message_parser where
  "hid_parser_new = \<lparr>hmp_packets = []\<rparr>"

text \<open>\<^verbatim>\<open>expected_bytes\<close>, \<^verbatim>\<open>payload_len\<close> and \<^verbatim>\<open>more_packets_needed\<close>.\<close>

definition hid_expected_bytes :: "hid_message_parser \<Rightarrow> nat option" where
  "hid_expected_bytes p =
     (case hmp_packets p of
        [] \<Rightarrow> None
      | initial # _ \<Rightarrow>
          (case slice_get initial 5 of
             None \<Rightarrow> None
           | Some b5 \<Rightarrow>
               (case slice_get initial 6 of
                  None \<Rightarrow> None
                | Some b6 \<Rightarrow> Some (unat (u16_of_be b5 b6)))))"

definition hid_payload_len :: "hid_message_parser \<Rightarrow> nat" where
  "hid_payload_len p =
     (case hmp_packets p of
        [] \<Rightarrow> 0
      | initial # continuations \<Rightarrow>
          foldl (\<lambda>n cont. n + (length cont - PACKET_CONT_HEADER_SIZE))
            (length initial - PACKET_INITIAL_HEADER_SIZE) continuations)"

definition hid_more_packets_needed :: "hid_message_parser \<Rightarrow> bool" where
  "hid_more_packets_needed p =
     (case hid_expected_bytes p of
        None \<Rightarrow> True
      | Some expected \<Rightarrow> expected > hid_payload_len p)"

text \<open>
  The checks of \<^verbatim>\<open>update\<close> before the packet is stored, in the order of the code: on a failed
  check the parser keeps its packets.
\<close>

definition hid_check_first :: "bytes \<Rightarrow> io_error option" where
  "hid_check_first packet =
     (case slice_get packet 4 of
        Some byte \<Rightarrow> if byte AND PACKET_INITIAL_CMD_MASK \<noteq> 0 then None else Some Io_InvalidData
      | None \<Rightarrow> Some Io_InvalidData)"

definition hid_check_continuation :: "bytes list \<Rightarrow> bytes \<Rightarrow> io_error option" where
  "hid_check_continuation packets packet =
     (let initial_cid = (case packets of [] \<Rightarrow> None | initial # _ \<Rightarrow> slice_upto initial 4)
      in if slice_upto packet 4 \<noteq> initial_cid then Some Io_InvalidData
         else case slice_get packet 4 of
           None \<Rightarrow> Some Io_InvalidData
         | Some seq \<Rightarrow>
             if seq AND PACKET_INITIAL_CMD_MASK \<noteq> 0 then Some Io_InvalidData
             else let expected_seq = (of_nat (length packets - 1) :: u8)
                  in if expected_seq > PACKET_CONT_SEQ_MAX then Some Io_InvalidData
                     else if seq \<noteq> expected_seq then Some Io_InvalidData
                     else None)"

definition hid_check_packet :: "bytes list \<Rightarrow> bytes \<Rightarrow> io_error option" where
  "hid_check_packet packets packet =
     (if (packets = [] \<and> length packet < PACKET_INITIAL_HEADER_SIZE)
          \<or> length packet < PACKET_CONT_HEADER_SIZE + 1 then Some Io_InvalidInput
      else if list_all (\<lambda>b. b = 0) packet then Some Io_InvalidData
      else if packets = [] then hid_check_first packet
      else hid_check_continuation packets packet)"

definition hid_parser_update ::
    "hid_message_parser \<Rightarrow> bytes \<Rightarrow> (io_error + hid_parser_state) \<times> hid_message_parser" where
  "hid_parser_update p packet =
     (case hid_check_packet (hmp_packets p) packet of
        Some e \<Rightarrow> (Inl e, p)
      | None \<Rightarrow>
          let p' = p\<lparr>hmp_packets := hmp_packets p @ [packet]\<rparr>
          in (Inr (if hid_more_packets_needed p' then Hid_MorePacketsExpected else Hid_Done), p'))"

definition hid_parser_message :: "hid_message_parser \<Rightarrow> io_error + hid_message" where
  "hid_parser_message p =
     (if hid_more_packets_needed p then Inl Io_InvalidData
      else case hmp_packets p of
        [] \<Rightarrow> Inl Io_InvalidData
      | initial # continuations \<Rightarrow>
          result_bind (read_u32_be initial) (\<lambda>(cid, cur).
          result_bind (read_u8 cur) (\<lambda>(cmd_byte, cur).
          case hid_command_of_u8 (cmd_byte XOR PACKET_INITIAL_CMD_MASK) of
            None \<Rightarrow> Inl Io_InvalidData
          | Some cmd \<Rightarrow>
              result_bind (read_u16_be cur) (\<lambda>(expected_size, cur).
              let payload =
                    (case slice_from initial PACKET_INITIAL_HEADER_SIZE of
                       None \<Rightarrow> [] | Some d \<Rightarrow> d)
                    @ concat (map (\<lambda>cont. case slice_from cont PACKET_CONT_HEADER_SIZE of
                       None \<Rightarrow> [] | Some d \<Rightarrow> d) continuations)
              in Inr (hid_message_new cid cmd (take (unat expected_size) payload))))))"

section \<open>The payload held by a parser\<close>

definition hid_data :: "bytes list \<Rightarrow> bytes" where
  "hid_data packets =
     (case packets of
        [] \<Rightarrow> []
      | initial # continuations \<Rightarrow>
          drop PACKET_INITIAL_HEADER_SIZE initial @ concat (map (drop PACKET_CONT_HEADER_SIZE) continuations))"

lemma hid_data_snoc:
  "hid_data (initial # conts @ [x]) = hid_data (initial # conts) @ drop PACKET_CONT_HEADER_SIZE x"
  by (simp add: hid_data_def)

lemma hid_payload_len_data: "hid_payload_len p = length (hid_data (hmp_packets p))"
  by (simp add: hid_payload_len_def hid_data_def foldl_payload_len split: list.split)

text \<open>What a stored initialization packet determines.\<close>

definition hid_init_packet :: "u32 \<Rightarrow> hid_command \<Rightarrow> nat \<Rightarrow> bytes \<Rightarrow> bytes" where
  "hid_init_packet cid cmd len chunk =
     be_u32 cid @ [hid_command_to_u8 cmd OR PACKET_INITIAL_CMD_MASK] @ be_u16 (of_nat len) @ chunk"

lemma hid_expected_bytes_init:
  assumes "hmp_packets p = hid_init_packet cid cmd len chunk # conts" and "len < 65536"
  shows "hid_expected_bytes p = Some len"
  using assms by (simp add: hid_expected_bytes_def hid_init_packet_def be_u32_def be_u16_def
      slice_get_def unat_of_nat_u16 del: of_nat_numeral)

lemma hid_command_mask: "hid_command_to_u8 cmd OR 0x80 \<noteq> 0"
  "(hid_command_to_u8 cmd OR 0x80) AND 0x80 \<noteq> 0"
  "hid_command_of_u8 ((hid_command_to_u8 cmd OR 0x80) XOR 0x80) = Some cmd"
  by (cases cmd; simp add: hid_command_of_u8_def hid_commands_def)+

lemma hid_parser_message_init:
  assumes p: "hmp_packets p = hid_init_packet cid cmd len chunk # conts" and "len < 65536"
    and "len \<le> hid_payload_len p"
  shows "hid_parser_message p
    = Inr (hid_message_new cid cmd (take len (hid_data (hmp_packets p))))"
proof -
  have "\<not> hid_more_packets_needed p"
    using assms by (simp add: hid_more_packets_needed_def hid_expected_bytes_init)
  moreover have "unat (of_nat len :: u16) = len"
    using assms(2) by (rule unat_of_nat_u16)
  ultimately show ?thesis
    unfolding hid_parser_message_def slice_from_drop p
    by (simp add: hid_init_packet_def hid_command_mask hid_consts hid_data_def)
qed

section \<open>Sending and receiving\<close>

text \<open>
  A report has the packet size of the device: the channel pads a packet with zeros before it
  is written (\<^verbatim>\<open>hid_send\<close>).
\<close>

definition hid_report :: "nat \<Rightarrow> bytes \<Rightarrow> bytes" where
  "hid_report packet_size packet = packet @ replicate (packet_size - length packet) 0"

definition hid_update_done :: "hid_message_parser \<Rightarrow> bytes \<Rightarrow> (io_error + bool) \<times> hid_message_parser" where
  "hid_update_done p packet =
     (case hid_parser_update p packet of (r, p') \<Rightarrow> (result_map (\<lambda>s. s = Hid_Done) r, p'))"

lemma hid_report_append: "hid_report n (xs @ ys) = xs @ hid_report (n - length xs) ys"
  by (simp add: hid_report_def)

lemma hid_report_full: "n \<le> length x \<Longrightarrow> hid_report n x = x"
  by (simp add: hid_report_def)

lemma be_u32_not_zeros: "cid \<noteq> 0 \<Longrightarrow> \<not> list_all (\<lambda>b. b = 0) (be_u32 cid @ xs)"
proof
  assume "cid \<noteq> 0" and "list_all (\<lambda>b. b = 0) (be_u32 cid @ xs)"
  then have "be_u32 cid = be_u32 0"
    by (simp add: be_u32_def)
  then show False using \<open>cid \<noteq> 0\<close> be_u32_inj by blast
qed

definition hid_cont_packet :: "u32 \<Rightarrow> u8 \<Rightarrow> bytes \<Rightarrow> bytes" where
  "hid_cont_packet cid seq chunk = be_u32 cid @ [seq] @ chunk"

lemma hid_check_cont_packet:
  assumes "cid \<noteq> 0" and "chunk \<noteq> []" and "seq \<le> 0x7F"
    and "unat seq = length conts" and "take 4 init = be_u32 cid" and "4 \<le> length init"
  shows "hid_check_packet (init # conts) (hid_cont_packet cid seq chunk) = None"
proof -
  have "of_nat (length conts) = seq"
    by (simp flip: assms(4))
  moreover have "seq AND 0x80 = 0" "\<not> seq > 0x7F"
    using assms(3) by (simp_all add: u8_high_bit)
  moreover have "Suc 0 \<le> length chunk"
    using assms(2) by (simp add: Suc_le_eq)
  ultimately show ?thesis
    using assms be_u32_not_zeros [of cid "seq # chunk"]
    by (simp add: hid_check_packet_def hid_cont_packet_def hid_consts hid_check_continuation_def
        slice_upto_def slice_get_def Let_def nth_append)
qed

text \<open>One continuation packet fed to a parser that holds an initialization packet.\<close>

lemma hid_update_cont:
  assumes p: "hmp_packets p = hid_init_packet cid cmd len chunk0 # conts" and "len < 65536"
    and "cid \<noteq> 0" and "chunk \<noteq> []" and "seq \<le> 0x7F" and "unat seq = length conts"
  shows "hid_update_done p (hid_cont_packet cid seq chunk)
    = (Inr (len \<le> hid_payload_len p + length chunk),
       p\<lparr>hmp_packets := hmp_packets p @ [hid_cont_packet cid seq chunk]\<rparr>)"
proof -
  let ?p' = "p\<lparr>hmp_packets := hmp_packets p @ [hid_cont_packet cid seq chunk]\<rparr>"
  have "hid_check_packet (hmp_packets p) (hid_cont_packet cid seq chunk) = None"
    unfolding p using assms by (intro hid_check_cont_packet) (auto simp: hid_init_packet_def)
  moreover have "hid_payload_len ?p' = hid_payload_len p + length chunk"
    using p by (simp add: hid_payload_len_data hid_data_snoc hid_cont_packet_def hid_consts)
  moreover have "hid_expected_bytes ?p' = Some len"
    using p assms(2) by (intro hid_expected_bytes_init) auto
  ultimately show ?thesis
    by (simp add: hid_update_done_def hid_parser_update_def Let_def hid_more_packets_needed_def not_less)
qed

lemma hid_cont_packets_Cons:
  assumes "hid_cont_packets n cid seq payload = Inr ps" and "payload \<noteq> []"
  shows "\<exists>qs. ps = hid_cont_packet cid seq (take (n - 5) payload) # qs \<and> seq + 1 \<le> 0x7F
    \<and> hid_cont_packets n cid (seq + 1) (drop (n - 5) payload) = Inr qs"
  using assms by (subst (asm) hid_cont_packets.simps)
    (auto simp: Let_def hid_consts hid_cont_packet_def result_convs not_less split: if_splits)

lemma hid_cont_packets_Nil: "hid_cont_packets n cid seq [] = Inr []"
  by (subst hid_cont_packets.simps) simp

text \<open>
  The continuation packets of what is left of the payload complete the message: all but the
  last leave the parser waiting, and the data stored is the payload and the padding.
\<close>

lemma hid_feed_conts:
  assumes "hid_cont_packets n cid seq payload = Inr ps" and "payload \<noteq> []" and "8 \<le> n"
    and "hmp_packets p = hid_init_packet cid cmd len chunk0 # conts"
    and "cid \<noteq> 0" and "seq \<le> 0x7F" and "unat seq = length conts"
    and "len = hid_payload_len p + length payload" and "len < 65536"
  shows "ps \<noteq> [] \<and> (\<exists>q q' pad conts'. feed hid_update_done p (map (hid_report n) (butlast ps)) = Some q
    \<and> hid_update_done q (hid_report n (last ps)) = (Inr True, q')
    \<and> hmp_packets q' = hid_init_packet cid cmd len chunk0 # conts'
    \<and> hid_data (hmp_packets q') = hid_data (hmp_packets p) @ payload @ pad)"
  using assms
proof (induction "length payload" arbitrary: seq payload ps p conts rule: less_induct)
  case less
  let ?chunk = "take (n - 5) payload"
  obtain qs where qs: "ps = hid_cont_packet cid seq ?chunk # qs" "seq + 1 \<le> 0x7F"
      "hid_cont_packets n cid (seq + 1) (drop (n - 5) payload) = Inr qs"
    using hid_cont_packets_Cons less.prems(1,2) by blast
  have seq: "seq \<noteq> 255" using less.prems(6) by auto
  have ne: "?chunk \<noteq> []" using less.prems(2,3) by simp
  show ?case
  proof (cases "n - 5 < length payload")
    case False
    let ?x = "hid_cont_packet cid seq (hid_report (n - 5) payload)"
    have ps: "ps = [hid_cont_packet cid seq payload]"
      using qs False by (simp add: hid_cont_packets_Nil)
    have x: "hid_report n (hid_cont_packet cid seq payload) = ?x"
      by (simp add: hid_report_def hid_cont_packet_def)
    have "hid_update_done p ?x = (Inr (len \<le> hid_payload_len p + length (hid_report (n - 5) payload)),
        p\<lparr>hmp_packets := hmp_packets p @ [?x]\<rparr>)"
      using less.prems by (intro hid_update_cont) (auto simp: hid_report_def)
    moreover have "hid_data (hmp_packets p @ [?x])
        = hid_data (hmp_packets p) @ payload @ replicate (n - 5 - length payload) 0"
      using less.prems(4) by (simp add: hid_data_snoc hid_cont_packet_def hid_consts hid_report_def)
    ultimately show ?thesis
      using less.prems(4,8) ps x by (auto simp: hid_report_def)
  next
    case True
    let ?x = "hid_cont_packet cid seq ?chunk"
    let ?p = "p\<lparr>hmp_packets := hmp_packets p @ [?x]\<rparr>"
    have x: "hid_report n ?x = ?x"
      using True less.prems(3) by (intro hid_report_full) (simp add: hid_cont_packet_def)
    have data: "hid_data (hmp_packets ?p) = hid_data (hmp_packets p) @ ?chunk"
      using less.prems(4) by (simp add: hid_data_snoc hid_cont_packet_def hid_consts)
    have len: "len = hid_payload_len ?p + length (drop (n - 5) payload)"
      using less.prems(8) True data by (simp add: hid_payload_len_data)
    have "hid_update_done p ?x = (Inr (len \<le> hid_payload_len p + length ?chunk), ?p)"
      using less.prems ne by (intro hid_update_cont) auto
    then have upd: "hid_update_done p ?x = (Inr False, ?p)"
      using True less.prems(8) by simp
    have IH: "qs \<noteq> [] \<and> (\<exists>q q' pad conts'. feed hid_update_done ?p (map (hid_report n) (butlast qs)) = Some q
      \<and> hid_update_done q (hid_report n (last qs)) = (Inr True, q')
      \<and> hmp_packets q' = hid_init_packet cid cmd len chunk0 # conts'
      \<and> hid_data (hmp_packets q') = hid_data (hmp_packets ?p) @ drop (n - 5) payload @ pad)"
      by (rule less.hyps [of "drop (n - 5) payload" "seq + 1" qs ?p "conts @ [?x]"])
        (use qs True less.prems len seq in \<open>auto simp: unat_u8_inc\<close>)
    have "hid_data (hmp_packets p @ [?x]) @ drop (n - 5) payload @ pad
        = hid_data (hmp_packets p) @ payload @ pad" for pad
      using data by simp
    with IH show ?thesis
      using qs(1) x upd by auto
  qed
qed

text \<open>The parser starts on an initialization packet.\<close>

lemma hid_update_init:
  assumes "len < 65536"
  shows "hid_update_done hid_parser_new (hid_init_packet cid cmd len chunk)
    = (Inr (len \<le> length chunk), \<lparr>hmp_packets = [hid_init_packet cid cmd len chunk]\<rparr>)"
proof -
  let ?x = "hid_init_packet cid cmd len chunk"
  have x4: "?x = be_u32 cid @ (hid_command_to_u8 cmd OR 0x80) # be_u16 (of_nat len) @ chunk"
    by (simp add: hid_init_packet_def hid_consts)
  then have "slice_get ?x 4 = Some (hid_command_to_u8 cmd OR 0x80)"
    by (simp add: slice_get_append)
  moreover have "\<not> list_all (\<lambda>b. b = 0) ?x"
    by (simp add: x4 hid_command_mask)
  ultimately have "hid_check_packet [] ?x = None"
    using hid_command_mask(2) [of cmd]
    by (simp add: hid_check_packet_def hid_check_first_def hid_consts)
       (simp add: hid_init_packet_def)
  moreover have "hid_expected_bytes \<lparr>hmp_packets = [?x]\<rparr> = Some len"
    using assms by (intro hid_expected_bytes_init) auto
  moreover have "hid_payload_len \<lparr>hmp_packets = [?x]\<rparr> = length chunk"
    by (simp add: hid_payload_len_data hid_data_def hid_init_packet_def hid_consts)
  ultimately show ?thesis
    by (simp add: hid_update_done_def hid_parser_update_def hid_parser_new_def Let_def
        hid_more_packets_needed_def not_less)
qed

lemma hid_report_init:
  "7 \<le> n \<Longrightarrow> hid_report n (hid_init_packet cid cmd len chunk)
    = hid_init_packet cid cmd len (hid_report (n - 7) chunk)"
  by (simp add: hid_report_def hid_init_packet_def)

text \<open>Messages that can be sent: a channel other than the reserved one, a 16-bit length.\<close>

definition hid_carried :: "hid_message \<Rightarrow> bool" where
  "hid_carried m \<longleftrightarrow> hm_cid m \<noteq> 0 \<and> length (hm_payload m) < 65536"

lemma hid_message_packets_Inr:
  assumes "hid_message_packets m n = Inr ps"
  shows "8 \<le> n \<and> (\<exists>qs. ps = hid_init_packet (hm_cid m) (hm_cmd m) (length (hm_payload m))
      (take (n - 7) (hm_payload m)) # qs
    \<and> hid_cont_packets n (hm_cid m) 0 (drop (n - 7) (hm_payload m)) = Inr qs)"
  using assms by (auto simp: hid_message_packets_def Let_def hid_consts hid_init_packet_def
      result_convs split: if_splits)

lemma hid_roundtrip_steps:
  assumes m: "hid_carried m" and ps: "hid_message_packets m n = Inr ps"
  shows "\<exists>q q'. feed hid_update_done hid_parser_new (map (hid_report n) (butlast ps)) = Some q
    \<and> hid_update_done q (hid_report n (last ps)) = (Inr True, q') \<and> hid_parser_message q' = Inr m"
proof -
  let ?len = "length (hm_payload m)" and ?chunk = "take (n - 7) (hm_payload m)"
  let ?init = "hid_init_packet (hm_cid m) (hm_cmd m) ?len"
  obtain qs where n: "8 \<le> n" and qs: "ps = ?init ?chunk # qs"
      "hid_cont_packets n (hm_cid m) 0 (drop (n - 7) (hm_payload m)) = Inr qs"
    using hid_message_packets_Inr [OF ps] by blast
  have len: "?len < 65536" and cid: "hm_cid m \<noteq> 0"
    using m by (auto simp: hid_carried_def)
  have msg: "hid_parser_message q' = Inr m"
    if "hmp_packets q' = ?init chunk # conts" and "hid_data (hmp_packets q') = hm_payload m @ pad"
    for q' chunk conts pad
    using hid_parser_message_init [OF that(1) len] that(2)
    by (simp add: hid_payload_len_data hid_message_new_def)
  show ?thesis
  proof (cases "n - 7 < ?len")
    case False
    then have "ps = [?init (hm_payload m)]"
      using qs by (simp add: hid_cont_packets_Nil)
    moreover have "hid_data [?init (hid_report (n - 7) (hm_payload m))]
        = hm_payload m @ replicate (n - 7 - ?len) 0"
      by (simp add: hid_data_def hid_init_packet_def hid_consts hid_report_def)
    ultimately show ?thesis
      using n msg [of "\<lparr>hmp_packets = [?init (hid_report (n - 7) (hm_payload m))]\<rparr>"]
      by (simp add: hid_report_init hid_update_init [OF len]) (simp add: hid_report_def)
  next
    case True
    let ?p = "\<lparr>hmp_packets = [?init ?chunk]\<rparr>"
    have rep: "hid_report n (?init ?chunk) = ?init ?chunk"
      using True n by (intro hid_report_full) (simp add: hid_init_packet_def)
    have upd: "hid_update_done hid_parser_new (?init ?chunk) = (Inr False, ?p)"
      using True len by (simp add: hid_update_init)
    have data: "hid_data (hmp_packets ?p) = ?chunk"
      by (simp add: hid_data_def hid_init_packet_def hid_consts)
    have "qs \<noteq> [] \<and> (\<exists>q q' pad conts'. feed hid_update_done ?p (map (hid_report n) (butlast qs)) = Some q
      \<and> hid_update_done q (hid_report n (last qs)) = (Inr True, q')
      \<and> hmp_packets q' = ?init ?chunk # conts'
      \<and> hid_data (hmp_packets q') = hid_data (hmp_packets ?p) @ drop (n - 7) (hm_payload m) @ pad)"
      by (rule hid_feed_conts [OF qs(2)])
        (use True n len cid data in \<open>simp_all add: hid_payload_len_data\<close>)
    then obtain q q' pad conts' where q: "qs \<noteq> []"
        "feed hid_update_done ?p (map (hid_report n) (butlast qs)) = Some q"
        "hid_update_done q (hid_report n (last qs)) = (Inr True, q')"
        "hmp_packets q' = ?init ?chunk # conts'"
        "hid_data (hmp_packets q') = ?chunk @ drop (n - 7) (hm_payload m) @ pad"
      unfolding data by blast
    then have "hid_data (hmp_packets q') = hm_payload m @ pad"
      by (metis append_assoc append_take_drop_id)
    then show ?thesis
      using msg [OF q(4)] q qs(1) rep upd by simp
  qed
qed

interpretation hid: message_framing "\<lambda>m. hid_message_packets m packet_size" hid_update_done
  hid_parser_new hid_parser_message "hid_report packet_size" hid_carried for packet_size
proof unfold_locales
  fix m ps p
  assume m: "hid_carried m" "hid_message_packets m packet_size = Inr ps"
  show "ps \<noteq> []"
    using hid_message_packets_Inr [OF m(2)] by auto
  show "\<exists>p. feed hid_update_done hid_parser_new (map (hid_report packet_size) (butlast ps)) = Some p"
    using hid_roundtrip_steps [OF m] by blast
  assume "feed hid_update_done hid_parser_new (map (hid_report packet_size) (butlast ps)) = Some p"
  then show "\<exists>p'. hid_update_done p (hid_report packet_size (last ps)) = (Inr True, p')
      \<and> hid_parser_message p' = Inr m"
    using hid_roundtrip_steps [OF m] by auto
qed

section \<open>The size of what can be sent\<close>

lemma hid_cont_packets_ok:
  assumes "8 \<le> n" and "seq \<le> 0x7F"
  shows "(\<exists>ps. hid_cont_packets n cid seq payload = Inr ps)
    \<longleftrightarrow> length payload \<le> (127 - unat seq) * (n - 5)"
  using assms(2)
proof (induction "length payload" arbitrary: seq payload rule: less_induct)
  case less
  show ?case
  proof (cases "payload = []")
    case True
    then show ?thesis by (simp add: hid_cont_packets_Nil)
  next
    case False
    have seq: "unat seq \<le> 127" "unat (seq + 1) = Suc (unat seq)"
      using less.prems by (auto simp: word_le_nat_alt intro!: unat_u8_inc)
    show ?thesis
    proof (cases "seq = 0x7F")
      case True
      then show ?thesis
        using False by (subst hid_cont_packets.simps) (simp add: Let_def)
    next
      case neq: False
      then have "unat seq \<noteq> 127"
        using unsigned_word_eqI [where ?'a = nat, of seq "0x7F"] by auto
      with seq have le: "seq + 1 \<le> 0x7F" and suc: "127 - unat seq = Suc (127 - unat (seq + 1))"
        by (simp_all add: word_le_nat_alt)
      have "(\<exists>ps. hid_cont_packets n cid seq payload = Inr ps)
          \<longleftrightarrow> (\<exists>ps. hid_cont_packets n cid (seq + 1) (drop (n - 5) payload) = Inr ps)"
        using False le by (subst hid_cont_packets.simps)
          (auto simp: Let_def hid_consts result_convs not_less)
      also have "\<dots> \<longleftrightarrow> length (drop (n - 5) payload) \<le> (127 - unat (seq + 1)) * (n - 5)"
        using False assms(1) le by (intro less.hyps; cases payload) auto
      also have "\<dots> \<longleftrightarrow> length payload \<le> (127 - unat seq) * (n - 5)"
        unfolding suc by auto
      finally show ?thesis .
    qed
  qed
qed

lemma hid_cont_packets_length:
  "hid_cont_packets n cid seq payload = Inr ps \<Longrightarrow> 8 \<le> n \<Longrightarrow> x \<in> set ps \<Longrightarrow> length x \<le> n"
proof (induction "length payload" arbitrary: seq payload ps rule: less_induct)
  case less
  show ?case
  proof (cases "payload = []")
    case True
    then show ?thesis using less.prems by (simp add: hid_cont_packets_Nil)
  next
    case False
    obtain qs where qs: "ps = hid_cont_packet cid seq (take (n - 5) payload) # qs"
        "hid_cont_packets n cid (seq + 1) (drop (n - 5) payload) = Inr qs"
      using hid_cont_packets_Cons [OF less.prems(1) False] by blast
    have "length (drop (n - 5) payload) < length payload"
      using less.prems(2) False by (cases payload) auto
    then show ?thesis
      using less.hyps [OF _ qs(2)] less.prems qs(1) by (auto simp: hid_cont_packet_def)
  qed
qed

lemma hid_cont_packets_error: "hid_cont_packets n cid seq payload = Inl e \<Longrightarrow> e = Io_InvalidData"
proof (induction n cid seq payload rule: hid_cont_packets.induct)
  case (1 n cid seq payload)
  then show ?case
    by (subst (asm) (2) hid_cont_packets.simps)
      (auto simp: Let_def result_convs split: if_splits)
qed

section \<open>What the parser accepts\<close>

inductive hid_reachable :: "hid_message_parser \<Rightarrow> bool" where
  start: "hid_reachable hid_parser_new"
| update: "hid_reachable p \<Longrightarrow> hid_parser_update p packet = (r, p') \<Longrightarrow> hid_reachable p'"

definition hid_cont_of :: "bytes \<Rightarrow> nat \<Rightarrow> bytes \<Rightarrow> bool" where
  "hid_cont_of initial i cont \<longleftrightarrow>
     6 \<le> length cont \<and> take 4 cont = take 4 initial \<and> unat (cont ! 4) = i \<and> i \<le> 127"

definition hid_parser_wf :: "hid_message_parser \<Rightarrow> bool" where
  "hid_parser_wf p =
     (case hmp_packets p of
        [] \<Rightarrow> True
      | initial # continuations \<Rightarrow>
          7 \<le> length initial \<and> initial ! 4 AND 0x80 \<noteq> 0
          \<and> list_all2 (hid_cont_of initial) [0..<length continuations] continuations)"

lemma hid_parser_wf_size:
  assumes "hid_parser_wf p" and "hmp_packets p = initial # conts"
  shows "length conts \<le> 128"
proof (rule ccontr)
  assume "\<not> length conts \<le> 128"
  then have "[0..<length conts] ! 128 = 128" "128 < length conts" by simp_all
  then show False
    using assms by (auto simp: hid_parser_wf_def list_all2_conv_all_nth hid_cont_of_def)
qed

lemma hid_check_continuation_None:
  assumes "hid_check_packet (initial # conts) packet = None" and "7 \<le> length initial"
    and "length conts \<le> 128"
  shows "hid_cont_of initial (length conts) packet"
proof -
  have *: "6 \<le> length packet" "take 4 packet = take 4 initial" "packet ! 4 = of_nat (length conts)"
      "packet ! 4 \<le> 0x7F"
    using assms by (auto simp: hid_check_packet_def hid_consts hid_check_continuation_def Let_def
        slice_upto_def slice_get_def not_less split: if_splits)
  moreover have "unat (of_nat (length conts) :: u8) = length conts"
    using assms(3) by (simp add: unat_of_nat take_bit_eq_mod)
  ultimately show ?thesis
    by (simp add: hid_cont_of_def word_le_nat_alt)
qed

lemma hid_parser_wf_update:
  assumes "hid_parser_wf p" and "hid_parser_update p packet = (r, p')"
  shows "hid_parser_wf p'"
proof (cases "hid_check_packet (hmp_packets p) packet")
  case (Some e)
  then show ?thesis using assms by (simp add: hid_parser_update_def)
next
  case None
  then have p': "hmp_packets p' = hmp_packets p @ [packet]"
    using assms(2) by (auto simp: hid_parser_update_def Let_def)
  show ?thesis
  proof (cases "hmp_packets p")
    case Nil
    with None p' show ?thesis
      by (auto simp: hid_parser_wf_def hid_check_packet_def hid_check_first_def hid_consts
          slice_get_def split: if_splits)
  next
    case (Cons initial conts)
    then have "7 \<le> length initial" "length conts \<le> 128"
      using assms(1) hid_parser_wf_size [OF assms(1)] by (auto simp: hid_parser_wf_def)
    then have "hid_cont_of initial (length conts) packet"
      using None unfolding Cons by (intro hid_check_continuation_None)
    then show ?thesis
      using assms(1) Cons p' by (auto simp: hid_parser_wf_def intro!: list_all2_appendI)
  qed
qed

lemma hid_reachable_wf: "hid_reachable p \<Longrightarrow> hid_parser_wf p"
  by (induction rule: hid_reachable.induct)
    (auto simp: hid_parser_wf_update, simp add: hid_parser_wf_def hid_parser_new_def)

lemma hid_command_of_u8_Some: "hid_command_of_u8 b = Some c \<Longrightarrow> hid_command_to_u8 c = b"
  by (auto simp: hid_command_of_u8_def find_Some_iff)

lemma hid_command_byte:
  assumes "b XOR 0x80 = hid_command_to_u8 c" and "b AND 0x80 \<noteq> (0 :: u8)"
  shows "b = hid_command_to_u8 c OR 0x80"
proof -
  have "b = hid_command_to_u8 c XOR 0x80"
    using assms(1) by (metis xor.assoc xor_self_eq xor.right_neutral)
  then show ?thesis using assms(2) by (cases c) auto
qed

section \<open>Properties\<close>

text \<open>
  C14: Every sequence of CTAPHID messages (on any channel but the reserved channel 0, with
  payloads below 64 KiB) that the sender cuts into packets of the device's report size is
  received again, message by message and in order, when the packets are padded to reports and
  fed to a fresh parser per message; what follows on the link is left unread.
\<close>

theorem hid_messages_received:
  assumes "list_all2 (\<lambda>m ps. hid_carried m \<and> hid_message_packets m packet_size = Inr ps) ms pss"
  shows "receive_all hid_update_done hid_parser_message hid_parser_new (length ms)
      (concat (map (map (hid_report packet_size)) pss) @ rest) = Some (map Inr ms, rest)"
  using assms by (rule hid.receive_sequence)

lemma hid_messages_received_witness:
  "receive_all hid_update_done hid_parser_message hid_parser_new
     (length [hid_message_new 7 Hid_Cbor [0xA1, 0xA2], hid_message_new 7 Hid_Cancel []])
     (concat (map (map (hid_report 8))
        [[[0, 0, 0, 7, 0x90, 0, 2, 0xA1], [0, 0, 0, 7, 0, 0xA2]], [[0, 0, 0, 7, 0x91, 0, 0]]]) @ [])
   = Some (map Inr [hid_message_new 7 Hid_Cbor [0xA1, 0xA2], hid_message_new 7 Hid_Cancel []], [])"
proof (rule hid_messages_received)
  have "hid_message_packets (hid_message_new 7 Hid_Cbor [0xA1, 0xA2]) 8
      = Inr [[0, 0, 0, 7, 0x90, 0, 2, 0xA1], [0, 0, 0, 7, 0, 0xA2]]"
    "hid_message_packets (hid_message_new 7 Hid_Cancel []) 8 = Inr [[0, 0, 0, 7, 0x91, 0, 0]]"
    by code_simp+
  then show "list_all2 (\<lambda>m ps. hid_carried m \<and> hid_message_packets m 8 = Inr ps)
      [hid_message_new 7 Hid_Cbor [0xA1, 0xA2], hid_message_new 7 Hid_Cancel []]
      [[[0, 0, 0, 7, 0x90, 0, 2, 0xA1], [0, 0, 0, 7, 0, 0xA2]], [[0, 0, 0, 7, 0x91, 0, 0]]]"
    by (simp add: hid_carried_def hid_message_new_def)
qed

text \<open>
  The sender refuses exactly the messages that do not fit: packets exist if and only if the
  packet size leaves room for a payload byte and the payload fits one initialization packet and
  127 continuation packets, and no packet is then longer than the packet size.
\<close>

theorem hid_message_packets_capacity:
  "case hid_message_packets m n of
     Inr ps \<Rightarrow> 8 \<le> n \<and> length (hm_payload m) \<le> (n - 7) + 127 * (n - 5) \<and> list_all (\<lambda>x. length x \<le> n) ps
   | Inl e \<Rightarrow> e = Io_InvalidData \<and> (n < 8 \<or> (n - 7) + 127 * (n - 5) < length (hm_payload m))"
proof (cases "n < 8")
  case True
  then show ?thesis by (simp add: hid_message_packets_def hid_consts)
next
  case False
  let ?rest = "drop (n - 7) (hm_payload m)"
  have ok: "(\<exists>ps. hid_cont_packets n (hm_cid m) 0 ?rest = Inr ps)
      \<longleftrightarrow> length (hm_payload m) \<le> (n - 7) + 127 * (n - 5)"
    using False by (subst hid_cont_packets_ok) auto
  show ?thesis
  proof (cases "hid_cont_packets n (hm_cid m) 0 ?rest")
    case (Inl e)
    moreover from this have "e = Io_InvalidData" by (rule hid_cont_packets_error)
    ultimately show ?thesis
      using False ok by (simp add: hid_message_packets_def hid_consts)
  next
    case (Inr ps)
    then show ?thesis
      using False ok hid_cont_packets_length [OF Inr]
      by (auto simp: hid_message_packets_def hid_consts list_all_iff Let_def)
  qed
qed

text \<open>
  C15: Whatever packets a device sends, a message the parser hands out was assembled from one
  initialization packet and at most 128 continuation packets of the same channel, numbered
  0, 1, 2 and so on, and its payload is the prefix of their data that the initialization packet
  announced.
\<close>

theorem hid_parser_message_assembled:
  assumes "hid_reachable p" and "hid_parser_message p = Inr m"
  shows "\<exists>initial conts. hmp_packets p = initial # conts \<and> length conts \<le> 128
    \<and> list_all2 (hid_cont_of initial) [0..<length conts] conts
    \<and> take 4 initial = be_u32 (hm_cid m)
    \<and> initial ! 4 = hid_command_to_u8 (hm_cmd m) OR 0x80
    \<and> length (hm_payload m) = unat (u16_of_be (initial ! 5) (initial ! 6))
    \<and> hm_payload m = take (length (hm_payload m)) (hid_data (hmp_packets p))"
proof -
  have wf: "hid_parser_wf p" using assms(1) by (rule hid_reachable_wf)
  obtain initial conts where p: "hmp_packets p = initial # conts"
    using assms(2) by (auto simp: hid_parser_message_def split: if_splits list.splits)
  then have 7: "7 \<le> length initial" "initial ! 4 AND 0x80 \<noteq> 0"
    using wf by (auto simp: hid_parser_wf_def)
  then obtain a b c d e f g xs where init: "initial = a # b # c # d # e # f # g # xs"
    by (auto simp: numeral_eq_Suc Suc_le_length_iff)
  have len: "hid_payload_len p \<ge> unat (u16_of_be f g)"
    using assms(2) p by (auto simp: hid_parser_message_def hid_more_packets_needed_def
        hid_expected_bytes_def init slice_get_def split: if_splits)
  have m: "hid_command_of_u8 (e XOR 0x80) = Some (hm_cmd m)" "hm_cid m = u32_of_be a b c d"
      "hm_payload m = take (unat (u16_of_be f g)) (hid_data (hmp_packets p))"
    using assms(2) unfolding hid_parser_message_def slice_from_drop p
    by (auto simp: init hid_consts hid_message_new_def hid_data_def split: if_splits option.splits)
  have "e XOR 0x80 = hid_command_to_u8 (hm_cmd m)"
    using hid_command_of_u8_Some [OF m(1)] by simp
  moreover have "e AND 0x80 \<noteq> 0" using 7(2) by (simp add: init)
  ultimately have "e = hid_command_to_u8 (hm_cmd m) OR 0x80"
    by (metis hid_command_byte)
  then show ?thesis
    using p wf m len hid_parser_wf_size [OF wf p]
    by (simp add: init hid_parser_wf_def hid_payload_len_data be_u32_of_be)
qed

lemma hid_parser_message_assembled_witness:
  "\<exists>initial conts. hmp_packets \<lparr>hmp_packets = [[0, 0, 0, 7, 0x90, 0, 1, 0xA1]]\<rparr> = initial # conts
    \<and> length conts \<le> 128 \<and> list_all2 (hid_cont_of initial) [0..<length conts] conts
    \<and> take 4 initial = be_u32 (hm_cid (hid_message_new 7 Hid_Cbor [0xA1]))
    \<and> initial ! 4 = hid_command_to_u8 (hm_cmd (hid_message_new 7 Hid_Cbor [0xA1])) OR 0x80
    \<and> length (hm_payload (hid_message_new 7 Hid_Cbor [0xA1])) = unat (u16_of_be (initial ! 5) (initial ! 6))
    \<and> hm_payload (hid_message_new 7 Hid_Cbor [0xA1])
      = take (length (hm_payload (hid_message_new 7 Hid_Cbor [0xA1])))
          (hid_data (hmp_packets \<lparr>hmp_packets = [[0, 0, 0, 7, 0x90, 0, 1, 0xA1]]\<rparr>))"
proof (rule hid_parser_message_assembled)
  have "hid_parser_update hid_parser_new [0, 0, 0, 7, 0x90, 0, 1, 0xA1]
      = (Inr Hid_Done, \<lparr>hmp_packets = [[0, 0, 0, 7, 0x90, 0, 1, 0xA1]]\<rparr>)"
    by code_simp
  then show "hid_reachable \<lparr>hmp_packets = [[0, 0, 0, 7, 0x90, 0, 1, 0xA1]]\<rparr>"
    using hid_reachable.intros by blast
  show "hid_parser_message \<lparr>hmp_packets = [[0, 0, 0, 7, 0x90, 0, 1, 0xA1]]\<rparr>
      = Inr (hid_message_new 7 Hid_Cbor [0xA1])"
    by code_simp
qed

end
