(* ===== verification/Ble_Framing.thy ===== *)
theory Ble_Framing
  imports Message_Framing
begin

text \<open>
  CTAP over Bluetooth Low Energy: the framing of \<^verbatim>\<open>transport/ble/framing.rs\<close> and the connection
  of \<^verbatim>\<open>transport/ble/btleplug/connection.rs\<close> that sends a frame fragment by fragment and
  waits for the frame that answers it.  The GATT peripheral (\<^verbatim>\<open>btleplug\<close>) is a parameter: its
  reads and writes are functions on a state of the link, its notifications a list of events.
\<close>

section \<open>Frames and fragments\<close>

definition INITIAL_FRAGMENT_HEADER_LENGTH :: nat where "INITIAL_FRAGMENT_HEADER_LENGTH = 3"
definition INITIAL_FRAGMENT_MIN_LENGTH :: nat where
  "INITIAL_FRAGMENT_MIN_LENGTH = INITIAL_FRAGMENT_HEADER_LENGTH"
definition CONT_FRAGMENT_HEADER_LENGTH :: nat where "CONT_FRAGMENT_HEADER_LENGTH = 1"
definition CONT_FRAGMENT_MIN_LENGTH :: nat where
  "CONT_FRAGMENT_MIN_LENGTH = CONT_FRAGMENT_HEADER_LENGTH"

lemmas ble_consts = INITIAL_FRAGMENT_HEADER_LENGTH_def INITIAL_FRAGMENT_MIN_LENGTH_def
  CONT_FRAGMENT_HEADER_LENGTH_def CONT_FRAGMENT_MIN_LENGTH_def

datatype ble_command = Ble_Ping | Ble_Keepalive | Ble_Msg | Ble_Cancel | Ble_Error

fun ble_command_to_u8 :: "ble_command \<Rightarrow> u8" where
  "ble_command_to_u8 Ble_Ping = 0x81"
| "ble_command_to_u8 Ble_Keepalive = 0x82"
| "ble_command_to_u8 Ble_Msg = 0x83"
| "ble_command_to_u8 Ble_Cancel = 0xBE"
| "ble_command_to_u8 Ble_Error = 0xBF"

definition ble_command_of_u8 :: "u8 \<Rightarrow> ble_command option" where
  "ble_command_of_u8 b = List.find (\<lambda>c. ble_command_to_u8 c = b)
     [Ble_Ping, Ble_Keepalive, Ble_Msg, Ble_Cancel, Ble_Error]"

record ble_frame =
  bf_cmd :: ble_command
  bf_data :: bytes

definition ble_frame_new :: "ble_command \<Rightarrow> bytes \<Rightarrow> ble_frame" where
  "ble_frame_new cmd data = \<lparr>bf_cmd = cmd, bf_data = data\<rparr>"

text \<open>
  The \<^verbatim>\<open>while message.peek().is_some()\<close> loop.  \<^verbatim>\<open>seq += 1\<close> is written as it runs in a
  release build, where it wraps (a debug build panics after 256 continuation fragments).  The
  loop is only entered with a fragment length of at least 4; below that \<^verbatim>\<open>fragments\<close> has
  returned an error, and the guard here only makes the recursion end.
\<close>

function ble_cont_fragments :: "nat \<Rightarrow> u8 \<Rightarrow> bytes \<Rightarrow> bytes list" where
  "ble_cont_fragments max_fragment_length seq message =
     (if message = [] \<or> max_fragment_length < 4 then []
      else (seq # take (max_fragment_length - CONT_FRAGMENT_HEADER_LENGTH) message)
        # ble_cont_fragments max_fragment_length (seq + 1)
            (drop (max_fragment_length - CONT_FRAGMENT_HEADER_LENGTH) message))"
  by pat_completeness auto
termination
  by (relation "measure (\<lambda>(n, s, message). length message)")
    (auto simp: CONT_FRAGMENT_HEADER_LENGTH_def simp flip: length_greater_0_conv)

declare ble_cont_fragments.simps [simp del]

definition ble_fragments :: "ble_frame \<Rightarrow> nat \<Rightarrow> io_error + bytes list" where
  "ble_fragments frame max_fragment_length =
     (if max_fragment_length < 4 then Inl Io_InvalidData
      else
        let chunk = max_fragment_length - INITIAL_FRAGMENT_HEADER_LENGTH;
            fragment = [ble_command_to_u8 (bf_cmd frame)] @ be_u16 (of_nat (length (bf_data frame)))
              @ take chunk (bf_data frame)
        in Inr (fragment # ble_cont_fragments max_fragment_length 0 (drop chunk (bf_data frame))))"

section \<open>The parser\<close>

datatype ble_parser_result = Ble_MoreFragmentsExpected | Ble_Done

record ble_frame_parser =
  bfp_fragments :: "bytes list"

definition ble_parser_new :: ble_frame_parser where
  "ble_parser_new = \<lparr>bfp_fragments = []\<rparr>"

definition ble_parser_reset :: "ble_frame_parser \<Rightarrow> ble_frame_parser" where
  "ble_parser_reset p = p\<lparr>bfp_fragments := []\<rparr>"

definition ble_expected_bytes :: "ble_frame_parser \<Rightarrow> nat option" where
  "ble_expected_bytes p =
     (case bfp_fragments p of
        [] \<Rightarrow> None
      | initial # _ \<Rightarrow>
          (case slice_get initial 1 of
             None \<Rightarrow> None
           | Some b1 \<Rightarrow>
               (case slice_get initial 2 of
                  None \<Rightarrow> None
                | Some b2 \<Rightarrow> Some (unat (u16_of_be b1 b2)))))"

definition ble_data_len :: "ble_frame_parser \<Rightarrow> nat" where
  "ble_data_len p =
     (case bfp_fragments p of
        [] \<Rightarrow> 0
      | initial # continuations \<Rightarrow>
          foldl (\<lambda>n cont. n + (length cont - CONT_FRAGMENT_HEADER_LENGTH))
            (length initial - INITIAL_FRAGMENT_HEADER_LENGTH) continuations)"

definition ble_more_fragments_needed :: "ble_frame_parser \<Rightarrow> bool" where
  "ble_more_fragments_needed p =
     (if bfp_fragments p = [] then True
      else (case ble_expected_bytes p of None \<Rightarrow> 0 | Some n \<Rightarrow> n) > ble_data_len p)"

definition ble_parser_update ::
    "ble_frame_parser \<Rightarrow> bytes \<Rightarrow> (io_error + ble_parser_result) \<times> ble_frame_parser" where
  "ble_parser_update p fragment =
     (if (bfp_fragments p = [] \<and> length fragment < INITIAL_FRAGMENT_MIN_LENGTH)
          \<or> length fragment < CONT_FRAGMENT_MIN_LENGTH then (Inl Io_InvalidInput, p)
      else
        let p' = p\<lparr>bfp_fragments := bfp_fragments p @ [fragment]\<rparr>
        in (Inr (if ble_more_fragments_needed p' then Ble_MoreFragmentsExpected else Ble_Done), p'))"

definition ble_parser_frame :: "ble_frame_parser \<Rightarrow> io_error + ble_frame" where
  "ble_parser_frame p =
     (if ble_more_fragments_needed p then Inl Io_InvalidData
      else case bfp_fragments p of
        [] \<Rightarrow> Inl Io_InvalidData
      | initial # continuations \<Rightarrow>
          (case initial of
             [] \<Rightarrow> Inl Io_InvalidData
           | cmd_byte # _ \<Rightarrow>
               (case ble_command_of_u8 cmd_byte of
                  None \<Rightarrow> Inl Io_InvalidData
                | Some cmd \<Rightarrow>
                    Inr (ble_frame_new cmd
                      ((case slice_from initial INITIAL_FRAGMENT_HEADER_LENGTH of
                          None \<Rightarrow> [] | Some d \<Rightarrow> d)
                       @ concat (map (\<lambda>cont. case slice_from cont CONT_FRAGMENT_HEADER_LENGTH of
                          None \<Rightarrow> [] | Some d \<Rightarrow> d) continuations))))))"

section \<open>Sending and receiving frames\<close>

definition ble_data :: "bytes list \<Rightarrow> bytes" where
  "ble_data fragments =
     (case fragments of
        [] \<Rightarrow> []
      | initial # continuations \<Rightarrow>
          drop INITIAL_FRAGMENT_HEADER_LENGTH initial
          @ concat (map (drop CONT_FRAGMENT_HEADER_LENGTH) continuations))"

lemma ble_data_snoc:
  "ble_data (initial # conts @ [x]) = ble_data (initial # conts) @ drop CONT_FRAGMENT_HEADER_LENGTH x"
  by (simp add: ble_data_def)

lemma ble_data_len_data: "ble_data_len p = length (ble_data (bfp_fragments p))"
  by (simp add: ble_data_len_def ble_data_def foldl_payload_len split: list.split)

definition ble_update_done :: "ble_frame_parser \<Rightarrow> bytes \<Rightarrow> (io_error + bool) \<times> ble_frame_parser" where
  "ble_update_done p fragment =
     (case ble_parser_update p fragment of (r, p') \<Rightarrow> (result_map (\<lambda>s. s = Ble_Done) r, p'))"

definition ble_init_fragment :: "ble_command \<Rightarrow> nat \<Rightarrow> bytes \<Rightarrow> bytes" where
  "ble_init_fragment cmd len chunk = [ble_command_to_u8 cmd] @ be_u16 (of_nat len) @ chunk"

lemma ble_command_roundtrip [simp]: "ble_command_of_u8 (ble_command_to_u8 cmd) = Some cmd"
  by (cases cmd) (simp_all add: ble_command_of_u8_def)

lemma ble_expected_bytes_init:
  assumes "bfp_fragments p = ble_init_fragment cmd len chunk # conts" and "len < 65536"
  shows "ble_expected_bytes p = Some len"
  using assms by (simp add: ble_expected_bytes_def ble_init_fragment_def be_u16_def
      slice_get_def unat_of_nat_u16 del: of_nat_numeral)

lemma ble_more_init:
  assumes "bfp_fragments p = ble_init_fragment cmd len chunk # conts" and "len < 65536"
  shows "ble_more_fragments_needed p \<longleftrightarrow> length (ble_data (bfp_fragments p)) < len"
  using assms by (simp add: ble_more_fragments_needed_def ble_expected_bytes_init ble_data_len_data)

lemma ble_parser_frame_init:
  assumes p: "bfp_fragments p = ble_init_fragment cmd len chunk # conts" and "len < 65536"
    and "len \<le> length (ble_data (bfp_fragments p))"
  shows "ble_parser_frame p = Inr (ble_frame_new cmd (ble_data (bfp_fragments p)))"
proof -
  have "\<not> ble_more_fragments_needed p"
    using ble_more_init [OF p assms(2)] assms(3) by simp
  then show ?thesis
    unfolding ble_parser_frame_def slice_from_drop p
    by (simp add: ble_init_fragment_def ble_consts ble_data_def)
qed

lemma ble_update_init:
  assumes "len < 65536"
  shows "ble_update_done ble_parser_new (ble_init_fragment cmd len chunk)
    = (Inr (len \<le> length chunk), \<lparr>bfp_fragments = [ble_init_fragment cmd len chunk]\<rparr>)"
proof -
  let ?p = "\<lparr>bfp_fragments = [ble_init_fragment cmd len chunk]\<rparr>"
  have "ble_more_fragments_needed ?p \<longleftrightarrow> length chunk < len"
    by (subst ble_more_init [OF _ assms])
      (auto simp: ble_data_def ble_init_fragment_def ble_consts)
  then show ?thesis
    by (simp add: ble_update_done_def ble_parser_update_def ble_parser_new_def Let_def ble_consts not_less)
      (simp add: ble_init_fragment_def)
qed

lemma ble_update_cont:
  assumes "bfp_fragments p = ble_init_fragment cmd len chunk0 # conts" and "len < 65536"
  shows "ble_update_done p (seq # chunk)
    = (Inr (len \<le> length (ble_data (bfp_fragments p)) + length chunk),
       p\<lparr>bfp_fragments := bfp_fragments p @ [seq # chunk]\<rparr>)"
proof -
  let ?p = "p\<lparr>bfp_fragments := bfp_fragments p @ [seq # chunk]\<rparr>"
  have "ble_more_fragments_needed ?p \<longleftrightarrow> length (ble_data (bfp_fragments p)) + length chunk < len"
    by (subst ble_more_init [OF _ assms(2)]) (auto simp: assms(1) ble_data_snoc ble_consts)
  then show ?thesis
    using assms by (simp add: ble_update_done_def ble_parser_update_def Let_def ble_consts not_less)
qed

lemma ble_cont_fragments_Nil [simp]: "ble_cont_fragments n seq [] = []"
  by (subst ble_cont_fragments.simps) simp

lemma ble_cont_fragments_step:
  "message \<noteq> [] \<Longrightarrow> 4 \<le> n \<Longrightarrow> ble_cont_fragments n seq message
    = (seq # take (n - 1) message) # ble_cont_fragments n (seq + 1) (drop (n - 1) message)"
  by (subst ble_cont_fragments.simps) (simp add: ble_consts)

lemma ble_feed_conts:
  assumes "message \<noteq> []" and "4 \<le> n" and "bfp_fragments p = ble_init_fragment cmd len chunk0 # conts"
    and "len = length (ble_data (bfp_fragments p)) + length message" and "len < 65536"
  shows "\<exists>q q' conts'. feed ble_update_done p (butlast (ble_cont_fragments n seq message)) = Some q
    \<and> ble_update_done q (last (ble_cont_fragments n seq message)) = (Inr True, q')
    \<and> bfp_fragments q' = ble_init_fragment cmd len chunk0 # conts'
    \<and> ble_data (bfp_fragments q') = ble_data (bfp_fragments p) @ message"
  using assms
proof (induction "length message" arbitrary: seq message p conts rule: less_induct)
  case less
  let ?x = "seq # take (n - 1) message" and ?rest = "drop (n - 1) message"
  let ?p = "p\<lparr>bfp_fragments := bfp_fragments p @ [?x]\<rparr>"
  note step = ble_cont_fragments_step [OF less.prems(1,2), of seq]
  have data: "ble_data (bfp_fragments p @ [?x]) = ble_data (bfp_fragments p) @ take (n - 1) message"
    using less.prems(3) by (simp add: ble_data_snoc ble_consts)
  note upd = ble_update_cont [OF less.prems(3,5), of seq "take (n - 1) message"]
  show ?case
  proof (cases "?rest = []")
    case True
    then have "ble_cont_fragments n seq message = [?x]"
      unfolding step by (simp only: ble_cont_fragments_Nil)
    moreover have "take (n - 1) message = message" "length (take (n - 1) message) = length message"
      using True by simp_all
    moreover from this have "ble_update_done p ?x = (Inr True, ?p)"
      unfolding upd using less.prems(4) by simp
    ultimately show ?thesis
      using data less.prems(3) by simp
  next
    case False
    have "length ?rest < length message"
      using less.prems(1,2) by (cases message) auto
    moreover have "bfp_fragments ?p = ble_init_fragment cmd len chunk0 # conts @ [?x]"
      using less.prems(3) by simp
    moreover have "len = length (ble_data (bfp_fragments ?p)) + length ?rest"
      using data less.prems(4) by simp
    ultimately obtain q q' conts' where q:
        "feed ble_update_done ?p (butlast (ble_cont_fragments n (seq + 1) ?rest)) = Some q"
        "ble_update_done q (last (ble_cont_fragments n (seq + 1) ?rest)) = (Inr True, q')"
        "bfp_fragments q' = ble_init_fragment cmd len chunk0 # conts'"
        "ble_data (bfp_fragments q') = ble_data (bfp_fragments ?p) @ ?rest"
      using less.hyps [OF _ False less.prems(2)] less.prems(5) by blast
    have "ble_cont_fragments n (seq + 1) ?rest \<noteq> []"
      using False less.prems(2) by (subst ble_cont_fragments_step) auto
    moreover have "ble_update_done p ?x = (Inr False, ?p)"
      unfolding upd using False less.prems(4) by simp
    ultimately show ?thesis
      using step q data by auto
  qed
qed

definition ble_carried :: "ble_frame \<Rightarrow> bool" where
  "ble_carried frame \<longleftrightarrow> length (bf_data frame) < 65536"

lemma ble_roundtrip_steps:
  assumes m: "ble_carried m" and ps: "ble_fragments m n = Inr ps"
  shows "ps \<noteq> [] \<and> (\<exists>q q'. feed ble_update_done ble_parser_new (butlast ps) = Some q
    \<and> ble_update_done q (last ps) = (Inr True, q') \<and> ble_parser_frame q' = Inr m)"
proof -
  let ?len = "length (bf_data m)" and ?chunk = "take (n - 3) (bf_data m)"
    and ?rest = "drop (n - 3) (bf_data m)"
  let ?init = "ble_init_fragment (bf_cmd m) ?len ?chunk"
  have n: "4 \<le> n" and ps: "ps = ?init # ble_cont_fragments n 0 ?rest"
    using ps by (auto simp: ble_fragments_def ble_init_fragment_def ble_consts Let_def split: if_splits)
  have len: "?len < 65536" using m by (simp add: ble_carried_def)
  have data: "ble_data [?init] = ?chunk"
    by (simp add: ble_data_def ble_init_fragment_def ble_consts)
  show ?thesis
  proof (cases "?rest = []")
    case True
    then show ?thesis
      using ps data ble_update_init [OF len, of "bf_cmd m" ?chunk]
        ble_parser_frame_init [OF _ len, of "\<lparr>bfp_fragments = [?init]\<rparr>" "bf_cmd m" ?chunk "[]"]
      by (simp add: ble_frame_new_def)
  next
    case False
    let ?p = "\<lparr>bfp_fragments = [?init]\<rparr>"
    have ne: "ble_cont_fragments n 0 ?rest \<noteq> []"
      using False n by (subst ble_cont_fragments_step) auto
    have "\<exists>q q' conts'. feed ble_update_done ?p (butlast (ble_cont_fragments n 0 ?rest)) = Some q
        \<and> ble_update_done q (last (ble_cont_fragments n 0 ?rest)) = (Inr True, q')
        \<and> bfp_fragments q' = ?init # conts'
        \<and> ble_data (bfp_fragments q') = ble_data (bfp_fragments ?p) @ ?rest"
      by (rule ble_feed_conts [OF False n]) (use data len in simp_all)
    then obtain q q' conts' where q:
        "feed ble_update_done ?p (butlast (ble_cont_fragments n 0 ?rest)) = Some q"
        "ble_update_done q (last (ble_cont_fragments n 0 ?rest)) = (Inr True, q')"
        "bfp_fragments q' = ?init # conts'" "ble_data (bfp_fragments q') = ?chunk @ ?rest"
      using data by auto
    have "ble_parser_frame q' = Inr m"
      using ble_parser_frame_init [OF q(3) len] q(4) by (simp add: ble_frame_new_def)
    moreover have "ble_update_done ble_parser_new ?init = (Inr False, ?p)"
      using False len by (simp add: ble_update_init)
    ultimately show ?thesis
      using ps q ne by simp
  qed
qed

interpretation ble: message_framing "\<lambda>m. ble_fragments m max_fragment_length" ble_update_done
  ble_parser_new ble_parser_frame "\<lambda>fragment. fragment" ble_carried for max_fragment_length
proof unfold_locales
  fix m ps p
  assume m: "ble_carried m" "ble_fragments m max_fragment_length = Inr ps"
  show "ps \<noteq> []"
    using ble_roundtrip_steps [OF m] by blast
  show "\<exists>p. feed ble_update_done ble_parser_new (map (\<lambda>x. x) (butlast ps)) = Some p"
    using ble_roundtrip_steps [OF m] by auto
  assume "feed ble_update_done ble_parser_new (map (\<lambda>x. x) (butlast ps)) = Some p"
  then show "\<exists>p'. ble_update_done p (last ps) = (Inr True, p') \<and> ble_parser_frame p' = Inr m"
    using ble_roundtrip_steps [OF m] by auto
qed

section \<open>The connection\<close>

datatype gatt_error = Gatt_InvalidFraming | Gatt_OperationFailed | Gatt_ConnectionFailed
  | Gatt_Unavailable | Gatt_PoweredOff | Gatt_Canceled | Gatt_Timeout

datatype gatt_write_type = Gatt_WithResponse | Gatt_WithoutResponse

datatype char_prop = CharProp_Write | CharProp_WriteWithoutResponse | CharProp_Other

definition write_type_for :: "char_prop set \<Rightarrow> gatt_write_type" where
  "write_type_for properties =
     (if CharProp_Write \<in> properties then Gatt_WithResponse
      else if CharProp_WriteWithoutResponse \<in> properties then Gatt_WithoutResponse
      else Gatt_WithResponse)"

text \<open>
  The peripheral: \<open>gatt_read_length\<close> is the read of \<^verbatim>\<open>fidoControlPointLength\<close> (\<open>None\<close> when it
  fails), \<open>gatt_write\<close> a write to \<^verbatim>\<open>fidoControlPoint\<close> (\<open>False\<close> when it fails), and
  \<open>gatt_properties\<close> the properties the control point advertises.
\<close>

record 'w gatt_peripheral =
  gatt_read_length :: "'w \<Rightarrow> bytes option \<times> 'w"
  gatt_write :: "gatt_write_type \<Rightarrow> bytes \<Rightarrow> 'w \<Rightarrow> bool \<times> 'w"
  gatt_properties :: "char_prop set"

definition ble_control_point_length :: "'w gatt_peripheral \<Rightarrow> 'w \<Rightarrow> (gatt_error + nat) \<times> 'w" where
  "ble_control_point_length io w =
     (case gatt_read_length io w of
        (None, w') \<Rightarrow> (Inl Gatt_OperationFailed, w')
      | (Some max_fragment_length, w') \<Rightarrow>
          (if length max_fragment_length \<noteq> 2 then (Inl Gatt_OperationFailed, w')
           else case read_u16_be max_fragment_length of
             Inl _ \<Rightarrow> (Inl Gatt_OperationFailed, w')
           | Inr (n, _) \<Rightarrow> (Inr (unat n), w')))"

fun ble_write_fragments ::
    "'w gatt_peripheral \<Rightarrow> gatt_write_type \<Rightarrow> bytes list \<Rightarrow> 'w \<Rightarrow> (gatt_error + unit) \<times> 'w" where
  "ble_write_fragments io wt [] w = (Inr (), w)"
| "ble_write_fragments io wt (fragment # fragments) w =
     (case gatt_write io wt fragment w of
        (True, w') \<Rightarrow> ble_write_fragments io wt fragments w'
      | (False, w') \<Rightarrow> (Inl Gatt_OperationFailed, w'))"

definition ble_frame_send :: "'w gatt_peripheral \<Rightarrow> ble_frame \<Rightarrow> 'w \<Rightarrow> (gatt_error + unit) \<times> 'w" where
  "ble_frame_send io frame w =
     (case ble_control_point_length io w of
        (Inl e, w') \<Rightarrow> (Inl e, w')
      | (Inr max_fragment_size, w') \<Rightarrow>
          (case ble_fragments frame max_fragment_size of
             Inl _ \<Rightarrow> (Inl Gatt_InvalidFraming, w')
           | Inr fragments \<Rightarrow> ble_write_fragments io (write_type_for (gatt_properties io)) fragments w'))"

definition ble_send_cancel :: "'w gatt_peripheral \<Rightarrow> 'w \<Rightarrow> (gatt_error + unit) \<times> 'w" where
  "ble_send_cancel io w =
     (case ble_control_point_length io w of
        (r, w') \<Rightarrow>
          let max_fragment_size = (case r of Inl _ \<Rightarrow> 20 | Inr n \<Rightarrow> n)
          in case ble_fragments (ble_frame_new Ble_Cancel []) max_fragment_size of
               Inl _ \<Rightarrow> (Inl Gatt_InvalidFraming, w')
             | Inr fragments \<Rightarrow> ble_write_fragments io Gatt_WithoutResponse fragments w')"

text \<open>
  What \<^verbatim>\<open>timeout(op_timeout, stream.next())\<close> yields, one event per turn of the loop.  The
  result is \<open>None\<close> when the events run out, where the code still waits.
\<close>

datatype ble_event = Ble_Notification bytes | Ble_StreamEnded | Ble_TimedOut

fun ble_recv_loop :: "'w gatt_peripheral \<Rightarrow> ble_frame_parser \<Rightarrow> ble_event list \<Rightarrow> 'w
    \<Rightarrow> ((gatt_error + ble_frame) \<times> ble_event list \<times> 'w) option" where
  "ble_recv_loop io parser [] w = None"
| "ble_recv_loop io parser (Ble_StreamEnded # es) w = Some (Inl Gatt_ConnectionFailed, es, w)"
| "ble_recv_loop io parser (Ble_TimedOut # es) w =
     Some (Inl Gatt_Timeout, es, snd (ble_send_cancel io w))"
| "ble_recv_loop io parser (Ble_Notification fragment # es) w =
     (case ble_parser_update parser fragment of
        (Inl _, _) \<Rightarrow> Some (Inl Gatt_InvalidFraming, es, w)
      | (Inr Ble_MoreFragmentsExpected, parser') \<Rightarrow> ble_recv_loop io parser' es w
      | (Inr Ble_Done, parser') \<Rightarrow>
          (case ble_parser_frame parser' of
             Inl _ \<Rightarrow> Some (Inl Gatt_InvalidFraming, es, w)
           | Inr frame \<Rightarrow>
               (case bf_cmd frame of
                  Ble_Keepalive \<Rightarrow> ble_recv_loop io (ble_parser_reset parser') es w
                | Ble_Cancel \<Rightarrow> Some (Inl Gatt_Canceled, es, w)
                | Ble_Error \<Rightarrow> Some (Inl Gatt_OperationFailed, es, w)
                | Ble_Ping \<Rightarrow> ble_recv_loop io parser' es w
                | Ble_Msg \<Rightarrow> Some (Inr frame, es, w))))"

definition ble_frame_recv :: "'w gatt_peripheral \<Rightarrow> ble_event list \<Rightarrow> 'w
    \<Rightarrow> ((gatt_error + ble_frame) \<times> ble_event list \<times> 'w) option" where
  "ble_frame_recv io events w = ble_recv_loop io ble_parser_new events w"

lemma ble_not_done: "s \<noteq> Ble_Done \<longleftrightarrow> s = Ble_MoreFragmentsExpected"
  by (cases s) simp_all

lemma ble_update_more:
  "ble_update_done p x = (Inr False, q) \<Longrightarrow> ble_parser_update p x = (Inr Ble_MoreFragmentsExpected, q)"
  by (auto simp: ble_update_done_def result_map_eq_Inr_conv ble_not_done split: prod.splits)

lemma ble_update_finished:
  "ble_update_done p x = (Inr True, q) \<Longrightarrow> ble_parser_update p x = (Inr Ble_Done, q)"
  by (auto simp: ble_update_done_def result_map_eq_Inr_conv split: prod.splits)

lemma ble_recv_feed:
  "feed ble_update_done p xs = Some q \<Longrightarrow>
    ble_recv_loop io p (map Ble_Notification xs @ es) w = ble_recv_loop io q es w"
  by (induction xs arbitrary: p)
    (auto split: prod.splits sum.splits bool.splits dest!: ble_update_more)

text \<open>A whole frame on the link is a completed parser, from the laws of the framing.\<close>

lemma ble_recv_frame:
  assumes "ble_carried m" and "ble_fragments m n = Inr ps"
  shows "\<exists>q q'. ble_recv_loop io ble_parser_new (map Ble_Notification ps @ es) w
      = ble_recv_loop io q (Ble_Notification (last ps) # es) w
    \<and> ble_parser_update q (last ps) = (Inr Ble_Done, q') \<and> ble_parser_frame q' = Inr m"
proof -
  obtain q where q: "feed ble_update_done ble_parser_new (butlast ps) = Some q"
    using ble.waits [OF assms] by auto
  with ble.completes [OF assms] obtain q' where
    q': "ble_update_done q (last ps) = (Inr True, q')" "ble_parser_frame q' = Inr m" by auto
  have "map Ble_Notification ps @ es
      = map Ble_Notification (butlast ps) @ Ble_Notification (last ps) # es"
    using ble.nonempty [OF assms] by (cases ps rule: rev_cases) simp_all
  then show ?thesis
    using ble_recv_feed [OF q] ble_update_finished [OF q'(1)] q'(2) by metis
qed

lemma ble_recv_keepalive:
  assumes "ble_carried m" and "ble_fragments m n = Inr ps" and "bf_cmd m = Ble_Keepalive"
  shows "ble_recv_loop io ble_parser_new (map Ble_Notification ps @ es) w
    = ble_recv_loop io ble_parser_new es w"
proof -
  have "ble_parser_reset q = ble_parser_new" for q
    by (simp add: ble_parser_reset_def ble_parser_new_def)
  then show ?thesis
    using ble_recv_frame [OF assms(1,2), of io es w] assms(3) by auto
qed

lemma ble_recv_final:
  assumes "ble_carried m" and "ble_fragments m n = Inr ps"
  shows "ble_recv_loop io ble_parser_new (map Ble_Notification ps @ es) w
    = (case bf_cmd m of Ble_Msg \<Rightarrow> Some (Inr m, es, w)
       | Ble_Cancel \<Rightarrow> Some (Inl Gatt_Canceled, es, w)
       | Ble_Error \<Rightarrow> Some (Inl Gatt_OperationFailed, es, w)
       | _ \<Rightarrow> ble_recv_loop io ble_parser_new (map Ble_Notification ps @ es) w)"
  using ble_recv_frame [OF assms, of io es w] by (auto split: ble_command.splits)

text \<open>
  A parser that holds a complete frame reports a frame of the same command on every later
  fragment that is not empty.
\<close>

lemma ble_complete_grows:
  assumes "ble_parser_frame p = Inr f" and "x \<noteq> []"
  shows "\<exists>p' f'. ble_parser_update p x = (Inr Ble_Done, p') \<and> ble_parser_frame p' = Inr f'
    \<and> bf_cmd f' = bf_cmd f"
proof -
  obtain initial conts where p: "bfp_fragments p = initial # conts" and
      more: "\<not> ble_more_fragments_needed p"
    using assms(1) by (auto simp: ble_parser_frame_def split: if_splits list.splits)
  obtain c rest where init: "initial = c # rest" and c: "ble_command_of_u8 c = Some (bf_cmd f)"
    using assms(1) p by (auto simp: ble_parser_frame_def ble_frame_new_def
        split: if_splits list.splits option.splits)
  let ?p = "p\<lparr>bfp_fragments := bfp_fragments p @ [x]\<rparr>"
  have "ble_expected_bytes ?p = ble_expected_bytes p"
    by (simp add: ble_expected_bytes_def p)
  moreover have "ble_data_len p \<le> ble_data_len ?p"
    by (simp add: ble_data_len_data p ble_data_snoc)
  ultimately have more': "\<not> ble_more_fragments_needed ?p"
    using more p by (auto simp: ble_more_fragments_needed_def)
  then have "ble_parser_update p x = (Inr Ble_Done, ?p)"
    using assms(2) p by (simp add: ble_parser_update_def ble_consts)
  moreover have "\<exists>f'. ble_parser_frame ?p = Inr f' \<and> bf_cmd f' = bf_cmd f"
    unfolding ble_parser_frame_def using more' p init c by (simp add: ble_frame_new_def)
  ultimately show ?thesis by blast
qed

lemma ble_recv_after_ping:
  assumes "ble_parser_frame p = Inr f" and "bf_cmd f = Ble_Ping"
    and "ble_recv_loop io p (map Ble_Notification xs) w = Some (r, es, w')"
  shows "r = Inl Gatt_InvalidFraming"
  using assms
proof (induction xs arbitrary: p f)
  case Nil
  then show ?case by simp
next
  case (Cons x xs)
  show ?case
  proof (cases "x = []")
    case True
    then show ?thesis
      using Cons.prems by (auto simp: ble_parser_update_def ble_consts)
  next
    case False
    from ble_complete_grows [OF Cons.prems(1) this] obtain p' f' where
      "ble_parser_update p x = (Inr Ble_Done, p')" "ble_parser_frame p' = Inr f'" "bf_cmd f' = Ble_Ping"
      using Cons.prems(2) by auto
    then show ?thesis
      using Cons.IH [of p' f'] Cons.prems(3) by simp
  qed
qed

section \<open>Properties\<close>

text \<open>
  Every sequence of BLE frames with data below 64 KiB, cut into fragments of the length the
  device announces, is reassembled frame by frame and in order.
\<close>

theorem ble_frames_received:
  assumes "list_all2 (\<lambda>m ps. ble_carried m \<and> ble_fragments m max_fragment_length = Inr ps) ms pss"
  shows "receive_all ble_update_done ble_parser_frame ble_parser_new (length ms) (concat pss @ rest)
    = Some (map Inr ms, rest)"
  using ble.receive_sequence [OF assms] by simp

lemma ble_frames_received_witness:
  "receive_all ble_update_done ble_parser_frame ble_parser_new
     (length [ble_frame_new Ble_Msg [1, 2], ble_frame_new Ble_Cancel []])
     (concat [[[0x83, 0, 2, 1], [0, 2]], [[0xBE, 0, 0]]] @ [[7]])
   = Some (map Inr [ble_frame_new Ble_Msg [1, 2], ble_frame_new Ble_Cancel []], [[7]])"
proof (rule ble_frames_received)
  have "ble_fragments (ble_frame_new Ble_Msg [1, 2]) 4 = Inr [[0x83, 0, 2, 1], [0, 2]]"
    "ble_fragments (ble_frame_new Ble_Cancel []) 4 = Inr [[0xBE, 0, 0]]"
    by code_simp+
  then show "list_all2 (\<lambda>m ps. ble_carried m \<and> ble_fragments m 4 = Inr ps)
      [ble_frame_new Ble_Msg [1, 2], ble_frame_new Ble_Cancel []]
      [[[0x83, 0, 2, 1], [0, 2]], [[0xBE, 0, 0]]]"
    by (simp add: ble_carried_def ble_frame_new_def)
qed

text \<open>
  The receive loop waits through any number of keep-alive frames and then returns the
  response of the device, unchanged, leaving later notifications unread and the link alone; a
  cancel or an error frame instead ends it with the corresponding error.
\<close>

theorem ble_frame_recv_after_keepalives:
  assumes "list_all2 (\<lambda>k ps. ble_carried k \<and> bf_cmd k = Ble_Keepalive \<and> ble_fragments k n = Inr ps) ks pss"
    and "ble_carried m" and "ble_fragments m n = Inr ps"
    and "bf_cmd m \<in> {Ble_Msg, Ble_Cancel, Ble_Error}"
  shows "ble_frame_recv io (map Ble_Notification (concat pss @ ps) @ es) w
    = Some (case bf_cmd m of Ble_Msg \<Rightarrow> Inr m | Ble_Cancel \<Rightarrow> Inl Gatt_Canceled
        | _ \<Rightarrow> Inl Gatt_OperationFailed, es, w)"
  using assms(1) unfolding ble_frame_recv_def
proof (induction ks pss rule: list_all2_induct)
  case Nil
  show ?case
    using ble_recv_final [OF assms(2,3), of io es w] assms(4) by auto
next
  case (Cons k ks qs pss)
  then show ?case
    using ble_recv_keepalive [of k n qs io "map Ble_Notification (concat pss @ ps) @ es" w] by simp
qed

lemma ble_frame_recv_after_keepalives_witness:
  "ble_frame_recv \<lparr>gatt_read_length = \<lambda>w :: unit. (None, w), gatt_write = \<lambda>_ _ w. (True, w),
       gatt_properties = {CharProp_Write}\<rparr>
     (map Ble_Notification (concat [[[0x82, 0, 1, 2]]] @ [[0x83, 0, 2, 1], [0, 2]]) @ [Ble_TimedOut]) ()
   = Some (case bf_cmd (ble_frame_new Ble_Msg [1, 2]) of
       Ble_Msg \<Rightarrow> Inr (ble_frame_new Ble_Msg [1, 2]) | Ble_Cancel \<Rightarrow> Inl Gatt_Canceled
     | _ \<Rightarrow> Inl Gatt_OperationFailed, [Ble_TimedOut], ())"
proof (rule ble_frame_recv_after_keepalives)
  show "ble_fragments (ble_frame_new Ble_Msg [1, 2]) 4 = Inr [[0x83, 0, 2, 1], [0, 2]]"
    by code_simp
  have "ble_fragments (ble_frame_new Ble_Keepalive [2]) 4 = Inr [[0x82, 0, 1, 2]]"
    by code_simp
  then show "list_all2 (\<lambda>k ps. ble_carried k \<and> bf_cmd k = Ble_Keepalive \<and> ble_fragments k 4 = Inr ps)
      [ble_frame_new Ble_Keepalive [2]] [[[0x82, 0, 1, 2]]]"
    by (simp add: ble_carried_def ble_frame_new_def)
qed (simp_all add: ble_carried_def ble_frame_new_def)

text \<open>
  After a complete ping frame the receive loop no longer returns any response: whatever
  fragments follow, a well-formed response among them, it keeps waiting or fails with a framing
  error, because the parser is not reset.
\<close>

theorem ble_frame_recv_ping_swallows:
  assumes "ble_carried m" and "bf_cmd m = Ble_Ping" and "ble_fragments m n = Inr ps"
    and "ble_frame_recv io (map Ble_Notification (ps @ xs)) w = Some (r, es, w')"
  shows "r = Inl Gatt_InvalidFraming"
proof -
  obtain q q' where q: "ble_recv_loop io ble_parser_new (map Ble_Notification ps @ map Ble_Notification xs) w
      = ble_recv_loop io q (Ble_Notification (last ps) # map Ble_Notification xs) w"
      "ble_parser_update q (last ps) = (Inr Ble_Done, q')" "ble_parser_frame q' = Inr m"
    using ble_recv_frame [OF assms(1,3), of io "map Ble_Notification xs" w] by blast
  then have "ble_recv_loop io q' (map Ble_Notification xs) w = Some (r, es, w')"
    using assms(2,4) by (simp add: ble_frame_recv_def)
  then show ?thesis
    by (rule ble_recv_after_ping [OF q(3) assms(2)])
qed

lemma ble_frame_recv_ping_swallows_witness:
  "fst (the (ble_frame_recv \<lparr>gatt_read_length = \<lambda>w :: unit. (None, w), gatt_write = \<lambda>_ _ w. (True, w),
       gatt_properties = {CharProp_Write}\<rparr>
     (map Ble_Notification ([[0x81, 0, 1, 1]] @ [[0x83, 0, 1, 0], []])) ())) = Inl Gatt_InvalidFraming"
proof -
  let ?io = "\<lparr>gatt_read_length = \<lambda>w :: unit. (None, w), gatt_write = \<lambda>_ _ w. (True, w),
       gatt_properties = {CharProp_Write}\<rparr>"
  let ?recv = "ble_frame_recv ?io (map Ble_Notification ([[0x81, 0, 1, 1]] @ [[0x83, 0, 1, 0], []])) ()"
  have recv: "?recv = Some (Inl Gatt_InvalidFraming, [], ())" by code_simp
  have frag: "ble_fragments (ble_frame_new Ble_Ping [1]) 4 = Inr [[0x81, 0, 1, 1]]" by code_simp
  from recv have "?recv = Some (fst (the ?recv), [], ())" by simp
  from ble_frame_recv_ping_swallows [OF _ _ frag this] show ?thesis
    by (simp add: ble_carried_def ble_frame_new_def)
qed

end
