(* ===== verification/Ctap_Messages.thy ===== *)
theory Ctap_Messages
  imports Prelude
begin

text \<open>
  The messages a channel carries: CTAP status codes (\<^verbatim>\<open>proto/error.rs\<close>), APDU requests and
  responses of CTAP1 (\<^verbatim>\<open>proto/ctap1/apdu\<close>) with the requests and responses they carry
  (\<^verbatim>\<open>proto/ctap1/model.rs\<close>), and the CBOR requests and responses of CTAP2
  (\<^verbatim>\<open>proto/ctap2/cbor\<close>), whose CBOR bodies are byte strings here.
\<close>

section \<open>Status codes\<close>

datatype (plugins only: code size) ctap_error =
    Ctap_Ok | Ctap_InvalidCommand | Ctap_InvalidParameter | Ctap_InvalidLength | Ctap_InvalidSeq |
    Ctap_Timeout | Ctap_ChannelBusy | Ctap_LockRequired | Ctap_InvalidChannel |
    Ctap_InvalidCborType | Ctap_InvalidCbor | Ctap_MissingParameter | Ctap_LimitExceeded |
    Ctap_UnsupportedExtension | Ctap_FpDatabaseFull | Ctap_LargeBlobStorageFull |
    Ctap_CredentialExcluded | Ctap_Processing | Ctap_InvalidCredential | Ctap_UserActionPending |
    Ctap_OperationPending | Ctap_NoOperations | Ctap_UnsupportedAlgorithm | Ctap_OperationDenied |
    Ctap_KeyStoreFull | Ctap_NoOperationPending | Ctap_UnsupportedOption | Ctap_InvalidOption |
    Ctap_KeepAliveCancel | Ctap_NoCredentials | Ctap_UserActionTimeout | Ctap_NotAllowed |
    Ctap_PINInvalid | Ctap_PINBlocked | Ctap_PINAuthInvalid | Ctap_PINAuthBlocked | Ctap_PINNotSet
    | Ctap_PINRequired | Ctap_PINPolicyViolation | Ctap_PINTokenExpired | Ctap_RequestTooLarge |
    Ctap_ActionTimeout | Ctap_UserPresenceRequired | Ctap_UvBlocked | Ctap_IntegrityFailure |
    Ctap_InvalidSubcommand | Ctap_UVInvalid | Ctap_UnauthorizedPermission | Ctap_Other |
    Ctap_Unknown u8

text \<open>\<^verbatim>\<open>CtapError::from(u8)\<close>: the codes of the \<^verbatim>\<open>match\<close>, in its order, and a catch-all.\<close>

definition ctap_error_table :: "(u8 \<times> ctap_error) list" where
  "ctap_error_table =
     [(0x00, Ctap_Ok), (0x01, Ctap_InvalidCommand), (0x02, Ctap_InvalidParameter), (0x03,
     Ctap_InvalidLength), (0x04, Ctap_InvalidSeq), (0x05, Ctap_Timeout), (0x06, Ctap_ChannelBusy),
     (0x0A, Ctap_LockRequired), (0x0B, Ctap_InvalidChannel), (0x11, Ctap_InvalidCborType), (0x12,
     Ctap_InvalidCbor), (0x14, Ctap_MissingParameter), (0x15, Ctap_LimitExceeded), (0x16,
     Ctap_UnsupportedExtension), (0x17, Ctap_FpDatabaseFull), (0x18, Ctap_LargeBlobStorageFull),
     (0x19, Ctap_CredentialExcluded), (0x21, Ctap_Processing), (0x22, Ctap_InvalidCredential),
     (0x23, Ctap_UserActionPending), (0x24, Ctap_OperationPending), (0x25, Ctap_NoOperations),
     (0x26, Ctap_UnsupportedAlgorithm), (0x27, Ctap_OperationDenied), (0x28, Ctap_KeyStoreFull),
     (0x2A, Ctap_NoOperationPending), (0x2B, Ctap_UnsupportedOption), (0x2C, Ctap_InvalidOption),
     (0x2D, Ctap_KeepAliveCancel), (0x2E, Ctap_NoCredentials), (0x2F, Ctap_UserActionTimeout),
     (0x30, Ctap_NotAllowed), (0x31, Ctap_PINInvalid), (0x32, Ctap_PINBlocked), (0x33,
     Ctap_PINAuthInvalid), (0x34, Ctap_PINAuthBlocked), (0x35, Ctap_PINNotSet), (0x36,
     Ctap_PINRequired), (0x37, Ctap_PINPolicyViolation), (0x38, Ctap_PINTokenExpired), (0x39,
     Ctap_RequestTooLarge), (0x3A, Ctap_ActionTimeout), (0x3B, Ctap_UserPresenceRequired), (0x3C,
     Ctap_UvBlocked), (0x3D, Ctap_IntegrityFailure), (0x3E, Ctap_InvalidSubcommand), (0x3F,
     Ctap_UVInvalid), (0x40, Ctap_UnauthorizedPermission), (0x7F, Ctap_Other)]"

definition ctap_error_of_u8 :: "u8 \<Rightarrow> ctap_error" where
  "ctap_error_of_u8 byte =
     (case map_of ctap_error_table byte of Some e \<Rightarrow> e | None \<Rightarrow> Ctap_Unknown byte)"

fun ctap_error_to_u8 :: "ctap_error \<Rightarrow> u8" where
  "ctap_error_to_u8 Ctap_Ok = 0x00"
| "ctap_error_to_u8 Ctap_InvalidCommand = 0x01"
| "ctap_error_to_u8 Ctap_InvalidParameter = 0x02"
| "ctap_error_to_u8 Ctap_InvalidLength = 0x03"
| "ctap_error_to_u8 Ctap_InvalidSeq = 0x04"
| "ctap_error_to_u8 Ctap_Timeout = 0x05"
| "ctap_error_to_u8 Ctap_ChannelBusy = 0x06"
| "ctap_error_to_u8 Ctap_LockRequired = 0x0A"
| "ctap_error_to_u8 Ctap_InvalidChannel = 0x0B"
| "ctap_error_to_u8 Ctap_InvalidCborType = 0x11"
| "ctap_error_to_u8 Ctap_InvalidCbor = 0x12"
| "ctap_error_to_u8 Ctap_MissingParameter = 0x14"
| "ctap_error_to_u8 Ctap_LimitExceeded = 0x15"
| "ctap_error_to_u8 Ctap_UnsupportedExtension = 0x16"
| "ctap_error_to_u8 Ctap_FpDatabaseFull = 0x17"
| "ctap_error_to_u8 Ctap_LargeBlobStorageFull = 0x18"
| "ctap_error_to_u8 Ctap_CredentialExcluded = 0x19"
| "ctap_error_to_u8 Ctap_Processing = 0x21"
| "ctap_error_to_u8 Ctap_InvalidCredential = 0x22"
| "ctap_error_to_u8 Ctap_UserActionPending = 0x23"
| "ctap_error_to_u8 Ctap_OperationPending = 0x24"
| "ctap_error_to_u8 Ctap_NoOperations = 0x25"
| "ctap_error_to_u8 Ctap_UnsupportedAlgorithm = 0x26"
| "ctap_error_to_u8 Ctap_OperationDenied = 0x27"
| "ctap_error_to_u8 Ctap_KeyStoreFull = 0x28"
| "ctap_error_to_u8 Ctap_NoOperationPending = 0x2A"
| "ctap_error_to_u8 Ctap_UnsupportedOption = 0x2B"
| "ctap_error_to_u8 Ctap_InvalidOption = 0x2C"
| "ctap_error_to_u8 Ctap_KeepAliveCancel = 0x2D"
| "ctap_error_to_u8 Ctap_NoCredentials = 0x2E"
| "ctap_error_to_u8 Ctap_UserActionTimeout = 0x2F"
| "ctap_error_to_u8 Ctap_NotAllowed = 0x30"
| "ctap_error_to_u8 Ctap_PINInvalid = 0x31"
| "ctap_error_to_u8 Ctap_PINBlocked = 0x32"
| "ctap_error_to_u8 Ctap_PINAuthInvalid = 0x33"
| "ctap_error_to_u8 Ctap_PINAuthBlocked = 0x34"
| "ctap_error_to_u8 Ctap_PINNotSet = 0x35"
| "ctap_error_to_u8 Ctap_PINRequired = 0x36"
| "ctap_error_to_u8 Ctap_PINPolicyViolation = 0x37"
| "ctap_error_to_u8 Ctap_PINTokenExpired = 0x38"
| "ctap_error_to_u8 Ctap_RequestTooLarge = 0x39"
| "ctap_error_to_u8 Ctap_ActionTimeout = 0x3A"
| "ctap_error_to_u8 Ctap_UserPresenceRequired = 0x3B"
| "ctap_error_to_u8 Ctap_UvBlocked = 0x3C"
| "ctap_error_to_u8 Ctap_IntegrityFailure = 0x3D"
| "ctap_error_to_u8 Ctap_InvalidSubcommand = 0x3E"
| "ctap_error_to_u8 Ctap_UVInvalid = 0x3F"
| "ctap_error_to_u8 Ctap_UnauthorizedPermission = 0x40"
| "ctap_error_to_u8 Ctap_Other = 0x7F"
| "ctap_error_to_u8 (Ctap_Unknown byte) = byte"

definition ctap_is_retryable_user_error :: "ctap_error \<Rightarrow> bool" where
  "ctap_is_retryable_user_error e =
     (case e of Ctap_PINInvalid \<Rightarrow> True | Ctap_UVInvalid \<Rightarrow> True | Ctap_UserActionTimeout \<Rightarrow> True
      | _ \<Rightarrow> False)"

fun ctap_is_known :: "ctap_error \<Rightarrow> bool" where
  "ctap_is_known (Ctap_Unknown _) = False"
| "ctap_is_known _ = True"

section \<open>APDU requests\<close>

definition APDU_SHORT_MAX_DATA :: nat where "APDU_SHORT_MAX_DATA = 0x100"
definition APDU_SHORT_MAX_LE :: nat where "APDU_SHORT_MAX_LE = 0x100"
definition APDU_SHORT_LE :: nat where "APDU_SHORT_LE = APDU_SHORT_MAX_LE"
definition APDI_LONG_MAX_DATA :: nat where "APDI_LONG_MAX_DATA = 0xFFFFFF"
definition APDU_EXTENDED_MAX_LE :: nat where "APDU_EXTENDED_MAX_LE = 0x10000"
definition U2F_REGISTER :: u8 where "U2F_REGISTER = 0x01"
definition U2F_AUTHENTICATE :: u8 where "U2F_AUTHENTICATE = 0x02"
definition U2F_VERSION :: u8 where "U2F_VERSION = 0x03"
definition CLA :: u8 where "CLA = 0x00"
definition CONTROL_BYTE_ENFORCE_UP_AND_SIGN :: u8 where "CONTROL_BYTE_ENFORCE_UP_AND_SIGN = 0x03"
definition CONTROL_BYTE_DONT_ENFORCE_UP_AND_SIGN :: u8 where
  "CONTROL_BYTE_DONT_ENFORCE_UP_AND_SIGN = 0x08"

lemmas apdu_consts = APDU_SHORT_MAX_DATA_def APDU_SHORT_MAX_LE_def APDU_SHORT_LE_def
  APDI_LONG_MAX_DATA_def APDU_EXTENDED_MAX_LE_def U2F_REGISTER_def U2F_AUTHENTICATE_def
  U2F_VERSION_def CLA_def CONTROL_BYTE_ENFORCE_UP_AND_SIGN_def
  CONTROL_BYTE_DONT_ENFORCE_UP_AND_SIGN_def

record apdu_request =
  ar_ins :: u8
  ar_p1 :: u8
  ar_p2 :: u8
  ar_data :: "bytes option"
  ar_response_max_length :: "nat option"

definition apdu_request_new :: "u8 \<Rightarrow> u8 \<Rightarrow> u8 \<Rightarrow> bytes option \<Rightarrow> nat option \<Rightarrow> apdu_request" where
  "apdu_request_new ins p1 p2 data response_max_length =
     \<lparr>ar_ins = ins, ar_p1 = p1, ar_p2 = p2, ar_data = data,
       ar_response_max_length = response_max_length\<rparr>"

definition apdu_short_data :: "bytes option \<Rightarrow> io_error + bytes" where
  "apdu_short_data d =
     (case d of
        None \<Rightarrow> Inr []
      | Some data \<Rightarrow>
          if length data > APDU_SHORT_MAX_DATA then Inl Io_InvalidData
          else if data = [] then Inl Io_InvalidData
          else Inr ((if length data \<noteq> APDU_SHORT_MAX_DATA then of_nat (length data) else 0) # data))"

definition apdu_short_le :: "nat option \<Rightarrow> io_error + bytes" where
  "apdu_short_le l =
     (case l of
        None \<Rightarrow> Inr []
      | Some le \<Rightarrow>
          if le > APDU_SHORT_MAX_LE then Inl Io_InvalidData
          else Inr [if le = APDU_SHORT_MAX_LE then 0 else of_nat le])"

definition apdu_raw_short :: "apdu_request \<Rightarrow> io_error + bytes" where
  "apdu_raw_short r =
     result_bind (apdu_short_data (ar_data r)) (\<lambda>data.
     result_bind (apdu_short_le (ar_response_max_length r)) (\<lambda>le.
     Inr ([CLA, ar_ins r, ar_p1 r, ar_p2 r] @ data @ le)))"

definition apdu_raw_long :: "apdu_request \<Rightarrow> io_error + bytes" where
  "apdu_raw_long r =
     result_bind
       (case ar_data r of
          Some data \<Rightarrow>
            if length data > APDI_LONG_MAX_DATA then Inl Io_InvalidData
            else Inr (be_u24 (of_nat (length data)) @ data)
        | None \<Rightarrow> Inr (be_u24 0))
       (\<lambda>data. Inr ([CLA, ar_ins r, ar_p1 r, ar_p2 r] @ data
          @ (case ar_response_max_length r of
               None \<Rightarrow> []
             | Some le \<Rightarrow> be_u16 (if le \<ge> 0x10000 then 0 else of_nat le))))"

section \<open>APDU responses\<close>

record apdu_response =
  ap_data :: "bytes option"
  ap_sw1 :: u8
  ap_sw2 :: u8

datatype apdu_status = Sw_NoError | Sw_UserPresenceTestFailed | Sw_CommandNotAllowed
  | Sw_InvalidKeyHandle | Sw_InvalidRequestLength | Sw_InvalidClassByte | Sw_InvalidInstruction

fun apdu_status_to_u16 :: "apdu_status \<Rightarrow> u16" where
  "apdu_status_to_u16 Sw_NoError = 0x9000"
| "apdu_status_to_u16 Sw_UserPresenceTestFailed = 0x6985"
| "apdu_status_to_u16 Sw_CommandNotAllowed = 0x6986"
| "apdu_status_to_u16 Sw_InvalidKeyHandle = 0x6A80"
| "apdu_status_to_u16 Sw_InvalidRequestLength = 0x6700"
| "apdu_status_to_u16 Sw_InvalidClassByte = 0x6E00"
| "apdu_status_to_u16 Sw_InvalidInstruction = 0x6D00"

definition apdu_status_of_u16 :: "u16 \<Rightarrow> apdu_status option" where
  "apdu_status_of_u16 code = List.find (\<lambda>s. apdu_status_to_u16 s = code)
     [Sw_NoError, Sw_UserPresenceTestFailed, Sw_CommandNotAllowed, Sw_InvalidKeyHandle,
      Sw_InvalidRequestLength, Sw_InvalidClassByte, Sw_InvalidInstruction]"

definition apdu_response_new_success :: "bytes \<Rightarrow> apdu_response" where
  "apdu_response_new_success data = \<lparr>ap_data = Some data, ap_sw1 = 0x90, ap_sw2 = 0x00\<rparr>"

definition apdu_response_status :: "apdu_response \<Rightarrow> io_error + apdu_status" where
  "apdu_response_status r = ok_or Io_InvalidData (apdu_status_of_u16 (u16_of_be (ap_sw1 r) (ap_sw2 r)))"

definition apdu_response_of_bytes :: "bytes \<Rightarrow> io_error + apdu_response" where
  "apdu_response_of_bytes packet =
     (if length packet < 2 then Inl Io_InvalidData
      else
        let body = take (length packet - 2) packet;
            status = drop (length packet - 2) packet
        in result_bind (ok_or Io_InvalidData (slice_get status 0)) (\<lambda>sw1.
           result_bind (ok_or Io_InvalidData (slice_get status 1)) (\<lambda>sw2.
           Inr \<lparr>ap_data = (if body = [] then None else Some body), ap_sw1 = sw1, ap_sw2 = sw2\<rparr>)))"

fun ctap_error_of_apdu_status :: "apdu_status \<Rightarrow> ctap_error" where
  "ctap_error_of_apdu_status Sw_NoError = Ctap_Ok"
| "ctap_error_of_apdu_status Sw_UserPresenceTestFailed = Ctap_UserPresenceRequired"
| "ctap_error_of_apdu_status Sw_CommandNotAllowed = Ctap_NotAllowed"
| "ctap_error_of_apdu_status Sw_InvalidKeyHandle = Ctap_NoCredentials"
| "ctap_error_of_apdu_status Sw_InvalidRequestLength = Ctap_InvalidLength"
| "ctap_error_of_apdu_status Sw_InvalidClassByte = Ctap_Other"
| "ctap_error_of_apdu_status Sw_InvalidInstruction = Ctap_InvalidCommand"

section \<open>CBOR requests and responses\<close>

datatype ctap2_command_code = AuthenticatorMakeCredential | AuthenticatorGetAssertion
  | AuthenticatorGetInfo | AuthenticatorClientPin | AuthenticatorReset
  | AuthenticatorGetNextAssertion | AuthenticatorBioEnrollment | AuthenticatorBioEnrollmentPreview
  | AuthenticatorCredentialManagement | AuthenticatorCredentialManagementPreview
  | AuthenticatorSelection | AuthenticatorLargeBlobs | AuthenticatorConfig

fun ctap2_command_to_u8 :: "ctap2_command_code \<Rightarrow> u8" where
  "ctap2_command_to_u8 AuthenticatorMakeCredential = 0x01"
| "ctap2_command_to_u8 AuthenticatorGetAssertion = 0x02"
| "ctap2_command_to_u8 AuthenticatorGetInfo = 0x04"
| "ctap2_command_to_u8 AuthenticatorClientPin = 0x06"
| "ctap2_command_to_u8 AuthenticatorReset = 0x07"
| "ctap2_command_to_u8 AuthenticatorGetNextAssertion = 0x08"
| "ctap2_command_to_u8 AuthenticatorBioEnrollment = 0x09"
| "ctap2_command_to_u8 AuthenticatorBioEnrollmentPreview = 0x40"
| "ctap2_command_to_u8 AuthenticatorCredentialManagement = 0x0A"
| "ctap2_command_to_u8 AuthenticatorCredentialManagementPreview = 0x41"
| "ctap2_command_to_u8 AuthenticatorSelection = 0x0B"
| "ctap2_command_to_u8 AuthenticatorLargeBlobs = 0x0C"
| "ctap2_command_to_u8 AuthenticatorConfig = 0x0D"

record cbor_request =
  cr_command :: ctap2_command_code
  cr_encoded_data :: bytes

definition cbor_request_new :: "ctap2_command_code \<Rightarrow> cbor_request" where
  "cbor_request_new command = \<lparr>cr_command = command, cr_encoded_data = []\<rparr>"

definition cbor_ctap_hid_data :: "cbor_request \<Rightarrow> bytes" where
  "cbor_ctap_hid_data r = [ctap2_command_to_u8 (cr_command r)] @ cr_encoded_data r"

definition cbor_raw_long :: "cbor_request \<Rightarrow> io_error + bytes" where
  "cbor_raw_long r = Inr ([ctap2_command_to_u8 (cr_command r)] @ cr_encoded_data r)"

record cbor_response =
  cs_status_code :: ctap_error
  cs_data :: "bytes option"

definition cbor_response_new_success :: "bytes \<Rightarrow> cbor_response" where
  "cbor_response_new_success data =
     \<lparr>cs_status_code = Ctap_Ok, cs_data = (if length data = 0 then None else Some data)\<rparr>"

fun cbor_response_of_bytes :: "bytes \<Rightarrow> io_error + cbor_response" where
  "cbor_response_of_bytes [] = Inl Io_InvalidData"
| "cbor_response_of_bytes (status_byte # body) =
     Inr \<lparr>cs_status_code = ctap_error_of_u8 status_byte,
       cs_data = (if body = [] then None else Some body)\<rparr>"

section \<open>CTAP1 requests and responses\<close>

text \<open>
  The version is the single \<^verbatim>\<open>U2fV2\<close>; timeouts are milliseconds.  \<open>sha256\<close> stands for the
  digest of the \<^verbatim>\<open>sha2\<close> crate and \<open>x509_rest\<close> for \<^verbatim>\<open>X509Certificate::from_der\<close>, of which
  the code uses the input left after the certificate.
\<close>

datatype ctap1_u2f_version = U2fV2

datatype ctap1_transport = T1_Bt | T1_Ble | T1_Nfc | T1_Usb

datatype ctap2_transport = T2_Ble | T2_Nfc | T2_Usb | T2_Internal | T2_Hybrid | T2_SmartCard
  | T2_Other string

fun ctap1_transport_of_ctap2 :: "ctap2_transport \<Rightarrow> ctap_error + ctap1_transport" where
  "ctap1_transport_of_ctap2 T2_Ble = Inr T1_Ble"
| "ctap1_transport_of_ctap2 T2_Usb = Inr T1_Usb"
| "ctap1_transport_of_ctap2 T2_Nfc = Inr T1_Nfc"
| "ctap1_transport_of_ctap2 _ = Inl Ctap_UnsupportedOption"

record ctap1_registered_key =
  rk_version :: ctap1_u2f_version
  rk_key_handle :: bytes
  rk_transports :: "ctap1_transport list option"
  rk_app_id :: "string option"

definition ctap1_registered_key_new :: "bytes \<Rightarrow> ctap1_registered_key" where
  "ctap1_registered_key_new key_handle =
     \<lparr>rk_version = U2fV2, rk_key_handle = key_handle, rk_transports = None, rk_app_id = None\<rparr>"

record ctap1_register_request =
  rr_version :: ctap1_u2f_version
  rr_app_id_hash :: bytes
  rr_challenge :: bytes
  rr_registered_keys :: "ctap1_registered_key list"
  rr_timeout :: nat
  rr_require_user_presence :: bool

definition ctap1_register_request_new :: "(string \<Rightarrow> bytes) \<Rightarrow> string \<Rightarrow> bytes
    \<Rightarrow> ctap1_registered_key list \<Rightarrow> nat \<Rightarrow> bool \<Rightarrow> ctap1_register_request" where
  "ctap1_register_request_new sha256 app_id challenge registered_keys timeout require_up =
     \<lparr>rr_version = U2fV2, rr_app_id_hash = sha256 app_id, rr_challenge = challenge,
       rr_registered_keys = registered_keys, rr_timeout = timeout,
       rr_require_user_presence = require_up\<rparr>"

definition ctap1_register_request_dummy :: "nat \<Rightarrow> ctap1_register_request" where
  "ctap1_register_request_dummy timeout =
     \<lparr>rr_version = U2fV2, rr_app_id_hash = replicate 32 0, rr_challenge = replicate 32 0,
       rr_registered_keys = [], rr_timeout = timeout, rr_require_user_presence = True\<rparr>"

record ctap1_sign_request =
  sr_app_id_hash :: bytes
  sr_challenge :: bytes
  sr_key_handle :: bytes
  sr_timeout :: nat
  sr_require_user_presence :: bool

definition ctap1_sign_request_new ::
    "(string \<Rightarrow> bytes) \<Rightarrow> string \<Rightarrow> bytes \<Rightarrow> bytes \<Rightarrow> nat \<Rightarrow> bool \<Rightarrow> ctap1_sign_request" where
  "ctap1_sign_request_new sha256 app_id challenge key_handle timeout require_up =
     \<lparr>sr_app_id_hash = sha256 app_id, sr_challenge = challenge, sr_key_handle = key_handle,
       sr_timeout = timeout, sr_require_user_presence = require_up\<rparr>"

definition ctap1_sign_request_preflight :: "bytes \<Rightarrow> bytes \<Rightarrow> bytes \<Rightarrow> nat \<Rightarrow> ctap1_sign_request" where
  "ctap1_sign_request_preflight app_id_hash challenge key_handle timeout =
     \<lparr>sr_app_id_hash = app_id_hash, sr_challenge = challenge, sr_key_handle = key_handle,
       sr_timeout = timeout, sr_require_user_presence = False\<rparr>"

definition ctap1_preflight ::
    "ctap1_register_request \<Rightarrow> ctap_error + (ctap1_register_request \<times> ctap1_sign_request list)" where
  "ctap1_preflight r =
     Inr (r\<lparr>rr_registered_keys := []\<rparr>,
       map (\<lambda>k. ctap1_sign_request_preflight (rr_app_id_hash r) (replicate 32 0) (rk_key_handle k)
         (rr_timeout r)) (rr_registered_keys r))"

definition apdu_of_register :: "ctap1_register_request \<Rightarrow> apdu_request" where
  "apdu_of_register r =
     apdu_request_new U2F_REGISTER CONTROL_BYTE_ENFORCE_UP_AND_SIGN 0x00
       (Some (rr_challenge r @ rr_app_id_hash r)) (Some APDU_EXTENDED_MAX_LE)"

definition apdu_of_version :: apdu_request where
  "apdu_of_version = apdu_request_new U2F_VERSION 0x00 0x00 None (Some APDU_SHORT_LE)"

definition apdu_of_sign :: "ctap1_sign_request \<Rightarrow> apdu_request" where
  "apdu_of_sign r =
     (let p1 = (if sr_require_user_presence r then CONTROL_BYTE_ENFORCE_UP_AND_SIGN
                else CONTROL_BYTE_DONT_ENFORCE_UP_AND_SIGN)
      in apdu_request_new U2F_AUTHENTICATE p1 0x00
           (Some (sr_challenge r @ sr_app_id_hash r @ [of_nat (length (sr_key_handle r))]
             @ sr_key_handle r)) (Some APDU_SHORT_LE))"

record ctap1_register_response =
  rs_version :: ctap1_u2f_version
  rs_public_key :: bytes
  rs_key_handle :: bytes
  rs_attestation :: bytes
  rs_signature :: bytes

definition apdu_success_data :: "apdu_response \<Rightarrow> io_error + bytes" where
  "apdu_success_data apdu =
     result_bind (apdu_response_status apdu) (\<lambda>status.
     if status \<noteq> Sw_NoError then Inl Io_InvalidInput
     else ok_or Io_InvalidInput (ap_data apdu))"

definition ctap1_register_response_of_apdu ::
    "(bytes \<Rightarrow> bytes option) \<Rightarrow> apdu_response \<Rightarrow> io_error + ctap1_register_response" where
  "ctap1_register_response_of_apdu x509_rest apdu =
     result_bind (apdu_success_data apdu) (\<lambda>data.
     result_bind (read_exact 65 (drop 1 data)) (\<lambda>(public_key, cur).
     result_bind (read_u8 cur) (\<lambda>(key_handle_len, cur).
     result_bind (read_exact (unat key_handle_len) cur) (\<lambda>(key_handle, remaining).
     result_bind (ok_or Io_InvalidData (x509_rest remaining)) (\<lambda>signature.
     if length signature > length remaining then Inl Io_InvalidData
     else Inr \<lparr>rs_version = U2fV2, rs_public_key = public_key, rs_key_handle = key_handle,
       rs_attestation = take (length remaining - length signature) remaining,
       rs_signature = signature\<rparr>)))))"

definition ctap1_as_registered_key :: "ctap1_register_response \<Rightarrow> io_error + ctap1_registered_key" where
  "ctap1_as_registered_key r = Inr (ctap1_registered_key_new (rs_key_handle r))"

record ctap1_version_response =
  vr_version :: ctap1_u2f_version

text \<open>
  \<^verbatim>\<open>String::from_utf8\<close> and the comparison with \<^verbatim>\<open>"U2F_V2"\<close>: the bytes are those of the
  ASCII string, or the result is the same error.
\<close>

definition ctap1_version_response_of_apdu :: "apdu_response \<Rightarrow> io_error + ctap1_version_response" where
  "ctap1_version_response_of_apdu apdu =
     result_bind (apdu_success_data apdu) (\<lambda>data.
     if data = [0x55, 0x32, 0x46, 0x5F, 0x56, 0x32] then Inr \<lparr>vr_version = U2fV2\<rparr>
     else Inl Io_InvalidInput)"

record ctap1_sign_response =
  ss_user_presence_verified :: bool
  ss_counter :: u32
  ss_signature :: bytes

definition ctap1_sign_response_of_apdu :: "apdu_response \<Rightarrow> io_error + ctap1_sign_response" where
  "ctap1_sign_response_of_apdu apdu =
     result_bind (apdu_success_data apdu) (\<lambda>data.
     result_bind (read_u8 data) (\<lambda>(b, cur).
     result_bind (read_u32_be cur) (\<lambda>(counter, signature).
     Inr \<lparr>ss_user_presence_verified = (b = 0x01), ss_counter = counter, ss_signature = signature\<rparr>)))"

section \<open>Lemmas\<close>

lemma ctap_error_table_codes: "(b, e) \<in> set ctap_error_table \<Longrightarrow> ctap_error_to_u8 e = b"
  by (auto simp: ctap_error_table_def)

lemma ctap_error_to_of_u8 [simp]: "ctap_error_to_u8 (ctap_error_of_u8 b) = b"
  by (auto simp: ctap_error_of_u8_def ctap_error_table_codes split: option.split dest: map_of_SomeD)

lemma ctap_error_known_in_table:
  "ctap_is_known e \<Longrightarrow> map_of ctap_error_table (ctap_error_to_u8 e) = Some e"
  by (cases e) (simp_all add: ctap_error_table_def)

lemma ctap_error_of_to_u8: "ctap_is_known e \<Longrightarrow> ctap_error_of_u8 (ctap_error_to_u8 e) = e"
  by (simp add: ctap_error_of_u8_def ctap_error_known_in_table)

lemma ctap_error_of_u8_zero [simp]: "ctap_error_of_u8 0 = Ctap_Ok"
  using ctap_error_of_to_u8 [of Ctap_Ok] by simp

lemma apdu_status_of_to_u16 [simp]: "apdu_status_of_u16 (apdu_status_to_u16 s) = Some s"
  by (cases s) (simp_all add: apdu_status_of_u16_def)

lemma apdu_response_of_bytes_append:
  "apdu_response_of_bytes (body @ [sw1, sw2])
    = Inr \<lparr>ap_data = (if body = [] then None else Some body), ap_sw1 = sw1, ap_sw2 = sw2\<rparr>"
  by (simp add: apdu_response_of_bytes_def slice_get_def)

lemma apdu_success_data_bytes:
  "body \<noteq> [] \<Longrightarrow> result_bind (apdu_response_of_bytes (body @ [0x90, 0])) apdu_success_data = Inr body"
  by (simp add: apdu_response_of_bytes_append apdu_success_data_def apdu_response_status_def
      u16_of_be_def apdu_status_of_u16_def)

lemma apdu_success_bind:
  assumes "body \<noteq> []"
  shows "result_bind (apdu_response_of_bytes (body @ [0x90, 0])) (\<lambda>r. result_bind (apdu_success_data r) f)
    = f body"
  using apdu_success_data_bytes [OF assms] by (auto simp: result_convs)

lemma u24_of_be_be:
  assumes "n < 2 ^ 24"
  shows "case be_u24 (of_nat n) of [a, b, c] \<Rightarrow> unat (u32_of_be 0 a b c) = n"
proof -
  have n: "unat (of_nat n :: u32) = n"
    using assms by (simp add: unat_of_nat take_bit_eq_mod)
  have "drop_bit 24 (of_nat n :: u32) = 0"
    using assms n by (intro unsigned_word_eqI [where ?'a = nat])
      (simp add: drop_bit_eq_div unat_div_distrib)
  then have "ucast (drop_bit 24 (of_nat n :: u32)) = (0 :: u8)" by simp
  then show ?thesis
    using u32_of_be_be [of "of_nat n"] n by (simp add: be_u24_def)
qed

section \<open>What an extended APDU says\<close>

text \<open>
  The reading of an extended-length command APDU by ISO 7816-4: class, instruction and
  parameters, a three-byte length of data, the data, and an optional two-byte expected length in
  which zero stands for 65536.
\<close>

definition apdu_long_decode :: "bytes \<Rightarrow> (u8 \<times> u8 \<times> u8 \<times> u8 \<times> bytes \<times> nat option) option" where
  "apdu_long_decode raw =
     (case raw of
        cla # ins # p1 # p2 # a # b # c # rest \<Rightarrow>
          let n = unat (u32_of_be 0 a b c);
              data = take n rest
          in if length rest < n then None
             else case drop n rest of
               [] \<Rightarrow> Some (cla, ins, p1, p2, data, None)
             | [h, l] \<Rightarrow> Some (cla, ins, p1, p2, data,
                 Some (if u16_of_be h l = 0 then 65536 else unat (u16_of_be h l)))
             | _ \<Rightarrow> None
      | _ \<Rightarrow> None)"

lemma apdu_le_field:
  "case be_u16 (if le \<ge> 0x10000 then 0 else of_nat le) of
     [h, l] \<Rightarrow> (if u16_of_be h l = 0 then 65536 else unat (u16_of_be h l))
       = (if le = 0 \<or> 65536 \<le> le then 65536 else le)"
proof (cases "le \<ge> 0x10000")
  case True
  then show ?thesis by (simp add: be_u16_def u16_of_be_def)
next
  case False
  then have le: "unat (of_nat le :: u16) = le" by (intro unat_of_nat_u16) simp
  moreover have "(of_nat le :: u16) = 0 \<longleftrightarrow> le = 0"
    by (subst (2) le [symmetric]) (simp only: unsigned_eq_0_iff)
  ultimately show ?thesis using False by (simp only: be_u16_def if_False list.case u16_of_be_be) simp
qed

section \<open>Properties\<close>

text \<open>
  Every status byte survives conversion to a status code and back, and every named status
  code is the code of some byte, so no code is lost or merged with another.
\<close>

theorem ctap_error_bytes:
  "ctap_error_to_u8 (ctap_error_of_u8 b) = b \<and> {e. ctap_is_known e} \<subseteq> range ctap_error_of_u8"
proof
  show "{e. ctap_is_known e} \<subseteq> range ctap_error_of_u8"
    by (metis (mono_tags, lifting) ctap_error_of_to_u8 mem_Collect_eq rangeI subsetI)
qed simp

text \<open>
  An APDU request that can be serialized in the extended form reads back, by the ISO 7816-4
  layout, as the same instruction, parameters and data, and as the same expected length, where 0
  and everything from 65536 on mean 65536.
\<close>

theorem apdu_raw_long_decodes:
  assumes "apdu_raw_long r = Inr raw"
  shows "apdu_long_decode raw = Some (0, ar_ins r, ar_p1 r, ar_p2 r,
     (case ar_data r of None \<Rightarrow> [] | Some d \<Rightarrow> d),
     map_option (\<lambda>le. if le = 0 \<or> 65536 \<le> le then 65536 else le) (ar_response_max_length r))"
proof -
  let ?d = "case ar_data r of None \<Rightarrow> [] | Some d \<Rightarrow> d"
  let ?le = "case ar_response_max_length r of None \<Rightarrow> []
     | Some le \<Rightarrow> be_u16 (if le \<ge> 0x10000 then 0 else of_nat le)"
  have d: "length ?d < 2 ^ 24" and
    raw: "raw = [0, ar_ins r, ar_p1 r, ar_p2 r] @ be_u24 (of_nat (length ?d)) @ ?d @ ?le"
    using assms by (auto simp: apdu_raw_long_def apdu_consts result_convs split: option.splits if_splits)
  obtain a b c where abc: "be_u24 (of_nat (length ?d)) = [a, b, c]" "unat (u32_of_be 0 a b c) = length ?d"
    using u24_of_be_be [OF d] by (simp add: be_u24_def)
  show ?thesis
  proof (cases "ar_response_max_length r")
    case None
    then show ?thesis
      by (simp add: apdu_long_decode_def raw abc Let_def)
  next
    case (Some le)
    obtain h l where "be_u16 (if le \<ge> 0x10000 then 0 else of_nat le) = [h, l]"
      by (simp add: be_u16_def)
    with apdu_le_field [of le] Some show ?thesis
      by (simp add: apdu_long_decode_def raw abc Let_def)
  qed
qed

lemma apdu_raw_long_decodes_witness:
  "apdu_long_decode [0, 2, 3, 0, 0, 0, 2, 0xAA, 0xBB, 1, 0] = Some (0, ar_ins (apdu_request_new 2 3 0 (Some [0xAA, 0xBB]) (Some 256)),
     ar_p1 (apdu_request_new 2 3 0 (Some [0xAA, 0xBB]) (Some 256)),
     ar_p2 (apdu_request_new 2 3 0 (Some [0xAA, 0xBB]) (Some 256)),
     (case ar_data (apdu_request_new 2 3 0 (Some [0xAA, 0xBB]) (Some 256)) of None \<Rightarrow> [] | Some d \<Rightarrow> d),
     map_option (\<lambda>le. if le = 0 \<or> 65536 \<le> le then 65536 else le)
       (ar_response_max_length (apdu_request_new 2 3 0 (Some [0xAA, 0xBB]) (Some 256))))"
  by (rule apdu_raw_long_decodes)
    (simp add: apdu_raw_long_def apdu_request_new_def apdu_consts be_u24_def be_u16_def)

text \<open>
  A U2F authentication response (presence byte, big-endian counter, signature, status 9000)
  is parsed into exactly these parts, and a registration response (reserved byte, 65-byte public
  key, key handle with its length, certificate and signature) into its parts, for any certificate
  parser that returns what follows the certificate.
\<close>

theorem ctap1_responses_parsed:
  assumes "length public_key = 65" and "length key_handle < 256"
    and "x509_rest (certificate @ signature) = Some signature"
  shows "result_bind (apdu_response_of_bytes ([up] @ be_u32 counter @ signature @ [0x90, 0]))
        ctap1_sign_response_of_apdu
      = Inr \<lparr>ss_user_presence_verified = (up = 1), ss_counter = counter, ss_signature = signature\<rparr>
    \<and> result_bind (apdu_response_of_bytes ([reserved] @ public_key
          @ [of_nat (length key_handle)] @ key_handle @ certificate @ signature @ [0x90, 0]))
        (ctap1_register_response_of_apdu x509_rest)
      = Inr \<lparr>rs_version = U2fV2, rs_public_key = public_key, rs_key_handle = key_handle,
          rs_attestation = certificate, rs_signature = signature\<rparr>"
proof
  let ?b = "[up] @ be_u32 counter @ signature"
  have "result_bind (apdu_response_of_bytes (?b @ [0x90, 0])) ctap1_sign_response_of_apdu
    = Inr \<lparr>ss_user_presence_verified = (up = 1), ss_counter = counter, ss_signature = signature\<rparr>"
    unfolding ctap1_sign_response_of_apdu_def by (subst apdu_success_bind) simp_all
  then show "result_bind (apdu_response_of_bytes ([up] @ be_u32 counter @ signature @ [0x90, 0]))
      ctap1_sign_response_of_apdu
    = Inr \<lparr>ss_user_presence_verified = (up = 1), ss_counter = counter, ss_signature = signature\<rparr>"
    by (simp only: append_assoc)
next
  let ?b = "[reserved] @ public_key @ [of_nat (length key_handle)] @ key_handle @ certificate @ signature"
  have "unat (of_nat (length key_handle) :: u8) = length key_handle"
    using assms(2) by (simp add: unat_of_nat take_bit_eq_mod)
  then have "result_bind (apdu_response_of_bytes (?b @ [0x90, 0]))
      (ctap1_register_response_of_apdu x509_rest)
    = Inr \<lparr>rs_version = U2fV2, rs_public_key = public_key, rs_key_handle = key_handle,
        rs_attestation = certificate, rs_signature = signature\<rparr>"
    unfolding ctap1_register_response_of_apdu_def
    by (subst apdu_success_bind) (simp_all add: read_exact_append assms)
  then show "result_bind (apdu_response_of_bytes ([reserved] @ public_key
        @ [of_nat (length key_handle)] @ key_handle @ certificate @ signature @ [0x90, 0]))
      (ctap1_register_response_of_apdu x509_rest)
    = Inr \<lparr>rs_version = U2fV2, rs_public_key = public_key, rs_key_handle = key_handle,
        rs_attestation = certificate, rs_signature = signature\<rparr>"
    by (simp only: append_assoc)
qed

lemma ctap1_responses_parsed_witness:
  "result_bind (apdu_response_of_bytes ([1] @ be_u32 5 @ [0xEE] @ [0x90, 0])) ctap1_sign_response_of_apdu
      = Inr \<lparr>ss_user_presence_verified = (1 = (1 :: u8)), ss_counter = 5, ss_signature = [0xEE]\<rparr>
    \<and> result_bind (apdu_response_of_bytes ([5] @ replicate 65 4
          @ [of_nat (length [7 :: u8, 8])] @ [7, 8] @ [0x30, 0] @ [0xEE] @ [0x90, 0]))
        (ctap1_register_response_of_apdu (\<lambda>bs. if 2 \<le> length bs then Some (drop 2 bs) else None))
      = Inr \<lparr>rs_version = U2fV2, rs_public_key = replicate 65 4, rs_key_handle = [7, 8],
          rs_attestation = [0x30, 0], rs_signature = [0xEE]\<rparr>"
  by (rule ctap1_responses_parsed) simp_all

end
