(* ===== verification/Platform.thy ===== *)
theory Platform
  imports Ctap_Messages
begin

text \<open>
  What the ceremonies run on: the errors of \<^verbatim>\<open>webauthn/error.rs\<close>, the computations of async
  Rust on a state (a result and the state after it), and the parameters that stand for code
  outside the repository: the cryptographic crates, the random number generator, the
  authenticator behind a channel and the user.
\<close>

section \<open>Errors\<close>

text \<open>The text of a crypto or CBOR error is not modelled.\<close>

datatype platform_error = Pe_PinTooShort | Pe_PinTooLong | Pe_PinNotSupported | Pe_NoUvAvailable
  | Pe_InvalidDeviceResponse | Pe_RequestTooLarge | Pe_NotSupported | Pe_SyntaxError
  | Pe_CborError | Pe_CryptoError | Pe_Cancelled

datatype 'te webauthn_error = We_Ctap ctap_error | We_Transport 'te | We_Platform platform_error

section \<open>Computations on a state\<close>

text \<open>
  \<open>None\<close> is a loop that has not ended within the fuel it was given; otherwise the result, an
  error or a value, and the state.
\<close>

type_synonym ('s, 'e, 'a) action = "'s \<Rightarrow> (('e + 'a) \<times> 's) option"

definition act_return :: "'a \<Rightarrow> ('s, 'e, 'a) action" where
  "act_return x s = Some (Inr x, s)"

definition act_fail :: "'e \<Rightarrow> ('s, 'e, 'a) action" where
  "act_fail e s = Some (Inl e, s)"

definition act_lift :: "'e + 'a \<Rightarrow> ('s, 'e, 'a) action" where
  "act_lift r s = Some (r, s)"

definition act_bind :: "('s, 'e, 'a) action \<Rightarrow> ('a \<Rightarrow> ('s, 'e, 'b) action) \<Rightarrow> ('s, 'e, 'b) action" where
  "act_bind m f s =
     (case m s of
        None \<Rightarrow> None
      | Some (Inl e, s') \<Rightarrow> Some (Inl e, s')
      | Some (Inr x, s') \<Rightarrow> f x s')"

text \<open>\<open>act_try\<close> hands the result, error or value, to the continuation (a \<^verbatim>\<open>match\<close> on it).\<close>

definition act_try :: "('s, 'e, 'a) action \<Rightarrow> ('e + 'a \<Rightarrow> ('s, 'f, 'b) action) \<Rightarrow> ('s, 'f, 'b) action" where
  "act_try m f s = (case m s of None \<Rightarrow> None | Some (r, s') \<Rightarrow> f r s')"

definition act_get :: "('s \<Rightarrow> 'a) \<Rightarrow> ('s, 'e, 'a) action" where
  "act_get f s = Some (Inr (f s), s)"

definition act_modify :: "('s \<Rightarrow> 's) \<Rightarrow> ('s, 'e, unit) action" where
  "act_modify f s = Some (Inr (), f s)"

definition act_map_err :: "('e \<Rightarrow> 'f) \<Rightarrow> ('s, 'e, 'a) action \<Rightarrow> ('s, 'f, 'a) action" where
  "act_map_err h m = act_try m (\<lambda>r. act_lift (map_err h r))"

named_theorems act_simps "evaluation of actions"

lemma act_run [act_simps]:
  "act_return x s = Some (Inr x, s)"
  "act_fail e s = Some (Inl e, s)"
  "act_lift r s = Some (r, s)"
  "act_get f s = Some (Inr (f s), s)"
  "act_modify g s = Some (Inr (), g s)"
  by (simp_all add: act_return_def act_fail_def act_lift_def act_get_def act_modify_def)

lemma act_bind_Some [act_simps]:
  "m s = Some (Inr x, s') \<Longrightarrow> act_bind m f s = f x s'"
  "m s = Some (Inl e, s') \<Longrightarrow> act_bind m f s = Some (Inl e, s')"
  by (simp_all add: act_bind_def)

lemma act_try_Some [act_simps]: "m s = Some (r, s') \<Longrightarrow> act_try m f s = f r s'"
  by (simp add: act_try_def)

lemma act_bind_run [simp]:
  "act_bind (act_return x) f = f x"
  "act_bind (act_fail e) f = act_fail e"
  "act_bind (act_lift (Inr x)) f = f x"
  "act_bind (act_lift (Inl e)) f = act_fail e"
  by (simp_all add: act_bind_def fun_eq_iff act_run)

lemma act_bind_SomeE:
  assumes "act_bind m f s = Some (r, t)"
  obtains e where "m s = Some (Inl e, t)" "r = Inl e"
  | x s' where "m s = Some (Inr x, s')" "f x s' = Some (r, t)"
  using assms by (auto simp: act_bind_def split: option.splits sum.splits)

lemma act_bind_InrE:
  assumes "act_bind m f s = Some (Inr y, t)"
  obtains x s' where "m s = Some (Inr x, s')" "f x s' = Some (Inr y, t)"
  using assms by (auto elim: act_bind_SomeE)

section \<open>What an action can return and what it keeps\<close>

text \<open>
  \<open>yields m x\<close>: some run of \<open>m\<close> returns the value \<open>x\<close>.  \<open>keeps P m\<close>: no run of \<open>m\<close>, whether it
  ends with a value or an error, breaks the invariant \<open>P\<close>.
\<close>

definition yields :: "('s, 'e, 'a) action \<Rightarrow> 'a \<Rightarrow> bool" where
  "yields m x \<longleftrightarrow> (\<exists>s s'. m s = Some (Inr x, s'))"

definition keeps :: "('s \<Rightarrow> bool) \<Rightarrow> ('s, 'e, 'a) action \<Rightarrow> bool" where
  "keeps P m \<longleftrightarrow> (\<forall>s r s'. P s \<longrightarrow> m s = Some (r, s') \<longrightarrow> P s')"

named_theorems keeps_rules "composition of invariants of actions"

lemma yields_run [simp]:
  "yields (act_return x) y \<longleftrightarrow> y = x"
  "\<not> yields (act_fail e) y"
  "yields (act_lift r) y \<longleftrightarrow> r = Inr y"
  "yields (act_get f) y \<longleftrightarrow> (\<exists>s. y = f s)"
  "yields (act_modify g) u \<longleftrightarrow> True"
  "\<not> yields (\<lambda>s. None) y"
  by (auto simp: yields_def act_run)

lemma yields_bindE:
  assumes "yields (act_bind m f) y"
  obtains x where "yields m x" "yields (f x) y"
  using assms unfolding yields_def by (blast elim: act_bind_InrE)

lemma yields_tryE:
  assumes "yields (act_try m f) y"
  obtains r s s' where "m s = Some (r, s')" "yields (f r) y"
proof -
  obtain s t where "act_try m f s = Some (Inr y, t)" using assms by (auto simp: yields_def)
  then obtain r s' where "m s = Some (r, s')" "f r s' = Some (Inr y, t)"
    by (auto simp: act_try_def split: option.splits)
  then show thesis using that unfolding yields_def by blast
qed

lemma keepsI: "(\<And>s r s'. P s \<Longrightarrow> m s = Some (r, s') \<Longrightarrow> P s') \<Longrightarrow> keeps P m"
  by (simp add: keeps_def)

lemma keepsD: "keeps P m \<Longrightarrow> P s \<Longrightarrow> m s = Some (r, s') \<Longrightarrow> P s'"
  by (simp add: keeps_def)

lemma keeps_run [keeps_rules]:
  "keeps P (act_return x)"
  "keeps P (act_fail e)"
  "keeps P (act_lift r)"
  "keeps P (act_get f)"
  "keeps P (\<lambda>s. None)"
  by (auto simp: keeps_def act_run)

lemma keeps_modify [keeps_rules]: "(\<And>s. P s \<Longrightarrow> P (g s)) \<Longrightarrow> keeps P (act_modify g)"
  by (auto simp: keeps_def act_run)

lemma keeps_bind [keeps_rules]:
  assumes "keeps P m" and "\<And>x. yields m x \<Longrightarrow> keeps P (f x)"
  shows "keeps P (act_bind m f)"
proof (rule keepsI)
  fix s r t
  assume "P s" and "act_bind m f s = Some (r, t)"
  from this(2) show "P t"
  proof (cases rule: act_bind_SomeE)
    case (1 e)
    then show ?thesis using assms(1) \<open>P s\<close> by (blast dest: keepsD)
  next
    case (2 x s')
    then have "yields m x" by (auto simp: yields_def)
    with 2 show ?thesis using assms \<open>P s\<close> by (blast dest: keepsD)
  qed
qed

lemma keeps_try [keeps_rules]:
  assumes "keeps P m" and "\<And>r. keeps P (f r)"
  shows "keeps P (act_try m f)"
proof (rule keepsI)
  fix s r t
  assume "P s" and "act_try m f s = Some (r, t)"
  then obtain r' s' where "m s = Some (r', s')" "f r' s' = Some (r, t)"
    by (auto simp: act_try_def split: option.splits)
  then show "P t" using assms \<open>P s\<close> by (blast dest: keepsD)
qed

lemma keeps_cases [keeps_rules]:
  "(b \<Longrightarrow> keeps P m) \<Longrightarrow> (\<not> b \<Longrightarrow> keeps P n) \<Longrightarrow> keeps P (if b then m else n)"
  "(z = None \<Longrightarrow> keeps P m) \<Longrightarrow> (\<And>x. z = Some x \<Longrightarrow> keeps P (f x)) \<Longrightarrow>
    keeps P (case z of None \<Rightarrow> m | Some x \<Rightarrow> f x)"
  "(\<And>x y. w = (x, y) \<Longrightarrow> keeps P (g x y)) \<Longrightarrow> keeps P (case w of (x, y) \<Rightarrow> g x y)"
  by (auto split: option.split prod.split)

text \<open>
  \<open>ends P m R\<close>: a run of \<open>m\<close> from a state with \<open>P\<close> ends with a result and a state related by \<open>R\<close>.
\<close>

definition ends :: "('s \<Rightarrow> bool) \<Rightarrow> ('s, 'e, 'a) action \<Rightarrow> ('e + 'a \<Rightarrow> 's \<Rightarrow> bool) \<Rightarrow> bool" where
  "ends P m R \<longleftrightarrow> (\<forall>s r s'. P s \<longrightarrow> m s = Some (r, s') \<longrightarrow> R r s')"

lemma endsI: "(\<And>s r s'. P s \<Longrightarrow> m s = Some (r, s') \<Longrightarrow> R r s') \<Longrightarrow> ends P m R"
  by (simp add: ends_def)

lemma endsD: "ends P m R \<Longrightarrow> P s \<Longrightarrow> m s = Some (r, s') \<Longrightarrow> R r s'"
  by (simp add: ends_def)

lemma ends_run:
  "ends P (act_return x) R \<longleftrightarrow> (\<forall>s. P s \<longrightarrow> R (Inr x) s)"
  "ends P (act_fail e) R \<longleftrightarrow> (\<forall>s. P s \<longrightarrow> R (Inl e) s)"
  "ends P (act_lift r) R \<longleftrightarrow> (\<forall>s. P s \<longrightarrow> R r s)"
  by (auto simp: ends_def act_run)

lemma ends_modify: "ends P (act_modify g) R \<longleftrightarrow> (\<forall>s. P s \<longrightarrow> R (Inr ()) (g s))"
  by (auto simp: ends_def act_run)

lemma ends_bind:
  assumes "keeps P m" and "\<And>e s. P s \<Longrightarrow> R (Inl e) s" and "\<And>x. yields m x \<Longrightarrow> ends P (f x) R"
  shows "ends P (act_bind m f) R"
proof (rule endsI)
  fix s r t
  assume "P s" and "act_bind m f s = Some (r, t)"
  from this(2) show "R r t"
  proof (cases rule: act_bind_SomeE)
    case (1 e)
    then show ?thesis using assms(1,2) \<open>P s\<close> by (blast dest: keepsD)
  next
    case (2 x s')
    then have "yields m x" by (auto simp: yields_def)
    with 2 show ?thesis using assms(1,3) \<open>P s\<close> by (blast dest: keepsD endsD)
  qed
qed

lemma ends_get: "(\<And>s. P s \<Longrightarrow> ends (\<lambda>s'. s' = s) (f (g s)) R) \<Longrightarrow> ends P (act_bind (act_get g) f) R"
  by (auto simp: ends_def act_bind_def act_run)

lemma ends_weaken: "ends P m R \<Longrightarrow> (\<And>s. Q s \<Longrightarrow> P s) \<Longrightarrow> ends Q m R"
  by (auto simp: ends_def)

section \<open>Text\<close>

text \<open>A Rust \<^verbatim>\<open>String\<close> that is not ASCII by construction is a list of code points.\<close>

type_synonym code_points = "nat list"

definition utf8_char :: "nat \<Rightarrow> bytes" where
  "utf8_char c =
     (if c < 0x80 then [of_nat c]
      else if c < 0x800 then [of_nat (0xC0 + c div 64), of_nat (0x80 + c mod 64)]
      else if c < 0x10000 then
        [of_nat (0xE0 + c div 4096), of_nat (0x80 + c div 64 mod 64), of_nat (0x80 + c mod 64)]
      else [of_nat (0xF0 + c div 262144), of_nat (0x80 + c div 4096 mod 64),
        of_nat (0x80 + c div 64 mod 64), of_nat (0x80 + c mod 64)])"

definition utf8_bytes :: "code_points \<Rightarrow> bytes" where
  "utf8_bytes cs = concat (map utf8_char cs)"

section \<open>Cryptography and the outside world\<close>

text \<open>
  The primitives of the crates \<^verbatim>\<open>sha2\<close>, \<^verbatim>\<open>hmac\<close>, \<^verbatim>\<open>hkdf\<close>, \<^verbatim>\<open>aes\<close>/\<^verbatim>\<open>cbc\<close>, \<^verbatim>\<open>p256\<close> and
  \<^verbatim>\<open>icu_normalizer\<close>; \<open>None\<close> is the error they return (a key of the wrong length, a point off the
  curve).  A private key is the byte string of its scalar, a point its two coordinates.
\<close>

record crypto =
  c_sha256 :: "bytes \<Rightarrow> bytes"
  c_hmac_sha256 :: "bytes \<Rightarrow> bytes \<Rightarrow> bytes option"
  c_hkdf_sha256 :: "bytes \<Rightarrow> bytes \<Rightarrow> bytes \<Rightarrow> nat \<Rightarrow> bytes option"
  c_aes256_cbc_encrypt :: "bytes \<Rightarrow> bytes \<Rightarrow> bytes \<Rightarrow> bytes option"
  c_aes256_cbc_decrypt :: "bytes \<Rightarrow> bytes \<Rightarrow> bytes \<Rightarrow> bytes option"
  c_aes128_cbc_decrypt :: "bytes \<Rightarrow> bytes \<Rightarrow> bytes \<Rightarrow> bytes option"
  c_p256_public :: "bytes \<Rightarrow> bytes \<times> bytes"
  c_p256_ecdh :: "bytes \<Rightarrow> bytes \<times> bytes \<Rightarrow> bytes option"
  c_nfc :: "code_points \<Rightarrow> code_points"

text \<open>\<^verbatim>\<open>cosey::PublicKey\<close>: the one variant the code uses, and the others.\<close>

datatype cose_public_key = EcdhEsHkdf256Key bytes bytes | Cose_OtherKey

end
