(* ===== verification/Get_Info.thy ===== *)
theory Get_Info
  imports Prelude
begin

text \<open>
  The authenticatorGetInfo response and what the platform reads from it
  (\<^verbatim>\<open>proto/ctap2/model/get_info.rs\<close>): limits, options, and the choice of the user
  verification operation.
\<close>

section \<open>The response\<close>

record credential_type =
  ct_algorithm :: int
  ct_public_key :: bool

text \<open>Strings are ASCII here, a \<^verbatim>\<open>HashMap\<close> is a map; the order of an array is kept.\<close>

record get_info_response =
  gi_versions :: "string list"
  gi_extensions :: "string list option"
  gi_aaguid :: bytes
  gi_options :: "(string \<rightharpoonup> bool) option"
  gi_max_msg_size :: "u32 option"
  gi_pin_auth_protos :: "u32 list option"
  gi_max_credential_count :: "u32 option"
  gi_max_credential_id_length :: "u32 option"
  gi_transports :: "string list option"
  gi_algorithms :: "credential_type list option"
  gi_max_blob_array :: "u32 option"
  gi_force_pin_change :: "bool option"
  gi_min_pin_length :: "u32 option"
  gi_firmware_version :: "u32 option"
  gi_max_cred_blob_length :: "u32 option"
  gi_max_rpids_for_setminpinlength :: "u32 option"
  gi_preferred_platform_uv_attempts :: "u32 option"
  gi_uv_modality :: "u32 option"
  gi_certifications :: "(string \<rightharpoonup> u32) option"
  gi_remaining_discoverable_creds :: "u32 option"
  gi_vendor_proto_config_cmds :: "u32 list option"
  gi_attestation_formats :: "string list option"
  gi_uv_count_since_last_pin_entry :: "u32 option"
  gi_long_touch_for_reset :: "bool option"
  gi_enc_identifier :: "bytes option"
  gi_transports_for_reset :: "string list option"
  gi_pin_complexity_policy :: "bool option"
  gi_pin_complexity_policy_url :: "bytes option"
  gi_max_pin_length :: "u32 option"

text \<open>\<^verbatim>\<open>Ctap2GetInfoResponse::default()\<close>, all fields empty.\<close>

definition get_info_default :: get_info_response where
  "get_info_default = \<lparr>gi_versions = [], gi_extensions = None, gi_aaguid = [], gi_options = None,
     gi_max_msg_size = None, gi_pin_auth_protos = None, gi_max_credential_count = None,
     gi_max_credential_id_length = None, gi_transports = None, gi_algorithms = None,
     gi_max_blob_array = None, gi_force_pin_change = None, gi_min_pin_length = None,
     gi_firmware_version = None, gi_max_cred_blob_length = None,
     gi_max_rpids_for_setminpinlength = None, gi_preferred_platform_uv_attempts = None,
     gi_uv_modality = None, gi_certifications = None, gi_remaining_discoverable_creds = None,
     gi_vendor_proto_config_cmds = None, gi_attestation_formats = None,
     gi_uv_count_since_last_pin_entry = None, gi_long_touch_for_reset = None,
     gi_enc_identifier = None, gi_transports_for_reset = None, gi_pin_complexity_policy = None,
     gi_pin_complexity_policy_url = None, gi_max_pin_length = None\<rparr>"

section \<open>Limits and options\<close>

definition DEFAULT_MAX_MSG_SIZE :: nat where "DEFAULT_MAX_MSG_SIZE = 1024"

definition max_msg_size :: "get_info_response \<Rightarrow> nat" where
  "max_msg_size info =
     (case gi_max_msg_size info of
        Some n \<Rightarrow> if n > 0 then unat n else DEFAULT_MAX_MSG_SIZE
      | None \<Rightarrow> DEFAULT_MAX_MSG_SIZE)"

definition max_credential_count_in_list :: "get_info_response \<Rightarrow> nat option" where
  "max_credential_count_in_list info = map_option unat (gi_max_credential_count info)"

definition max_credential_id_length :: "get_info_response \<Rightarrow> nat option" where
  "max_credential_id_length info = map_option unat (gi_max_credential_id_length info)"

definition option_exists :: "get_info_response \<Rightarrow> string \<Rightarrow> bool" where
  "option_exists info name =
     (case gi_options info of None \<Rightarrow> False | Some options \<Rightarrow> options name \<noteq> None)"

definition option_enabled :: "get_info_response \<Rightarrow> string \<Rightarrow> bool" where
  "option_enabled info name =
     (case gi_options info of None \<Rightarrow> False | Some options \<Rightarrow> options name = Some True)"

definition supports_fido_2_1 :: "get_info_response \<Rightarrow> bool" where
  "supports_fido_2_1 info = list_ex (\<lambda>v. v = ''FIDO_2_1'') (gi_versions info)"

definition supports_extension :: "get_info_response \<Rightarrow> string \<Rightarrow> bool" where
  "supports_extension info name =
     (case gi_extensions info of None \<Rightarrow> False | Some exts \<Rightarrow> list_ex (\<lambda>e. e = name) exts)"

definition supports_credential_management :: "get_info_response \<Rightarrow> bool" where
  "supports_credential_management info \<longleftrightarrow>
     option_enabled info ''credMgmt'' \<or> option_enabled info ''credentialMgmtPreview''"

definition supports_persistent_credential_management_read_only :: "get_info_response \<Rightarrow> bool" where
  "supports_persistent_credential_management_read_only info = option_enabled info ''perCredMgmtRO''"

definition supports_bio_enrollment :: "get_info_response \<Rightarrow> bool" where
  "supports_bio_enrollment info =
     (case gi_options info of
        Some options \<Rightarrow> options ''bioEnroll'' \<noteq> None \<or> options ''userVerificationMgmtPreview'' \<noteq> None
      | None \<Rightarrow> False)"

definition has_bio_enrollments :: "get_info_response \<Rightarrow> bool" where
  "has_bio_enrollments info =
     (case gi_options info of
        Some options \<Rightarrow> options ''bioEnroll'' = Some True
          \<or> options ''userVerificationMgmtPreview'' = Some True
      | None \<Rightarrow> False)"

definition is_uv_protected :: "get_info_response \<Rightarrow> bool" where
  "is_uv_protected info \<longleftrightarrow>
     option_enabled info ''uv'' \<or> option_enabled info ''clientPin''
     \<or> (option_enabled info ''pinUvAuthToken'' \<and> option_enabled info ''uv'')"

definition can_establish_shared_secret :: "get_info_response \<Rightarrow> bool" where
  "can_establish_shared_secret info \<longleftrightarrow>
     option_exists info ''clientPin''
     \<or> (option_exists info ''uv'' \<and> option_enabled info ''pinUvAuthToken'')"

section \<open>The user verification operation\<close>

datatype uv_operation = GetPinUvAuthTokenUsingUvWithPermissions
  | GetPinUvAuthTokenUsingPinWithPermissions | GetPinToken | OnlyForSharedSecret | LegacyUv

definition uv_operation_of :: "get_info_response \<Rightarrow> bool \<Rightarrow> uv_operation option" where
  "uv_operation_of info uv_blocked =
     (if option_enabled info ''uv'' \<and> \<not> uv_blocked then
        (if option_enabled info ''pinUvAuthToken'' then Some GetPinUvAuthTokenUsingUvWithPermissions
         else Some LegacyUv)
      else if option_exists info ''clientPin'' \<and> \<not> option_enabled info ''clientPin'' then
        Some OnlyForSharedSecret
      else if \<not> option_enabled info ''clientPin'' \<and> option_exists info ''uv''
          \<and> option_enabled info ''pinUvAuthToken'' then
        Some OnlyForSharedSecret
      else if option_enabled info ''pinUvAuthToken'' then
        (if \<not> option_enabled info ''clientPin'' then Some OnlyForSharedSecret
         else Some GetPinUvAuthTokenUsingPinWithPermissions)
      else if option_enabled info ''clientPin'' then Some GetPinToken
      else None)"

text \<open>The operations that ask the user for a PIN, and those that use built-in verification.\<close>

definition uses_pin :: "uv_operation \<Rightarrow> bool" where
  "uses_pin op \<longleftrightarrow> op = GetPinToken \<or> op = GetPinUvAuthTokenUsingPinWithPermissions"

lemma option_enabled_exists: "option_enabled info name \<Longrightarrow> option_exists info name"
  by (auto simp: option_enabled_def option_exists_def split: option.splits)

lemma uv_operation_uses_pin:
  "uv_operation_of info blocked = Some op \<Longrightarrow> uses_pin op \<Longrightarrow>
    option_enabled info ''clientPin'' \<and> (blocked \<or> \<not> option_enabled info ''uv'')"
  by (auto simp: uv_operation_of_def uses_pin_def split: if_splits)

lemma uv_operation_shared_secret:
  "uv_operation_of info blocked = Some op \<Longrightarrow> op \<noteq> LegacyUv \<Longrightarrow>
    can_establish_shared_secret info \<or> op = OnlyForSharedSecret"
  by (auto simp: uv_operation_of_def can_establish_shared_secret_def dest: option_enabled_exists
      split: if_splits)

section \<open>Properties\<close>

text \<open>
  The chosen operation is the strongest the device offers: built-in verification when it is
  enabled and not blocked (as a token when the device issues tokens, as the legacy flag
  otherwise), else the PIN when one is set (with permissions when the device issues tokens), else
  only a shared secret when the device has the client PIN command or token support, and nothing
  otherwise; in particular a PIN is used only if one is set.
\<close>

theorem uv_operation_choice:
  "uv_operation_of info blocked =
    (let token = option_enabled info ''pinUvAuthToken'';
         pin = option_enabled info ''clientPin'';
         uv = option_enabled info ''uv'' \<and> \<not> blocked
     in if uv then Some (if token then GetPinUvAuthTokenUsingUvWithPermissions else LegacyUv)
        else if pin then Some (if token then GetPinUvAuthTokenUsingPinWithPermissions else GetPinToken)
        else if token \<or> option_exists info ''clientPin'' then Some OnlyForSharedSecret
        else None)"
  by (auto simp: uv_operation_of_def Let_def dest: option_enabled_exists)

end
