(* ===== verification/Client_Pin.thy ===== *)
theory Client_Pin
  imports Platform Get_Info
begin

text \<open>
  Permissions and requests of authenticatorClientPIN
  (\<^verbatim>\<open>proto/ctap2/model/client_pin.rs\<close>), and the pinUvAuthToken a channel keeps
  (\<^verbatim>\<open>transport/channel.rs\<close>).
\<close>

section \<open>Permissions\<close>

text \<open>
  The \<^verbatim>\<open>bitflags\<close> type \<^verbatim>\<open>Ctap2AuthTokenPermissionRole\<close>; the order is inclusion, so that
  \<open>self.contains(other)\<close> is \<open>other \<le> self\<close>.
\<close>

datatype permission_role = Role (role_bits: u32)

instantiation permission_role :: order
begin

definition less_eq_permission_role :: "permission_role \<Rightarrow> permission_role \<Rightarrow> bool" where
  "less_eq_permission_role a b \<longleftrightarrow> role_bits a AND role_bits b = role_bits a"

definition less_permission_role :: "permission_role \<Rightarrow> permission_role \<Rightarrow> bool" where
  "less_permission_role a b \<longleftrightarrow> a \<le> b \<and> a \<noteq> (b :: permission_role)"

instance
proof
  fix a b c :: permission_role
  show "a \<le> a" by (simp add: less_eq_permission_role_def)
  show "a < b \<longleftrightarrow> a \<le> b \<and> \<not> b \<le> a"
    by (cases a; cases b)
      (auto simp: less_permission_role_def less_eq_permission_role_def and.commute)
  show "a \<le> c" if "a \<le> b" "b \<le> c"
    using that unfolding less_eq_permission_role_def by (metis and.assoc)
  show "a = b" if "a \<le> b" "b \<le> a"
    using that by (cases a; cases b) (auto simp: less_eq_permission_role_def and.commute)
qed

end

definition role_contains :: "permission_role \<Rightarrow> permission_role \<Rightarrow> bool" where
  "role_contains self other \<longleftrightarrow> other \<le> self"

definition role_union :: "permission_role \<Rightarrow> permission_role \<Rightarrow> permission_role" where
  "role_union a b = Role (role_bits a OR role_bits b)"

definition role_intersects :: "permission_role \<Rightarrow> permission_role \<Rightarrow> bool" where
  "role_intersects self other \<longleftrightarrow> role_bits self AND role_bits other \<noteq> 0"

definition MAKE_CREDENTIAL :: permission_role where "MAKE_CREDENTIAL = Role 0x01"
definition GET_ASSERTION :: permission_role where "GET_ASSERTION = Role 0x02"
definition CREDENTIAL_MANAGEMENT :: permission_role where "CREDENTIAL_MANAGEMENT = Role 0x04"
definition BIO_ENROLLMENT :: permission_role where "BIO_ENROLLMENT = Role 0x08"
definition LARGE_BLOB_WRITE :: permission_role where "LARGE_BLOB_WRITE = Role 0x10"
definition AUTHENTICATOR_CONFIGURATION :: permission_role where
  "AUTHENTICATOR_CONFIGURATION = Role 0x20"
definition PERSISTENT_CREDENTIAL_MANAGEMENT_READ_ONLY :: permission_role where
  "PERSISTENT_CREDENTIAL_MANAGEMENT_READ_ONLY = Role 0x40"

lemmas role_consts = MAKE_CREDENTIAL_def GET_ASSERTION_def CREDENTIAL_MANAGEMENT_def
  BIO_ENROLLMENT_def LARGE_BLOB_WRITE_def AUTHENTICATOR_CONFIGURATION_def
  PERSISTENT_CREDENTIAL_MANAGEMENT_READ_ONLY_def

lemma role_intersects_mono: "role_intersects a c \<Longrightarrow> a \<le> b \<Longrightarrow> role_intersects b c"
proof -
  assume ac: "role_intersects a c" and "a \<le> b"
  then have "role_bits a AND role_bits c = role_bits a AND (role_bits b AND role_bits c)"
    by (simp add: less_eq_permission_role_def flip: and.assoc)
  with ac show ?thesis
    unfolding role_intersects_def by auto
qed

section \<open>Requests and responses\<close>

datatype pin_uv_auth_protocol = Protocol_One | Protocol_Two

datatype client_pin_command = Cp_GetPinRetries | Cp_GetKeyAgreement | Cp_SetPin | Cp_ChangePin
  | Cp_GetPinToken | Cp_GetPinUvAuthTokenUsingUvWithPermissions | Cp_GetUvRetries
  | Cp_GetPinUvAuthTokenUsingPinWithPermissions

record client_pin_request =
  cp_protocol :: "pin_uv_auth_protocol option"
  cp_command :: client_pin_command
  cp_key_agreement :: "cose_public_key option"
  cp_uv_auth_param :: "bytes option"
  cp_new_pin_encrypted :: "bytes option"
  cp_pin_hash_encrypted :: "bytes option"
  cp_permissions :: "u32 option"
  cp_permissions_rpid :: "string option"

definition new_get_key_agreement :: "pin_uv_auth_protocol \<Rightarrow> client_pin_request" where
  "new_get_key_agreement protocol =
     \<lparr>cp_protocol = Some protocol, cp_command = Cp_GetKeyAgreement, cp_key_agreement = None,
       cp_uv_auth_param = None, cp_new_pin_encrypted = None, cp_pin_hash_encrypted = None,
       cp_permissions = None, cp_permissions_rpid = None\<rparr>"

definition new_get_pin_token ::
    "pin_uv_auth_protocol \<Rightarrow> cose_public_key \<Rightarrow> bytes \<Rightarrow> client_pin_request" where
  "new_get_pin_token protocol public_key pin_hash_enc =
     \<lparr>cp_protocol = Some protocol, cp_command = Cp_GetPinToken, cp_key_agreement = Some public_key,
       cp_uv_auth_param = None, cp_new_pin_encrypted = None,
       cp_pin_hash_encrypted = Some pin_hash_enc, cp_permissions = None, cp_permissions_rpid = None\<rparr>"

definition new_get_pin_retries :: "pin_uv_auth_protocol option \<Rightarrow> client_pin_request" where
  "new_get_pin_retries pin_proto =
     \<lparr>cp_protocol = pin_proto, cp_command = Cp_GetPinRetries, cp_key_agreement = None,
       cp_uv_auth_param = None, cp_new_pin_encrypted = None, cp_pin_hash_encrypted = None,
       cp_permissions = None, cp_permissions_rpid = None\<rparr>"

definition new_get_pin_token_with_perm :: "pin_uv_auth_protocol \<Rightarrow> cose_public_key \<Rightarrow> bytes
    \<Rightarrow> permission_role \<Rightarrow> string option \<Rightarrow> client_pin_request" where
  "new_get_pin_token_with_perm protocol public_key pin_hash_enc permissions permissions_rpid =
     \<lparr>cp_protocol = Some protocol, cp_command = Cp_GetPinUvAuthTokenUsingPinWithPermissions,
       cp_key_agreement = Some public_key, cp_uv_auth_param = None, cp_new_pin_encrypted = None,
       cp_pin_hash_encrypted = Some pin_hash_enc, cp_permissions = Some (role_bits permissions),
       cp_permissions_rpid = permissions_rpid\<rparr>"

definition new_get_uv_token_with_perm :: "pin_uv_auth_protocol \<Rightarrow> cose_public_key
    \<Rightarrow> permission_role \<Rightarrow> string option \<Rightarrow> client_pin_request" where
  "new_get_uv_token_with_perm protocol public_key permissions permissions_rpid =
     \<lparr>cp_protocol = Some protocol, cp_command = Cp_GetPinUvAuthTokenUsingUvWithPermissions,
       cp_key_agreement = Some public_key, cp_uv_auth_param = None, cp_new_pin_encrypted = None,
       cp_pin_hash_encrypted = None, cp_permissions = Some (role_bits permissions),
       cp_permissions_rpid = permissions_rpid\<rparr>"

definition new_get_uv_retries :: client_pin_request where
  "new_get_uv_retries =
     \<lparr>cp_protocol = None, cp_command = Cp_GetUvRetries, cp_key_agreement = None,
       cp_uv_auth_param = None, cp_new_pin_encrypted = None, cp_pin_hash_encrypted = None,
       cp_permissions = None, cp_permissions_rpid = None\<rparr>"

definition new_change_pin :: "pin_uv_auth_protocol \<Rightarrow> bytes \<Rightarrow> bytes \<Rightarrow> cose_public_key \<Rightarrow> bytes
    \<Rightarrow> client_pin_request" where
  "new_change_pin protocol new_pin_enc curr_pin_enc public_key uv_auth_param =
     \<lparr>cp_protocol = Some protocol, cp_command = Cp_ChangePin, cp_key_agreement = Some public_key,
       cp_uv_auth_param = Some uv_auth_param, cp_new_pin_encrypted = Some new_pin_enc,
       cp_pin_hash_encrypted = Some curr_pin_enc, cp_permissions = None, cp_permissions_rpid = None\<rparr>"

definition new_set_pin :: "pin_uv_auth_protocol \<Rightarrow> bytes \<Rightarrow> cose_public_key \<Rightarrow> bytes
    \<Rightarrow> client_pin_request" where
  "new_set_pin protocol new_pin_enc public_key uv_auth_param =
     \<lparr>cp_protocol = Some protocol, cp_command = Cp_SetPin, cp_key_agreement = Some public_key,
       cp_uv_auth_param = Some uv_auth_param, cp_new_pin_encrypted = Some new_pin_enc,
       cp_pin_hash_encrypted = None, cp_permissions = None, cp_permissions_rpid = None\<rparr>"

record client_pin_response =
  cpr_key_agreement :: "cose_public_key option"
  cpr_pin_uv_auth_token :: "bytes option"
  cpr_pin_retries :: "u32 option"
  cpr_power_cycle_state :: "bool option"
  cpr_uv_retries :: "u32 option"

definition client_pin_response_default :: client_pin_response where
  "client_pin_response_default = \<lparr>cpr_key_agreement = None, cpr_pin_uv_auth_token = None,
     cpr_pin_retries = None, cpr_power_cycle_state = None, cpr_uv_retries = None\<rparr>"

section \<open>The token a channel keeps\<close>

record auth_token_permission =
  atp_pin_uv_auth_protocol :: pin_uv_auth_protocol
  atp_role :: permission_role
  atp_rpid :: "string option"

definition auth_token_permission_new ::
    "pin_uv_auth_protocol \<Rightarrow> permission_role \<Rightarrow> string option \<Rightarrow> auth_token_permission" where
  "auth_token_permission_new protocol permissions rpid =
     \<lparr>atp_pin_uv_auth_protocol = protocol, atp_role = permissions, atp_rpid = rpid\<rparr>"

definition auth_token_permission_contains ::
    "auth_token_permission \<Rightarrow> auth_token_permission \<Rightarrow> bool" where
  "auth_token_permission_contains self requested =
     (if atp_pin_uv_auth_protocol self \<noteq> atp_pin_uv_auth_protocol requested then False
      else if atp_rpid self \<noteq> atp_rpid requested then False
      else role_contains (atp_role self) (atp_role requested))"

record auth_token_data =
  atd_protocol_version :: pin_uv_auth_protocol
  atd_key_agreement :: cose_public_key
  atd_shared_secret :: bytes
  atd_uv_operation :: uv_operation
  atd_permission :: "auth_token_permission option"
  atd_pin_uv_auth_token :: "bytes option"

definition auth_token_data_new ::
    "bytes \<Rightarrow> pin_uv_auth_protocol \<Rightarrow> cose_public_key \<Rightarrow> uv_operation \<Rightarrow> auth_token_data" where
  "auth_token_data_new shared_secret protocol_version key_agreement op =
     \<lparr>atd_protocol_version = protocol_version, atd_key_agreement = key_agreement,
       atd_shared_secret = shared_secret, atd_uv_operation = op, atd_permission = None,
       atd_pin_uv_auth_token = None\<rparr>"

definition store_auth_token :: "auth_token_data \<Rightarrow> auth_token_permission \<Rightarrow> bytes \<Rightarrow> auth_token_data" where
  "store_auth_token d permission token =
     d\<lparr>atd_permission := Some permission, atd_pin_uv_auth_token := Some token\<rparr>"

text \<open>The provided methods of \<^verbatim>\<open>Ctap2AuthTokenStore\<close>, on what \<^verbatim>\<open>get_auth_data\<close> returns.\<close>

definition get_uv_auth_token ::
    "auth_token_data option \<Rightarrow> auth_token_permission \<Rightarrow> bytes option" where
  "get_uv_auth_token stored requested_permission =
     (case stored of
        Some stored_data \<Rightarrow>
          (case atd_permission stored_data of
             Some permission \<Rightarrow>
               if auth_token_permission_contains permission requested_permission
               then atd_pin_uv_auth_token stored_data else None
           | None \<Rightarrow> None)
      | None \<Rightarrow> None)"

definition used_pin_for_auth :: "auth_token_data option \<Rightarrow> bool" where
  "used_pin_for_auth stored =
     (case stored of
        Some stored_data \<Rightarrow>
          atd_uv_operation stored_data = GetPinUvAuthTokenUsingPinWithPermissions
          \<or> atd_uv_operation stored_data = GetPinToken
      | None \<Rightarrow> False)"

text \<open>
  What the ceremonies rely on in a channel that keeps a token: the data stored last is returned
  until the store is cleared.
\<close>

locale auth_token_store =
  fixes get_auth_data :: "'s \<Rightarrow> auth_token_data option"
    and store_auth_data :: "auth_token_data \<Rightarrow> 's \<Rightarrow> 's"
    and clear_uv_auth_token_store :: "'s \<Rightarrow> 's"
  assumes get_store: "get_auth_data (store_auth_data d s) = Some d"
    and get_clear: "get_auth_data (clear_uv_auth_token_store s) = None"
begin

lemma reuse_stored:
  "get_uv_auth_token (get_auth_data (store_auth_data (store_auth_token d p token) s)) requested
    = (if auth_token_permission_contains p requested then Some token else None)"
  by (simp add: get_store get_uv_auth_token_def store_auth_token_def)

lemma no_reuse_cleared:
  "get_uv_auth_token (get_auth_data (clear_uv_auth_token_store s)) requested = None"
  by (simp add: get_clear get_uv_auth_token_def)

lemma no_reuse_shared_secret_only:
  "get_uv_auth_token (get_auth_data (store_auth_data (auth_token_data_new secret v k op) s)) requested
    = None"
  by (simp add: get_store get_uv_auth_token_def auth_token_data_new_def)

end

end
