(* ===== verification/Persistent_Token.thy ===== *)
theory Persistent_Token
  imports Client_Pin "HOL-Library.AList"
begin

text \<open>
  Persistent pinUvAuthTokens (\<^verbatim>\<open>pin/persistent_token.rs\<close>): the records, the store interface
  with the in-memory store, and the functions that recognize an authenticator by its
  \<^verbatim>\<open>encIdentifier\<close>, store a freshly minted token and reap superseded records.
\<close>

section \<open>Records and stores\<close>

type_synonym record_id = string

record persistent_token_record =
  ptr_persistent_token :: bytes
  ptr_pin_uv_auth_protocol :: pin_uv_auth_protocol
  ptr_device_identifier :: bytes
  ptr_aaguid :: bytes

text \<open>
  The methods of the trait \<^verbatim>\<open>PersistentTokenStore\<close> on a store of type \<open>'s\<close>.  \<open>list\<close> returns
  the records in the order of the store, which the trait leaves open.
\<close>

record 's token_store =
  ts_list :: "'s \<Rightarrow> (record_id \<times> persistent_token_record) list"
  ts_put :: "record_id \<Rightarrow> persistent_token_record \<Rightarrow> 's \<Rightarrow> 's"
  ts_delete :: "record_id \<Rightarrow> 's \<Rightarrow> 's"

text \<open>
  \<^verbatim>\<open>MemoryPersistentTokenStore\<close>: a hash map, represented by its entries in iteration order.
\<close>

type_synonym memory_token_store = "(record_id \<times> persistent_token_record) list"

definition memory_store_new :: memory_token_store where
  "memory_store_new = []"

definition memory_store_list :: "memory_token_store \<Rightarrow> (record_id \<times> persistent_token_record) list" where
  "memory_store_list records = map (\<lambda>(rid, r). (rid, r)) records"

definition memory_store_put :: "record_id \<Rightarrow> persistent_token_record \<Rightarrow> memory_token_store
    \<Rightarrow> memory_token_store" where
  "memory_store_put rid r records = AList.update rid r records"

definition memory_store_delete :: "record_id \<Rightarrow> memory_token_store \<Rightarrow> memory_token_store" where
  "memory_store_delete rid records = AList.delete rid records"

definition memory_store :: "memory_token_store token_store" where
  "memory_store = \<lparr>ts_list = memory_store_list, ts_put = memory_store_put,
     ts_delete = memory_store_delete\<rparr>"

section \<open>Recognizing an authenticator\<close>

definition ENC_IDENTIFIER_HKDF_SALT :: bytes where "ENC_IDENTIFIER_HKDF_SALT = replicate 32 0"

text \<open>The ASCII bytes of \<^verbatim>\<open>encIdentifier\<close>.\<close>

definition ENC_IDENTIFIER_HKDF_INFO :: bytes where
  "ENC_IDENTIFIER_HKDF_INFO = [0x65, 0x6E, 0x63, 0x49, 0x64, 0x65, 0x6E, 0x74, 0x69, 0x66, 0x69, 0x65, 0x72]"

definition enc_identifier_key :: "crypto \<Rightarrow> bytes \<Rightarrow> platform_error + bytes" where
  "enc_identifier_key c token =
     ok_or Pe_CryptoError
       (c_hkdf_sha256 c ENC_IDENTIFIER_HKDF_SALT token ENC_IDENTIFIER_HKDF_INFO 16)"

definition decrypt_enc_identifier :: "crypto \<Rightarrow> bytes \<Rightarrow> bytes \<Rightarrow> platform_error + bytes" where
  "decrypt_enc_identifier c token enc_identifier =
     (if length enc_identifier \<noteq> 32 then Inl Pe_InvalidDeviceResponse
      else
        let iv = take 16 enc_identifier;
            ciphertext = drop 16 enc_identifier
        in result_bind (enc_identifier_key c token) (\<lambda>key.
           case c_aes128_cbc_decrypt c key iv ciphertext of
             None \<Rightarrow> Inl Pe_InvalidDeviceResponse
           | Some plaintext \<Rightarrow>
               if length plaintext = 16 then Inr plaintext else Inl Pe_InvalidDeviceResponse))"

fun find_authenticator :: "crypto \<Rightarrow> bytes \<Rightarrow> (record_id \<times> persistent_token_record) list
    \<Rightarrow> (record_id \<times> persistent_token_record) option" where
  "find_authenticator c enc_identifier [] = None"
| "find_authenticator c enc_identifier ((rid, r) # records) =
     (case decrypt_enc_identifier c (ptr_persistent_token r) enc_identifier of
        Inr device_identifier \<Rightarrow>
          if device_identifier = ptr_device_identifier r then Some (rid, r)
          else find_authenticator c enc_identifier records
      | Inl _ \<Rightarrow> find_authenticator c enc_identifier records)"

definition recognize_authenticator :: "crypto \<Rightarrow> ('s, 'z) token_store_scheme \<Rightarrow> 's
    \<Rightarrow> get_info_response \<Rightarrow> (record_id \<times> persistent_token_record) option" where
  "recognize_authenticator c ts s info =
     (case gi_enc_identifier info of
        None \<Rightarrow> None
      | Some enc_identifier \<Rightarrow> find_authenticator c enc_identifier (ts_list ts s))"

section \<open>Storing a minted token\<close>

definition reap_superseded_records :: "('s, 'z) token_store_scheme \<Rightarrow> bytes \<Rightarrow> 's \<Rightarrow> 's" where
  "reap_superseded_records ts device_identifier s =
     foldl (\<lambda>s (rid, r). if ptr_device_identifier r = device_identifier then ts_delete ts rid s else s)
       s (ts_list ts s)"

text \<open>\<open>new_id\<close> is the random record rid of \<^verbatim>\<open>new_record_id\<close>.\<close>

definition store_minted_token :: "crypto \<Rightarrow> ('s, 'z) token_store_scheme \<Rightarrow> record_id
    \<Rightarrow> get_info_response \<Rightarrow> bytes \<Rightarrow> pin_uv_auth_protocol \<Rightarrow> 's \<Rightarrow> (platform_error + record_id) \<times> 's" where
  "store_minted_token c ts new_id info token protocol s =
     (case gi_enc_identifier info of
        None \<Rightarrow> (Inl Pe_InvalidDeviceResponse, s)
      | Some enc_identifier \<Rightarrow>
          (case decrypt_enc_identifier c token enc_identifier of
             Inl e \<Rightarrow> (Inl e, s)
           | Inr device_identifier \<Rightarrow>
               if length (gi_aaguid info) \<noteq> 16 then (Inl Pe_InvalidDeviceResponse, s)
               else
                 let s' = reap_superseded_records ts device_identifier s;
                     r = \<lparr>ptr_persistent_token = token, ptr_pin_uv_auth_protocol = protocol,
                       ptr_device_identifier = device_identifier, ptr_aaguid = gi_aaguid info\<rparr>
                 in (Inr new_id, ts_put ts new_id r s')))"

section \<open>The contract of a store\<close>

text \<open>
  A store lists each id once; what it lists after \<open>put\<close> and \<open>delete\<close> is the map of its records
  updated at that rid.
\<close>

definition listed :: "('s, 'z) token_store_scheme \<Rightarrow> 's \<Rightarrow> record_id \<rightharpoonup> persistent_token_record" where
  "listed ts s = map_of (ts_list ts s)"

locale persistent_token_store =
  fixes ts :: "('s, 'z) token_store_scheme"
    and store_inv :: "'s \<Rightarrow> bool"
  assumes ids_distinct: "store_inv s \<Longrightarrow> distinct (map fst (ts_list ts s))"
    and put_inv: "store_inv s \<Longrightarrow> store_inv (ts_put ts rid r s)"
    and delete_inv: "store_inv s \<Longrightarrow> store_inv (ts_delete ts rid s)"
    and put_listed: "store_inv s \<Longrightarrow> listed ts (ts_put ts rid r s) = (listed ts s)(rid \<mapsto> r)"
    and delete_listed: "store_inv s \<Longrightarrow> listed ts (ts_delete ts rid s) = (listed ts s)(rid := None)"
begin

lemma deletes:
  assumes "store_inv s"
  shows "store_inv (foldl (\<lambda>s (rid, r). if P r then ts_delete ts rid s else s) s xs)
    \<and> listed ts (foldl (\<lambda>s (rid, r). if P r then ts_delete ts rid s else s) s xs)
      = (\<lambda>rid. if \<exists>r. (rid, r) \<in> set xs \<and> P r then None else listed ts s rid)"
  using assms
proof (induction xs arbitrary: s)
  case Nil
  then show ?case by simp
next
  case (Cons x xs)
  obtain rid r where x: "x = (rid, r)" by (cases x)
  show ?case
    using Cons.IH [of "if P r then ts_delete ts rid s else s"] Cons.prems
    by (auto simp: x delete_inv delete_listed fun_eq_iff)
qed

lemma listed_iff: "store_inv s \<Longrightarrow> listed ts s rid = Some r \<longleftrightarrow> (rid, r) \<in> set (ts_list ts s)"
  unfolding listed_def by (rule map_of_eq_Some_iff [OF ids_distinct])

lemma reap:
  assumes "store_inv s"
  shows "store_inv (reap_superseded_records ts d s)"
    and "listed ts (reap_superseded_records ts d s) rid
      = (case listed ts s rid of
           None \<Rightarrow> None | Some r \<Rightarrow> if ptr_device_identifier r = d then None else Some r)"
proof -
  note del = deletes [OF assms, of "\<lambda>r. ptr_device_identifier r = d" "ts_list ts s"]
  show "store_inv (reap_superseded_records ts d s)"
    unfolding reap_superseded_records_def using del by blast
  have "(\<exists>r. (rid, r) \<in> set (ts_list ts s) \<and> ptr_device_identifier r = d)
      \<longleftrightarrow> (\<exists>r. listed ts s rid = Some r \<and> ptr_device_identifier r = d)"
    by (simp add: listed_iff [OF assms])
  then show "listed ts (reap_superseded_records ts d s) rid
      = (case listed ts s rid of
           None \<Rightarrow> None | Some r \<Rightarrow> if ptr_device_identifier r = d then None else Some r)"
    unfolding reap_superseded_records_def using del by (auto split: option.splits)
qed

text \<open>
  After a token was minted, the store holds it under the new id and no other record of that
  device; the records of other devices are as before.
\<close>

lemma minted:
  assumes "store_inv s" and "listed ts s new_id = None"
    and "store_minted_token c ts new_id info token protocol s = (Inr rid, s')"
  shows "store_inv s' \<and> rid = new_id
    \<and> (\<exists>r. listed ts s' rid = Some r \<and> ptr_persistent_token r = token
        \<and> ptr_pin_uv_auth_protocol r = protocol
        \<and> (\<forall>i. i \<noteq> rid \<longrightarrow> listed ts s' i
            = (case listed ts s i of None \<Rightarrow> None
               | Some q \<Rightarrow> if ptr_device_identifier q = ptr_device_identifier r then None else Some q)))"
  using assms(3) reap [OF assms(1)] assms(2)
  by (auto simp: store_minted_token_def Let_def put_inv put_listed
      split: option.splits sum.splits if_splits)

end

lemma memory_put_listed: "map_of (memory_store_put rid r s) = (map_of s)(rid \<mapsto> r)"
  by (simp add: memory_store_put_def update_conv')

lemma memory_delete_listed: "map_of (memory_store_delete rid s) = (map_of s)(rid := None)"
  by (simp add: memory_store_delete_def delete_conv')

lemma memory_store_list_id [simp]: "memory_store_list s = s"
  by (simp add: memory_store_list_def case_prod_eta)

interpretation memory: persistent_token_store memory_store "\<lambda>s. distinct (map fst s)"
proof unfold_locales
  fix s :: memory_token_store and rid r
  assume d: "distinct (map fst s)"
  show "distinct (map fst (ts_list memory_store s))"
    using d by (simp add: memory_store_def)
  show "distinct (map fst (ts_put memory_store rid r s))"
    using d by (simp add: memory_store_def memory_store_put_def distinct_update)
  show "distinct (map fst (ts_delete memory_store rid s))"
    using d by (simp add: memory_store_def memory_store_delete_def distinct_delete)
  show "listed memory_store (ts_put memory_store rid r s) = (listed memory_store s)(rid \<mapsto> r)"
    by (simp add: listed_def memory_store_def memory_put_listed)
  show "listed memory_store (ts_delete memory_store rid s) = (listed memory_store s)(rid := None)"
    by (simp add: listed_def memory_store_def memory_delete_listed)
qed

section \<open>Recognition\<close>

lemma find_authenticator_Some:
  "find_authenticator c e records = Some (rid, r) \<Longrightarrow>
    (rid, r) \<in> set records \<and> decrypt_enc_identifier c (ptr_persistent_token r) e = Inr (ptr_device_identifier r)"
  by (induction records) (auto split: sum.splits if_splits)

lemma find_authenticator_None:
  "find_authenticator c e records = None \<longleftrightarrow>
    (\<forall>(rid, r) \<in> set records.
      decrypt_enc_identifier c (ptr_persistent_token r) e \<noteq> Inr (ptr_device_identifier r))"
  by (induction records) (auto split: sum.splits if_splits)

section \<open>Properties\<close>

text \<open>
  Minting a token with the in-memory store leaves exactly one record of that device, the new
  one under the fresh id with the token and its protocol, and leaves every record of another
  device untouched.
\<close>

theorem store_minted_token_replaces:
  assumes "distinct (map fst s)" and "new_id \<notin> fst ` set s"
    and "store_minted_token c memory_store new_id info token protocol s = (Inr rid, s')"
  shows "rid = new_id \<and> distinct (map fst s')
    \<and> (\<exists>r. map_of s' new_id = Some r \<and> ptr_persistent_token r = token
        \<and> ptr_pin_uv_auth_protocol r = protocol
        \<and> (\<forall>i. i \<noteq> new_id \<longrightarrow> map_of s' i
            = (case map_of s i of None \<Rightarrow> None
               | Some q \<Rightarrow> if ptr_device_identifier q = ptr_device_identifier r then None else Some q)))"
proof -
  have "listed memory_store t = map_of t" for t
    by (simp add: listed_def memory_store_def)
  then show ?thesis
    using memory.minted [OF assms(1) _ assms(3)] assms(2) by (auto simp: map_of_eq_None_iff)
qed

definition example_crypto :: crypto where
  "example_crypto = \<lparr>c_sha256 = \<lambda>bs. replicate 32 1, c_hmac_sha256 = \<lambda>k m. Some (replicate 32 2),
     c_hkdf_sha256 = \<lambda>salt ikm info l. Some (replicate l 3),
     c_aes256_cbc_encrypt = \<lambda>k iv p. if length k = 32 then Some p else None,
     c_aes256_cbc_decrypt = \<lambda>k iv p. if length k = 32 then Some p else None,
     c_aes128_cbc_decrypt = \<lambda>k iv p. Some p, c_p256_public = \<lambda>k. (replicate 32 4, replicate 32 5),
     c_p256_ecdh = \<lambda>k p. Some (replicate 32 6), c_nfc = \<lambda>t. t\<rparr>"

lemma store_minted_token_replaces_witness:
  "''n'' = ''n'' \<and> distinct (map fst [(''n'', \<lparr>ptr_persistent_token = [9], ptr_pin_uv_auth_protocol = Protocol_Two,
        ptr_device_identifier = replicate 16 7, ptr_aaguid = replicate 16 0\<rparr>)])
    \<and> (\<exists>r. map_of [(''n'', \<lparr>ptr_persistent_token = [9], ptr_pin_uv_auth_protocol = Protocol_Two,
        ptr_device_identifier = replicate 16 7, ptr_aaguid = replicate 16 0\<rparr>)] ''n'' = Some r
        \<and> ptr_persistent_token r = [9] \<and> ptr_pin_uv_auth_protocol r = Protocol_Two
        \<and> (\<forall>i. i \<noteq> ''n'' \<longrightarrow> map_of [(''n'', \<lparr>ptr_persistent_token = [9], ptr_pin_uv_auth_protocol = Protocol_Two,
            ptr_device_identifier = replicate 16 7, ptr_aaguid = replicate 16 0\<rparr>)] i
            = (case map_of [(''o'', \<lparr>ptr_persistent_token = [8], ptr_pin_uv_auth_protocol = Protocol_Two,
            ptr_device_identifier = replicate 16 7, ptr_aaguid = replicate 16 0\<rparr>)] i of None \<Rightarrow> None
               | Some q \<Rightarrow> if ptr_device_identifier q = ptr_device_identifier r then None else Some q)))"
  by (rule store_minted_token_replaces [where c = example_crypto and
        info = "get_info_default\<lparr>gi_enc_identifier := Some (replicate 16 0 @ replicate 16 7),
          gi_aaguid := replicate 16 0\<rparr>"])
    (simp_all, code_simp)

text \<open>
  An authenticator is recognized exactly when some listed record decrypts its encrypted
  identifier to that record's device identifier, and the record returned is such a record.
\<close>

theorem recognize_authenticator_correct:
  "case recognize_authenticator c ts s info of
     Some (rid, r) \<Rightarrow> (rid, r) \<in> set (ts_list ts s) \<and> (\<exists>e. gi_enc_identifier info = Some e
       \<and> decrypt_enc_identifier c (ptr_persistent_token r) e = Inr (ptr_device_identifier r))
   | None \<Rightarrow> gi_enc_identifier info = None \<or> (\<exists>e. gi_enc_identifier info = Some e
       \<and> list_all (\<lambda>(rid, r). decrypt_enc_identifier c (ptr_persistent_token r) e
           \<noteq> Inr (ptr_device_identifier r)) (ts_list ts s))"
  by (auto simp: recognize_authenticator_def find_authenticator_None list_all_iff
      dest: find_authenticator_Some split: option.splits)

end
