(* ===== verification/Session.thy ===== *)
theory Session
  imports Persistent_Token
begin

text \<open>
  A channel as the ceremonies see it: the state a channel keeps for them, the platform around it
  as a parameter, and the CTAP2 exchanges over it (\<^verbatim>\<open>proto/ctap2/protocol.rs\<close>).
\<close>

section \<open>The state of a channel\<close>

datatype pin_request_reason = RelyingPartyRequest | AuthenticatorPolicy | FallbackFromUV

datatype pin_not_set_reason = Pns_PinNotSet | Pns_PinTooShort | Pns_PinTooLong
  | Pns_PinPolicyViolation | Pns_PinChangeRequired

text \<open>The updates sent to the application; the channel on which a PIN is answered is left out.\<close>

datatype uv_update = UvRetry "u32 option" | PinRequired pin_request_reason "u32 option"
  | PresenceRequired | PinNotSet pin_not_set_reason

text \<open>
  \<open>sn_device\<close> is the state of everything outside: the link, the authenticator, the user and the
  random number generator.  The other fields are those the channels of \<^verbatim>\<open>transport/\<close> keep:
  the token data, the resolved credential management command set, the persistent token store if
  one is configured (the in-memory store) and, as a list, the updates broadcast so far.
\<close>

record 'd session =
  sn_device :: 'd
  sn_auth_data :: "auth_token_data option"
  sn_cred_mgmt_preview :: bool
  sn_token_store :: "memory_token_store option"
  sn_updates :: "uv_update list"

definition session_get_auth_data :: "'d session \<Rightarrow> auth_token_data option" where
  "session_get_auth_data s = sn_auth_data s"

definition session_store_auth_data :: "auth_token_data \<Rightarrow> 'd session \<Rightarrow> 'd session" where
  "session_store_auth_data d s = s\<lparr>sn_auth_data := Some d\<rparr>"

definition session_clear_uv_auth_token_store :: "'d session \<Rightarrow> 'd session" where
  "session_clear_uv_auth_token_store s = s\<lparr>sn_auth_data := None\<rparr>"

definition session_set_cred_mgmt_preview :: "bool \<Rightarrow> 'd session \<Rightarrow> 'd session" where
  "session_set_cred_mgmt_preview uses_preview s = s\<lparr>sn_cred_mgmt_preview := uses_preview\<rparr>"

lemmas session_defs = session_get_auth_data_def session_store_auth_data_def
  session_clear_uv_auth_token_store_def session_set_cred_mgmt_preview_def

interpretation session: auth_token_store session_get_auth_data session_store_auth_data
  session_clear_uv_auth_token_store
  by unfold_locales (simp_all add: session_defs)

text \<open>A session on which nothing has happened yet.\<close>

definition example_session :: "'d \<Rightarrow> 'd session" where
  "example_session d = \<lparr>sn_device = d, sn_auth_data = None, sn_cred_mgmt_preview = False,
     sn_token_store = None, sn_updates = []\<rparr>"

section \<open>The platform\<close>

text \<open>
  Transport functions of the channel, the reply of the user to a PIN prompt (\<open>None\<close> when the
  prompt is dropped), random values, the cryptographic crates, and the CBOR codecs that
  \<^verbatim>\<open>serde\<close> derives for the messages of the user verification flow.
\<close>

record ('d, 'te) platform =
  pf_cbor_send :: "cbor_request \<Rightarrow> nat \<Rightarrow> 'd \<Rightarrow> ('te + unit) \<times> 'd"
  pf_cbor_recv :: "nat \<Rightarrow> 'd \<Rightarrow> ('te + cbor_response) \<times> 'd"
  pf_apdu_send :: "apdu_request \<Rightarrow> nat \<Rightarrow> 'd \<Rightarrow> ('te + unit) \<times> 'd"
  pf_apdu_recv :: "nat \<Rightarrow> 'd \<Rightarrow> ('te + apdu_response) \<times> 'd"
  pf_pin_reply :: "uv_update \<Rightarrow> 'd \<Rightarrow> code_points option \<times> 'd"
  pf_random_secret :: "'d \<Rightarrow> bytes \<times> 'd"
  pf_random_iv :: "'d \<Rightarrow> bytes \<times> 'd"
  pf_random_record_id :: "'d \<Rightarrow> record_id \<times> 'd"
  pf_crypto :: crypto
  pf_encode_client_pin :: "client_pin_request \<Rightarrow> bytes option"
  pf_decode_client_pin :: "bytes \<Rightarrow> client_pin_response option"
  pf_decode_get_info :: "bytes \<Rightarrow> get_info_response option"

type_synonym ('d, 'te, 'a) ceremony = "('d session, 'te webauthn_error, 'a) action"

text \<open>An operation of the outside world run on the session.\<close>

definition on_device :: "('d \<Rightarrow> 'a \<times> 'd) \<Rightarrow> ('d, 'te, 'a) ceremony" where
  "on_device f s = (case f (sn_device s) of (x, d) \<Rightarrow> Some (Inr x, s\<lparr>sn_device := d\<rparr>))"

text \<open>The same for an operation of the transport, \<^verbatim>\<open>.map_err(WebAuthnError::Transport)?\<close>.\<close>

definition on_transport :: "('d \<Rightarrow> ('te + 'a) \<times> 'd) \<Rightarrow> ('d, 'te, 'a) ceremony" where
  "on_transport f s =
     (case f (sn_device s) of (r, d) \<Rightarrow> Some (map_err We_Transport r, s\<lparr>sn_device := d\<rparr>))"

definition send_ux_update :: "uv_update \<Rightarrow> ('d, 'te, unit) ceremony" where
  "send_ux_update u = act_modify (\<lambda>s. s\<lparr>sn_updates := sn_updates s @ [u]\<rparr>)"

text \<open>A PIN prompt: the update is sent and its reply awaited.\<close>

definition prompt_pin :: "('d, 'te) platform \<Rightarrow> uv_update \<Rightarrow> ('d, 'te, code_points option) ceremony" where
  "prompt_pin pf u = act_bind (send_ux_update u) (\<lambda>_. on_device (pf_pin_reply pf u))"

section \<open>CTAP2 exchanges\<close>

definition TIMEOUT_GET_INFO :: nat where "TIMEOUT_GET_INFO = 250"

text \<open>Send, receive, and the check of the status code, which every command shares.\<close>

definition ctap2_exchange ::
    "('d, 'te) platform \<Rightarrow> cbor_request \<Rightarrow> nat \<Rightarrow> ('d, 'te, bytes option) ceremony" where
  "ctap2_exchange pf request timeout =
     act_bind (on_transport (pf_cbor_send pf request timeout)) (\<lambda>_.
     act_bind (on_transport (pf_cbor_recv pf timeout)) (\<lambda>response.
     if cs_status_code response = Ctap_Ok then act_return (cs_data response)
     else act_fail (We_Ctap (cs_status_code response))))"

text \<open>\<^verbatim>\<open>request.try_into()?\<close>: the CBOR body of a request, or a serialization error.\<close>

definition cbor_request_of :: "ctap2_command_code \<Rightarrow> bytes option \<Rightarrow> 'te webauthn_error + cbor_request" where
  "cbor_request_of command body =
     (case body of
        None \<Rightarrow> Inl (We_Platform Pe_CborError)
      | Some data \<Rightarrow> Inr \<lparr>cr_command = command, cr_encoded_data = data\<rparr>)"

text \<open>\<^verbatim>\<open>parse_cbor!\<close> and, before it, \<^verbatim>\<open>unwrap_field!\<close> on the data.\<close>

definition parse_cbor :: "(bytes \<Rightarrow> 'r option) \<Rightarrow> bytes \<Rightarrow> 'te webauthn_error + 'r" where
  "parse_cbor from_slice data = ok_or (We_Platform Pe_InvalidDeviceResponse) (from_slice data)"

definition parse_required :: "(bytes \<Rightarrow> 'r option) \<Rightarrow> bytes option \<Rightarrow> 'te webauthn_error + 'r" where
  "parse_required from_slice data =
     result_bind (ok_or (We_Platform Pe_InvalidDeviceResponse) data) (parse_cbor from_slice)"

definition parse_or_default :: "(bytes \<Rightarrow> 'r option) \<Rightarrow> 'r \<Rightarrow> bytes option \<Rightarrow> 'te webauthn_error + 'r" where
  "parse_or_default from_slice dflt data =
     (case data of Some d \<Rightarrow> parse_cbor from_slice d | None \<Rightarrow> Inr dflt)"

definition ctap2_get_info :: "('d, 'te) platform \<Rightarrow> ('d, 'te, get_info_response) ceremony" where
  "ctap2_get_info pf =
     act_bind (ctap2_exchange pf (cbor_request_new AuthenticatorGetInfo) TIMEOUT_GET_INFO) (\<lambda>data.
     act_lift (parse_required (pf_decode_get_info pf) data))"

definition ctap2_make_credential :: "('d, 'te) platform \<Rightarrow> ('q \<Rightarrow> bytes option) \<Rightarrow> (bytes \<Rightarrow> 'r option)
    \<Rightarrow> 'q \<Rightarrow> nat \<Rightarrow> ('d, 'te, 'r) ceremony" where
  "ctap2_make_credential pf to_vec from_slice request timeout =
     act_bind (act_lift (cbor_request_of AuthenticatorMakeCredential (to_vec request))) (\<lambda>q.
     act_bind (ctap2_exchange pf q timeout) (\<lambda>data.
     act_lift (parse_required from_slice data)))"

definition ctap2_get_assertion :: "('d, 'te) platform \<Rightarrow> ('q \<Rightarrow> bytes option) \<Rightarrow> (bytes \<Rightarrow> 'r option)
    \<Rightarrow> 'q \<Rightarrow> nat \<Rightarrow> ('d, 'te, 'r) ceremony" where
  "ctap2_get_assertion pf to_vec from_slice request timeout =
     act_bind (act_lift (cbor_request_of AuthenticatorGetAssertion (to_vec request))) (\<lambda>q.
     act_bind (ctap2_exchange pf q timeout) (\<lambda>data.
     act_lift (parse_required from_slice data)))"

definition ctap2_get_next_assertion :: "('d, 'te) platform \<Rightarrow> (bytes \<Rightarrow> 'r option) \<Rightarrow> nat
    \<Rightarrow> ('d, 'te, 'r) ceremony" where
  "ctap2_get_next_assertion pf from_slice timeout =
     act_bind (ctap2_exchange pf (cbor_request_new AuthenticatorGetNextAssertion) timeout) (\<lambda>data.
     act_lift (parse_required from_slice data))"

definition ctap2_selection :: "('d, 'te) platform \<Rightarrow> nat \<Rightarrow> ('d, 'te, unit) ceremony" where
  "ctap2_selection pf timeout =
     act_bind (ctap2_exchange pf (cbor_request_new AuthenticatorSelection) timeout) (\<lambda>_. act_return ())"

definition ctap2_authenticator_reset :: "('d, 'te) platform \<Rightarrow> nat \<Rightarrow> ('d, 'te, unit) ceremony" where
  "ctap2_authenticator_reset pf timeout =
     act_bind (ctap2_exchange pf (cbor_request_new AuthenticatorReset) timeout) (\<lambda>_. act_return ())"

definition ctap2_client_pin :: "('d, 'te) platform \<Rightarrow> client_pin_request \<Rightarrow> nat
    \<Rightarrow> ('d, 'te, client_pin_response) ceremony" where
  "ctap2_client_pin pf request timeout =
     act_bind (act_lift (cbor_request_of AuthenticatorClientPin (pf_encode_client_pin pf request))) (\<lambda>q.
     act_bind (ctap2_exchange pf q timeout) (\<lambda>data.
     act_lift (parse_or_default (pf_decode_client_pin pf) client_pin_response_default data)))"

definition ctap2_authenticator_config :: "('d, 'te) platform \<Rightarrow> ('q \<Rightarrow> bytes option) \<Rightarrow> 'q \<Rightarrow> nat
    \<Rightarrow> ('d, 'te, unit) ceremony" where
  "ctap2_authenticator_config pf to_vec request timeout =
     act_bind (act_lift (cbor_request_of AuthenticatorConfig (to_vec request))) (\<lambda>q.
     act_bind (ctap2_exchange pf q timeout) (\<lambda>_. act_return ()))"

text \<open>
  The requests of bio enrollment and credential management choose between the standard and the
  preview command by their \<^verbatim>\<open>use_legacy_preview\<close>.
\<close>

definition ctap2_bio_enrollment :: "('d, 'te) platform \<Rightarrow> ('q \<Rightarrow> bytes option) \<Rightarrow> ('q \<Rightarrow> bool)
    \<Rightarrow> (bytes \<Rightarrow> 'r option) \<Rightarrow> 'r \<Rightarrow> 'q \<Rightarrow> nat \<Rightarrow> ('d, 'te, 'r) ceremony" where
  "ctap2_bio_enrollment pf to_vec use_legacy_preview from_slice dflt request timeout =
     act_bind (act_lift (cbor_request_of
       (if use_legacy_preview request then AuthenticatorBioEnrollmentPreview else AuthenticatorBioEnrollment)
       (to_vec request))) (\<lambda>q.
     act_bind (ctap2_exchange pf q timeout) (\<lambda>data.
     act_lift (parse_or_default from_slice dflt data)))"

definition ctap2_credential_management :: "('d, 'te) platform \<Rightarrow> ('q \<Rightarrow> bytes option) \<Rightarrow> ('q \<Rightarrow> bool)
    \<Rightarrow> (bytes \<Rightarrow> 'r option) \<Rightarrow> 'r \<Rightarrow> 'q \<Rightarrow> nat \<Rightarrow> ('d, 'te, 'r) ceremony" where
  "ctap2_credential_management pf to_vec use_legacy_preview from_slice dflt request timeout =
     act_bind (act_lift (cbor_request_of
       (if use_legacy_preview request then AuthenticatorCredentialManagementPreview
        else AuthenticatorCredentialManagement)
       (to_vec request))) (\<lambda>q.
     act_bind (ctap2_exchange pf q timeout) (\<lambda>data.
     act_lift (parse_or_default from_slice dflt data)))"

definition ctap2_large_blobs :: "('d, 'te) platform \<Rightarrow> ('q \<Rightarrow> bytes option)
    \<Rightarrow> (bytes \<Rightarrow> 'r option) \<Rightarrow> 'r \<Rightarrow> 'q \<Rightarrow> nat \<Rightarrow> ('d, 'te, 'r) ceremony" where
  "ctap2_large_blobs pf to_vec from_slice dflt request timeout =
     act_bind (act_lift (cbor_request_of AuthenticatorLargeBlobs (to_vec request))) (\<lambda>q.
     act_bind (ctap2_exchange pf q timeout) (\<lambda>data.
     act_lift (parse_or_default from_slice dflt data)))"

end
