(* ===== verification/Ctap1_Protocol.thy ===== *)
theory Ctap1_Protocol
  imports Session
begin

text \<open>
  The CTAP1 (U2F) exchanges over a channel, \<^verbatim>\<open>proto/ctap1/protocol.rs\<close>: version, signing with
  the loop that waits for user presence, and registration with its pre-flight requests.
\<close>

section \<open>CTAP1 exchanges\<close>

definition VERSION_TIMEOUT :: nat where "VERSION_TIMEOUT = 500"

definition ctap1_version :: "('d, 'te) platform \<Rightarrow> ('d, 'te, ctap1_version_response) ceremony" where
  "ctap1_version pf =
     act_bind (on_transport (pf_apdu_send pf apdu_of_version VERSION_TIMEOUT)) (\<lambda>_.
     act_bind (on_transport (pf_apdu_recv pf VERSION_TIMEOUT)) (\<lambda>response.
     act_lift (map_err (\<lambda>_. We_Ctap Ctap_Other) (ctap1_version_response_of_apdu response))))"

text \<open>
  The loop of \<^verbatim>\<open>send_apdu_request_wait_uv\<close>: it sends the request again while the device waits
  for user presence, until the timeout.  \<open>turns\<close> is the number of turns the timeout allows.
\<close>

fun send_apdu_request_wait_uv :: "('d, 'te) platform \<Rightarrow> nat \<Rightarrow> apdu_request \<Rightarrow> nat
    \<Rightarrow> ('d, 'te, apdu_response) ceremony" where
  "send_apdu_request_wait_uv pf 0 request timeout = act_fail (We_Ctap Ctap_UserActionTimeout)"
| "send_apdu_request_wait_uv pf (Suc turns) request timeout =
     act_bind (on_transport (pf_apdu_send pf request timeout)) (\<lambda>_.
     act_bind (on_transport (pf_apdu_recv pf timeout)) (\<lambda>response.
     act_bind (act_lift (map_err (\<lambda>_. We_Platform Pe_InvalidDeviceResponse)
       (apdu_response_status response))) (\<lambda>status.
     let ctap_error = ctap_error_of_apdu_status status
     in if ctap_error = Ctap_Ok then act_return response
        else if ctap_error = Ctap_UserPresenceRequired
        then send_apdu_request_wait_uv pf turns request timeout
        else act_fail (We_Ctap ctap_error))))"

definition ctap1_checked_status :: "apdu_response \<Rightarrow> 'te webauthn_error + unit" where
  "ctap1_checked_status response =
     result_bind (map_err (\<lambda>_. We_Ctap Ctap_Other) (apdu_response_status response)) (\<lambda>status.
     if status \<noteq> Sw_NoError then Inl (We_Ctap (ctap_error_of_apdu_status status)) else Inr ())"

definition ctap1_sign :: "('d, 'te) platform \<Rightarrow> nat \<Rightarrow> ctap1_sign_request
    \<Rightarrow> ('d, 'te, ctap1_sign_response) ceremony" where
  "ctap1_sign pf turns request =
     act_bind (send_ux_update PresenceRequired) (\<lambda>_.
     act_bind (send_apdu_request_wait_uv pf turns (apdu_of_sign request) (sr_timeout request)) (\<lambda>response.
     act_bind (act_lift (ctap1_checked_status response)) (\<lambda>_.
     act_lift (map_err (\<lambda>_. We_Ctap Ctap_Other) (ctap1_sign_response_of_apdu response)))))"

text \<open>The pre-flight loop: a key the device can sign with ends the registration.\<close>

fun ctap1_preflight_keys :: "('d, 'te) platform \<Rightarrow> nat \<Rightarrow> ctap1_sign_request list
    \<Rightarrow> ('d, 'te, unit) ceremony" where
  "ctap1_preflight_keys pf turns [] = act_return ()"
| "ctap1_preflight_keys pf turns (preflight # preflights) =
     act_try (ctap1_sign pf turns preflight) (\<lambda>r.
     case r of
       Inr _ \<Rightarrow> act_fail (We_Ctap Ctap_CredentialExcluded)
     | Inl _ \<Rightarrow> ctap1_preflight_keys pf turns preflights)"

definition ctap1_register :: "('d, 'te) platform \<Rightarrow> (bytes \<Rightarrow> bytes option) \<Rightarrow> nat
    \<Rightarrow> ctap1_register_request \<Rightarrow> ('d, 'te, ctap1_register_response) ceremony" where
  "ctap1_register pf x509_rest turns request =
     act_bind (send_ux_update PresenceRequired) (\<lambda>_.
     act_bind (act_lift (map_err We_Ctap (ctap1_preflight request))) (\<lambda>(request, preflight_requests).
     act_bind (ctap1_preflight_keys pf turns preflight_requests) (\<lambda>_.
     act_bind (send_apdu_request_wait_uv pf turns (apdu_of_register request) (rr_timeout request)) (\<lambda>response.
     act_bind (act_lift (ctap1_checked_status response)) (\<lambda>_.
     act_lift (map_err (\<lambda>_. We_Ctap Ctap_Other)
       (ctap1_register_response_of_apdu x509_rest response)))))))"

section \<open>A scripted authenticator\<close>

text \<open>
  A channel on which every APDU is delivered and logged, and answered from a list of responses.
\<close>

type_synonym apdu_script = "apdu_response list \<times> apdu_request list"

definition scripted_apdu :: "(apdu_script, 'te) platform \<Rightarrow> bool" where
  "scripted_apdu pf \<longleftrightarrow>
     (\<forall>r t answers log. pf_apdu_send pf r t (answers, log) = (Inr (), (answers, log @ [r])))
     \<and> (\<forall>t a answers log. pf_apdu_recv pf t (a # answers, log) = (Inr a, (answers, log)))"

lemma scripted_apdu_run [act_simps]:
  assumes "scripted_apdu pf"
  shows "on_transport (pf_apdu_send pf r t) (s\<lparr>sn_device := (answers, log)\<rparr>)
      = Some (Inr (), s\<lparr>sn_device := (answers, log @ [r])\<rparr>)"
    and "on_transport (pf_apdu_recv pf t) (s\<lparr>sn_device := (a # answers, log)\<rparr>)
      = Some (Inr a, s\<lparr>sn_device := (answers, log)\<rparr>)"
  using assms by (simp_all add: on_transport_def scripted_apdu_def)

lemma wait_uv_turn:
  assumes "scripted_apdu pf" and "apdu_response_status a = Inr status"
  shows "send_apdu_request_wait_uv pf (Suc turns) request t (s\<lparr>sn_device := (a # answers, log)\<rparr>)
    = (let e = ctap_error_of_apdu_status status
       in if e = Ctap_Ok then Some (Inr a, s\<lparr>sn_device := (answers, log @ [request])\<rparr>)
          else if e = Ctap_UserPresenceRequired
          then send_apdu_request_wait_uv pf turns request t
            (s\<lparr>sn_device := (answers, log @ [request])\<rparr>)
          else Some (Inl (We_Ctap e), s\<lparr>sn_device := (answers, log @ [request])\<rparr>))"
  using assms(2) by (simp add: act_bind_def scripted_apdu_run [OF assms(1)] act_run Let_def)

declare send_apdu_request_wait_uv.simps [simp del]

text \<open>While the presence test fails the request is sent again.\<close>

lemma wait_uv_waits:
  assumes "scripted_apdu pf"
    and "list_all (\<lambda>a. apdu_response_status a = Inr Sw_UserPresenceTestFailed) waits"
  shows "send_apdu_request_wait_uv pf (length waits + turns) request t
      (s\<lparr>sn_device := (waits @ answers, log)\<rparr>)
    = send_apdu_request_wait_uv pf turns request t
      (s\<lparr>sn_device := (answers, log @ replicate (length waits) request)\<rparr>)"
  using assms(2)
proof (induction waits arbitrary: log)
  case Nil
  then show ?case by simp
next
  case (Cons a waits)
  then show ?case
    by (simp add: wait_uv_turn [OF assms(1)] Let_def)
qed

definition sign_updates :: "uv_update list \<Rightarrow> nat \<Rightarrow> uv_update list" where
  "sign_updates us n = us @ replicate n PresenceRequired"

lemma ctap1_sign_answered:
  assumes "scripted_apdu pf" and "apdu_response_status a = Inr status"
    and "status \<noteq> Sw_UserPresenceTestFailed" and "sn_device s = (a # answers, log)"
  shows "ctap1_sign pf (Suc turns) request s =
    Some (if status = Sw_NoError
          then map_err (\<lambda>_. We_Ctap Ctap_Other) (ctap1_sign_response_of_apdu a)
          else Inl (We_Ctap (ctap_error_of_apdu_status status)),
        s\<lparr>sn_device := (answers, log @ [apdu_of_sign request]),
          sn_updates := sn_updates s @ [PresenceRequired]\<rparr>)"
proof -
  let ?s = "s\<lparr>sn_updates := sn_updates s @ [PresenceRequired]\<rparr>"
  have s: "?s = ?s\<lparr>sn_device := (a # answers, log)\<rparr>" using assms(4) by simp
  show ?thesis
    unfolding ctap1_sign_def send_ux_update_def
    apply (subst act_bind_def)
    apply (simp only: act_run option.case prod.case sum.case)
    apply (subst s)
    apply (subst act_bind_def)
    apply (subst wait_uv_turn [OF assms(1,2)])
    using assms(2,3)
    by (cases status) (simp_all add: act_run act_bind_def ctap1_checked_status_def Let_def)
qed

text \<open>Keys the device does not know are passed over.\<close>

lemma preflight_unknown_keys:
  assumes "scripted_apdu pf" and "length answers = length ps"
    and "list_all (\<lambda>a. apdu_response_status a = Inr Sw_InvalidKeyHandle) answers"
    and "sn_device s = (answers @ rest, log)"
  shows "ctap1_preflight_keys pf (Suc turns) (ps @ qs) s
    = ctap1_preflight_keys pf (Suc turns) qs
        (s\<lparr>sn_device := (rest, log @ map apdu_of_sign ps),
           sn_updates := sign_updates (sn_updates s) (length ps)\<rparr>)"
  using assms(2-)
proof (induction ps arbitrary: answers s log)
  case Nil
  then show ?case by (cases s) (simp add: sign_updates_def)
next
  case (Cons p ps)
  then obtain a as where a: "answers = a # as" "apdu_response_status a = Inr Sw_InvalidKeyHandle"
    by (cases answers) auto
  have "ctap1_sign pf (Suc turns) p s
      = Some (Inl (We_Ctap Ctap_NoCredentials),
          s\<lparr>sn_device := (as @ rest, log @ [apdu_of_sign p]), sn_updates := sn_updates s @ [PresenceRequired]\<rparr>)"
    using Cons.prems(3) a by (subst ctap1_sign_answered [OF assms(1) a(2)]) simp_all
  then show ?case
    using Cons.prems a Cons.IH [of as "s\<lparr>sn_device := (as @ rest, log @ [apdu_of_sign p]),
        sn_updates := sn_updates s @ [PresenceRequired]\<rparr>" "log @ [apdu_of_sign p]"]
    by (simp add: act_try_def sign_updates_def)
qed

section \<open>Properties\<close>

text \<open>
  A U2F request is sent again for as long as the device reports a missing touch, and the
  first success is returned; when the timeout comes first the result is a user action timeout,
  after exactly as many requests as the timeout allowed.
\<close>

theorem u2f_request_waits_for_presence:
  assumes "scripted_apdu pf"
    and "list_all (\<lambda>a. apdu_response_status a = Inr Sw_UserPresenceTestFailed) waits"
    and "apdu_response_status a = Inr Sw_NoError"
  shows "send_apdu_request_wait_uv pf (length waits + Suc turns) request t
        (s\<lparr>sn_device := (waits @ a # answers, log)\<rparr>)
      = Some (Inr a, s\<lparr>sn_device := (answers, log @ replicate (Suc (length waits)) request)\<rparr>)
    \<and> send_apdu_request_wait_uv pf (length waits) request t (s\<lparr>sn_device := (waits @ a # answers, log)\<rparr>)
      = Some (Inl (We_Ctap Ctap_UserActionTimeout),
          s\<lparr>sn_device := (a # answers, log @ replicate (length waits) request)\<rparr>)"
proof
  show "send_apdu_request_wait_uv pf (length waits + Suc turns) request t
        (s\<lparr>sn_device := (waits @ a # answers, log)\<rparr>)
      = Some (Inr a, s\<lparr>sn_device := (answers, log @ replicate (Suc (length waits)) request)\<rparr>)"
    unfolding wait_uv_waits [OF assms(1,2)] wait_uv_turn [OF assms(1,3)]
    by (simp add: replicate_append_same)
  show "send_apdu_request_wait_uv pf (length waits) request t (s\<lparr>sn_device := (waits @ a # answers, log)\<rparr>)
      = Some (Inl (We_Ctap Ctap_UserActionTimeout),
          s\<lparr>sn_device := (a # answers, log @ replicate (length waits) request)\<rparr>)"
    using wait_uv_waits [OF assms(1,2), of 0] by (simp add: send_apdu_request_wait_uv.simps act_run)
qed

definition example_apdu_platform :: "(apdu_script, unit) platform" where
  "example_apdu_platform = \<lparr>pf_cbor_send = \<lambda>r t d. (Inr (), d), pf_cbor_recv = \<lambda>t d. (Inl (), d),
     pf_apdu_send = \<lambda>r t (answers, log). (Inr (), (answers, log @ [r])),
     pf_apdu_recv = \<lambda>t (answers, log). (case answers of [] \<Rightarrow> (Inl (), (answers, log))
       | a # as \<Rightarrow> (Inr a, (as, log))),
     pf_pin_reply = \<lambda>u d. (None, d), pf_random_secret = \<lambda>d. ([], d), pf_random_iv = \<lambda>d. ([], d),
     pf_random_record_id = \<lambda>d. ([], d), pf_crypto = example_crypto,
     pf_encode_client_pin = \<lambda>r. None, pf_decode_client_pin = \<lambda>b. None, pf_decode_get_info = \<lambda>b. None\<rparr>"

lemma example_apdu_platform_scripted: "scripted_apdu example_apdu_platform"
  by (simp add: scripted_apdu_def example_apdu_platform_def)

lemma u2f_request_waits_for_presence_witness:
  "send_apdu_request_wait_uv example_apdu_platform (length [\<lparr>ap_data = None, ap_sw1 = 0x69, ap_sw2 = 0x85\<rparr>] + Suc 0)
        apdu_of_version 500 ((example_session undefined)\<lparr>sn_device :=
          ([\<lparr>ap_data = None, ap_sw1 = 0x69, ap_sw2 = 0x85\<rparr>] @ apdu_response_new_success [1] # [], [])\<rparr>)
      = Some (Inr (apdu_response_new_success [1]), (example_session undefined)\<lparr>sn_device :=
          ([], [] @ replicate (Suc (length [\<lparr>ap_data = None, ap_sw1 = 0x69, ap_sw2 = 0x85\<rparr>])) apdu_of_version)\<rparr>)
    \<and> send_apdu_request_wait_uv example_apdu_platform (length [\<lparr>ap_data = None, ap_sw1 = 0x69, ap_sw2 = 0x85\<rparr>])
        apdu_of_version 500 ((example_session undefined)\<lparr>sn_device :=
          ([\<lparr>ap_data = None, ap_sw1 = 0x69, ap_sw2 = 0x85\<rparr>] @ apdu_response_new_success [1] # [], [])\<rparr>)
      = Some (Inl (We_Ctap Ctap_UserActionTimeout), (example_session undefined)\<lparr>sn_device :=
          (apdu_response_new_success [1] # [],
           [] @ replicate (length [\<lparr>ap_data = None, ap_sw1 = 0x69, ap_sw2 = 0x85\<rparr>]) apdu_of_version)\<rparr>)"
  by (rule u2f_request_waits_for_presence [OF example_apdu_platform_scripted])
    (simp_all add: apdu_response_status_def apdu_response_new_success_def, code_simp+)

text \<open>
  A U2F registration of a device that already holds one of the registered keys ends with
  CredentialExcluded: the keys are tried in order, those the device does not know are passed
  over, and after the first one it signs with no registration request is sent.
\<close>

theorem u2f_register_excludes_known_key:
  assumes "scripted_apdu pf" and "rr_registered_keys request = ks @ k # ks'"
    and "length unknown = length ks"
    and "list_all (\<lambda>a. apdu_response_status a = Inr Sw_InvalidKeyHandle) unknown"
    and "apdu_response_status a = Inr Sw_NoError" and "ctap1_sign_response_of_apdu a = Inr sig"
    and "sn_device s = (unknown @ a # answers, log)"
  shows "\<exists>s'. ctap1_register pf x509_rest (Suc turns) request s
      = Some (Inl (We_Ctap Ctap_CredentialExcluded), s')
    \<and> sn_device s' = (answers, log @ map (\<lambda>k. apdu_of_sign (ctap1_sign_request_preflight
          (rr_app_id_hash request) (replicate 32 0) (rk_key_handle k) (rr_timeout request))) (ks @ [k]))"
proof -
  let ?q = "\<lambda>k. ctap1_sign_request_preflight (rr_app_id_hash request) (replicate 32 0)
    (rk_key_handle k) (rr_timeout request)"
  let ?s = "s\<lparr>sn_updates := sn_updates s @ [PresenceRequired]\<rparr>"
  let ?t = "?s\<lparr>sn_device := (a # answers, log @ map apdu_of_sign (map ?q ks)),
    sn_updates := sign_updates (sn_updates ?s) (length (map ?q ks))\<rparr>"
  have "ctap1_preflight_keys pf (Suc turns) (map ?q ks @ ?q k # map ?q ks') ?s
      = ctap1_preflight_keys pf (Suc turns) (?q k # map ?q ks') ?t"
    by (rule preflight_unknown_keys [OF assms(1) _ assms(4)]) (simp_all add: assms(3,7))
  also have "\<dots> = Some (Inl (We_Ctap Ctap_CredentialExcluded),
      ?t\<lparr>sn_device := (answers, log @ map apdu_of_sign (map ?q ks) @ [apdu_of_sign (?q k)]),
        sn_updates := sn_updates ?t @ [PresenceRequired]\<rparr>)"
    using ctap1_sign_answered [OF assms(1,5), of ?t answers "log @ map apdu_of_sign (map ?q ks)" turns "?q k"]
      assms(6) by (simp add: act_try_def act_run)
  finally show ?thesis
    unfolding ctap1_register_def
    by (simp add: act_bind_def send_ux_update_def act_run ctap1_preflight_def assms(2) comp_def)
qed

lemma u2f_register_excludes_known_key_witness:
  "\<exists>s'. ctap1_register example_apdu_platform (\<lambda>bs. None) (Suc 0)
      ((ctap1_register_request_dummy 1000)\<lparr>rr_registered_keys := [] @ ctap1_registered_key_new [7] # []\<rparr>)
      (example_session ([] @ \<lparr>ap_data = Some [1, 0, 0, 0, 5], ap_sw1 = 0x90, ap_sw2 = 0\<rparr> # [], []))
      = Some (Inl (We_Ctap Ctap_CredentialExcluded), s')
    \<and> sn_device s' = ([], [] @ map (\<lambda>k. apdu_of_sign (ctap1_sign_request_preflight
          (rr_app_id_hash ((ctap1_register_request_dummy 1000)\<lparr>rr_registered_keys := [] @ ctap1_registered_key_new [7] # []\<rparr>))
          (replicate 32 0) (rk_key_handle k)
          (rr_timeout ((ctap1_register_request_dummy 1000)\<lparr>rr_registered_keys := [] @ ctap1_registered_key_new [7] # []\<rparr>))))
          ([] @ [ctap1_registered_key_new [7]]))"
proof (rule u2f_register_excludes_known_key [OF example_apdu_platform_scripted, where ks' = "[]" and unknown = "[]"])
  show "apdu_response_status \<lparr>ap_data = Some [1, 0, 0, 0, 5], ap_sw1 = 0x90, ap_sw2 = 0\<rparr> = Inr Sw_NoError"
    by code_simp
  show "ctap1_sign_response_of_apdu \<lparr>ap_data = Some [1, 0, 0, 0, 5], ap_sw1 = 0x90, ap_sw2 = 0\<rparr>
      = Inr \<lparr>ss_user_presence_verified = True, ss_counter = 5, ss_signature = []\<rparr>"
    by code_simp
qed (simp_all add: example_session_def)

end
