(* ===== verification/Rust_Text.thy ===== *)
theory Rust_Text
  imports Prelude
begin

text \<open>
  The operations of Rust's \<^verbatim>\<open>str\<close> that the code uses on host names, media types and addresses.
  A string is the bytes of its UTF-8 encoding; the separators are ASCII, so that splitting the
  bytes splits the string.
\<close>

section \<open>Bytes of a string\<close>

definition string_bytes :: "string \<Rightarrow> bytes" where
  "string_bytes s = map of_char s"

lemma length_string_bytes [simp]: "length (string_bytes s) = length s"
  by (simp add: string_bytes_def)

section \<open>Prefixes and suffixes\<close>

definition starts_with :: "string \<Rightarrow> string \<Rightarrow> bool" where
  "starts_with p s \<longleftrightarrow> take (length p) s = p"

definition ends_with :: "string \<Rightarrow> string \<Rightarrow> bool" where
  "ends_with p s \<longleftrightarrow> length p \<le> length s \<and> drop (length s - length p) s = p"

definition strip_suffix :: "string \<Rightarrow> string \<Rightarrow> string option" where
  "strip_suffix s p = (if ends_with p s then Some (take (length s - length p) s) else None)"

lemma ends_with_append [simp]: "ends_with s (p @ s)"
  by (simp add: ends_with_def)

lemma strip_suffix_append [simp]: "strip_suffix (p @ s) s = Some p"
  by (simp add: strip_suffix_def)

lemma ends_withE: "ends_with s t \<Longrightarrow> \<exists>p. t = p @ s"
  unfolding ends_with_def by (metis append_take_drop_id)

section \<open>Splitting\<close>

fun split_once :: "char \<Rightarrow> string \<Rightarrow> (string \<times> string) option" where
  "split_once c [] = None"
| "split_once c (x # xs) =
     (if x = c then Some ([], xs) else map_option (\<lambda>(a, b). (x # a, b)) (split_once c xs))"

fun split_on :: "char \<Rightarrow> string \<Rightarrow> string list" where
  "split_on c [] = [[]]"
| "split_on c (x # xs) =
     (if x = c then [] # split_on c xs
      else case split_on c xs of [] \<Rightarrow> [[x]] | p # ps \<Rightarrow> (x # p) # ps)"

text \<open>\<^verbatim>\<open>split(c).next()\<close> and \<^verbatim>\<open>rsplit(c).next()\<close>, which are never \<^verbatim>\<open>None\<close>.\<close>

definition first_piece :: "char \<Rightarrow> string \<Rightarrow> string" where
  "first_piece c s = takeWhile (\<lambda>x. x \<noteq> c) s"

definition last_piece :: "char \<Rightarrow> string \<Rightarrow> string" where
  "last_piece c s = rev (takeWhile (\<lambda>x. x \<noteq> c) (rev s))"

lemma split_once_eq:
  "split_once c s = (if c \<in> set s
     then Some (takeWhile (\<lambda>x. x \<noteq> c) s, tl (dropWhile (\<lambda>x. x \<noteq> c) s)) else None)"
  by (induction s) auto

lemma split_once_None: "split_once c s = None \<longleftrightarrow> c \<notin> set s"
  by (simp add: split_once_eq)

lemma split_once_append: "c \<notin> set a \<Longrightarrow> split_once c (a @ c # b) = Some (a, b)"
  by (induction a) auto

lemma split_once_SomeD: "split_once c s = Some (a, b) \<Longrightarrow> s = a @ c # b \<and> c \<notin> set a"
  by (induction s arbitrary: a) (auto split: if_splits)

lemma split_once_shorter: "split_once c s = Some (a, b) \<Longrightarrow> length b < length s"
  by (drule split_once_SomeD) simp

lemma split_on_nonempty [simp]: "split_on c s \<noteq> []"
  by (induction s) (auto split: list.splits)

lemma split_on_append: "split_on c (a @ c # b) = split_on c a @ split_on c b"
  by (induction a) (auto split: list.splits)

lemma split_on_single: "c \<notin> set s \<Longrightarrow> split_on c s = [s]"
  by (induction s) auto

lemma split_on_parts: "p \<in> set (split_on c s) \<Longrightarrow> c \<notin> set p"
  by (induction s arbitrary: p) (auto split: list.splits if_splits)

lemma first_piece_hd: "first_piece c s = hd (split_on c s)"
  by (induction s) (auto simp: first_piece_def split: list.splits)

lemma last_piece_no_sep: "c \<notin> set (last_piece c s)"
  by (auto simp: last_piece_def dest: set_takeWhileD)

lemma last_piece_cases:
  obtains "s = last_piece c s" | p where "s = p @ c # last_piece c s"
proof (cases "dropWhile (\<lambda>x. x \<noteq> c) (rev s)")
  case Nil
  then have "last_piece c s = s"
    unfolding last_piece_def
    by (metis append_Nil2 rev_rev_ident takeWhile_dropWhile_id)
  then show thesis using that(1) by simp
next
  case (Cons x xs)
  then have "x = c" using hd_dropWhile [of "\<lambda>x. x \<noteq> c" "rev s"] by auto
  then have "rev s = takeWhile (\<lambda>x. x \<noteq> c) (rev s) @ c # xs"
    using Cons by (metis takeWhile_dropWhile_id)
  then have "rev (rev s) = rev (takeWhile (\<lambda>x. x \<noteq> c) (rev s) @ c # xs)"
    by (rule arg_cong)
  then have "s = rev xs @ c # last_piece c s"
    by (simp add: last_piece_def)
  then show thesis by (rule that(2))
qed

lemma first_piece_append: "c \<notin> set l \<Longrightarrow> first_piece c (l @ c # s) = l"
  unfolding first_piece_def by (induction l) auto

end
