(* ===== verification/Pin_Protocol.thy ===== *)
theory Pin_Protocol
  imports Session
begin

text \<open>
  The PIN/UV auth protocols one and two (\<^verbatim>\<open>pin/mod.rs\<close>): key agreement, encryption,
  decryption and authentication over the primitives of the cryptographic crates.
\<close>

section \<open>The protocols\<close>

text \<open>A protocol object: its version and its ephemeral private key.\<close>

record pin_protocol =
  pp_version :: pin_uv_auth_protocol
  pp_private_key :: bytes

text \<open>\<^verbatim>\<open>PinUvAuthProtocolOne::new()\<close> and \<^verbatim>\<open>PinUvAuthProtocolTwo::new()\<close> draw a private key.\<close>

definition create_protocol_object ::
    "('d, 'te) platform \<Rightarrow> pin_uv_auth_protocol \<Rightarrow> ('d, 'te, pin_protocol) ceremony" where
  "create_protocol_object pf version =
     act_bind (on_device (pf_random_secret pf)) (\<lambda>private_key.
     act_return \<lparr>pp_version = version, pp_private_key = private_key\<rparr>)"

definition hmac_sha256 :: "crypto \<Rightarrow> bytes \<Rightarrow> bytes \<Rightarrow> platform_error + bytes" where
  "hmac_sha256 c key message = ok_or Pe_CryptoError (c_hmac_sha256 c key message)"

definition hkdf_sha256 :: "crypto \<Rightarrow> bytes \<Rightarrow> bytes \<Rightarrow> bytes \<Rightarrow> platform_error + bytes" where
  "hkdf_sha256 c salt ikm info = ok_or Pe_CryptoError (c_hkdf_sha256 c salt ikm info 32)"

definition pin_hash :: "crypto \<Rightarrow> bytes \<Rightarrow> bytes" where
  "pin_hash c pin = take 16 (c_sha256 c pin)"

text \<open>The ASCII bytes of \<^verbatim>\<open>CTAP2 HMAC key\<close> and \<^verbatim>\<open>CTAP2 AES key\<close>.\<close>

definition HMAC_KEY_INFO :: bytes where
  "HMAC_KEY_INFO = [0x43, 0x54, 0x41, 0x50, 0x32, 0x20, 0x48, 0x4D, 0x41, 0x43, 0x20, 0x6B, 0x65, 0x79]"

definition AES_KEY_INFO :: bytes where
  "AES_KEY_INFO = [0x43, 0x54, 0x41, 0x50, 0x32, 0x20, 0x41, 0x45, 0x53, 0x20, 0x6B, 0x65, 0x79]"

fun pin_kdf :: "crypto \<Rightarrow> pin_uv_auth_protocol \<Rightarrow> bytes \<Rightarrow> platform_error + bytes" where
  "pin_kdf c Protocol_One z = Inr (c_sha256 c z)"
| "pin_kdf c Protocol_Two ikm =
     result_bind (hkdf_sha256 c (replicate 32 0) ikm HMAC_KEY_INFO) (\<lambda>hmac_key.
     result_bind (hkdf_sha256 c (replicate 32 0) ikm AES_KEY_INFO) (\<lambda>aes_key.
     Inr (hmac_key @ aes_key)))"

definition pin_get_public_key :: "crypto \<Rightarrow> pin_protocol \<Rightarrow> platform_error + cose_public_key" where
  "pin_get_public_key c p =
     (case c_p256_public c (pp_private_key p) of
        (x, y) \<Rightarrow>
          if length x > 32 then Inl Pe_CryptoError
          else if length y > 32 then Inl Pe_CryptoError
          else Inr (EcdhEsHkdf256Key x y))"

fun pin_ecdh :: "crypto \<Rightarrow> pin_protocol \<Rightarrow> cose_public_key \<Rightarrow> platform_error + bytes" where
  "pin_ecdh c p Cose_OtherKey = Inl Pe_CryptoError"
| "pin_ecdh c p (EcdhEsHkdf256Key x y) =
     (if length x \<noteq> 32 then Inl Pe_CryptoError
      else if length y \<noteq> 32 then Inl Pe_CryptoError
      else case c_p256_ecdh c (pp_private_key p) (x, y) of
        None \<Rightarrow> Inl Pe_CryptoError
      | Some shared \<Rightarrow> pin_kdf c (pp_version p) shared)"

definition pin_encapsulate ::
    "crypto \<Rightarrow> pin_protocol \<Rightarrow> cose_public_key \<Rightarrow> platform_error + (cose_public_key \<times> bytes)" where
  "pin_encapsulate c p peer_public_key =
     result_bind (pin_ecdh c p peer_public_key) (\<lambda>shared_secret.
     result_bind (pin_get_public_key c p) (\<lambda>public_key.
     Inr (public_key, shared_secret)))"

text \<open>
  Encryption under an initialization vector, which is zero for protocol one and random for
  protocol two, where it is sent before the ciphertext.
\<close>

fun pin_encrypt_iv :: "crypto \<Rightarrow> pin_uv_auth_protocol \<Rightarrow> bytes \<Rightarrow> bytes \<Rightarrow> bytes \<Rightarrow> platform_error + bytes" where
  "pin_encrypt_iv c Protocol_One iv key plaintext =
     ok_or Pe_CryptoError (c_aes256_cbc_encrypt c key (replicate 16 0) plaintext)"
| "pin_encrypt_iv c Protocol_Two iv key plaintext =
     result_bind (ok_or Pe_CryptoError (slice_from key 32)) (\<lambda>key.
     result_bind (ok_or Pe_CryptoError (c_aes256_cbc_encrypt c key iv plaintext)) (\<lambda>ct.
     Inr (iv @ ct)))"

definition pin_encrypt :: "('d, 'te) platform \<Rightarrow> pin_protocol \<Rightarrow> bytes \<Rightarrow> bytes \<Rightarrow> ('d, 'te, bytes) ceremony" where
  "pin_encrypt pf p key plaintext =
     (case pp_version p of
        Protocol_One \<Rightarrow>
          act_lift (map_err We_Platform (pin_encrypt_iv (pf_crypto pf) Protocol_One [] key plaintext))
      | Protocol_Two \<Rightarrow>
          act_bind (act_lift (map_err We_Platform (ok_or Pe_CryptoError (slice_from key 32)))) (\<lambda>_.
          act_bind (on_device (pf_random_iv pf)) (\<lambda>iv.
          act_lift (map_err We_Platform (pin_encrypt_iv (pf_crypto pf) Protocol_Two iv key plaintext)))))"

fun pin_decrypt :: "crypto \<Rightarrow> pin_uv_auth_protocol \<Rightarrow> bytes \<Rightarrow> bytes \<Rightarrow> platform_error + bytes" where
  "pin_decrypt c Protocol_One key ciphertext =
     (if length ciphertext mod 16 \<noteq> 0 then Inl Pe_CryptoError
      else ok_or Pe_CryptoError (c_aes256_cbc_decrypt c key (replicate 16 0) ciphertext))"
| "pin_decrypt c Protocol_Two key ciphertext =
     result_bind (ok_or Pe_CryptoError (slice_from key 32)) (\<lambda>key.
     if length ciphertext < 16 then Inl Pe_CryptoError
     else ok_or Pe_CryptoError
       (c_aes256_cbc_decrypt c key (take 16 ciphertext) (drop 16 ciphertext)))"

fun pin_authenticate :: "crypto \<Rightarrow> pin_uv_auth_protocol \<Rightarrow> bytes \<Rightarrow> bytes \<Rightarrow> platform_error + bytes" where
  "pin_authenticate c Protocol_One key message =
     result_bind (hmac_sha256 c key message) (\<lambda>hmac.
     ok_or Pe_CryptoError (slice_upto hmac 16))"
| "pin_authenticate c Protocol_Two key message =
     result_bind (ok_or Pe_CryptoError (slice_upto key 32)) (\<lambda>key.
     hmac_sha256 c key message)"

section \<open>Laws of the primitives\<close>

text \<open>
  What the documentation of the crates promises: AES-CBC decryption inverts encryption on whole
  blocks under a 32-byte key and a 16-byte vector and keeps the length, both sides of a
  Diffie-Hellman exchange get the same secret from 32-byte coordinates, and the digests have
  their length.
\<close>

definition aes256_cbc_law :: "crypto \<Rightarrow> bool" where
  "aes256_cbc_law c \<longleftrightarrow> (\<forall>key iv p. length key = 32 \<longrightarrow> length iv = 16 \<longrightarrow> length p mod 16 = 0 \<longrightarrow>
     (\<exists>ct. c_aes256_cbc_encrypt c key iv p = Some ct \<and> c_aes256_cbc_decrypt c key iv ct = Some p
       \<and> length ct = length p))"

definition ecdh_law :: "crypto \<Rightarrow> bool" where
  "ecdh_law c \<longleftrightarrow> (\<forall>a b. length (fst (c_p256_public c a)) = 32 \<and> length (snd (c_p256_public c a)) = 32
     \<and> c_p256_ecdh c a (c_p256_public c b) = c_p256_ecdh c b (c_p256_public c a)
     \<and> c_p256_ecdh c a (c_p256_public c b) \<noteq> None)"

definition digest_law :: "crypto \<Rightarrow> bool" where
  "digest_law c \<longleftrightarrow> (\<forall>m. length (c_sha256 c m) = 32)
     \<and> (\<forall>salt ikm info l. l \<le> 255 * 32 \<longrightarrow>
         (\<exists>k. c_hkdf_sha256 c salt ikm info l = Some k \<and> length k = l))
     \<and> (\<forall>k m. \<exists>h. c_hmac_sha256 c k m = Some h \<and> length h = 32)"

text \<open>The length of a shared secret, and of the keys both protocols take from it.\<close>

fun secret_length :: "pin_uv_auth_protocol \<Rightarrow> nat" where
  "secret_length Protocol_One = 32"
| "secret_length Protocol_Two = 64"

lemma pin_kdf_length:
  assumes "digest_law c"
  shows "\<exists>k. pin_kdf c v z = Inr k \<and> length k = secret_length v"
proof (cases v)
  case Protocol_One
  then show ?thesis using assms by (simp add: digest_law_def)
next
  case Protocol_Two
  have "\<exists>k. c_hkdf_sha256 c salt z info 32 = Some k \<and> length k = 32" for salt info
    using assms by (simp add: digest_law_def)
  then show ?thesis
    using Protocol_Two by (metis (no_types, lifting) hkdf_sha256_def length_append numeral_Bit0
        ok_or_simps(2) pin_kdf.simps(2) result_bind_simps(2) secret_length.simps(2))
qed

lemma pin_ecdh_agrees:
  assumes "ecdh_law c" and "digest_law c"
    and "pp_version p = v" and "pp_version q = v"
  shows "\<exists>kp kq s. pin_get_public_key c p = Inr kp \<and> pin_get_public_key c q = Inr kq
    \<and> pin_ecdh c p kq = Inr s \<and> pin_ecdh c q kp = Inr s \<and> length s = secret_length v"
proof -
  obtain px py where p: "c_p256_public c (pp_private_key p) = (px, py)" by fastforce
  obtain qx qy where q: "c_p256_public c (pp_private_key q) = (qx, qy)" by fastforce
  have len: "length px = 32" "length py = 32" "length qx = 32" "length qy = 32"
    using assms(1) p q unfolding ecdh_law_def by (metis fst_conv, metis snd_conv, metis fst_conv, metis snd_conv)
  obtain z where z: "c_p256_ecdh c (pp_private_key p) (qx, qy) = Some z"
      "c_p256_ecdh c (pp_private_key q) (px, py) = Some z"
    using assms(1) unfolding ecdh_law_def by (metis p q not_None_eq)
  obtain k where "pin_kdf c v z = Inr k" "length k = secret_length v"
    using pin_kdf_length [OF assms(2)] by blast
  with z len assms(3,4) show ?thesis
    by (simp add: pin_get_public_key_def p q)
qed

lemma pin_decrypt_encrypt:
  assumes "aes256_cbc_law c" and "length key = secret_length v" and "length iv = 16"
    and "length plaintext mod 16 = 0"
  shows "\<exists>ct. pin_encrypt_iv c v iv key plaintext = Inr ct \<and> pin_decrypt c v key ct = Inr plaintext"
proof (cases v)
  case Protocol_One
  then obtain ct where "c_aes256_cbc_encrypt c key (replicate 16 0) plaintext = Some ct"
      "c_aes256_cbc_decrypt c key (replicate 16 0) ct = Some plaintext" "length ct = length plaintext"
    using assms unfolding aes256_cbc_law_def by (metis length_replicate secret_length.simps(1))
  then show ?thesis using Protocol_One assms(4) by simp
next
  case Protocol_Two
  then have k: "length (drop 32 key) = 32" "slice_from key 32 = Some (drop 32 key)"
    using assms(2) by (simp_all add: slice_from_def)
  then obtain ct where "c_aes256_cbc_encrypt c (drop 32 key) iv plaintext = Some ct"
      "c_aes256_cbc_decrypt c (drop 32 key) iv ct = Some plaintext"
    using assms unfolding aes256_cbc_law_def by meson
  then show ?thesis using Protocol_Two k assms(3) by simp
qed

section \<open>Properties\<close>

text \<open>
  C23: Both protocols protect a message end to end: the platform, which encapsulates to the
  public key of the authenticator, and the authenticator, which computes the secret from the
  public key it is sent, hold the same secret, and what one encrypts in whole blocks the other
  decrypts.
\<close>

theorem pin_protocol_end_to_end:
  assumes "aes256_cbc_law c" and "ecdh_law c" and "digest_law c"
    and "pp_version client = v" and "pp_version authenticator = v"
    and "length iv = 16" and "length message mod 16 = 0"
  shows "\<exists>device_key client_key secret ct. pin_get_public_key c authenticator = Inr device_key
    \<and> pin_encapsulate c client device_key = Inr (client_key, secret)
    \<and> pin_ecdh c authenticator client_key = Inr secret
    \<and> pin_encrypt_iv c v iv secret message = Inr ct
    \<and> pin_decrypt c v secret ct = Inr message"
proof -
  obtain kp kq s where *: "pin_get_public_key c client = Inr kp" "pin_get_public_key c authenticator = Inr kq"
      "pin_ecdh c client kq = Inr s" "pin_ecdh c authenticator kp = Inr s" "length s = secret_length v"
    using pin_ecdh_agrees [OF assms(2-5)] by blast
  then show ?thesis
    using pin_decrypt_encrypt [OF assms(1) *(5) assms(6,7)] by (simp add: pin_encapsulate_def)
qed

lemma example_crypto_laws: "aes256_cbc_law example_crypto" "ecdh_law example_crypto" "digest_law example_crypto"
  by (simp_all add: aes256_cbc_law_def ecdh_law_def digest_law_def example_crypto_def)

lemma pin_protocol_end_to_end_witness:
  "\<exists>device_key client_key secret ct. pin_get_public_key example_crypto \<lparr>pp_version = Protocol_Two, pp_private_key = [2]\<rparr>
      = Inr device_key
    \<and> pin_encapsulate example_crypto \<lparr>pp_version = Protocol_Two, pp_private_key = [1]\<rparr> device_key = Inr (client_key, secret)
    \<and> pin_ecdh example_crypto \<lparr>pp_version = Protocol_Two, pp_private_key = [2]\<rparr> client_key = Inr secret
    \<and> pin_encrypt_iv example_crypto Protocol_Two (replicate 16 9) secret (replicate 64 1) = Inr ct
    \<and> pin_decrypt example_crypto Protocol_Two secret ct = Inr (replicate 64 1)"
  by (rule pin_protocol_end_to_end [OF example_crypto_laws]) simp_all

text \<open>
  A pinUvAuthParam has the length its protocol prescribes: 16 bytes under protocol one, 32
  under protocol two, which refuses keys shorter than 32 bytes and reads only the first 32 of a
  longer one.
\<close>

theorem pin_authenticate_length:
  assumes "digest_law c"
  shows "case v of
     Protocol_One \<Rightarrow> \<exists>mac. pin_authenticate c v key message = Inr mac \<and> length mac = 16
   | Protocol_Two \<Rightarrow>
       if length key < 32 then pin_authenticate c v key message = Inl Pe_CryptoError
       else \<exists>mac. pin_authenticate c v key message = Inr mac \<and> length mac = 32
         \<and> pin_authenticate c v (take 32 key) message = Inr mac"
proof -
  have "\<exists>h. c_hmac_sha256 c k m = Some h \<and> length h = 32" for k m
    using assms by (simp add: digest_law_def)
  from this [of key message] this [of "take 32 key" message] show ?thesis
    by (auto simp: hmac_sha256_def slice_upto_def split: pin_uv_auth_protocol.split)
qed

lemma pin_authenticate_length_witness:
  "case Protocol_Two of
     Protocol_One \<Rightarrow> \<exists>mac. pin_authenticate example_crypto Protocol_Two (replicate 40 1) [] = Inr mac \<and> length mac = 16
   | Protocol_Two \<Rightarrow>
       if length (replicate 40 (1 :: u8)) < 32
       then pin_authenticate example_crypto Protocol_Two (replicate 40 1) [] = Inl Pe_CryptoError
       else \<exists>mac. pin_authenticate example_crypto Protocol_Two (replicate 40 1) [] = Inr mac \<and> length mac = 32
         \<and> pin_authenticate example_crypto Protocol_Two (take 32 (replicate 40 1)) [] = Inr mac"
  by (rule pin_authenticate_length [OF example_crypto_laws(3)])

end
