(* ===== verification/Uv_Token.thy ===== *)
theory Uv_Token
  imports Pin_Protocol
begin

text \<open>
  The user verification flow, \<^verbatim>\<open>webauthn/pin_uv_auth_token.rs\<close> and \<^verbatim>\<open>change_pin_internal\<close> of
  \<^verbatim>\<open>pin/mod.rs\<close>: choosing the operation, asking for a PIN, obtaining a shared secret and a
  token, storing it, and falling back from built-in verification to the PIN.  Loops that a device
  or a user can keep going take fuel.
\<close>

section \<open>Requests that can be verified\<close>

datatype uv_requirement = Uv_Required | Uv_Discouraged | Uv_Preferred

fun is_discouraged :: "uv_requirement \<Rightarrow> bool" where
  "is_discouraged Uv_Required = False"
| "is_discouraged Uv_Preferred = False"
| "is_discouraged Uv_Discouraged = True"

fun is_preferred :: "uv_requirement \<Rightarrow> bool" where
  "is_preferred Uv_Required = True"
| "is_preferred Uv_Preferred = True"
| "is_preferred Uv_Discouraged = False"

fun is_required :: "uv_requirement \<Rightarrow> bool" where
  "is_required Uv_Required = True"
| "is_required Uv_Preferred = False"
| "is_required Uv_Discouraged = False"

text \<open>The methods of the trait \<^verbatim>\<open>Ctap2UserVerifiableRequest\<close> on requests of type \<open>'q\<close>.\<close>

record 'q uv_request =
  uq_ensure_uv_set :: "'q \<Rightarrow> 'q"
  uq_calculate_and_set_uv_auth ::
    "crypto \<Rightarrow> pin_uv_auth_protocol \<Rightarrow> bytes \<Rightarrow> 'q \<Rightarrow> platform_error + 'q"
  uq_permissions :: "'q \<Rightarrow> permission_role"
  uq_permissions_rpid :: "'q \<Rightarrow> string option"
  uq_can_use_uv :: "'q \<Rightarrow> get_info_response \<Rightarrow> bool"
  uq_handle_legacy_preview :: "get_info_response \<Rightarrow> 'q \<Rightarrow> 'q"
  uq_needs_shared_secret :: "'q \<Rightarrow> get_info_response \<Rightarrow> bool"
  uq_set_persistent_token_use :: "get_info_response \<Rightarrow> bool \<Rightarrow> 'q \<Rightarrow> 'q"
  uq_wants_persistent_token :: "'q \<Rightarrow> bool"
  uq_note_persistent_token_rejected :: "'q \<Rightarrow> 'q"
  uq_persistent_token_rejected :: "'q \<Rightarrow> bool"
  uq_needs_pin_uv_auth_token :: "'q \<Rightarrow> get_info_response \<Rightarrow> bool"

text \<open>
  The flow works on the session and on the request, which it updates in place: an update made
  before an error stays.
\<close>

type_synonym ('d, 'q, 'te, 'a) uv_flow = "('d session \<times> 'q, 'te webauthn_error, 'a) action"

definition on_session :: "('d, 'te, 'a) ceremony \<Rightarrow> ('d, 'q, 'te, 'a) uv_flow" where
  "on_session m = (\<lambda>(s, q). map_option (\<lambda>(r, s'). (r, (s', q))) (m s))"

definition request_get :: "('q \<Rightarrow> 'a) \<Rightarrow> ('d, 'q, 'te, 'a) uv_flow" where
  "request_get f = act_get (\<lambda>(s, q). f q)"

definition request_modify :: "('q \<Rightarrow> 'q) \<Rightarrow> ('d, 'q, 'te, unit) uv_flow" where
  "request_modify f = act_modify (\<lambda>(s, q). (s, f q))"

definition set_uv_auth :: "('d, 'te) platform \<Rightarrow> 'q uv_request \<Rightarrow> pin_uv_auth_protocol \<Rightarrow> bytes
    \<Rightarrow> ('d, 'q, 'te, unit) uv_flow" where
  "set_uv_auth pf ops version token = (\<lambda>(s, q).
     case uq_calculate_and_set_uv_auth ops (pf_crypto pf) version token q of
       Inl e \<Rightarrow> Some (Inl (We_Platform e), (s, q))
     | Inr q' \<Rightarrow> Some (Inr (), (s, q')))"

datatype used_token = FromEphemeralStorage | FromPersistentStorage record_id
  | NewlyCalculated uv_operation | Used_LegacyUV | SharedSecretOnly | Used_None

section \<open>Choosing protocol and operation\<close>

definition find_uv_proto :: "get_info_response \<Rightarrow> pin_uv_auth_protocol option" where
  "find_uv_proto info =
     (case gi_pin_auth_protos info of
        None \<Rightarrow> None
      | Some protocols \<Rightarrow>
          (case List.find (\<lambda>p. p = 1 \<or> p = 2) protocols of
             None \<Rightarrow> None
           | Some p \<Rightarrow> Some (if p = 1 then Protocol_One else Protocol_Two)))"

definition select_uv_proto ::
    "('d, 'te) platform \<Rightarrow> get_info_response \<Rightarrow> ('d, 'te, pin_protocol option) ceremony" where
  "select_uv_proto pf info =
     (case find_uv_proto info of
        None \<Rightarrow> act_return None
      | Some version \<Rightarrow> act_bind (create_protocol_object pf version) (\<lambda>p. act_return (Some p)))"

fun pin_uv_auth_token_len_valid :: "pin_uv_auth_protocol \<Rightarrow> nat \<Rightarrow> bool" where
  "pin_uv_auth_token_len_valid Protocol_One len = (len = 16 \<or> len = 32)"
| "pin_uv_auth_token_len_valid Protocol_Two len = (len = 32)"

definition enforce_no_mc_ga_with_client_pin ::
    "get_info_response \<Rightarrow> uv_operation \<Rightarrow> permission_role \<Rightarrow> bool \<Rightarrow> platform_error + uv_operation" where
  "enforce_no_mc_ga_with_client_pin info op permissions uv_unavailable =
     (let is_client_pin = uses_pin op;
          wants_mc_or_ga = role_intersects permissions (role_union MAKE_CREDENTIAL GET_ASSERTION)
      in if \<not> is_client_pin \<or> \<not> wants_mc_or_ga
           \<or> \<not> option_enabled info ''noMcGaPermissionsWithClientPin'' then Inr op
         else if option_enabled info ''uv'' \<and> \<not> uv_unavailable
         then Inr GetPinUvAuthTokenUsingUvWithPermissions
         else Inl Pe_NoUvAvailable)"

section \<open>Secrets and PINs\<close>

definition obtain_shared_secret :: "('d, 'te) platform \<Rightarrow> pin_protocol \<Rightarrow> nat
    \<Rightarrow> ('d, 'te, cose_public_key \<times> bytes) ceremony" where
  "obtain_shared_secret pf p timeout =
     act_bind (ctap2_client_pin pf (new_get_key_agreement (pp_version p)) timeout) (\<lambda>response.
     case cpr_key_agreement response of
       None \<Rightarrow> act_fail (We_Ctap Ctap_Other)
     | Some public_key \<Rightarrow> act_lift (map_err We_Platform (pin_encapsulate (pf_crypto pf) p public_key)))"

text \<open>\<^verbatim>\<open>.map(|x| x.field).ok().flatten()\<close>: an error of the request counts as no answer.\<close>

definition soft_field :: "('r \<Rightarrow> 'a option) \<Rightarrow> ('d, 'te, 'r) ceremony \<Rightarrow> ('d, 'te, 'a option) ceremony" where
  "soft_field field m =
     act_try m (\<lambda>r. act_return (case r of Inl _ \<Rightarrow> None | Inr x \<Rightarrow> field x))"

definition obtain_pin :: "('d, 'te) platform \<Rightarrow> get_info_response \<Rightarrow> pin_uv_auth_protocol
    \<Rightarrow> pin_request_reason \<Rightarrow> nat \<Rightarrow> ('d, 'te, bytes) ceremony" where
  "obtain_pin pf info pin_proto reason timeout =
     (let pin_protocol = (if supports_fido_2_1 info then None else Some pin_proto)
      in act_bind (soft_field cpr_pin_retries
           (ctap2_client_pin pf (new_get_pin_retries pin_protocol) timeout)) (\<lambda>attempts_left.
         act_bind (prompt_pin pf (PinRequired reason attempts_left)) (\<lambda>reply.
         case reply of
           None \<Rightarrow> act_fail (We_Ctap Ctap_PINRequired)
         | Some pin \<Rightarrow> act_return (utf8_bytes (c_nfc (pf_crypto pf) pin)))))"

definition recognized_record :: "('d, 'te) platform \<Rightarrow> get_info_response \<Rightarrow> 'd session
    \<Rightarrow> (record_id \<times> persistent_token_record) option" where
  "recognized_record pf info s =
     (case sn_token_store s of
        None \<Rightarrow> None
      | Some store \<Rightarrow> recognize_authenticator (pf_crypto pf) memory_store store info)"

definition delete_record :: "record_id \<Rightarrow> 'd session \<Rightarrow> 'd session" where
  "delete_record rid s =
     s\<lparr>sn_token_store := map_option (ts_delete memory_store rid) (sn_token_store s)\<rparr>"

text \<open>The PIN padded to 64 bytes.\<close>

definition padded_pin :: "bytes \<Rightarrow> bytes" where
  "padded_pin pin = take 64 pin @ replicate (64 - length pin) 0"

definition current_pin :: "('d, 'te) platform \<Rightarrow> get_info_response \<Rightarrow> pin_protocol \<Rightarrow> nat
    \<Rightarrow> ('d, 'te, bytes option) ceremony" where
  "current_pin pf info p timeout =
     (case gi_options info of
        None \<Rightarrow> act_fail (We_Platform Pe_InvalidDeviceResponse)
      | Some options \<Rightarrow>
          (case options ''clientPin'' of
             Some True \<Rightarrow>
               act_bind (obtain_pin pf info (pp_version p) AuthenticatorPolicy timeout)
                 (\<lambda>pin. act_return (Some pin))
           | Some False \<Rightarrow> act_return None
           | None \<Rightarrow> act_fail (We_Platform Pe_PinNotSupported)))"

definition change_pin_request :: "('d, 'te) platform \<Rightarrow> pin_protocol \<Rightarrow> cose_public_key \<Rightarrow> bytes \<Rightarrow> bytes
    \<Rightarrow> bytes option \<Rightarrow> ('d, 'te, client_pin_request) ceremony" where
  "change_pin_request pf p public_key shared_secret new_pin_enc old_pin =
     (case old_pin of
        Some curr_pin \<Rightarrow>
          act_bind (pin_encrypt pf p shared_secret (pin_hash (pf_crypto pf) curr_pin)) (\<lambda>pin_hash_enc.
          act_bind (act_lift (map_err We_Platform (pin_authenticate (pf_crypto pf) (pp_version p)
            shared_secret (new_pin_enc @ pin_hash_enc)))) (\<lambda>uv_auth_param.
          act_return (new_change_pin (pp_version p) new_pin_enc pin_hash_enc public_key uv_auth_param)))
      | None \<Rightarrow>
          act_bind (act_lift (map_err We_Platform (pin_authenticate (pf_crypto pf) (pp_version p)
            shared_secret new_pin_enc))) (\<lambda>uv_auth_param.
          act_return (new_set_pin (pp_version p) new_pin_enc public_key uv_auth_param)))"

definition change_pin_internal :: "('d, 'te) platform \<Rightarrow> get_info_response \<Rightarrow> code_points \<Rightarrow> nat
    \<Rightarrow> ('d, 'te, unit) ceremony" where
  "change_pin_internal pf info pin timeout =
     (let new_pin = c_nfc (pf_crypto pf) pin;
          min_length = (case gi_min_pin_length info of None \<Rightarrow> 4 | Some n \<Rightarrow> unat n)
      in if length new_pin < min_length then act_fail (We_Platform Pe_PinTooShort)
         else if length (utf8_bytes new_pin) \<ge> 64 then act_fail (We_Platform Pe_PinTooLong)
         else
           act_bind (act_get (recognized_record pf info)) (\<lambda>persistent_record.
           act_bind (select_uv_proto pf info) (\<lambda>proto.
           case proto of
             None \<Rightarrow> act_fail (We_Ctap Ctap_Other)
           | Some p \<Rightarrow>
               act_bind (current_pin pf info p timeout) (\<lambda>old_pin.
               act_bind (obtain_shared_secret pf p timeout) (\<lambda>(public_key, shared_secret).
               act_bind (pin_encrypt pf p shared_secret (padded_pin (utf8_bytes new_pin))) (\<lambda>new_pin_enc.
               act_bind (change_pin_request pf p public_key shared_secret new_pin_enc old_pin) (\<lambda>req.
               act_bind (ctap2_client_pin pf req timeout) (\<lambda>_.
               case persistent_record of
                 None \<Rightarrow> act_return ()
               | Some (rid, _) \<Rightarrow> act_modify (delete_record rid)))))))))"

definition change_pin :: "('d, 'te) platform \<Rightarrow> code_points \<Rightarrow> nat \<Rightarrow> ('d, 'te, unit) ceremony" where
  "change_pin pf new_pin timeout =
     act_bind (ctap2_get_info pf) (\<lambda>info. change_pin_internal pf info new_pin timeout)"

text \<open>The loop of \<^verbatim>\<open>try_to_set_pin\<close>; each turn asks the user for a PIN.\<close>

fun set_pin_loop :: "('d, 'te) platform \<Rightarrow> nat \<Rightarrow> get_info_response \<Rightarrow> pin_not_set_reason \<Rightarrow> nat
    \<Rightarrow> ('d, 'te, unit) ceremony" where
  "set_pin_loop pf 0 info reason timeout = (\<lambda>s. None)"
| "set_pin_loop pf (Suc fuel) info reason timeout =
     act_bind (prompt_pin pf (PinNotSet reason)) (\<lambda>reply.
     case reply of
       None \<Rightarrow> act_fail (We_Platform Pe_Cancelled)
     | Some pin \<Rightarrow>
         act_try (change_pin_internal pf info pin timeout) (\<lambda>r.
         case r of
           Inr () \<Rightarrow> act_return ()
         | Inl (We_Platform Pe_PinTooShort) \<Rightarrow> set_pin_loop pf fuel info Pns_PinTooShort timeout
         | Inl (We_Platform Pe_PinTooLong) \<Rightarrow> set_pin_loop pf fuel info Pns_PinTooLong timeout
         | Inl (We_Ctap Ctap_PINPolicyViolation) \<Rightarrow>
             set_pin_loop pf fuel info Pns_PinPolicyViolation timeout
         | Inl err \<Rightarrow> act_fail err))"

definition try_to_set_pin :: "('d, 'te) platform \<Rightarrow> nat \<Rightarrow> get_info_response \<Rightarrow> pin_not_set_reason \<Rightarrow> nat
    \<Rightarrow> ('d, 'te, unit) ceremony" where
  "try_to_set_pin pf fuel info reason timeout =
     (if \<not> option_exists info ''clientPin'' then act_return ()
      else set_pin_loop pf fuel info reason timeout)"

section \<open>The verification loop\<close>

text \<open>What the loop leaves with: an early return, or the values of its \<^verbatim>\<open>break\<close>.\<close>

record uv_acquired =
  ua_proto :: pin_protocol
  ua_shared_secret :: bytes
  ua_public_key :: cose_public_key
  ua_operation :: uv_operation
  ua_response :: "client_pin_response option"

datatype loop_exit = Loop_Return used_token | Loop_Break uv_acquired

text \<open>What is fixed before the loop.\<close>

record uv_context =
  uc_rp_uv_preferred :: bool
  uc_rp_uv_discouraged :: bool
  uc_needs_shared_secret :: bool
  uc_can_establish_shared_secret :: bool
  uc_skip_uv :: bool
  uc_timeout :: nat

definition pin_reason :: "uv_context \<Rightarrow> bool \<Rightarrow> pin_request_reason" where
  "pin_reason cx uv_blocked =
     (if uv_blocked then FallbackFromUV
      else if uc_rp_uv_preferred cx then RelyingPartyRequest else AuthenticatorPolicy)"

text \<open>The operation of a turn, after the downgrade for discouraged verification.\<close>

definition downgraded_operation ::
    "'q uv_request \<Rightarrow> uv_context \<Rightarrow> get_info_response \<Rightarrow> uv_operation \<Rightarrow> 'q \<Rightarrow> uv_operation" where
  "downgraded_operation ops cx info op q =
     (if op = LegacyUv then op
      else if uc_rp_uv_discouraged cx \<and> uc_needs_shared_secret cx then
        (if \<not> uq_needs_pin_uv_auth_token ops q info then OnlyForSharedSecret else op)
      else op)"

text \<open>The request for a token; \<open>None\<close> for the operations that only establish a secret.\<close>

definition token_request :: "('d, 'te) platform \<Rightarrow> 'q uv_request \<Rightarrow> pin_protocol \<Rightarrow> cose_public_key
    \<Rightarrow> bytes \<Rightarrow> bytes option \<Rightarrow> uv_operation \<Rightarrow> ('d, 'q, 'te, client_pin_request option) uv_flow" where
  "token_request pf ops p public_key shared_secret pin op =
     (case op of
        LegacyUv \<Rightarrow> act_return None
      | OnlyForSharedSecret \<Rightarrow> act_return None
      | GetPinToken \<Rightarrow>
          (case pin of
             None \<Rightarrow> act_fail (We_Ctap Ctap_PINRequired)
           | Some pin \<Rightarrow>
               act_bind (on_session (pin_encrypt pf p shared_secret (pin_hash (pf_crypto pf) pin))) (\<lambda>enc.
               act_return (Some (new_get_pin_token (pp_version p) public_key enc))))
      | GetPinUvAuthTokenUsingPinWithPermissions \<Rightarrow>
          (case pin of
             None \<Rightarrow> act_fail (We_Ctap Ctap_PINRequired)
           | Some pin \<Rightarrow>
               act_bind (on_session (pin_encrypt pf p shared_secret (pin_hash (pf_crypto pf) pin))) (\<lambda>enc.
               act_bind (request_get (uq_permissions ops)) (\<lambda>permissions.
               act_bind (request_get (uq_permissions_rpid ops)) (\<lambda>rpid.
               act_return (Some (new_get_pin_token_with_perm (pp_version p) public_key enc
                 permissions rpid))))))
      | GetPinUvAuthTokenUsingUvWithPermissions \<Rightarrow>
          act_bind (on_session (send_ux_update PresenceRequired)) (\<lambda>_.
          act_bind (request_get (uq_permissions ops)) (\<lambda>permissions.
          act_bind (request_get (uq_permissions_rpid ops)) (\<lambda>rpid.
          act_return (Some (new_get_uv_token_with_perm (pp_version p) public_key permissions rpid))))))"

text \<open>
  A turn from the selected protocol on: the PIN, the shared secret, the token request and its
  answer; \<open>again\<close> is the next turn with built-in verification blocked.
\<close>

definition uv_acquire :: "('d, 'te) platform \<Rightarrow> 'q uv_request \<Rightarrow> uv_context \<Rightarrow> get_info_response \<Rightarrow> bool
    \<Rightarrow> pin_protocol \<Rightarrow> uv_operation \<Rightarrow> ('d, 'q, 'te, loop_exit \<times> get_info_response) uv_flow
    \<Rightarrow> ('d, 'q, 'te, loop_exit \<times> get_info_response) uv_flow" where
  "uv_acquire pf ops cx info uv_blocked p op again =
     act_bind
       (if uses_pin op
        then act_bind (on_session (obtain_pin pf info (pp_version p) (pin_reason cx uv_blocked) (uc_timeout cx)))
          (\<lambda>pin. act_return (Some pin))
        else act_return None) (\<lambda>pin.
     act_bind (on_session (obtain_shared_secret pf p (uc_timeout cx))) (\<lambda>(public_key, shared_secret).
     act_bind (token_request pf ops p public_key shared_secret pin op) (\<lambda>request.
     let acquired = (\<lambda>response. \<lparr>ua_proto = p, ua_shared_secret = shared_secret,
           ua_public_key = public_key, ua_operation = op, ua_response = response\<rparr>)
     in case request of
          None \<Rightarrow> act_return (Loop_Break (acquired None), info)
        | Some treq \<Rightarrow>
            act_try (on_session (ctap2_client_pin pf treq (uc_timeout cx))) (\<lambda>r.
            case r of
              Inr t \<Rightarrow> act_return (Loop_Break (acquired (Some t)), info)
            | Inl (We_Ctap Ctap_UvBlocked) \<Rightarrow> again
            | Inl (We_Ctap Ctap_UVInvalid) \<Rightarrow>
                act_bind (on_session (soft_field cpr_uv_retries
                  (ctap2_client_pin pf new_get_uv_retries (uc_timeout cx)))) (\<lambda>attempts_left.
                act_bind (on_session (send_ux_update (UvRetry attempts_left))) (\<lambda>_.
                if attempts_left = Some 0 then again
                else act_fail (We_Ctap Ctap_UVInvalid)))
            | Inl x \<Rightarrow> act_fail x))))"

fun uv_loop :: "('d, 'te) platform \<Rightarrow> 'q uv_request \<Rightarrow> uv_context \<Rightarrow> nat \<Rightarrow> get_info_response \<Rightarrow> bool
    \<Rightarrow> ('d, 'q, 'te, loop_exit \<times> get_info_response) uv_flow" where
  "uv_loop pf ops cx 0 info uv_blocked = (\<lambda>s. None)"
| "uv_loop pf ops cx (Suc fuel) info uv_blocked =
     (case uv_operation_of info (uv_blocked \<or> uc_skip_uv cx) of
        None \<Rightarrow> act_fail (if uv_blocked then We_Ctap Ctap_UvBlocked else We_Platform Pe_NoUvAvailable)
      | Some op0 \<Rightarrow>
          act_bind (if op0 = LegacyUv then request_modify (uq_ensure_uv_set ops) else act_return ()) (\<lambda>_.
          if op0 = LegacyUv \<and> (\<not> uc_needs_shared_secret cx \<or> \<not> uc_can_establish_shared_secret cx)
          then act_return (Loop_Return Used_LegacyUV, info)
          else
            act_bind (request_get (downgraded_operation ops cx info op0)) (\<lambda>op1.
            act_bind (request_get (uq_permissions ops)) (\<lambda>permissions.
            act_bind (act_lift (map_err We_Platform
              (enforce_no_mc_ga_with_client_pin info op1 permissions (uv_blocked \<or> uc_skip_uv cx)))) (\<lambda>op.
            if gi_force_pin_change info = Some True \<and> uses_pin op then
              act_bind (on_session (try_to_set_pin pf fuel info Pns_PinChangeRequired (uc_timeout cx))) (\<lambda>_.
              act_bind (on_session (ctap2_get_info pf)) (\<lambda>info'.
              uv_loop pf ops cx fuel info' uv_blocked))
            else
              act_bind (on_session (select_uv_proto pf info)) (\<lambda>proto.
              case proto of
                None \<Rightarrow> act_fail (We_Ctap Ctap_Other)
              | Some p \<Rightarrow>
                  uv_acquire pf ops cx info uv_blocked p op (uv_loop pf ops cx fuel info True)))))))"

section \<open>Packaging the result\<close>

definition persist_minted_token :: "('d, 'te) platform \<Rightarrow> get_info_response \<Rightarrow> bytes
    \<Rightarrow> pin_uv_auth_protocol \<Rightarrow> ('d, 'te, unit) ceremony" where
  "persist_minted_token pf info token version =
     act_bind (act_get sn_token_store) (\<lambda>configured.
     case configured of
       None \<Rightarrow> act_return ()
     | Some store \<Rightarrow>
         act_bind (on_device (pf_random_record_id pf)) (\<lambda>new_id.
         act_modify (\<lambda>s. s\<lparr>sn_token_store := Some (snd
           (store_minted_token (pf_crypto pf) memory_store new_id info token version store))\<rparr>)))"

definition store_acquired :: "uv_acquired \<Rightarrow> auth_token_permission option \<Rightarrow> bytes option
    \<Rightarrow> ('d, 'te, unit) ceremony" where
  "store_acquired a permission token =
     act_modify (session_store_auth_data
       \<lparr>atd_protocol_version = pp_version (ua_proto a), atd_key_agreement = ua_public_key a,
         atd_shared_secret = ua_shared_secret a, atd_uv_operation = ua_operation a,
         atd_permission = permission, atd_pin_uv_auth_token = token\<rparr>)"

definition package_token :: "('d, 'te) platform \<Rightarrow> 'q uv_request \<Rightarrow> get_info_response \<Rightarrow> uv_acquired
    \<Rightarrow> ('d, 'q, 'te, used_token) uv_flow" where
  "package_token pf ops info a =
     (let version = pp_version (ua_proto a)
      in case ua_response a of
        None \<Rightarrow> act_fail (We_Ctap Ctap_Other)
      | Some response \<Rightarrow>
          (case cpr_pin_uv_auth_token response of
             None \<Rightarrow> act_fail (We_Ctap Ctap_Other)
           | Some encrypted \<Rightarrow>
               act_bind (act_lift (map_err We_Platform
                 (pin_decrypt (pf_crypto pf) version (ua_shared_secret a) encrypted))) (\<lambda>token.
               if \<not> pin_uv_auth_token_len_valid version (length token) then act_fail (We_Ctap Ctap_Other)
               else
                 act_bind (request_get (uq_wants_persistent_token ops)) (\<lambda>persistent.
                 act_bind
                   (if persistent then on_session (persist_minted_token pf info token version)
                    else
                      act_bind (request_get (\<lambda>q. auth_token_permission_new version
                        (uq_permissions ops q) (uq_permissions_rpid ops q))) (\<lambda>token_identifier.
                      on_session (store_acquired a (Some token_identifier) (Some token)))) (\<lambda>_.
                 act_bind (set_uv_auth pf ops version token) (\<lambda>_.
                 act_return (NewlyCalculated (ua_operation a))))))))"

definition package :: "('d, 'te) platform \<Rightarrow> 'q uv_request \<Rightarrow> get_info_response \<Rightarrow> uv_acquired
    \<Rightarrow> ('d, 'q, 'te, used_token) uv_flow" where
  "package pf ops info a =
     (if ua_operation a = OnlyForSharedSecret \<or> ua_operation a = LegacyUv then
        act_bind (on_session (store_acquired a None None)) (\<lambda>_.
        act_return (if ua_operation a = LegacyUv then Used_LegacyUV else SharedSecretOnly))
      else package_token pf ops info a)"

section \<open>User verification\<close>

text \<open>Required verification on a device without any: a PIN is set first.\<close>

definition ensure_uv_protected :: "('d, 'te) platform \<Rightarrow> nat \<Rightarrow> get_info_response \<Rightarrow> uv_requirement \<Rightarrow> nat
    \<Rightarrow> ('d, 'te, get_info_response) ceremony" where
  "ensure_uv_protected pf fuel info uv timeout =
     (if is_required uv \<and> \<not> is_uv_protected info then
        act_bind (try_to_set_pin pf fuel info Pns_PinNotSet timeout) (\<lambda>_.
        act_bind (ctap2_get_info pf) (\<lambda>info'.
        if \<not> is_uv_protected info' then act_fail (We_Platform Pe_NoUvAvailable)
        else act_return info'))
      else act_return info)"

definition user_verification_helper :: "('d, 'te) platform \<Rightarrow> 'q uv_request \<Rightarrow> nat \<Rightarrow> get_info_response
    \<Rightarrow> uv_requirement \<Rightarrow> nat \<Rightarrow> ('d, 'q, 'te, used_token) uv_flow" where
  "user_verification_helper pf ops fuel info0 requirement timeout =
     act_bind (request_get (\<lambda>q. uq_needs_shared_secret ops q info0)) (\<lambda>needs_shared_secret.
     let rp_uv_preferred = is_preferred requirement;
         rp_uv_discouraged = is_discouraged requirement;
         can_establish = can_establish_shared_secret info0;
         uv = (\<not> rp_uv_discouraged \<and> (rp_uv_preferred \<or> is_uv_protected info0))
     in act_bind (on_session (ensure_uv_protected pf fuel info0 requirement timeout)) (\<lambda>info.
        if \<not> needs_shared_secret \<and> \<not> uv then act_return Used_None
        else if \<not> needs_shared_secret \<and> \<not> is_uv_protected info \<and> is_preferred requirement
        then act_return Used_None
        else if needs_shared_secret \<and> \<not> can_establish \<and> \<not> uv then act_return Used_None
        else
          act_bind (request_get (\<lambda>q. \<not> uq_can_use_uv ops q info)) (\<lambda>skip_uv.
          let cx = \<lparr>uc_rp_uv_preferred = rp_uv_preferred, uc_rp_uv_discouraged = rp_uv_discouraged,
            uc_needs_shared_secret = needs_shared_secret, uc_can_establish_shared_secret = can_establish,
            uc_skip_uv = skip_uv, uc_timeout = timeout\<rparr>
          in act_bind (uv_loop pf ops cx fuel info False) (\<lambda>(exit, info').
             case exit of
               Loop_Return used \<Rightarrow> act_return used
             | Loop_Break a \<Rightarrow> package pf ops info' a))))"

definition user_verification :: "('d, 'te) platform \<Rightarrow> 'q uv_request \<Rightarrow> nat \<Rightarrow> uv_requirement \<Rightarrow> nat
    \<Rightarrow> ('d, 'q, 'te, used_token) uv_flow" where
  "user_verification pf ops fuel requirement timeout =
     act_bind (on_session (ctap2_get_info pf)) (\<lambda>info.
     act_bind (request_modify (uq_handle_legacy_preview ops info)) (\<lambda>_.
     act_bind (on_session (act_get sn_token_store)) (\<lambda>store.
     act_bind (request_modify (uq_set_persistent_token_use ops info (store \<noteq> None))) (\<lambda>_.
     act_bind (request_get (\<lambda>q. uq_wants_persistent_token ops q \<and> \<not> uq_persistent_token_rejected ops q))
       (\<lambda>reuse_persistent.
     act_bind (on_session (act_get (recognized_record pf info))) (\<lambda>recognized.
     case (if reuse_persistent then recognized else None) of
       Some (rid, r) \<Rightarrow>
         act_bind (on_session (create_protocol_object pf (ptr_pin_uv_auth_protocol r))) (\<lambda>p.
         act_bind (set_uv_auth pf ops (pp_version p) (ptr_persistent_token r)) (\<lambda>_.
         act_return (FromPersistentStorage rid)))
     | None \<Rightarrow>
         act_bind (on_session (select_uv_proto pf info)) (\<lambda>proto.
         act_bind
           (case proto of
              None \<Rightarrow> act_return None
            | Some p \<Rightarrow>
                act_get (\<lambda>(s, q). map_option (\<lambda>token. (pp_version p, token))
                  (get_uv_auth_token (session_get_auth_data s)
                    (auth_token_permission_new (pp_version p) (uq_permissions ops q)
                      (uq_permissions_rpid ops q))))) (\<lambda>cached.
         case cached of
           Some (version, token) \<Rightarrow>
             act_bind (set_uv_auth pf ops version token) (\<lambda>_. act_return FromEphemeralStorage)
         | None \<Rightarrow> user_verification_helper pf ops fuel info requirement timeout))))))))"

end
