(* ===== verification/Auth_Data.thy ===== *)
theory Auth_Data
  imports Platform
begin

text \<open>
  Authenticator data (\<^verbatim>\<open>fido.rs\<close>): its flags and fields, its serialization and its parser.  The
  CBOR items inside it are read and written by \<^verbatim>\<open>serde_cbor\<close>, which is a parameter: how to step
  over one item, and how to decode and encode the extension map.
\<close>

section \<open>Protocols and flags\<close>

datatype fido_protocol = FIDO2 | U2F

datatype fido_revision = Rev_V2 | Rev_U2fv12 | Rev_U2fv11

fun fido_protocol_of_revision :: "fido_revision \<Rightarrow> fido_protocol" where
  "fido_protocol_of_revision Rev_V2 = FIDO2"
| "fido_protocol_of_revision Rev_U2fv11 = U2F"
| "fido_protocol_of_revision Rev_U2fv12 = U2F"

definition USER_PRESENT :: u8 where "USER_PRESENT = 0x01"
definition USER_VERIFIED :: u8 where "USER_VERIFIED = 0x04"
definition BACKUP_ELIGIBILITY :: u8 where "BACKUP_ELIGIBILITY = 0x08"
definition BACKUP_STATE :: u8 where "BACKUP_STATE = 0x10"
definition ATTESTED_CREDENTIALS :: u8 where "ATTESTED_CREDENTIALS = 0x40"
definition EXTENSION_DATA :: u8 where "EXTENSION_DATA = 0x80"

definition flags_contain :: "u8 \<Rightarrow> u8 \<Rightarrow> bool" where
  "flags_contain flags f \<longleftrightarrow> flags AND f = f"

section \<open>The data\<close>

record attested_credential_data =
  ac_aaguid :: bytes
  ac_credential_id :: bytes
  ac_credential_public_key :: bytes

record 'ext authenticator_data =
  ad_rp_id_hash :: bytes
  ad_flags :: u8
  ad_signature_count :: u32
  ad_attested_credential :: "attested_credential_data option"
  ad_extensions :: "'ext option"
  ad_raw :: "bytes option"

definition backup_eligible :: "'ext authenticator_data \<Rightarrow> bool" where
  "backup_eligible d = flags_contain (ad_flags d) BACKUP_ELIGIBILITY"

definition backed_up :: "'ext authenticator_data \<Rightarrow> bool" where
  "backed_up d = flags_contain (ad_flags d) BACKUP_STATE"

section \<open>Serialization\<close>

definition attested_credential_bytes :: "attested_credential_data \<Rightarrow> bytes" where
  "attested_credential_bytes a =
     ac_aaguid a @ be_u16 (of_nat (length (ac_credential_id a))) @ ac_credential_id a
       @ ac_credential_public_key a"

text \<open>\<open>to_vec\<close> is the CBOR encoder of the extensions.\<close>

definition to_response_bytes ::
    "('ext option \<Rightarrow> bytes option) \<Rightarrow> 'ext authenticator_data \<Rightarrow> platform_error + bytes" where
  "to_response_bytes to_vec d =
     (case ad_raw d of
        Some raw \<Rightarrow> Inr raw
      | None \<Rightarrow>
          let res = ad_rp_id_hash d @ [ad_flags d] @ be_u32 (ad_signature_count d)
              @ (case ad_attested_credential d of
                   None \<Rightarrow> [] | Some a \<Rightarrow> attested_credential_bytes a)
          in if ad_extensions d \<noteq> None \<or> flags_contain (ad_flags d) EXTENSION_DATA
             then result_map (\<lambda>e. res @ e) (ok_or Pe_InvalidDeviceResponse (to_vec (ad_extensions d)))
             else Inr res)"

section \<open>The parser\<close>

text \<open>
  \<open>skip\<close> steps over one CBOR item and returns the rest, \<open>from_cursor\<close> decodes the extensions and
  returns the rest.  The error texts are not modelled.
\<close>

definition parse_attested_credential ::
    "(bytes \<Rightarrow> bytes option) \<Rightarrow> bytes \<Rightarrow> bytes \<Rightarrow> (attested_credential_data \<times> bytes) option" where
  "parse_attested_credential skip data cursor =
     (if length data < 55 then None
      else case read_exact 16 cursor of
        Inl _ \<Rightarrow> None
      | Inr (aaguid, c1) \<Rightarrow>
          (case read_u16_be c1 of
             Inl _ \<Rightarrow> None
           | Inr (w, c2) \<Rightarrow>
               let credential_id_len = unat w
               in if length data < 55 + credential_id_len then None
                  else case read_exact credential_id_len c2 of
                    Inl _ \<Rightarrow> None
                  | Inr (credential_id, c3) \<Rightarrow>
                      (case skip c3 of
                         None \<Rightarrow> None
                       | Some c4 \<Rightarrow>
                           let cose_start = length data - length c3;
                               cose_end = length data - length c4
                           in if cose_start \<le> cose_end
                              then Some (\<lparr>ac_aaguid = aaguid, ac_credential_id = credential_id,
                                ac_credential_public_key = take (cose_end - cose_start) (drop cose_start data)\<rparr>, c4)
                              else None)))"

definition auth_data_parse :: "(bytes \<Rightarrow> bytes option) \<Rightarrow> (bytes \<Rightarrow> ('ext option \<times> bytes) option)
    \<Rightarrow> bytes \<Rightarrow> 'ext authenticator_data option" where
  "auth_data_parse skip from_cursor data =
     (if length data < 37 then None
      else case read_exact 32 data of
        Inl _ \<Rightarrow> None
      | Inr (rp_id_hash, c0) \<Rightarrow>
          (case read_u8 c0 of
             Inl _ \<Rightarrow> None
           | Inr (flags, c1) \<Rightarrow>
               (case read_u32_be c1 of
                  Inl _ \<Rightarrow> None
                | Inr (signature_count, c2) \<Rightarrow>
                    Option.bind
                      (if flags_contain flags ATTESTED_CREDENTIALS
                       then map_option (\<lambda>(a, c). (Some a, c)) (parse_attested_credential skip data c2)
                       else Some (None, c2)) (\<lambda>(attested, c3).
                    Option.bind
                      (if flags_contain flags EXTENSION_DATA then from_cursor c3
                       else Some (None, c3)) (\<lambda>(extensions, c4).
                    if c4 \<noteq> [] then None
                    else Some \<lparr>ad_rp_id_hash = rp_id_hash, ad_flags = flags,
                      ad_signature_count = signature_count, ad_attested_credential = attested,
                      ad_extensions = extensions, ad_raw = Some data\<rparr>)))))"

section \<open>Laws of the CBOR decoder\<close>

text \<open>A decoder consumes a prefix of what it is given.\<close>

definition consumes_prefix :: "(bytes \<Rightarrow> bytes option) \<Rightarrow> bool" where
  "consumes_prefix skip \<longleftrightarrow> (\<forall>bs rest. skip bs = Some rest \<longrightarrow> (\<exists>item. bs = item @ rest))"

lemma read_exact_eq_Inr: "read_exact n bs = Inr (xs, ys) \<longleftrightarrow> bs = xs @ ys \<and> length xs = n"
  by (auto simp: read_exact_def split: if_splits)

lemma read_u16_be_eq_Inr: "read_u16_be bs = Inr (w, rest) \<longleftrightarrow> bs = be_u16 w @ rest"
proof
  assume "read_u16_be bs = Inr (w, rest)"
  then show "bs = be_u16 w @ rest"
    by (cases bs rule: read_u16_be.cases) (auto simp: be_u16_of_be)
qed simp

lemma read_u32_be_eq_Inr: "read_u32_be bs = Inr (w, rest) \<longleftrightarrow> bs = be_u32 w @ rest"
proof
  assume "read_u32_be bs = Inr (w, rest)"
  then show "bs = be_u32 w @ rest"
    by (cases bs rule: read_u32_be.cases) (auto simp: be_u32_of_be)
qed simp

lemmas read_eq_Inr = read_exact_eq_Inr read_u8_eq_Inr read_u16_be_eq_Inr read_u32_be_eq_Inr

lemma of_nat_unat_u16: "length bs = unat (w :: u16) \<Longrightarrow> of_nat (length bs) = w"
  by simp

lemma parse_attested_credential_bytes:
  assumes "consumes_prefix skip" and "parse_attested_credential skip (pre @ cursor) cursor = Some (a, rest)"
  shows "cursor = attested_credential_bytes a @ rest \<and> length (ac_aaguid a) = 16"
proof -
  from assms(2) obtain aaguid w cid c3 where
    c: "cursor = aaguid @ be_u16 w @ cid @ c3" "length aaguid = 16" "length cid = unat w"
    and s: "skip c3 = Some rest"
    and a: "a = \<lparr>ac_aaguid = aaguid, ac_credential_id = cid, ac_credential_public_key =
        take (length c3 - length rest) c3\<rparr>"
    unfolding parse_attested_credential_def Let_def
    by (auto simp: read_eq_Inr split: if_splits sum.splits option.splits)
  from assms(1) s obtain item where "c3 = item @ rest" by (auto simp: consumes_prefix_def)
  with c a show ?thesis by (auto simp: attested_credential_bytes_def of_nat_unat_u16)
qed

lemma parse_attested_credential_read:
  assumes "length pre = 37" and "length (ac_aaguid a) = 16" and "length (ac_credential_id a) < 65536"
    and "skip (ac_credential_public_key a @ rest) = Some rest"
  shows "parse_attested_credential skip (pre @ attested_credential_bytes a @ rest)
    (attested_credential_bytes a @ rest) = Some (a, rest)"
proof -
  let ?cid = "ac_credential_id a" and ?pk = "ac_credential_public_key a"
  have w: "unat (of_nat (length ?cid) :: u16) = length ?cid"
    using assms(3) by (simp add: unat_of_nat_u16)
  have r: "read_exact 16 (ac_aaguid a @ ys) = Inr (ac_aaguid a, ys)"
    "read_exact (length ?cid) (?cid @ ys) = Inr (?cid, ys)" for ys
    using assms(2) by (simp_all add: read_exact_append)
  show ?thesis
    unfolding parse_attested_credential_def attested_credential_bytes_def Let_def
    using assms by (simp add: w r)
qed

section \<open>Properties\<close>

text \<open>
  C39: What the parser reads out of authenticator data is exactly what its bytes say, and the bytes
  handed on to the relying party are the bytes received: the relying party hash, flags, counter,
  the attested credential with its key verbatim and the extensions are laid out one after another
  with nothing left over, and the credential and the extensions are read exactly when their flag
  is set.
\<close>

theorem auth_data_parsed_verbatim:
  assumes "consumes_prefix skip" and "auth_data_parse skip from_cursor data = Some d"
  shows "to_response_bytes to_vec d = Inr data
    \<and> (\<exists>ext. data = ad_rp_id_hash d @ [ad_flags d] @ be_u32 (ad_signature_count d)
          @ (case ad_attested_credential d of None \<Rightarrow> [] | Some a \<Rightarrow> attested_credential_bytes a) @ ext
        \<and> length (ad_rp_id_hash d) = 32
        \<and> (ad_attested_credential d \<noteq> None \<longleftrightarrow> flags_contain (ad_flags d) ATTESTED_CREDENTIALS)
        \<and> (if flags_contain (ad_flags d) EXTENSION_DATA
           then from_cursor ext = Some (ad_extensions d, [])
           else ext = [] \<and> ad_extensions d = None))"
proof -
  from assms(2) obtain c2 att c3 where
    data: "data = ad_rp_id_hash d @ [ad_flags d] @ be_u32 (ad_signature_count d) @ c2"
      "length (ad_rp_id_hash d) = 32" and
    att: "(if flags_contain (ad_flags d) ATTESTED_CREDENTIALS
        then map_option (\<lambda>(a, c). (Some a, c)) (parse_attested_credential skip data c2)
        else Some (None, c2)) = Some (ad_attested_credential d, c3)" and
    ext: "(if flags_contain (ad_flags d) EXTENSION_DATA then from_cursor c3 else Some (None, c3))
        = Some (ad_extensions d, [])" and
    raw: "ad_raw d = Some data"
    unfolding auth_data_parse_def
    by (auto simp: read_eq_Inr bind_eq_Some_conv split: if_splits sum.splits)
  let ?att = "case ad_attested_credential d of None \<Rightarrow> [] | Some a \<Rightarrow> attested_credential_bytes a"
  have "c2 = ?att @ c3 \<and> (ad_attested_credential d \<noteq> None \<longleftrightarrow> flags_contain (ad_flags d) ATTESTED_CREDENTIALS)"
    using att parse_attested_credential_bytes [OF assms(1), of "ad_rp_id_hash d @ [ad_flags d] @ be_u32 (ad_signature_count d)" c2]
    by (cases "ad_attested_credential d") (auto simp: data(1) split: if_splits)
  with data ext raw show ?thesis
    by (auto simp: to_response_bytes_def split: if_splits)
qed

text \<open>Two lists of length 32 and a decoder for the witnesses: an item is one byte.\<close>

definition one_byte_skip :: "bytes \<Rightarrow> bytes option" where
  "one_byte_skip bs = (case bs of [] \<Rightarrow> None | b # rest \<Rightarrow> Some rest)"

definition one_byte_from_cursor :: "bytes \<Rightarrow> (u8 option \<times> bytes) option" where
  "one_byte_from_cursor bs = (case bs of [] \<Rightarrow> None | b # rest \<Rightarrow> Some (Some b, rest))"

definition example_auth_data :: "u8 authenticator_data" where
  "example_auth_data = \<lparr>ad_rp_id_hash = replicate 32 1, ad_flags = 0xC1, ad_signature_count = 5,
     ad_attested_credential = Some \<lparr>ac_aaguid = replicate 16 2, ac_credential_id = [3, 4],
       ac_credential_public_key = [9]\<rparr>, ad_extensions = Some 7, ad_raw = None\<rparr>"

definition example_auth_bytes :: bytes where
  "example_auth_bytes = replicate 32 1 @ [0xC1, 0, 0, 0, 5] @ replicate 16 2 @ [0, 2, 3, 4, 9, 7]"

lemma one_byte_consumes: "consumes_prefix one_byte_skip"
  by (auto simp: consumes_prefix_def one_byte_skip_def split: list.splits)

lemma example_auth_parse:
  "auth_data_parse one_byte_skip one_byte_from_cursor example_auth_bytes
    = Some (example_auth_data\<lparr>ad_raw := Some example_auth_bytes\<rparr>)"
  by code_simp

lemma auth_data_parsed_verbatim_witness:
  "to_response_bytes (\<lambda>e. None) (example_auth_data\<lparr>ad_raw := Some example_auth_bytes\<rparr>) = Inr example_auth_bytes
    \<and> (\<exists>ext. example_auth_bytes = replicate 32 1 @ [0xC1] @ be_u32 5
        @ attested_credential_bytes \<lparr>ac_aaguid = replicate 16 2, ac_credential_id = [3, 4],
            ac_credential_public_key = [9]\<rparr> @ ext
        \<and> one_byte_from_cursor ext = Some (Some 7, []))"
proof -
  have "flags_contain 0xC1 EXTENSION_DATA" by (simp add: flags_contain_def EXTENSION_DATA_def)
  then show ?thesis
    using auth_data_parsed_verbatim [OF one_byte_consumes example_auth_parse, of "\<lambda>e. None"]
    by (auto simp: example_auth_data_def)
qed

text \<open>
  Authenticator data that the platform builds itself (as in the U2F upgrade) is read back by
  its own parser as the same data, when the flags announce what is present, the credential id fits
  its length field, and the CBOR decoder reads back what the encoder wrote.
\<close>

theorem auth_data_round_trip:
  assumes "ad_raw d = None" and "length (ad_rp_id_hash d) = 32"
    and "flags_contain (ad_flags d) ATTESTED_CREDENTIALS \<longleftrightarrow> ad_attested_credential d \<noteq> None"
    and "flags_contain (ad_flags d) EXTENSION_DATA \<longleftrightarrow> ad_extensions d \<noteq> None"
    and "\<And>a rest. ad_attested_credential d = Some a \<Longrightarrow> length (ac_aaguid a) = 16
      \<and> length (ac_credential_id a) < 65536 \<and> skip (ac_credential_public_key a @ rest) = Some rest"
    and "ad_extensions d \<noteq> None \<Longrightarrow> to_vec (ad_extensions d) = Some e
      \<and> from_cursor e = Some (ad_extensions d, [])"
  shows "\<exists>bs. to_response_bytes to_vec d = Inr bs
    \<and> auth_data_parse skip from_cursor bs = Some (d\<lparr>ad_raw := Some bs\<rparr>)"
proof -
  let ?att = "case ad_attested_credential d of None \<Rightarrow> [] | Some a \<Rightarrow> attested_credential_bytes a"
  let ?pre = "ad_rp_id_hash d @ [ad_flags d] @ be_u32 (ad_signature_count d)"
  define ext where "ext = (if ad_extensions d = None then [] else e)"
  have bytes: "to_response_bytes to_vec d = Inr (?pre @ ?att @ ext)"
    using assms(1,4,6) by (auto simp: to_response_bytes_def ext_def Let_def)
  have attested: "(if flags_contain (ad_flags d) ATTESTED_CREDENTIALS
      then map_option (\<lambda>(a, c). (Some a, c)) (parse_attested_credential skip (?pre @ ?att @ ext) (?att @ ext))
      else Some (None, ?att @ ext)) = Some (ad_attested_credential d, ext)"
    using assms(2,3,5) parse_attested_credential_read [of ?pre _ skip ext]
    by (cases "ad_attested_credential d") auto
  have extended: "(if flags_contain (ad_flags d) EXTENSION_DATA then from_cursor ext else Some (None, ext))
      = Some (ad_extensions d, [])"
    using assms(4,6) by (auto simp: ext_def)
  have reads: "read_exact 32 (?pre @ ?att @ ext)
      = Inr (ad_rp_id_hash d, [ad_flags d] @ be_u32 (ad_signature_count d) @ ?att @ ext)"
    using assms(2) by (simp add: read_exact_append)
  have "auth_data_parse skip from_cursor (?pre @ ?att @ ext) = Some (d\<lparr>ad_raw := Some (?pre @ ?att @ ext)\<rparr>)"
    unfolding auth_data_parse_def reads using assms(2) attested extended by simp
  with bytes show ?thesis by blast
qed

lemma auth_data_round_trip_witness:
  "\<exists>bs. to_response_bytes (map_option (\<lambda>b. [b])) example_auth_data = Inr bs
    \<and> auth_data_parse one_byte_skip one_byte_from_cursor bs = Some (example_auth_data\<lparr>ad_raw := Some bs\<rparr>)"
  by (rule auth_data_round_trip [where e = "[7]"])
    (auto simp: example_auth_data_def flags_contain_def ATTESTED_CREDENTIALS_def EXTENSION_DATA_def
      one_byte_skip_def one_byte_from_cursor_def)

end
