(* ===== verification/Transport_Hints.thy ===== *)
theory Transport_Hints
  imports Ctap_Messages
begin

text \<open>
  Relying party hints and the transport preference merged from them
  (\<^verbatim>\<open>ops/webauthn/hints.rs\<close>).
\<close>

section \<open>Hints and attachments\<close>

datatype credential_hint = Hint_SecurityKey | Hint_ClientDevice | Hint_Hybrid | Hint_Unknown

definition hint_from_dom_string :: "string \<Rightarrow> credential_hint" where
  "hint_from_dom_string s =
     (if s = ''security-key'' then Hint_SecurityKey
      else if s = ''client-device'' then Hint_ClientDevice
      else if s = ''hybrid'' then Hint_Hybrid
      else Hint_Unknown)"

datatype authenticator_attachment = Att_Platform | Att_CrossPlatform | Att_Unknown

definition attachment_from_dom_string :: "string \<Rightarrow> authenticator_attachment" where
  "attachment_from_dom_string s =
     (if s = ''platform'' then Att_Platform
      else if s = ''cross-platform'' then Att_CrossPlatform
      else Att_Unknown)"

section \<open>Merging\<close>

fun push_absent :: "'a list \<Rightarrow> 'a list \<Rightarrow> 'a list" where
  "push_absent out [] = out"
| "push_absent out (t # ts) = push_absent (if t \<in> set out then out else out @ [t]) ts"

fun hint_transports :: "credential_hint \<Rightarrow> ctap2_transport list" where
  "hint_transports Hint_SecurityKey = [T2_Usb, T2_Nfc, T2_Ble, T2_SmartCard]"
| "hint_transports Hint_ClientDevice = [T2_Internal]"
| "hint_transports Hint_Hybrid = [T2_Hybrid]"
| "hint_transports Hint_Unknown = []"

fun attachment_transports :: "authenticator_attachment option \<Rightarrow> ctap2_transport list" where
  "attachment_transports (Some Att_Platform) = [T2_Internal]"
| "attachment_transports (Some Att_CrossPlatform) = [T2_Usb, T2_Nfc, T2_Ble, T2_SmartCard, T2_Hybrid]"
| "attachment_transports (Some Att_Unknown) = []"
| "attachment_transports None = []"

fun is_other_transport :: "ctap2_transport \<Rightarrow> bool" where
  "is_other_transport (T2_Other s) = True"
| "is_other_transport _ = False"

text \<open>The loop over the transports of the descriptors.\<close>

fun push_descriptor_transports :: "ctap2_transport list \<Rightarrow> ctap2_transport list \<Rightarrow> ctap2_transport list" where
  "push_descriptor_transports out [] = out"
| "push_descriptor_transports out (t # ts) =
     push_descriptor_transports
       (if \<not> is_other_transport t \<and> t \<notin> set out then out @ [t] else out) ts"

definition merge_transport_preference :: "credential_hint list \<Rightarrow> authenticator_attachment option
    \<Rightarrow> ctap2_transport list \<Rightarrow> ctap2_transport list" where
  "merge_transport_preference hints attachment descriptor_transports =
     (let out1 = foldl (\<lambda>out h. push_absent out (hint_transports h)) [] hints;
          out2 = push_absent out1 (attachment_transports attachment);
          out3 = push_descriptor_transports out2 descriptor_transports
      in if Hint_Hybrid \<in> set hints \<and> Hint_ClientDevice \<notin> set hints
         then filter (\<lambda>t. t \<noteq> T2_Internal) out3 else out3)"

section \<open>The order of first occurrences\<close>

text \<open>\<open>firsts xs\<close> keeps the first occurrence of each element.\<close>

definition firsts :: "'a list \<Rightarrow> 'a list" where
  "firsts xs = rev (remdups (rev xs))"

lemma firsts_Nil [simp]: "firsts [] = []"
  by (simp add: firsts_def)

lemma set_firsts [simp]: "set (firsts xs) = set xs"
  by (simp add: firsts_def)

lemma distinct_firsts [simp]: "distinct (firsts xs)"
  by (simp add: firsts_def)

lemma firsts_snoc: "firsts (xs @ [x]) = (if x \<in> set xs then firsts xs else firsts xs @ [x])"
  by (simp add: firsts_def)

lemma push_absent_firsts: "push_absent (firsts xs) ts = firsts (xs @ ts)"
proof (induction ts arbitrary: xs)
  case (Cons t ts)
  have "(if t \<in> set (firsts xs) then firsts xs else firsts xs @ [t]) = firsts (xs @ [t])"
    by (simp add: firsts_snoc)
  then show ?case using Cons.IH [of "xs @ [t]"] by simp
qed simp

lemma push_hints_firsts:
  "foldl (\<lambda>out h. push_absent out (hint_transports h)) (firsts xs) hs
    = firsts (xs @ concat (map hint_transports hs))"
  by (induction hs arbitrary: xs) (simp_all add: push_absent_firsts)

lemma push_descriptor_firsts:
  "push_descriptor_transports (firsts xs) ts = firsts (xs @ filter (\<lambda>t. \<not> is_other_transport t) ts)"
proof (induction ts arbitrary: xs)
  case (Cons t ts)
  have "(if \<not> is_other_transport t \<and> t \<notin> set (firsts xs) then firsts xs @ [t] else firsts xs)
      = firsts (xs @ filter (\<lambda>t. \<not> is_other_transport t) [t])"
    by (simp add: firsts_snoc)
  then show ?case using Cons.IH [of "xs @ filter (\<lambda>t. \<not> is_other_transport t) [t]"]
    by (simp del: filter.simps add: filter_append [symmetric])
qed simp

section \<open>Properties\<close>

text \<open>
  The merged preference lists each transport once, in the order hints first, then the
  attachment, then the transports of the credentials, with unknown values dropped; a hybrid hint
  without a client device hint removes the platform authenticator wherever it came from.
\<close>

theorem transport_preference_order:
  "merge_transport_preference hints attachment descriptors =
     filter (\<lambda>t. \<not> (t = T2_Internal \<and> Hint_Hybrid \<in> set hints \<and> Hint_ClientDevice \<notin> set hints))
       (firsts (concat (map hint_transports hints) @ attachment_transports attachment
          @ filter (\<lambda>t. \<not> is_other_transport t) descriptors))
   \<and> distinct (merge_transport_preference hints attachment descriptors)"
proof -
  have "foldl (\<lambda>out h. push_absent out (hint_transports h)) [] hints
      = firsts (concat (map hint_transports hints))"
    using push_hints_firsts [of "[]" hints] by simp
  then show ?thesis
    unfolding merge_transport_preference_def Let_def
    by (simp add: push_absent_firsts push_descriptor_firsts)
qed

end
