(* ===== verification/Assertion_Request.thy ===== *)
theory Assertion_Request
  imports Rust_Text Uv_Token Auth_Data Transport_Hints
begin

text \<open>
  Assertion requests: the client data (\<^verbatim>\<open>ops/webauthn/client_data.rs\<close>), the request of the
  relying party (\<^verbatim>\<open>ops/webauthn/get_assertion.rs\<close>), its translation to CTAP2 with the PRF and
  large blob extensions, and the response (\<^verbatim>\<open>proto/ctap2/model/get_assertion.rs\<close>).  Strings are
  the bytes of their UTF-8 encoding.
\<close>

section \<open>Descriptors and entities\<close>

record credential_descriptor =
  cd_id :: bytes
  cd_public_key :: bool
  cd_transports :: "ctap2_transport list option"

record rp_entity =
  rp_id :: string
  rp_name :: "string option"

record user_entity =
  ue_id :: bytes
  ue_name :: "string option"
  ue_display_name :: "string option"

definition rp_entity_dummy :: rp_entity where
  "rp_entity_dummy = \<lparr>rp_id = ''.dummy'', rp_name = Some ''.dummy''\<rparr>"

definition user_entity_dummy :: user_entity where
  "user_entity_dummy = \<lparr>ue_id = [1], ue_name = Some ''dummy'', ue_display_name = None\<rparr>"

definition descriptor_of_attested :: "attested_credential_data \<Rightarrow> credential_descriptor" where
  "descriptor_of_attested a =
     \<lparr>cd_id = ac_credential_id a, cd_public_key = True, cd_transports = None\<rparr>"

section \<open>Client data\<close>

text \<open>
  \<open>base64url\<close> and its decoder are the crate \<^verbatim>\<open>base64_url\<close>, \<open>json_string\<close> the string encoder of
  \<^verbatim>\<open>serde_json\<close>, quotes included.
\<close>

record text_codec =
  tc_base64url :: "bytes \<Rightarrow> string"
  tc_base64url_decode :: "string \<Rightarrow> bytes option"
  tc_json_string :: "string \<Rightarrow> string"

datatype operation = Op_MakeCredential | Op_GetAssertion

record client_data =
  cl_operation :: operation
  cl_challenge :: bytes
  cl_origin :: string
  cl_top_origin :: "string option"

fun operation_type :: "operation \<Rightarrow> string" where
  "operation_type Op_MakeCredential = ''webauthn.create''"
| "operation_type Op_GetAssertion = ''webauthn.get''"

definition client_data_json :: "text_codec \<Rightarrow> client_data \<Rightarrow> string" where
  "client_data_json tc d =
     ''{\"type\":'' @ tc_json_string tc (operation_type (cl_operation d))
     @ '',\"challenge\":'' @ tc_json_string tc (tc_base64url tc (cl_challenge d))
     @ '',\"origin\":'' @ tc_json_string tc (cl_origin d)
     @ '',\"crossOrigin\":'' @ (if cl_top_origin d \<noteq> None then ''true'' else ''false'')
     @ (case cl_top_origin d of None \<Rightarrow> [] | Some t \<Rightarrow> '',\"topOrigin\":'' @ tc_json_string tc t)
     @ ''}''"

definition client_data_hash :: "crypto \<Rightarrow> text_codec \<Rightarrow> client_data \<Rightarrow> bytes" where
  "client_data_hash c tc d = c_sha256 c (string_bytes (client_data_json tc d))"

section \<open>PRF inputs\<close>

record prf_input_value =
  pv_first :: bytes
  pv_second :: "bytes option"

record prf_output_value =
  po_first :: bytes
  po_second :: "bytes option"

text \<open>Two salts; \<^verbatim>\<open>Ctap2PrfSalts\<close> has the same fields.\<close>

record hmac_get_secret_input =
  hi_salt1 :: bytes
  hi_salt2 :: "bytes option"

definition PRF_PREFIX :: bytes where "PRF_PREFIX = string_bytes ''WebAuthn PRF'' @ [0]"

definition to_hmac_secret_input :: "crypto \<Rightarrow> prf_input_value \<Rightarrow> hmac_get_secret_input" where
  "to_hmac_secret_input c v =
     \<lparr>hi_salt1 = c_sha256 c (PRF_PREFIX @ pv_first v),
       hi_salt2 = map_option (\<lambda>s. c_sha256 c (PRF_PREFIX @ s)) (pv_second v)\<rparr>"

text \<open>A \<^verbatim>\<open>HashMap\<close> is its entries in the order of iteration.\<close>

record prf_input =
  pi_eval :: "prf_input_value option"
  pi_eval_by_credential :: "(string \<times> prf_input_value) list"

datatype hmac_or_prf_input = Hmac_GetSecret hmac_get_secret_input | Prf_Input prf_input

section \<open>The request of the relying party\<close>

datatype large_blob_extension = Lb_Read | Lb_Write bytes | Lb_Delete

record ga_extensions =
  ge_cred_blob :: bool
  ge_prf :: "prf_input option"
  ge_large_blob :: "large_blob_extension option"
  ge_appid :: "string option"

record ga_request =
  gr_relying_party_id :: string
  gr_challenge :: bytes
  gr_origin :: string
  gr_top_origin :: "string option"
  gr_allow :: "credential_descriptor list"
  gr_hints :: "credential_hint list"
  gr_extensions :: "ga_extensions option"
  gr_user_verification :: uv_requirement
  gr_timeout :: nat

definition ga_client_data :: "ga_request \<Rightarrow> client_data" where
  "ga_client_data r = \<lparr>cl_operation = Op_GetAssertion, cl_challenge = gr_challenge r,
     cl_origin = gr_origin r, cl_top_origin = gr_top_origin r\<rparr>"

definition ga_client_data_hash :: "crypto \<Rightarrow> text_codec \<Rightarrow> ga_request \<Rightarrow> bytes" where
  "ga_client_data_hash c tc r = client_data_hash c tc (ga_client_data r)"

definition ga_preferred_transports :: "ga_request \<Rightarrow> ctap2_transport list" where
  "ga_preferred_transports r =
     merge_transport_preference (gr_hints r) None
       (concat (map (\<lambda>d. case cd_transports d of None \<Rightarrow> [] | Some ts \<Rightarrow> ts) (gr_allow r)))"

definition ga_large_blob :: "ga_request \<Rightarrow> large_blob_extension option" where
  "ga_large_blob r = Option.bind (gr_extensions r) ge_large_blob"

fun is_large_blob_write :: "large_blob_extension option \<Rightarrow> bool" where
  "is_large_blob_write (Some (Lb_Write b)) = True"
| "is_large_blob_write (Some Lb_Delete) = True"
| "is_large_blob_write _ = False"

definition ga_is_downgradable :: "ga_request \<Rightarrow> bool" where
  "ga_is_downgradable r =
     (if gr_user_verification r = Uv_Required then False
      else if gr_allow r = [] then False
      else if is_large_blob_write (ga_large_blob r) then False
      else True)"

definition sign_request_new_upgraded :: "bytes \<Rightarrow> bytes \<Rightarrow> bytes \<Rightarrow> nat \<Rightarrow> ctap1_sign_request" where
  "sign_request_new_upgraded rp_id_hash challenge key_handle timeout =
     \<lparr>sr_app_id_hash = rp_id_hash, sr_challenge = challenge, sr_key_handle = key_handle,
       sr_timeout = timeout, sr_require_user_presence = True\<rparr>"

definition ga_appid_hash :: "crypto \<Rightarrow> ga_request \<Rightarrow> bytes option" where
  "ga_appid_hash c r =
     map_option (\<lambda>appid. c_sha256 c (string_bytes appid)) (Option.bind (gr_extensions r) ge_appid)"

definition ga_try_downgrade :: "crypto \<Rightarrow> text_codec \<Rightarrow> ga_request \<Rightarrow> ctap_error + ctap1_sign_request list" where
  "ga_try_downgrade c tc r =
     (let challenge = ga_client_data_hash c tc r;
          rp_id_hash = c_sha256 c (string_bytes (gr_relying_party_id r));
          appid_hash = ga_appid_hash c r
      in Inr (concat (map (\<lambda>credential.
           sign_request_new_upgraded rp_id_hash challenge (cd_id credential) (gr_timeout r)
           # (case appid_hash of
                None \<Rightarrow> []
              | Some h \<Rightarrow> [sign_request_new_upgraded h challenge (cd_id credential) (gr_timeout r)]))
           (gr_allow r))))"

section \<open>The CTAP2 request\<close>

record ga_options =
  go_require_user_presence :: bool
  go_require_user_verification :: bool

record calculated_hmac_input =
  ch_public_key :: cose_public_key
  ch_salt_enc :: bytes
  ch_salt_auth :: bytes
  ch_pin_auth_proto :: "u32 option"

record prf_get_assertion_input =
  pg_eval :: "hmac_get_secret_input option"
  pg_eval_by_credential :: "(bytes \<times> hmac_get_secret_input) list option"

record ctap2_ga_extensions =
  xg_prf :: "prf_get_assertion_input option"
  xg_cred_blob :: bool
  xg_hmac_secret :: "calculated_hmac_input option"
  xg_large_blob_key :: "bool option"
  xg_hmac_or_prf :: "hmac_or_prf_input option"
  xg_large_blob_write :: bool

record ctap2_ga_request =
  qg_relying_party_id :: string
  qg_client_data_hash :: bytes
  qg_allow :: "credential_descriptor list"
  qg_extensions :: "ctap2_ga_extensions option"
  qg_options :: "ga_options option"
  qg_pin_auth_param :: "bytes option"
  qg_pin_auth_proto :: "u32 option"

definition ctap2_ga_extensions_of :: "ga_extensions \<Rightarrow> ctap2_ga_extensions" where
  "ctap2_ga_extensions_of e =
     \<lparr>xg_prf = None, xg_cred_blob = ge_cred_blob e, xg_hmac_secret = None,
      xg_large_blob_key = (if ge_large_blob e \<noteq> None then Some True else None),
      xg_hmac_or_prf = map_option Prf_Input (ge_prf e),
      xg_large_blob_write = is_large_blob_write (ge_large_blob e)\<rparr>"

definition ctap2_ga_request_of :: "crypto \<Rightarrow> text_codec \<Rightarrow> ga_request \<Rightarrow> ctap2_ga_request" where
  "ctap2_ga_request_of c tc r =
     \<lparr>qg_relying_party_id = gr_relying_party_id r, qg_client_data_hash = ga_client_data_hash c tc r,
      qg_allow = gr_allow r, qg_extensions = map_option ctap2_ga_extensions_of (gr_extensions r),
      qg_options = Some \<lparr>go_require_user_presence = True,
        go_require_user_verification = is_required (gr_user_verification r)\<rparr>,
      qg_pin_auth_param = None, qg_pin_auth_proto = None\<rparr>"

text \<open>The loop of \<^verbatim>\<open>convert_prf_to_native\<close> over the inputs by credential.\<close>

fun native_prf_entries :: "crypto \<Rightarrow> text_codec \<Rightarrow> credential_descriptor list
    \<Rightarrow> (string \<times> prf_input_value) list \<Rightarrow> (bytes \<times> hmac_get_secret_input) list
    \<Rightarrow> platform_error + (bytes \<times> hmac_get_secret_input) list" where
  "native_prf_entries c tc allow [] acc = Inr acc"
| "native_prf_entries c tc allow ((enc_cred_id, v) # entries) acc =
     (if enc_cred_id = [] then Inl Pe_SyntaxError
      else case tc_base64url_decode tc enc_cred_id of
        None \<Rightarrow> Inl Pe_SyntaxError
      | Some cred_id \<Rightarrow>
          native_prf_entries c tc allow entries
            (if list_ex (\<lambda>d. cd_id d = cred_id) allow
             then AList.update cred_id (to_hmac_secret_input c v) acc else acc))"

definition convert_prf_to_native :: "crypto \<Rightarrow> text_codec \<Rightarrow> credential_descriptor list
    \<Rightarrow> ctap2_ga_extensions \<Rightarrow> platform_error + ctap2_ga_extensions" where
  "convert_prf_to_native c tc allow e =
     (case xg_hmac_or_prf e of
        Some (Prf_Input p) \<Rightarrow>
          if pi_eval_by_credential p \<noteq> [] \<and> allow = [] then Inl Pe_NotSupported
          else
            result_bind (native_prf_entries c tc allow (pi_eval_by_credential p) []) (\<lambda>by_cred.
            let eval = map_option (to_hmac_secret_input c) (pi_eval p)
            in Inr (e\<lparr>xg_prf := (if eval \<noteq> None \<or> by_cred \<noteq> []
                       then Some \<lparr>pg_eval = eval,
                         pg_eval_by_credential = (if by_cred = [] then None else Some by_cred)\<rparr>
                       else xg_prf e),
                     xg_hmac_or_prf := None\<rparr>))
      | _ \<Rightarrow> Inr e)"

definition ga_from_webauthn_request :: "crypto \<Rightarrow> text_codec \<Rightarrow> ga_request \<Rightarrow> get_info_response
    \<Rightarrow> platform_error + ctap2_ga_request" where
  "ga_from_webauthn_request c tc r info =
     (let r' = (if \<not> option_enabled info ''largeBlobs''
                then r\<lparr>gr_extensions := map_option (\<lambda>e. e\<lparr>ge_large_blob := None\<rparr>) (gr_extensions r)\<rparr>
                else r);
          q = ctap2_ga_request_of c tc r'
      in if supports_extension info ''prf'' then
           (case qg_extensions q of
              None \<Rightarrow> Inr q
            | Some e \<Rightarrow> result_map (\<lambda>e'. q\<lparr>qg_extensions := Some e'\<rparr>)
                (convert_prf_to_native c tc (qg_allow q) e))
         else Inr q)"

text \<open>The loop of \<^verbatim>\<open>prf_to_hmac_input\<close>: the first entry whose credential is allowed.\<close>

fun find_prf_value :: "text_codec \<Rightarrow> credential_descriptor list \<Rightarrow> (string \<times> prf_input_value) list
    \<Rightarrow> platform_error + prf_input_value option" where
  "find_prf_value tc allow [] = Inr None"
| "find_prf_value tc allow ((enc_cred_id, v) # entries) =
     (if enc_cred_id = [] then Inl Pe_SyntaxError
      else case tc_base64url_decode tc enc_cred_id of
        None \<Rightarrow> Inl Pe_SyntaxError
      | Some cred_id \<Rightarrow>
          if list_ex (\<lambda>d. cd_id d = cred_id) allow then Inr (Some v)
          else find_prf_value tc allow entries)"

definition prf_to_hmac_input :: "crypto \<Rightarrow> text_codec \<Rightarrow> prf_input \<Rightarrow> credential_descriptor list
    \<Rightarrow> platform_error + hmac_get_secret_input option" where
  "prf_to_hmac_input c tc p allow =
     (if pi_eval_by_credential p \<noteq> [] \<and> allow = [] then Inl Pe_NotSupported
      else
        result_bind (find_prf_value tc allow (pi_eval_by_credential p)) (\<lambda>ev.
        Inr (map_option (to_hmac_secret_input c) (case ev of None \<Rightarrow> pi_eval p | Some v \<Rightarrow> Some v))))"

fun proto_number :: "pin_uv_auth_protocol \<Rightarrow> u32" where
  "proto_number Protocol_One = 1"
| "proto_number Protocol_Two = 2"

definition hmac_salts :: "hmac_get_secret_input \<Rightarrow> bytes" where
  "hmac_salts i = hi_salt1 i @ (case hi_salt2 i of None \<Rightarrow> [] | Some s \<Rightarrow> s)"

text \<open>
  The encryption of the salts, which \<^verbatim>\<open>calculate_hmac\<close> and \<^verbatim>\<open>calculate_hmac_secret_mc\<close> share:
  \<open>None\<close> when the encryption fails, which both treat as no extension.
\<close>

definition calculate_hmac_input :: "('d, 'te) platform \<Rightarrow> auth_token_data \<Rightarrow> hmac_get_secret_input
    \<Rightarrow> ('d, 'te, calculated_hmac_input option) ceremony" where
  "calculate_hmac_input pf d input =
     act_bind (create_protocol_object pf (atd_protocol_version d)) (\<lambda>p.
     act_try (pin_encrypt pf p (atd_shared_secret d) (hmac_salts input)) (\<lambda>r.
     case r of
       Inl _ \<Rightarrow> act_return None
     | Inr salt_enc \<Rightarrow>
         act_bind (act_lift (map_err We_Platform (pin_authenticate (pf_crypto pf)
           (atd_protocol_version d) (atd_shared_secret d) salt_enc))) (\<lambda>salt_auth.
         act_return (Some \<lparr>ch_public_key = atd_key_agreement d, ch_salt_enc = salt_enc,
           ch_salt_auth = salt_auth, ch_pin_auth_proto = Some (proto_number (atd_protocol_version d))\<rparr>))))"

definition ga_hmac_source :: "crypto \<Rightarrow> text_codec \<Rightarrow> credential_descriptor list \<Rightarrow> ctap2_ga_extensions
    \<Rightarrow> platform_error + hmac_get_secret_input option" where
  "ga_hmac_source c tc allow e =
     (case xg_hmac_or_prf e of
        None \<Rightarrow> Inr None
      | Some (Hmac_GetSecret i) \<Rightarrow> Inr (Some i)
      | Some (Prf_Input p) \<Rightarrow> prf_to_hmac_input c tc p allow)"

definition calculate_hmac :: "('d, 'te) platform \<Rightarrow> text_codec \<Rightarrow> credential_descriptor list
    \<Rightarrow> auth_token_data \<Rightarrow> ctap2_ga_extensions \<Rightarrow> ('d, 'te, ctap2_ga_extensions) ceremony" where
  "calculate_hmac pf tc allow d e =
     act_bind (act_lift (map_err We_Platform (ga_hmac_source (pf_crypto pf) tc allow e))) (\<lambda>input.
     case input of
       None \<Rightarrow> act_return e
     | Some i \<Rightarrow>
         act_bind (calculate_hmac_input pf d i) (\<lambda>calculated.
         act_return (case calculated of None \<Rightarrow> e | Some h \<Rightarrow> e\<lparr>xg_hmac_secret := Some h\<rparr>)))"

section \<open>The methods of a verifiable request\<close>

definition ga_set_uv_auth :: "crypto \<Rightarrow> pin_uv_auth_protocol \<Rightarrow> bytes \<Rightarrow> ctap2_ga_request
    \<Rightarrow> platform_error + ctap2_ga_request" where
  "ga_set_uv_auth c version token q =
     result_bind (pin_authenticate c version token (qg_client_data_hash q)) (\<lambda>uv_auth_param.
     Inr (q\<lparr>qg_pin_auth_proto := Some (proto_number version), qg_pin_auth_param := Some uv_auth_param,
       qg_options := map_option (\<lambda>o1. o1\<lparr>go_require_user_verification := False\<rparr>) (qg_options q)\<rparr>))"

definition ga_ensure_uv_set :: "ctap2_ga_request \<Rightarrow> ctap2_ga_request" where
  "ga_ensure_uv_set q =
     q\<lparr>qg_options := Some (case qg_options q of
         None \<Rightarrow> \<lparr>go_require_user_presence = False, go_require_user_verification = True\<rparr>
       | Some o1 \<Rightarrow> o1\<lparr>go_require_user_verification := True\<rparr>)\<rparr>"

definition ga_large_blob_write :: "ctap2_ga_request \<Rightarrow> bool" where
  "ga_large_blob_write q = (case qg_extensions q of None \<Rightarrow> False | Some e \<Rightarrow> xg_large_blob_write e)"

definition ga_permissions :: "ctap2_ga_request \<Rightarrow> permission_role" where
  "ga_permissions q =
     (if ga_large_blob_write q then role_union GET_ASSERTION LARGE_BLOB_WRITE else GET_ASSERTION)"

definition ga_needs_pin_uv_auth_token :: "ctap2_ga_request \<Rightarrow> get_info_response \<Rightarrow> bool" where
  "ga_needs_pin_uv_auth_token q info \<longleftrightarrow>
     ga_large_blob_write q \<and> option_enabled info ''largeBlobs'' \<and> is_uv_protected info"

definition ga_needs_shared_secret :: "ctap2_ga_request \<Rightarrow> get_info_response \<Rightarrow> bool" where
  "ga_needs_shared_secret q info \<longleftrightarrow>
     ((case qg_extensions q of None \<Rightarrow> False | Some e \<Rightarrow> xg_hmac_or_prf e \<noteq> None)
        \<and> supports_extension info ''hmac-secret'')
     \<or> ga_needs_pin_uv_auth_token q info"

definition ga_uv_request :: "ctap2_ga_request uv_request" where
  "ga_uv_request =
     \<lparr>uq_ensure_uv_set = ga_ensure_uv_set, uq_calculate_and_set_uv_auth = ga_set_uv_auth,
      uq_permissions = ga_permissions, uq_permissions_rpid = (\<lambda>q. Some (qg_relying_party_id q)),
      uq_can_use_uv = (\<lambda>q info. True), uq_handle_legacy_preview = (\<lambda>info q. q),
      uq_needs_shared_secret = ga_needs_shared_secret,
      uq_set_persistent_token_use = (\<lambda>info available q. q), uq_wants_persistent_token = (\<lambda>q. False),
      uq_note_persistent_token_rejected = (\<lambda>q. q), uq_persistent_token_rejected = (\<lambda>q. False),
      uq_needs_pin_uv_auth_token = ga_needs_pin_uv_auth_token\<rparr>"

end
