(* ===== verification/Cbor_Json.thy ===== *)
theory Cbor_Json
  imports Platform "HOL-Library.AList"
begin

text \<open>
  CBOR values and their conversion to JSON (\<^verbatim>\<open>proto/ctap2/cbor/json.rs\<close>).  A \<^verbatim>\<open>BTreeMap\<close> is the
  list of its entries in order; the members of a JSON object are a list with distinct names, whose
  order is not modelled.  A float is its IEEE 754 bits.
\<close>

section \<open>Values\<close>

datatype cbor_value = Cbor_Null | Cbor_Bool bool | Cbor_Integer int | Cbor_Float u64
  | Cbor_Bytes bytes | Cbor_Text string | Cbor_Array "cbor_value list"
  | Cbor_Map "(cbor_value \<times> cbor_value) list" | Cbor_Tag u64 cbor_value

datatype json_value = Js_Null | Js_Bool bool | Js_Integer int | Js_Float u64 | Js_String string
  | Js_Array "json_value list" | Js_Object "(string \<times> json_value) list"

section \<open>Conversion\<close>

fun digits :: "nat \<Rightarrow> string" where
  "digits n = (if n < 10 then [char_of (48 + n)] else digits (n div 10) @ [char_of (48 + n mod 10)])"

declare digits.simps [simp del]

definition int_to_string :: "int \<Rightarrow> string" where
  "int_to_string i = (if i < 0 then CHR ''-'' # digits (nat (- i)) else digits (nat i))"

definition integer_to_json :: "int \<Rightarrow> json_value" where
  "integer_to_json i =
     (if - (2 ^ 63) \<le> i \<and> i < 2 ^ 63 then Js_Integer i
      else if 0 \<le> i \<and> i < 2 ^ 64 then Js_Integer i
      else Js_String (int_to_string i))"

definition float_to_json :: "u64 \<Rightarrow> json_value" where
  "float_to_json f = (if drop_bit 52 f AND 0x7FF = 0x7FF then Js_Null else Js_Float f)"

fun key_to_string :: "(bytes \<Rightarrow> string) \<Rightarrow> cbor_value \<Rightarrow> string option" where
  "key_to_string b64 (Cbor_Text s) = Some s"
| "key_to_string b64 (Cbor_Integer i) = Some (int_to_string i)"
| "key_to_string b64 (Cbor_Bytes b) = Some (b64 b)"
| "key_to_string b64 (Cbor_Bool b) = Some (if b then ''true'' else ''false'')"
| "key_to_string b64 _ = None"

text \<open>
  \<open>collect_object\<close> is the \<^verbatim>\<open>collect()\<close> into a JSON object: a later entry replaces an earlier one
  with the same name.
\<close>

definition collect_object :: "(string \<times> json_value) list \<Rightarrow> (string \<times> json_value) list" where
  "collect_object entries = foldl (\<lambda>acc (k, v). AList.update k v acc) [] entries"

fun value_to_json :: "(bytes \<Rightarrow> string) \<Rightarrow> cbor_value \<Rightarrow> json_value"
  and values_to_json :: "(bytes \<Rightarrow> string) \<Rightarrow> cbor_value list \<Rightarrow> json_value list"
  and entries_to_json :: "(bytes \<Rightarrow> string) \<Rightarrow> (cbor_value \<times> cbor_value) list \<Rightarrow> (string \<times> json_value) list"
where
  "value_to_json b64 Cbor_Null = Js_Null"
| "value_to_json b64 (Cbor_Bool b) = Js_Bool b"
| "value_to_json b64 (Cbor_Integer i) = integer_to_json i"
| "value_to_json b64 (Cbor_Float f) = float_to_json f"
| "value_to_json b64 (Cbor_Bytes b) = Js_String (b64 b)"
| "value_to_json b64 (Cbor_Text s) = Js_String s"
| "value_to_json b64 (Cbor_Array items) = Js_Array (values_to_json b64 items)"
| "value_to_json b64 (Cbor_Map m) = Js_Object (collect_object (entries_to_json b64 m))"
| "value_to_json b64 (Cbor_Tag t v) = value_to_json b64 v"
| "values_to_json b64 [] = []"
| "values_to_json b64 (v # vs) = value_to_json b64 v # values_to_json b64 vs"
| "entries_to_json b64 [] = []"
| "entries_to_json b64 ((k, v) # kvs) =
     (case key_to_string b64 k of
        None \<Rightarrow> entries_to_json b64 kvs
      | Some s \<Rightarrow> (s, value_to_json b64 v) # entries_to_json b64 kvs)"

definition map_to_json_object :: "(bytes \<Rightarrow> string) \<Rightarrow> (cbor_value \<times> cbor_value) list \<Rightarrow> (string \<times> json_value) list" where
  "map_to_json_object b64 m = collect_object (entries_to_json b64 m)"

section \<open>Lookup\<close>

lemma map_of_foldl_update:
  "map_of (foldl (\<lambda>acc (k, v). AList.update k v acc) acc xs) = map_of acc ++ map_of (rev xs)"
  by (induction xs arbitrary: acc) (auto simp: update_conv' map_add_upds split: prod.splits)

lemma map_of_collect: "map_of (collect_object xs) = map_of (rev xs)"
  using map_of_foldl_update [of "[]" xs] by (simp add: collect_object_def)

lemma distinct_foldl_update:
  "distinct (map fst acc) \<Longrightarrow> distinct (map fst (foldl (\<lambda>acc (k, v). AList.update k v acc) acc xs))"
  by (induction xs arbitrary: acc) (auto simp: distinct_update split: prod.splits)

lemma entries_to_json_filter: "entries_to_json b64 m =
    map (\<lambda>(k, v). (the (key_to_string b64 k), value_to_json b64 v))
      (filter (\<lambda>(k, v). key_to_string b64 k \<noteq> None) m)"
  by (induction m) (auto split: option.splits)

lemma map_of_entries: "map_of (entries_to_json b64 m) s
    = map_option (\<lambda>(k, v). value_to_json b64 v) (List.find (\<lambda>(k, v). key_to_string b64 k = Some s) m)"
  by (induction m) (auto split: option.splits)

lemma entries_to_json_rev: "entries_to_json b64 (rev m) = rev (entries_to_json b64 m)"
  by (simp add: entries_to_json_filter rev_map rev_filter)

text \<open>
  The JSON object of a CBOR map has one member per name, and the member of a name is the
  conversion of the last entry whose key is written as that name; entries whose key has no JSON
  form are dropped.
\<close>

theorem json_object_members:
  "map_of (map_to_json_object b64 m) s = map_option (\<lambda>(k, v). value_to_json b64 v)
      (List.find (\<lambda>(k, v). key_to_string b64 k = Some s) (rev m))
   \<and> distinct (map fst (map_to_json_object b64 m))"
proof -
  have "distinct (map fst (collect_object xs))" for xs
    unfolding collect_object_def by (rule distinct_foldl_update) simp
  then show ?thesis
    by (simp add: map_to_json_object_def map_of_collect flip: entries_to_json_rev map_of_entries)
qed

end
