(* ===== verification/Assertion_Response.thy ===== *)
theory Assertion_Response
  imports Assertion_Request Cbor_Json
begin

text \<open>
  The CTAP2 assertion response and its translation into the assertion handed to the relying party
  (\<^verbatim>\<open>proto/ctap2/model/get_assertion.rs\<close>, \<^verbatim>\<open>ops/webauthn/get_assertion.rs\<close>), and the upgrade
  of a U2F signature (\<^verbatim>\<open>ops/u2f.rs\<close>).
\<close>

section \<open>Unsigned PRF outputs\<close>

record unsigned_prf_output =
  up_enabled :: "bool option"
  up_results :: "prf_output_value option"

definition unsigned_prf_default :: unsigned_prf_output where
  "unsigned_prf_default = \<lparr>up_enabled = None, up_results = None\<rparr>"

fun cbor_bytes32 :: "cbor_value option \<Rightarrow> bytes option" where
  "cbor_bytes32 (Some (Cbor_Bytes bs)) = (if length bs = 32 then Some bs else None)"
| "cbor_bytes32 _ = None"

fun unsigned_prf_enabled :: "cbor_value option \<Rightarrow> bool option" where
  "unsigned_prf_enabled (Some (Cbor_Bool b)) = Some b"
| "unsigned_prf_enabled _ = None"

fun unsigned_prf_results :: "cbor_value option \<Rightarrow> prf_output_value option" where
  "unsigned_prf_results (Some (Cbor_Map results)) =
     (case (cbor_bytes32 (map_of results (Cbor_Text ''first'')), map_of results (Cbor_Text ''second'')) of
        (Some first, None) \<Rightarrow> Some \<lparr>po_first = first, po_second = None\<rparr>
      | (Some first, Some second) \<Rightarrow>
          map_option (\<lambda>s. \<lparr>po_first = first, po_second = Some s\<rparr>) (cbor_bytes32 (Some second))
      | (None, _) \<Rightarrow> None)"
| "unsigned_prf_results _ = None"

definition parse_unsigned_prf :: "(cbor_value \<times> cbor_value) list \<Rightarrow> unsigned_prf_output option" where
  "parse_unsigned_prf outputs =
     (case map_of outputs (Cbor_Text ''prf'') of
        Some (Cbor_Map prf) \<Rightarrow>
          Some \<lparr>up_enabled = unsigned_prf_enabled (map_of prf (Cbor_Text ''enabled'')),
            up_results = unsigned_prf_results (map_of prf (Cbor_Text ''results''))\<rparr>
      | _ \<Rightarrow> None)"

section \<open>Responses\<close>

record hmac_secret_output =
  ho_output1 :: bytes
  ho_output2 :: "bytes option"

text \<open>\<^verbatim>\<open>Ctap2HMACGetSecretOutput\<close> is the encrypted output.\<close>

definition decrypt_hmac_output :: "crypto \<Rightarrow> bytes \<Rightarrow> pin_uv_auth_protocol \<Rightarrow> bytes
    \<Rightarrow> hmac_secret_output option" where
  "decrypt_hmac_output c shared_secret version encrypted_output =
     (case pin_decrypt c version shared_secret encrypted_output of
        Inl _ \<Rightarrow> None
      | Inr out \<Rightarrow>
          if length out = 32 then Some \<lparr>ho_output1 = out, ho_output2 = None\<rparr>
          else if length out = 64 then Some \<lparr>ho_output1 = take 32 out, ho_output2 = Some (drop 32 out)\<rparr>
          else None)"

record ctap2_ga_response_extensions =
  sg_cred_blob :: "bytes option"
  sg_hmac_secret :: "bytes option"

record ctap2_ga_response =
  ag_credential_id :: "credential_descriptor option"
  ag_authenticator_data :: "ctap2_ga_response_extensions authenticator_data"
  ag_signature :: bytes
  ag_user :: "user_entity option"
  ag_credentials_count :: "u32 option"
  ag_user_selected :: "bool option"
  ag_large_blob_key :: "bytes option"
  ag_unsigned_extension_outputs :: "(cbor_value \<times> cbor_value) list option"

record large_blob_output =
  lo_blob :: "bytes option"
  lo_written :: "bool option"

record ga_unsigned_extensions =
  ug_hmac_get_secret :: "hmac_secret_output option"
  ug_large_blob :: "large_blob_output option"
  ug_prf :: "prf_output_value option option"
  ug_appid :: "bool option"
  ug_unsigned_outputs :: "(string \<times> json_value) list"

definition ga_unsigned_default :: "ga_unsigned_extensions" where
  "ga_unsigned_default =
     \<lparr>ug_hmac_get_secret = None, ug_large_blob = None, ug_prf = None, ug_appid = None, ug_unsigned_outputs = []\<rparr>"

datatype transport = Tr_Usb | Tr_Ble | Tr_Nfc | Tr_Hybrid

record assertion =
  as_credential_id :: "credential_descriptor option"
  as_authenticator_data :: "ctap2_ga_response_extensions authenticator_data"
  as_signature :: bytes
  as_user :: "user_entity option"
  as_credentials_count :: "u32 option"
  as_user_selected :: "bool option"
  as_unsigned_extensions :: "ga_unsigned_extensions option"
  as_transport :: "transport option"

definition ga_prf_requested :: "ga_request \<Rightarrow> bool" where
  "ga_prf_requested r \<longleftrightarrow> Option.bind (gr_extensions r) ge_prf \<noteq> None"

definition to_unsigned_extensions :: "crypto \<Rightarrow> ctap2_ga_response_extensions \<Rightarrow> ga_request
    \<Rightarrow> auth_token_data option \<Rightarrow> ga_unsigned_extensions" where
  "to_unsigned_extensions c e r auth_data =
     (let decrypted = Option.bind (sg_hmac_secret e) (\<lambda>x.
            Option.bind auth_data (\<lambda>d. decrypt_hmac_output c (atd_shared_secret d) (atd_protocol_version d) x))
      in \<lparr>ug_hmac_get_secret = None,
          ug_large_blob = map_option (\<lambda>_. \<lparr>lo_blob = None, lo_written = None\<rparr>) (ga_large_blob r),
          ug_prf = Option.bind decrypted (\<lambda>d.
            if ga_prf_requested r
            then Some (Some \<lparr>po_first = ho_output1 d, po_second = ho_output2 d\<rparr>) else None),
          ug_appid = map_option (\<lambda>_. False) (Option.bind (gr_extensions r) ge_appid),
          ug_unsigned_outputs = []\<rparr>)"

definition unsigned_or_default :: "ga_unsigned_extensions option \<Rightarrow> ga_unsigned_extensions" where
  "unsigned_or_default u = (case u of None \<Rightarrow> ga_unsigned_default | Some x \<Rightarrow> x)"

text \<open>The unsigned outputs of the response added to those of the signed extensions.\<close>

definition add_unsigned_outputs :: "(bytes \<Rightarrow> string) \<Rightarrow> ga_request
    \<Rightarrow> (cbor_value \<times> cbor_value) list \<Rightarrow> ga_unsigned_extensions option
    \<Rightarrow> ga_unsigned_extensions option" where
  "add_unsigned_outputs b64 r outputs u0 =
     (let object = AList.delete ''prf'' (map_to_json_object b64 outputs);
          u1 = (if object = [] then u0
                else Some ((unsigned_or_default u0)\<lparr>ug_unsigned_outputs := object\<rparr>))
      in if ga_prf_requested r then
           (case Option.bind (parse_unsigned_prf outputs) up_results of
              None \<Rightarrow> u1
            | Some results \<Rightarrow>
                let u = unsigned_or_default u1
                in Some (if ug_prf u = None then u\<lparr>ug_prf := Some (Some results)\<rparr> else u))
         else u1)"

definition into_assertion_output :: "crypto \<Rightarrow> (bytes \<Rightarrow> string)
    \<Rightarrow> ctap2_ga_response \<Rightarrow> ga_request \<Rightarrow> auth_token_data option \<Rightarrow> assertion" where
  "into_assertion_output c b64 resp r auth_data =
     (let signed = map_option (\<lambda>e. to_unsigned_extensions c e r auth_data)
            (ad_extensions (ag_authenticator_data resp));
          unsigned = (case ag_unsigned_extension_outputs resp of
                        None \<Rightarrow> signed
                      | Some outputs \<Rightarrow> add_unsigned_outputs b64 r outputs signed)
      in \<lparr>as_credential_id = (case ag_credential_id resp of
              Some d \<Rightarrow> Some d
            | None \<Rightarrow> (case gr_allow r of [d] \<Rightarrow> Some d | _ \<Rightarrow> None)),
          as_authenticator_data = ag_authenticator_data resp, as_signature = ag_signature resp,
          as_user = ag_user resp, as_credentials_count = ag_credentials_count resp,
          as_user_selected = ag_user_selected resp, as_unsigned_extensions = unsigned,
          as_transport = None\<rparr>)"

definition extract_large_blob_key :: "ctap2_ga_response \<Rightarrow> bytes option" where
  "extract_large_blob_key resp =
     Option.bind (ag_large_blob_key resp) (\<lambda>buf. if length buf = 32 then Some buf else None)"

section \<open>The upgrade of a U2F signature\<close>

definition u2f_sign_upgrade :: "crypto \<Rightarrow> (bytes \<Rightarrow> string)
    \<Rightarrow> ctap1_sign_response \<Rightarrow> ctap1_sign_request \<Rightarrow> 'te webauthn_error + assertion list" where
  "u2f_sign_upgrade c b64 resp request =
     (if length (sr_app_id_hash request) \<noteq> 32 then Inl (We_Platform Pe_InvalidDeviceResponse)
      else
        let descriptor = \<lparr>cd_id = sr_key_handle request, cd_public_key = True, cd_transports = None\<rparr>;
            data = \<lparr>ad_rp_id_hash = sr_app_id_hash request, ad_flags = USER_PRESENT,
              ad_signature_count = ss_counter resp, ad_attested_credential = None,
              ad_extensions = None, ad_raw = None\<rparr>;
            response = \<lparr>ag_credential_id = Some descriptor, ag_authenticator_data = data,
              ag_signature = ss_signature resp, ag_user = None, ag_credentials_count = None,
              ag_user_selected = None, ag_large_blob_key = None, ag_unsigned_extension_outputs = None\<rparr>;
            orig_request = \<lparr>gr_relying_party_id = [], gr_challenge = [], gr_origin = [],
              gr_top_origin = None, gr_allow = [descriptor], gr_hints = [], gr_extensions = None,
              gr_user_verification = (if sr_require_user_presence request then Uv_Required else Uv_Preferred),
              gr_timeout = sr_timeout request\<rparr>
        in Inr [into_assertion_output c b64 response orig_request None])"

end
