(* ===== verification/Large_Blob.thy ===== *)
theory Large_Blob
  imports Assertion_Response
begin

text \<open>
  The large blob array of an authenticator (\<^verbatim>\<open>ops/webauthn/large_blob.rs\<close>) and the messages that
  read and write it (\<^verbatim>\<open>proto/ctap2/model/large_blobs.rs\<close>): the entries of the array, its trailer,
  the chunked transfer, and writing or deleting the entry of one credential.
\<close>

section \<open>Messages\<close>

record large_blobs_request =
  lq_get :: "u32 option"
  lq_set :: "bytes option"
  lq_offset :: u32
  lq_length :: "u32 option"
  lq_pin_uv_auth_param :: "bytes option"
  lq_pin_uv_auth_protocol :: "u32 option"

definition large_blobs_get :: "u32 \<Rightarrow> u32 \<Rightarrow> large_blobs_request" where
  "large_blobs_get offset len =
     \<lparr>lq_get = Some len, lq_set = None, lq_offset = offset, lq_length = None,
      lq_pin_uv_auth_param = None, lq_pin_uv_auth_protocol = None\<rparr>"

definition large_blobs_set_first :: "bytes \<Rightarrow> u32 \<Rightarrow> (bytes \<times> u32) option \<Rightarrow> large_blobs_request" where
  "large_blobs_set_first chunk total_length pin_uv_auth =
     \<lparr>lq_get = None, lq_set = Some chunk, lq_offset = 0, lq_length = Some total_length,
      lq_pin_uv_auth_param = map_option fst pin_uv_auth,
      lq_pin_uv_auth_protocol = map_option snd pin_uv_auth\<rparr>"

definition large_blobs_set_continuation :: "bytes \<Rightarrow> u32 \<Rightarrow> (bytes \<times> u32) option \<Rightarrow> large_blobs_request" where
  "large_blobs_set_continuation chunk offset pin_uv_auth =
     \<lparr>lq_get = None, lq_set = Some chunk, lq_offset = offset, lq_length = None,
      lq_pin_uv_auth_param = map_option fst pin_uv_auth,
      lq_pin_uv_auth_protocol = map_option snd pin_uv_auth\<rparr>"

text \<open>The response is its \<^verbatim>\<open>config\<close> member.\<close>

type_synonym large_blobs_response = "bytes option"

section \<open>Parameters\<close>

text \<open>
  AES-256-GCM and DEFLATE (the crates \<^verbatim>\<open>aes_gcm\<close> and \<^verbatim>\<open>flate2\<close>), CBOR (\<^verbatim>\<open>serde_cbor_2\<close>): the length
  of the item a string starts with, the value of a string that is one item, and its encoding; the
  codecs of the two messages; twelve random bytes.  \<open>bc_inflate z n\<close> is the decompressed stream
  cut after \<open>n\<close> bytes, \<open>None\<close> when the decoder fails before that.
\<close>

record 'd blob_codec =
  bc_gcm_encrypt :: "bytes \<Rightarrow> bytes \<Rightarrow> bytes \<Rightarrow> bytes \<Rightarrow> bytes option"
  bc_gcm_decrypt :: "bytes \<Rightarrow> bytes \<Rightarrow> bytes \<Rightarrow> bytes \<Rightarrow> bytes option"
  bc_deflate :: "bytes \<Rightarrow> bytes option"
  bc_inflate :: "bytes \<Rightarrow> nat \<Rightarrow> bytes option"
  bc_item :: "bytes \<Rightarrow> nat option"
  bc_value :: "bytes \<Rightarrow> cbor_value option"
  bc_encode :: "cbor_value \<Rightarrow> bytes option"
  bc_encode_request :: "large_blobs_request \<Rightarrow> bytes option"
  bc_decode_response :: "bytes \<Rightarrow> large_blobs_response option"
  bc_nonce :: "'d \<Rightarrow> bytes \<times> 'd"

section \<open>Constants and errors\<close>

definition LARGE_BLOB_DEFAULT_FRAGMENT :: u32 where "LARGE_BLOB_DEFAULT_FRAGMENT = 960"

definition LARGE_BLOB_MAX_ORIG_SIZE :: nat where "LARGE_BLOB_MAX_ORIG_SIZE = 1048576"

definition LARGE_BLOB_MAX_ARRAY_BYTES :: nat where "LARGE_BLOB_MAX_ARRAY_BYTES = 4194304"

definition LARGE_BLOB_HASH_LEN :: nat where "LARGE_BLOB_HASH_LEN = 16"

definition LARGE_BLOB_NONCE_LEN :: nat where "LARGE_BLOB_NONCE_LEN = 12"

definition LARGE_BLOB_AD_PREFIX :: bytes where "LARGE_BLOB_AD_PREFIX = string_bytes ''blob''"

text \<open>The text of \<^verbatim>\<open>Corrupted\<close> is not modelled.\<close>

datatype 'te large_blob_error = Lbe_Corrupted | Lbe_NoMatch | Lbe_Webauthn "'te webauthn_error"

type_synonym ('d, 'te, 'a) blob_action = "('d session, 'te large_blob_error, 'a) action"

definition max_fragment_length :: "u32 option \<Rightarrow> u32" where
  "max_fragment_length msg_size =
     (case msg_size of
        Some m \<Rightarrow> max (if m < 64 then 0 else m - 64) 1
      | None \<Rightarrow> LARGE_BLOB_DEFAULT_FRAGMENT)"

definition array_trailer :: "crypto \<Rightarrow> bytes \<Rightarrow> bytes" where
  "array_trailer c data = take LARGE_BLOB_HASH_LEN (c_sha256 c data)"

section \<open>Entries\<close>

record large_blob_map_entry =
  le_ciphertext :: bytes
  le_nonce :: bytes
  le_orig_size :: u64

definition large_blob_ad :: "u64 \<Rightarrow> bytes" where
  "large_blob_ad orig_size = LARGE_BLOB_AD_PREFIX @ le_u64 orig_size"

definition try_decrypt :: "'d blob_codec \<Rightarrow> bytes \<Rightarrow> large_blob_map_entry
    \<Rightarrow> 'te large_blob_error + bytes option" where
  "try_decrypt B key e =
     (if length (le_nonce e) \<noteq> LARGE_BLOB_NONCE_LEN then Inr None
      else if unat (le_orig_size e) > LARGE_BLOB_MAX_ORIG_SIZE then Inr None
      else case bc_gcm_decrypt B key (le_nonce e) (large_blob_ad (le_orig_size e)) (le_ciphertext e) of
        None \<Rightarrow> Inr None
      | Some plaintext_compressed \<Rightarrow>
          result_bind (ok_or Lbe_Corrupted
            (bc_inflate B plaintext_compressed (unat (le_orig_size e) + 1))) (\<lambda>decompressed.
          if length decompressed \<noteq> unat (le_orig_size e) then Inl Lbe_Corrupted
          else Inr (Some decompressed)))"

fun decrypt_first_matching :: "'d blob_codec \<Rightarrow> large_blob_map_entry list \<Rightarrow> bytes
    \<Rightarrow> 'te large_blob_error + bytes option" where
  "decrypt_first_matching B [] key = Inr None"
| "decrypt_first_matching B (e # es) key =
     result_bind (try_decrypt B key e) (\<lambda>r.
     case r of Some plaintext \<Rightarrow> Inr (Some plaintext) | None \<Rightarrow> decrypt_first_matching B es key)"

definition strip_array_trailer :: "crypto \<Rightarrow> bytes \<Rightarrow> 'te large_blob_error + bytes" where
  "strip_array_trailer c serialized =
     (if length serialized < LARGE_BLOB_HASH_LEN then Inl Lbe_Corrupted
      else
        let split = length serialized - LARGE_BLOB_HASH_LEN;
            array = take split serialized;
            expected_hash = drop split serialized
        in if array_trailer c array \<noteq> expected_hash then Inl Lbe_Corrupted else Inr array)"

text \<open>The three members of an entry, read in one pass over the map; later members win.\<close>

type_synonym entry_fields = "bytes option \<times> bytes option \<times> u64 option"

fun entry_field :: "entry_fields \<Rightarrow> cbor_value \<times> cbor_value \<Rightarrow> entry_fields" where
  "entry_field (ct, n, os) (Cbor_Integer k, v) =
     (if k = 1 then (case v of Cbor_Bytes b \<Rightarrow> (Some b, n, os) | _ \<Rightarrow> (ct, n, os))
      else if k = 2 then (case v of Cbor_Bytes b \<Rightarrow> (ct, Some b, os) | _ \<Rightarrow> (ct, n, os))
      else if k = 3 then
        (case v of Cbor_Integer i \<Rightarrow> if i \<ge> 0 then (ct, n, Some (of_int i)) else (ct, n, os)
         | _ \<Rightarrow> (ct, n, os))
      else (ct, n, os))"
| "entry_field acc _ = acc"

definition entry_fields_of :: "(cbor_value \<times> cbor_value) list \<Rightarrow> entry_fields" where
  "entry_fields_of m = foldl entry_field (None, None, None) m"

fun entry_of_value :: "cbor_value \<Rightarrow> large_blob_map_entry option" where
  "entry_of_value (Cbor_Map m) =
     (case entry_fields_of m of
        (Some ct, Some n, Some os) \<Rightarrow> Some \<lparr>le_ciphertext = ct, le_nonce = n, le_orig_size = os\<rparr>
      | _ \<Rightarrow> None)"
| "entry_of_value _ = None"

definition parse_large_blob_array :: "'d blob_codec \<Rightarrow> bytes
    \<Rightarrow> 'te large_blob_error + large_blob_map_entry list" where
  "parse_large_blob_array B bs =
     (if bs = [] then Inr []
      else
        result_bind (ok_or Lbe_Corrupted (bc_value B bs)) (\<lambda>value.
        case value of
          Cbor_Array vs \<Rightarrow> Inr (List.map_filter entry_of_value vs)
        | _ \<Rightarrow> Inl Lbe_Corrupted))"

definition encrypt_entry :: "'d blob_codec \<Rightarrow> bytes \<Rightarrow> bytes \<Rightarrow> bytes
    \<Rightarrow> 'te large_blob_error + bytes" where
  "encrypt_entry B key nonce plaintext =
     (if length nonce \<noteq> LARGE_BLOB_NONCE_LEN then Inl Lbe_Corrupted
      else
        result_bind (ok_or Lbe_Corrupted (bc_deflate B plaintext)) (\<lambda>compressed.
        result_bind (ok_or Lbe_Corrupted
          (bc_gcm_encrypt B key nonce (large_blob_ad (of_nat (length plaintext))) compressed)) (\<lambda>ciphertext.
        ok_or Lbe_Corrupted (bc_encode B (Cbor_Map
          [(Cbor_Integer 1, Cbor_Bytes ciphertext), (Cbor_Integer 2, Cbor_Bytes nonce),
           (Cbor_Integer 3, Cbor_Integer (int (length plaintext)))])))))"

section \<open>The array as a list of spans\<close>

text \<open>
  A cursor is what is left to read.  \<open>read_uint\<close> reads \<open>n\<close> bytes of a big-endian number.
\<close>

fun read_uint :: "nat \<Rightarrow> u64 \<Rightarrow> bytes \<Rightarrow> 'te large_blob_error + u64 \<times> bytes" where
  "read_uint 0 val bs = Inr (val, bs)"
| "read_uint (Suc n) val [] = Inl Lbe_Corrupted"
| "read_uint (Suc n) val (b # bs) = read_uint n (push_bit 8 val OR ucast b) bs"

fun read_array_header :: "bytes \<Rightarrow> 'te large_blob_error + nat \<times> bytes" where
  "read_array_header [] = Inl Lbe_Corrupted"
| "read_array_header (initial # bs) =
     (if drop_bit 5 initial \<noteq> 4 then Inl Lbe_Corrupted
      else
        let ai = initial AND 0x1F;
            to_usize = result_map (\<lambda>(val :: u64, rest). (unat val, rest))
        in if ai \<le> 23 then Inr (unat ai, bs)
           else if ai = 24 then to_usize (read_uint 1 0 bs)
           else if ai = 25 then to_usize (read_uint 2 0 bs)
           else if ai = 26 then to_usize (read_uint 4 0 bs)
           else if ai = 27 then to_usize (read_uint 8 0 bs)
           else Inl Lbe_Corrupted)"

definition encode_array_header :: "nat \<Rightarrow> bytes" where
  "encode_array_header n =
     (if n \<le> 23 then [0x80 OR of_nat n]
      else if n \<le> 0xFF then [0x98, of_nat n]
      else if n \<le> 0xFFFF then 0x99 # be_u16 (of_nat n)
      else 0x9A # be_u32 (of_nat n))"

record raw_array_entry =
  re_raw :: bytes
  re_value :: "cbor_value option"

text \<open>The loop over the elements: \<open>count\<close> of them are still to be read.\<close>

fun raw_entries :: "'d blob_codec \<Rightarrow> nat \<Rightarrow> bytes \<Rightarrow> 'te large_blob_error + raw_array_entry list" where
  "raw_entries B 0 bs = (if bs \<noteq> [] then Inl Lbe_Corrupted else Inr [])"
| "raw_entries B (Suc count) bs =
     (case bc_item B bs of
        None \<Rightarrow> Inl Lbe_Corrupted
      | Some k \<Rightarrow>
          if k > length bs then Inl Lbe_Corrupted
          else result_map (\<lambda>es. \<lparr>re_raw = take k bs, re_value = bc_value B (take k bs)\<rparr> # es)
                 (raw_entries B count (drop k bs)))"

definition parse_array_raw_entries :: "'d blob_codec \<Rightarrow> bytes
    \<Rightarrow> 'te large_blob_error + raw_array_entry list" where
  "parse_array_raw_entries B bs =
     (if bs = [] then Inr []
      else result_bind (read_array_header bs) (\<lambda>(count, rest). raw_entries B count rest))"

definition entry_decrypts_under_key :: "'d blob_codec \<Rightarrow> cbor_value \<Rightarrow> bytes \<Rightarrow> bool" where
  "entry_decrypts_under_key B entry key =
     (case entry of
        Cbor_Map m \<Rightarrow>
          (case entry_fields_of m of
             (Some ct, Some n, Some os) \<Rightarrow>
               if length n \<noteq> LARGE_BLOB_NONCE_LEN then False
               else bc_gcm_decrypt B key n (large_blob_ad os) ct \<noteq> None
           | _ \<Rightarrow> False)
      | _ \<Rightarrow> False)"

definition owned_by :: "'d blob_codec \<Rightarrow> bytes \<Rightarrow> raw_array_entry \<Rightarrow> bool" where
  "owned_by B key e =
     (case re_value e of None \<Rightarrow> False | Some v \<Rightarrow> entry_decrypts_under_key B v key)"

definition rebuild_serialized_array :: "crypto \<Rightarrow> 'd blob_codec \<Rightarrow> raw_array_entry list \<Rightarrow> bytes
    \<Rightarrow> bytes option \<Rightarrow> bytes" where
  "rebuild_serialized_array c B existing drop_key new_entry =
     (let kept = map re_raw (filter (\<lambda>e. \<not> owned_by B drop_key e) existing)
            @ (case new_entry of None \<Rightarrow> [] | Some n \<Rightarrow> [n]);
          bs = encode_array_header (length kept) @ concat kept
      in bs @ array_trailer c bs)"

section \<open>The chunked transfer\<close>

definition large_blobs_exchange :: "('d, 'te) platform \<Rightarrow> 'd blob_codec \<Rightarrow> large_blobs_request \<Rightarrow> nat
    \<Rightarrow> ('d, 'te, large_blobs_response) blob_action" where
  "large_blobs_exchange pf B request timeout =
     act_map_err Lbe_Webauthn
       (ctap2_large_blobs pf (bc_encode_request B) (bc_decode_response B) None request timeout)"

text \<open>\<^verbatim>\<open>checked_add\<close> on \<^verbatim>\<open>u32\<close>.\<close>

definition checked_add_u32 :: "u32 \<Rightarrow> u32 \<Rightarrow> u32 option" where
  "checked_add_u32 a b = (if unat a + unat b < 2 ^ 32 then Some (a + b) else None)"

fun fetch_loop :: "('d, 'te) platform \<Rightarrow> 'd blob_codec \<Rightarrow> nat \<Rightarrow> u32 \<Rightarrow> nat \<Rightarrow> u32 \<Rightarrow> bytes
    \<Rightarrow> ('d, 'te, bytes) blob_action" where
  "fetch_loop pf B 0 max_fragment timeout offset out = (\<lambda>s. None)"
| "fetch_loop pf B (Suc fuel) max_fragment timeout offset out =
     act_bind (large_blobs_exchange pf B (large_blobs_get offset max_fragment) timeout) (\<lambda>config.
     let chunk = (case config of None \<Rightarrow> [] | Some b \<Rightarrow> b);
         out' = out @ chunk
     in if length chunk < unat max_fragment then act_return out'
        else if length out' > LARGE_BLOB_MAX_ARRAY_BYTES then act_fail Lbe_Corrupted
        else case checked_add_u32 offset (of_nat (length chunk)) of
          None \<Rightarrow> act_fail Lbe_Corrupted
        | Some offset' \<Rightarrow> fetch_loop pf B fuel max_fragment timeout offset' out')"

definition fetch_serialized_array :: "('d, 'te) platform \<Rightarrow> 'd blob_codec \<Rightarrow> nat \<Rightarrow> u32 \<Rightarrow> nat
    \<Rightarrow> ('d, 'te, bytes) blob_action" where
  "fetch_serialized_array pf B fuel max_fragment timeout =
     fetch_loop pf B fuel max_fragment timeout 0 []"

definition fetch_large_blob_entries :: "('d, 'te) platform \<Rightarrow> 'd blob_codec \<Rightarrow> nat \<Rightarrow> u32 \<Rightarrow> nat
    \<Rightarrow> ('d, 'te, large_blob_map_entry list) blob_action" where
  "fetch_large_blob_entries pf B fuel max_fragment timeout =
     act_bind (fetch_serialized_array pf B fuel max_fragment timeout) (\<lambda>serialized.
     act_bind (act_lift (strip_array_trailer (pf_crypto pf) serialized)) (\<lambda>array_bytes.
     act_lift (parse_large_blob_array B array_bytes)))"

definition fetch_or_initial :: "('d, 'te) platform \<Rightarrow> 'd blob_codec \<Rightarrow> nat \<Rightarrow> u32 \<Rightarrow> nat
    \<Rightarrow> ('d, 'te, raw_array_entry list) blob_action" where
  "fetch_or_initial pf B fuel max_fragment timeout =
     act_bind (fetch_serialized_array pf B fuel max_fragment timeout) (\<lambda>serialized.
     case (strip_array_trailer (pf_crypto pf) serialized :: 'te large_blob_error + bytes) of
       Inr array_bytes \<Rightarrow> act_lift (parse_array_raw_entries B array_bytes)
     | Inl _ \<Rightarrow> act_return [])"

definition large_blob_pin_uv_auth_param :: "crypto \<Rightarrow> bytes \<Rightarrow> pin_uv_auth_protocol \<Rightarrow> u32 \<Rightarrow> bytes
    \<Rightarrow> 'te webauthn_error + bytes" where
  "large_blob_pin_uv_auth_param c token version offset chunk =
     map_err We_Platform (pin_authenticate c version token
       (replicate 32 0xFF @ [0x0C, 0x00] @ le_u32 offset @ c_sha256 c chunk))"

text \<open>One chunk: the authorization if there is a token, then the request.\<close>

definition upload_chunk_request :: "crypto \<Rightarrow> (bytes \<times> pin_uv_auth_protocol) option \<Rightarrow> u32 \<Rightarrow> u32 \<Rightarrow> bytes
    \<Rightarrow> 'te large_blob_error + large_blobs_request" where
  "upload_chunk_request c pin_uv_auth total_length offset chunk =
     result_bind
       (case pin_uv_auth of
          Some (token, version) \<Rightarrow>
            result_map (\<lambda>param. Some (param, proto_number version))
              (map_err Lbe_Webauthn (large_blob_pin_uv_auth_param c token version offset chunk))
        | None \<Rightarrow> Inr None) (\<lambda>chunk_auth.
     Inr (if offset = 0 then large_blobs_set_first chunk total_length chunk_auth
          else large_blobs_set_continuation chunk offset chunk_auth))"

text \<open>The \<^verbatim>\<open>while\<close> loop over the chunks; the slice bounds hold by construction of \<^verbatim>\<open>end\<close>.\<close>

fun upload_loop :: "('d, 'te) platform \<Rightarrow> 'd blob_codec \<Rightarrow> nat \<Rightarrow> bytes \<Rightarrow> u32
    \<Rightarrow> (bytes \<times> pin_uv_auth_protocol) option \<Rightarrow> nat \<Rightarrow> u32 \<Rightarrow> ('d, 'te, unit) blob_action" where
  "upload_loop pf B 0 serialized max_fragment pin_uv_auth timeout offset = (\<lambda>s. None)"
| "upload_loop pf B (Suc fuel) serialized max_fragment pin_uv_auth timeout offset =
     (if unat offset < length serialized then
        let end_at = min (unat offset + unat max_fragment) (length serialized);
            chunk = drop (unat offset) (take end_at serialized)
        in act_bind (act_lift (upload_chunk_request (pf_crypto pf) pin_uv_auth
             (of_nat (length serialized)) offset chunk)) (\<lambda>req.
           act_bind (large_blobs_exchange pf B req timeout) (\<lambda>_.
           case checked_add_u32 offset (of_nat (length chunk)) of
             None \<Rightarrow> act_fail Lbe_Corrupted
           | Some offset' \<Rightarrow> upload_loop pf B fuel serialized max_fragment pin_uv_auth timeout offset'))
      else act_return ())"

definition upload_serialized_array :: "('d, 'te) platform \<Rightarrow> 'd blob_codec \<Rightarrow> nat \<Rightarrow> bytes \<Rightarrow> u32
    \<Rightarrow> (bytes \<times> pin_uv_auth_protocol) option \<Rightarrow> nat \<Rightarrow> ('d, 'te, unit) blob_action" where
  "upload_serialized_array pf B fuel serialized max_fragment pin_uv_auth timeout =
     (if length serialized \<ge> 2 ^ 32 then act_fail Lbe_Corrupted
      else if length serialized < 17 then act_fail Lbe_Corrupted
      else if length serialized > LARGE_BLOB_MAX_ARRAY_BYTES then act_fail Lbe_Corrupted
      else
        act_bind (case pin_uv_auth of
            None \<Rightarrow> act_return ()
          | Some (token, version) \<Rightarrow>
              act_map_err Lbe_Webauthn
                (act_bind (create_protocol_object pf version) (\<lambda>_. act_return ()))) (\<lambda>_.
        upload_loop pf B fuel serialized max_fragment pin_uv_auth timeout 0))"

section \<open>Writing and deleting the blob of a credential\<close>

definition write_authenticator_large_blob :: "('d, 'te) platform \<Rightarrow> 'd blob_codec \<Rightarrow> nat \<Rightarrow> bytes \<Rightarrow> bytes
    \<Rightarrow> u32 \<Rightarrow> (bytes \<times> pin_uv_auth_protocol) option \<Rightarrow> nat \<Rightarrow> ('d, 'te, unit) blob_action" where
  "write_authenticator_large_blob pf B fuel large_blob_key blob max_fragment pin_uv_auth timeout =
     (if length blob > LARGE_BLOB_MAX_ORIG_SIZE then act_fail Lbe_Corrupted
      else
        act_bind (fetch_or_initial pf B fuel max_fragment timeout) (\<lambda>existing.
        act_bind (act_map_err Lbe_Webauthn (on_device (bc_nonce B))) (\<lambda>nonce.
        act_bind (act_lift (encrypt_entry B large_blob_key nonce blob)) (\<lambda>entry_bytes.
        upload_serialized_array pf B fuel
          (rebuild_serialized_array (pf_crypto pf) B existing large_blob_key (Some entry_bytes))
          max_fragment pin_uv_auth timeout))))"

definition delete_authenticator_large_blob :: "('d, 'te) platform \<Rightarrow> 'd blob_codec \<Rightarrow> nat \<Rightarrow> bytes
    \<Rightarrow> u32 \<Rightarrow> (bytes \<times> pin_uv_auth_protocol) option \<Rightarrow> nat \<Rightarrow> ('d, 'te, unit) blob_action" where
  "delete_authenticator_large_blob pf B fuel large_blob_key max_fragment pin_uv_auth timeout =
     act_bind (fetch_or_initial pf B fuel max_fragment timeout) (\<lambda>existing.
     if \<not> list_ex (owned_by B large_blob_key) existing then act_fail Lbe_NoMatch
     else
       upload_serialized_array pf B fuel
         (rebuild_serialized_array (pf_crypto pf) B existing large_blob_key None)
         max_fragment pin_uv_auth timeout)"

end
