(* ===== verification/Uv_Safety.thy ===== *)
theory Uv_Safety
  imports Uv_Token
begin

text \<open>
  Lemmas on the user verification flow: which results a request can get, and which commands are
  never sent to the authenticator.
\<close>

section \<open>Actions on the session\<close>

lemma yields_on_session: "yields (on_session m) x \<Longrightarrow> yields m x"
  by (auto simp: yields_def on_session_def)

lemma yields_request [simp]:
  "yields (request_get f) y \<longleftrightarrow> (\<exists>q. y = f q)"
  "yields (request_modify g) u"
  by (auto simp: request_get_def request_modify_def)

lemma yields_get_info:
  "yields (ctap2_get_info pf) info \<Longrightarrow> \<exists>data. pf_decode_get_info pf data = Some info"
  unfolding ctap2_get_info_def
  by (erule yields_bindE) (auto simp: parse_required_def parse_cbor_def result_bind_eq_Inr_conv)

lemma keeps_on_session [keeps_rules]:
  "keeps P m \<Longrightarrow> keeps (\<lambda>(s, q). P s) (on_session m)"
  by (auto simp: keeps_def on_session_def)

lemma keeps_request [keeps_rules]:
  "keeps (\<lambda>(s, q). P s) (request_get f)"
  "keeps (\<lambda>(s, q). P s) (request_modify g)"
  by (auto simp: request_get_def request_modify_def intro!: keeps_rules)

lemma keeps_set_uv_auth [keeps_rules]: "keeps (\<lambda>(s, q). P s) (set_uv_auth pf ops v token)"
  by (auto simp: keeps_def set_uv_auth_def split: sum.splits)

section \<open>Results of the flow\<close>

lemma ensure_uv_protected_yields:
  assumes "yields (ensure_uv_protected pf fuel info0 requirement timeout) info"
  shows "info = info0 \<or> (\<exists>data. pf_decode_get_info pf data = Some info)"
    and "is_required requirement \<Longrightarrow> is_uv_protected info"
  using assms unfolding ensure_uv_protected_def
  by (auto split: if_splits elim!: yields_bindE dest: yields_get_info)

lemma uv_acquire_yields:
  assumes "yields (uv_acquire pf ops cx info blocked p op again) (exit, info')"
  shows "yields again (exit, info')
    \<or> (info' = info \<and> (\<exists>a. exit = Loop_Break a \<and> ua_operation a = op \<and> ua_proto a = p))"
  using assms unfolding uv_acquire_def Let_def
  by (auto elim!: yields_bindE yields_tryE split: option.splits sum.splits webauthn_error.splits
      ctap_error.splits prod.splits if_splits)

text \<open>
  A turn that leaves the loop has an operation chosen from the last getInfo response, downgraded
  and passed by the check for client PIN tokens.
\<close>

definition chosen_operation ::
    "'q uv_request \<Rightarrow> uv_context \<Rightarrow> get_info_response \<Rightarrow> uv_operation \<Rightarrow> bool" where
  "chosen_operation ops cx info op \<longleftrightarrow>
     (\<exists>blocked op0 q q'. uv_operation_of info (blocked \<or> uc_skip_uv cx) = Some op0
       \<and> enforce_no_mc_ga_with_client_pin info (downgraded_operation ops cx info op0 q)
           (uq_permissions ops q') (blocked \<or> uc_skip_uv cx) = Inr op
       \<and> \<not> (gi_force_pin_change info = Some True \<and> uses_pin op))"

lemma uv_loop_yields:
  assumes "yields (uv_loop pf ops cx fuel info blocked) (exit, info')"
    and "K info" and "\<And>data i. pf_decode_get_info pf data = Some i \<Longrightarrow> K i"
  shows "K info' \<and> (exit = Loop_Return Used_LegacyUV
    \<or> (\<exists>a. exit = Loop_Break a \<and> chosen_operation ops cx info' (ua_operation a)))"
  using assms(1,2)
proof (induction fuel arbitrary: info blocked)
  case 0
  then show ?case by simp
next
  case (Suc fuel)
  obtain op0 where op0: "uv_operation_of info (blocked \<or> uc_skip_uv cx) = Some op0"
    using Suc.prems(1) by (cases "uv_operation_of info (blocked \<or> uc_skip_uv cx)") auto
  note loop = Suc.prems(1)[unfolded uv_loop.simps op0 option.case]
  show ?case
  proof (cases "op0 = LegacyUv \<and> (\<not> uc_needs_shared_secret cx \<or> \<not> uc_can_establish_shared_secret cx)")
    case True
    with loop Suc.prems(2) show ?thesis by (auto elim!: yields_bindE)
  next
    case False
    from loop obtain q q' op where
      op: "enforce_no_mc_ga_with_client_pin info (downgraded_operation ops cx info op0 q)
        (uq_permissions ops q') (blocked \<or> uc_skip_uv cx) = Inr op" and
      rest: "yields (if gi_force_pin_change info = Some True \<and> uses_pin op then
              act_bind (on_session (try_to_set_pin pf fuel info Pns_PinChangeRequired (uc_timeout cx))) (\<lambda>_.
              act_bind (on_session (ctap2_get_info pf)) (\<lambda>info'.
              uv_loop pf ops cx fuel info' blocked))
            else
              act_bind (on_session (select_uv_proto pf info)) (\<lambda>proto.
              case proto of
                None \<Rightarrow> act_fail (We_Ctap Ctap_Other)
              | Some p \<Rightarrow>
                  uv_acquire pf ops cx info blocked p op (uv_loop pf ops cx fuel info True)))
        (exit, info')"
      unfolding if_not_P [OF False] by (auto elim!: yields_bindE)
    show ?thesis
    proof (cases "gi_force_pin_change info = Some True \<and> uses_pin op")
      case True
      from rest[unfolded if_P [OF True]] obtain info2 data where
        i2: "pf_decode_get_info pf data = Some info2"
          "yields (uv_loop pf ops cx fuel info2 blocked) (exit, info')"
        by (auto elim!: yields_bindE dest!: yields_on_session yields_get_info)
      from i2(1) have "K info2" by (rule assms(3))
      with i2(2) show ?thesis by (rule Suc.IH)
    next
      case unforced: False
      from rest[unfolded if_not_P [OF this]] obtain p where
        "yields (uv_acquire pf ops cx info blocked p op (uv_loop pf ops cx fuel info True)) (exit, info')"
        by (auto elim!: yields_bindE split: option.splits)
      from uv_acquire_yields [OF this] show ?thesis
      proof
        assume "yields (uv_loop pf ops cx fuel info True) (exit, info')"
        then show ?thesis by (rule Suc.IH [OF _ Suc.prems(2)])
      next
        assume "info' = info \<and> (\<exists>a. exit = Loop_Break a \<and> ua_operation a = op \<and> ua_proto a = p)"
        then show ?thesis
          using op0 op unforced Suc.prems(2) unfolding chosen_operation_def by blast
      qed
    qed
  qed
qed

lemma package_yields:
  assumes "yields (package pf ops info a) used"
  shows "used = (if ua_operation a = LegacyUv then Used_LegacyUV
      else if ua_operation a = OnlyForSharedSecret then SharedSecretOnly
      else NewlyCalculated (ua_operation a))"
  using assms unfolding package_def package_token_def Let_def
  by (auto elim!: yields_bindE split: if_splits option.splits)

text \<open>With verification not discouraged, only the lack of a PIN leads to a bare shared secret.\<close>

lemma chosen_shared_secret:
  assumes "chosen_operation ops cx info OnlyForSharedSecret" and "\<not> uc_rp_uv_discouraged cx"
  shows "\<not> option_enabled info ''clientPin''"
  using assms unfolding chosen_operation_def enforce_no_mc_ga_with_client_pin_def Let_def
    downgraded_operation_def uv_operation_of_def
  by (auto split: if_splits)

lemma helper_yields:
  assumes "yields (user_verification_helper pf ops fuel info0 requirement timeout) used"
    and "K info0" and "\<And>data i. pf_decode_get_info pf data = Some i \<Longrightarrow> K i"
  shows "(used = Used_None \<and> \<not> is_required requirement) \<or> used = Used_LegacyUV
    \<or> (\<exists>cx info op. K info \<and> uc_rp_uv_discouraged cx = is_discouraged requirement
        \<and> chosen_operation ops cx info op
        \<and> used = (if op = LegacyUv then Used_LegacyUV
            else if op = OnlyForSharedSecret then SharedSecretOnly else NewlyCalculated op))"
proof -
  note d = user_verification_helper_def Let_def
  obtain nss info where
    ens: "yields (ensure_uv_protected pf fuel info0 requirement timeout :: (_ session, _, _) action) info" and
    rest: "yields (if \<not> nss \<and> \<not> (\<not> is_discouraged requirement \<and> (is_preferred requirement \<or> is_uv_protected info0))
        then act_return Used_None
        else if \<not> nss \<and> \<not> is_uv_protected info \<and> is_preferred requirement then act_return Used_None
        else if nss \<and> \<not> can_establish_shared_secret info0
          \<and> \<not> (\<not> is_discouraged requirement \<and> (is_preferred requirement \<or> is_uv_protected info0))
        then act_return Used_None
        else
          act_bind (request_get (\<lambda>q. \<not> uq_can_use_uv ops q info)) (\<lambda>skip_uv.
          act_bind (uv_loop pf ops \<lparr>uc_rp_uv_preferred = is_preferred requirement,
              uc_rp_uv_discouraged = is_discouraged requirement,
              uc_needs_shared_secret = nss, uc_can_establish_shared_secret = can_establish_shared_secret info0,
              uc_skip_uv = skip_uv, uc_timeout = timeout\<rparr> fuel info False) (\<lambda>(exit, info').
             case exit of
               Loop_Return used \<Rightarrow> act_return used
             | Loop_Break a \<Rightarrow> package pf ops info' a))) used"
    using assms(1) unfolding d by (auto elim!: yields_bindE dest: yields_on_session)
  have K: "K info"
    using ensure_uv_protected_yields(1) [OF ens] assms(2,3) by blast
  have req: "is_required requirement \<Longrightarrow> is_uv_protected info \<and> is_preferred requirement \<and> \<not> is_discouraged requirement"
    using ensure_uv_protected_yields(2) [OF ens] by (cases requirement) auto
  from rest consider "used = Used_None" "\<not> is_required requirement"
    | skip_uv exit info' where
      "yields (uv_loop pf ops \<lparr>uc_rp_uv_preferred = is_preferred requirement,
              uc_rp_uv_discouraged = is_discouraged requirement,
              uc_needs_shared_secret = nss, uc_can_establish_shared_secret = can_establish_shared_secret info0,
              uc_skip_uv = skip_uv, uc_timeout = timeout\<rparr> fuel info False) (exit, info')"
      "yields (case exit of Loop_Return used \<Rightarrow> act_return used
             | Loop_Break a \<Rightarrow> package pf ops info' a) used"
    using req by (auto split: if_splits elim!: yields_bindE)
  then show ?thesis
  proof cases
    case 1
    then show ?thesis by simp
  next
    case 2
    have "K info' \<and> (exit = Loop_Return Used_LegacyUV \<or> (\<exists>a. exit = Loop_Break a
      \<and> chosen_operation ops \<lparr>uc_rp_uv_preferred = is_preferred requirement,
              uc_rp_uv_discouraged = is_discouraged requirement,
              uc_needs_shared_secret = nss, uc_can_establish_shared_secret = can_establish_shared_secret info0,
              uc_skip_uv = skip_uv, uc_timeout = timeout\<rparr> info' (ua_operation a)))"
      by (rule uv_loop_yields [where K = K and pf = pf]) (use 2(1) K assms(3) in simp_all)
    then show ?thesis
    proof (elim conjE disjE exE)
      assume "exit = Loop_Return Used_LegacyUV"
      with 2(2) show ?thesis by simp
    next
      fix a assume "K info'" "exit = Loop_Break a"
        "chosen_operation ops \<lparr>uc_rp_uv_preferred = is_preferred requirement,
              uc_rp_uv_discouraged = is_discouraged requirement,
              uc_needs_shared_secret = nss, uc_can_establish_shared_secret = can_establish_shared_secret info0,
              uc_skip_uv = skip_uv, uc_timeout = timeout\<rparr> info' (ua_operation a)"
      with 2(2) package_yields show ?thesis by fastforce
    qed
  qed
qed

lemma user_verification_yields:
  assumes "yields (user_verification pf ops fuel requirement timeout) used"
    and "\<And>data i. pf_decode_get_info pf data = Some i \<Longrightarrow> K i"
  shows "(\<exists>rid. used = FromPersistentStorage rid) \<or> used = FromEphemeralStorage
    \<or> (\<exists>info. K info \<and> yields (user_verification_helper pf ops fuel info requirement timeout) used)"
  using assms unfolding user_verification_def
  by (auto elim!: yields_bindE dest!: yields_on_session yields_get_info split: option.splits if_splits)

section \<open>What is never sent\<close>

text \<open>
  \<open>device_keeps pf allowed P\<close>: the outside world keeps \<open>P\<close> as long as only requests that satisfy
  \<open>allowed\<close> are sent to it.  A fact about the requests that are never sent is then that every such
  \<open>P\<close>, the log of the requests for one, is kept by the flow.
\<close>

definition device_keeps :: "('d, 'te) platform \<Rightarrow> (cbor_request \<Rightarrow> bool) \<Rightarrow> ('d \<Rightarrow> bool) \<Rightarrow> bool" where
  "device_keeps pf allowed P \<longleftrightarrow> (\<forall>d. P d \<longrightarrow>
     (\<forall>r t. allowed r \<longrightarrow> P (snd (pf_cbor_send pf r t d))) \<and> (\<forall>t. P (snd (pf_cbor_recv pf t d)))
     \<and> (\<forall>u. P (snd (pf_pin_reply pf u d))) \<and> P (snd (pf_random_secret pf d))
     \<and> P (snd (pf_random_iv pf d)) \<and> P (snd (pf_random_record_id pf d)))"

definition is_pin_token_command :: "client_pin_command \<Rightarrow> bool" where
  "is_pin_token_command cmd \<longleftrightarrow>
     cmd = Cp_GetPinToken \<or> cmd = Cp_GetPinUvAuthTokenUsingPinWithPermissions"

definition no_pin_token_request :: "('d, 'te) platform \<Rightarrow> cbor_request \<Rightarrow> bool" where
  "no_pin_token_request pf r \<longleftrightarrow> r = cbor_request_new AuthenticatorGetInfo
     \<or> (\<exists>req body. \<not> is_pin_token_command (cp_command req) \<and> pf_encode_client_pin pf req = Some body
         \<and> r = \<lparr>cr_command = AuthenticatorClientPin, cr_encoded_data = body\<rparr>)"

lemma keeps_on_device:
  "(\<And>d. P d \<Longrightarrow> P (snd (f d))) \<Longrightarrow> keeps (\<lambda>s. P (sn_device s)) (on_device f)"
  by (auto simp: keeps_def on_device_def split: prod.splits) (metis snd_conv)

lemma keeps_on_transport:
  "(\<And>d. P d \<Longrightarrow> P (snd (f d))) \<Longrightarrow> keeps (\<lambda>s. P (sn_device s)) (on_transport f)"
  by (auto simp: keeps_def on_transport_def split: prod.splits) (metis snd_conv)

lemma keeps_send_ux_update [keeps_rules]: "keeps (\<lambda>s. P (sn_device s)) (send_ux_update u)"
  unfolding send_ux_update_def by (intro keeps_rules) simp

lemma keeps_soft_field [keeps_rules]: "keeps P m \<Longrightarrow> keeps P (soft_field field m)"
  unfolding soft_field_def by (intro keeps_rules)

lemma keeps_exchange:
  assumes "device_keeps pf allowed P" and "allowed r"
  shows "keeps (\<lambda>s. P (sn_device s)) (ctap2_exchange pf r timeout)"
  unfolding ctap2_exchange_def using assms
  by (intro keeps_rules keeps_on_transport) (auto simp: device_keeps_def)

lemma keeps_get_info:
  "device_keeps pf (no_pin_token_request pf) P \<Longrightarrow> keeps (\<lambda>s. P (sn_device s)) (ctap2_get_info pf)"
  unfolding ctap2_get_info_def
  by (intro keeps_rules keeps_exchange [where allowed = "no_pin_token_request pf"]) (auto simp: no_pin_token_request_def)

lemma keeps_client_pin:
  "device_keeps pf (no_pin_token_request pf) P \<Longrightarrow> \<not> is_pin_token_command (cp_command req)
    \<Longrightarrow> keeps (\<lambda>s. P (sn_device s)) (ctap2_client_pin pf req timeout)"
  unfolding ctap2_client_pin_def
  by (intro keeps_rules keeps_exchange [where allowed = "no_pin_token_request pf"])
    (auto simp: no_pin_token_request_def cbor_request_of_def split: option.splits)

lemma keeps_random:
  assumes "device_keeps pf allowed P"
  shows "keeps (\<lambda>s. P (sn_device s)) (on_device (pf_random_secret pf))"
    "keeps (\<lambda>s. P (sn_device s)) (on_device (pf_random_iv pf))"
    "keeps (\<lambda>s. P (sn_device s)) (on_device (pf_random_record_id pf))"
    "keeps (\<lambda>s. P (sn_device s)) (prompt_pin pf u)"
  using assms unfolding prompt_pin_def
  by (auto intro!: keeps_rules keeps_on_device simp: device_keeps_def)

lemmas keeps_parts = keeps_rules keeps_random keeps_get_info keeps_client_pin

lemma keeps_protocol:
  assumes "device_keeps pf (no_pin_token_request pf) P"
  shows "keeps (\<lambda>s. P (sn_device s)) (create_protocol_object pf v)"
    "keeps (\<lambda>s. P (sn_device s)) (select_uv_proto pf info)"
    "keeps (\<lambda>s. P (sn_device s)) (pin_encrypt pf p key plaintext)"
    "keeps (\<lambda>s. P (sn_device s)) (obtain_shared_secret pf p timeout)"
    "keeps (\<lambda>s. P (sn_device s)) (obtain_pin pf info v reason timeout)"
  using assms unfolding create_protocol_object_def select_uv_proto_def pin_encrypt_def
    obtain_shared_secret_def obtain_pin_def Let_def
  by (auto intro!: keeps_parts split: option.split pin_uv_auth_protocol.split
      simp: new_get_key_agreement_def new_get_pin_retries_def is_pin_token_command_def)

lemma keeps_change_pin:
  assumes "device_keeps pf (no_pin_token_request pf) P"
  shows "keeps (\<lambda>s. P (sn_device s)) (change_pin_internal pf info pin timeout)"
proof -
  have request: "yields (change_pin_request pf p public_key secret enc old :: ('d, 'te, _) ceremony) req
    \<Longrightarrow> \<not> is_pin_token_command (cp_command req)" for pf :: "('d, 'te) platform" and p public_key secret enc old req
    by (auto simp: change_pin_request_def new_change_pin_def new_set_pin_def is_pin_token_command_def
        elim!: yields_bindE split: option.splits)
  have send: "keeps (\<lambda>s. P (sn_device s)) (change_pin_request pf p public_key secret enc old)"
    for p public_key secret enc old
    unfolding change_pin_request_def using assms
    by (auto intro!: keeps_parts keeps_protocol split: option.split)
  have old: "keeps (\<lambda>s. P (sn_device s)) (current_pin pf info p timeout)" for p
    unfolding current_pin_def using assms
    by (auto intro!: keeps_parts keeps_protocol split: option.split bool.split)
  show ?thesis
    unfolding change_pin_internal_def Let_def using assms
    by (auto intro!: keeps_parts keeps_protocol send old dest!: request
        split: option.split simp: delete_record_def)
qed

lemma keeps_set_pin_loop:
  assumes "device_keeps pf (no_pin_token_request pf) P"
  shows "keeps (\<lambda>s. P (sn_device s)) (set_pin_loop pf fuel info reason timeout)"
  using assms
  by (induction fuel arbitrary: reason)
    (auto intro!: keeps_parts keeps_change_pin split: option.split sum.split unit.split
       webauthn_error.split platform_error.split ctap_error.split)

lemma keeps_try_to_set_pin:
  "device_keeps pf (no_pin_token_request pf) P
    \<Longrightarrow> keeps (\<lambda>s. P (sn_device s)) (try_to_set_pin pf fuel info reason timeout)"
  unfolding try_to_set_pin_def by (intro keeps_rules keeps_set_pin_loop)

lemma keeps_token_request:
  assumes "device_keeps pf (no_pin_token_request pf) P"
  shows "keeps (\<lambda>(s, q). P (sn_device s)) (token_request pf ops p public_key secret pin op)"
  unfolding token_request_def using assms
  by (auto intro!: keeps_parts keeps_protocol split: uv_operation.split option.split)

lemma token_request_command:
  assumes "yields (token_request pf ops p public_key secret pin op) (Some req)" and "\<not> uses_pin op"
  shows "\<not> is_pin_token_command (cp_command req)"
  using assms unfolding token_request_def
  by (auto simp: uses_pin_def new_get_uv_token_with_perm_def is_pin_token_command_def
      split: uv_operation.splits elim!: yields_bindE)

lemma keeps_uv_acquire:
  assumes dk: "device_keeps pf (no_pin_token_request pf) P" and op: "\<not> uses_pin op"
    and again: "keeps (\<lambda>(s, q). P (sn_device s)) again"
  shows "keeps (\<lambda>(s, q). P (sn_device s)) (uv_acquire pf ops cx info blocked p op again)"
proof -
  have retries: "\<not> is_pin_token_command (cp_command new_get_uv_retries)"
    by (simp add: new_get_uv_retries_def is_pin_token_command_def)
  show ?thesis
    unfolding uv_acquire_def Let_def using dk op again retries
    by (auto intro!: keeps_parts keeps_protocol keeps_token_request dest: token_request_command
        split: option.split sum.split webauthn_error.split ctap_error.split)
qed

text \<open>The permissions of the request and the option of the device forbid PIN tokens.\<close>

lemma enforce_no_pin:
  assumes "option_enabled info ''noMcGaPermissionsWithClientPin''"
    and "role_intersects permissions (role_union MAKE_CREDENTIAL GET_ASSERTION)"
    and "enforce_no_mc_ga_with_client_pin info op permissions unavailable = Inr op'"
  shows "\<not> uses_pin op'"
  using assms unfolding enforce_no_mc_ga_with_client_pin_def Let_def
  by (auto simp: uses_pin_def split: if_splits)

lemma keeps_uv_loop:
  assumes dk: "device_keeps pf (no_pin_token_request pf) P"
    and info: "option_enabled info ''noMcGaPermissionsWithClientPin''"
      "\<And>data i. pf_decode_get_info pf data = Some i
        \<Longrightarrow> option_enabled i ''noMcGaPermissionsWithClientPin''"
    and mcga: "\<And>q. role_intersects (uq_permissions ops q) (role_union MAKE_CREDENTIAL GET_ASSERTION)"
  shows "keeps (\<lambda>(s, q). P (sn_device s)) (uv_loop pf ops cx fuel info blocked)"
  using info(1)
proof (induction fuel arbitrary: info blocked)
  case 0
  show ?case by (simp add: keeps_rules)
next
  case (Suc fuel)
  have no_pin: "yields (act_lift (map_err We_Platform (enforce_no_mc_ga_with_client_pin info op
      permissions unavailable))) op' \<Longrightarrow> yields (request_get (uq_permissions ops)) permissions
    \<Longrightarrow> \<not> uses_pin op'" for op op' permissions unavailable
    using enforce_no_pin [OF Suc.prems mcga] by auto
  show ?case
    unfolding uv_loop.simps Let_def using dk Suc.prems
    by (auto intro!: keeps_parts keeps_protocol keeps_uv_acquire Suc.IH keeps_try_to_set_pin
        split: option.split dest: no_pin dest!: yields_on_session yields_get_info info(2))
qed

lemma keeps_package:
  assumes "device_keeps pf (no_pin_token_request pf) P"
  shows "keeps (\<lambda>(s, q). P (sn_device s)) (package pf ops info a)"
proof -
  have store: "keeps (\<lambda>s. P (sn_device s)) (store_acquired a permission token)" for permission token
    unfolding store_acquired_def by (intro keeps_rules) (simp add: session_defs)
  have persist: "keeps (\<lambda>s. P (sn_device s)) (persist_minted_token pf info token version)" for token version
    unfolding persist_minted_token_def using assms
    by (auto intro!: keeps_parts split: option.split)
  show ?thesis
    unfolding package_def package_token_def Let_def using assms
    by (auto intro!: keeps_parts store persist split: option.split)
qed

lemma keeps_exit:
  "(\<And>u. exit = Loop_Return u \<Longrightarrow> keeps P (f u)) \<Longrightarrow> (\<And>a. exit = Loop_Break a \<Longrightarrow> keeps P (g a))
    \<Longrightarrow> keeps P (case exit of Loop_Return u \<Rightarrow> f u | Loop_Break a \<Rightarrow> g a)"
  by (cases exit) auto

lemma keeps_user_verification:
  assumes dk: "device_keeps pf (no_pin_token_request pf) P"
    and info: "\<And>data i. pf_decode_get_info pf data = Some i
        \<Longrightarrow> option_enabled i ''noMcGaPermissionsWithClientPin''"
    and mcga: "\<And>q. role_intersects (uq_permissions ops q) (role_union MAKE_CREDENTIAL GET_ASSERTION)"
  shows "keeps (\<lambda>(s, q). P (sn_device s)) (user_verification pf ops fuel requirement timeout)"
proof -
  have ensure: "keeps (\<lambda>s. P (sn_device s)) (ensure_uv_protected pf fuel info0 requirement timeout)" for info0
    unfolding ensure_uv_protected_def using dk
    by (auto intro!: keeps_parts keeps_try_to_set_pin)
  have helper: "keeps (\<lambda>(s, q). P (sn_device s)) (user_verification_helper pf ops fuel info0 requirement timeout)"
    if "option_enabled info0 ''noMcGaPermissionsWithClientPin''" for info0
    unfolding user_verification_helper_def Let_def
    by (intro keeps_rules keeps_exit keeps_uv_loop [OF dk _ info mcga] keeps_package [OF dk] ensure)
      (use that in \<open>auto dest!: yields_on_session ensure_uv_protected_yields(1) info\<close>)
  show ?thesis
    unfolding user_verification_def using dk
    by (auto intro!: keeps_parts keeps_protocol helper dest!: yields_on_session yields_get_info info
        split: option.split prod.split)
qed

end
