(* ===== verification/Uv_Termination.thy ===== *)
theory Uv_Termination
  imports Uv_Safety
begin

text \<open>
  The user verification flow returns: the actions that never run out of fuel, and the number of
  turns of the verification loop.
\<close>

section \<open>Returning\<close>

text \<open>\<open>returns m\<close>: \<open>m\<close> does not run out of fuel in any state.\<close>

definition returns :: "('s, 'e, 'a) action \<Rightarrow> bool" where
  "returns m \<longleftrightarrow> (\<forall>s. m s \<noteq> None)"

named_theorems returns_rules "composition of returning actions"

lemma returns_run [returns_rules]:
  "returns (act_return x)" "returns (act_fail e)" "returns (act_lift r)" "returns (act_get f)"
  "returns (act_modify g)" "returns (on_device h)" "returns (on_transport k)"
  by (auto simp: returns_def act_run on_device_def on_transport_def split: prod.split)

lemma returns_bind [returns_rules]:
  assumes "returns m" and "\<And>x. yields m x \<Longrightarrow> returns (f x)"
  shows "returns (act_bind m f)"
  unfolding returns_def
proof
  fix s
  obtain r s' where m: "m s = Some (r, s')" using assms(1) unfolding returns_def by (metis not_None_eq surj_pair)
  show "act_bind m f s \<noteq> None"
  proof (cases r)
    case (Inl e)
    with m show ?thesis by (simp add: act_simps)
  next
    case (Inr x)
    with m have "returns (f x)" by (intro assms(2)) (auto simp: yields_def)
    with m Inr show ?thesis by (simp add: act_simps returns_def)
  qed
qed

lemma returns_try [returns_rules]:
  "returns m \<Longrightarrow> (\<And>r s s'. m s = Some (r, s') \<Longrightarrow> returns (f r)) \<Longrightarrow> returns (act_try m f)"
  unfolding returns_def act_try_def by (auto split: option.split)

lemma returns_cases [returns_rules]:
  "(b \<Longrightarrow> returns m) \<Longrightarrow> (\<not> b \<Longrightarrow> returns n) \<Longrightarrow> returns (if b then m else n)"
  "(z = None \<Longrightarrow> returns m) \<Longrightarrow> (\<And>x. z = Some x \<Longrightarrow> returns (f x)) \<Longrightarrow>
    returns (case z of None \<Rightarrow> m | Some x \<Rightarrow> f x)"
  "(\<And>x y. w = (x, y) \<Longrightarrow> returns (g x y)) \<Longrightarrow> returns (case w of (x, y) \<Rightarrow> g x y)"
  by (auto split: option.split prod.split)

lemma returns_flow [returns_rules]:
  "returns m \<Longrightarrow> returns (on_session m)"
  "returns (request_get f)" "returns (request_modify g)" "returns (set_uv_auth pf ops v token)"
  by (auto simp: returns_def on_session_def request_get_def request_modify_def act_run set_uv_auth_def
      split: sum.split)

lemma returns_commands [returns_rules]:
  "returns (ctap2_exchange pf r timeout)" "returns (ctap2_get_info pf)"
  "returns (ctap2_client_pin pf req timeout)" "returns (send_ux_update u)" "returns (prompt_pin pf u)"
  "returns (create_protocol_object pf v)" "returns (select_uv_proto pf info)"
  "returns (pin_encrypt pf p key plaintext)"
  unfolding ctap2_exchange_def ctap2_get_info_def ctap2_client_pin_def send_ux_update_def
    prompt_pin_def create_protocol_object_def select_uv_proto_def pin_encrypt_def
  by (auto intro!: returns_rules split: option.split pin_uv_auth_protocol.split)

lemma returns_pin_steps [returns_rules]:
  "returns m \<Longrightarrow> returns (soft_field field m)"
  "returns (obtain_shared_secret pf p timeout)"
  "returns (obtain_pin pf info v reason timeout)"
  unfolding soft_field_def obtain_shared_secret_def obtain_pin_def Let_def
  by (intro returns_rules; simp)+

lemma returns_token_request [returns_rules]:
  "returns (token_request pf ops p public_key secret pin op)"
  unfolding token_request_def
  by (cases op) (auto intro!: returns_rules split: option.split)

lemma returns_package [returns_rules]: "returns (package pf ops info a)"
  unfolding package_def package_token_def persist_minted_token_def store_acquired_def Let_def
  by (auto intro!: returns_rules split: option.split)

text \<open>
  An authenticator that reports blocked built-in verification only in answer to a request that
  uses it.
\<close>

definition blocks_only_uv :: "('d, 'te) platform \<Rightarrow> bool" where
  "blocks_only_uv pf \<longleftrightarrow> (\<forall>req timeout e s s'.
     ctap2_client_pin pf req timeout s = Some (Inl (We_Ctap e), s') \<longrightarrow> e = Ctap_UvBlocked \<or> e = Ctap_UVInvalid
     \<longrightarrow> cp_command req = Cp_GetPinUvAuthTokenUsingUvWithPermissions)"

lemma returns_uv_acquire:
  assumes "uses_pin op \<Longrightarrow> blocks_only_uv pf"
    and "\<not> uses_pin op \<Longrightarrow> returns again"
  shows "returns (uv_acquire pf ops cx info blocked p op again)"
proof -
  have blocked: "returns again"
    if token: "yields (token_request pf ops p public_key secret pin op) (Some req)"
      and answer: "on_session (ctap2_client_pin pf req timeout) s = Some (Inl (We_Ctap e), s')"
      and e: "e = Ctap_UvBlocked \<or> e = Ctap_UVInvalid"
    for public_key secret pin req timeout s e s'
  proof (cases "uses_pin op")
    case True
    then have "cp_command req \<noteq> Cp_GetPinUvAuthTokenUsingUvWithPermissions"
      using token by (auto simp: token_request_def uses_pin_def new_get_pin_token_def
          new_get_pin_token_with_perm_def elim!: yields_bindE split: uv_operation.splits option.splits)
    moreover obtain u u' where "ctap2_client_pin pf req timeout u = Some (Inl (We_Ctap e), u')"
      using answer by (auto simp: on_session_def split: prod.splits)
    ultimately show ?thesis
      using e assms(1) [OF True] unfolding blocks_only_uv_def by blast
  qed (rule assms(2))
  show ?thesis
    unfolding uv_acquire_def Let_def
    by (intro returns_rules)
      (auto intro!: returns_rules split: option.split sum.split webauthn_error.split ctap_error.split
        intro: blocked)
qed

lemma uv_blocked_operation:
  "uv_operation_of info True = Some op \<Longrightarrow> uses_pin op \<or> op = OnlyForSharedSecret \<or> op = LegacyUv"
  by (auto simp: uv_operation_of_def uses_pin_def split: if_splits)

lemma enforce_unavailable:
  "enforce_no_mc_ga_with_client_pin info op permissions True = Inr op' \<Longrightarrow> op' = op"
  by (auto simp: enforce_no_mc_ga_with_client_pin_def Let_def split: if_splits)

lemma downgraded_blocked:
  "uv_operation_of info True = Some op \<Longrightarrow> uses_pin (downgraded_operation ops cx info op q)
    \<or> downgraded_operation ops cx info op q = OnlyForSharedSecret
    \<or> downgraded_operation ops cx info op q = LegacyUv"
  by (auto simp: downgraded_operation_def dest: uv_blocked_operation)

lemma returns_uv_loop_blocked:
  assumes "blocks_only_uv pf" and "gi_force_pin_change info \<noteq> Some True"
  shows "returns (uv_loop pf ops cx (Suc fuel) info True)"
proof -
  have acquire: "returns (uv_acquire pf ops cx info blocked p op again)"
    if "uses_pin op \<or> op = OnlyForSharedSecret \<or> op = LegacyUv" for p op again blocked
  proof (cases "uses_pin op")
    case True
    then show ?thesis using assms(1) by (intro returns_uv_acquire) auto
  next
    case False
    with that have "op = OnlyForSharedSecret \<or> op = LegacyUv" by simp
    then show ?thesis
      unfolding uv_acquire_def token_request_def Let_def
      by (auto intro!: returns_rules split: prod.split simp: uses_pin_def)
  qed
  show ?thesis
    unfolding uv_loop.simps using assms(2)
    by (auto intro!: returns_rules acquire split: option.split
        dest!: enforce_unavailable dest: downgraded_blocked)
qed

lemma returns_uv_loop:
  assumes "blocks_only_uv pf" and "gi_force_pin_change info \<noteq> Some True"
  shows "returns (uv_loop pf ops cx (Suc (Suc fuel)) info blocked)"
  unfolding uv_loop.simps(2) [of _ _ _ "Suc fuel"] using assms
  by (auto intro!: returns_rules returns_uv_acquire returns_uv_loop_blocked split: option.split
      simp del: uv_loop.simps)

lemma returns_helper:
  assumes "blocks_only_uv pf" and "gi_force_pin_change info \<noteq> Some True" and "is_uv_protected info"
  shows "returns (user_verification_helper pf ops (Suc (Suc fuel)) info requirement timeout)"
proof -
  have exit: "returns (case exit of Loop_Return used \<Rightarrow> act_return used | Loop_Break a \<Rightarrow> package pf ops info' a)"
    for exit and info' :: get_info_response
    by (cases exit) (auto intro: returns_rules)
  have ensure: "ensure_uv_protected pf (Suc (Suc fuel)) info requirement timeout = act_return info"
    using assms(3) by (simp add: ensure_uv_protected_def)
  show ?thesis
    unfolding user_verification_helper_def Let_def ensure
    by (intro returns_rules returns_uv_loop exit assms(1))
      (use assms(2) in \<open>auto dest!: yields_on_session\<close>)
qed

lemma returns_user_verification:
  assumes "blocks_only_uv pf"
    and "\<And>data info. pf_decode_get_info pf data = Some info
      \<Longrightarrow> gi_force_pin_change info \<noteq> Some True \<and> is_uv_protected info"
    and "2 \<le> fuel"
  shows "returns (user_verification pf ops fuel requirement timeout)"
proof -
  obtain n where fuel: "fuel = Suc (Suc n)" using assms(3) by (metis add_2_eq_Suc le_Suc_ex)
  show ?thesis
    unfolding user_verification_def fuel
    by (intro returns_rules returns_helper assms(1))
      (use assms(2) in \<open>auto dest!: yields_on_session yields_get_info\<close>)
qed

end
