(* ===== verification/Large_Blob_Array.thy ===== *)
theory Large_Blob_Array
  imports Large_Blob Uv_Termination
begin

text \<open>
  The serialized large blob array: what the header encodes is read back, the spans of the elements
  are recovered, the trailer is accepted, and the chunked fetch ends within a number of turns fixed
  by the platform's cap on the array.
\<close>

section \<open>Header and trailer\<close>

lemma read_uint_be:
  "(read_uint 1 0 (b # rest) :: 'te large_blob_error + u64 \<times> bytes) = Inr (ucast b, rest)"
  "(read_uint 2 0 (be_u16 v @ rest) :: 'te large_blob_error + u64 \<times> bytes) = Inr (ucast v, rest)"
  "(read_uint 4 0 (be_u32 w @ rest) :: 'te large_blob_error + u64 \<times> bytes) = Inr (ucast w, rest)"
proof -
  have two: "push_bit 8 (ucast (ucast (drop_bit 8 v) :: u8)) OR ucast (ucast v :: u8) = (ucast v :: u64)"
    by (rule bit_word_eqI) (auto simp: bit_simps dest: bit_imp_le_length)
  have four: "push_bit 8 (push_bit 8 (push_bit 8 (ucast (ucast (drop_bit 24 w) :: u8))
      OR ucast (ucast (drop_bit 16 w) :: u8)) OR ucast (ucast (drop_bit 8 w) :: u8))
      OR ucast (ucast w :: u8) = (ucast w :: u64)"
  proof (rule bit_word_eqI)
    fix n :: nat
    consider "n < 8" | "8 \<le> n \<and> n < 16" | "16 \<le> n \<and> n < 24" | "24 \<le> n" by fastforce
    then show "bit (push_bit 8 (push_bit 8 (push_bit 8 (ucast (ucast (drop_bit 24 w) :: u8))
      OR ucast (ucast (drop_bit 16 w) :: u8)) OR ucast (ucast (drop_bit 8 w) :: u8))
      OR ucast (ucast w :: u8) :: u64) n = bit (ucast w :: u64) n" if "n < LENGTH(64)"
      using that by cases (auto simp: bit_simps dest: bit_imp_le_length)
  qed
  show "(read_uint 1 0 (b # rest) :: 'te large_blob_error + u64 \<times> bytes) = Inr (ucast b, rest)"
    by (simp add: One_nat_def)
  show "(read_uint 2 0 (be_u16 v @ rest) :: 'te large_blob_error + u64 \<times> bytes) = Inr (ucast v, rest)"
    using two by (simp add: be_u16_def eval_nat_numeral)
  show "(read_uint 4 0 (be_u32 w @ rest) :: 'te large_blob_error + u64 \<times> bytes) = Inr (ucast w, rest)"
    using four by (simp add: be_u32_def eval_nat_numeral)
qed

lemma unat_of_nat_small:
  "n \<le> 0xFF \<Longrightarrow> unat (of_nat n :: u8) = n"
  "n \<le> 0xFFFF \<Longrightarrow> unat (of_nat n :: u16) = n"
  "n < 2 ^ 32 \<Longrightarrow> unat (of_nat n :: u32) = n"
  by (simp_all add: unat_of_nat take_bit_eq_mod)

lemma unat_ucast_u64:
  "unat (ucast (a :: u8) :: u64) = unat a"
  "unat (ucast (b :: u16) :: u64) = unat b"
  "unat (ucast (c :: u32) :: u64) = unat c"
proof -
  show "unat (ucast a :: u64) = unat a"
    using unsigned_less [of a, where ?'a = nat] by (simp add: unsigned_ucast_eq take_bit_nat_eq_self)
  show "unat (ucast b :: u64) = unat b"
    using unsigned_less [of b, where ?'a = nat] by (simp add: unsigned_ucast_eq take_bit_nat_eq_self)
  show "unat (ucast c :: u64) = unat c"
    using unsigned_less [of c, where ?'a = nat] by (simp add: unsigned_ucast_eq take_bit_nat_eq_self)
qed

lemma read_encode_array_header:
  assumes "n < 2 ^ 32"
  shows "(read_array_header (encode_array_header n @ rest) :: 'te large_blob_error + _) = Inr (n, rest)"
proof -
  consider "n \<le> 23" | "23 < n" "n \<le> 0xFF" | "0xFF < n" "n \<le> 0xFFFF" | "0xFFFF < n" by linarith
  then show ?thesis
  proof cases
    case 1
    then have "n \<in> set [0..<24]" by simp
    moreover have "list_all (\<lambda>n. drop_bit 5 (0x80 OR of_nat n :: u8) = 4 \<and>
      (0x80 OR of_nat n :: u8) AND 0x1F \<le> 23 \<and> unat ((0x80 OR of_nat n :: u8) AND 0x1F) = n) [0..<24]"
      by code_simp
    ultimately have "drop_bit 5 (0x80 OR of_nat n :: u8) = 4 \<and>
      (0x80 OR of_nat n :: u8) AND 0x1F \<le> 23 \<and> unat ((0x80 OR of_nat n :: u8) AND 0x1F) = n"
      by (auto simp only: list_all_iff)
    with 1 show ?thesis by (simp add: encode_array_header_def)
  next
    case 2
    then show ?thesis
      by (simp add: encode_array_header_def read_uint_be unat_ucast_u64 unat_of_nat_small)
  next
    case 3
    then show ?thesis
      by (simp add: encode_array_header_def read_uint_be unat_ucast_u64 unat_of_nat_small)
  next
    case 4
    then show ?thesis
      using assms by (simp add: encode_array_header_def read_uint_be unat_ucast_u64 unat_of_nat_small)
  qed
qed

lemma encode_array_header_nonempty [simp]: "encode_array_header n \<noteq> []"
  by (simp add: encode_array_header_def)

lemma length_array_trailer: "length (c_sha256 c data) = 32 \<Longrightarrow> length (array_trailer c data) = 16"
  by (simp add: array_trailer_def LARGE_BLOB_HASH_LEN_def)

lemma strip_array_trailer_append:
  assumes "length (c_sha256 c bs) = 32"
  shows "(strip_array_trailer c (bs @ array_trailer c bs) :: 'te large_blob_error + _) = Inr bs"
  using length_array_trailer [OF assms] by (simp add: strip_array_trailer_def LARGE_BLOB_HASH_LEN_def)

section \<open>Spans\<close>

text \<open>A string that the CBOR reader recognises as one item, whatever follows it.\<close>

definition is_item :: "'d blob_codec \<Rightarrow> bytes \<Rightarrow> bool" where
  "is_item B e \<longleftrightarrow> (\<forall>rest. bc_item B (e @ rest) = Some (length e))"

definition raw_of :: "'d blob_codec \<Rightarrow> bytes \<Rightarrow> raw_array_entry" where
  "raw_of B e = \<lparr>re_raw = e, re_value = bc_value B e\<rparr>"

lemma re_raw_raw_of [simp]: "re_raw (raw_of B e) = e"
  by (simp add: raw_of_def)

lemma raw_entries_concat:
  "list_all (is_item B) es \<Longrightarrow>
    (raw_entries B (length es) (concat es) :: 'te large_blob_error + _) = Inr (map (raw_of B) es)"
  by (induction es) (auto simp: is_item_def raw_of_def)

lemma parse_array_raw_entries_encode:
  assumes "list_all (is_item B) es" and "length es < 2 ^ 32"
  shows "(parse_array_raw_entries B (encode_array_header (length es) @ concat es) :: 'te large_blob_error + _)
    = Inr (map (raw_of B) es)"
  using assms by (simp add: parse_array_raw_entries_def raw_entries_concat read_encode_array_header)

text \<open>What the span parser accepts is made of the entries it returns, in their order.\<close>

lemma raw_entries_spans:
  "(raw_entries B n bs :: 'te large_blob_error + _) = Inr es \<Longrightarrow> bs = concat (map re_raw es) \<and> length es = n
    \<and> es = map (raw_of B) (map re_raw es)"
proof (induction n arbitrary: bs es)
  case 0
  then show ?case by (simp split: if_splits)
next
  case (Suc n)
  obtain k where item: "bc_item B bs = Some k" using Suc.prems by (cases "bc_item B bs") auto
  have k: "k \<le> length bs" using Suc.prems item by (auto split: if_splits)
  obtain es' where rest: "(raw_entries B n (drop k bs) :: 'te large_blob_error + _) = Inr es'" and es: "es = raw_of B (take k bs) # es'"
    using Suc.prems item k by (auto simp: result_map_eq_Inr_conv raw_of_def)
  have "drop k bs = concat (map re_raw es')" "length es' = n" "es' = map (raw_of B) (map re_raw es')"
    using Suc.IH [OF rest] by auto
  moreover have "bs = take k bs @ drop k bs" by simp
  ultimately show ?case unfolding es by (metis append.assoc concat.simps(2) length_Cons list.simps(9) re_raw_raw_of)
qed

section \<open>The array of an authenticator\<close>

text \<open>The serialized form of a list of encoded entries.\<close>

definition serialized_array :: "crypto \<Rightarrow> bytes list \<Rightarrow> bytes" where
  "serialized_array c es =
     (let bs = encode_array_header (length es) @ concat es in bs @ array_trailer c bs)"

lemma rebuild_serialized_array_eq:
  "rebuild_serialized_array c B (map (raw_of B) es) key new =
    serialized_array c (filter (\<lambda>e. \<not> owned_by B key (raw_of B e)) es
      @ (case new of None \<Rightarrow> [] | Some n \<Rightarrow> [n]))"
  by (simp add: rebuild_serialized_array_def serialized_array_def filter_map comp_def Let_def)

lemma strip_serialized_array:
  assumes "\<And>data. length (c_sha256 c data) = 32"
  shows "(strip_array_trailer c (serialized_array c es) :: 'te large_blob_error + _)
    = Inr (encode_array_header (length es) @ concat es)"
  unfolding serialized_array_def Let_def by (rule strip_array_trailer_append [OF assms])

lemma length_serialized_array:
  assumes "\<And>data. length (c_sha256 c data) = 32"
  shows "17 \<le> length (serialized_array c es)"
  using length_array_trailer [OF assms]
  by (simp add: serialized_array_def Let_def encode_array_header_def)

section \<open>The chunked fetch ends\<close>

lemma returns_map_err: "returns m \<Longrightarrow> returns (act_map_err h m)"
  unfolding act_map_err_def by (intro returns_rules) auto

lemma returns_large_blobs_exchange: "returns (large_blobs_exchange pf B request timeout)"
  unfolding large_blobs_exchange_def ctap2_large_blobs_def
  by (intro returns_map_err returns_rules)

lemma returns_fetch_loop:
  assumes "0 < max_fragment" and "LARGE_BLOB_MAX_ARRAY_BYTES + 2 \<le> fuel + length out"
    and "length out \<le> LARGE_BLOB_MAX_ARRAY_BYTES"
  shows "returns (fetch_loop pf B fuel max_fragment timeout offset out)"
  using assms(2,3)
proof (induction fuel arbitrary: offset out)
  case 0
  then show ?case by simp
next
  case (Suc fuel)
  have "0 < unat max_fragment" using assms(1) by (simp add: word_less_nat_alt)
  then show ?case
    by (auto simp: Let_def intro!: returns_rules returns_large_blobs_exchange Suc.IH split: option.split)
      (use Suc.prems in linarith)+
qed

end
