(* ===== verification/Blob_Device.thy ===== *)
theory Blob_Device
  imports Large_Blob_Array
begin

text \<open>
  The contract of \<^verbatim>\<open>authenticatorLargeBlobs\<close> (CTAP 2.2, section 6.10.2) as a reference device, and
  what the transfer of \<^verbatim>\<open>ops/webauthn/large_blob.rs\<close> achieves over it.  The device is the
  specification of the other side of the link, not code of the repository.
\<close>

section \<open>The reference device\<close>

record blob_device =
  bd_array :: bytes
  bd_pending :: bytes
  bd_expected :: nat
  bd_capacity :: nat
  bd_max_fragment :: nat

definition blob_append :: "crypto \<Rightarrow> bytes \<Rightarrow> blob_device \<Rightarrow> (ctap_error + large_blobs_response) \<times> blob_device" where
  "blob_append c chunk d =
     (let buffer = bd_pending d @ chunk
      in if length buffer > bd_expected d then (Inl Ctap_InvalidParameter, d)
         else if length buffer < bd_expected d then (Inr None, d\<lparr>bd_pending := buffer\<rparr>)
         else case (strip_array_trailer c buffer :: unit large_blob_error + bytes) of
           Inl _ \<Rightarrow> (Inl Ctap_IntegrityFailure, d\<lparr>bd_pending := []\<rparr>)
         | Inr _ \<Rightarrow> (Inr None, d\<lparr>bd_array := buffer, bd_pending := []\<rparr>))"

definition blob_serve :: "crypto \<Rightarrow> large_blobs_request \<Rightarrow> blob_device
    \<Rightarrow> (ctap_error + large_blobs_response) \<times> blob_device" where
  "blob_serve c q d =
     (case (lq_get q, lq_set q) of
        (Some n, None) \<Rightarrow>
          if lq_length q \<noteq> None then (Inl Ctap_InvalidParameter, d)
          else if unat n > bd_max_fragment d then (Inl Ctap_InvalidLength, d)
          else if unat (lq_offset q) > length (bd_array d) then (Inl Ctap_InvalidParameter, d)
          else (Inr (Some (take (unat n) (drop (unat (lq_offset q)) (bd_array d)))), d)
      | (None, Some chunk) \<Rightarrow>
          if length chunk > bd_max_fragment d then (Inl Ctap_InvalidLength, d)
          else if lq_offset q = 0 then
            (case lq_length q of
               None \<Rightarrow> (Inl Ctap_InvalidParameter, d)
             | Some n \<Rightarrow>
                 if unat n > bd_capacity d then (Inl Ctap_LargeBlobStorageFull, d)
                 else if unat n < 17 then (Inl Ctap_InvalidParameter, d)
                 else blob_append c chunk (d\<lparr>bd_pending := [], bd_expected := unat n\<rparr>))
          else if lq_length q \<noteq> None then (Inl Ctap_InvalidParameter, d)
          else if unat (lq_offset q) \<noteq> length (bd_pending d) then (Inl Ctap_InvalidSeq, d)
          else blob_append c chunk d
      | _ \<Rightarrow> (Inl Ctap_InvalidParameter, d))"

text \<open>A link to such a device, whose state \<open>view\<close> finds in the outside world.\<close>

definition blob_link :: "('d, 'te) platform \<Rightarrow> 'd blob_codec \<Rightarrow> ('d \<Rightarrow> blob_device) \<Rightarrow> bool" where
  "blob_link pf B view \<longleftrightarrow> (\<forall>q timeout s. \<exists>d'.
     large_blobs_exchange pf B q timeout s
       = Some (map_err (\<lambda>e. Lbe_Webauthn (We_Ctap e)) (fst (blob_serve (pf_crypto pf) q (view (sn_device s)))),
               s\<lparr>sn_device := d'\<rparr>)
     \<and> view d' = snd (blob_serve (pf_crypto pf) q (view (sn_device s))))"

text \<open>The random numbers the platform draws leave the device alone.\<close>

definition blob_quiet :: "('d, 'te) platform \<Rightarrow> 'd blob_codec \<Rightarrow> ('d \<Rightarrow> blob_device) \<Rightarrow> bool" where
  "blob_quiet pf B view \<longleftrightarrow> (\<forall>d. view (snd (bc_nonce B d)) = view d
     \<and> view (snd (pf_random_secret pf d)) = view d \<and> length (fst (bc_nonce B d)) = LARGE_BLOB_NONCE_LEN)"

lemma blob_linkE:
  assumes "blob_link pf B view"
    and "blob_serve (pf_crypto pf) q (view (sn_device s)) = (Inr x, v)"
  obtains s' where "large_blobs_exchange pf B q timeout s = Some (Inr x, s')" "view (sn_device s') = v"
proof -
  from assms(1) obtain d' where
    "large_blobs_exchange pf B q timeout s
       = Some (map_err (\<lambda>e. Lbe_Webauthn (We_Ctap e)) (fst (blob_serve (pf_crypto pf) q (view (sn_device s)))),
               s\<lparr>sn_device := d'\<rparr>)"
    "view d' = snd (blob_serve (pf_crypto pf) q (view (sn_device s)))"
    unfolding blob_link_def by metis
  with assms(2) show thesis by (intro that [of "s\<lparr>sn_device := d'\<rparr>"]) simp_all
qed

section \<open>Fetching\<close>

lemma blob_serve_get:
  assumes "unat n \<le> bd_max_fragment d" and "unat offset \<le> length (bd_array d)"
  shows "blob_serve c (large_blobs_get offset n) d
    = (Inr (Some (take (unat n) (drop (unat offset) (bd_array d)))), d)"
  using assms by (simp add: blob_serve_def large_blobs_get_def)

lemma fetch_loop_array:
  assumes link: "blob_link pf B view"
    and "0 < max_fragment" and fragment: "unat max_fragment \<le> bd_max_fragment d"
    and cap: "length (bd_array d) \<le> LARGE_BLOB_MAX_ARRAY_BYTES"
    and "view (sn_device s) = d" and "k \<le> length (bd_array d)" and "length (bd_array d) < fuel + k"
  shows "\<exists>s'. fetch_loop pf B fuel max_fragment timeout (of_nat k) (take k (bd_array d)) s
      = Some (Inr (bd_array d), s') \<and> view (sn_device s') = d"
  using assms(5-7)
proof (induction fuel arbitrary: k s)
  case 0
  then show ?case by simp
next
  case (Suc fuel)
  let ?arr = "bd_array d" and ?n = "unat max_fragment"
  have n: "0 < ?n" using assms(2) by (simp add: word_less_nat_alt)
  have k: "unat (of_nat k :: u32) = k"
    using Suc.prems(2) cap by (intro unat_of_nat_small) (simp add: LARGE_BLOB_MAX_ARRAY_BYTES_def)
  obtain s' where ex: "large_blobs_exchange pf B (large_blobs_get (of_nat k) max_fragment) timeout s
      = Some (Inr (Some (take ?n (drop k ?arr))), s')" and s': "view (sn_device s') = d"
    using blob_linkE [OF link, of "large_blobs_get (of_nat k) max_fragment" s] blob_serve_get [OF fragment, of "of_nat k"]
      Suc.prems(1,2) k by metis
  have out: "take k ?arr @ take ?n (drop k ?arr) = take (k + ?n) ?arr"
    by (simp add: take_add)
  show ?case
  proof (cases "k + ?n \<le> length ?arr")
    case False
    then have "length ?arr - k < ?n" using Suc.prems(2) by linarith
    then show ?thesis using s' by (simp add: ex Let_def act_run act_bind_def)
  next
    case True
    have "checked_add_u32 (of_nat k) (of_nat ?n) = Some (of_nat (k + ?n))"
      using True cap k by (simp add: checked_add_u32_def LARGE_BLOB_MAX_ARRAY_BYTES_def)
    moreover have "\<exists>s''. fetch_loop pf B fuel max_fragment timeout (of_nat (k + ?n)) (take (k + ?n) ?arr) s'
        = Some (Inr ?arr, s'') \<and> view (sn_device s'') = d"
      using Suc.prems True n by (intro Suc.IH s') simp_all
    ultimately show ?thesis
      using True cap by (simp add: act_bind_def ex out Let_def min_absorb2)
  qed
qed

lemma fetch_serialized_array_device:
  assumes "blob_link pf B view" and "0 < max_fragment"
    and "unat max_fragment \<le> bd_max_fragment (view (sn_device s))"
    and "length (bd_array (view (sn_device s))) \<le> LARGE_BLOB_MAX_ARRAY_BYTES"
    and "LARGE_BLOB_MAX_ARRAY_BYTES < fuel"
  obtains s' where "fetch_serialized_array pf B fuel max_fragment timeout s
      = Some (Inr (bd_array (view (sn_device s))), s')" "view (sn_device s') = view (sn_device s)"
  using fetch_loop_array [OF assms(1-4) refl, of 0 fuel timeout] assms(4,5)
  by (auto simp: fetch_serialized_array_def)

section \<open>Uploading\<close>

definition usable_token :: "(bytes \<times> pin_uv_auth_protocol) option \<Rightarrow> bool" where
  "usable_token auth \<longleftrightarrow> (case auth of None \<Rightarrow> True | Some (token, v) \<Rightarrow> 32 \<le> length token)"

lemma pin_authenticate_ok:
  assumes "digest_law c" and "32 \<le> length token"
  obtains mac where "pin_authenticate c v token message = Inr mac"
proof -
  have hmac: "\<exists>h. hmac_sha256 c k message = Inr h \<and> length h = 32" for k
    using assms(1) unfolding digest_law_def hmac_sha256_def by (metis ok_or_simps(2))
  have "\<exists>mac. pin_authenticate c v token message = Inr mac"
    using hmac [of token] hmac [of "take 32 token"] assms(2)
    by (cases v) (auto simp: slice_upto_def)
  then show thesis using that by blast
qed

lemma upload_chunk_request_ok:
  assumes "digest_law c" and "usable_token auth"
  obtains a where "(upload_chunk_request c auth total_len offset chunk :: 'te large_blob_error + _)
    = Inr (if offset = 0 then large_blobs_set_first chunk total_len a
           else large_blobs_set_continuation chunk offset a)"
proof (cases auth)
  case None
  then show thesis using that [of None] by (simp add: upload_chunk_request_def)
next
  case (Some tv)
  obtain token v where tv: "tv = (token, v)" by (cases tv) simp
  then have "32 \<le> length token" using assms(2) Some by (simp add: usable_token_def)
  then obtain mac where "pin_authenticate c v token
      (replicate 32 0xFF @ [0x0C, 0x00] @ le_u32 offset @ c_sha256 c chunk) = Inr mac"
    using pin_authenticate_ok [OF assms(1)] by blast
  then show thesis
    using that [of "Some (mac, proto_number v)"] Some tv
    by (simp add: upload_chunk_request_def large_blob_pin_uv_auth_param_def)
qed

text \<open>The device has taken the first \<open>k\<close> bytes of the array.\<close>

definition blob_uploaded :: "bytes \<Rightarrow> nat \<Rightarrow> blob_device \<Rightarrow> bool" where
  "blob_uploaded ser k d \<longleftrightarrow>
     (if k = length ser then bd_array d = ser
      else k = 0 \<or> bd_pending d = take k ser \<and> bd_expected d = length ser)"

lemma blob_append_prefix:
  assumes "bd_pending d = take k ser" and "bd_expected d = length ser"
    and "(strip_array_trailer c ser :: unit large_blob_error + bytes) = Inr array"
    and "k < m" and "m \<le> length ser"
  shows "\<exists>d'. blob_append c (drop k (take m ser)) d = (Inr None, d') \<and> blob_uploaded ser m d'
    \<and> bd_capacity d' = bd_capacity d \<and> bd_max_fragment d' = bd_max_fragment d"
proof -
  have "take k ser @ drop k (take m ser) = take m ser"
    using assms(4) by (metis append_take_drop_id less_imp_le min.absorb1 take_take)
  then show ?thesis
    using assms by (cases "m = length ser") (auto simp: blob_append_def blob_uploaded_def Let_def)
qed

lemma blob_serve_set:
  assumes ser: "(strip_array_trailer c ser :: unit large_blob_error + bytes) = Inr array"
    and "17 \<le> length ser" and "length ser \<le> bd_capacity d" and "length ser < 2 ^ 32"
    and "blob_uploaded ser k d" and "k < m" and "m \<le> length ser" and "m \<le> k + bd_max_fragment d"
  shows "\<exists>d'. blob_serve c (if (of_nat k :: u32) = 0
        then large_blobs_set_first (drop k (take m ser)) (of_nat (length ser)) a
        else large_blobs_set_continuation (drop k (take m ser)) (of_nat k) a) d = (Inr None, d')
    \<and> blob_uploaded ser m d' \<and> bd_capacity d' = bd_capacity d \<and> bd_max_fragment d' = bd_max_fragment d"
proof -
  have k: "unat (of_nat k :: u32) = k" and n: "unat (of_nat (length ser) :: u32) = length ser"
    using assms(4,6,7) by (simp_all add: unat_of_nat_small)
  have zero: "(of_nat k :: u32) = 0 \<longleftrightarrow> k = 0"
  proof
    assume "(of_nat k :: u32) = 0"
    then have "unat (of_nat k :: u32) = unat (0 :: u32)" by (rule arg_cong)
    then show "k = 0" unfolding k by simp
  qed simp
  have len: "length (drop k (take m ser)) \<le> bd_max_fragment d" using assms(7,8) by simp
  show ?thesis
  proof (cases "k = 0")
    case True
    then have "\<exists>d'. blob_append c (drop k (take m ser)) (d\<lparr>bd_pending := [], bd_expected := length ser\<rparr>)
        = (Inr None, d') \<and> blob_uploaded ser m d' \<and> bd_capacity d' = bd_capacity d
        \<and> bd_max_fragment d' = bd_max_fragment d"
      using blob_append_prefix [OF _ _ ser assms(6,7), of "d\<lparr>bd_pending := [], bd_expected := length ser\<rparr>"] by simp
    then show ?thesis
      using True zero len n assms(2,3,7) by (simp add: blob_serve_def large_blobs_set_first_def min_absorb2)
  next
    case False
    then have "bd_pending d = take k ser" "bd_expected d = length ser"
      using assms(5,6,7) by (auto simp: blob_uploaded_def)
    then show ?thesis
      using blob_append_prefix [OF _ _ ser assms(6,7)] False zero len k assms(6,7)
      by (simp add: blob_serve_def large_blobs_set_continuation_def min_absorb2)
  qed
qed

lemma upload_loop_device:
  fixes pf :: "('d, 'te) platform"
  assumes link: "blob_link pf B view" and laws: "digest_law (pf_crypto pf)" "usable_token auth"
    and ser: "(strip_array_trailer (pf_crypto pf) ser :: unit large_blob_error + bytes) = Inr array"
      "17 \<le> length ser" "length ser < 2 ^ 32"
    and "0 < max_fragment"
    and "length ser \<le> bd_capacity (view (sn_device s))"
    and "unat max_fragment \<le> bd_max_fragment (view (sn_device s))"
    and "blob_uploaded ser k (view (sn_device s))" and "k \<le> length ser" and "length ser < fuel + k"
  shows "\<exists>s'. upload_loop pf B fuel ser max_fragment auth timeout (of_nat k) s = Some (Inr (), s')
    \<and> blob_uploaded ser (length ser) (view (sn_device s'))
    \<and> bd_capacity (view (sn_device s')) = bd_capacity (view (sn_device s))
    \<and> bd_max_fragment (view (sn_device s')) = bd_max_fragment (view (sn_device s))"
  using assms(8-12)
proof (induction fuel arbitrary: k s)
  case 0
  then show ?case by simp
next
  case (Suc fuel)
  let ?n = "unat max_fragment" and ?d = "view (sn_device s)"
  have n: "0 < ?n" using assms(7) by (simp add: word_less_nat_alt)
  have k: "unat (of_nat k :: u32) = k"
    using Suc.prems(4) ser(3) by (simp add: unat_of_nat take_bit_eq_mod)
  show ?case
  proof (cases "k < length ser")
    case False
    then show ?thesis using Suc.prems(3,4) k by (simp add: act_run)
  next
    case True
    define m where "m = min (k + ?n) (length ser)"
    have m: "k < m" "m \<le> length ser" "m \<le> k + bd_max_fragment ?d" "length (drop k (take m ser)) = m - k"
      using True n Suc.prems(2) by (auto simp: m_def)
    obtain a where q: "(upload_chunk_request (pf_crypto pf) auth (of_nat (length ser)) (of_nat k)
        (drop k (take m ser)) :: 'te large_blob_error + _)
      = Inr (if (of_nat k :: u32) = 0 then large_blobs_set_first (drop k (take m ser)) (of_nat (length ser)) a
             else large_blobs_set_continuation (drop k (take m ser)) (of_nat k) a)"
      (is "_ = Inr ?q")
      using upload_chunk_request_ok [OF laws] by blast
    obtain d' where d': "blob_serve (pf_crypto pf) ?q ?d = (Inr None, d')" "blob_uploaded ser m d'"
        "bd_capacity d' = bd_capacity ?d" "bd_max_fragment d' = bd_max_fragment ?d"
      using blob_serve_set [OF ser(1,2) Suc.prems(1) ser(3) Suc.prems(3) m(1,2,3)] by blast
    obtain s' where ex: "large_blobs_exchange pf B ?q timeout s = Some (Inr None, s')" and s': "view (sn_device s') = d'"
      using blob_linkE [OF link d'(1)] by blast
    have "checked_add_u32 (of_nat k) (of_nat (m - k)) = Some (of_nat m)"
    proof -
      have "unat (of_nat (m - k) :: u32) = m - k"
        using m(2) ser(3) by (intro unat_of_nat_small) simp
      moreover have "(of_nat k + of_nat (m - k) :: u32) = of_nat m"
        using m(1) by (simp flip: of_nat_add)
      ultimately show ?thesis using k m(1,2) ser(3) by (simp add: checked_add_u32_def)
    qed
    moreover have "\<exists>s''. upload_loop pf B fuel ser max_fragment auth timeout (of_nat m) s' = Some (Inr (), s'')
        \<and> blob_uploaded ser (length ser) (view (sn_device s''))
        \<and> bd_capacity (view (sn_device s'')) = bd_capacity (view (sn_device s'))
        \<and> bd_max_fragment (view (sn_device s'')) = bd_max_fragment (view (sn_device s'))"
      using Suc.prems d' s' m(1,2) by (intro Suc.IH) simp_all
    ultimately show ?thesis
      using True k q ex m(4) d' s' by (simp add: Let_def act_bind_def act_run m_def [symmetric])
  qed
qed

section \<open>Writing and reading back\<close>

lemma fetch_or_initial_device:
  assumes "blob_link pf B view" and "0 < max_fragment"
    and "unat max_fragment \<le> bd_max_fragment (view (sn_device s))"
    and "bd_array (view (sn_device s)) = serialized_array (pf_crypto pf) es"
    and "length (serialized_array (pf_crypto pf) es) \<le> LARGE_BLOB_MAX_ARRAY_BYTES"
    and "LARGE_BLOB_MAX_ARRAY_BYTES < fuel"
    and "list_all (is_item B) es" and "length es < 2 ^ 32" and "digest_law (pf_crypto pf)"
  obtains s' where "fetch_or_initial pf B fuel max_fragment timeout s = Some (Inr (map (raw_of B) es), s')"
    "view (sn_device s') = view (sn_device s)"
proof -
  obtain s' where s': "fetch_serialized_array pf B fuel max_fragment timeout s
      = Some (Inr (serialized_array (pf_crypto pf) es), s')" "view (sn_device s') = view (sn_device s)"
    using fetch_serialized_array_device [OF assms(1,2,3) _ assms(6)] assms(4,5) by metis
  have sha: "length (c_sha256 (pf_crypto pf) m) = 32" for m using assms(9) by (simp add: digest_law_def)
  show thesis
    using that [of s'] s' assms(7,8)
    by (simp add: fetch_or_initial_def act_bind_def act_run strip_serialized_array sha
        parse_array_raw_entries_encode)
qed

lemma upload_device:
  assumes "blob_link pf B view" and "blob_quiet pf B view"
    and "digest_law (pf_crypto pf)" and "usable_token auth"
    and "0 < max_fragment" and "unat max_fragment \<le> bd_max_fragment (view (sn_device s))"
    and "length (serialized_array (pf_crypto pf) es) \<le> bd_capacity (view (sn_device s))"
    and "length (serialized_array (pf_crypto pf) es) \<le> LARGE_BLOB_MAX_ARRAY_BYTES"
    and "LARGE_BLOB_MAX_ARRAY_BYTES < fuel"
  shows "\<exists>s'. upload_serialized_array pf B fuel (serialized_array (pf_crypto pf) es) max_fragment auth timeout s
      = Some (Inr (), s') \<and> bd_array (view (sn_device s')) = serialized_array (pf_crypto pf) es
    \<and> bd_max_fragment (view (sn_device s')) = bd_max_fragment (view (sn_device s))"
proof -
  let ?c = "pf_crypto pf" and ?ser = "serialized_array (pf_crypto pf) es"
  have sha: "length (c_sha256 ?c m) = 32" for m using assms(3) by (simp add: digest_law_def)
  obtain arr where strip: "(strip_array_trailer ?c ?ser :: unit large_blob_error + bytes) = Inr arr"
    using strip_serialized_array [OF sha] by metis
  have bounds: "17 \<le> length ?ser" "length ?ser < 2 ^ 32"
    using length_serialized_array [OF sha] assms(8) by (simp_all add: LARGE_BLOB_MAX_ARRAY_BYTES_def)
  obtain s1 where s1: "(case auth of None \<Rightarrow> act_return ()
      | Some (token, version) \<Rightarrow> act_map_err Lbe_Webauthn
          (act_bind (create_protocol_object pf version) (\<lambda>_. act_return ()))) s = Some (Inr (), s1)"
      "view (sn_device s1) = view (sn_device s)"
  proof (cases auth)
    case None
    then show thesis using that [of s] by (simp add: act_run)
  next
    case (Some tv)
    obtain token version where tv: "tv = (token, version)" by (cases tv) simp
    obtain x d where rnd: "pf_random_secret pf (sn_device s) = (x, d)" by fastforce
    then have "view d = view (sn_device s)" using assms(2) unfolding blob_quiet_def by (metis snd_conv)
    then show thesis
      using that [of "s\<lparr>sn_device := d\<rparr>"] Some tv rnd
      by (simp add: act_run create_protocol_object_def on_device_def act_bind_def act_map_err_def act_try_def)
  qed
  have "\<exists>s'. upload_loop pf B fuel ?ser max_fragment auth timeout (of_nat 0) s1 = Some (Inr (), s')
    \<and> blob_uploaded ?ser (length ?ser) (view (sn_device s'))
    \<and> bd_capacity (view (sn_device s')) = bd_capacity (view (sn_device s1))
    \<and> bd_max_fragment (view (sn_device s')) = bd_max_fragment (view (sn_device s1))"
    using assms(6-9) s1(2) bounds
    by (intro upload_loop_device [OF assms(1,3,4) strip bounds assms(5)])
      (auto simp: blob_uploaded_def)
  then show ?thesis
    using s1 bounds assms(8)
    by (auto simp: upload_serialized_array_def act_bind_def blob_uploaded_def)
qed

lemma not_owned_skipped:
  assumes "\<not> entry_decrypts_under_key B v key" and "entry_of_value v = Some x"
  shows "try_decrypt B key x = Inr None"
  using assms
  by (cases v) (auto simp: entry_decrypts_under_key_def try_decrypt_def split: option.splits if_splits prod.splits)

lemma decrypt_first_matching_append:
  "list_all (\<lambda>x. (try_decrypt B key x :: 'te large_blob_error + _) = Inr None) xs \<Longrightarrow>
    (decrypt_first_matching B (xs @ ys) key :: 'te large_blob_error + _) = decrypt_first_matching B ys key"
  by (induction xs) auto

text \<open>
  What the crates promise for one blob: AES-GCM decryption inverts encryption, inflating inverts
  deflating, and the CBOR of the entry is one item that decodes to it.
\<close>

definition blob_entry_value :: "bytes \<Rightarrow> bytes \<Rightarrow> bytes \<Rightarrow> cbor_value" where
  "blob_entry_value ct nonce blob = Cbor_Map
     [(Cbor_Integer 1, Cbor_Bytes ct), (Cbor_Integer 2, Cbor_Bytes nonce),
      (Cbor_Integer 3, Cbor_Integer (int (length blob)))]"

definition blob_codec_law :: "'d blob_codec \<Rightarrow> bytes \<Rightarrow> bytes \<Rightarrow> bool" where
  "blob_codec_law B key blob \<longleftrightarrow> (\<forall>nonce. length nonce = LARGE_BLOB_NONCE_LEN \<longrightarrow> (\<exists>z ct entry.
     bc_deflate B blob = Some z \<and> bc_inflate B z (length blob + 1) = Some blob
     \<and> bc_gcm_encrypt B key nonce (large_blob_ad (of_nat (length blob))) z = Some ct
     \<and> bc_gcm_decrypt B key nonce (large_blob_ad (of_nat (length blob))) ct = Some z
     \<and> bc_encode B (blob_entry_value ct nonce blob) = Some entry
     \<and> is_item B entry \<and> bc_value B entry = Some (blob_entry_value ct nonce blob)))"

lemma blob_codec_lawE:
  assumes "blob_codec_law B key blob" and "length nonce = LARGE_BLOB_NONCE_LEN"
    and "length blob \<le> LARGE_BLOB_MAX_ORIG_SIZE"
  obtains entry v x where "(encrypt_entry B key nonce blob :: 'te large_blob_error + bytes) = Inr entry"
    "is_item B entry" "bc_value B entry = Some v" "entry_of_value v = Some x"
    "(try_decrypt B key x :: 'te large_blob_error + bytes option) = Inr (Some blob)"
proof -
  from assms(1,2) obtain z ct entry where *: "bc_deflate B blob = Some z" "bc_inflate B z (length blob + 1) = Some blob"
      "bc_gcm_encrypt B key nonce (large_blob_ad (of_nat (length blob))) z = Some ct"
      "bc_gcm_decrypt B key nonce (large_blob_ad (of_nat (length blob))) ct = Some z"
      "bc_encode B (blob_entry_value ct nonce blob) = Some entry"
      "is_item B entry" "bc_value B entry = Some (blob_entry_value ct nonce blob)"
    unfolding blob_codec_law_def by blast
  have n: "unat (of_nat (length blob) :: u64) = length blob"
    using assms(3) by (simp add: LARGE_BLOB_MAX_ORIG_SIZE_def unat_of_nat take_bit_eq_mod)
  show thesis
  proof (rule that [of entry "blob_entry_value ct nonce blob"
        "\<lparr>le_ciphertext = ct, le_nonce = nonce, le_orig_size = of_nat (length blob)\<rparr>"])
    show "(encrypt_entry B key nonce blob :: 'te large_blob_error + bytes) = Inr entry"
      using * assms(2) by (simp add: encrypt_entry_def blob_entry_value_def)
    show "(try_decrypt B key \<lparr>le_ciphertext = ct, le_nonce = nonce, le_orig_size = of_nat (length blob)\<rparr>
        :: 'te large_blob_error + bytes option) = Inr (Some blob)"
      using * assms(2,3) n by (simp add: try_decrypt_def)
  qed (use * in \<open>simp_all add: blob_entry_value_def entry_fields_of_def\<close>)
qed

text \<open>The entries that stay when the credential of \<open>key\<close> is written or erased.\<close>

definition foreign_entries :: "'d blob_codec \<Rightarrow> bytes \<Rightarrow> bytes list \<Rightarrow> bytes list" where
  "foreign_entries B key es = filter (\<lambda>e. \<not> owned_by B key (raw_of B e)) es"

lemma foreign_entries_skipped:
  assumes "map (bc_value B) (foreign_entries B key es) = map Some vs"
  shows "list_all (\<lambda>x. (try_decrypt B key x :: 'te large_blob_error + _) = Inr None)
    (List.map_filter entry_of_value vs)"
proof -
  have "\<not> entry_decrypts_under_key B v key" if "v \<in> set vs" for v
  proof -
    from that have "Some v \<in> set (map (bc_value B) (foreign_entries B key es))" using assms by simp
    then obtain e where "e \<in> set (foreign_entries B key es)" "bc_value B e = Some v" by force
    then show ?thesis by (simp add: foreign_entries_def owned_by_def raw_of_def)
  qed
  then show ?thesis
    using not_owned_skipped by (fastforce simp: list_all_iff List.map_filter_def)
qed

text \<open>
  C32: A blob written to a device that keeps the contract of the command can be read back: the
  write succeeds, the array then fetched consists of the entries of the other credentials, in
  their order and unchanged, and of the new one, and decrypting under the key of the credential
  yields the blob.
\<close>

theorem large_blob_write_then_read:
  fixes pf :: "('d, 'te) platform"
  assumes link: "blob_link pf B view" "blob_quiet pf B view"
    and laws: "digest_law (pf_crypto pf)" "blob_codec_law B key blob" "usable_token auth"
    and fragment: "0 < max_fragment" "unat max_fragment \<le> bd_max_fragment (view (sn_device s))"
    and stored: "bd_array (view (sn_device s)) = serialized_array (pf_crypto pf) es"
      "length (serialized_array (pf_crypto pf) es) \<le> LARGE_BLOB_MAX_ARRAY_BYTES"
      "list_all (is_item B) es" "length es < 2 ^ 32 - 1"
    and foreign: "map (bc_value B) (foreign_entries B key es) = map Some vs"
      "\<And>entry v. is_item B entry \<Longrightarrow> bc_value B entry = Some v \<Longrightarrow>
        bc_value B (encode_array_header (Suc (length vs)) @ concat (foreign_entries B key es) @ entry)
        = Some (Cbor_Array (vs @ [v]))"
    and room: "\<And>nonce entry. (encrypt_entry B key nonce blob :: 'te large_blob_error + bytes) = Inr entry \<Longrightarrow>
        length (serialized_array (pf_crypto pf) (foreign_entries B key es @ [entry]))
          \<le> min (bd_capacity (view (sn_device s))) LARGE_BLOB_MAX_ARRAY_BYTES"
    and blob: "length blob \<le> LARGE_BLOB_MAX_ORIG_SIZE"
    and fuel: "LARGE_BLOB_MAX_ARRAY_BYTES < fuel"
  shows "\<exists>s' s'' x. write_authenticator_large_blob pf B fuel key blob max_fragment auth timeout s = Some (Inr (), s')
    \<and> fetch_large_blob_entries pf B fuel max_fragment timeout s'
        = Some (Inr (List.map_filter entry_of_value vs @ [x]), s'')
    \<and> (decrypt_first_matching B (List.map_filter entry_of_value vs @ [x]) key :: 'te large_blob_error + _)
        = Inr (Some blob)"
proof -
  let ?c = "pf_crypto pf" and ?es = "foreign_entries B key es"
  have sha: "length (c_sha256 ?c m) = 32" for m using laws(1) by (simp add: digest_law_def)
  obtain s1 where s1: "fetch_or_initial pf B fuel max_fragment timeout s = Some (Inr (map (raw_of B) es), s1)"
      "view (sn_device s1) = view (sn_device s)"
    using fetch_or_initial_device [OF link(1) fragment stored(1,2) fuel stored(3) _ laws(1)] stored(4) by auto
  obtain nonce d where nonce: "bc_nonce B (sn_device s1) = (nonce, d)" by fastforce
  then have quiet: "view d = view (sn_device s)" "length nonce = LARGE_BLOB_NONCE_LEN"
    using link(2) s1(2) unfolding blob_quiet_def by (metis snd_conv, metis fst_conv)
  obtain entry v x where entry: "(encrypt_entry B key nonce blob :: 'te large_blob_error + bytes) = Inr entry"
      "is_item B entry" "bc_value B entry = Some v" "entry_of_value v = Some x"
      "(try_decrypt B key x :: 'te large_blob_error + bytes option) = Inr (Some blob)"
    using blob_codec_lawE [OF laws(2) quiet(2) blob] by blast
  let ?ser = "serialized_array ?c (?es @ [entry])"
  have rebuild: "rebuild_serialized_array ?c B (map (raw_of B) es) key (Some entry) = ?ser"
    by (simp add: rebuild_serialized_array_eq foreign_entries_def)
  obtain s2 where s2: "upload_serialized_array pf B fuel ?ser max_fragment auth timeout (s1\<lparr>sn_device := d\<rparr>)
      = Some (Inr (), s2)" "bd_array (view (sn_device s2)) = ?ser"
      "bd_max_fragment (view (sn_device s2)) = bd_max_fragment (view (sn_device s))"
    using upload_device [OF link laws(1,3) fragment(1), of "s1\<lparr>sn_device := d\<rparr>" "?es @ [entry]" fuel timeout]
      fragment(2) room [OF entry(1)] fuel quiet(1) by auto
  have written: "write_authenticator_large_blob pf B fuel key blob max_fragment auth timeout s = Some (Inr (), s2)"
    using s1 s2 nonce entry(1) blob
    by (simp add: write_authenticator_large_blob_def act_bind_def act_run act_map_err_def act_try_def
        on_device_def rebuild)
  obtain s3 where s3: "fetch_serialized_array pf B fuel max_fragment timeout s2 = Some (Inr ?ser, s3)"
    using fetch_serialized_array_device [OF link(1) fragment(1), of s2 fuel timeout] s2 fragment(2) fuel
      room [OF entry(1)] by auto
  have n: "length ?es = length vs" using foreign(1) by (metis length_map)
  have parse: "(parse_large_blob_array B (encode_array_header (length (?es @ [entry])) @ concat (?es @ [entry]))
      :: 'te large_blob_error + _) = Inr (List.map_filter entry_of_value vs @ [x])"
    using foreign(2) [OF entry(2,3)] entry(4) n
    by (simp add: parse_large_blob_array_def List.map_filter_def)
  have "fetch_large_blob_entries pf B fuel max_fragment timeout s2
      = Some (Inr (List.map_filter entry_of_value vs @ [x]), s3)"
    using s3 parse by (simp add: fetch_large_blob_entries_def act_bind_def act_run strip_serialized_array sha
        del: length_append concat_append)
  moreover have "(decrypt_first_matching B (List.map_filter entry_of_value vs @ [x]) key
      :: 'te large_blob_error + _) = Inr (Some blob)"
    using entry(5) by (simp add: decrypt_first_matching_append foreign_entries_skipped [OF foreign(1)])
  ultimately show ?thesis using written by blast
qed

text \<open>
  An instance: a device behind a link with a plain encoding of the requests, and entries of sixteen
  bytes.
\<close>

definition blob_wire :: "large_blobs_request \<Rightarrow> bytes" where
  "blob_wire q =
     (case lq_get q of Some n \<Rightarrow> 1 # be_u32 n | None \<Rightarrow> 0 # be_u32 0) @ be_u32 (lq_offset q)
     @ (case lq_length q of Some n \<Rightarrow> 1 # be_u32 n | None \<Rightarrow> 0 # be_u32 0)
     @ (case lq_set q of Some b \<Rightarrow> 1 # b | None \<Rightarrow> [0])"

fun blob_unwire :: "bytes \<Rightarrow> large_blobs_request" where
  "blob_unwire (g # g1 # g2 # g3 # g4 # o1 # o2 # o3 # o4 # l # l1 # l2 # l3 # l4 # st # rest) =
     \<lparr>lq_get = (if g = 1 then Some (u32_of_be g1 g2 g3 g4) else None),
      lq_set = (if st = 1 then Some rest else None), lq_offset = u32_of_be o1 o2 o3 o4,
      lq_length = (if l = 1 then Some (u32_of_be l1 l2 l3 l4) else None),
      lq_pin_uv_auth_param = None, lq_pin_uv_auth_protocol = None\<rparr>"
| "blob_unwire _ = large_blobs_get 0 0"

lemma blob_serve_wire: "blob_serve c (blob_unwire (blob_wire q)) d = blob_serve c q d"
  by (cases "lq_get q"; cases "lq_length q"; cases "lq_set q")
    (simp_all add: blob_wire_def be_u32_def blob_serve_def)

lemma blob_serve_error: "fst (blob_serve c q d) \<noteq> Inl Ctap_Ok"
  by (auto simp: blob_serve_def blob_append_def Let_def split: option.split sum.split if_splits)

type_synonym blob_world = "blob_device \<times> (ctap_error + large_blobs_response)"

definition example_blob_platform :: "(blob_world, unit) platform" where
  "example_blob_platform =
     \<lparr>pf_cbor_send = \<lambda>r t (d, a). (Inr (),
        case blob_serve example_crypto (blob_unwire (cr_encoded_data r)) d of (a', d') \<Rightarrow> (d', a')),
      pf_cbor_recv = \<lambda>t (d, a). (Inr (case a of
          Inl e \<Rightarrow> \<lparr>cs_status_code = e, cs_data = None\<rparr>
        | Inr x \<Rightarrow> \<lparr>cs_status_code = Ctap_Ok, cs_data = x\<rparr>), (d, a)),
      pf_apdu_send = \<lambda>r t d. (Inl (), d), pf_apdu_recv = \<lambda>t d. (Inl (), d),
      pf_pin_reply = \<lambda>u d. (None, d),
      pf_random_secret = \<lambda>d. (replicate 32 1, d), pf_random_iv = \<lambda>d. (replicate 16 2, d),
      pf_random_record_id = \<lambda>d. (''r'', d), pf_crypto = example_crypto,
      pf_encode_client_pin = \<lambda>r. None, pf_decode_client_pin = \<lambda>b. None, pf_decode_get_info = \<lambda>b. None\<rparr>"

definition example_entry_value :: "bytes \<Rightarrow> cbor_value option" where
  "example_entry_value bs =
     (if length bs = 16 \<and> hd bs = 0xA3
      then Some (blob_entry_value (take 3 (tl bs)) (drop 4 bs) [1, 2, 3]) else None)"

definition example_blob_codec :: "blob_world blob_codec" where
  "example_blob_codec =
     \<lparr>bc_gcm_encrypt = \<lambda>k n ad m. Some m, bc_gcm_decrypt = \<lambda>k n ad m. Some m,
      bc_deflate = Some, bc_inflate = \<lambda>z n. Some (take n z),
      bc_item = \<lambda>bs. if 16 \<le> length bs \<and> hd bs = 0xA3 then Some 16 else None,
      bc_value = \<lambda>bs. if bs \<noteq> [] \<and> hd bs = 0x81
        then map_option (\<lambda>v. Cbor_Array [v]) (example_entry_value (tl bs)) else example_entry_value bs,
      bc_encode = \<lambda>v. (case v of
          Cbor_Map [(_, Cbor_Bytes ct), (_, Cbor_Bytes n), _] \<Rightarrow> Some (0xA3 # ct @ n) | _ \<Rightarrow> None),
      bc_encode_request = \<lambda>q. Some (blob_wire q), bc_decode_response = \<lambda>b. Some (Some b),
      bc_nonce = \<lambda>d. (replicate 12 7, d)\<rparr>"

definition example_blob_device :: blob_device where
  "example_blob_device = \<lparr>bd_array = serialized_array example_crypto [], bd_pending = [],
     bd_expected = 0, bd_capacity = 1024, bd_max_fragment = 20\<rparr>"

lemma example_blob_link:
  "blob_link example_blob_platform example_blob_codec fst"
  "blob_quiet example_blob_platform example_blob_codec fst"
proof -
  show "blob_link example_blob_platform example_blob_codec fst"
    unfolding blob_link_def
  proof (intro allI)
    fix q timeout and s :: "blob_world session"
    obtain a d' where ad: "blob_serve example_crypto q (fst (sn_device s)) = (a, d')" by fastforce
    then have "a \<noteq> Inl Ctap_Ok" using blob_serve_error [of example_crypto q "fst (sn_device s)"] by simp
    with ad show "\<exists>d'. large_blobs_exchange example_blob_platform example_blob_codec q timeout s
       = Some (map_err (\<lambda>e. Lbe_Webauthn (We_Ctap e))
             (fst (blob_serve (pf_crypto example_blob_platform) q (fst (sn_device s)))), s\<lparr>sn_device := d'\<rparr>)
     \<and> fst d' = snd (blob_serve (pf_crypto example_blob_platform) q (fst (sn_device s)))"
      by (cases a) (auto simp: large_blobs_exchange_def ctap2_large_blobs_def ctap2_exchange_def act_map_err_def
          act_try_def act_bind_def act_run on_transport_def example_blob_platform_def example_blob_codec_def
          cbor_request_of_def parse_or_default_def parse_cbor_def blob_serve_wire split: prod.split option.split)
  qed
  show "blob_quiet example_blob_platform example_blob_codec fst"
    by (simp add: blob_quiet_def example_blob_platform_def example_blob_codec_def LARGE_BLOB_NONCE_LEN_def)
qed

lemma example_blob_codec_law: "blob_codec_law example_blob_codec key [1, 2, 3]"
  by (auto simp: blob_codec_law_def example_blob_codec_def example_entry_value_def blob_entry_value_def
      is_item_def LARGE_BLOB_NONCE_LEN_def)

lemma large_blob_write_then_read_witness:
  "\<exists>s' s'' x. write_authenticator_large_blob example_blob_platform example_blob_codec 5000000 (replicate 32 9)
      [1, 2, 3] 20 (Some (replicate 32 8, Protocol_Two)) 1000 (example_session (example_blob_device, Inr None))
      = Some (Inr (), s')
    \<and> fetch_large_blob_entries example_blob_platform example_blob_codec 5000000 20 1000 s'
        = Some (Inr (List.map_filter entry_of_value [] @ [x]), s'')
    \<and> (decrypt_first_matching example_blob_codec (List.map_filter entry_of_value [] @ [x]) (replicate 32 9)
        :: unit large_blob_error + _) = Inr (Some [1, 2, 3])"
proof (rule large_blob_write_then_read [OF example_blob_link _ example_blob_codec_law])
  let ?B = example_blob_codec
  show "digest_law (pf_crypto example_blob_platform)"
    by (simp add: example_blob_platform_def example_crypto_laws)
  show "usable_token (Some (replicate 32 8, Protocol_Two))" by (simp add: usable_token_def)
  show "unat (20 :: u32) \<le> bd_max_fragment (fst (sn_device (example_session (example_blob_device, Inr None))))"
    by (simp add: example_session_def example_blob_device_def)
  show "bd_array (fst (sn_device (example_session (example_blob_device, Inr None))))
      = serialized_array (pf_crypto example_blob_platform) []"
    by (simp add: example_session_def example_blob_device_def example_blob_platform_def)
  show "length (serialized_array (pf_crypto example_blob_platform) []) \<le> LARGE_BLOB_MAX_ARRAY_BYTES"
    by (simp add: serialized_array_def Let_def encode_array_header_def array_trailer_def example_blob_platform_def
        example_crypto_def LARGE_BLOB_MAX_ARRAY_BYTES_def LARGE_BLOB_HASH_LEN_def)
  show "map (bc_value ?B) (foreign_entries ?B (replicate 32 9) []) = map Some []"
    by (simp add: foreign_entries_def)
  show "bc_value ?B (encode_array_header (Suc (length ([] :: cbor_value list)))
      @ concat (foreign_entries ?B (replicate 32 9) []) @ entry) = Some (Cbor_Array ([] @ [v]))"
    if "is_item ?B entry" "bc_value ?B entry = Some v" for entry v
    using that
    by (auto simp: is_item_def example_blob_codec_def foreign_entries_def encode_array_header_def
        example_entry_value_def split: if_splits)
  show "length (serialized_array (pf_crypto example_blob_platform) (foreign_entries ?B (replicate 32 9) [] @ [entry]))
      \<le> min (bd_capacity (fst (sn_device (example_session (example_blob_device, Inr None))))) LARGE_BLOB_MAX_ARRAY_BYTES"
    if "(encrypt_entry ?B (replicate 32 9) nonce [1, 2, 3] :: unit large_blob_error + bytes) = Inr entry"
    for nonce entry
    using that
    by (auto simp: encrypt_entry_def example_blob_codec_def foreign_entries_def serialized_array_def Let_def
        encode_array_header_def array_trailer_def example_blob_platform_def example_crypto_def
        example_session_def example_blob_device_def LARGE_BLOB_MAX_ARRAY_BYTES_def LARGE_BLOB_HASH_LEN_def
        LARGE_BLOB_NONCE_LEN_def split: if_splits)
qed (simp_all add: LARGE_BLOB_MAX_ORIG_SIZE_def LARGE_BLOB_MAX_ARRAY_BYTES_def word_less_nat_alt)

section \<open>Deleting\<close>

text \<open>
  Deleting the blob of a credential: without an entry of the credential the result is
  \<open>Lbe_NoMatch\<close> and the device is not written to, not a silent success; otherwise the committed
  array is that of the other entries, unchanged and in their order.
\<close>

theorem large_blob_delete:
  fixes pf :: "('d, 'te) platform"
  assumes link: "blob_link pf B view" "blob_quiet pf B view"
    and laws: "digest_law (pf_crypto pf)" "usable_token auth"
    and fragment: "0 < max_fragment" "unat max_fragment \<le> bd_max_fragment (view (sn_device s))"
    and stored: "bd_array (view (sn_device s)) = serialized_array (pf_crypto pf) es"
      "length (serialized_array (pf_crypto pf) es) \<le> LARGE_BLOB_MAX_ARRAY_BYTES"
      "list_all (is_item B) es" "length es < 2 ^ 32"
    and room: "length (serialized_array (pf_crypto pf) (foreign_entries B key es))
        \<le> min (bd_capacity (view (sn_device s))) LARGE_BLOB_MAX_ARRAY_BYTES"
    and fuel: "LARGE_BLOB_MAX_ARRAY_BYTES < fuel"
  shows "\<exists>s'. delete_authenticator_large_blob pf B fuel key max_fragment auth timeout s
      = Some (if foreign_entries B key es = es then Inl Lbe_NoMatch else Inr (), s')
    \<and> bd_array (view (sn_device s')) = serialized_array (pf_crypto pf) (foreign_entries B key es)"
proof -
  obtain s1 where s1: "fetch_or_initial pf B fuel max_fragment timeout s = Some (Inr (map (raw_of B) es), s1)"
      "view (sn_device s1) = view (sn_device s)"
    using fetch_or_initial_device [OF link(1) fragment stored(1,2) fuel stored(3,4) laws(1)] by blast
  have owned: "list_ex (owned_by B key) (map (raw_of B) es) \<longleftrightarrow> foreign_entries B key es \<noteq> es"
    unfolding foreign_entries_def filter_id_conv by (auto simp: list_ex_iff)
  have rebuild: "rebuild_serialized_array (pf_crypto pf) B (map (raw_of B) es) key None
      = serialized_array (pf_crypto pf) (foreign_entries B key es)"
    by (simp add: rebuild_serialized_array_eq foreign_entries_def)
  obtain s2 where "upload_serialized_array pf B fuel (serialized_array (pf_crypto pf) (foreign_entries B key es))
      max_fragment auth timeout s1 = Some (Inr (), s2)"
      "bd_array (view (sn_device s2)) = serialized_array (pf_crypto pf) (foreign_entries B key es)"
    using upload_device [OF link laws fragment(1), of s1 "foreign_entries B key es" fuel timeout]
      fragment(2) room fuel s1(2) by auto
  then show ?thesis
    using s1 stored(1) by (simp add: delete_authenticator_large_blob_def act_bind_def act_run owned rebuild)
qed

lemma large_blob_delete_witness:
  "\<exists>s'. delete_authenticator_large_blob example_blob_platform example_blob_codec 5000000 (replicate 32 9) 20
      (Some (replicate 32 8, Protocol_Two)) 1000
      (example_session (example_blob_device\<lparr>bd_array := serialized_array example_crypto [0xA3 # replicate 15 7]\<rparr>,
        Inr None))
      = Some (if foreign_entries example_blob_codec (replicate 32 9) [0xA3 # replicate 15 7] = [0xA3 # replicate 15 7]
        then Inl Lbe_NoMatch else Inr (), s')
    \<and> bd_array (fst (sn_device s')) = serialized_array (pf_crypto example_blob_platform)
        (foreign_entries example_blob_codec (replicate 32 9) [0xA3 # replicate 15 7])"
  (is "\<exists>s'. delete_authenticator_large_blob _ _ _ _ _ _ _ ?s = _ \<and> _")
proof (rule large_blob_delete [OF example_blob_link])
  let ?B = example_blob_codec and ?es = "[0xA3 # replicate 15 (7 :: u8)]"
  show "digest_law (pf_crypto example_blob_platform)"
    by (simp add: example_blob_platform_def example_crypto_laws)
  show "usable_token (Some (replicate 32 8, Protocol_Two))" by (simp add: usable_token_def)
  show "unat (20 :: u32) \<le> bd_max_fragment (fst (sn_device ?s))"
    by (simp add: example_session_def example_blob_device_def)
  show "bd_array (fst (sn_device ?s)) = serialized_array (pf_crypto example_blob_platform) ?es"
    by (simp add: example_session_def example_blob_platform_def)
  show "length (serialized_array (pf_crypto example_blob_platform) ?es) \<le> LARGE_BLOB_MAX_ARRAY_BYTES"
    by (simp add: serialized_array_def Let_def encode_array_header_def array_trailer_def example_blob_platform_def
        example_crypto_def LARGE_BLOB_MAX_ARRAY_BYTES_def LARGE_BLOB_HASH_LEN_def)
  show "list_all (is_item ?B) ?es" by (simp add: is_item_def example_blob_codec_def)
  show "length (serialized_array (pf_crypto example_blob_platform) (foreign_entries ?B (replicate 32 9) ?es))
      \<le> min (bd_capacity (fst (sn_device ?s))) LARGE_BLOB_MAX_ARRAY_BYTES"
    by (simp add: foreign_entries_def serialized_array_def Let_def encode_array_header_def array_trailer_def
        example_blob_platform_def example_crypto_def example_session_def example_blob_device_def
        LARGE_BLOB_MAX_ARRAY_BYTES_def LARGE_BLOB_HASH_LEN_def)
qed (simp_all add: LARGE_BLOB_MAX_ARRAY_BYTES_def word_less_nat_alt)

section \<open>A device that does not keep the contract\<close>

lemma fetch_loop_bound:
  "length out \<le> LARGE_BLOB_MAX_ARRAY_BYTES \<Longrightarrow>
    fetch_loop pf B fuel max_fragment timeout offset out s = Some (Inr res, s') \<Longrightarrow>
    length res < LARGE_BLOB_MAX_ARRAY_BYTES + unat max_fragment"
proof (induction fuel arbitrary: offset out s)
  case 0
  then show ?case by simp
next
  case (Suc fuel)
  obtain config s1 where run: "(let chunk = (case config of None \<Rightarrow> [] | Some b \<Rightarrow> b); out' = out @ chunk
     in if length chunk < unat max_fragment then act_return out'
        else if length out' > LARGE_BLOB_MAX_ARRAY_BYTES then act_fail Lbe_Corrupted
        else case checked_add_u32 offset (of_nat (length chunk)) of
          None \<Rightarrow> act_fail Lbe_Corrupted
        | Some offset' \<Rightarrow> fetch_loop pf B fuel max_fragment timeout offset' out') s1 = Some (Inr res, s')"
    using Suc.prems(2) unfolding fetch_loop.simps by (rule act_bind_InrE)
  define chunk where "chunk = (case config of None \<Rightarrow> [] | Some b \<Rightarrow> b)"
  show ?case
  proof (cases "length chunk < unat max_fragment")
    case True
    then have "res = out @ chunk" using run by (simp add: Let_def act_run flip: chunk_def)
    then show ?thesis using True Suc.prems(1) by simp
  next
    case False
    then obtain offset' where "length (out @ chunk) \<le> LARGE_BLOB_MAX_ARRAY_BYTES"
        "fetch_loop pf B fuel max_fragment timeout offset' (out @ chunk) s1 = Some (Inr res, s')"
      using run by (auto simp: Let_def act_run simp flip: chunk_def split: if_splits option.splits)
    then show ?thesis by (rule Suc.IH)
  qed
qed

text \<open>
  Fetching the array ends, whatever the device answers, within a number of turns that the cap
  on the array fixes, and what it returns stays below the cap by less than one fragment.
\<close>

theorem large_blob_fetch_bounded:
  "\<exists>r s'. fetch_serialized_array pf B (LARGE_BLOB_MAX_ARRAY_BYTES + 2) (max_fragment_length msg_size) timeout s
      = Some (r, s')
    \<and> (case r of Inl _ \<Rightarrow> True
       | Inr array \<Rightarrow> length array < LARGE_BLOB_MAX_ARRAY_BYTES + unat (max_fragment_length msg_size))"
proof -
  let ?n = "max_fragment_length msg_size" and ?fuel = "LARGE_BLOB_MAX_ARRAY_BYTES + 2"
  have "1 \<le> ?n" by (simp add: max_fragment_length_def LARGE_BLOB_DEFAULT_FRAGMENT_def split: option.split)
  then have "0 < ?n" by (simp add: word_le_nat_alt word_less_nat_alt)
  then have "returns (fetch_loop pf B ?fuel ?n timeout 0 [])" by (intro returns_fetch_loop) simp_all
  then obtain r s' where run: "fetch_loop pf B ?fuel ?n timeout 0 [] s = Some (r, s')"
    unfolding returns_def by (metis not_None_eq surj_pair)
  then have "case r of Inl _ \<Rightarrow> True | Inr array \<Rightarrow> length array < LARGE_BLOB_MAX_ARRAY_BYTES + unat ?n"
    using fetch_loop_bound [of "[]" pf B ?fuel ?n timeout 0 s] by (auto split: sum.split)
  with run show ?thesis by (auto simp: fetch_serialized_array_def)
qed

end
