(* ===== verification/Credential_Request.thy ===== *)
theory Credential_Request
  imports Assertion_Response
begin

text \<open>
  Registration: the request of the relying party (\<^verbatim>\<open>ops/webauthn/make_credential.rs\<close>), its
  translation to CTAP2 and the response (\<^verbatim>\<open>proto/ctap2/model/make_credential.rs\<close>), and the U2F
  downgrade and upgrade (\<^verbatim>\<open>ops/u2f.rs\<close>).
\<close>

section \<open>The request of the relying party\<close>

datatype resident_key_requirement = Rk_Required | Rk_Preferred | Rk_Discouraged

datatype cred_protect_policy = Cpp_UserVerificationOptional
  | Cpp_UserVerificationOptionalWithCredentialIDList | Cpp_UserVerificationRequired

datatype large_blob_support = Lbs_Preferred | Lbs_Required | Lbs_None

record cred_protect_extension =
  cpe_policy :: cred_protect_policy
  cpe_enforce_policy :: bool

text \<open>\<open>me_prf\<close> is the \<^verbatim>\<open>eval\<close> of the PRF input, if there is one.\<close>

record mc_extensions =
  me_cred_props :: "bool option"
  me_cred_protect :: "cred_protect_extension option"
  me_cred_blob :: "bytes option"
  me_large_blob :: "large_blob_support option"
  me_min_pin_length :: "bool option"
  me_hmac_create_secret :: "bool option"
  me_prf :: "prf_input_value option option"
  me_appid_exclude :: "string option"

record mc_request =
  mr_challenge :: bytes
  mr_origin :: string
  mr_top_origin :: "string option"
  mr_relying_party :: rp_entity
  mr_user :: user_entity
  mr_resident_key :: "resident_key_requirement option"
  mr_user_verification :: uv_requirement
  mr_algorithms :: "credential_type list"
  mr_exclude :: "credential_descriptor list option"
  mr_hints :: "credential_hint list"
  mr_authenticator_attachment :: "authenticator_attachment option"
  mr_extensions :: "mc_extensions option"
  mr_attestation :: "string option"
  mr_timeout :: nat

definition mc_client_data :: "mc_request \<Rightarrow> client_data" where
  "mc_client_data r = \<lparr>cl_operation = Op_MakeCredential, cl_challenge = mr_challenge r,
     cl_origin = mr_origin r, cl_top_origin = mr_top_origin r\<rparr>"

definition mc_client_data_hash :: "crypto \<Rightarrow> text_codec \<Rightarrow> mc_request \<Rightarrow> bytes" where
  "mc_client_data_hash c tc r = client_data_hash c tc (mc_client_data r)"

definition mc_preferred_transports :: "mc_request \<Rightarrow> ctap2_transport list" where
  "mc_preferred_transports r =
     merge_transport_preference (mr_hints r) (mr_authenticator_attachment r) []"

definition ES256 :: int where "ES256 = -7"

definition mc_is_downgradable :: "mc_request \<Rightarrow> bool" where
  "mc_is_downgradable r =
     (if \<not> list_ex (\<lambda>a. ct_algorithm a = ES256) (mr_algorithms r) then False
      else if mr_resident_key r = Some Rk_Required then False
      else if mr_user_verification r = Uv_Required then False
      else if (case Option.bind (mr_extensions r) me_cred_protect of
                 None \<Rightarrow> False
               | Some p \<Rightarrow> cpe_enforce_policy p \<and> cpe_policy p \<noteq> Cpp_UserVerificationOptional) then False
      else if Option.bind (mr_extensions r) me_large_blob = Some Lbs_Required then False
      else True)"

fun all_ok :: "('a \<Rightarrow> 'e + 'b) \<Rightarrow> 'a list \<Rightarrow> 'e + 'b list" where
  "all_ok f [] = Inr []"
| "all_ok f (x # xs) = result_bind (f x) (\<lambda>y. result_map (\<lambda>ys. y # ys) (all_ok f xs))"

definition u2f_transports :: "ctap2_transport list option \<Rightarrow> ctap1_transport list option" where
  "u2f_transports ts =
     Option.bind ts (\<lambda>ts. case all_ok ctap1_transport_of_ctap2 ts of Inl _ \<Rightarrow> None | Inr us \<Rightarrow> Some us)"

definition mc_try_downgrade :: "crypto \<Rightarrow> text_codec \<Rightarrow> mc_request \<Rightarrow> ctap_error + ctap1_register_request" where
  "mc_try_downgrade c tc r =
     Inr \<lparr>rr_version = U2fV2, rr_app_id_hash = c_sha256 c (string_bytes (rp_id (mr_relying_party r))),
       rr_challenge = mc_client_data_hash c tc r,
       rr_registered_keys = map (\<lambda>d. \<lparr>rk_version = U2fV2, rk_key_handle = cd_id d,
           rk_transports = u2f_transports (cd_transports d), rk_app_id = Some (rp_id (mr_relying_party r))\<rparr>)
         (case mr_exclude r of None \<Rightarrow> [] | Some ds \<Rightarrow> ds),
       rr_timeout = mr_timeout r, rr_require_user_presence = True\<rparr>"

section \<open>The CTAP2 request\<close>

record mc_options =
  mo_require_resident_key :: "bool option"
  mo_deprecated_require_user_verification :: "bool option"

record ctap2_mc_extensions =
  xm_prf :: "hmac_get_secret_input option option"
  xm_cred_blob :: "bytes option"
  xm_cred_protect :: "cred_protect_policy option"
  xm_hmac_secret :: "bool option"
  xm_large_blob_key :: "bool option"
  xm_min_pin_length :: "bool option"
  xm_hmac_secret_mc :: "calculated_hmac_input option"
  xm_prf_input :: "prf_input_value option"

record ctap2_mc_request =
  qm_hash :: bytes
  qm_relying_party :: rp_entity
  qm_user :: user_entity
  qm_algorithms :: "credential_type list"
  qm_exclude :: "credential_descriptor list option"
  qm_extensions :: "ctap2_mc_extensions option"
  qm_options :: "mc_options option"
  qm_pin_auth_param :: "bytes option"
  qm_pin_auth_proto :: "u32 option"
  qm_enterprise_attestation :: "u32 option"

definition credential_type_default :: credential_type where
  "credential_type_default = \<lparr>ct_algorithm = ES256, ct_public_key = True\<rparr>"

definition mc_request_dummy :: ctap2_mc_request where
  "mc_request_dummy =
     \<lparr>qm_hash = replicate 32 0, qm_relying_party = rp_entity_dummy, qm_user = user_entity_dummy,
      qm_algorithms = [credential_type_default], qm_exclude = None, qm_extensions = None,
      qm_options = None, qm_pin_auth_param = Some [], qm_pin_auth_proto = Some (proto_number Protocol_One),
      qm_enterprise_attestation = None\<rparr>"

definition mc_large_blob_key :: "large_blob_support option \<Rightarrow> get_info_response
    \<Rightarrow> 'te webauthn_error + bool option" where
  "mc_large_blob_key support info =
     (case support of
        Some Lbs_Required \<Rightarrow>
          if \<not> option_enabled info ''largeBlobs'' then Inl (We_Ctap Ctap_UnsupportedExtension)
          else Inr (Some True)
      | Some Lbs_Preferred \<Rightarrow> Inr (if option_enabled info ''largeBlobs'' then Some True else None)
      | _ \<Rightarrow> Inr None)"

definition mc_extensions_from :: "crypto \<Rightarrow> mc_extensions \<Rightarrow> get_info_response
    \<Rightarrow> 'te webauthn_error + ctap2_mc_extensions" where
  "mc_extensions_from c e info =
     (if (case me_cred_protect e of
            None \<Rightarrow> False
          | Some p \<Rightarrow> cpe_enforce_policy p \<and> cpe_policy p \<noteq> Cpp_UserVerificationOptional
              \<and> \<not> supports_extension info ''credProtect'')
      then Inl (We_Ctap Ctap_UnsupportedExtension)
      else
        result_bind (mc_large_blob_key (me_large_blob e) info) (\<lambda>large_blob_key.
        let native_prf = (me_prf e \<noteq> None \<and> supports_extension info ''prf'');
            prf_input = (if \<not> native_prf \<and> supports_extension info ''hmac-secret-mc''
                            \<and> supports_extension info ''hmac-secret''
                         then Option.bind (me_prf e) (\<lambda>eval. eval) else None)
        in Inr \<lparr>xm_prf = (if native_prf
                   then map_option (map_option (to_hmac_secret_input c)) (me_prf e) else None),
             xm_cred_blob = me_cred_blob e,
             xm_cred_protect = map_option cpe_policy (me_cred_protect e),
             xm_hmac_secret = (if me_hmac_create_secret e = Some True \<or> (me_prf e \<noteq> None \<and> \<not> native_prf)
                               then Some True else None),
             xm_large_blob_key = large_blob_key, xm_min_pin_length = me_min_pin_length e,
             xm_hmac_secret_mc = None, xm_prf_input = prf_input\<rparr>))"

fun mc_resident_key :: "resident_key_requirement option \<Rightarrow> get_info_response \<Rightarrow> bool option" where
  "mc_resident_key (Some Rk_Discouraged) info = Some False"
| "mc_resident_key (Some Rk_Preferred) info = (if option_enabled info ''rk'' then Some True else None)"
| "mc_resident_key (Some Rk_Required) info = Some True"
| "mc_resident_key None info = None"

definition mc_from_webauthn_request :: "crypto \<Rightarrow> text_codec \<Rightarrow> mc_request \<Rightarrow> get_info_response
    \<Rightarrow> 'te webauthn_error + ctap2_mc_request" where
  "mc_from_webauthn_request c tc r info =
     result_bind
       (case mr_extensions r of
          None \<Rightarrow> Inr None
        | Some e \<Rightarrow> result_map Some (mc_extensions_from c e info)) (\<lambda>extensions.
     Inr \<lparr>qm_hash = mc_client_data_hash c tc r, qm_relying_party = mr_relying_party r,
       qm_user = mr_user r, qm_algorithms = mr_algorithms r, qm_exclude = mr_exclude r,
       qm_extensions = extensions,
       qm_options = Some \<lparr>mo_require_resident_key = mc_resident_key (mr_resident_key r) info,
         mo_deprecated_require_user_verification = None\<rparr>,
       qm_pin_auth_param = None, qm_pin_auth_proto = None, qm_enterprise_attestation = None\<rparr>)"

definition calculate_hmac_secret_mc :: "('d, 'te) platform \<Rightarrow> auth_token_data \<Rightarrow> ctap2_mc_extensions
    \<Rightarrow> ('d, 'te, ctap2_mc_extensions) ceremony" where
  "calculate_hmac_secret_mc pf d e =
     (case xm_prf_input e of
        None \<Rightarrow> act_return e
      | Some p \<Rightarrow>
          let e' = e\<lparr>xm_prf_input := None\<rparr>
          in act_bind (calculate_hmac_input pf d (to_hmac_secret_input (pf_crypto pf) p)) (\<lambda>calculated.
             act_return (case calculated of
                 None \<Rightarrow> e' | Some h \<Rightarrow> e'\<lparr>xm_hmac_secret_mc := Some h\<rparr>)))"

section \<open>The methods of a verifiable request\<close>

definition mc_ensure_uv_set :: "ctap2_mc_request \<Rightarrow> ctap2_mc_request" where
  "mc_ensure_uv_set q =
     q\<lparr>qm_options := Some (case qm_options q of
         None \<Rightarrow> \<lparr>mo_require_resident_key = None, mo_deprecated_require_user_verification = Some True\<rparr>
       | Some o1 \<Rightarrow> o1\<lparr>mo_deprecated_require_user_verification := Some True\<rparr>)\<rparr>"

definition mc_set_uv_auth :: "crypto \<Rightarrow> pin_uv_auth_protocol \<Rightarrow> bytes \<Rightarrow> ctap2_mc_request
    \<Rightarrow> platform_error + ctap2_mc_request" where
  "mc_set_uv_auth c version token q =
     result_bind (pin_authenticate c version token (qm_hash q)) (\<lambda>uv_auth_param.
     Inr (q\<lparr>qm_pin_auth_proto := Some (proto_number version), qm_pin_auth_param := Some uv_auth_param,
       qm_options := map_option (\<lambda>o1. o1\<lparr>mo_deprecated_require_user_verification := None\<rparr>) (qm_options q)\<rparr>))"

definition mc_permissions :: "ctap2_mc_request \<Rightarrow> permission_role" where
  "mc_permissions q = role_union MAKE_CREDENTIAL GET_ASSERTION"

definition mc_needs_shared_secret :: "ctap2_mc_request \<Rightarrow> get_info_response \<Rightarrow> bool" where
  "mc_needs_shared_secret q info \<longleftrightarrow>
     (supports_extension info ''hmac-secret-mc'' \<and> supports_extension info ''hmac-secret'')
     \<and> (case qm_extensions q of None \<Rightarrow> False | Some e \<Rightarrow> xm_prf_input e \<noteq> None)"

definition mc_uv_request :: "ctap2_mc_request uv_request" where
  "mc_uv_request =
     \<lparr>uq_ensure_uv_set = mc_ensure_uv_set, uq_calculate_and_set_uv_auth = mc_set_uv_auth,
      uq_permissions = mc_permissions, uq_permissions_rpid = (\<lambda>q. Some (rp_id (qm_relying_party q))),
      uq_can_use_uv = (\<lambda>q info. True), uq_handle_legacy_preview = (\<lambda>info q. q),
      uq_needs_shared_secret = mc_needs_shared_secret,
      uq_set_persistent_token_use = (\<lambda>info available q. q), uq_wants_persistent_token = (\<lambda>q. False),
      uq_note_persistent_token_rejected = (\<lambda>q. q), uq_persistent_token_rejected = (\<lambda>q. False),
      uq_needs_pin_uv_auth_token = (\<lambda>q info. False)\<rparr>"

end
