(* ===== verification/Credential_Response.thy ===== *)
theory Credential_Response
  imports Credential_Request
begin

text \<open>
  The CTAP2 registration response and its translation for the relying party
  (\<^verbatim>\<open>proto/ctap2/model/make_credential.rs\<close>, \<^verbatim>\<open>ops/webauthn/make_credential.rs\<close>), and the
  upgrade of a U2F registration (\<^verbatim>\<open>ops/u2f.rs\<close>).
\<close>

section \<open>Responses\<close>

text \<open>A statement of U2F is its signature and certificates, one of Apple its certificates.\<close>

record packed_attestation_stmt =
  pk_algorithm :: int
  pk_signature :: bytes
  pk_certificates :: "bytes list"

record tpm_attestation_stmt =
  tp_version :: string
  tp_algorithm :: int
  tp_signature :: bytes
  tp_certificates :: "bytes list"
  tp_certificate_info :: bytes
  tp_public_area :: bytes

datatype attestation_statement = Ast_PackedOrAndroid packed_attestation_stmt | Ast_Tpm tpm_attestation_stmt
  | Ast_FidoU2F bytes "bytes list" | Ast_AppleAnonymous "bytes list" | Ast_None "(cbor_value \<times> cbor_value) list"

record ctap2_mc_response_extensions =
  sm_cred_blob :: "bool option"
  sm_cred_protect :: "cred_protect_policy option"
  sm_hmac_secret :: "bool option"
  sm_hmac_secret_mc :: "bytes option"
  sm_min_pin_length :: "u32 option"

record ctap2_mc_response =
  am_format :: string
  am_authenticator_data :: "ctap2_mc_response_extensions authenticator_data"
  am_attestation_statement :: attestation_statement
  am_enterprise_attestation :: "bool option"
  am_large_blob_key :: "bytes option"
  am_unsigned_extension_outputs :: "(cbor_value \<times> cbor_value) list option"

record mc_prf_output =
  mp_enabled :: "bool option"
  mp_results :: "prf_output_value option"

text \<open>
  \<open>um_cred_props\<close> is the \<^verbatim>\<open>rk\<close> of the credProps output, \<open>um_large_blob\<close> the \<^verbatim>\<open>supported\<close> of
  the large blob output.
\<close>

record mc_unsigned_extensions =
  um_appid_exclude :: "bool option"
  um_cred_props :: "bool option option"
  um_hmac_create_secret :: "bool option"
  um_large_blob :: "bool option option"
  um_prf :: "mc_prf_output option"

record mc_response =
  ar_format :: string
  ar_authenticator_data :: "ctap2_mc_response_extensions authenticator_data"
  ar_attestation_statement :: attestation_statement
  ar_enterprise_attestation :: "bool option"
  ar_large_blob_key :: "bytes option"
  ar_unsigned_extensions_output :: mc_unsigned_extensions
  ar_transport :: "transport option"
  ar_authenticator_transports :: "string list option"

section \<open>Unsigned outputs\<close>

definition mc_prf_output_of :: "crypto \<Rightarrow> ctap2_mc_response_extensions option
    \<Rightarrow> unsigned_prf_output option \<Rightarrow> auth_token_data option \<Rightarrow> mc_prf_output" where
  "mc_prf_output_of c signed_ext unsigned_out auth_data =
     (let decrypted = Option.bind (Option.bind signed_ext sm_hmac_secret_mc) (\<lambda>out.
            Option.bind auth_data (\<lambda>d.
            decrypt_hmac_output c (atd_shared_secret d) (atd_protocol_version d) out));
          u = (case unsigned_out of None \<Rightarrow> unsigned_prf_default | Some u \<Rightarrow> u)
      in \<lparr>mp_enabled = (case Option.bind signed_ext sm_hmac_secret of
             Some b \<Rightarrow> Some b | None \<Rightarrow> up_enabled u),
          mp_results = (case decrypted of
             Some d \<Rightarrow> Some \<lparr>po_first = ho_output1 d, po_second = ho_output2 d\<rparr>
           | None \<Rightarrow> up_results u)\<rparr>)"

definition mc_cred_props :: "mc_request \<Rightarrow> get_info_response option \<Rightarrow> bool option option" where
  "mc_cred_props r info =
     (case Option.bind (mr_extensions r) me_cred_props of
        Some True \<Rightarrow>
          (case info of
             Some i \<Rightarrow>
               if supports_fido_2_1 i then
                 (case mr_resident_key r of
                    Some Rk_Preferred \<Rightarrow> Some (Some (option_enabled i ''rk''))
                  | Some Rk_Required \<Rightarrow> Some (Some True)
                  | _ \<Rightarrow> Some (Some False))
               else Some None
           | None \<Rightarrow> Some None)
      | _ \<Rightarrow> None)"

definition mc_large_blob_output :: "mc_request \<Rightarrow> get_info_response option \<Rightarrow> bool option option" where
  "mc_large_blob_output r info =
     (case Option.bind (mr_extensions r) me_large_blob of
        None \<Rightarrow> None
      | Some Lbs_None \<Rightarrow> None
      | Some _ \<Rightarrow>
          (case info of
             None \<Rightarrow> None
           | Some i \<Rightarrow> if option_enabled i ''largeBlobs'' then Some (Some True) else None))"

definition mc_unsigned_from_signed :: "crypto \<Rightarrow> ctap2_mc_response_extensions option
    \<Rightarrow> (cbor_value \<times> cbor_value) list option \<Rightarrow> mc_request \<Rightarrow> get_info_response option
    \<Rightarrow> auth_token_data option \<Rightarrow> mc_unsigned_extensions" where
  "mc_unsigned_from_signed c signed_ext unsigned_outputs r info auth_data =
     (let unsigned_prf = Option.bind unsigned_outputs parse_unsigned_prf;
          e = mr_extensions r
      in \<lparr>um_appid_exclude =
            (if Option.bind e me_appid_exclude \<noteq> None
                \<and> (case mr_exclude r of None \<Rightarrow> False | Some ds \<Rightarrow> ds \<noteq> [])
             then Some True else None),
          um_cred_props = mc_cred_props r info,
          um_hmac_create_secret =
            (if Option.bind e me_hmac_create_secret \<noteq> None
             then Option.bind signed_ext sm_hmac_secret else None),
          um_large_blob = mc_large_blob_output r info,
          um_prf = (if Option.bind e me_prf \<noteq> None \<and> (signed_ext \<noteq> None \<or> unsigned_prf \<noteq> None)
            then Some (mc_prf_output_of c signed_ext unsigned_prf auth_data) else None)\<rparr>)"

definition into_make_credential_output :: "crypto \<Rightarrow> ctap2_mc_response \<Rightarrow> mc_request
    \<Rightarrow> get_info_response option \<Rightarrow> auth_token_data option \<Rightarrow> mc_response" where
  "into_make_credential_output c resp r info auth_data =
     \<lparr>ar_format = am_format resp, ar_authenticator_data = am_authenticator_data resp,
      ar_attestation_statement = am_attestation_statement resp,
      ar_enterprise_attestation = am_enterprise_attestation resp,
      ar_large_blob_key = am_large_blob_key resp,
      ar_unsigned_extensions_output = mc_unsigned_from_signed c
        (ad_extensions (am_authenticator_data resp)) (am_unsigned_extension_outputs resp) r info auth_data,
      ar_transport = None, ar_authenticator_transports = Option.bind info gi_transports\<rparr>"

section \<open>The upgrade of a U2F registration\<close>

text \<open>
  \<open>sec1_point\<close> stands for \<^verbatim>\<open>p256::EncodedPoint::from_bytes\<close>: the coordinates it finds, \<open>None\<close>
  inside when the point is the identity or compressed; \<open>cose_key_bytes\<close> encodes the COSE key.
\<close>

definition u2f_register_upgrade :: "crypto \<Rightarrow> (bytes \<Rightarrow> (bytes option \<times> bytes option) option)
    \<Rightarrow> (bytes \<Rightarrow> bytes \<Rightarrow> bytes option) \<Rightarrow> ctap1_register_response \<Rightarrow> mc_request
    \<Rightarrow> 'te webauthn_error + mc_response" where
  "u2f_register_upgrade c sec1_point cose_key_bytes resp r =
     result_bind (ok_or (We_Ctap Ctap_Other) (sec1_point (rs_public_key resp))) (\<lambda>(x, y).
     result_bind (ok_or (We_Platform Pe_CryptoError) x) (\<lambda>x.
     result_bind (ok_or (We_Platform Pe_CryptoError) y) (\<lambda>y.
     if length x > 32 \<or> length y > 32 then Inl (We_Platform Pe_CryptoError)
     else
       result_bind (ok_or (We_Platform Pe_CborError) (cose_key_bytes x y)) (\<lambda>key.
       if length key \<noteq> 77 then Inl (We_Platform Pe_CryptoError)
       else
         let data = \<lparr>ad_rp_id_hash = c_sha256 c (string_bytes (rp_id (mr_relying_party r))),
               ad_flags = USER_PRESENT OR ATTESTED_CREDENTIALS, ad_signature_count = 0,
               ad_attested_credential = Some \<lparr>ac_aaguid = replicate 16 0,
                 ac_credential_id = rs_key_handle resp, ac_credential_public_key = key\<rparr>,
               ad_extensions = None, ad_raw = None\<rparr>;
             response = \<lparr>am_format = ''fido-u2f'', am_authenticator_data = data,
               am_attestation_statement = Ast_FidoU2F (rs_signature resp) [rs_attestation resp],
               am_enterprise_attestation = None, am_large_blob_key = None,
               am_unsigned_extension_outputs = None\<rparr>
         in Inr (into_make_credential_output c response r None None)))))"

end
