(* ===== verification/Ceremonies.thy ===== *)
theory Ceremonies
  imports Credential_Response Large_Blob Ctap1_Protocol
begin

text \<open>
  The WebAuthn ceremonies, \<^verbatim>\<open>webauthn.rs\<close>, with the pre-flight of \<^verbatim>\<open>proto/ctap2/preflight.rs\<close> and
  the U2F operations of \<^verbatim>\<open>u2f.rs\<close>: negotiating the protocol, preparing and limiting the request,
  the loop around user verification, the request and its errors, and the further assertions.
\<close>

section \<open>Parameters\<close>

text \<open>
  The codecs that \<^verbatim>\<open>serde\<close> derives for the messages of the ceremonies, the methods of the channel
  they use, and the conversions of the U2F upgrade.  \<open>cc_supported\<close> is the pair of \<^verbatim>\<open>fido2\<close> and
  \<^verbatim>\<open>u2f\<close> of \<^verbatim>\<open>supported_protocols\<close>.
\<close>

record ('d, 'te) ceremony_env =
  ce_text :: text_codec
  ce_blob :: "'d blob_codec"
  ce_encode_mc :: "ctap2_mc_request \<Rightarrow> bytes option"
  ce_decode_mc :: "bytes \<Rightarrow> ctap2_mc_response option"
  ce_encode_ga :: "ctap2_ga_request \<Rightarrow> bytes option"
  ce_decode_ga :: "bytes \<Rightarrow> ctap2_ga_response option"
  ce_supported :: "'d \<Rightarrow> ('te webauthn_error + bool \<times> bool) \<times> 'd"
  ce_supports_preflight :: bool
  ce_transport :: transport
  ce_x509_rest :: "bytes \<Rightarrow> bytes option"
  ce_sec1_point :: "bytes \<Rightarrow> (bytes option \<times> bytes option) option"
  ce_cose_key_bytes :: "bytes \<Rightarrow> bytes \<Rightarrow> bytes option"

text \<open>
  Fuel: \<open>fu_turns\<close> turns of a ceremony loop, \<open>fu_verify\<close> for the user verification inside one,
  \<open>fu_blob\<close> for the transfers of the large blob array, \<open>fu_presence\<close> polls of a U2F device.
\<close>

record ceremony_fuel =
  fu_turns :: nat
  fu_verify :: nat
  fu_blob :: nat
  fu_presence :: nat

section \<open>Limits\<close>

definition prf_forces_uv_upgrade :: "bool \<Rightarrow> uv_requirement \<Rightarrow> bool" where
  "prf_forces_uv_upgrade prf_present uv \<longleftrightarrow> prf_present \<and> \<not> is_required uv"

definition filter_oversized_credentials ::
    "get_info_response \<Rightarrow> credential_descriptor list \<Rightarrow> credential_descriptor list" where
  "filter_oversized_credentials info credentials =
     (case max_credential_id_length info of
        Some max_len \<Rightarrow> filter (\<lambda>d. length (cd_id d) \<le> max_len) credentials
      | None \<Rightarrow> credentials)"

definition ensure_credential_count :: "nat \<Rightarrow> get_info_response \<Rightarrow> platform_error + unit" where
  "ensure_credential_count n info =
     (case max_credential_count_in_list info of
        Some m \<Rightarrow> if n > m then Inl Pe_RequestTooLarge else Inr ()
      | None \<Rightarrow> Inr ())"

definition ensure_msg_size :: "cbor_request \<Rightarrow> get_info_response \<Rightarrow> platform_error + unit" where
  "ensure_msg_size request info =
     (if length (cbor_ctap_hid_data request) > max_msg_size info then Inl Pe_RequestTooLarge else Inr ())"

text \<open>\<^verbatim>\<open>request.try_into()?\<close> in a function that returns a \<^verbatim>\<open>PlatformError\<close>.\<close>

definition ensure_encoded_size :: "ctap2_command_code \<Rightarrow> bytes option \<Rightarrow> get_info_response
    \<Rightarrow> platform_error + unit" where
  "ensure_encoded_size command body info =
     result_bind (ok_or Pe_CborError body) (\<lambda>data.
     ensure_msg_size \<lparr>cr_command = command, cr_encoded_data = data\<rparr> info)"

definition enforce_get_assertion_limits :: "('d, 'te) ceremony_env \<Rightarrow> ctap2_ga_request
    \<Rightarrow> get_info_response \<Rightarrow> platform_error + unit" where
  "enforce_get_assertion_limits E q info =
     result_bind (ensure_credential_count (length (qg_allow q)) info) (\<lambda>_.
     ensure_encoded_size AuthenticatorGetAssertion (ce_encode_ga E q) info)"

definition enforce_make_credential_limits :: "('d, 'te) ceremony_env \<Rightarrow> ctap2_mc_request
    \<Rightarrow> get_info_response \<Rightarrow> platform_error + unit" where
  "enforce_make_credential_limits E q info =
     (let exclude_count = (case qm_exclude q of None \<Rightarrow> 0 | Some ds \<Rightarrow> length ds)
      in result_bind (ensure_credential_count exclude_count info) (\<lambda>_.
         ensure_encoded_size AuthenticatorMakeCredential (ce_encode_mc E q) info))"

section \<open>The loop around user verification\<close>

text \<open>
  \<^verbatim>\<open>handle_errors!\<close>: \<open>again\<close> is the \<^verbatim>\<open>continue\<close>, \<open>note\<close> what the request is told about a rejected
  persistent token.
\<close>

definition handle_errors :: "('d, 'te) platform \<Rightarrow> ('q \<Rightarrow> 'q) \<Rightarrow> nat \<Rightarrow> used_token
    \<Rightarrow> ('d, 'q, 'te, 'r) uv_flow \<Rightarrow> 'te webauthn_error + 'r \<Rightarrow> ('d, 'q, 'te, 'r) uv_flow" where
  "handle_errors pf note timeout used again resp =
     (case resp of
        Inl (We_Ctap Ctap_PINAuthInvalid) \<Rightarrow>
          (case used of
             FromEphemeralStorage \<Rightarrow>
               act_bind (on_session (act_modify session_clear_uv_auth_token_store)) (\<lambda>_. again)
           | FromPersistentStorage rid \<Rightarrow>
               act_bind (on_session (act_modify (delete_record rid))) (\<lambda>_.
               act_bind (request_modify note) (\<lambda>_. again))
           | _ \<Rightarrow> act_fail (We_Ctap Ctap_PINAuthInvalid))
      | Inl (We_Ctap Ctap_UVInvalid) \<Rightarrow>
          act_bind (on_session (soft_field cpr_uv_retries
            (ctap2_client_pin pf new_get_uv_retries timeout))) (\<lambda>attempts_left.
          act_bind (on_session (send_ux_update (UvRetry attempts_left))) (\<lambda>_.
          act_fail (We_Ctap Ctap_UVInvalid)))
      | Inl e \<Rightarrow> act_fail e
      | Inr x \<Rightarrow> act_return x)"

text \<open>
  One turn: verification, what \<open>prepare\<close> does to the request, the prompt for a touch unless
  built-in verification has sent it, and the command.
\<close>

definition announce_presence :: "used_token \<Rightarrow> ('d, 'te, unit) ceremony" where
  "announce_presence used =
     (if used \<noteq> NewlyCalculated GetPinUvAuthTokenUsingUvWithPermissions
      then send_ux_update PresenceRequired else act_return ())"

fun verified_loop :: "('d, 'te) platform \<Rightarrow> 'q uv_request \<Rightarrow> nat \<Rightarrow> uv_requirement \<Rightarrow> nat
    \<Rightarrow> (used_token \<Rightarrow> ('d, 'q, 'te, unit) uv_flow) \<Rightarrow> ('q \<Rightarrow> ('d, 'te, 'r) ceremony) \<Rightarrow> ('q \<Rightarrow> 'q) \<Rightarrow> nat
    \<Rightarrow> ('d, 'q, 'te, 'r) uv_flow" where
  "verified_loop pf ops fuel requirement timeout prepare command note 0 = (\<lambda>s. None)"
| "verified_loop pf ops fuel requirement timeout prepare command note (Suc turns) =
     act_bind (user_verification pf ops fuel requirement timeout) (\<lambda>used.
     act_bind (prepare used) (\<lambda>_.
     act_bind (request_get (\<lambda>q. q)) (\<lambda>q.
     act_try (on_session (command q)) (\<lambda>resp.
     handle_errors pf note timeout used
       (verified_loop pf ops fuel requirement timeout prepare command note turns) resp))))"

text \<open>A loop over a request of its own: the request is dropped at the end.\<close>

definition with_request :: "'q \<Rightarrow> ('d, 'q, 'te, 'r) uv_flow \<Rightarrow> ('d, 'te, 'r \<times> 'q) ceremony" where
  "with_request q m s =
     (case m (s, q) of
        None \<Rightarrow> None
      | Some (Inl e, (s', q')) \<Rightarrow> Some (Inl e, s')
      | Some (Inr x, (s', q')) \<Rightarrow> Some (Inr (x, q'), s'))"

section \<open>Pre-flight\<close>

definition preflight_request :: "credential_descriptor \<Rightarrow> bytes \<Rightarrow> string \<Rightarrow> ctap2_ga_request" where
  "preflight_request credential hash rp =
     \<lparr>qg_relying_party_id = rp, qg_client_data_hash = hash, qg_allow = [credential],
      qg_extensions = None,
      qg_options = Some \<lparr>go_require_user_presence = False, go_require_user_verification = False\<rparr>,
      qg_pin_auth_param = None, qg_pin_auth_proto = None\<rparr>"

text \<open>The descriptor under which a known credential is kept.\<close>

definition preflight_match :: "credential_descriptor \<Rightarrow> ctap2_ga_response \<Rightarrow> credential_descriptor" where
  "preflight_match credential resp =
     (case ag_credential_id resp of
        Some d \<Rightarrow> d
      | None \<Rightarrow>
          (case ad_attested_credential (ag_authenticator_data resp) of
             Some a \<Rightarrow> descriptor_of_attested a
           | None \<Rightarrow> credential))"

definition preflight_one :: "('d, 'te) platform \<Rightarrow> ('d, 'te) ceremony_env \<Rightarrow> credential_descriptor \<Rightarrow> bytes
    \<Rightarrow> string \<Rightarrow> ('d, 'te, credential_descriptor option) ceremony" where
  "preflight_one pf E credential hash rp =
     act_try (ctap2_get_assertion pf (ce_encode_ga E) (ce_decode_ga E)
       (preflight_request credential hash rp) 2000) (\<lambda>r.
     case r of
       Inr resp \<Rightarrow> act_return (Some (preflight_match credential resp))
     | Inl (We_Ctap Ctap_NoCredentials) \<Rightarrow> act_return None
     | Inl e \<Rightarrow> act_fail e)"

definition preflight_either :: "('d, 'te) platform \<Rightarrow> ('d, 'te) ceremony_env \<Rightarrow> credential_descriptor \<Rightarrow> bytes
    \<Rightarrow> string \<Rightarrow> string option \<Rightarrow> ('d, 'te, credential_descriptor option) ceremony" where
  "preflight_either pf E credential hash rp appid_exclude =
     act_bind (preflight_one pf E credential hash rp) (\<lambda>m.
     case m of
       Some matched \<Rightarrow> act_return (Some matched)
     | None \<Rightarrow>
         (case appid_exclude of
            None \<Rightarrow> act_return None
          | Some appid \<Rightarrow> preflight_one pf E credential hash appid))"

fun ctap2_preflight_with_appid :: "('d, 'te) platform \<Rightarrow> ('d, 'te) ceremony_env
    \<Rightarrow> credential_descriptor list \<Rightarrow> bytes \<Rightarrow> string \<Rightarrow> string option
    \<Rightarrow> ('d, 'te, credential_descriptor list) ceremony" where
  "ctap2_preflight_with_appid pf E [] hash rp appid_exclude = act_return []"
| "ctap2_preflight_with_appid pf E (credential # credentials) hash rp appid_exclude =
     act_bind (preflight_either pf E credential hash rp appid_exclude) (\<lambda>m.
     act_bind (ctap2_preflight_with_appid pf E credentials hash rp appid_exclude) (\<lambda>rest.
     act_return (case m of Some matched \<Rightarrow> matched # rest | None \<Rightarrow> rest)))"

definition ctap2_preflight :: "('d, 'te) platform \<Rightarrow> ('d, 'te) ceremony_env \<Rightarrow> credential_descriptor list
    \<Rightarrow> bytes \<Rightarrow> string \<Rightarrow> ('d, 'te, credential_descriptor list) ceremony" where
  "ctap2_preflight pf E credentials hash rp = ctap2_preflight_with_appid pf E credentials hash rp None"

section \<open>Registration\<close>

text \<open>The encryption of the PRF input for \<^verbatim>\<open>hmac-secret-mc\<close>, before the prompt.\<close>

definition mc_encrypt_prf :: "('d, 'te) platform \<Rightarrow> ('d, ctap2_mc_request, 'te, unit) uv_flow" where
  "mc_encrypt_prf pf =
     act_bind (act_get (\<lambda>(s, q). (session_get_auth_data s, qm_extensions q))) (\<lambda>x.
     case x of
       (Some d, Some e) \<Rightarrow>
         act_bind (on_session (calculate_hmac_secret_mc pf d e)) (\<lambda>e'.
         request_modify (\<lambda>q. q\<lparr>qm_extensions := Some e'\<rparr>))
     | _ \<Rightarrow> act_return ())"

definition mc_prepare :: "('d, 'te) platform \<Rightarrow> used_token \<Rightarrow> ('d, ctap2_mc_request, 'te, unit) uv_flow" where
  "mc_prepare pf used =
     act_bind (mc_encrypt_prf pf) (\<lambda>_. on_session (announce_presence used))"

definition mc_preflight :: "('d, 'te) platform \<Rightarrow> ('d, 'te) ceremony_env \<Rightarrow> mc_request \<Rightarrow> ctap2_mc_request
    \<Rightarrow> ('d, 'te, ctap2_mc_request) ceremony" where
  "mc_preflight pf E r q =
     (if ce_supports_preflight E then
        case qm_exclude q of
          None \<Rightarrow> act_return q
        | Some exclude_list \<Rightarrow>
            act_bind (ctap2_preflight_with_appid pf E exclude_list
              (mc_client_data_hash (pf_crypto pf) (ce_text E) r) (rp_id (mr_relying_party r))
              (Option.bind (mr_extensions r) me_appid_exclude)) (\<lambda>filtered.
            act_return (q\<lparr>qm_exclude := Some filtered\<rparr>))
      else act_return q)"

definition make_credential_fido2 :: "('d, 'te) platform \<Rightarrow> ('d, 'te) ceremony_env \<Rightarrow> ceremony_fuel
    \<Rightarrow> mc_request \<Rightarrow> ('d, 'te, mc_response) ceremony" where
  "make_credential_fido2 pf E fu r =
     act_bind (ctap2_get_info pf) (\<lambda>info.
     act_bind (act_lift (mc_from_webauthn_request (pf_crypto pf) (ce_text E) r info)) (\<lambda>q0.
     act_bind (mc_preflight pf E r
       (q0\<lparr>qm_exclude := map_option (filter_oversized_credentials info) (qm_exclude q0)\<rparr>)) (\<lambda>q.
     act_bind (act_lift (map_err We_Platform (enforce_make_credential_limits E q info))) (\<lambda>_.
     act_bind (with_request q (verified_loop pf mc_uv_request (fu_verify fu) (mr_user_verification r)
       (mr_timeout r) (mc_prepare pf)
       (\<lambda>q. ctap2_make_credential pf (ce_encode_mc E) (ce_decode_mc E) q (mr_timeout r))
       (\<lambda>q. q) (fu_turns fu))) (\<lambda>(response, _).
     act_get (\<lambda>s. into_make_credential_output (pf_crypto pf) response r (Some info) (session_get_auth_data s)))))))"

definition make_credential_u2f :: "('d, 'te) platform \<Rightarrow> ('d, 'te) ceremony_env \<Rightarrow> ceremony_fuel
    \<Rightarrow> mc_request \<Rightarrow> ('d, 'te, mc_response) ceremony" where
  "make_credential_u2f pf E fu r =
     act_bind (act_lift (map_err We_Ctap (mc_try_downgrade (pf_crypto pf) (ce_text E) r))) (\<lambda>register_request.
     act_bind (ctap1_register pf (ce_x509_rest E) (fu_presence fu) register_request) (\<lambda>response.
     act_lift (u2f_register_upgrade (pf_crypto pf) (ce_sec1_point E) (ce_cose_key_bytes E) response r)))"

section \<open>Assertion\<close>

definition ga_encrypt_prf :: "('d, 'te) platform \<Rightarrow> text_codec \<Rightarrow> credential_descriptor list
    \<Rightarrow> ('d, ctap2_ga_request, 'te, unit) uv_flow" where
  "ga_encrypt_prf pf tc allow =
     act_bind (act_get (\<lambda>(s, q). (session_get_auth_data s, qg_extensions q))) (\<lambda>x.
     case x of
       (Some d, Some e) \<Rightarrow>
         act_bind (on_session (calculate_hmac pf tc allow d e)) (\<lambda>e'.
         request_modify (\<lambda>q. q\<lparr>qg_extensions := Some e'\<rparr>))
     | _ \<Rightarrow> act_return ())"

definition ga_prepare :: "('d, 'te) platform \<Rightarrow> text_codec \<Rightarrow> credential_descriptor list \<Rightarrow> used_token
    \<Rightarrow> ('d, ctap2_ga_request, 'te, unit) uv_flow" where
  "ga_prepare pf tc allow used =
     act_bind (ga_encrypt_prf pf tc allow) (\<lambda>_. on_session (announce_presence used))"

text \<open>
  The allow list as the device will see it.  Nothing left of a list that was not empty ends the
  ceremony, after a touch on a dummy request when the channel supports pre-flight.
\<close>

definition ga_preflight :: "('d, 'te) platform \<Rightarrow> ('d, 'te) ceremony_env \<Rightarrow> ga_request \<Rightarrow> ctap2_ga_request
    \<Rightarrow> ('d, 'te, ctap2_ga_request) ceremony" where
  "ga_preflight pf E r q =
     (if ce_supports_preflight E then
        act_bind (ctap2_preflight pf E (qg_allow q) (ga_client_data_hash (pf_crypto pf) (ce_text E) r)
          (gr_relying_party_id r)) (\<lambda>filtered.
        if filtered = [] \<and> gr_allow r \<noteq> [] then
          act_bind (send_ux_update PresenceRequired) (\<lambda>_.
          act_try (ctap2_make_credential pf (ce_encode_mc E) (ce_decode_mc E) mc_request_dummy (gr_timeout r)) (\<lambda>_.
          act_fail (We_Ctap Ctap_NoCredentials)))
        else act_return (q\<lparr>qg_allow := filtered\<rparr>))
      else if qg_allow q = [] \<and> gr_allow r \<noteq> [] then act_fail (We_Ctap Ctap_NoCredentials)
      else act_return q)"

definition validate_rp_id_hash :: "crypto \<Rightarrow> ga_request \<Rightarrow> ctap2_ga_response \<Rightarrow> 'te webauthn_error + unit" where
  "validate_rp_id_hash c r resp =
     (if ad_rp_id_hash (ag_authenticator_data resp) \<noteq> c_sha256 c (string_bytes (gr_relying_party_id r))
      then Inl (We_Platform Pe_InvalidDeviceResponse) else Inr ())"

text \<open>\<^verbatim>\<open>authenticatorGetNextAssertion\<close>, \<open>n\<close> times.\<close>

fun next_assertions :: "('d, 'te) platform \<Rightarrow> ('d, 'te) ceremony_env \<Rightarrow> ga_request \<Rightarrow> nat
    \<Rightarrow> ('d, 'te, ctap2_ga_response list) ceremony" where
  "next_assertions pf E r 0 = act_return []"
| "next_assertions pf E r (Suc n) =
     act_bind (ctap2_get_next_assertion pf (ce_decode_ga E) (gr_timeout r)) (\<lambda>resp.
     act_bind (act_lift (validate_rp_id_hash (pf_crypto pf) r resp)) (\<lambda>_.
     act_bind (next_assertions pf E r n) (\<lambda>rest. act_return (resp # rest))))"

definition assertion_count :: "get_info_response \<Rightarrow> ctap2_ga_response \<Rightarrow> nat" where
  "assertion_count info resp =
     (let max_count = (case max_credential_count_in_list info of None \<Rightarrow> 255 | Some n \<Rightarrow> n)
      in min (case ag_credentials_count resp of None \<Rightarrow> 1 | Some n \<Rightarrow> unat n) max_count)"

definition collect_assertions :: "('d, 'te) platform \<Rightarrow> ('d, 'te) ceremony_env \<Rightarrow> get_info_response
    \<Rightarrow> ga_request \<Rightarrow> ctap2_ga_response \<Rightarrow> ('d, 'te, ctap2_ga_response list) ceremony" where
  "collect_assertions pf E info r response =
     act_bind (act_lift (validate_rp_id_hash (pf_crypto pf) r response)) (\<lambda>_.
     act_bind (next_assertions pf E r (assertion_count info response - 1)) (\<lambda>rest.
     act_return (response # rest)))"

section \<open>The large blob of an assertion\<close>

definition read_blob_output :: "'d blob_codec \<Rightarrow> large_blob_map_entry list option \<Rightarrow> ctap2_ga_response
    \<Rightarrow> large_blob_output" where
  "read_blob_output B entries resp =
     \<lparr>lo_blob = (case (entries, extract_large_blob_key resp) of
          (Some es, Some key) \<Rightarrow>
            (case (decrypt_first_matching B es key :: unit large_blob_error + bytes option) of
               Inr blob \<Rightarrow> blob | Inl _ \<Rightarrow> None)
        | _ \<Rightarrow> None),
      lo_written = None\<rparr>"

datatype write_or_delete = Wd_Write bytes | Wd_Delete

definition write_or_delete_for_first :: "('d, 'te) platform \<Rightarrow> 'd blob_codec \<Rightarrow> nat \<Rightarrow> ctap2_ga_response
    \<Rightarrow> auth_token_data option \<Rightarrow> u32 \<Rightarrow> nat \<Rightarrow> write_or_delete \<Rightarrow> ('d, 'te, bool) ceremony" where
  "write_or_delete_for_first pf B fuel resp auth_data max_fragment timeout op =
     (case extract_large_blob_key resp of
        None \<Rightarrow> act_return False
      | Some key \<Rightarrow>
          let auth = Option.bind auth_data (\<lambda>d.
                map_option (\<lambda>t. (t, atd_protocol_version d)) (atd_pin_uv_auth_token d))
          in act_try
               (case op of
                  Wd_Write payload \<Rightarrow> write_authenticator_large_blob pf B fuel key payload max_fragment auth timeout
                | Wd_Delete \<Rightarrow> delete_authenticator_large_blob pf B fuel key max_fragment auth timeout) (\<lambda>r.
             act_return (case r of Inr _ \<Rightarrow> True | Inl _ \<Rightarrow> False)))"

definition written_outputs :: "bool \<Rightarrow> nat \<Rightarrow> large_blob_output list" where
  "written_outputs written n =
     (case replicate n \<lparr>lo_blob = None, lo_written = Some written\<rparr> of
        [] \<Rightarrow> []
      | x # xs \<Rightarrow> x # map (\<lambda>out. out\<lparr>lo_written := None\<rparr>) xs)"

definition write_outputs :: "('d, 'te) platform \<Rightarrow> 'd blob_codec \<Rightarrow> nat \<Rightarrow> u32 \<Rightarrow> nat \<Rightarrow> write_or_delete
    \<Rightarrow> ctap2_ga_response list \<Rightarrow> ('d, 'te, large_blob_output list) ceremony" where
  "write_outputs pf B fuel max_fragment timeout op responses =
     act_bind (act_get session_get_auth_data) (\<lambda>auth_data.
     act_bind
       (case responses of
          resp # _ \<Rightarrow> write_or_delete_for_first pf B fuel resp auth_data max_fragment timeout op
        | [] \<Rightarrow> act_return False) (\<lambda>written.
     act_return (written_outputs written (length responses))))"

definition large_blob_outputs :: "('d, 'te) platform \<Rightarrow> ('d, 'te) ceremony_env \<Rightarrow> nat \<Rightarrow> get_info_response
    \<Rightarrow> ga_request \<Rightarrow> ctap2_ga_response list \<Rightarrow> ('d, 'te, large_blob_output list) ceremony" where
  "large_blob_outputs pf E fuel info r responses =
     (let max_fragment = max_fragment_length (gi_max_msg_size info); B = ce_blob E
      in case ga_large_blob r of
           Some Lb_Read \<Rightarrow>
             act_bind
               (if list_ex (\<lambda>resp. ag_large_blob_key resp \<noteq> None) responses then
                  act_try (fetch_large_blob_entries pf B fuel max_fragment (gr_timeout r)) (\<lambda>entries.
                  act_return (case entries of Inr es \<Rightarrow> Some es | Inl _ \<Rightarrow> None))
                else act_return None) (\<lambda>entries.
             act_return (map (read_blob_output B entries) responses))
         | Some (Lb_Write payload) \<Rightarrow>
             write_outputs pf B fuel max_fragment (gr_timeout r) (Wd_Write payload) responses
         | Some Lb_Delete \<Rightarrow> write_outputs pf B fuel max_fragment (gr_timeout r) Wd_Delete responses
         | None \<Rightarrow> act_return [])"

definition with_blob_output :: "assertion \<Rightarrow> large_blob_output \<Rightarrow> assertion" where
  "with_blob_output a entry =
     a\<lparr>as_unsigned_extensions :=
       Some ((unsigned_or_default (as_unsigned_extensions a))\<lparr>ug_large_blob := Some entry\<rparr>)\<rparr>"

fun zip_blob_outputs :: "assertion list \<Rightarrow> large_blob_output list \<Rightarrow> assertion list" where
  "zip_blob_outputs (a # as) (entry # entries) = with_blob_output a entry # zip_blob_outputs as entries"
| "zip_blob_outputs as _ = as"

definition get_assertion_fido2 :: "('d, 'te) platform \<Rightarrow> ('d, 'te) ceremony_env \<Rightarrow> ceremony_fuel
    \<Rightarrow> ga_request \<Rightarrow> ('d, 'te, assertion list) ceremony" where
  "get_assertion_fido2 pf E fu r =
     (if is_large_blob_write (ga_large_blob r) \<and> length (gr_allow r) \<noteq> 1
      then act_fail (We_Platform Pe_NotSupported)
      else
        act_bind (ctap2_get_info pf) (\<lambda>info.
        act_bind (act_lift (map_err We_Platform
          (ga_from_webauthn_request (pf_crypto pf) (ce_text E) r info))) (\<lambda>q0.
        act_bind (ga_preflight pf E r
          (q0\<lparr>qg_allow := filter_oversized_credentials info (qg_allow q0)\<rparr>)) (\<lambda>q.
        act_bind (act_lift (map_err We_Platform (enforce_get_assertion_limits E q info))) (\<lambda>_.
        act_bind (with_request q (verified_loop pf ga_uv_request (fu_verify fu) (gr_user_verification r)
          (gr_timeout r) (ga_prepare pf (ce_text E) (gr_allow r))
          (\<lambda>q. ctap2_get_assertion pf (ce_encode_ga E) (ce_decode_ga E) q (gr_timeout r))
          (\<lambda>q. q) (fu_turns fu))) (\<lambda>(response, _).
        act_bind (collect_assertions pf E info r response) (\<lambda>responses.
        act_bind (large_blob_outputs pf E (fu_blob fu) info r responses) (\<lambda>outputs.
        act_get (\<lambda>s. zip_blob_outputs
          (map (\<lambda>resp. into_assertion_output (pf_crypto pf) (tc_base64url (ce_text E)) resp r
            (session_get_auth_data s)) responses) outputs))))))))) "

text \<open>The sign requests of a downgraded assertion, until one is answered.\<close>

fun u2f_sign_any :: "('d, 'te) platform \<Rightarrow> ('d, 'te) ceremony_env \<Rightarrow> nat \<Rightarrow> bytes option
    \<Rightarrow> ctap1_sign_request list \<Rightarrow> ('d, 'te, assertion list) ceremony" where
  "u2f_sign_any pf E turns appid_hash [] = act_fail (We_Ctap Ctap_NoCredentials)"
| "u2f_sign_any pf E turns appid_hash (sign_request # sign_requests) =
     act_try (ctap1_sign pf turns sign_request) (\<lambda>r.
     case r of
       Inr response \<Rightarrow>
         act_bind (act_lift (u2f_sign_upgrade (pf_crypto pf) (tc_base64url (ce_text E)) response sign_request)) (\<lambda>upgraded.
         act_return (case appid_hash of
             None \<Rightarrow> upgraded
           | Some h \<Rightarrow> map (\<lambda>a. a\<lparr>as_unsigned_extensions :=
               Some ((unsigned_or_default (as_unsigned_extensions a))
                 \<lparr>ug_appid := Some (sr_app_id_hash sign_request = h)\<rparr>)\<rparr>) upgraded))
     | Inl (We_Ctap Ctap_NoCredentials) \<Rightarrow> u2f_sign_any pf E turns appid_hash sign_requests
     | Inl e \<Rightarrow> act_fail e)"

definition get_assertion_u2f :: "('d, 'te) platform \<Rightarrow> ('d, 'te) ceremony_env \<Rightarrow> ceremony_fuel
    \<Rightarrow> ga_request \<Rightarrow> ('d, 'te, assertion list) ceremony" where
  "get_assertion_u2f pf E fu r =
     act_bind (act_lift (map_err We_Ctap (ga_try_downgrade (pf_crypto pf) (ce_text E) r))) (\<lambda>sign_requests.
     u2f_sign_any pf E (fu_presence fu) (ga_appid_hash (pf_crypto pf) r) sign_requests)"

section \<open>The ceremonies\<close>

definition supported_protocols :: "('d, 'te) ceremony_env \<Rightarrow> ('d, 'te, bool \<times> bool) ceremony" where
  "supported_protocols E = act_bind (on_device (ce_supported E)) act_lift"

definition ctap1_version_checked :: "('d, 'te) platform \<Rightarrow> ('d, 'te, unit) ceremony" where
  "ctap1_version_checked pf = act_bind (ctap1_version pf) (\<lambda>_. act_return ())"

definition negotiate_protocol :: "('d, 'te) platform \<Rightarrow> ('d, 'te) ceremony_env \<Rightarrow> bool
    \<Rightarrow> ('d, 'te, fido_protocol) ceremony" where
  "negotiate_protocol pf E allow_u2f =
     act_bind (supported_protocols E) (\<lambda>(fido2, u2f).
     if \<not> u2f \<and> \<not> fido2 then act_fail (We_Platform Pe_NotSupported)
     else if \<not> allow_u2f \<and> \<not> fido2 then act_fail (We_Platform Pe_NotSupported)
     else if fido2 then act_return FIDO2
     else act_bind (ctap1_version_checked pf) (\<lambda>_. act_return U2F))"

definition mc_required_by_prf :: "mc_request \<Rightarrow> mc_request" where
  "mc_required_by_prf r =
     (if prf_forces_uv_upgrade (Option.bind (mr_extensions r) me_prf \<noteq> None) (mr_user_verification r)
      then r\<lparr>mr_user_verification := Uv_Required\<rparr> else r)"

definition ga_required_by_prf :: "ga_request \<Rightarrow> ga_request" where
  "ga_required_by_prf r =
     (if prf_forces_uv_upgrade (ga_prf_requested r) (gr_user_verification r)
      then r\<lparr>gr_user_verification := Uv_Required\<rparr> else r)"

definition webauthn_make_credential :: "('d, 'te) platform \<Rightarrow> ('d, 'te) ceremony_env \<Rightarrow> ceremony_fuel
    \<Rightarrow> mc_request \<Rightarrow> ('d, 'te, mc_response) ceremony" where
  "webauthn_make_credential pf E fu r0 =
     (let r = mc_required_by_prf r0
      in act_bind (negotiate_protocol pf E (mc_is_downgradable r)) (\<lambda>protocol.
         act_bind (case protocol of
             FIDO2 \<Rightarrow> make_credential_fido2 pf E fu r
           | U2F \<Rightarrow> make_credential_u2f pf E fu r) (\<lambda>response.
         act_return (response\<lparr>ar_transport := Some (ce_transport E)\<rparr>))))"

definition webauthn_get_assertion :: "('d, 'te) platform \<Rightarrow> ('d, 'te) ceremony_env \<Rightarrow> ceremony_fuel
    \<Rightarrow> ga_request \<Rightarrow> ('d, 'te, assertion list) ceremony" where
  "webauthn_get_assertion pf E fu r0 =
     (let r = ga_required_by_prf r0
      in act_bind (negotiate_protocol pf E (ga_is_downgradable r)) (\<lambda>protocol.
         act_bind (case protocol of
             FIDO2 \<Rightarrow> get_assertion_fido2 pf E fu r
           | U2F \<Rightarrow> get_assertion_u2f pf E fu r) (\<lambda>assertions.
         act_return (map (\<lambda>a. a\<lparr>as_transport := Some (ce_transport E)\<rparr>) assertions))))"

section \<open>U2F operations\<close>

definition u2f_negotiate_protocol :: "('d, 'te) platform \<Rightarrow> ('d, 'te) ceremony_env
    \<Rightarrow> ('d, 'te, fido_protocol) ceremony" where
  "u2f_negotiate_protocol pf E =
     act_bind (supported_protocols E) (\<lambda>(fido2, u2f).
     if \<not> u2f \<and> \<not> fido2 then act_fail (We_Platform Pe_NotSupported)
     else act_bind (ctap1_version_checked pf) (\<lambda>_. act_return U2F))"

definition u2f_register :: "('d, 'te) platform \<Rightarrow> ('d, 'te) ceremony_env \<Rightarrow> ceremony_fuel
    \<Rightarrow> ctap1_register_request \<Rightarrow> ('d, 'te, ctap1_register_response) ceremony" where
  "u2f_register pf E fu op =
     act_bind (u2f_negotiate_protocol pf E) (\<lambda>protocol.
     case protocol of
       U2F \<Rightarrow> ctap1_register pf (ce_x509_rest E) (fu_presence fu) op
     | _ \<Rightarrow> act_fail (We_Platform Pe_NotSupported))"

definition u2f_sign :: "('d, 'te) platform \<Rightarrow> ('d, 'te) ceremony_env \<Rightarrow> ceremony_fuel
    \<Rightarrow> ctap1_sign_request \<Rightarrow> ('d, 'te, ctap1_sign_response) ceremony" where
  "u2f_sign pf E fu op =
     act_bind (u2f_negotiate_protocol pf E) (\<lambda>protocol.
     case protocol of
       U2F \<Rightarrow> ctap1_sign pf (fu_presence fu) op
     | _ \<Rightarrow> act_fail (We_Platform Pe_NotSupported))"

end
