(* ===== verification/Uv_History.thy ===== *)
theory Uv_History
  imports Uv_Safety
begin

text \<open>
  What the authenticator answered in a run of the user verification flow: the traffic of a run, the
  getInfo answers in it, and the operations that send no getInfo request.
\<close>

section \<open>The traffic of a run\<close>

datatype traffic = Tr_Sent cbor_request | Tr_Received cbor_response

text \<open>An outside world that keeps the traffic with the authenticator.\<close>

definition records_traffic :: "('d, 'te) platform \<Rightarrow> ('d \<Rightarrow> traffic list) \<Rightarrow> bool" where
  "records_traffic pf traffic \<longleftrightarrow> (\<forall>d.
     (\<forall>r t. traffic (snd (pf_cbor_send pf r t d)) = traffic d @ [Tr_Sent r])
     \<and> (\<forall>t. traffic (snd (pf_cbor_recv pf t d))
           = traffic d @ (case fst (pf_cbor_recv pf t d) of Inr response \<Rightarrow> [Tr_Received response] | Inl _ \<Rightarrow> []))
     \<and> (\<forall>u. traffic (snd (pf_pin_reply pf u d)) = traffic d)
     \<and> traffic (snd (pf_random_secret pf d)) = traffic d
     \<and> traffic (snd (pf_random_iv pf d)) = traffic d
     \<and> traffic (snd (pf_random_record_id pf d)) = traffic d)"

text \<open>An answer to a getInfo request in the traffic, and the answer to the last one.\<close>

definition decodes_to_info :: "('d, 'te) platform \<Rightarrow> cbor_response \<Rightarrow> get_info_response \<Rightarrow> bool" where
  "decodes_to_info pf response info \<longleftrightarrow> cs_status_code response = Ctap_Ok
     \<and> Option.bind (cs_data response) (pf_decode_get_info pf) = Some info"

definition info_answer :: "('d, 'te) platform \<Rightarrow> traffic list \<Rightarrow> get_info_response \<Rightarrow> bool" where
  "info_answer pf log info \<longleftrightarrow> (\<exists>before response after.
     log = before @ [Tr_Sent (cbor_request_new AuthenticatorGetInfo), Tr_Received response] @ after
     \<and> decodes_to_info pf response info)"

definition last_info_answer :: "('d, 'te) platform \<Rightarrow> traffic list \<Rightarrow> get_info_response \<Rightarrow> bool" where
  "last_info_answer pf log info \<longleftrightarrow> (\<exists>before response after.
     log = before @ [Tr_Sent (cbor_request_new AuthenticatorGetInfo), Tr_Received response] @ after
     \<and> decodes_to_info pf response info
     \<and> Tr_Sent (cbor_request_new AuthenticatorGetInfo) \<notin> set after)"

text \<open>The authenticator answered that built-in verification is blocked or failed.\<close>

definition uv_refused :: "traffic list \<Rightarrow> bool" where
  "uv_refused log \<longleftrightarrow> (\<exists>response. Tr_Received response \<in> set log
     \<and> (cs_status_code response = Ctap_UvBlocked \<or> cs_status_code response = Ctap_UVInvalid))"

definition grows :: "(traffic list \<Rightarrow> bool) \<Rightarrow> bool" where
  "grows M \<longleftrightarrow> (\<forall>log x. M log \<longrightarrow> M (log @ [x]))"

lemma last_is_answer: "last_info_answer pf log info \<Longrightarrow> info_answer pf log info"
  unfolding last_info_answer_def info_answer_def by blast

lemma last_info_answer_append:
  assumes "last_info_answer pf log info" "x \<noteq> Tr_Sent (cbor_request_new AuthenticatorGetInfo)"
  shows "last_info_answer pf (log @ [x]) info"
proof -
  obtain before response after where
    "log = before @ [Tr_Sent (cbor_request_new AuthenticatorGetInfo), Tr_Received response] @ after"
    "decodes_to_info pf response info" "Tr_Sent (cbor_request_new AuthenticatorGetInfo) \<notin> set after"
    using assms(1) unfolding last_info_answer_def by blast
  then show ?thesis unfolding last_info_answer_def using assms(2)
    by (intro exI [of _ before] exI [of _ response] exI [of _ "after @ [x]"]) simp
qed

lemma info_answer_append: "info_answer pf log info \<Longrightarrow> info_answer pf (log @ [x]) info"
  unfolding info_answer_def by (metis append_assoc)

lemma grows_facts:
  "grows (\<lambda>log. info_answer pf log info)" "grows uv_refused" "grows (\<lambda>log. True)"
  by (auto simp: grows_def info_answer_append uv_refused_def)

lemma grows_compose:
  "grows M \<Longrightarrow> grows N \<Longrightarrow> grows (\<lambda>log. M log \<and> N log)"
  "grows M \<Longrightarrow> grows (\<lambda>log. b \<longrightarrow> M log)" "grows (\<lambda>log. b)"
  "(\<And>i. grows (Q i)) \<Longrightarrow> grows (\<lambda>log. \<exists>i. Q i log)"
  by (auto simp: grows_def)

section \<open>Requests other than getInfo\<close>

text \<open>The outside world keeps \<open>P\<close> as long as only client PIN requests are sent.\<close>

abbreviation pin_world :: "('d, 'te) platform \<Rightarrow> ('d \<Rightarrow> bool) \<Rightarrow> bool" where
  "pin_world pf P \<equiv> device_keeps pf (\<lambda>r. cr_command r = AuthenticatorClientPin) P"

lemma pin_keeps_command:
  "pin_world pf P \<Longrightarrow> keeps (\<lambda>s. P (sn_device s)) (ctap2_client_pin pf req timeout)"
  unfolding ctap2_client_pin_def
  by (intro keeps_rules keeps_exchange [where allowed = "\<lambda>r. cr_command r = AuthenticatorClientPin"])
    (auto simp: cbor_request_of_def split: option.splits)

lemma pin_keeps_steps:
  assumes "pin_world pf P"
  shows "keeps (\<lambda>s. P (sn_device s)) (create_protocol_object pf v)"
    "keeps (\<lambda>s. P (sn_device s)) (select_uv_proto pf info)"
    "keeps (\<lambda>s. P (sn_device s)) (pin_encrypt pf p key plaintext)"
    "keeps (\<lambda>s. P (sn_device s)) (obtain_shared_secret pf p timeout)"
    "keeps (\<lambda>s. P (sn_device s)) (obtain_pin pf info v reason timeout)"
  using assms unfolding create_protocol_object_def select_uv_proto_def pin_encrypt_def
    obtain_shared_secret_def obtain_pin_def Let_def
  by (auto intro!: keeps_rules keeps_random pin_keeps_command split: option.split pin_uv_auth_protocol.split)

lemma pin_keeps_change_pin:
  assumes "pin_world pf P"
  shows "keeps (\<lambda>s. P (sn_device s)) (change_pin_internal pf info pin timeout)"
  using assms unfolding change_pin_internal_def current_pin_def change_pin_request_def Let_def
  by (auto intro!: keeps_rules keeps_random pin_keeps_command pin_keeps_steps
      simp: delete_record_def split: option.split bool.split)

lemma pin_keeps_try_to_set_pin:
  assumes "pin_world pf P"
  shows "keeps (\<lambda>s. P (sn_device s)) (try_to_set_pin pf fuel info reason timeout)"
proof -
  have "keeps (\<lambda>s. P (sn_device s)) (set_pin_loop pf fuel info reason timeout)" for reason
    using assms
    by (induction fuel arbitrary: reason)
      (auto intro!: keeps_rules keeps_random pin_keeps_change_pin split: option.split sum.split unit.split
         webauthn_error.split platform_error.split ctap_error.split)
  then show ?thesis unfolding try_to_set_pin_def by (intro keeps_rules)
qed

lemma pin_keeps_token_request:
  assumes "pin_world pf P"
  shows "keeps (\<lambda>(s, q). P (sn_device s)) (token_request pf ops p public_key secret pin op)"
  unfolding token_request_def using assms
  by (auto intro!: keeps_rules pin_keeps_steps split: uv_operation.split option.split)

lemma pin_keeps_package:
  assumes "pin_world pf P"
  shows "keeps (\<lambda>(s, q). P (sn_device s)) (package pf ops info a)"
proof -
  have store: "keeps (\<lambda>s. P (sn_device s)) (store_acquired a permission token)" for permission token
    unfolding store_acquired_def by (intro keeps_rules) (simp add: session_defs)
  have persist: "keeps (\<lambda>s. P (sn_device s)) (persist_minted_token pf info token version)" for token version
    unfolding persist_minted_token_def using assms
    by (auto intro!: keeps_rules keeps_random split: option.split)
  show ?thesis
    unfolding package_def package_token_def Let_def using assms
    by (auto intro!: keeps_rules store persist split: option.split)
qed

section \<open>Histories\<close>

text \<open>The traffic since \<open>start\<close> has the property \<open>P\<close>.\<close>

definition since :: "('d \<Rightarrow> traffic list) \<Rightarrow> traffic list \<Rightarrow> (traffic list \<Rightarrow> bool) \<Rightarrow> 'd \<Rightarrow> bool" where
  "since traffic start P d \<longleftrightarrow> (\<exists>log. traffic d = start @ log \<and> P log)"

text \<open>The last getInfo answer, whether verification was refused, and another growing property.\<close>

definition history :: "('d, 'te) platform \<Rightarrow> (traffic list \<Rightarrow> bool) \<Rightarrow> get_info_response \<Rightarrow> bool
    \<Rightarrow> traffic list \<Rightarrow> bool" where
  "history pf M info blocked log \<longleftrightarrow> last_info_answer pf log info \<and> (blocked \<longrightarrow> uv_refused log) \<and> M log"

lemma history_append:
  "history pf M info blocked log \<Longrightarrow> grows M \<Longrightarrow> x \<noteq> Tr_Sent (cbor_request_new AuthenticatorGetInfo) \<Longrightarrow>
    history pf M info blocked (log @ [x])"
  using last_info_answer_append grows_facts(2) unfolding history_def grows_def by metis

lemma pin_world_history:
  assumes "records_traffic pf traffic" "grows M"
  shows "pin_world pf (since traffic start (history pf M info blocked))"
proof -
  have "Tr_Sent r \<noteq> Tr_Sent (cbor_request_new AuthenticatorGetInfo)" if "cr_command r = AuthenticatorClientPin" for r
    using that by (auto simp: cbor_request_new_def)
  moreover have "history pf M info blocked log \<Longrightarrow> x \<noteq> Tr_Sent (cbor_request_new AuthenticatorGetInfo) \<Longrightarrow>
      \<exists>log'. start @ log @ [x] = start @ log' \<and> history pf M info blocked log'" for log x
    using history_append [OF _ assms(2)] by blast
  ultimately show ?thesis
    using assms(1) unfolding device_keeps_def since_def records_traffic_def
    by (auto split: sum.split)
qed

lemma world_grows:
  assumes "records_traffic pf traffic" "grows M"
  shows "device_keeps pf (\<lambda>r. True) (since traffic start M)"
proof -
  have "M log \<Longrightarrow> \<exists>log'. start @ log @ [x] = start @ log' \<and> M log'" for log x
    using assms(2) unfolding grows_def by blast
  then show ?thesis
    using assms(1) unfolding device_keeps_def since_def records_traffic_def by (auto split: sum.split)
qed

text \<open>A getInfo exchange is the last one afterwards; a refused token request is in the traffic.\<close>

lemma get_info_history:
  assumes "records_traffic pf traffic" "grows M"
    and "ctap2_get_info pf s = Some (Inr info, s')" "since traffic start (\<lambda>log. (blocked \<longrightarrow> uv_refused log) \<and> M log) (sn_device s)"
  shows "since traffic start (history pf M info blocked) (sn_device s')"
proof -
  let ?r = "cbor_request_new AuthenticatorGetInfo"
  obtain response d d' where
    send: "pf_cbor_send pf ?r TIMEOUT_GET_INFO (sn_device s) = (Inr (), d)"
    and recv: "pf_cbor_recv pf TIMEOUT_GET_INFO d = (Inr response, d')" and s': "sn_device s' = d'"
    and ok: "decodes_to_info pf response info"
    using assms(3) unfolding ctap2_get_info_def ctap2_exchange_def decodes_to_info_def
    by (auto simp: act_run on_transport_def parse_required_def parse_cbor_def ok_or_def result_bind_eq_Inr_conv
        elim!: act_bind_InrE split: prod.splits sum.splits if_splits option.splits)
  have "traffic d = traffic (sn_device s) @ [Tr_Sent ?r]"
    using assms(1) send unfolding records_traffic_def by (metis snd_conv)
  moreover have "traffic d' = traffic d @ [Tr_Received response]"
    using assms(1) recv unfolding records_traffic_def by (metis (mono_tags, lifting) fst_conv snd_conv sum.case(2))
  moreover obtain log where log: "traffic (sn_device s) = start @ log" "blocked \<longrightarrow> uv_refused log" "M log"
    using assms(4) by (auto simp: since_def)
  ultimately have t: "traffic (sn_device s') = start @ (log @ [Tr_Sent ?r] @ [Tr_Received response])"
    using s' by simp
  have "last_info_answer pf (log @ [Tr_Sent ?r] @ [Tr_Received response]) info"
    unfolding last_info_answer_def using ok
    by (intro exI [of _ log] exI [of _ response] exI [of _ "[]"]) simp
  moreover have "blocked \<longrightarrow> uv_refused (log @ [Tr_Sent ?r] @ [Tr_Received response])"
    using log(2) by (auto simp: uv_refused_def)
  moreover have "M (log @ [Tr_Sent ?r] @ [Tr_Received response])"
    using log(3) assms(2) unfolding grows_def by (metis append_assoc)
  ultimately show ?thesis unfolding since_def history_def using t by blast
qed

lemma refused_history:
  assumes "records_traffic pf traffic" "grows M"
    and "ctap2_client_pin pf req timeout s = Some (Inl (We_Ctap e), s')" "e = Ctap_UvBlocked \<or> e = Ctap_UVInvalid"
    and "since traffic start (history pf M info blocked) (sn_device s)"
  shows "since traffic start (history pf M info True) (sn_device s')"
proof -
  have after: "since traffic start (history pf M info blocked) (sn_device s')"
    using keepsD [OF pin_keeps_command [OF pin_world_history [OF assms(1,2)]] assms(5,3)] .
  obtain d response where "pf_cbor_recv pf timeout d = (Inr response, sn_device s')" "cs_status_code response = e"
    using assms(3) unfolding ctap2_client_pin_def ctap2_exchange_def
    by (auto simp: act_run on_transport_def parse_or_default_def parse_cbor_def ok_or_def cbor_request_of_def map_err_def
        elim!: act_bind_SomeE split: prod.splits sum.splits if_splits option.splits)
  moreover from this(1) have "traffic (sn_device s') = traffic d @ [Tr_Received response]"
    using assms(1) unfolding records_traffic_def by (metis (mono_tags, lifting) fst_conv snd_conv sum.case(2))
  moreover obtain log where log: "traffic (sn_device s') = start @ log" "history pf M info blocked log"
    using after by (auto simp: since_def)
  moreover have "log \<noteq> []" using log(2) by (auto simp: history_def last_info_answer_def)
  ultimately have "Tr_Received response \<in> set log" "cs_status_code response = e"
    by (metis last_appendR last_in_set last_snoc)+
  then have "uv_refused log" using assms(4) by (auto simp: uv_refused_def)
  with log show ?thesis by (auto simp: since_def history_def)
qed

section \<open>Histories of the flow\<close>

text \<open>An action that takes \<open>P\<close> to \<open>Q x\<close> if it returns \<open>x\<close>; and the rules for what follows.\<close>

definition leads :: "('s \<Rightarrow> bool) \<Rightarrow> ('s, 'e, 'a) action \<Rightarrow> ('a \<Rightarrow> 's \<Rightarrow> bool) \<Rightarrow> bool" where
  "leads P m Q \<longleftrightarrow> (\<forall>s x s'. P s \<longrightarrow> m s = Some (Inr x, s') \<longrightarrow> Q x s')"

lemma leadsD: "leads P m Q \<Longrightarrow> m s = Some (Inr x, s') \<Longrightarrow> P s \<Longrightarrow> Q x s'"
  by (auto simp: leads_def)

lemma leads_run:
  "(\<And>s. P s \<Longrightarrow> Q x s) \<Longrightarrow> leads P (act_return x) Q" "leads P (act_fail e) Q" "leads P (\<lambda>s. None) Q"
  by (auto simp: leads_def act_run)

lemma leads_bind:
  "leads P m R \<Longrightarrow> (\<And>x. yields m x \<Longrightarrow> leads (R x) (f x) Q) \<Longrightarrow> leads P (act_bind m f) Q"
  unfolding leads_def yields_def by (blast elim: act_bind_InrE)

lemma leads_keeps: "keeps P m \<Longrightarrow> leads P m (\<lambda>x. P)"
  by (auto simp: leads_def keeps_def)

lemma leads_weaken:
  "leads P m Q \<Longrightarrow> (\<And>s. P' s \<Longrightarrow> P s) \<Longrightarrow> (\<And>x s. yields m x \<Longrightarrow> Q x s \<Longrightarrow> Q' x s) \<Longrightarrow> leads P' m Q'"
  by (auto simp: leads_def yields_def) blast

lemma leads_quiet:
  "keeps P m \<Longrightarrow> (\<And>x. yields m x \<Longrightarrow> leads P (f x) Q) \<Longrightarrow> leads P (act_bind m f) Q"
  by (rule leads_bind [OF leads_keeps])

lemma leads_and: "(b \<Longrightarrow> leads P m Q) \<Longrightarrow> leads (\<lambda>s. P s \<and> b) m Q"
  by (auto simp: leads_def)

lemma leads_cases:
  "(b \<Longrightarrow> leads P m Q) \<Longrightarrow> (\<not> b \<Longrightarrow> leads P n Q) \<Longrightarrow> leads P (if b then m else n) Q"
  "(z = None \<Longrightarrow> leads P m Q) \<Longrightarrow> (\<And>x. z = Some x \<Longrightarrow> leads P (f x) Q) \<Longrightarrow>
    leads P (case z of None \<Rightarrow> m | Some x \<Rightarrow> f x) Q"
  "(\<And>x y. w = (x, y) \<Longrightarrow> leads P (g x y) Q) \<Longrightarrow> leads P (case w of (x, y) \<Rightarrow> g x y) Q"
  by (auto split: option.split prod.split)

abbreviation flow_history :: "('d, 'te) platform \<Rightarrow> ('d \<Rightarrow> traffic list) \<Rightarrow> traffic list \<Rightarrow> (traffic list \<Rightarrow> bool)
    \<Rightarrow> get_info_response \<Rightarrow> bool \<Rightarrow> 'd session \<times> 'q \<Rightarrow> bool" where
  "flow_history pf traffic start M info blocked \<equiv> \<lambda>(s, q). since traffic start (history pf M info blocked) (sn_device s)"

lemma leads_on_session: "leads P m Q \<Longrightarrow> leads (\<lambda>(s, q). P s) (on_session m) (\<lambda>x (s, q). Q x s)"
  by (auto simp: leads_def on_session_def)

lemma get_info_leads_session:
  assumes "records_traffic pf traffic" "grows M"
  shows "leads (\<lambda>s. since traffic start (\<lambda>log. (blocked \<longrightarrow> uv_refused log) \<and> M log) (sn_device s))
    (ctap2_get_info pf) (\<lambda>info s. since traffic start (history pf M info blocked) (sn_device s))"
  using get_info_history [OF assms] by (auto simp: leads_def)

lemma get_info_leads:
  assumes "records_traffic pf traffic" "grows M"
  shows "leads (\<lambda>(s, q). since traffic start (\<lambda>log. (blocked \<longrightarrow> uv_refused log) \<and> M log) (sn_device s))
    (on_session (ctap2_get_info pf)) (\<lambda>info. flow_history pf traffic start M info blocked)"
  using get_info_history [OF assms] by (auto simp: leads_def on_session_def)

text \<open>The operation with which a turn leaves the loop.\<close>

definition exit_choice :: "uv_context \<Rightarrow> bool \<Rightarrow> get_info_response \<Rightarrow> loop_exit \<Rightarrow> bool" where
  "exit_choice cx blocked info exit \<longleftrightarrow>
     (case exit of
        Loop_Return used \<Rightarrow> used = Used_LegacyUV \<and> option_enabled info ''uv''
      | Loop_Break a \<Rightarrow>
          (ua_operation a = LegacyUv \<longrightarrow> option_enabled info ''uv'')
          \<and> (ua_operation a = OnlyForSharedSecret \<and> \<not> uc_rp_uv_discouraged cx \<longrightarrow>
              \<not> option_enabled info ''clientPin''
              \<and> (\<not> option_enabled info ''uv'' \<or> blocked \<or> uc_skip_uv cx)))"

lemma exit_choice_turn:
  assumes "uv_operation_of info (blocked \<or> uc_skip_uv cx) = Some op0"
    and "enforce_no_mc_ga_with_client_pin info (downgraded_operation ops cx info op0 q) permissions unavailable = Inr op"
    and "ua_operation a = op"
  shows "exit_choice cx blocked info (Loop_Break a)"
  using assms
  by (auto simp: exit_choice_def uv_operation_of_def enforce_no_mc_ga_with_client_pin_def Let_def
      downgraded_operation_def split: if_splits)

lemma acquire_history:
  fixes pf :: "('d, 'te) platform" and ops :: "'q uv_request"
  assumes traffic: "records_traffic pf traffic" and M: "grows M"
    and again: "leads (flow_history pf traffic start M info True) again Q"
    and exit: "\<And>a st. ua_operation a = op \<Longrightarrow> flow_history pf traffic start M info blocked st \<Longrightarrow> Q (Loop_Break a, info) st"
  shows "leads (flow_history pf traffic start M info blocked) (uv_acquire pf ops cx info blocked p op again) Q"
proof -
  note w = pin_world_history [OF traffic M]
  note steps = keeps_rules pin_keeps_steps [OF w] pin_keeps_command [OF w] pin_keeps_token_request [OF w]
  have answer: "leads (flow_history pf traffic start M info blocked)
    (act_try (on_session (ctap2_client_pin pf treq (uc_timeout cx))) (\<lambda>r.
            case r of
              Inr t \<Rightarrow> act_return (Loop_Break (f t), info)
            | Inl (We_Ctap Ctap_UvBlocked) \<Rightarrow> again
            | Inl (We_Ctap Ctap_UVInvalid) \<Rightarrow>
                act_bind (on_session (soft_field cpr_uv_retries
                  (ctap2_client_pin pf new_get_uv_retries (uc_timeout cx)))) (\<lambda>attempts_left.
                act_bind (on_session (send_ux_update (UvRetry attempts_left))) (\<lambda>_.
                if attempts_left = Some 0 then again
                else act_fail (We_Ctap Ctap_UVInvalid)))
            | Inl x \<Rightarrow> act_fail x)) Q"
    if f: "\<And>t. ua_operation (f t) = op" for treq f
    unfolding leads_def
  proof (intro allI impI)
    fix st st' :: "'d session \<times> 'q" and x :: "loop_exit \<times> get_info_response"
    obtain s q where st: "st = (s, q)" by fastforce
    assume start: "flow_history pf traffic start M info blocked st" and
      run: "act_try (on_session (ctap2_client_pin pf treq (uc_timeout cx))) (\<lambda>r.
            case r of
              Inr t \<Rightarrow> act_return (Loop_Break (f t), info)
            | Inl (We_Ctap Ctap_UvBlocked) \<Rightarrow> again
            | Inl (We_Ctap Ctap_UVInvalid) \<Rightarrow>
                act_bind (on_session (soft_field cpr_uv_retries
                  (ctap2_client_pin pf new_get_uv_retries (uc_timeout cx)))) (\<lambda>attempts_left.
                act_bind (on_session (send_ux_update (UvRetry attempts_left))) (\<lambda>_.
                if attempts_left = Some 0 then again
                else act_fail (We_Ctap Ctap_UVInvalid)))
            | Inl x \<Rightarrow> act_fail x) st = Some (Inr x, st')"
    then obtain r s1 where r: "ctap2_client_pin pf treq (uc_timeout cx) s = Some (r, s1)"
      by (auto simp: st act_try_def on_session_def split: option.splits)
    then have on: "on_session (ctap2_client_pin pf treq (uc_timeout cx)) st = Some (r, (s1, q))"
      by (simp add: on_session_def st)
    have kept: "flow_history pf traffic start M info blocked (s1, q)"
      using keepsD [OF pin_keeps_command [OF w] _ r] start st by simp
    have refused: "flow_history pf traffic start M info True (s1, q)"
      if "r = Inl (We_Ctap e)" "e = Ctap_UvBlocked \<or> e = Ctap_UVInvalid" for e
      using refused_history [OF traffic M _ that(2)] r start that(1) st by auto
    have retries: "leads (flow_history pf traffic start M info True)
      (act_bind (on_session (soft_field cpr_uv_retries
                  (ctap2_client_pin pf new_get_uv_retries (uc_timeout cx)))) (\<lambda>attempts_left.
                act_bind (on_session (send_ux_update (UvRetry attempts_left))) (\<lambda>_.
                if attempts_left = Some 0 then again
                else act_fail (We_Ctap Ctap_UVInvalid)))) Q"
      by (intro leads_quiet steps leads_cases again leads_run)
    show "Q x st'"
      using run on kept exit [of _ "(s1, q)"] f refused leadsD [OF again] leadsD [OF retries]
      unfolding act_try_def
      by (auto simp: act_run split: sum.splits webauthn_error.splits ctap_error.splits)
  qed
  show ?thesis
    unfolding uv_acquire_def Let_def
    by (intro leads_quiet steps leads_cases answer leads_run) (auto intro: exit)
qed

lemma loop_history:
  fixes pf :: "('d, 'te) platform" and ops :: "'q uv_request"
  assumes traffic: "records_traffic pf traffic" and M: "grows M"
  shows "leads (flow_history pf traffic start M info blocked) (uv_loop pf ops cx fuel info blocked)
    (\<lambda>(exit, info') st. \<exists>b. flow_history pf traffic start M info' b st \<and> exit_choice cx b info' exit)"
    (is "leads _ _ ?Q")
proof (induction fuel arbitrary: info blocked)
  case 0
  show ?case by (simp add: leads_run)
next
  case (Suc fuel)
  note w = pin_world_history [OF traffic M]
  note steps = keeps_rules pin_keeps_steps [OF w]
  show ?case
  proof (cases "uv_operation_of info (blocked \<or> uc_skip_uv cx)")
    case None
    then show ?thesis by (simp add: leads_run)
  next
    case (Some op0)
    have legacy: "leads (flow_history pf traffic start M info blocked)
        (act_return (Loop_Return Used_LegacyUV, info)) ?Q" if "op0 = LegacyUv"
      using Some that
      by (intro leads_run) (auto simp: exit_choice_def uv_operation_of_def split: if_splits)
    have again: "leads (flow_history pf traffic start M info blocked)
        (act_bind (on_session (try_to_set_pin pf fuel info Pns_PinChangeRequired (uc_timeout cx))) (\<lambda>_.
              act_bind (on_session (ctap2_get_info pf)) (\<lambda>info'.
              uv_loop pf ops cx fuel info' blocked))) ?Q"
    proof (rule leads_quiet)
      show "keeps (flow_history pf traffic start M info blocked)
          (on_session (try_to_set_pin pf fuel info Pns_PinChangeRequired (uc_timeout cx)) :: (_, 'q, _, _) uv_flow)"
        by (intro keeps_on_session pin_keeps_try_to_set_pin w)
      have "leads (flow_history pf traffic start M info blocked) (on_session (ctap2_get_info pf))
          (\<lambda>info'. flow_history pf traffic start M info' blocked)"
        by (rule leads_weaken [OF get_info_leads [OF traffic M]]) (auto simp: since_def history_def)
      then show "leads (flow_history pf traffic start M info blocked)
          (act_bind (on_session (ctap2_get_info pf)) (\<lambda>info'. uv_loop pf ops cx fuel info' blocked)) ?Q"
        by (rule leads_bind) (rule Suc.IH)
    qed
    have acquire: "leads (flow_history pf traffic start M info blocked)
        (uv_acquire pf ops cx info blocked p op (uv_loop pf ops cx fuel info True)) ?Q"
      if "\<exists>q permissions unavailable. enforce_no_mc_ga_with_client_pin info
          (downgraded_operation ops cx info op0 q) permissions unavailable = Inr op" for p op
    proof (rule acquire_history [OF traffic M Suc.IH])
      fix a :: uv_acquired and st :: "'d session \<times> 'q"
      assume "ua_operation a = op" "flow_history pf traffic start M info blocked st"
      moreover from this(1) that have "exit_choice cx blocked info (Loop_Break a)" by (auto intro: exit_choice_turn [OF Some])
      ultimately show "?Q (Loop_Break a, info) st" by auto
    qed
    show ?thesis
      unfolding uv_loop.simps Some option.case
      by (intro leads_quiet steps leads_cases legacy again acquire leads_run) auto
  qed
qed

lemma verified_history:
  fixes pf :: "('d, 'te) platform" and ops :: "'q uv_request"
  assumes traffic: "records_traffic pf traffic" and wanted: "requirement \<noteq> Uv_Discouraged"
  shows "leads (\<lambda>(s, q). traffic (sn_device s) = start) (user_verification pf ops fuel requirement timeout)
    (\<lambda>used (s, q). \<exists>log info. traffic (sn_device s) = start @ log \<and> last_info_answer pf log info
      \<and> (case used of
           Used_None \<Rightarrow> requirement = Uv_Preferred \<and> \<not> is_uv_protected info
         | Used_LegacyUV \<Rightarrow> option_enabled info ''uv''
         | NewlyCalculated op \<Rightarrow> op \<noteq> LegacyUv \<and> op \<noteq> OnlyForSharedSecret
         | SharedSecretOnly \<Rightarrow> \<not> option_enabled info ''clientPin''
             \<and> (\<exists>first. info_answer pf log first
                 \<and> (is_uv_protected first \<or> requirement = Uv_Preferred \<and> (\<exists>q i. uq_needs_shared_secret ops q i))
                 \<and> (\<not> option_enabled info ''uv'' \<or> uv_refused log \<or> (\<exists>q. \<not> uq_can_use_uv ops q first)))
         | _ \<Rightarrow> True))"
    (is "leads _ _ (\<lambda>used (s, q). \<exists>log info. _ log info s \<and> _ log info \<and> ?ok used log info)")
proof -
  let ?T = "\<lambda>log. True"
  let ?R = "\<lambda>used (s, q). \<exists>log info. traffic (sn_device s) = start @ log \<and> last_info_answer pf log info \<and> ?ok used log info"
  let ?protected = "\<lambda>info. is_uv_protected info \<or> requirement = Uv_Preferred \<and> (\<exists>q i. uq_needs_shared_secret ops q i)"
  have asked: "is_preferred requirement" "\<not> is_discouraged requirement" using wanted by (cases requirement; simp)+
  note w = pin_world_history [OF traffic]
  have token: "leads (flow_history pf traffic start ?T info False) (act_return used) ?R"
    if "used = FromEphemeralStorage \<or> (\<exists>rid. used = FromPersistentStorage rid)" for used info
    using that by (intro leads_run) (auto simp: since_def history_def)
  have helper: "leads (flow_history pf traffic start ?T info0 False)
      (user_verification_helper pf ops fuel info0 requirement timeout) ?R" for info0
    unfolding user_verification_helper_def Let_def
  proof (rule leads_quiet)
    fix nss
    assume secret: "yields (request_get (\<lambda>q. uq_needs_shared_secret ops q info0) :: ('d, 'q, 'te, bool) uv_flow) nss"
    let ?M = "\<lambda>info log. info_answer pf log info"
    let ?cx = "\<lambda>skip_uv. \<lparr>uc_rp_uv_preferred = is_preferred requirement, uc_rp_uv_discouraged = is_discouraged requirement,
        uc_needs_shared_secret = nss, uc_can_establish_shared_secret = can_establish_shared_secret info0,
        uc_skip_uv = skip_uv, uc_timeout = timeout\<rparr>"
    have packed: "leads (\<lambda>st. flow_history pf traffic start (?M info) info' b st \<and> exit_choice (?cx skip_uv) b info' exit)
        (case exit of Loop_Return used \<Rightarrow> act_return used | Loop_Break a \<Rightarrow> package pf ops info' a) ?R"
      if protected: "?protected info" and skip: "skip_uv \<longrightarrow> (\<exists>q. \<not> uq_can_use_uv ops q info)"
      for info info' b exit skip_uv
    proof (cases "exit_choice (?cx skip_uv) b info' exit")
      case True
      show ?thesis
      proof (cases exit)
        case (Loop_Return used)
        then show ?thesis using True by (auto intro!: leads_run simp: exit_choice_def since_def history_def)
      next
        case (Loop_Break a)
        have "?ok used log info'" if "last_info_answer pf log info'" "b \<longrightarrow> uv_refused log" "info_answer pf log info"
            "yields (package pf ops info' a :: ('d, 'q, 'te, _) uv_flow) used" for used log
          using that(1-3) package_yields [OF that(4)] True protected skip asked
          by (cases "ua_operation a") (auto simp: Loop_Break exit_choice_def)
        moreover have "leads (flow_history pf traffic start (?M info) info' b) (package pf ops info' a)
            (\<lambda>used. flow_history pf traffic start (?M info) info' b)"
          by (intro leads_keeps pin_keeps_package w grows_facts)
        ultimately show ?thesis unfolding Loop_Break loop_exit.case leads_def yields_def since_def history_def
          by (clarsimp, meson)
      qed
    qed (simp add: leads_def)
    have rest: "leads (flow_history pf traffic start (?M info) info False)
      (act_bind (request_get (\<lambda>q. \<not> uq_can_use_uv ops q info)) (\<lambda>skip_uv.
       act_bind (uv_loop pf ops (?cx skip_uv) fuel info False) (\<lambda>(exit, info').
         case exit of Loop_Return used \<Rightarrow> act_return used | Loop_Break a \<Rightarrow> package pf ops info' a))) ?R"
      if "?protected info" for info
    proof (rule leads_quiet)
      fix skip_uv
      assume skip: "yields (request_get (\<lambda>q. \<not> uq_can_use_uv ops q info) :: ('d, 'q, 'te, bool) uv_flow) skip_uv"
      show "leads (flow_history pf traffic start (?M info) info False)
        (act_bind (uv_loop pf ops (?cx skip_uv) fuel info False) (\<lambda>(exit, info').
         case exit of Loop_Return used \<Rightarrow> act_return used | Loop_Break a \<Rightarrow> package pf ops info' a)) ?R"
      proof (rule leads_bind [OF loop_history [OF traffic grows_facts(1)]])
        fix x :: "loop_exit \<times> get_info_response"
        obtain exit info' where x: "x = (exit, info')" by fastforce
        have "skip_uv \<longrightarrow> (\<exists>q. \<not> uq_can_use_uv ops q info)" using skip by auto
        from packed [OF that this] show "leads ((\<lambda>(exit, info') st. \<exists>b. flow_history pf traffic start (?M info) info' b st
              \<and> exit_choice (?cx skip_uv) b info' exit) x)
            (case x of (exit, info') \<Rightarrow> case exit of Loop_Return used \<Rightarrow> act_return used | Loop_Break a \<Rightarrow> package pf ops info' a) ?R"
          unfolding x leads_def prod.case by blast
      qed
    qed (intro keeps_rules)
    have "leads (\<lambda>s. since traffic start (history pf ?T info0 False) (sn_device s))
        (ensure_uv_protected pf fuel info0 requirement timeout)
        (\<lambda>info s. since traffic start (history pf (?M info) info False) (sn_device s)
          \<and> (requirement = Uv_Required \<longrightarrow> is_uv_protected info))"
      unfolding ensure_uv_protected_def
    proof (intro leads_cases)
      show "leads (\<lambda>s. since traffic start (history pf ?T info0 False) (sn_device s))
        (act_bind (try_to_set_pin pf fuel info0 Pns_PinNotSet timeout) (\<lambda>_.
         act_bind (ctap2_get_info pf) (\<lambda>info'.
         if \<not> is_uv_protected info' then act_fail (We_Platform Pe_NoUvAvailable) else act_return info')))
        (\<lambda>info s. since traffic start (history pf (?M info) info False) (sn_device s)
          \<and> (requirement = Uv_Required \<longrightarrow> is_uv_protected info))"
      proof (rule leads_quiet [OF pin_keeps_try_to_set_pin [OF w [OF grows_facts(3)]]])
        have "leads (\<lambda>s. since traffic start (history pf ?T info0 False) (sn_device s)) (ctap2_get_info pf)
            (\<lambda>info s. since traffic start (history pf ?T info False) (sn_device s))"
          by (rule leads_weaken [OF get_info_leads_session [OF traffic grows_facts(3)]]) (auto simp: since_def history_def)
        then show "leads (\<lambda>s. since traffic start (history pf ?T info0 False) (sn_device s))
          (act_bind (ctap2_get_info pf) (\<lambda>info'.
           if \<not> is_uv_protected info' then act_fail (We_Platform Pe_NoUvAvailable) else act_return info'))
          (\<lambda>info s. since traffic start (history pf (?M info) info False) (sn_device s)
          \<and> (requirement = Uv_Required \<longrightarrow> is_uv_protected info))"
          by (rule leads_bind) (auto intro!: leads_cases leads_run simp: since_def history_def last_is_answer)
      qed
    qed (cases requirement; auto intro!: leads_run simp: since_def history_def last_is_answer)
    from leads_on_session [OF this]
    have ensured: "leads (flow_history pf traffic start ?T info0 False)
        (on_session (ensure_uv_protected pf fuel info0 requirement timeout) :: ('d, 'q, 'te, _) uv_flow)
        (\<lambda>info st. flow_history pf traffic start (?M info) info False st
          \<and> (requirement = Uv_Required \<longrightarrow> is_uv_protected info))"
      by (rule leads_weaken) auto
    have unprotected: "leads (flow_history pf traffic start (?M info) info False) (act_return Used_None) ?R"
      if "requirement = Uv_Preferred" "\<not> is_uv_protected info" for info
      using that by (intro leads_run) (auto simp: since_def history_def)
    show "leads (flow_history pf traffic start ?T info0 False)
     (act_bind (on_session (ensure_uv_protected pf fuel info0 requirement timeout)) (\<lambda>info.
        if \<not> nss \<and> \<not> (\<not> is_discouraged requirement \<and> (is_preferred requirement \<or> is_uv_protected info0))
        then act_return Used_None
        else if \<not> nss \<and> \<not> is_uv_protected info \<and> is_preferred requirement then act_return Used_None
        else if nss \<and> \<not> can_establish_shared_secret info0
          \<and> \<not> (\<not> is_discouraged requirement \<and> (is_preferred requirement \<or> is_uv_protected info0))
        then act_return Used_None
        else
          act_bind (request_get (\<lambda>q. \<not> uq_can_use_uv ops q info)) (\<lambda>skip_uv.
          act_bind (uv_loop pf ops (?cx skip_uv) fuel info False) (\<lambda>(exit, info').
             case exit of
               Loop_Return used \<Rightarrow> act_return used
             | Loop_Break a \<Rightarrow> package pf ops info' a)))) ?R"
      proof (rule leads_bind [OF ensured], rule leads_and)
      fix info
      assume "requirement = Uv_Required \<longrightarrow> is_uv_protected info"
      then have "?protected info" if "nss \<or> is_uv_protected info"
        using that secret wanted by (cases requirement) auto
      moreover have "requirement = Uv_Preferred" if "\<not> is_uv_protected info"
        using that wanted \<open>requirement = Uv_Required \<longrightarrow> is_uv_protected info\<close> by (cases requirement) auto
      ultimately show "leads (flow_history pf traffic start (?M info) info False)
       (if \<not> nss \<and> \<not> (\<not> is_discouraged requirement \<and> (is_preferred requirement \<or> is_uv_protected info0))
        then act_return Used_None
        else if \<not> nss \<and> \<not> is_uv_protected info \<and> is_preferred requirement then act_return Used_None
        else if nss \<and> \<not> can_establish_shared_secret info0
          \<and> \<not> (\<not> is_discouraged requirement \<and> (is_preferred requirement \<or> is_uv_protected info0))
        then act_return Used_None
        else
          act_bind (request_get (\<lambda>q. \<not> uq_can_use_uv ops q info)) (\<lambda>skip_uv.
          act_bind (uv_loop pf ops (?cx skip_uv) fuel info False) (\<lambda>(exit, info').
             case exit of
               Loop_Return used \<Rightarrow> act_return used
             | Loop_Break a \<Rightarrow> package pf ops info' a))) ?R"
        using asked by (intro leads_cases unprotected rest) simp_all
    qed
  qed (intro keeps_rules)
  have info: "leads (\<lambda>(s, q). traffic (sn_device s) = start) (on_session (ctap2_get_info pf))
      (\<lambda>info. flow_history pf traffic start ?T info False)"
    by (rule leads_weaken [OF get_info_leads [OF traffic grows_facts(3)]]) (auto simp: since_def)
  show ?thesis
    unfolding user_verification_def
    by (rule leads_bind [OF info], intro leads_quiet leads_cases keeps_rules pin_keeps_steps w grows_facts token helper)
      auto
qed

end
