(* ===== verification/Session_Safety.thy ===== *)
theory Session_Safety
  imports Ceremonies Uv_Termination Uv_History
begin

text \<open>
  The token data of a channel across the operations run on it: which operations leave them alone,
  which tokens are stored and keep their invariant, the number of turns of a ceremony, and the
  token with which the request of its last turn was authorised.
\<close>

section \<open>Operations that leave the token data alone\<close>

named_theorems auth_rules "operations under which a property of the token data is kept"

lemma auth_base [auth_rules]:
  "keeps (\<lambda>s. Q (sn_auth_data s)) (on_device f)"
  "keeps (\<lambda>s. Q (sn_auth_data s)) (on_transport k)"
  "keeps (\<lambda>s. Q (sn_auth_data s)) (send_ux_update u)"
  "keeps (\<lambda>s. Q (sn_auth_data s)) (prompt_pin pf u)"
  unfolding prompt_pin_def send_ux_update_def
  by (auto simp: keeps_def on_device_def on_transport_def act_bind_def act_run split: prod.splits)

lemma auth_exchange [auth_rules]:
  "keeps (\<lambda>s. Q (sn_auth_data s)) (ctap2_exchange pf r timeout)"
  "keeps (\<lambda>s. Q (sn_auth_data s)) (ctap2_get_info pf)"
  "keeps (\<lambda>s. Q (sn_auth_data s)) (ctap2_client_pin pf req timeout)"
  unfolding ctap2_exchange_def ctap2_get_info_def ctap2_client_pin_def
  by (intro keeps_rules auth_rules)+

lemma auth_protocol [auth_rules]:
  "keeps (\<lambda>s. Q (sn_auth_data s)) (create_protocol_object pf v)"
  "keeps (\<lambda>s. Q (sn_auth_data s)) (select_uv_proto pf info)"
  "keeps (\<lambda>s. Q (sn_auth_data s)) (pin_encrypt pf p key plaintext)"
  "keeps (\<lambda>s. Q (sn_auth_data s)) (obtain_shared_secret pf p timeout)"
  "keeps (\<lambda>s. Q (sn_auth_data s)) (obtain_pin pf info v reason timeout)"
  unfolding create_protocol_object_def select_uv_proto_def pin_encrypt_def obtain_shared_secret_def
    obtain_pin_def Let_def
  by (auto intro!: keeps_rules auth_rules split: option.split pin_uv_auth_protocol.split)

lemma auth_change_pin [auth_rules]:
  "keeps (\<lambda>s. Q (sn_auth_data s)) (change_pin_request pf p public_key secret enc old)"
  "keeps (\<lambda>s. Q (sn_auth_data s)) (current_pin pf info p timeout)"
  "keeps (\<lambda>s. Q (sn_auth_data s)) (change_pin_internal pf info pin timeout)"
proof -
  show req: "keeps (\<lambda>s. Q (sn_auth_data s)) (change_pin_request pf p public_key secret enc old)"
    for p public_key secret enc old
    unfolding change_pin_request_def by (auto intro!: keeps_rules auth_rules split: option.split)
  show old: "keeps (\<lambda>s. Q (sn_auth_data s)) (current_pin pf info p timeout)" for p
    unfolding current_pin_def by (auto intro!: keeps_rules auth_rules split: option.split bool.split)
  show "keeps (\<lambda>s. Q (sn_auth_data s)) (change_pin_internal pf info pin timeout)"
    unfolding change_pin_internal_def Let_def
    by (auto intro!: keeps_rules auth_rules req old split: option.split simp: delete_record_def)
qed

lemma auth_set_pin [auth_rules]:
  "keeps (\<lambda>s. Q (sn_auth_data s)) (set_pin_loop pf fuel info reason timeout)"
  by (induction fuel arbitrary: reason)
    (auto intro!: keeps_rules auth_rules split: option.split sum.split unit.split
      webauthn_error.split platform_error.split ctap_error.split)

lemma auth_ensure [auth_rules]:
  "keeps (\<lambda>s. Q (sn_auth_data s)) (try_to_set_pin pf fuel info reason timeout)"
  "keeps (\<lambda>s. Q (sn_auth_data s)) (ensure_uv_protected pf fuel info requirement timeout)"
  unfolding try_to_set_pin_def ensure_uv_protected_def try_to_set_pin_def
  by (intro keeps_rules auth_rules)+

lemma auth_token_request [auth_rules]:
  "keeps (\<lambda>(s, q). Q (sn_auth_data s)) (token_request pf ops p public_key secret pin op)"
  unfolding token_request_def
  by (auto intro!: keeps_rules auth_rules split: uv_operation.split option.split)

lemma auth_uv_acquire:
  "keeps (\<lambda>(s, q). Q (sn_auth_data s)) again \<Longrightarrow>
    keeps (\<lambda>(s, q). Q (sn_auth_data s)) (uv_acquire pf ops cx info blocked p op again)"
  unfolding uv_acquire_def Let_def
  by (auto intro!: keeps_rules auth_rules split: option.split sum.split webauthn_error.split ctap_error.split)

lemma auth_uv_loop [auth_rules]:
  "keeps (\<lambda>(s, q). Q (sn_auth_data s)) (uv_loop pf ops cx fuel info blocked)"
  by (induction fuel arbitrary: info blocked)
    (auto intro!: keeps_rules auth_rules auth_uv_acquire split: option.split)

section \<open>The token data\<close>

text \<open>
  Token data are stored with a token and the permissions it was minted for, or with neither; a
  token has a length its protocol allows, and the permissions name the same protocol.
\<close>

fun token_wf :: "auth_token_data option \<Rightarrow> bool" where
  "token_wf None = True"
| "token_wf (Some d) =
     (case (atd_permission d, atd_pin_uv_auth_token d) of
        (None, None) \<Rightarrow> True
      | (Some p, Some token) \<Rightarrow>
          pin_uv_auth_token_len_valid (atd_protocol_version d) (length token)
          \<and> atp_pin_uv_auth_protocol p = atd_protocol_version d
      | _ \<Rightarrow> False)"

abbreviation session_wf :: "'d session \<Rightarrow> bool" where
  "session_wf s \<equiv> token_wf (sn_auth_data s)"

lemma wf_package: "keeps (\<lambda>(s, q). session_wf s) (package pf ops info a)"
proof -
  have none: "keeps session_wf (store_acquired a None None)"
    unfolding store_acquired_def by (intro keeps_rules) (simp add: session_defs)
  have some: "keeps session_wf (store_acquired a (Some p) (Some token))"
    if "pin_uv_auth_token_len_valid (pp_version (ua_proto a)) (length token)"
      and "atp_pin_uv_auth_protocol p = pp_version (ua_proto a)" for p token
    unfolding store_acquired_def using that by (intro keeps_rules) (simp add: session_defs)
  have persist: "keeps session_wf (persist_minted_token pf info token version)" for token version
    unfolding persist_minted_token_def
    by (auto intro!: keeps_rules auth_rules split: option.split)
  show ?thesis
    unfolding package_def package_token_def Let_def
    by (auto intro!: keeps_rules none some persist split: option.split simp: auth_token_permission_new_def)
qed

lemma wf_helper: "keeps (\<lambda>(s, q). session_wf s) (user_verification_helper pf ops fuel info requirement timeout)"
  unfolding user_verification_helper_def Let_def
  by (intro keeps_rules auth_rules keeps_exit wf_package)

lemma wf_user_verification:
  "keeps (\<lambda>(s, q). session_wf s) (user_verification pf ops fuel requirement timeout)"
  unfolding user_verification_def
  by (auto intro!: keeps_rules auth_rules wf_helper split: option.split prod.split)

section \<open>Ceremonies\<close>

lemma auth_soft_field [auth_rules]:
  "keeps (\<lambda>s. Q (sn_auth_data s)) (soft_field field (ctap2_client_pin pf req timeout))"
  by (intro keeps_rules auth_rules)

lemma wf_handle_errors:
  assumes "keeps (\<lambda>(s, q). session_wf s) again"
  shows "keeps (\<lambda>(s, q). session_wf s) (handle_errors pf note timeout used again resp)"
proof -
  have clear: "keeps session_wf (act_modify session_clear_uv_auth_token_store)"
    "keeps session_wf (act_modify (delete_record rid))" for rid
    by (auto intro!: keeps_rules simp: session_defs delete_record_def)
  show ?thesis
    unfolding handle_errors_def using assms
    by (auto intro!: keeps_rules auth_rules clear split: sum.split webauthn_error.split ctap_error.split
        used_token.split)
qed

lemma wf_verified_loop:
  assumes "\<And>used. keeps (\<lambda>(s, q). session_wf s) (prepare used)"
    and "\<And>q. keeps session_wf (command q)"
  shows "keeps (\<lambda>(s, q). session_wf s) (verified_loop pf ops fuel requirement timeout prepare command note turns)"
  by (induction turns) (auto intro!: keeps_rules wf_user_verification assms wf_handle_errors)

lemma keeps_with_request:
  "keeps (\<lambda>(s, q). P s) m \<Longrightarrow> keeps P (with_request q m)"
  unfolding keeps_def with_request_def by (auto split: option.splits sum.splits prod.splits) metis+

lemma auth_commands [auth_rules]:
  "keeps (\<lambda>s. Q (sn_auth_data s)) (ctap2_make_credential pf enc dec q timeout)"
  "keeps (\<lambda>s. Q (sn_auth_data s)) (ctap2_get_assertion pf enc dec q timeout)"
  "keeps (\<lambda>s. Q (sn_auth_data s)) (ctap2_get_next_assertion pf dec timeout)"
  "keeps (\<lambda>s. Q (sn_auth_data s)) (ctap2_large_blobs pf enc' dec' dflt q' timeout)"
  unfolding ctap2_make_credential_def ctap2_get_assertion_def ctap2_get_next_assertion_def
    ctap2_large_blobs_def
  by (intro keeps_rules auth_rules)+

lemma auth_presence [auth_rules]: "keeps (\<lambda>s. Q (sn_auth_data s)) (announce_presence used)"
  unfolding announce_presence_def by (intro keeps_rules auth_rules)

lemma auth_prepare [auth_rules]:
  "keeps (\<lambda>(s, q). Q (sn_auth_data s)) (mc_prepare pf used)"
  "keeps (\<lambda>(s, q). Q (sn_auth_data s)) (ga_prepare pf tc allow used)"
proof -
  have input: "keeps (\<lambda>s. Q (sn_auth_data s)) (calculate_hmac_input pf d i)" for d i
    unfolding calculate_hmac_input_def
    by (auto intro!: keeps_rules auth_rules split: sum.split)
  have hmac: "keeps (\<lambda>s. Q (sn_auth_data s)) (calculate_hmac pf tc allow d e)"
    "keeps (\<lambda>s. Q (sn_auth_data s)) (calculate_hmac_secret_mc pf d e')" for d e e'
    unfolding calculate_hmac_def calculate_hmac_secret_mc_def Let_def
    by (auto intro!: keeps_rules input split: option.split)
  have get: "keeps P (act_get f)" for P :: "'s \<Rightarrow> bool" and f by (rule keeps_rules)
  show "keeps (\<lambda>(s, q). Q (sn_auth_data s)) (mc_prepare pf used)"
    "keeps (\<lambda>(s, q). Q (sn_auth_data s)) (ga_prepare pf tc allow used)"
    unfolding mc_prepare_def mc_encrypt_prf_def ga_prepare_def ga_encrypt_prf_def
    by (auto intro!: keeps_rules auth_rules hmac split: option.split prod.split)
qed

lemma auth_preflight [auth_rules]:
  "keeps (\<lambda>s. Q (sn_auth_data s)) (ctap2_preflight_with_appid pf E ds hash rp appid)"
proof -
  have one: "keeps (\<lambda>s. Q (sn_auth_data s)) (preflight_one pf E d hash rp)" for d rp
    unfolding preflight_one_def
    by (auto intro!: keeps_rules auth_rules split: sum.split webauthn_error.split ctap_error.split)
  show ?thesis
    by (induction ds) (auto intro!: keeps_rules one simp: preflight_either_def split: option.split)
qed

lemma keeps_map_err [keeps_rules]: "keeps P m \<Longrightarrow> keeps P (act_map_err h m)"
  unfolding act_map_err_def by (intro keeps_rules)

lemma auth_blob_loops [auth_rules]:
  "keeps (\<lambda>s. Q (sn_auth_data s)) (large_blobs_exchange pf B req timeout)"
  "keeps (\<lambda>s. Q (sn_auth_data s)) (fetch_serialized_array pf B fuel max_fragment timeout)"
  "keeps (\<lambda>s. Q (sn_auth_data s)) (upload_serialized_array pf B fuel serialized max_fragment auth timeout)"
proof -
  show exchange: "keeps (\<lambda>s. Q (sn_auth_data s)) (large_blobs_exchange pf B req timeout)" for req
    unfolding large_blobs_exchange_def by (intro keeps_rules auth_rules)
  have fetch: "keeps (\<lambda>s. Q (sn_auth_data s)) (fetch_loop pf B fuel max_fragment timeout offset out)"
    for fuel offset out
    by (induction fuel arbitrary: offset out)
      (auto intro!: keeps_rules exchange simp: Let_def split: option.split)
  then show "keeps (\<lambda>s. Q (sn_auth_data s)) (fetch_serialized_array pf B fuel max_fragment timeout)"
    by (simp add: fetch_serialized_array_def)
  have upload: "keeps (\<lambda>s. Q (sn_auth_data s)) (upload_loop pf B fuel serialized max_fragment auth timeout offset)"
    for fuel offset auth
    by (induction fuel arbitrary: offset)
      (auto intro!: keeps_rules exchange simp: Let_def split: option.split)
  show "keeps (\<lambda>s. Q (sn_auth_data s)) (upload_serialized_array pf B fuel serialized max_fragment auth timeout)"
    unfolding upload_serialized_array_def
    by (auto intro!: keeps_rules auth_rules upload split: option.split prod.split)
qed

lemma auth_blobs [auth_rules]:
  "keeps (\<lambda>s. Q (sn_auth_data s)) (fetch_large_blob_entries pf B fuel max_fragment timeout)"
  "keeps (\<lambda>s. Q (sn_auth_data s)) (write_authenticator_large_blob pf B fuel key blob max_fragment auth timeout)"
  "keeps (\<lambda>s. Q (sn_auth_data s)) (delete_authenticator_large_blob pf B fuel key max_fragment auth timeout)"
  unfolding fetch_large_blob_entries_def write_authenticator_large_blob_def delete_authenticator_large_blob_def
    fetch_or_initial_def
  by (auto intro!: keeps_rules auth_rules split: sum.split)

lemma auth_blob_outputs [auth_rules]:
  "keeps (\<lambda>s. Q (sn_auth_data s)) (large_blob_outputs pf E fuel info r responses)"
proof -
  have first: "keeps (\<lambda>s. Q (sn_auth_data s)) (write_or_delete_for_first pf B fuel resp auth max_fragment timeout op)"
    for B resp auth max_fragment timeout op
    unfolding write_or_delete_for_first_def Let_def
    by (cases op) (auto intro!: keeps_rules auth_rules split: option.split)
  have outputs: "keeps (\<lambda>s. Q (sn_auth_data s)) (write_outputs pf B fuel max_fragment timeout op rs)"
    for B max_fragment timeout op rs
    unfolding write_outputs_def by (auto intro!: keeps_rules first split: list.split)
  show ?thesis
    unfolding large_blob_outputs_def Let_def
    by (auto intro!: keeps_rules auth_rules outputs split: option.split large_blob_extension.split)
qed

lemma wf_make_credential_fido2: "keeps session_wf (make_credential_fido2 pf E fu r)"
  unfolding make_credential_fido2_def mc_preflight_def
  by (auto intro!: keeps_rules auth_rules keeps_with_request wf_verified_loop split: option.split prod.split)

lemma wf_get_assertion_fido2: "keeps session_wf (get_assertion_fido2 pf E fu r)"
proof -
  have more: "keeps (\<lambda>s. Q (sn_auth_data s)) (next_assertions pf E r n)" for Q n
    by (induction n) (auto intro!: keeps_rules auth_rules)
  have preflight: "keeps (\<lambda>s. Q (sn_auth_data s)) (ga_preflight pf E r q)" for Q q
    unfolding ga_preflight_def ctap2_preflight_def by (auto intro!: keeps_rules auth_rules)
  show ?thesis
    unfolding get_assertion_fido2_def collect_assertions_def
    by (auto intro!: keeps_rules auth_rules keeps_with_request wf_verified_loop more preflight split: prod.split)
qed

lemma auth_u2f [auth_rules]:
  "keeps (\<lambda>s. Q (sn_auth_data s)) (make_credential_u2f pf E fu r)"
  "keeps (\<lambda>s. Q (sn_auth_data s)) (get_assertion_u2f pf E fu r')"
  "keeps (\<lambda>s. Q (sn_auth_data s)) (negotiate_protocol pf E allow_u2f)"
proof -
  have wait: "keeps (\<lambda>s. Q (sn_auth_data s)) (send_apdu_request_wait_uv pf turns req timeout)" for turns req timeout
    by (induction turns) (auto intro!: keeps_rules auth_rules simp: send_apdu_request_wait_uv.simps Let_def split: sum.split)
  have sign: "keeps (\<lambda>s. Q (sn_auth_data s)) (ctap1_sign pf turns req)" for turns req
    unfolding ctap1_sign_def by (intro keeps_rules auth_rules wait)
  have keys: "keeps (\<lambda>s. Q (sn_auth_data s)) (ctap1_preflight_keys pf turns reqs)" for turns reqs
    by (induction reqs) (auto intro!: keeps_rules sign split: sum.split)
  have any: "keeps (\<lambda>s. Q (sn_auth_data s)) (u2f_sign_any pf E turns h reqs)" for turns h reqs
    by (induction reqs) (auto intro!: keeps_rules sign split: sum.split webauthn_error.split ctap_error.split)
  show "keeps (\<lambda>s. Q (sn_auth_data s)) (make_credential_u2f pf E fu r)"
    unfolding make_credential_u2f_def ctap1_register_def by (intro keeps_rules auth_rules keys wait)
  show "keeps (\<lambda>s. Q (sn_auth_data s)) (get_assertion_u2f pf E fu r')"
    unfolding get_assertion_u2f_def by (intro keeps_rules any)
  show "keeps (\<lambda>s. Q (sn_auth_data s)) (negotiate_protocol pf E allow_u2f)"
    unfolding negotiate_protocol_def supported_protocols_def ctap1_version_checked_def ctap1_version_def
    by (auto intro!: keeps_rules auth_rules wait split: sum.split)
qed

lemma wf_ceremonies:
  "keeps session_wf (webauthn_make_credential pf E fu r)"
  "keeps session_wf (webauthn_get_assertion pf E fu r')"
  unfolding webauthn_make_credential_def webauthn_get_assertion_def Let_def
  by (auto intro!: keeps_rules auth_rules wf_make_credential_fido2 wf_get_assertion_fido2
      split: fido_protocol.split)

section \<open>The turns of a ceremony\<close>

text \<open>
  Two runs of a turn that differ in the turns after it are compared by a relation \<open>R\<close> on outcomes: a
  relation that holds of an outcome and itself, and of no outcome (fuel run out) if an action of the
  turn can run out of fuel.  Equality is one, and \<open>\<lambda>x y. x \<noteq> None\<close> is one when none can.
\<close>

definition compares :: "('r option \<Rightarrow> 'r option \<Rightarrow> bool) \<Rightarrow> bool \<Rightarrow> bool" where
  "compares R rets \<longleftrightarrow> (\<forall>x. R (Some x) (Some x)) \<and> (rets \<or> R None None)"

lemma compares_run:
  "compares R rets \<Longrightarrow> (rets \<Longrightarrow> x \<noteq> None) \<Longrightarrow> R x x"
  by (cases x) (auto simp: compares_def)

lemma compares_bind:
  assumes "compares R rets" and "rets \<Longrightarrow> returns m"
    and "\<And>x s'. m s = Some (Inr x, s') \<Longrightarrow> R (f x s') (g x s')"
  shows "R (act_bind m f s) (act_bind m g s)"
proof (cases "m s")
  case None
  then have "\<not> rets" using assms(2) unfolding returns_def by blast
  with None show ?thesis using assms(1) by (simp add: act_bind_def compares_def)
next
  case (Some z)
  then show ?thesis using assms(1,3) by (auto simp: act_bind_def compares_def split: sum.split prod.split)
qed

lemma compares_try:
  assumes "compares R rets" and "rets \<Longrightarrow> returns m"
    and "\<And>r s'. m s = Some (r, s') \<Longrightarrow> R (f r s') (g r s')"
  shows "R (act_try m f s) (act_try m g s)"
proof (cases "m s")
  case None
  then have "\<not> rets" using assms(2) unfolding returns_def by blast
  with None show ?thesis using assms(1) by (simp add: act_try_def compares_def)
next
  case (Some z)
  then show ?thesis using assms(1,3) by (auto simp: act_try_def compares_def split: prod.split)
qed

text \<open>
  Without token data no verification ends with a token from the session, and one that ends with a
  persistent token leaves the session without.
\<close>

lemma helper_not_stored:
  assumes "yields (user_verification_helper pf ops fuel info requirement timeout) used"
  shows "used \<noteq> FromEphemeralStorage" "used \<noteq> FromPersistentStorage rid"
  using helper_yields [where K = "\<lambda>_. True", OF assms] by (auto split: if_splits)

lemma verification_without_data:
  fixes pf :: "('d, 'te) platform"
  shows "ends (\<lambda>(s, q). sn_auth_data s = None) (user_verification pf ops fuel requirement timeout)
     (\<lambda>r st. r \<noteq> Inr FromEphemeralStorage
       \<and> ((\<exists>rid. r = Inr (FromPersistentStorage rid)) \<longrightarrow> sn_auth_data (fst st) = None))"
    (is "ends ?P _ ?R")
proof -
  have helper: "ends ?P (user_verification_helper pf ops fuel info requirement timeout) ?R" for info
  proof (rule endsI)
    fix st r st'
    assume run: "user_verification_helper pf ops fuel info requirement timeout st = Some (r, st')"
    have "yields (user_verification_helper pf ops fuel info requirement timeout) u" if "r = Inr u" for u
      using run that unfolding yields_def by blast
    then have "r \<noteq> Inr FromEphemeralStorage \<and> (\<forall>rid. r \<noteq> Inr (FromPersistentStorage rid))"
      using helper_not_stored(1) [of pf ops fuel info requirement timeout]
        helper_not_stored(2) [of pf ops fuel info requirement timeout]
      by (cases r) (simp, metis)
    then show "?R r st'" by simp
  qed
  note none = auth_rules [where Q = "\<lambda>a. a = None"]
  have cached: "get_uv_auth_token (session_get_auth_data s) p = None" if "sn_auth_data s = None" for s :: "'d session" and p
    using that by (simp add: get_uv_auth_token_def session_get_auth_data_def)
  have tail: "ends ?P
      (act_bind
        (case proto of
           None \<Rightarrow> act_return None
         | Some p \<Rightarrow>
             act_get (\<lambda>(s, q). map_option (\<lambda>token. (pp_version p, token))
               (get_uv_auth_token (session_get_auth_data s)
                 (auth_token_permission_new (pp_version p) (uq_permissions ops q) (uq_permissions_rpid ops q))))) (\<lambda>cached.
       case cached of
         Some (version, token) \<Rightarrow> act_bind (set_uv_auth pf ops version token) (\<lambda>_. act_return FromEphemeralStorage)
       | None \<Rightarrow> user_verification_helper pf ops fuel info requirement timeout)) ?R" for proto info
    by (cases proto) (auto intro!: ends_get ends_weaken [OF helper] simp: cached helper)
  have persistent: "ends ?P (act_return (FromPersistentStorage rid)) ?R" for rid
    by (auto simp: ends_def act_return_def)
  show ?thesis
    unfolding user_verification_def
    by (intro ends_bind) (auto intro!: keeps_rules none ends_bind tail persistent split: option.split)
qed

lemma turn_compares:
  fixes pf :: "('d, 'te) platform" and ops :: "'q uv_request"
    and command :: "'q \<Rightarrow> ('d, 'te, 'r) ceremony" and fuel requirement timeout prepare rejected
  defines "again turns \<equiv> verified_loop pf ops fuel requirement timeout prepare command rejected turns"
  assumes R: "compares R rets"
    and total: "rets \<Longrightarrow> returns (user_verification pf ops fuel requirement timeout)"
      "\<And>used. rets \<Longrightarrow> returns (prepare used)" "\<And>q. rets \<Longrightarrow> returns (command q)"
    and clear: "\<And>st1 s q s3. user_verification pf ops fuel requirement timeout st = Some (Inr FromEphemeralStorage, st1)
      \<Longrightarrow> prepare FromEphemeralStorage st1 = Some (Inr (), (s, q)) \<Longrightarrow> command q s = Some (Inl (We_Ctap Ctap_PINAuthInvalid), s3)
      \<Longrightarrow> R (again n (session_clear_uv_auth_token_store s3, q)) (again m (session_clear_uv_auth_token_store s3, q))"
    and drop: "\<And>rid st1 s q s3. user_verification pf ops fuel requirement timeout st = Some (Inr (FromPersistentStorage rid), st1)
      \<Longrightarrow> prepare (FromPersistentStorage rid) st1 = Some (Inr (), (s, q)) \<Longrightarrow> command q s = Some (Inl (We_Ctap Ctap_PINAuthInvalid), s3)
      \<Longrightarrow> R (again n (delete_record rid s3, rejected q)) (again m (delete_record rid s3, rejected q))"
  shows "R (verified_loop pf ops fuel requirement timeout prepare command rejected (Suc n) st)
    (verified_loop pf ops fuel requirement timeout prepare command rejected (Suc m) st)"
proof -
  have same: "R (x s) (x s)" if "returns x" for x :: "('d session \<times> 'q, 'te webauthn_error, 'r) action" and s
    using compares_run [OF R, of "x s"] that unfolding returns_def by blast
  have errors: "R (handle_errors pf rejected timeout used (again n) resp (s3, q))
      (handle_errors pf rejected timeout used (again m) resp (s3, q))"
    if run: "user_verification pf ops fuel requirement timeout st = Some (Inr used, st1)"
      "prepare used st1 = Some (Inr (), (s, q))" "command q s = Some (resp, s3)"
    for used resp st1 s q s3
  proof (cases "resp = Inl (We_Ctap Ctap_PINAuthInvalid) \<and> (used = FromEphemeralStorage \<or> (\<exists>rid. used = FromPersistentStorage rid))")
    case True
    with clear [of st1 s q s3] drop [of _ st1 s q s3] run show ?thesis
      by (auto simp: handle_errors_def act_bind_def on_session_def request_modify_def act_run)
  next
    case False
    then have eq: "handle_errors pf rejected timeout used (again n) resp = handle_errors pf rejected timeout used (again m) resp"
      by (auto simp: handle_errors_def split: sum.split webauthn_error.split ctap_error.split used_token.split)
    have "returns (handle_errors pf rejected timeout used (again m) resp)"
      using False unfolding handle_errors_def
      by (auto intro!: returns_rules split: sum.split webauthn_error.split ctap_error.split used_token.split)
    with eq same show ?thesis by metis
  qed
  show ?thesis
    unfolding verified_loop.simps
  proof (intro compares_bind [OF R] compares_try [OF R] total returns_rules)
    fix used st1 u st2 q st2' resp st3
    assume *: "user_verification pf ops fuel requirement timeout st = Some (Inr used, st1)"
      "prepare used st1 = Some (Inr u, st2)" "request_get (\<lambda>q. q) st2 = Some (Inr q, st2')"
      "on_session (command q) st2' = Some (resp, st3)"
    obtain s3 where s3: "st3 = (s3, q)" "command q (fst st2) = Some (resp, s3)" "st2 = (fst st2, q)"
      using * by (cases st2) (auto simp: request_get_def act_run on_session_def)
    with *(1,2) errors [of used st1 "fst st2" q resp s3]
    show "R (handle_errors pf rejected timeout used
        (verified_loop pf ops fuel requirement timeout prepare command rejected n) resp st3)
      (handle_errors pf rejected timeout used
        (verified_loop pf ops fuel requirement timeout prepare command rejected m) resp st3)"
      by (simp add: again_def)
  qed
qed

text \<open>
  The contract of a request towards the flow: an invariant of the request, kept by each method that
  updates it.
\<close>

locale request_invariant =
  fixes ops :: "'q uv_request"
    and inv :: "'q \<Rightarrow> bool"
  assumes inv_ensure: "inv q \<Longrightarrow> inv (uq_ensure_uv_set ops q)"
    and inv_auth: "inv q \<Longrightarrow> uq_calculate_and_set_uv_auth ops c v token q = Inr q' \<Longrightarrow> inv q'"
    and inv_legacy: "inv q \<Longrightarrow> inv (uq_handle_legacy_preview ops info q)"
    and inv_use: "inv q \<Longrightarrow> inv (uq_set_persistent_token_use ops info available q)"
begin

lemma inv_session: "keeps (\<lambda>(s, q). inv q) (on_session m)"
  by (auto simp: keeps_def on_session_def)

lemma inv_request:
  "keeps (\<lambda>(s, q). inv q) (request_get f)"
  "keeps (\<lambda>(s, q). inv q) (request_modify (uq_ensure_uv_set ops))"
  "keeps (\<lambda>(s, q). inv q) (request_modify (uq_handle_legacy_preview ops info))"
  "keeps (\<lambda>(s, q). inv q) (request_modify (uq_set_persistent_token_use ops info available))"
  "keeps (\<lambda>(s, q). inv q) (set_uv_auth pf ops v token)"
  by (auto simp: request_get_def request_modify_def set_uv_auth_def keeps_def act_run
      intro: inv_ensure inv_legacy inv_use inv_auth split: sum.splits)

lemmas inv_rules = keeps_run keeps_bind keeps_try keeps_cases inv_session inv_request

lemma inv_uv_loop: "keeps (\<lambda>(s, q). inv q) (uv_loop pf ops cx fuel info blocked)"
proof (induction fuel arbitrary: info blocked)
  case 0
  show ?case by (simp add: keeps_run)
next
  case (Suc fuel)
  have token: "keeps (\<lambda>(s, q). inv q) (token_request pf ops p public_key secret pin op)"
    for p public_key secret pin op
    unfolding token_request_def by (auto intro!: inv_rules split: uv_operation.split option.split)
  have acquire: "keeps (\<lambda>(s, q). inv q) (uv_acquire pf ops cx info blocked p op (uv_loop pf ops cx fuel info True))"
    for info blocked p op
    unfolding uv_acquire_def Let_def
    by (auto intro!: inv_rules token Suc.IH split: option.split sum.split webauthn_error.split ctap_error.split)
  show ?case
    unfolding uv_loop.simps Let_def
    by (auto intro!: inv_rules acquire Suc.IH split: option.split)
qed

lemma inv_verification:
  "keeps (\<lambda>(s, q). inv q) (user_verification pf ops fuel requirement timeout)"
proof -
  have package: "keeps (\<lambda>(s, q). inv q) (package pf ops info a)" for info a
    unfolding package_def package_token_def Let_def by (auto intro!: inv_rules split: option.split)
  show ?thesis
    unfolding user_verification_def user_verification_helper_def Let_def
    by (auto intro!: inv_rules inv_uv_loop package keeps_exit split: option.split prod.split)
qed

text \<open>
  What the loop returns is the answer of its last turn: verification, preparation, and the command
  run on a request with the invariant.
\<close>

lemma loop_last_turn:
  assumes "verified_loop pf ops fuel requirement timeout prepare command rejected turns (s, q) = Some (Inr x, (s', q'))"
    and "inv q" and prepare: "\<And>used. keeps (\<lambda>(s, q). inv q) (prepare used)"
    and rejected: "\<And>q. inv q \<Longrightarrow> inv (rejected q)"
  shows "\<exists>s0 q0 used s1 q1 s2. inv q0 \<and> inv q'
    \<and> user_verification pf ops fuel requirement timeout (s0, q0) = Some (Inr used, (s1, q1))
    \<and> prepare used (s1, q1) = Some (Inr (), (s2, q')) \<and> command q' s2 = Some (Inr x, s')"
  using assms(1,2)
proof (induction turns arbitrary: s q)
  case 0
  then show ?case by simp
next
  case (Suc turns)
  from Suc.prems(1) obtain used s1 q1 s2 q2 resp s3 where
    run: "user_verification pf ops fuel requirement timeout (s, q) = Some (Inr used, (s1, q1))"
      "prepare used (s1, q1) = Some (Inr (), (s2, q2))" "command q2 s2 = Some (resp, s3)"
    and rest: "handle_errors pf rejected timeout used
        (verified_loop pf ops fuel requirement timeout prepare command rejected turns) resp (s3, q2)
      = Some (Inr x, (s', q'))"
    by (auto elim!: act_bind_InrE simp: act_try_def on_session_def request_get_def act_run split: option.splits)
  have inv: "inv q2"
    using keepsD [OF inv_verification _ run(1)] keepsD [OF prepare _ run(2)] Suc.prems(2) by auto
  have again: "?case" if "verified_loop pf ops fuel requirement timeout prepare command rejected turns (s4, q4)
      = Some (Inr x, (s', q'))" "inv q4" for s4 q4
    using Suc.IH [OF that] .
  show ?case
  proof (cases "resp = Inr x \<and> s' = s3 \<and> q' = q2")
    case True
    then show ?thesis using run inv Suc.prems(2) by blast
  next
    case False
    then obtain s4 q4 where "verified_loop pf ops fuel requirement timeout prepare command rejected turns (s4, q4)
        = Some (Inr x, (s', q'))" "inv q4"
      using rest inv rejected [OF inv] unfolding handle_errors_def
      by (auto elim!: act_bind_InrE simp: on_session_def request_modify_def act_run
          split: sum.splits webauthn_error.splits ctap_error.splits used_token.splits)
    then show ?thesis by (rule again)
  qed
qed

lemma loop_answers:
  assumes "verified_loop pf ops fuel requirement timeout prepare command rejected turns (s, q) = Some (Inr x, (s', q'))"
    and "inv q" and "\<And>used. keeps (\<lambda>(s, q). inv q) (prepare used)" and "\<And>q. inv q \<Longrightarrow> inv (rejected q)"
  shows "inv q' \<and> (\<exists>s1. command q' s1 = Some (Inr x, s'))"
  using loop_last_turn [OF assms] by blast

text \<open>
  The token with which a request is authenticated: the request had the invariant before, and unless
  it asks for a persistent token, the session has the token with the permissions of the request.
\<close>

lemma inv_package_token:
  assumes "package_token pf ops info a (s, q) = Some (Inr used, (s', q'))" "inv q"
  shows "\<exists>v token q1. inv q1 \<and> uq_calculate_and_set_uv_auth ops (pf_crypto pf) v token q1 = Inr q'
    \<and> (\<not> uq_wants_persistent_token ops q1 \<longrightarrow> get_uv_auth_token (session_get_auth_data s')
         (auth_token_permission_new v (uq_permissions ops q1) (uq_permissions_rpid ops q1)) = Some token)"
proof -
  obtain token where set: "uq_calculate_and_set_uv_auth ops (pf_crypto pf) (pp_version (ua_proto a)) token q = Inr q'"
    and stored: "\<not> uq_wants_persistent_token ops q \<Longrightarrow>
      s' = session_store_auth_data (store_auth_token (auth_token_data_new (ua_shared_secret a) (pp_version (ua_proto a))
        (ua_public_key a) (ua_operation a)) (auth_token_permission_new (pp_version (ua_proto a))
          (uq_permissions ops q) (uq_permissions_rpid ops q)) token) s"
    using assms(1) unfolding package_token_def Let_def
    by (auto simp: act_simps request_get_def on_session_def store_acquired_def store_auth_token_def
        auth_token_data_new_def set_uv_auth_def split: option.splits if_splits sum.splits
        elim!: act_bind_InrE)
  have "get_uv_auth_token (session_get_auth_data s') (auth_token_permission_new (pp_version (ua_proto a))
      (uq_permissions ops q) (uq_permissions_rpid ops q)) = Some token" if "\<not> uq_wants_persistent_token ops q"
    unfolding stored [OF that]
    by (simp add: session.reuse_stored auth_token_permission_contains_def auth_token_permission_new_def role_contains_def)
  with set assms(2) show ?thesis by blast
qed

lemma inv_authorised:
  "leads (\<lambda>(s, q). inv q) (user_verification pf ops fuel requirement timeout)
    (\<lambda>used (s, q'). used \<in> {FromEphemeralStorage} \<union> range NewlyCalculated \<union> range FromPersistentStorage \<longrightarrow>
      (\<exists>v token q. inv q \<and> uq_calculate_and_set_uv_auth ops (pf_crypto pf) v token q = Inr q'
        \<and> (used \<notin> range FromPersistentStorage \<and> \<not> uq_wants_persistent_token ops q \<longrightarrow>
            get_uv_auth_token (session_get_auth_data s)
              (auth_token_permission_new v (uq_permissions ops q) (uq_permissions_rpid ops q)) = Some token)))"
    (is "leads ?I _ ?R")
proof -
  have package: "leads ?I (package pf ops info a) ?R" for info a
    unfolding leads_def
  proof (intro allI impI)
    fix st st' used
    assume *: "?I st" "package pf ops info a st = Some (Inr used, st')"
    show "?R used st'"
    proof (cases "ua_operation a = OnlyForSharedSecret \<or> ua_operation a = LegacyUv")
      case True
      then show ?thesis using * by (auto simp: package_def act_run elim!: act_bind_InrE split: if_splits)
    next
      case False
      then have "package_token pf ops info a st = Some (Inr used, st')" using *(2) by (simp add: package_def)
      then show ?thesis using inv_package_token [of pf info a "fst st" "snd st" used "fst st'" "snd st'"] *(1)
        by (cases st; cases st') auto
    qed
  qed
  have exit: "leads ?I (case exit of Loop_Return used \<Rightarrow> act_return used | Loop_Break a \<Rightarrow> package pf ops info a) ?R"
    if "\<And>used. exit = Loop_Return used \<Longrightarrow> used = Used_LegacyUV" for exit info
    using that package by (cases exit) (auto intro!: leads_run)
  have helper: "leads ?I (user_verification_helper pf ops fuel info requirement timeout) ?R" for info
    unfolding user_verification_helper_def Let_def
    by (intro leads_quiet leads_cases inv_rules inv_uv_loop leads_run exit)
      (auto dest: uv_loop_yields [where K = "\<lambda>_. True"])
  have persistent: "leads ?I (act_bind (set_uv_auth pf ops v token) (\<lambda>_. act_return (FromPersistentStorage rid))) ?R"
    for v token rid
    by (auto simp: leads_def set_uv_auth_def act_bind_def act_run split: sum.splits)
  have cached: "leads ?I
     (act_bind
           (case proto of
              None \<Rightarrow> act_return None
            | Some p \<Rightarrow>
                act_get (\<lambda>(s, q). map_option (\<lambda>token. (pp_version p, token))
                  (get_uv_auth_token (session_get_auth_data s)
                    (auth_token_permission_new (pp_version p) (uq_permissions ops q)
                      (uq_permissions_rpid ops q))))) (\<lambda>cached.
         case cached of
           Some (version, token) \<Rightarrow>
             act_bind (set_uv_auth pf ops version token) (\<lambda>_. act_return FromEphemeralStorage)
         | None \<Rightarrow> user_verification_helper pf ops fuel info requirement timeout)) ?R" for proto info
    using helper [of info]
    by (cases proto) (auto simp: leads_def set_uv_auth_def act_bind_def act_run split: sum.splits option.splits prod.splits)
  show ?thesis
    unfolding user_verification_def
    by (intro leads_quiet leads_cases inv_rules persistent cached)
qed

end

text \<open>
  Towards the loop: a request is \<open>settled\<close> when it does not ask for a stored persistent token, or no
  longer does.
\<close>

locale fresh_request = request_invariant ops settled for ops :: "'q uv_request" and settled +
  assumes settled_no_reuse: "settled q \<Longrightarrow> \<not> uq_wants_persistent_token ops q \<or> uq_persistent_token_rejected ops q"
begin

lemma ends_request_get:
  "(\<And>s q. P (s, q) \<Longrightarrow> ends P (f (g q)) R) \<Longrightarrow> ends P (act_bind (request_get g) f) R"
  by (auto simp: ends_def act_bind_def request_get_def act_run)

lemma settled_not_persistent:
  "ends (\<lambda>(s, q). settled q) (user_verification pf ops fuel requirement timeout)
     (\<lambda>r st. \<forall>rid. r \<noteq> Inr (FromPersistentStorage rid))"
    (is "ends ?P _ ?R")
proof -
  have helper: "ends P (user_verification_helper pf ops fuel info requirement timeout) ?R" for P info
  proof (rule endsI)
    fix st r st'
    assume run: "user_verification_helper pf ops fuel info requirement timeout st = Some (r, st')"
    have "yields (user_verification_helper pf ops fuel info requirement timeout) u" if "r = Inr u" for u
      using run that unfolding yields_def by blast
    then show "?R r st'"
      using helper_not_stored(2) [of pf ops fuel info requirement timeout] by (cases r) (simp, metis)
  qed
  have stored: "ends ?P (act_return FromEphemeralStorage) ?R"
    by (simp add: ends_def act_run)
  have cached: "ends ?P (case c of
      Some (version, token) \<Rightarrow> act_bind (set_uv_auth pf ops version token) (\<lambda>_. act_return FromEphemeralStorage)
    | None \<Rightarrow> user_verification_helper pf ops fuel info requirement timeout) ?R" for c info
    by (auto intro!: ends_bind helper stored inv_rules split: option.split)
  have tail: "ends ?P (case (if reuse then recognized else None) of
       Some (rid, r) \<Rightarrow>
         act_bind (on_session (create_protocol_object pf (ptr_pin_uv_auth_protocol r))) (\<lambda>p.
         act_bind (set_uv_auth pf ops (pp_version p) (ptr_persistent_token r)) (\<lambda>_.
         act_return (FromPersistentStorage rid)))
     | None \<Rightarrow>
         act_bind (on_session (select_uv_proto pf info)) (\<lambda>proto.
         act_bind
           (case proto of
              None \<Rightarrow> act_return None
            | Some p \<Rightarrow>
                act_get (\<lambda>(s, q). map_option (\<lambda>token. (pp_version p, token))
                  (get_uv_auth_token (session_get_auth_data s)
                    (auth_token_permission_new (pp_version p) (uq_permissions ops q)
                      (uq_permissions_rpid ops q))))) (\<lambda>cached.
         case cached of
           Some (version, token) \<Rightarrow>
             act_bind (set_uv_auth pf ops version token) (\<lambda>_. act_return FromEphemeralStorage)
         | None \<Rightarrow> user_verification_helper pf ops fuel info requirement timeout))) ?R"
    if "\<not> reuse" for reuse recognized info
    using that by (auto intro!: ends_bind inv_rules cached split: option.split)
  show ?thesis
    unfolding user_verification_def
    by (intro ends_request_get ends_bind inv_rules tail)
      (use settled_no_reuse in auto)
qed

text \<open>
  The number of turns: one from a session without token data and a settled request; a rejected
  session token and a rejected persistent token cost a further turn each.
\<close>

lemma one_turn:
  assumes R: "compares R rets"
    and total: "rets \<Longrightarrow> returns (user_verification pf ops fuel requirement timeout)"
      "\<And>used. rets \<Longrightarrow> returns (prepare used)" "\<And>q. rets \<Longrightarrow> returns (command q)"
    and start: "sn_auth_data s = None" "settled q"
  shows "R (verified_loop pf ops fuel requirement timeout prepare command rejected (Suc n) (s, q))
    (verified_loop pf ops fuel requirement timeout prepare command rejected (Suc m) (s, q))"
proof (rule turn_compares [OF R total])
  fix st1
  assume "user_verification pf ops fuel requirement timeout (s, q) = Some (Inr FromEphemeralStorage, st1)"
  from endsD [OF verification_without_data _ this] start(1) show
    "R (verified_loop pf ops fuel requirement timeout prepare command rejected n st)
      (verified_loop pf ops fuel requirement timeout prepare command rejected m st)" for st by simp
next
  fix rid st1
  assume "user_verification pf ops fuel requirement timeout (s, q) = Some (Inr (FromPersistentStorage rid), st1)"
  from endsD [OF settled_not_persistent _ this] start(2) show
    "R (verified_loop pf ops fuel requirement timeout prepare command rejected n st)
      (verified_loop pf ops fuel requirement timeout prepare command rejected m st)" for st by simp
qed

lemma two_turns_settled:
  assumes R: "compares R rets"
    and total: "rets \<Longrightarrow> returns (user_verification pf ops fuel requirement timeout)"
      "\<And>used. rets \<Longrightarrow> returns (prepare used)" "\<And>q. rets \<Longrightarrow> returns (command q)"
    and q: "settled q" and prepare: "\<And>used. keeps (\<lambda>(s, q). settled q) (prepare used)"
  shows "R (verified_loop pf ops fuel requirement timeout prepare command rejected (Suc (Suc n)) (s, q))
    (verified_loop pf ops fuel requirement timeout prepare command rejected (Suc (Suc m)) (s, q))"
proof (rule turn_compares [OF R total])
  fix st1 s2 q2 s3
  assume run: "user_verification pf ops fuel requirement timeout (s, q) = Some (Inr FromEphemeralStorage, st1)"
    "prepare FromEphemeralStorage st1 = Some (Inr (), (s2, q2))"
  have "settled q2"
    using keepsD [OF inv_verification _ run(1)] keepsD [OF prepare _ run(2)] q by auto
  then show "R (verified_loop pf ops fuel requirement timeout prepare command rejected (Suc n)
      (session_clear_uv_auth_token_store s3, q2))
    (verified_loop pf ops fuel requirement timeout prepare command rejected (Suc m)
      (session_clear_uv_auth_token_store s3, q2))"
    by (intro one_turn [OF R total]) (simp_all add: session_defs)
next
  fix rid st1
  assume "user_verification pf ops fuel requirement timeout (s, q) = Some (Inr (FromPersistentStorage rid), st1)"
  from endsD [OF settled_not_persistent _ this] q show
    "R (verified_loop pf ops fuel requirement timeout prepare command rejected (Suc n) st)
      (verified_loop pf ops fuel requirement timeout prepare command rejected (Suc m) st)" for st by simp
qed

end

text \<open>A request that is settled by what it is told about a rejected persistent token.\<close>

locale verifiable_request = fresh_request ops settled for ops :: "'q uv_request" and settled +
  fixes note_rejected :: "'q \<Rightarrow> 'q"
  assumes settled_note: "settled (note_rejected q)"
begin

lemma two_turns_without_data:
  assumes R: "compares R rets"
    and total: "rets \<Longrightarrow> returns (user_verification pf ops fuel requirement timeout)"
      "\<And>used. rets \<Longrightarrow> returns (prepare used)" "\<And>q. rets \<Longrightarrow> returns (command q)"
    and s: "sn_auth_data s = None"
    and prepare: "\<And>used. keeps (\<lambda>(s, q). sn_auth_data s = None) (prepare used)"
    and command: "\<And>q. keeps (\<lambda>s. sn_auth_data s = None) (command q)"
  shows "R (verified_loop pf ops fuel requirement timeout prepare command note_rejected (Suc (Suc n)) (s, q))
    (verified_loop pf ops fuel requirement timeout prepare command note_rejected (Suc (Suc m)) (s, q))"
proof (rule turn_compares [OF R total])
  fix st1
  assume "user_verification pf ops fuel requirement timeout (s, q) = Some (Inr FromEphemeralStorage, st1)"
  from endsD [OF verification_without_data _ this] s show
    "R (verified_loop pf ops fuel requirement timeout prepare command note_rejected (Suc n) st)
      (verified_loop pf ops fuel requirement timeout prepare command note_rejected (Suc m) st)" for st by simp
next
  fix rid st1 s2 q2 s3
  assume run: "user_verification pf ops fuel requirement timeout (s, q) = Some (Inr (FromPersistentStorage rid), st1)"
    "prepare (FromPersistentStorage rid) st1 = Some (Inr (), (s2, q2))"
    "command q2 s2 = Some (Inl (We_Ctap Ctap_PINAuthInvalid), s3)"
  have "sn_auth_data (fst st1) = None"
    using endsD [OF verification_without_data _ run(1)] s by simp
  then have "sn_auth_data s3 = None"
    using keepsD [OF prepare _ run(2)] keepsD [OF command _ run(3)] by (cases st1) simp
  then show "R (verified_loop pf ops fuel requirement timeout prepare command note_rejected (Suc n)
      (delete_record rid s3, note_rejected q2))
    (verified_loop pf ops fuel requirement timeout prepare command note_rejected (Suc m)
      (delete_record rid s3, note_rejected q2))"
    by (intro one_turn [OF R total] settled_note) (simp_all add: delete_record_def)
qed

lemma three_turns:
  assumes R: "compares R rets"
    and total: "rets \<Longrightarrow> returns (user_verification pf ops fuel requirement timeout)"
      "\<And>used. rets \<Longrightarrow> returns (prepare used)" "\<And>q. rets \<Longrightarrow> returns (command q)"
    and prepare: "\<And>used. keeps (\<lambda>(s, q). sn_auth_data s = None) (prepare used)"
      "\<And>used. keeps (\<lambda>(s, q). settled q) (prepare used)"
    and command: "\<And>q. keeps (\<lambda>s. sn_auth_data s = None) (command q)"
  shows "R (verified_loop pf ops fuel requirement timeout prepare command note_rejected (Suc (Suc (Suc n))) st)
    (verified_loop pf ops fuel requirement timeout prepare command note_rejected (Suc (Suc (Suc m))) st)"
proof (rule turn_compares [OF R total])
  fix s q
  show "R (verified_loop pf ops fuel requirement timeout prepare command note_rejected (Suc (Suc n))
      (session_clear_uv_auth_token_store s, q))
    (verified_loop pf ops fuel requirement timeout prepare command note_rejected (Suc (Suc m))
      (session_clear_uv_auth_token_store s, q))"
    by (rule two_turns_without_data [OF R total]) (simp_all add: session_defs prepare command)
next
  fix rid s q
  show "R (verified_loop pf ops fuel requirement timeout prepare command note_rejected (Suc (Suc n))
      (delete_record rid s, note_rejected q))
    (verified_loop pf ops fuel requirement timeout prepare command note_rejected (Suc (Suc m))
      (delete_record rid s, note_rejected q))"
    by (rule two_turns_settled [OF R total]) (simp_all add: settled_note prepare)
qed

end

end
