(* ===== verification/Uv_Properties.thy ===== *)
theory Uv_Properties
  imports Uv_Termination Uv_History Credential_Request
begin

text \<open>
  The properties of the user verification flow, with the scripted authenticator their witnesses
  run on.
\<close>

section \<open>A scripted authenticator\<close>

text \<open>
  It answers each request with the next response of a script and logs the requests; every
  getInfo body decodes to \<open>info\<close>, every client PIN body to \<open>response\<close>.
\<close>

type_synonym cbor_script = "cbor_response list \<times> cbor_request list"

fun client_pin_code :: "client_pin_command \<Rightarrow> u8" where
  "client_pin_code Cp_GetPinRetries = 1"
| "client_pin_code Cp_GetKeyAgreement = 2"
| "client_pin_code Cp_SetPin = 3"
| "client_pin_code Cp_ChangePin = 4"
| "client_pin_code Cp_GetPinToken = 5"
| "client_pin_code Cp_GetPinUvAuthTokenUsingUvWithPermissions = 6"
| "client_pin_code Cp_GetUvRetries = 7"
| "client_pin_code Cp_GetPinUvAuthTokenUsingPinWithPermissions = 9"

definition scripted_authenticator ::
    "get_info_response \<Rightarrow> client_pin_response \<Rightarrow> (cbor_script, unit) platform" where
  "scripted_authenticator info response =
     \<lparr>pf_cbor_send = \<lambda>r t (answers, log). (Inr (), (answers, log @ [r])),
      pf_cbor_recv = \<lambda>t (answers, log). (case answers of [] \<Rightarrow> (Inl (), (answers, log))
        | a # as \<Rightarrow> (Inr a, (as, log))),
      pf_apdu_send = \<lambda>r t d. (Inl (), d), pf_apdu_recv = \<lambda>t d. (Inl (), d),
      pf_pin_reply = \<lambda>u d. (Some [49, 50, 51, 52], d),
      pf_random_secret = \<lambda>d. (replicate 32 1, d), pf_random_iv = \<lambda>d. (replicate 16 2, d),
      pf_random_record_id = \<lambda>d. (''r'', d), pf_crypto = example_crypto,
      pf_encode_client_pin = \<lambda>r. Some [client_pin_code (cp_command r)],
      pf_decode_client_pin = \<lambda>b. Some response, pf_decode_get_info = \<lambda>b. Some info\<rparr>"

definition ok_response :: "u8 \<Rightarrow> cbor_response" where
  "ok_response tag = cbor_response_new_success [tag]"

text \<open>A request for the given permissions; its state is the token it was given last.\<close>

definition plain_request :: "permission_role \<Rightarrow> bytes uv_request" where
  "plain_request permissions =
     \<lparr>uq_ensure_uv_set = \<lambda>q. q, uq_calculate_and_set_uv_auth = \<lambda>c v token q. Inr token,
      uq_permissions = \<lambda>q. permissions, uq_permissions_rpid = \<lambda>q. Some ''example.org'',
      uq_can_use_uv = \<lambda>q info. True, uq_handle_legacy_preview = \<lambda>info q. q,
      uq_needs_shared_secret = \<lambda>q info. False, uq_set_persistent_token_use = \<lambda>info b q. q,
      uq_wants_persistent_token = \<lambda>q. False, uq_note_persistent_token_rejected = \<lambda>q. q,
      uq_persistent_token_rejected = \<lambda>q. False, uq_needs_pin_uv_auth_token = \<lambda>q info. False\<rparr>"

definition key_and_token :: client_pin_response where
  "key_and_token = client_pin_response_default
     \<lparr>cpr_key_agreement := Some (EcdhEsHkdf256Key (replicate 32 4) (replicate 32 5)),
      cpr_pin_uv_auth_token := Some (replicate 48 7)\<rparr>"

definition info_with_options :: "(string \<rightharpoonup> bool) \<Rightarrow> get_info_response" where
  "info_with_options options =
     get_info_default\<lparr>gi_options := Some options, gi_pin_auth_protos := Some [2]\<rparr>"

text \<open>An authenticator with built-in verification that issues tokens.\<close>

definition uv_token_info :: get_info_response where
  "uv_token_info = info_with_options [''uv'' \<mapsto> True, ''pinUvAuthToken'' \<mapsto> True, ''clientPin'' \<mapsto> True,
     ''noMcGaPermissionsWithClientPin'' \<mapsto> True]"

definition uv_token_session :: "cbor_script session" where
  "uv_token_session = example_session ([ok_response 1, ok_response 2, ok_response 3], [])"

text \<open>What a run returns, the token of the request and the bodies of the requests sent.\<close>

definition outcome :: "(('e + 'a) \<times> cbor_script session \<times> bytes) option \<Rightarrow> (('e + 'a) \<times> bytes \<times> bytes list) option" where
  "outcome = map_option (\<lambda>(r, s, q). (r, q, map cr_encoded_data (snd (sn_device s))))"

lemma outcome_Some: "outcome run = Some (r, q, sent) \<Longrightarrow> \<exists>s. run = Some (r, s, q)
    \<and> map cr_encoded_data (snd (sn_device s)) = sent"
  by (auto simp: outcome_def)

lemma uv_token_run:
  "outcome (user_verification (scripted_authenticator uv_token_info key_and_token)
     (plain_request MAKE_CREDENTIAL) 2 Uv_Required 1000 (uv_token_session, []))
   = Some (Inr (NewlyCalculated GetPinUvAuthTokenUsingUvWithPermissions), replicate 32 7, [[], [2], [6]])"
  by code_simp

section \<open>Required verification\<close>

text \<open>
  C1: How a request that requires user verification can end: with a token, with the legacy flag on
  an authenticator whose last getInfo answer in this run reports built-in verification, or with a
  bare shared secret and so without verification; never with nothing.  The bare shared secret is
  left to one case: the authenticator reported in this run that it has some verification, but
  its last getInfo answer in this run has no PIN set, and its built-in verification is not
  available, because that answer does not report it, because the authenticator answered in this
  run that it is blocked or failed, or because the request cannot use it.
\<close>

theorem required_verification_result:
  assumes "records_traffic pf traffic"
    and "user_verification pf ops fuel Uv_Required timeout (s, q) = Some (Inr used, (s', q'))"
  shows "\<exists>log info. traffic (sn_device s') = traffic (sn_device s) @ log \<and> last_info_answer pf log info
    \<and> (case used of
         Used_None \<Rightarrow> False
       | Used_LegacyUV \<Rightarrow> option_enabled info ''uv''
       | NewlyCalculated op \<Rightarrow> op \<noteq> LegacyUv \<and> op \<noteq> OnlyForSharedSecret
       | SharedSecretOnly \<Rightarrow> \<not> option_enabled info ''clientPin''
           \<and> (\<exists>first. info_answer pf log first \<and> is_uv_protected first
               \<and> (\<not> option_enabled info ''uv'' \<or> uv_refused log \<or> (\<exists>q. \<not> uq_can_use_uv ops q first)))
       | _ \<Rightarrow> True)"
  using leadsD [OF verified_history [OF assms(1) uv_requirement.distinct(1)] assms(2)] by (cases used) auto

text \<open>Every outside world can be made to record its traffic.\<close>

definition tapped :: "('d, 'te) platform \<Rightarrow> ('d \<times> traffic list, 'te) platform" where
  "tapped pf =
     \<lparr>pf_cbor_send = \<lambda>r t (d, log). (case pf_cbor_send pf r t d of (x, d) \<Rightarrow> (x, (d, log @ [Tr_Sent r]))),
      pf_cbor_recv = \<lambda>t (d, log). (case pf_cbor_recv pf t d of (x, d) \<Rightarrow>
        (x, (d, log @ (case x of Inr response \<Rightarrow> [Tr_Received response] | Inl _ \<Rightarrow> [])))),
      pf_apdu_send = \<lambda>r t (d, log). (case pf_apdu_send pf r t d of (x, d) \<Rightarrow> (x, (d, log))),
      pf_apdu_recv = \<lambda>t (d, log). (case pf_apdu_recv pf t d of (x, d) \<Rightarrow> (x, (d, log))),
      pf_pin_reply = \<lambda>u (d, log). (case pf_pin_reply pf u d of (x, d) \<Rightarrow> (x, (d, log))),
      pf_random_secret = \<lambda>(d, log). (case pf_random_secret pf d of (x, d) \<Rightarrow> (x, (d, log))),
      pf_random_iv = \<lambda>(d, log). (case pf_random_iv pf d of (x, d) \<Rightarrow> (x, (d, log))),
      pf_random_record_id = \<lambda>(d, log). (case pf_random_record_id pf d of (x, d) \<Rightarrow> (x, (d, log))),
      pf_crypto = pf_crypto pf, pf_encode_client_pin = pf_encode_client_pin pf,
      pf_decode_client_pin = pf_decode_client_pin pf, pf_decode_get_info = pf_decode_get_info pf\<rparr>"

lemma tapped_records: "records_traffic (tapped pf) snd"
  by (auto simp: records_traffic_def tapped_def split: prod.splits)

text \<open>
  An authenticator without a PIN whose built-in verification is blocked: required verification
  ends with a bare shared secret.
\<close>

definition uv_only_info :: get_info_response where
  "uv_only_info = info_with_options [''uv'' \<mapsto> True, ''pinUvAuthToken'' \<mapsto> True, ''clientPin'' \<mapsto> False]"

definition blocked_answers :: "cbor_response list" where
  "blocked_answers = [ok_response 1, ok_response 2, \<lparr>cs_status_code = Ctap_UvBlocked, cs_data = None\<rparr>, ok_response 4]"

lemma required_verification_skipped:
  "map_option fst (user_verification (tapped (scripted_authenticator uv_only_info key_and_token))
     (plain_request MAKE_CREDENTIAL) 2 Uv_Required 1000 (example_session ((blocked_answers, []), []), []))
   = Some (Inr SharedSecretOnly)"
  by code_simp

lemma required_verification_result_witness:
  "\<exists>s' q' log info. user_verification (tapped (scripted_authenticator uv_only_info key_and_token))
       (plain_request MAKE_CREDENTIAL) 2 Uv_Required 1000 (example_session ((blocked_answers, []), []), [])
       = Some (Inr SharedSecretOnly, (s', q'))
     \<and> snd (sn_device s') = log
     \<and> last_info_answer (tapped (scripted_authenticator uv_only_info key_and_token)) log info
     \<and> \<not> option_enabled info ''clientPin'' \<and> (\<not> option_enabled info ''uv'' \<or> uv_refused log)"
proof -
  let ?pf = "tapped (scripted_authenticator uv_only_info key_and_token)"
  obtain s' q' where run: "user_verification ?pf (plain_request MAKE_CREDENTIAL) 2 Uv_Required 1000
      (example_session ((blocked_answers, []), []), []) = Some (Inr SharedSecretOnly, (s', q'))"
    using required_verification_skipped by auto
  have start: "snd (sn_device (example_session ((blocked_answers, []), []))) = []" by (simp add: example_session_def)
  have usable: "uq_can_use_uv (plain_request MAKE_CREDENTIAL) q first" for q first by (simp add: plain_request_def)
  show ?thesis
    using required_verification_result [OF tapped_records run] run unfolding start append_Nil by (auto simp: usable)
qed

section \<open>Permissions of PIN tokens\<close>

text \<open>
  C2: On an authenticator that forbids client PIN tokens with the permissions to make or assert
  credentials, a request for one of these permissions never asks for a PIN token, whatever the
  authenticator answers and however the flow ends: every property \<open>P\<close> of the outside world that
  only such a token request can break still holds.
\<close>

theorem no_mc_ga_pin_token:
  assumes "device_keeps pf (no_pin_token_request pf) P"
    and "\<And>data info. pf_decode_get_info pf data = Some info
      \<Longrightarrow> option_enabled info ''noMcGaPermissionsWithClientPin''"
    and "\<And>q. role_intersects (uq_permissions ops q) (role_union MAKE_CREDENTIAL GET_ASSERTION)"
    and "user_verification pf ops fuel requirement timeout (s, q) = Some (r, (s', q'))"
    and "P (sn_device s)"
  shows "P (sn_device s')"
  using keepsD [OF keeps_user_verification [OF assms(1-3)] _ assms(4)] assms(5) by simp

lemma scripted_device_keeps:
  "device_keeps (scripted_authenticator info response)
     (no_pin_token_request (scripted_authenticator info response))
     (\<lambda>(answers, log). \<forall>r\<in>set log. cr_encoded_data r \<notin> {[5], [9]})"
proof -
  have "cr_encoded_data r \<notin> {[5], [9]}"
    if "no_pin_token_request (scripted_authenticator info response) r" for r
  proof -
    have "client_pin_code cmd \<notin> {5, 9}" if "\<not> is_pin_token_command cmd" for cmd
      using that by (cases cmd) (simp_all add: is_pin_token_command_def)
    with that show ?thesis
      by (auto simp: no_pin_token_request_def scripted_authenticator_def cbor_request_new_def)
  qed
  then show ?thesis
    by (auto simp: device_keeps_def scripted_authenticator_def split: list.splits)
qed

lemma no_mc_ga_pin_token_witness:
  "\<exists>r s' q'. user_verification (scripted_authenticator uv_token_info key_and_token)
       (plain_request MAKE_CREDENTIAL) 2 Uv_Required 1000 (uv_token_session, []) = Some (r, (s', q'))
     \<and> (case sn_device s' of (answers, log) \<Rightarrow> \<forall>r\<in>set log. cr_encoded_data r \<notin> {[5], [9]})"
proof -
  obtain s' where run: "user_verification (scripted_authenticator uv_token_info key_and_token)
       (plain_request MAKE_CREDENTIAL) 2 Uv_Required 1000 (uv_token_session, [])
     = Some (Inr (NewlyCalculated GetPinUvAuthTokenUsingUvWithPermissions), s', replicate 32 7)"
    using outcome_Some [OF uv_token_run] by blast
  have perms: "role_intersects (uq_permissions (plain_request MAKE_CREDENTIAL) q)
      (role_union MAKE_CREDENTIAL GET_ASSERTION)" for q
    by (simp add: plain_request_def role_intersects_def role_union_def role_consts)
  have enabled: "option_enabled info ''noMcGaPermissionsWithClientPin''"
    if "pf_decode_get_info (scripted_authenticator uv_token_info key_and_token) data = Some info" for data info
    using that by (auto simp: scripted_authenticator_def uv_token_info_def info_with_options_def option_enabled_def)
  have start: "case sn_device uv_token_session of (answers, log) \<Rightarrow>
      \<forall>r\<in>set log. cr_encoded_data r \<notin> {[5], [9]}"
    by (simp add: uv_token_session_def example_session_def)
  have "case sn_device s' of (answers, log) \<Rightarrow> \<forall>r\<in>set log. cr_encoded_data r \<notin> {[5], [9]}"
    by (rule no_mc_ga_pin_token [OF scripted_device_keeps enabled perms run start])
  with run show ?thesis by (intro exI conjI)
qed

section \<open>Termination\<close>

text \<open>
  C3: User verification returns after at most two turns of its loop: on an authenticator that has
  some verification set up, does not force a PIN change, and reports blocked or failed built-in
  verification only in answer to a request that uses it, fuel 2 is enough for every request.
\<close>

theorem user_verification_returns:
  assumes "blocks_only_uv pf"
    and "\<And>data info. pf_decode_get_info pf data = Some info
      \<Longrightarrow> gi_force_pin_change info \<noteq> Some True \<and> is_uv_protected info"
    and "2 \<le> fuel"
  shows "\<exists>r t. user_verification pf ops fuel requirement timeout st = Some (r, t)"
proof -
  have "returns (user_verification pf ops fuel requirement timeout)"
    by (rule returns_user_verification [OF assms])
  then show ?thesis unfolding returns_def by (metis not_None_eq surj_pair)
qed

text \<open>An authenticator that accepts everything.\<close>

definition accepting_authenticator :: "(cbor_script, unit) platform" where
  "accepting_authenticator = (scripted_authenticator uv_token_info key_and_token)
     \<lparr>pf_cbor_recv := \<lambda>t d. (Inr (ok_response 1), d)\<rparr>"

lemma accepting_blocks_only_uv: "blocks_only_uv accepting_authenticator"
  by (auto simp: blocks_only_uv_def ctap2_client_pin_def ctap2_exchange_def accepting_authenticator_def
      scripted_authenticator_def on_transport_def ok_response_def cbor_response_new_success_def
      act_simps cbor_request_of_def parse_or_default_def parse_cbor_def
      elim!: act_bind_SomeE split: prod.splits option.splits)

lemma user_verification_returns_witness:
  "\<exists>r t. user_verification accepting_authenticator (plain_request MAKE_CREDENTIAL) 2 Uv_Preferred 1000
     (uv_token_session, []) = Some (r, t)"
proof (rule user_verification_returns)
  show "blocks_only_uv accepting_authenticator" by (rule accepting_blocks_only_uv)
qed (auto simp: accepting_authenticator_def scripted_authenticator_def uv_token_info_def
  info_with_options_def get_info_default_def is_uv_protected_def option_enabled_def)

section \<open>Tokens of the session\<close>

lemma keeps_session_stores:
  "keeps (\<lambda>s. Q (sn_auth_data s) (sn_token_store s)) (on_device f)"
  "keeps (\<lambda>s. Q (sn_auth_data s) (sn_token_store s)) (on_transport g)"
  "keeps (\<lambda>s. Q (sn_auth_data s) (sn_token_store s)) (send_ux_update u)"
  by (auto simp: keeps_def on_device_def on_transport_def send_ux_update_def act_run split: prod.splits)

lemma keeps_session_commands:
  "keeps (\<lambda>s. Q (sn_auth_data s) (sn_token_store s)) (ctap2_exchange pf r timeout)"
  "keeps (\<lambda>s. Q (sn_auth_data s) (sn_token_store s)) (ctap2_get_info pf)"
  "keeps (\<lambda>s. Q (sn_auth_data s) (sn_token_store s)) (ctap2_client_pin pf req timeout)"
  "keeps (\<lambda>s. Q (sn_auth_data s) (sn_token_store s)) (prompt_pin pf u)"
  "keeps (\<lambda>s. Q (sn_auth_data s) (sn_token_store s)) (create_protocol_object pf v)"
  "keeps (\<lambda>s. Q (sn_auth_data s) (sn_token_store s)) (select_uv_proto pf info)"
  "keeps (\<lambda>s. Q (sn_auth_data s) (sn_token_store s)) (pin_encrypt pf p key plaintext)"
  unfolding ctap2_exchange_def ctap2_get_info_def ctap2_client_pin_def prompt_pin_def
    create_protocol_object_def select_uv_proto_def pin_encrypt_def
  by (auto intro!: keeps_rules keeps_session_stores split: option.split pin_uv_auth_protocol.split)

text \<open>
  C4: A token that was minted for a request is reused within the session: a later request that
  needs the same permissions or fewer for the same relying party, under the same protocol, is
  given that token at once, from the session, with getInfo as the only command sent and no prompt.
  The token has a length its protocol allows, and the flow fails only if the request cannot be
  authenticated with it.
\<close>

theorem minted_token_reused:
  assumes minted: "package_token pf ops info a (s, q) = Some (Inr (NewlyCalculated op), (s1, q1))"
    and ephemeral: "\<And>q. \<not> uq_wants_persistent_token ops q"
    and info': "ctap2_get_info pf s1 = Some (Inr info', s2)"
      "find_uv_proto info' = Some (pp_version (ua_proto a))"
    and request: "q3 = uq_set_persistent_token_use ops' info' (sn_token_store s2 \<noteq> None)
        (uq_handle_legacy_preview ops' info' q2)" "\<not> uq_wants_persistent_token ops' q3"
      "uq_permissions ops' q3 \<le> uq_permissions ops q"
      "uq_permissions_rpid ops' q3 = uq_permissions_rpid ops q"
  shows "\<exists>encrypted token s3. Option.bind (ua_response a) cpr_pin_uv_auth_token = Some encrypted
    \<and> pin_decrypt (pf_crypto pf) (pp_version (ua_proto a)) (ua_shared_secret a) encrypted = Inr token
    \<and> pin_uv_auth_token_len_valid (pp_version (ua_proto a)) (length token)
    \<and> user_verification pf ops' fuel requirement timeout (s1, q2)
        = (case uq_calculate_and_set_uv_auth ops' (pf_crypto pf) (pp_version (ua_proto a)) token q3 of
             Inr q4 \<Rightarrow> Some (Inr FromEphemeralStorage, (s3, q4))
           | Inl e \<Rightarrow> Some (Inl (We_Platform e), (s3, q3)))
    \<and> s3 = s2\<lparr>sn_device := snd (pf_random_secret pf (sn_device s2))\<rparr>"
proof -
  let ?v = "pp_version (ua_proto a)"
  let ?p = "auth_token_permission_new ?v (uq_permissions ops q) (uq_permissions_rpid ops q)"
  obtain encrypted token where token: "Option.bind (ua_response a) cpr_pin_uv_auth_token = Some encrypted"
      "pin_decrypt (pf_crypto pf) ?v (ua_shared_secret a) encrypted = Inr token"
      "pin_uv_auth_token_len_valid ?v (length token)" and
    s1: "s1 = session_store_auth_data (store_auth_token (auth_token_data_new (ua_shared_secret a) ?v
        (ua_public_key a) (ua_operation a)) ?p token) s"
    using minted ephemeral unfolding package_token_def Let_def
    by (auto simp: act_simps request_get_def on_session_def store_acquired_def store_auth_token_def
        auth_token_data_new_def set_uv_auth_def split: option.splits if_splits sum.splits
        elim!: act_bind_InrE)
  have "session_get_auth_data s2 = session_get_auth_data s1"
    using keepsD [OF keeps_session_commands(2) [of "\<lambda>d t. d = sn_auth_data s1"] _ info'(1)]
    by (simp add: session_get_auth_data_def)
  then have cached: "get_uv_auth_token (session_get_auth_data s2)
      (auth_token_permission_new ?v (uq_permissions ops' q3) (uq_permissions_rpid ops' q3)) = Some token"
    using request(3,4) by (simp add: s1 session.reuse_stored auth_token_permission_contains_def
        auth_token_permission_new_def role_contains_def)
  have "user_verification pf ops' fuel requirement timeout (s1, q2)
      = (case uq_calculate_and_set_uv_auth ops' (pf_crypto pf) ?v token q3 of
           Inr q4 \<Rightarrow> Some (Inr FromEphemeralStorage, (s2\<lparr>sn_device := snd (pf_random_secret pf (sn_device s2))\<rparr>, q4))
         | Inl e \<Rightarrow> Some (Inl (We_Platform e), (s2\<lparr>sn_device := snd (pf_random_secret pf (sn_device s2))\<rparr>, q3)))"
    using info' request(1,2) cached
    by (simp add: user_verification_def on_session_def act_simps request_get_def request_modify_def
        act_bind_def act_get_def act_modify_def select_uv_proto_def create_protocol_object_def on_device_def
        set_uv_auth_def session_get_auth_data_def act_return_def split: prod.splits option.splits sum.split)
  with token show ?thesis by blast
qed

definition example_acquired :: uv_acquired where
  "example_acquired = \<lparr>ua_proto = \<lparr>pp_version = Protocol_Two, pp_private_key = []\<rparr>,
     ua_shared_secret = replicate 64 1, ua_public_key = Cose_OtherKey,
     ua_operation = GetPinUvAuthTokenUsingUvWithPermissions, ua_response = Some key_and_token\<rparr>"

text \<open>A request of the code, to make a credential.\<close>

definition credential_to_make :: ctap2_mc_request where
  "credential_to_make =
     \<lparr>qm_hash = replicate 32 6, qm_relying_party = \<lparr>rp_id = ''example.org'', rp_name = None\<rparr>,
      qm_user = \<lparr>ue_id = [1], ue_name = None, ue_display_name = None\<rparr>, qm_algorithms = [credential_type_default],
      qm_exclude = None, qm_extensions = None, qm_options = None, qm_pin_auth_param = None,
      qm_pin_auth_proto = None, qm_enterprise_attestation = None\<rparr>"

definition minted_session :: "cbor_script session" where
  "minted_session = session_store_auth_data (store_auth_token (auth_token_data_new (replicate 64 1)
       Protocol_Two Cose_OtherKey GetPinUvAuthTokenUsingUvWithPermissions)
     (auth_token_permission_new Protocol_Two (mc_permissions credential_to_make) (Some ''example.org'')) (replicate 32 7))
     (example_session ([ok_response 1], []))"

lemma minted_run:
  "\<exists>q1. package_token (scripted_authenticator uv_token_info key_and_token) mc_uv_request
     uv_token_info example_acquired (example_session ([ok_response 1], []), credential_to_make)
   = Some (Inr (NewlyCalculated GetPinUvAuthTokenUsingUvWithPermissions), (minted_session, q1))"
  by (simp add: package_token_def example_acquired_def key_and_token_def client_pin_response_default_def
      scripted_authenticator_def example_crypto_def mc_uv_request_def mc_permissions_def mc_set_uv_auth_def
      pin_authenticate.simps credential_to_make_def minted_session_def slice_from_def
      act_bind_def act_lift_def request_get_def act_get_def on_session_def store_acquired_def act_modify_def
      store_auth_token_def auth_token_data_new_def set_uv_auth_def act_return_def slice_upto_def ok_or_def hmac_sha256_def)

lemma minted_token_reused_witness:
  "\<exists>s3 q4. user_verification (scripted_authenticator uv_token_info key_and_token) mc_uv_request
        0 Uv_Required 1000 (minted_session, credential_to_make) = Some (Inr FromEphemeralStorage, (s3, q4))
    \<and> snd (sn_device s3) = [cbor_request_new AuthenticatorGetInfo]
    \<and> Inr (qm_pin_auth_param q4)
      = result_map Some (pin_authenticate example_crypto Protocol_Two (replicate 32 7) (qm_hash credential_to_make))"
proof -
  let ?pf = "scripted_authenticator uv_token_info key_and_token"
  have info: "ctap2_get_info ?pf minted_session = Some (Inr uv_token_info,
      minted_session\<lparr>sn_device := ([], [cbor_request_new AuthenticatorGetInfo])\<rparr>)"
    by (simp add: ctap2_get_info_def ctap2_exchange_def scripted_authenticator_def minted_session_def
        example_session_def on_transport_def act_bind_def act_return_def act_lift_def ok_response_def
        cbor_response_new_success_def parse_required_def parse_cbor_def session_store_auth_data_def)
  obtain q1 where minted: "package_token ?pf mc_uv_request uv_token_info example_acquired
      (example_session ([ok_response 1], []), credential_to_make)
    = Some (Inr (NewlyCalculated GetPinUvAuthTokenUsingUvWithPermissions), (minted_session, q1))"
    using minted_run by blast
  have cr: "pf_crypto ?pf = example_crypto" by (simp add: scripted_authenticator_def)
  have acquired: "pp_version (ua_proto example_acquired) = Protocol_Two"
      "ua_shared_secret example_acquired = replicate 64 1"
      "Option.bind (ua_response example_acquired) cpr_pin_uv_auth_token = Some (replicate 48 7)"
    by (simp_all add: example_acquired_def key_and_token_def)
  have token: "pin_decrypt example_crypto Protocol_Two (replicate 64 1) (replicate 48 7) = Inr (replicate 32 7)"
    by (simp add: example_crypto_def slice_from_def ok_or_def)
  obtain q4 where q4: "mc_set_uv_auth example_crypto Protocol_Two (replicate 32 7) credential_to_make = Inr q4"
      "Inr (qm_pin_auth_param q4)
        = result_map Some (pin_authenticate example_crypto Protocol_Two (replicate 32 7) (qm_hash credential_to_make))"
    by (simp add: mc_set_uv_auth_def example_crypto_def slice_upto_def ok_or_def hmac_sha256_def)
  have ops: "uq_calculate_and_set_uv_auth mc_uv_request = mc_set_uv_auth"
      "\<not> uq_wants_persistent_token mc_uv_request q"
      "uq_set_persistent_token_use mc_uv_request i b q = q" "uq_handle_legacy_preview mc_uv_request i q = q"
      "uq_permissions mc_uv_request q' = uq_permissions mc_uv_request q" for q q' i b
    by (simp_all add: mc_uv_request_def mc_permissions_def)
  have proto: "find_uv_proto uv_token_info = Some Protocol_Two"
    by (simp add: uv_token_info_def info_with_options_def find_uv_proto_def)
  show ?thesis
    using minted_token_reused [OF minted ops(2) info, where ops' = mc_uv_request and ?q3.0 = credential_to_make
        and ?q2.0 = credential_to_make and fuel = 0 and requirement = Uv_Required and timeout = 1000]
    unfolding acquired cr ops(1,3,4) using ops(2,5) proto token q4 by (auto simp: scripted_authenticator_def)
qed

section \<open>Changing the PIN\<close>

lemma keeps_store_change_pin_steps:
  "keeps (\<lambda>s. Q (sn_auth_data s) (sn_token_store s)) (obtain_pin pf info v reason timeout)"
  "keeps (\<lambda>s. Q (sn_auth_data s) (sn_token_store s)) (current_pin pf info p timeout)"
  "keeps (\<lambda>s. Q (sn_auth_data s) (sn_token_store s)) (obtain_shared_secret pf p timeout)"
  "keeps (\<lambda>s. Q (sn_auth_data s) (sn_token_store s)) (change_pin_request pf p key secret enc old)"
  unfolding obtain_pin_def current_pin_def obtain_shared_secret_def change_pin_request_def Let_def
  by (auto intro!: keeps_rules keeps_session_commands keeps_soft_field split: option.split bool.split)

text \<open>
  C5: A PIN is changed only when it is long enough for the authenticator and short enough for the
  padding, and a successful change removes from the store exactly the persistent token record
  the authenticator was recognized by; a change that fails leaves the store as it was.
\<close>

theorem pin_change_evicts_token:
  fixes pf :: "('d, 'te) platform"
  assumes "change_pin_internal pf info pin timeout s = Some (r, s')"
  shows "case r of
      Inl e \<Rightarrow> sn_token_store s' = sn_token_store s
    | Inr _ \<Rightarrow> (case gi_min_pin_length info of None \<Rightarrow> 4 | Some n \<Rightarrow> unat n) \<le> length (c_nfc (pf_crypto pf) pin)
        \<and> length (utf8_bytes (c_nfc (pf_crypto pf) pin)) < 64
        \<and> sn_token_store s' = (case recognized_record pf info s of
            None \<Rightarrow> sn_token_store s
          | Some (rid, _) \<Rightarrow> map_option (memory_store_delete rid) (sn_token_store s))"
proof -
  let ?Y = "case recognized_record pf info s of
            None \<Rightarrow> sn_token_store s
          | Some (rid, _) \<Rightarrow> map_option (memory_store_delete rid) (sn_token_store s)"
  have "ends (\<lambda>s'. s' = s) (change_pin_internal pf info pin timeout) (\<lambda>r s'. case r of
      Inl e \<Rightarrow> sn_token_store s' = sn_token_store s
    | Inr _ \<Rightarrow> (case gi_min_pin_length info of None \<Rightarrow> 4 | Some n \<Rightarrow> unat n) \<le> length (c_nfc (pf_crypto pf) pin)
        \<and> length (utf8_bytes (c_nfc (pf_crypto pf) pin)) < 64
        \<and> sn_token_store s' = ?Y)"
    (is "ends _ _ ?R")
  proof -
    let ?X = "\<lambda>t :: 'd session. sn_token_store t = sn_token_store s"
    note steps = keeps_store_change_pin_steps [where Q = "\<lambda>d t. t = sn_token_store s"]
      keeps_session_commands [where Q = "\<lambda>d t. t = sn_token_store s"]
    show ?thesis
      unfolding change_pin_internal_def Let_def
      by (auto simp: ends_run ends_modify intro!: ends_get split: if_splits)
        (rule ends_weaken [where P = ?X],
         auto intro!: ends_bind steps simp: ends_run ends_modify delete_record_def memory_store_def
           split: option.splits prod.splits)
  qed
  from endsD [OF this _ assms] show ?thesis by simp
qed

definition pin_change_info :: get_info_response where
  "pin_change_info = uv_only_info\<lparr>gi_enc_identifier := Some (replicate 16 0 @ replicate 16 7)\<rparr>"

definition pin_change_session :: "cbor_script session" where
  "pin_change_session = (example_session ([ok_response 1, ok_response 2], []))
     \<lparr>sn_token_store := Some [(''o'', \<lparr>ptr_persistent_token = [8], ptr_pin_uv_auth_protocol = Protocol_Two,
        ptr_device_identifier = replicate 16 7, ptr_aaguid = []\<rparr>)]\<rparr>"

lemma pin_change_run:
  "map_option fst (change_pin_internal (scripted_authenticator pin_change_info key_and_token) pin_change_info
     [49, 50, 51, 52] 1000 pin_change_session) = Some (Inr ())"
  by code_simp

lemma pin_change_evicts_token_witness:
  "\<exists>s'. change_pin_internal (scripted_authenticator pin_change_info key_and_token) pin_change_info
     [49, 50, 51, 52] 1000 pin_change_session = Some (Inr (), s') \<and> sn_token_store s' = Some []"
proof -
  let ?pf = "scripted_authenticator pin_change_info key_and_token"
  obtain s' where run: "change_pin_internal ?pf pin_change_info [49, 50, 51, 52] 1000 pin_change_session
      = Some (Inr (), s')"
    using pin_change_run by auto
  have "(case recognized_record ?pf pin_change_info pin_change_session of
      None \<Rightarrow> sn_token_store pin_change_session
    | Some (rid, _) \<Rightarrow> map_option (memory_store_delete rid) (sn_token_store pin_change_session)) = Some []"
    by code_simp
  with pin_change_evicts_token [OF run] run show ?thesis by simp
qed

text \<open>
  C6: The PIN reaches the authenticator intact: what \<^verbatim>\<open>change_pin_internal\<close> encrypts under the
  shared secret decrypts to 64 bytes, whose part before the first zero byte is the PIN.
\<close>

theorem new_pin_recovered:
  assumes "aes256_cbc_law (pf_crypto pf)" and "\<And>d. length (fst (pf_random_iv pf d)) = 16"
    and "length secret = secret_length (pp_version p)"
    and "length pin < 64" and "0 \<notin> set pin"
    and "pin_encrypt pf p secret (padded_pin pin) s = Some (Inr new_pin_enc, s')"
  shows "\<exists>padded. pin_decrypt (pf_crypto pf) (pp_version p) secret new_pin_enc = Inr padded
    \<and> length padded = 64 \<and> takeWhile (\<lambda>b. b \<noteq> 0) padded = pin"
proof -
  have len: "length (padded_pin pin) mod 16 = 0" using assms(4) by (simp add: padded_pin_def)
  obtain iv where iv: "length iv = 16" and
    enc: "pin_encrypt_iv (pf_crypto pf) (pp_version p) iv secret (padded_pin pin) = Inr new_pin_enc"
  proof (cases "pp_version p")
    case Protocol_One
    then have "pin_encrypt_iv (pf_crypto pf) (pp_version p) (replicate 16 0) secret (padded_pin pin)
        = Inr new_pin_enc"
      using assms(6) by (simp add: pin_encrypt_def act_run result_map_eq_Inr_conv map_err_def split: sum.splits)
    then show ?thesis by (rule that [rotated]) simp
  next
    case Protocol_Two
    then have "pin_encrypt_iv (pf_crypto pf) (pp_version p) (fst (pf_random_iv pf (sn_device s))) secret
        (padded_pin pin) = Inr new_pin_enc"
      using assms(6) by (auto simp: pin_encrypt_def act_run on_device_def map_err_def
          split: sum.splits prod.splits elim!: act_bind_InrE)
    then show ?thesis by (rule that [rotated]) (rule assms(2))
  qed
  have "pin_decrypt (pf_crypto pf) (pp_version p) secret new_pin_enc = Inr (padded_pin pin)"
    using pin_decrypt_encrypt [OF assms(1,3) iv len] enc by simp
  moreover have "takeWhile (\<lambda>b. b \<noteq> 0) (padded_pin pin) = pin"
  proof -
    have "\<forall>b\<in>set pin. b \<noteq> 0" using assms(5) by metis
    then have "takeWhile (\<lambda>b. b \<noteq> 0) (pin @ replicate (64 - length pin) 0)
        = pin @ takeWhile (\<lambda>b. b \<noteq> 0) (replicate (64 - length pin) 0)"
      by (simp add: takeWhile_append2)
    also have "takeWhile (\<lambda>b. b \<noteq> 0) (replicate n (0 :: u8)) = []" for n
      by (cases n) simp_all
    finally show ?thesis using assms(4) by (simp add: padded_pin_def)
  qed
  ultimately show ?thesis using assms(4) by (auto simp: padded_pin_def)
qed

lemma new_pin_recovered_witness:
  "\<exists>new_pin_enc s' padded. pin_encrypt (scripted_authenticator pin_change_info key_and_token)
      \<lparr>pp_version = Protocol_Two, pp_private_key = []\<rparr> (replicate 64 3) (padded_pin [49, 50, 51, 52])
      pin_change_session = Some (Inr new_pin_enc, s')
    \<and> pin_decrypt example_crypto Protocol_Two (replicate 64 3) new_pin_enc = Inr padded
    \<and> length padded = 64 \<and> takeWhile (\<lambda>b. b \<noteq> 0) padded = [49, 50, 51, 52]"
proof -
  let ?pf = "scripted_authenticator pin_change_info key_and_token"
  let ?p = "\<lparr>pp_version = Protocol_Two, pp_private_key = []\<rparr>"
  have cr: "pf_crypto ?pf = example_crypto" by (simp add: scripted_authenticator_def)
  obtain enc s' where run: "pin_encrypt ?pf ?p (replicate 64 3) (padded_pin [49, 50, 51, 52])
      pin_change_session = Some (Inr enc, s')"
    by (simp add: pin_encrypt_def act_bind_def act_lift_def on_device_def scripted_authenticator_def
        slice_from_def example_crypto_def)
  have "\<exists>padded. pin_decrypt (pf_crypto ?pf) (pp_version ?p) (replicate 64 3) enc = Inr padded
    \<and> length padded = 64 \<and> takeWhile (\<lambda>b. b \<noteq> 0) padded = [49, 50, 51, 52]"
    by (rule new_pin_recovered [OF _ _ _ _ _ run]) (simp_all add: cr example_crypto_laws scripted_authenticator_def)
  with run show ?thesis by (auto simp: cr)
qed

end
