(* ===== verification/Ceremony_Properties.thy ===== *)
theory Ceremony_Properties
  imports Session_Safety Uv_Properties Large_Blob_Array
begin

text \<open>
  The properties of the WebAuthn ceremonies: they end, what they return is bound to the relying
  party, the session keeps its token data well formed, and nothing is downgraded to U2F that must not be.
\<close>

section \<open>The requests of the two ceremonies\<close>

text \<open>Neither request ever asks for a persistent token, so both are settled from the start.\<close>

interpretation registration: fresh_request mc_uv_request "\<lambda>_. True"
  by unfold_locales (simp_all add: mc_uv_request_def)

interpretation authentication: fresh_request ga_uv_request "\<lambda>_. True"
  by unfold_locales (simp_all add: ga_uv_request_def)

section \<open>Termination\<close>

lemma returns_verified_loop_settled:
  assumes "fresh_request ops (\<lambda>_. True)"
    and "returns (user_verification pf ops fuel requirement timeout)"
    and "\<And>used. returns (prepare used)" and "\<And>q. returns (command q)" and "2 \<le> turns"
  shows "returns (verified_loop pf ops fuel requirement timeout prepare command rejected turns)"
proof -
  obtain n where turns: "turns = Suc (Suc n)" using assms(5) by (metis add_2_eq_Suc le_Suc_ex)
  have compares: "compares (\<lambda>x y. x \<noteq> None) True" by (simp add: compares_def)
  have "verified_loop pf ops fuel requirement timeout prepare command rejected turns (s, q) \<noteq> None" for s q
    unfolding turns
    by (rule fresh_request.two_turns_settled [OF assms(1) compares assms(2-4)])
      (simp_all add: keeps_def)
  then show ?thesis by (simp add: returns_def)
qed

lemma returns_with_request: "returns m \<Longrightarrow> returns (with_request q m)"
  unfolding returns_def with_request_def by (auto split: option.split sum.split prod.split)

lemma returns_commands2 [returns_rules]:
  "returns (ctap2_make_credential pf enc dec q timeout)"
  "returns (ctap2_get_assertion pf enc dec q timeout)"
  "returns (ctap2_get_next_assertion pf dec timeout)"
  unfolding ctap2_make_credential_def ctap2_get_assertion_def ctap2_get_next_assertion_def
  by (intro returns_rules)+

lemma returns_prepare [returns_rules]:
  "returns (mc_prepare pf used)" "returns (ga_prepare pf tc allow used)"
proof -
  have input: "returns (calculate_hmac_input pf d i)" for d i
    unfolding calculate_hmac_input_def by (auto intro!: returns_rules split: sum.split)
  have hmac: "returns (calculate_hmac pf tc allow d e)" "returns (calculate_hmac_secret_mc pf d e')" for d e e'
    unfolding calculate_hmac_def calculate_hmac_secret_mc_def Let_def
    by (auto intro!: returns_rules input split: option.split)
  have presence: "returns (announce_presence used)" unfolding announce_presence_def by (intro returns_rules)
  show "returns (mc_prepare pf used)" "returns (ga_prepare pf tc allow used)"
    unfolding mc_prepare_def mc_encrypt_prf_def ga_prepare_def ga_encrypt_prf_def
    by (auto intro!: returns_rules hmac presence split: option.split prod.split)
qed

lemma returns_preflight [returns_rules]: "returns (ctap2_preflight_with_appid pf E ds hash rp appid)"
proof -
  have one: "returns (preflight_one pf E d hash rp)" for d rp
    unfolding preflight_one_def
    by (auto intro!: returns_rules split: sum.split webauthn_error.split ctap_error.split)
  show ?thesis
    by (induction ds) (auto intro!: returns_rules one simp: preflight_either_def split: option.split)
qed

lemma returns_make_credential_fido2:
  assumes "returns (user_verification pf mc_uv_request (fu_verify fu) (mr_user_verification r) (mr_timeout r))"
    and "2 \<le> fu_turns fu"
  shows "returns (make_credential_fido2 pf E fu r)"
  unfolding make_credential_fido2_def mc_preflight_def
  by (auto intro!: returns_rules returns_with_request returns_verified_loop_settled assms
      registration.fresh_request_axioms split: option.split prod.split)

lemma max_fragment_length_pos: "0 < max_fragment_length m"
  by (cases m) (auto simp: max_fragment_length_def LARGE_BLOB_DEFAULT_FRAGMENT_def less_max_iff_disj)

lemma returns_upload_loop:
  assumes "0 < max_fragment" and "length serialized - unat offset < fuel"
  shows "returns (upload_loop pf B fuel serialized max_fragment auth timeout offset)"
  using assms(2)
proof (induction fuel arbitrary: offset)
  case 0
  then show ?case by simp
next
  case (Suc fuel)
  define chunk where "chunk = drop (unat offset)
    (take (min (unat offset + unat max_fragment) (length serialized)) serialized)"
  have len: "unat (of_nat (length chunk) :: u32) = length chunk"
  proof -
    have "length chunk \<le> unat max_fragment" by (simp add: chunk_def)
    also have "\<dots> < 2 ^ 32" using unsigned_less [of max_fragment, where ?'a = nat] by simp
    finally show ?thesis by (simp add: unat_of_nat take_bit_eq_mod)
  qed
  have rest: "returns (upload_loop pf B fuel serialized max_fragment auth timeout offset')"
    if "unat offset < length serialized" and "checked_add_u32 offset (of_nat (length chunk)) = Some offset'" for offset'
  proof (rule Suc.IH)
    have "0 < length chunk"
      using that(1) assms(1) by (simp add: chunk_def word_less_nat_alt)
    moreover have "unat offset' = unat offset + length chunk"
      using that(2) len by (auto simp: checked_add_u32_def unat_word_ariths split: if_splits)
    ultimately show "length serialized - unat offset' < fuel"
      using Suc.prems that(1) by linarith
  qed
  show ?case
    unfolding upload_loop.simps Let_def chunk_def [symmetric]
    by (auto intro!: returns_rules returns_large_blobs_exchange rest
        split: option.split)
qed

lemma returns_blobs [returns_rules]:
  assumes "0 < max_fragment" and "LARGE_BLOB_MAX_ARRAY_BYTES + 2 \<le> fuel"
  shows "returns (fetch_large_blob_entries pf B fuel max_fragment timeout)"
    "returns (write_authenticator_large_blob pf B fuel key blob max_fragment auth timeout)"
    "returns (delete_authenticator_large_blob pf B fuel key max_fragment auth timeout)"
proof -
  have fetch: "returns (fetch_serialized_array pf B fuel max_fragment timeout)"
    unfolding fetch_serialized_array_def using assms by (intro returns_fetch_loop) auto
  have upload: "returns (upload_serialized_array pf B fuel serialized max_fragment auth timeout)" for serialized
    unfolding upload_serialized_array_def using assms
    by (auto intro!: returns_rules returns_map_err returns_upload_loop split: option.split prod.split)
  show "returns (fetch_large_blob_entries pf B fuel max_fragment timeout)"
    "returns (write_authenticator_large_blob pf B fuel key blob max_fragment auth timeout)"
    "returns (delete_authenticator_large_blob pf B fuel key max_fragment auth timeout)"
    unfolding fetch_large_blob_entries_def write_authenticator_large_blob_def delete_authenticator_large_blob_def
      fetch_or_initial_def
    by (auto intro!: returns_rules returns_map_err fetch upload split: sum.split)
qed

lemma returns_get_assertion_fido2:
  assumes "returns (user_verification pf ga_uv_request (fu_verify fu) (gr_user_verification r) (gr_timeout r))"
    and "2 \<le> fu_turns fu" and "LARGE_BLOB_MAX_ARRAY_BYTES + 2 \<le> fu_blob fu"
  shows "returns (get_assertion_fido2 pf E fu r)"
proof -
  have more: "returns (next_assertions pf E r n)" for n
    by (induction n) (auto intro!: returns_rules)
  have preflight: "returns (ga_preflight pf E r q)" for q
    unfolding ga_preflight_def ctap2_preflight_def by (auto intro!: returns_rules)
  have one_write: "returns (write_outputs pf B (fu_blob fu) (max_fragment_length m) timeout op responses)"
    for B m timeout op responses
    unfolding write_outputs_def write_or_delete_for_first_def Let_def using assms(3)
    by (cases op) (auto intro!: returns_rules max_fragment_length_pos split: list.split option.split)
  have outputs: "returns (large_blob_outputs pf E (fu_blob fu) info r responses)" for info responses
    unfolding large_blob_outputs_def Let_def using assms(3)
    by (auto intro!: returns_rules max_fragment_length_pos one_write split: option.split large_blob_extension.split)
  show ?thesis
    unfolding get_assertion_fido2_def collect_assertions_def
    by (auto intro!: returns_rules returns_with_request returns_verified_loop_settled assms(1,2) more preflight
        outputs authentication.fresh_request_axioms split: prod.split)
qed

section \<open>A scripted ceremony\<close>

text \<open>
  An environment for the scripted authenticator: a request for an assertion is the byte 21 followed
  by its \<^verbatim>\<open>pinUvAuthParam\<close>, a response body names the credential answered with.
\<close>

definition example_codec :: text_codec where
  "example_codec = \<lparr>tc_base64url = map (\<lambda>b. char_of (unat b)), tc_base64url_decode = \<lambda>s. Some (map of_char s),
     tc_json_string = \<lambda>s. [CHR 0x22] @ s @ [CHR 0x22]\<rparr>"

definition example_ga_response :: "bytes \<Rightarrow> ctap2_ga_response" where
  "example_ga_response body =
     \<lparr>ag_credential_id = Some \<lparr>cd_id = body, cd_public_key = True, cd_transports = None\<rparr>,
      ag_authenticator_data = \<lparr>ad_rp_id_hash = replicate 32 1, ad_flags = 5, ad_signature_count = 7,
        ad_attested_credential = None, ad_extensions = None, ad_raw = None\<rparr>,
      ag_signature = [8], ag_user = None, ag_credentials_count = None, ag_user_selected = None,
      ag_large_blob_key = None, ag_unsigned_extension_outputs = None\<rparr>"

definition example_env :: "(cbor_script, unit) ceremony_env" where
  "example_env = \<lparr>ce_text = example_codec,
     ce_blob = \<lparr>bc_gcm_encrypt = \<lambda>k n a p. None, bc_gcm_decrypt = \<lambda>k n a c. None,
       bc_deflate = \<lambda>b. None, bc_inflate = \<lambda>b n. None, bc_item = \<lambda>b. None, bc_value = \<lambda>b. None,
       bc_encode = \<lambda>v. None, bc_encode_request = \<lambda>q. None, bc_decode_response = \<lambda>b. None,
       bc_nonce = \<lambda>d. ([], d)\<rparr>,
     ce_encode_mc = \<lambda>q. Some (20 # (case qm_pin_auth_param q of None \<Rightarrow> [] | Some p \<Rightarrow> p)),
     ce_decode_mc = \<lambda>b. None,
     ce_encode_ga = \<lambda>q. Some (21 # (case qg_pin_auth_param q of None \<Rightarrow> [] | Some p \<Rightarrow> p)),
     ce_decode_ga = \<lambda>b. Some (example_ga_response b),
     ce_supported = \<lambda>d. (Inr (True, False), d), ce_supports_preflight = False, ce_transport = Tr_Usb,
     ce_x509_rest = \<lambda>b. None, ce_sec1_point = \<lambda>b. None, ce_cose_key_bytes = \<lambda>x y. None\<rparr>"

definition example_fuel :: ceremony_fuel where
  "example_fuel = \<lparr>fu_turns = 2, fu_verify = 2, fu_blob = 2, fu_presence = 2\<rparr>"

definition example_ga :: ga_request where
  "example_ga = \<lparr>gr_relying_party_id = ''example.org'', gr_challenge = [1, 2], gr_origin = ''https://example.org'',
     gr_top_origin = None, gr_allow = [\<lparr>cd_id = [4, 2], cd_public_key = True, cd_transports = None\<rparr>],
     gr_hints = [], gr_extensions = None, gr_user_verification = Uv_Required, gr_timeout = 1000\<rparr>"

definition example_mc :: mc_request where
  "example_mc = \<lparr>mr_challenge = [1, 2], mr_origin = ''https://example.org'', mr_top_origin = None,
     mr_relying_party = \<lparr>rp_id = ''example.org'', rp_name = None\<rparr>,
     mr_user = \<lparr>ue_id = [7], ue_name = Some ''alice'', ue_display_name = None\<rparr>, mr_resident_key = None,
     mr_user_verification = Uv_Required, mr_algorithms = [credential_type_default], mr_exclude = None,
     mr_hints = [], mr_authenticator_attachment = None, mr_extensions = None, mr_attestation = None,
     mr_timeout = 1000\<rparr>"

text \<open>
  The script of an assertion with built-in verification: two getInfo responses, the key agreement,
  the token, and the assertion.
\<close>

definition example_ga_session :: "cbor_script session" where
  "example_ga_session = example_session ([ok_response 1, ok_response 1, ok_response 2, ok_response 3, ok_response 42], [])"

definition ceremony_outcome :: "('e + assertion list) \<times> cbor_script session
    \<Rightarrow> ('e + (bytes option \<times> bytes \<times> transport option) list) \<times> bytes option \<times> bytes list" where
  "ceremony_outcome = (\<lambda>(r, s). (result_map (map (\<lambda>a. (map_option cd_id (as_credential_id a),
       ad_rp_id_hash (as_authenticator_data a), as_transport a))) r,
     Option.bind (sn_auth_data s) atd_pin_uv_auth_token, map cr_encoded_data (snd (sn_device s))))"

lemma example_ga_run:
  "map_option ceremony_outcome (webauthn_get_assertion (scripted_authenticator uv_token_info key_and_token)
     example_env example_fuel example_ga example_ga_session)
   = Some (Inr [(Some [42], replicate 32 1, Some Tr_Usb)], Some (replicate 32 7),
       [[], [], [2], [6], 21 # replicate 32 2])"
  by code_simp

lemma example_ga_result:
  obtains a s' where "webauthn_get_assertion (scripted_authenticator uv_token_info key_and_token)
      example_env example_fuel example_ga example_ga_session = Some (Inr [a], s')"
    "Option.bind (sn_auth_data s') atd_pin_uv_auth_token = Some (replicate 32 7)"
  using example_ga_run by (auto simp: ceremony_outcome_def result_map_eq_Inr_conv)

section \<open>The ceremonies end\<close>

text \<open>
  C11: The loop of a ceremony makes two turns at most: whatever the device answers, more turns than
  two change nothing, because a token of the session is dropped when the device rejects it and the
  next turn asks for a fresh one.
\<close>

theorem ceremony_two_turns:
  fixes pf :: "('d, 'te) platform"
  shows "make_credential_fido2 pf E (fu\<lparr>fu_turns := Suc (Suc n)\<rparr>) r s
     = make_credential_fido2 pf E (fu\<lparr>fu_turns := 2\<rparr>) r s
   \<and> get_assertion_fido2 pf E (fu\<lparr>fu_turns := Suc (Suc n)\<rparr>) r' s
     = get_assertion_fido2 pf E (fu\<lparr>fu_turns := 2\<rparr>) r' s"
proof -
  have eq: "compares (=) False" by (simp add: compares_def)
  have two: "(2 :: nat) = Suc (Suc 0)" by simp
  have mc: "verified_loop pf mc_uv_request fuel requirement timeout (mc_prepare pf) command (\<lambda>q. q) (Suc (Suc n)) st
      = verified_loop pf mc_uv_request fuel requirement timeout (mc_prepare pf) command (\<lambda>q. q) (Suc (Suc 0)) st"
    for fuel requirement timeout command and st :: "'d session \<times> _"
    by (cases st, simp only:, rule registration.two_turns_settled [OF eq]) (simp_all add: keeps_def)
  have ga: "verified_loop pf ga_uv_request fuel requirement timeout (ga_prepare pf tc allow) command (\<lambda>q. q) (Suc (Suc n)) st
      = verified_loop pf ga_uv_request fuel requirement timeout (ga_prepare pf tc allow) command (\<lambda>q. q) (Suc (Suc 0)) st"
    for fuel requirement timeout command tc allow and st :: "'d session \<times> _"
    by (cases st, simp only:, rule authentication.two_turns_settled [OF eq]) (simp_all add: keeps_def)
  show ?thesis
    unfolding make_credential_fido2_def get_assertion_fido2_def with_request_def [abs_def] two
    by (simp add: mc ga del: verified_loop.simps)
qed

text \<open>
  C12: A ceremony over FIDO2 returns: two turns, two turns of user verification in each and fuel for
  the largest blob array are enough, on an authenticator that has some verification set up, does
  not force a PIN change, and reports blocked built-in verification only in answer to its use.
\<close>

theorem ceremonies_return:
  assumes "blocks_only_uv pf"
    and "\<And>data info. pf_decode_get_info pf data = Some info
      \<Longrightarrow> gi_force_pin_change info \<noteq> Some True \<and> is_uv_protected info"
    and "2 \<le> fu_turns fu" and "2 \<le> fu_verify fu" and "LARGE_BLOB_MAX_ARRAY_BYTES + 2 \<le> fu_blob fu"
  shows "(\<exists>res s'. make_credential_fido2 pf E fu r s = Some (res, s'))
    \<and> (\<exists>res s'. get_assertion_fido2 pf E fu r' s = Some (res, s'))"
proof -
  note uv = returns_user_verification [OF assms(1,2,4)]
  have "returns (make_credential_fido2 pf E fu r)" "returns (get_assertion_fido2 pf E fu r')"
    by (intro returns_make_credential_fido2 returns_get_assertion_fido2 uv assms; assumption)+
  then show ?thesis unfolding returns_def by (metis not_None_eq surj_pair)
qed

lemma ceremonies_return_witness:
  "(\<exists>res s'. make_credential_fido2 accepting_authenticator example_env (example_fuel\<lparr>fu_blob := 5000000\<rparr>)
      example_mc example_ga_session = Some (res, s'))
    \<and> (\<exists>res s'. get_assertion_fido2 accepting_authenticator example_env (example_fuel\<lparr>fu_blob := 5000000\<rparr>)
      example_ga example_ga_session = Some (res, s'))"
proof (rule ceremonies_return)
  show "blocks_only_uv accepting_authenticator" by (rule accepting_blocks_only_uv)
qed (auto simp: accepting_authenticator_def scripted_authenticator_def uv_token_info_def
  info_with_options_def get_info_default_def is_uv_protected_def option_enabled_def example_fuel_def
  LARGE_BLOB_MAX_ARRAY_BYTES_def)

end
