(* ===== verification/Ceremony_Binding.thy ===== *)
theory Ceremony_Binding
  imports Ceremony_Properties
begin

text \<open>
  What a ceremony returns is bound to what was asked: the request it answers, the relying party,
  the credentials of the allow list, and the client data that are signed.
\<close>

section \<open>The request an assertion answers\<close>

text \<open>
  A request for the given relying party and client data which, if \<open>required\<close>, asks for user
  verification or carries the proof of a token.
\<close>

definition ga_asks :: "string \<Rightarrow> bytes \<Rightarrow> bool \<Rightarrow> ctap2_ga_request \<Rightarrow> bool" where
  "ga_asks rp hash required q \<longleftrightarrow> qg_relying_party_id q = rp \<and> qg_client_data_hash q = hash
     \<and> (required \<longrightarrow> qg_pin_auth_param q \<noteq> None
          \<or> (case qg_options q of None \<Rightarrow> False | Some o1 \<Rightarrow> go_require_user_verification o1))"

interpretation assertion_request: request_invariant ga_uv_request "ga_asks rp hash required"
  for rp hash required
proof
  fix q q' c v token
  assume "ga_asks rp hash required q" "uq_calculate_and_set_uv_auth ga_uv_request c v token q = Inr q'"
  then show "ga_asks rp hash required q'"
    by (auto simp: ga_asks_def ga_uv_request_def ga_set_uv_auth_def result_bind_eq_Inr_conv)
qed (auto simp: ga_asks_def ga_uv_request_def ga_ensure_uv_set_def split: option.splits)

lemma keeps_ga_asks_prepare: "keeps (\<lambda>(s, q). ga_asks rp hash required q) (ga_prepare pf tc allow used)"
proof -
  have "keeps (\<lambda>(s, q). ga_asks rp hash required q) (request_modify (\<lambda>q. q\<lparr>qg_extensions := Some e\<rparr>))" for e
    by (auto simp: keeps_def request_modify_def act_run ga_asks_def)
  then show ?thesis
    unfolding ga_prepare_def ga_encrypt_prf_def
    by (auto intro!: keeps_bind keeps_run assertion_request.inv_session split: option.split prod.split)
qed

lemma ga_asks_initial:
  assumes "ga_from_webauthn_request c tc r info = Inr q"
  shows "ga_asks (gr_relying_party_id r) (ga_client_data_hash c tc r) (gr_user_verification r = Uv_Required) q"
  using assms
  by (auto simp: ga_from_webauthn_request_def ctap2_ga_request_of_def ga_asks_def ga_client_data_hash_def
      ga_client_data_def Let_def result_map_eq_Inr_conv split: if_splits option.splits)

lemma ga_asks_preflight:
  assumes "ga_preflight pf E r q s = Some (Inr q', s')" and "ga_asks rp hash required q"
  shows "ga_asks rp hash required q'"
  using assms by (auto simp: ga_preflight_def act_run ga_asks_def act_bind_def act_try_def
      split: if_splits option.splits sum.splits)

text \<open>The first assertion is the answer of the loop; every answer names the relying party.\<close>

lemma next_assertions_validated:
  "next_assertions pf E r n s = Some (Inr rs, s') \<Longrightarrow>
    list_all (\<lambda>resp. ad_rp_id_hash (ag_authenticator_data resp)
      = c_sha256 (pf_crypto pf) (string_bytes (gr_relying_party_id r))) rs"
  by (induction n arbitrary: s rs)
    (auto simp: act_run validate_rp_id_hash_def elim!: act_bind_InrE split: if_splits)

lemma collect_assertions_validated:
  assumes "collect_assertions pf E info r resp s = Some (Inr rs, s')"
  shows "\<exists>rest. rs = resp # rest" and "list_all (\<lambda>resp. ad_rp_id_hash (ag_authenticator_data resp)
      = c_sha256 (pf_crypto pf) (string_bytes (gr_relying_party_id r))) rs"
proof -
  from assms obtain rest s1 where ok: "ad_rp_id_hash (ag_authenticator_data resp)
      = c_sha256 (pf_crypto pf) (string_bytes (gr_relying_party_id r))"
    and rest: "next_assertions pf E r (assertion_count info resp - 1) s = Some (Inr rest, s1)" "rs = resp # rest"
    by (auto simp: collect_assertions_def act_run validate_rp_id_hash_def elim!: act_bind_InrE split: if_splits)
  show "\<exists>rest. rs = resp # rest" using rest by blast
  show "list_all (\<lambda>resp. ad_rp_id_hash (ag_authenticator_data resp)
      = c_sha256 (pf_crypto pf) (string_bytes (gr_relying_party_id r))) rs"
    using ok next_assertions_validated [OF rest(1)] rest(2) by simp
qed

lemma zip_blob_outputs_same:
  "map as_authenticator_data (zip_blob_outputs as es) = map as_authenticator_data as"
  "map as_signature (zip_blob_outputs as es) = map as_signature as"
  "map as_credential_id (zip_blob_outputs as es) = map as_credential_id as"
  by (induction as es rule: zip_blob_outputs.induct) (simp_all add: with_blob_output_def)

lemma into_assertion_output_same [simp]:
  "as_authenticator_data (into_assertion_output c b64 resp r auth) = ag_authenticator_data resp"
  "as_signature (into_assertion_output c b64 resp r auth) = ag_signature resp"
  by (simp_all add: into_assertion_output_def Let_def)

lemma get_assertion_fido2_result:
  assumes "get_assertion_fido2 pf E fu r s = Some (Inr as, s')"
  obtains q resp rest s1 s2 where
    "ctap2_get_assertion pf (ce_encode_ga E) (ce_decode_ga E) q (gr_timeout r) s1 = Some (Inr resp, s2)"
    "ga_asks (gr_relying_party_id r) (ga_client_data_hash (pf_crypto pf) (ce_text E) r)
      (gr_user_verification r = Uv_Required) q"
    "map as_authenticator_data as = map ag_authenticator_data (resp # rest)"
    "map as_signature as = map ag_signature (resp # rest)"
    "list_all (\<lambda>resp. ad_rp_id_hash (ag_authenticator_data resp)
      = c_sha256 (pf_crypto pf) (string_bytes (gr_relying_party_id r))) (resp # rest)"
proof -
  obtain info q0 q sa sb sc sd q' resp rs outs st where
    q0: "ga_from_webauthn_request (pf_crypto pf) (ce_text E) r info = Inr q0" and
    q: "ga_preflight pf E r (q0\<lparr>qg_allow := filter_oversized_credentials info (qg_allow q0)\<rparr>) sa = Some (Inr q, sb)" and
    loop: "with_request q (verified_loop pf ga_uv_request (fu_verify fu) (gr_user_verification r)
          (gr_timeout r) (ga_prepare pf (ce_text E) (gr_allow r))
          (\<lambda>q. ctap2_get_assertion pf (ce_encode_ga E) (ce_decode_ga E) q (gr_timeout r))
          (\<lambda>q. q) (fu_turns fu)) sc = Some (Inr (resp, q'), sd)" and
    rs: "collect_assertions pf E info r resp sd = Some (Inr rs, st)" and
    as: "as = zip_blob_outputs (map (\<lambda>resp. into_assertion_output (pf_crypto pf) (tc_base64url (ce_text E)) resp r
            (session_get_auth_data s')) rs) outs"
    using assms by (auto simp: get_assertion_fido2_def act_run elim!: act_bind_InrE split: if_splits)
  let ?asks = "ga_asks (gr_relying_party_id r) (ga_client_data_hash (pf_crypto pf) (ce_text E) r)
      (gr_user_verification r = Uv_Required)"
  have "?asks (q0\<lparr>qg_allow := filter_oversized_credentials info (qg_allow q0)\<rparr>)"
    using ga_asks_initial [OF q0] by (simp add: ga_asks_def)
  then have "?asks q" by (rule ga_asks_preflight [OF q])
  moreover have run: "verified_loop pf ga_uv_request (fu_verify fu) (gr_user_verification r)
          (gr_timeout r) (ga_prepare pf (ce_text E) (gr_allow r))
          (\<lambda>q. ctap2_get_assertion pf (ce_encode_ga E) (ce_decode_ga E) q (gr_timeout r))
          (\<lambda>q. q) (fu_turns fu) (sc, q) = Some (Inr resp, (sd, q'))"
    using loop by (auto simp: with_request_def split: option.splits sum.splits prod.splits)
  ultimately have "?asks q' \<and> (\<exists>s1. ctap2_get_assertion pf (ce_encode_ga E) (ce_decode_ga E) q' (gr_timeout r) s1 = Some (Inr resp, sd))"
    by (intro assertion_request.loop_answers [OF run _ keeps_ga_asks_prepare]) simp_all
  then obtain s1 where "?asks q'" "ctap2_get_assertion pf (ce_encode_ga E) (ce_decode_ga E) q' (gr_timeout r) s1 = Some (Inr resp, sd)"
    by blast
  moreover from collect_assertions_validated [OF rs] obtain rest where "rs = resp # rest" by blast
  ultimately show thesis
    using collect_assertions_validated(2) [OF rs] that [of q' s1 resp sd rest]
    by (simp add: as zip_blob_outputs_same comp_def)
qed

text \<open>
  C7: An assertion answers what the caller asked: the first assertion returned is the response to a
  request for the relying party and the client data hash of the call, and if the call requires user
  verification that request asks for it or carries the proof of a token.
\<close>

theorem assertion_answers_request:
  assumes "get_assertion_fido2 pf E fu r s = Some (Inr as, s')"
  shows "\<exists>q resp s1 s2. ctap2_get_assertion pf (ce_encode_ga E) (ce_decode_ga E) q (gr_timeout r) s1 = Some (Inr resp, s2)
    \<and> as \<noteq> [] \<and> as_signature (hd as) = ag_signature resp
    \<and> as_authenticator_data (hd as) = ag_authenticator_data resp
    \<and> qg_relying_party_id q = gr_relying_party_id r
    \<and> qg_client_data_hash q = ga_client_data_hash (pf_crypto pf) (ce_text E) r
    \<and> (gr_user_verification r = Uv_Required \<longrightarrow> qg_pin_auth_param q \<noteq> None
          \<or> (case qg_options q of None \<Rightarrow> False | Some o1 \<Rightarrow> go_require_user_verification o1))"
  using assms
proof (rule get_assertion_fido2_result)
  fix q resp rest s1 s2
  assume "ctap2_get_assertion pf (ce_encode_ga E) (ce_decode_ga E) q (gr_timeout r) s1 = Some (Inr resp, s2)"
    "ga_asks (gr_relying_party_id r) (ga_client_data_hash (pf_crypto pf) (ce_text E) r)
      (gr_user_verification r = Uv_Required) q"
    "map as_authenticator_data as = map ag_authenticator_data (resp # rest)"
    "map as_signature as = map ag_signature (resp # rest)"
  then show ?thesis
    by (intro exI [of _ q] exI [of _ resp] exI [of _ s1] exI [of _ s2]) (cases as; auto simp: ga_asks_def)
qed

lemma example_fido2_run:
  "map_option (\<lambda>(r, s). result_map (map as_signature) r) (get_assertion_fido2 (scripted_authenticator uv_token_info key_and_token)
     example_env example_fuel example_ga example_ga_session) = Some (Inr [[8]])"
  by code_simp

lemma assertion_answers_request_witness:
  "\<exists>q resp s1 s2. ctap2_get_assertion (scripted_authenticator uv_token_info key_and_token) (ce_encode_ga example_env)
      (ce_decode_ga example_env) q 1000 s1 = Some (Inr resp, s2)
    \<and> qg_relying_party_id q = ''example.org''
    \<and> (qg_pin_auth_param q \<noteq> None
          \<or> (case qg_options q of None \<Rightarrow> False | Some o1 \<Rightarrow> go_require_user_verification o1))"
proof -
  obtain as s' where "get_assertion_fido2 (scripted_authenticator uv_token_info key_and_token)
     example_env example_fuel example_ga example_ga_session = Some (Inr as, s')"
    using example_fido2_run by (auto simp: result_map_eq_Inr_conv)
  from assertion_answers_request [OF this] show ?thesis
    by (auto simp: example_ga_def)
qed

section \<open>Assertions name the relying party\<close>

lemma u2f_sign_any_result:
  assumes "u2f_sign_any pf E turns appid_hash reqs s = Some (Inr as, s')" and "a \<in> set as"
  shows "\<exists>req\<in>set reqs. ad_rp_id_hash (as_authenticator_data a) = sr_app_id_hash req"
  using assms
proof (induction reqs arbitrary: s)
  case Nil
  then show ?case by (simp add: act_run)
next
  case (Cons req reqs)
  obtain r t where run: "ctap1_sign pf turns req s = Some (r, t)"
    using Cons.prems(1) by (auto simp: act_try_def split: option.splits)
  show ?case
  proof (cases r)
    case (Inl e)
    then show ?thesis
      using Cons.prems Cons.IH [of t] run
      by (auto simp: act_try_def act_run split: webauthn_error.splits ctap_error.splits)
  next
    case (Inr resp)
    then show ?thesis
      using Cons.prems run
      by (auto simp: act_try_def act_run elim!: act_bind_InrE split: option.splits if_splits
          simp: u2f_sign_upgrade_def Let_def)
  qed
qed

lemma ga_try_downgrade_hashes:
  "ga_try_downgrade c tc r = Inr reqs \<Longrightarrow> req \<in> set reqs \<Longrightarrow>
    sr_app_id_hash req = c_sha256 c (string_bytes (gr_relying_party_id r)) \<or> Some (sr_app_id_hash req) = ga_appid_hash c r"
  by (auto simp: ga_try_downgrade_def Let_def sign_request_new_upgraded_def split: option.splits)

lemma ga_required_by_prf_same [simp]:
  "gr_relying_party_id (ga_required_by_prf r) = gr_relying_party_id r"
  "ga_appid_hash c (ga_required_by_prf r) = ga_appid_hash c r"
  "gr_allow (ga_required_by_prf r) = gr_allow r"
  "ga_large_blob (ga_required_by_prf r) = ga_large_blob r"
  by (simp_all add: ga_required_by_prf_def ga_appid_hash_def ga_large_blob_def)

text \<open>
  C10: Every assertion a ceremony returns, over FIDO2 or U2F, is for the relying party of the call:
  its authenticator data begin with the hash of the relying party identifier, or with the hash of
  the AppID of the call, and it names the transport of the channel.
\<close>

theorem assertion_bound_to_rp:
  assumes "webauthn_get_assertion pf E fu r s = Some (Inr as, s')"
  shows "\<forall>a\<in>set as. as_transport a = Some (ce_transport E)
    \<and> (ad_rp_id_hash (as_authenticator_data a) = c_sha256 (pf_crypto pf) (string_bytes (gr_relying_party_id r))
      \<or> Some (ad_rp_id_hash (as_authenticator_data a)) = ga_appid_hash (pf_crypto pf) r)"
proof -
  let ?r = "ga_required_by_prf r"
  let ?ok = "\<lambda>a. ad_rp_id_hash (as_authenticator_data a) = c_sha256 (pf_crypto pf) (string_bytes (gr_relying_party_id r))
      \<or> Some (ad_rp_id_hash (as_authenticator_data a)) = ga_appid_hash (pf_crypto pf) r"
  obtain protocol as0 s1 where run: "(case protocol of FIDO2 \<Rightarrow> get_assertion_fido2 pf E fu ?r
      | U2F \<Rightarrow> get_assertion_u2f pf E fu ?r) s1 = Some (Inr as0, s')"
    and as: "as = map (\<lambda>a. a\<lparr>as_transport := Some (ce_transport E)\<rparr>) as0"
    using assms by (auto simp: webauthn_get_assertion_def Let_def act_run elim!: act_bind_InrE)
  have "\<forall>a\<in>set as0. ?ok a"
  proof (cases protocol)
    case FIDO2
    with run have "get_assertion_fido2 pf E fu ?r s1 = Some (Inr as0, s')" by simp
    then show ?thesis
    proof (rule get_assertion_fido2_result)
      fix resp rest
      assume data: "map as_authenticator_data as0 = map ag_authenticator_data (resp # rest)"
        and all: "list_all (\<lambda>resp. ad_rp_id_hash (ag_authenticator_data resp)
          = c_sha256 (pf_crypto pf) (string_bytes (gr_relying_party_id ?r))) (resp # rest)"
      have "list_all (\<lambda>d. ad_rp_id_hash d = c_sha256 (pf_crypto pf) (string_bytes (gr_relying_party_id ?r)))
          (map as_authenticator_data as0)"
        unfolding data list.pred_map comp_def by (rule all)
      then show ?thesis by (simp add: list.pred_map list_all_iff)
    qed
  next
    case U2F
    with run show ?thesis
      by (auto simp: get_assertion_u2f_def act_run elim!: act_bind_InrE
          dest!: u2f_sign_any_result ga_try_downgrade_hashes)
  qed
  then show ?thesis by (auto simp: as)
qed

lemma assertion_bound_to_rp_witness:
  "\<exists>a :: assertion. as_transport a = Some Tr_Usb
    \<and> ad_rp_id_hash (as_authenticator_data a) = c_sha256 example_crypto (string_bytes ''example.org'')"
proof -
  obtain a s' where "webauthn_get_assertion (scripted_authenticator uv_token_info key_and_token)
      example_env example_fuel example_ga example_ga_session = Some (Inr [a], s')"
    by (rule example_ga_result)
  from assertion_bound_to_rp [OF this] show ?thesis
    by (simp add: scripted_authenticator_def example_env_def example_ga_def ga_appid_hash_def) blast
qed

section \<open>The request a registration answers\<close>

definition mc_asks :: "mc_request \<Rightarrow> bytes \<Rightarrow> ctap2_mc_request \<Rightarrow> bool" where
  "mc_asks r hash q \<longleftrightarrow> qm_hash q = hash \<and> qm_relying_party q = mr_relying_party r
     \<and> qm_user q = mr_user r \<and> qm_algorithms q = mr_algorithms r"

interpretation registration_request: request_invariant mc_uv_request "mc_asks r hash" for r hash
proof
  fix q q' c v token
  assume "mc_asks r hash q" "uq_calculate_and_set_uv_auth mc_uv_request c v token q = Inr q'"
  then show "mc_asks r hash q'"
    by (auto simp: mc_asks_def mc_uv_request_def mc_set_uv_auth_def result_bind_eq_Inr_conv)
qed (auto simp: mc_asks_def mc_uv_request_def mc_ensure_uv_set_def)

lemma keeps_mc_asks_prepare: "keeps (\<lambda>(s, q). mc_asks r hash q) (mc_prepare pf used)"
proof -
  have "keeps (\<lambda>(s, q). mc_asks r hash q) (request_modify (\<lambda>q. q\<lparr>qm_extensions := Some e\<rparr>))" for e
    by (auto simp: keeps_def request_modify_def act_run mc_asks_def)
  then show ?thesis
    unfolding mc_prepare_def mc_encrypt_prf_def
    by (auto intro!: keeps_bind keeps_run registration_request.inv_session split: option.split prod.split)
qed

lemma mc_asks_initial:
  assumes "mc_from_webauthn_request c tc r info = Inr q"
  shows "mc_asks r (mc_client_data_hash c tc r) q"
  using assms by (auto simp: mc_from_webauthn_request_def mc_asks_def result_bind_eq_Inr_conv)

lemma mc_asks_preflight:
  assumes "mc_preflight pf E r q s = Some (Inr q', s')" and "mc_asks r hash q"
  shows "mc_asks r hash q'"
  using assms by (auto simp: mc_preflight_def act_run mc_asks_def elim!: act_bind_InrE
      split: if_splits option.splits)

text \<open>
  C20: A registration answers what the caller asked: the response returned is the device's response
  to a request with the client data hash, the relying party, the user and the algorithms of the
  call.
\<close>

theorem registration_answers_request:
  fixes pf :: "('d, 'te) platform"
  assumes "make_credential_fido2 pf E fu r s = Some (Inr response, s')"
  shows "\<exists>q resp s1 s2. ctap2_make_credential pf (ce_encode_mc E) (ce_decode_mc E) q (mr_timeout r) s1 = Some (Inr resp, s2)
    \<and> ar_authenticator_data response = am_authenticator_data resp
    \<and> ar_attestation_statement response = am_attestation_statement resp
    \<and> qm_hash q = mc_client_data_hash (pf_crypto pf) (ce_text E) r
    \<and> qm_relying_party q = mr_relying_party r \<and> qm_user q = mr_user r \<and> qm_algorithms q = mr_algorithms r"
proof -
  obtain info q0 q sa sb sc sd q' resp where
    q0: "mc_from_webauthn_request (pf_crypto pf) (ce_text E) r info = (Inr q0 :: 'te webauthn_error + _)" and
    q: "mc_preflight pf E r (q0\<lparr>qm_exclude := map_option (filter_oversized_credentials info) (qm_exclude q0)\<rparr>) sa
      = Some (Inr q, sb)" and
    loop: "with_request q (verified_loop pf mc_uv_request (fu_verify fu) (mr_user_verification r)
       (mr_timeout r) (mc_prepare pf)
       (\<lambda>q. ctap2_make_credential pf (ce_encode_mc E) (ce_decode_mc E) q (mr_timeout r))
       (\<lambda>q. q) (fu_turns fu)) sc = Some (Inr (resp, q'), sd)" and
    response: "ar_authenticator_data response = am_authenticator_data resp"
      "ar_attestation_statement response = am_attestation_statement resp"
    using assms by (auto simp: make_credential_fido2_def into_make_credential_output_def act_run elim!: act_bind_InrE)
  let ?asks = "mc_asks r (mc_client_data_hash (pf_crypto pf) (ce_text E) r)"
  have "?asks (q0\<lparr>qm_exclude := map_option (filter_oversized_credentials info) (qm_exclude q0)\<rparr>)"
    using mc_asks_initial [OF q0] by (simp add: mc_asks_def)
  then have "?asks q" by (rule mc_asks_preflight [OF q])
  moreover have run: "verified_loop pf mc_uv_request (fu_verify fu) (mr_user_verification r)
       (mr_timeout r) (mc_prepare pf)
       (\<lambda>q. ctap2_make_credential pf (ce_encode_mc E) (ce_decode_mc E) q (mr_timeout r))
       (\<lambda>q. q) (fu_turns fu) (sc, q) = Some (Inr resp, (sd, q'))"
    using loop by (auto simp: with_request_def split: option.splits sum.splits prod.splits)
  ultimately have "?asks q' \<and> (\<exists>s1. ctap2_make_credential pf (ce_encode_mc E) (ce_decode_mc E) q' (mr_timeout r) s1
      = Some (Inr resp, sd))"
    by (intro registration_request.loop_answers [OF run _ keeps_mc_asks_prepare]) simp_all
  then obtain s1 where "?asks q'"
    "ctap2_make_credential pf (ce_encode_mc E) (ce_decode_mc E) q' (mr_timeout r) s1 = Some (Inr resp, sd)"
    by blast
  then show ?thesis
    by (intro exI [of _ q'] exI [of _ resp] exI [of _ s1] exI [of _ sd])
      (simp add: response mc_asks_def)
qed

definition example_mc_response :: ctap2_mc_response where
  "example_mc_response = \<lparr>am_format = ''none'',
     am_authenticator_data = \<lparr>ad_rp_id_hash = replicate 32 1, ad_flags = 0x45, ad_signature_count = 0,
       ad_attested_credential = None, ad_extensions = None, ad_raw = None\<rparr>,
     am_attestation_statement = Ast_None [], am_enterprise_attestation = None, am_large_blob_key = None,
     am_unsigned_extension_outputs = None\<rparr>"

definition registering_env :: "(cbor_script, unit) ceremony_env" where
  "registering_env = example_env\<lparr>ce_decode_mc := \<lambda>b. Some example_mc_response\<rparr>"

lemma example_mc_run:
  "map_option (\<lambda>(r, s). result_map ar_attestation_statement r) (make_credential_fido2
     (scripted_authenticator uv_token_info key_and_token) registering_env example_fuel example_mc example_ga_session)
   = Some (Inr (Ast_None []))"
  by code_simp

lemma registration_answers_request_witness:
  "\<exists>q s1 s2 resp. ctap2_make_credential (scripted_authenticator uv_token_info key_and_token) (ce_encode_mc registering_env)
      (ce_decode_mc registering_env) q 1000 s1 = Some (Inr resp, s2)
    \<and> am_attestation_statement resp = Ast_None [] \<and> rp_id (qm_relying_party q) = ''example.org''"
proof -
  obtain response s' where "make_credential_fido2 (scripted_authenticator uv_token_info key_and_token)
      registering_env example_fuel example_mc example_ga_session = Some (Inr response, s')"
    and *: "ar_attestation_statement response = Ast_None []"
    using example_mc_run by (auto simp: result_map_eq_Inr_conv)
  from registration_answers_request [OF this(1)] obtain q resp s1 s2 where
    "ctap2_make_credential (scripted_authenticator uv_token_info key_and_token) (ce_encode_mc registering_env)
      (ce_decode_mc registering_env) q (mr_timeout example_mc) s1 = Some (Inr resp, s2)"
    "ar_attestation_statement response = am_attestation_statement resp"
    "qm_relying_party q = mr_relying_party example_mc"
    by blast
  with * show ?thesis
    by (intro exI [of _ q] exI [of _ s1] exI [of _ s2] exI [of _ resp]) (simp add: example_mc_def)
qed

section \<open>No downgrade\<close>

text \<open>
  C21: An assertion that requires user verification, asks for PRF outputs, writes a large blob or
  has no allow list is never answered over U2F: on a device without FIDO2 it fails with
  \<^verbatim>\<open>NotSupported\<close>, and nothing is sent.
\<close>

theorem assertion_not_downgraded:
  assumes "ce_supported E (sn_device s) = (Inr (False, u2f), d)"
    and "gr_user_verification r = Uv_Required \<or> ga_prf_requested r \<or> gr_allow r = []
      \<or> is_large_blob_write (ga_large_blob r)"
  shows "webauthn_get_assertion pf E fu r s = Some (Inl (We_Platform Pe_NotSupported), s\<lparr>sn_device := d\<rparr>)"
proof -
  have "\<not> ga_is_downgradable (ga_required_by_prf r)"
    using assms(2) by (cases "gr_user_verification r")
      (auto simp: ga_is_downgradable_def ga_required_by_prf_def prf_forces_uv_upgrade_def ga_large_blob_def)
  then show ?thesis
    using assms(1)
    by (auto simp: webauthn_get_assertion_def negotiate_protocol_def supported_protocols_def on_device_def
        Let_def act_bind_def act_run)
qed

lemma assertion_not_downgraded_witness:
  "webauthn_get_assertion (scripted_authenticator uv_token_info key_and_token)
     (example_env\<lparr>ce_supported := \<lambda>d. (Inr (False, True), d)\<rparr>) example_fuel example_ga example_ga_session
   = Some (Inl (We_Platform Pe_NotSupported), example_ga_session\<lparr>sn_device := sn_device example_ga_session\<rparr>)"
  by (rule assertion_not_downgraded [where u2f = True]) (simp_all add: example_ga_def)

section \<open>Pre-flight\<close>

text \<open>
  C33: Pre-flight keeps exactly the credentials the device knows, in their order: on a device that
  answers the silent request for each credential with that credential, or with \<^verbatim>\<open>NoCredentials\<close>, the
  list that comes out is the list of the known ones.
\<close>

theorem preflight_filters_known:
  assumes "\<And>d s. d \<in> set ds \<Longrightarrow> \<exists>s'. ctap2_get_assertion pf (ce_encode_ga E) (ce_decode_ga E)
      (preflight_request d hash rp) 2000 s
      = Some (if known d then Inr (answer d) else Inl (We_Ctap Ctap_NoCredentials), s')"
    and "\<And>d. d \<in> set ds \<Longrightarrow> ag_credential_id (answer d) = Some d"
  shows "\<exists>s'. ctap2_preflight pf E ds hash rp s = Some (Inr (filter known ds), s')"
  unfolding ctap2_preflight_def using assms
proof (induction ds arbitrary: s)
  case Nil
  then show ?case by (simp add: act_run)
next
  case (Cons d ds)
  obtain s1 where "ctap2_get_assertion pf (ce_encode_ga E) (ce_decode_ga E) (preflight_request d hash rp) 2000 s
      = Some (if known d then Inr (answer d) else Inl (We_Ctap Ctap_NoCredentials), s1)"
    using Cons.prems(1) by force
  then have one: "preflight_either pf E d hash rp None s = Some (Inr (if known d then Some d else None), s1)"
    using Cons.prems(2) [of d]
    by (auto simp: preflight_either_def preflight_one_def preflight_match_def act_bind_def act_try_def act_run)
  obtain s2 where "ctap2_preflight_with_appid pf E ds hash rp None s1 = Some (Inr (filter known ds), s2)"
    using Cons.IH [of s1] Cons.prems by force
  with one show ?case by (auto simp: act_bind_def act_run)
qed

text \<open>An authenticator that answers the silent request for one credential.\<close>

definition knowing_authenticator :: "bytes \<Rightarrow> (cbor_script, unit) platform" where
  "knowing_authenticator known = (scripted_authenticator uv_token_info key_and_token)
     \<lparr>pf_cbor_recv := \<lambda>t (answers, log). (Inr (if log \<noteq> [] \<and> cr_encoded_data (last log) = known
        then cbor_response_new_success known else \<lparr>cs_status_code = Ctap_NoCredentials, cs_data = None\<rparr>), (answers, log))\<rparr>"

definition knowing_env :: "(cbor_script, unit) ceremony_env" where
  "knowing_env = example_env\<lparr>ce_encode_ga := \<lambda>q. Some (concat (map cd_id (qg_allow q)))\<rparr>"

lemma preflight_filters_known_witness:
  "\<exists>s'. ctap2_preflight (knowing_authenticator [4, 2]) knowing_env
      [\<lparr>cd_id = [7], cd_public_key = True, cd_transports = None\<rparr>, \<lparr>cd_id = [4, 2], cd_public_key = True, cd_transports = None\<rparr>]
      [] ''example.org'' example_ga_session
    = Some (Inr (filter (\<lambda>d. cd_id d = [4, 2]) [\<lparr>cd_id = [7], cd_public_key = True, cd_transports = None\<rparr>,
        \<lparr>cd_id = [4, 2], cd_public_key = True, cd_transports = None\<rparr>]), s')"
  by (rule preflight_filters_known [where answer = "\<lambda>d. example_ga_response (cd_id d)"])
    (auto simp: ctap2_get_assertion_def ctap2_exchange_def knowing_authenticator_def scripted_authenticator_def
      knowing_env_def example_env_def preflight_request_def cbor_request_of_def on_transport_def act_bind_def act_run
      cbor_response_new_success_def parse_required_def parse_cbor_def example_ga_response_def split: prod.split)

section \<open>Client data\<close>

text \<open>
  C34: The client data that are hashed and signed determine the operation, the challenge, the origin
  and the top origin: two different client data never have the same JSON text, when a JSON string
  ends where its encoding says and base64url is injective.
\<close>

theorem client_data_binding:
  assumes "\<And>a b x y. tc_json_string tc a @ x = tc_json_string tc b @ y \<Longrightarrow> a = b \<and> x = y"
    and "\<And>a b. tc_base64url tc a = tc_base64url tc b \<Longrightarrow> a = b"
    and "client_data_json tc d = client_data_json tc e"
  shows "d = e"
proof -
  have string: "tc_json_string tc a @ x = tc_json_string tc b @ y \<longleftrightarrow> a = b \<and> x = y" for a b x y
    using assms(1) by blast
  have string0: "tc_json_string tc a = tc_json_string tc b \<longleftrightarrow> a = b" for a b
    using string [of a "[]" b "[]"] by simp
  have base64: "tc_base64url tc a = tc_base64url tc b \<longleftrightarrow> a = b" for a b using assms(2) by blast
  have kind: "operation_type a = operation_type b \<longleftrightarrow> a = b" for a b
    by (cases a; cases b) simp_all
  show ?thesis
    using assms(3)
    by (cases d; cases e)
      (auto simp: client_data_json_def string string0 base64 kind split: option.splits if_splits)
qed

text \<open>A codec with those laws: every character of a string is escaped.\<close>

definition escaping_codec :: text_codec where
  "escaping_codec = example_codec
     \<lparr>tc_json_string := \<lambda>s. [CHR 0x22] @ concat (map (\<lambda>c. [CHR 0x5C, c]) s) @ [CHR 0x22]\<rparr>"

lemma escaping_codec_law:
  "concat (map (\<lambda>c. [CHR 0x5C, c]) a) @ CHR 0x22 # x = concat (map (\<lambda>c. [CHR 0x5C, c]) b) @ CHR 0x22 # y
    \<Longrightarrow> a = b \<and> x = y"
proof (induction a arbitrary: b)
  case Nil
  then show ?case by (cases b) simp_all
next
  case (Cons c a)
  then show ?case by (cases b) auto
qed

lemma client_data_binding_witness:
  "\<lparr>cl_operation = Op_GetAssertion, cl_challenge = [1, 2], cl_origin = ''https://a.org'', cl_top_origin = None\<rparr>
   = ga_client_data (example_ga\<lparr>gr_origin := ''https://a.org''\<rparr>)"
proof (rule client_data_binding [where tc = escaping_codec])
  show "a = b \<and> x = y" if "tc_json_string escaping_codec a @ x = tc_json_string escaping_codec b @ y" for a b x y
    using that escaping_codec_law [of a x b y] by (simp add: escaping_codec_def)
  show "a = b" if "tc_base64url escaping_codec a = tc_base64url escaping_codec b" for a b
  proof -
    have "inj (\<lambda>b :: u8. char_of (unat b) :: char)"
      by (rule injI) (metis char_of_eq_iff of_char_mod_256 of_nat_unat unat_u8_less mod_less word_unat_eq_iff of_char_of)
    then show ?thesis
      using that by (simp add: escaping_codec_def example_codec_def inj_map_eq_map)
  qed
qed (simp add: ga_client_data_def example_ga_def)

end
