(* ===== verification/Management_Requests.thy ===== *)
theory Management_Requests
  imports Credential_Response
begin

text \<open>
  The requests that manage an authenticator: configuration, bio enrollment and credential
  management (\<^verbatim>\<open>proto/ctap2/model/\<close>), with their methods for user verification
  (\<^verbatim>\<open>management/\<close>).  The encoders of parameters, which \<^verbatim>\<open>serde\<close> derives, are arguments.
\<close>

section \<open>Configuration\<close>

datatype config_command = Cfg_EnableEnterpriseAttestation | Cfg_ToggleAlwaysUv
  | Cfg_SetMinPINLength | Cfg_VendorPrototype

fun config_command_byte :: "config_command \<Rightarrow> u8" where
  "config_command_byte Cfg_EnableEnterpriseAttestation = 0x01"
| "config_command_byte Cfg_ToggleAlwaysUv = 0x02"
| "config_command_byte Cfg_SetMinPINLength = 0x03"
| "config_command_byte Cfg_VendorPrototype = 0xFF"

record set_min_pin_params =
  sp_new_min_pin_length :: "u64 option"
  sp_min_pin_length_rpids :: "string list option"
  sp_force_change_pin :: "bool option"

datatype config_params = SetMinPINLength set_min_pin_params | SetMinPINLengthRPIDs set_min_pin_params

record config_request =
  cq_subcommand :: config_command
  cq_subcommand_params :: "config_params option"
  cq_protocol :: "pin_uv_auth_protocol option"
  cq_uv_auth_param :: "bytes option"

definition config_request_new :: "config_command \<Rightarrow> config_params option \<Rightarrow> config_request" where
  "config_request_new subcommand params =
     \<lparr>cq_subcommand = subcommand, cq_subcommand_params = params, cq_protocol = None, cq_uv_auth_param = None\<rparr>"

definition new_toggle_always_uv :: config_request where
  "new_toggle_always_uv = config_request_new Cfg_ToggleAlwaysUv None"

definition new_enable_enterprise_attestation :: config_request where
  "new_enable_enterprise_attestation = config_request_new Cfg_EnableEnterpriseAttestation None"

definition new_force_change_pin :: "bool \<Rightarrow> config_request" where
  "new_force_change_pin force =
     config_request_new Cfg_SetMinPINLength (Some (SetMinPINLength
       \<lparr>sp_new_min_pin_length = None, sp_min_pin_length_rpids = None, sp_force_change_pin = Some force\<rparr>))"

definition new_set_min_pin_length :: "u64 \<Rightarrow> config_request" where
  "new_set_min_pin_length len =
     config_request_new Cfg_SetMinPINLength (Some (SetMinPINLength
       \<lparr>sp_new_min_pin_length = Some len, sp_min_pin_length_rpids = None, sp_force_change_pin = None\<rparr>))"

definition new_set_min_pin_length_rpids :: "string list \<Rightarrow> config_request" where
  "new_set_min_pin_length_rpids rpids =
     config_request_new Cfg_SetMinPINLength (Some (SetMinPINLengthRPIDs
       \<lparr>sp_new_min_pin_length = None, sp_min_pin_length_rpids = Some rpids, sp_force_change_pin = None\<rparr>))"

text \<open>The message a configuration request is authenticated with.\<close>

definition config_auth_data :: "(config_params option \<Rightarrow> bytes option) \<Rightarrow> config_request
    \<Rightarrow> platform_error + bytes" where
  "config_auth_data to_vec q =
     (let data = replicate 32 0xFF @ [0x0D, config_command_byte (cq_subcommand q)]
      in if cq_subcommand q = Cfg_SetMinPINLength then
           result_map (\<lambda>params. data @ params) (ok_or Pe_CborError (to_vec (cq_subcommand_params q)))
         else Inr data)"

definition config_set_uv_auth :: "(config_params option \<Rightarrow> bytes option) \<Rightarrow> crypto \<Rightarrow> pin_uv_auth_protocol
    \<Rightarrow> bytes \<Rightarrow> config_request \<Rightarrow> platform_error + config_request" where
  "config_set_uv_auth to_vec c version token q =
     result_bind (config_auth_data to_vec q) (\<lambda>data.
     result_bind (pin_authenticate c version token data) (\<lambda>uv_auth_param.
     Inr (q\<lparr>cq_protocol := Some version, cq_uv_auth_param := Some uv_auth_param\<rparr>)))"

definition config_uv_request :: "(config_params option \<Rightarrow> bytes option) \<Rightarrow> config_request uv_request" where
  "config_uv_request to_vec =
     \<lparr>uq_ensure_uv_set = (\<lambda>q. q), uq_calculate_and_set_uv_auth = config_set_uv_auth to_vec,
      uq_permissions = (\<lambda>q. AUTHENTICATOR_CONFIGURATION), uq_permissions_rpid = (\<lambda>q. None),
      uq_can_use_uv = (\<lambda>q info. option_enabled info ''uvAcfg''), uq_handle_legacy_preview = (\<lambda>info q. q),
      uq_needs_shared_secret = (\<lambda>q info. False), uq_set_persistent_token_use = (\<lambda>info available q. q),
      uq_wants_persistent_token = (\<lambda>q. False), uq_note_persistent_token_rejected = (\<lambda>q. q),
      uq_persistent_token_rejected = (\<lambda>q. False), uq_needs_pin_uv_auth_token = (\<lambda>q info. False)\<rparr>"

section \<open>Bio enrollment\<close>

datatype bio_modality = Fingerprint

datatype bio_fingerprint_kind = Fk_Touch | Fk_Swipe

datatype bio_subcommand = Bio_EnrollBegin | Bio_EnrollCaptureNextSample | Bio_CancelCurrentEnrollment
  | Bio_EnumerateEnrollments | Bio_SetFriendlyName | Bio_RemoveEnrollment | Bio_GetFingerprintSensorInfo

fun bio_subcommand_byte :: "bio_subcommand \<Rightarrow> u8" where
  "bio_subcommand_byte Bio_EnrollBegin = 0x01"
| "bio_subcommand_byte Bio_EnrollCaptureNextSample = 0x02"
| "bio_subcommand_byte Bio_CancelCurrentEnrollment = 0x03"
| "bio_subcommand_byte Bio_EnumerateEnrollments = 0x04"
| "bio_subcommand_byte Bio_SetFriendlyName = 0x05"
| "bio_subcommand_byte Bio_RemoveEnrollment = 0x06"
| "bio_subcommand_byte Bio_GetFingerprintSensorInfo = 0x07"

datatype bio_sample_status = Fp_Good | Fp_TooHigh | Fp_TooLow | Fp_TooLeft | Fp_TooRight | Fp_TooFast
  | Fp_TooSlow | Fp_PoorQuality | Fp_TooSkewed | Fp_TooShort | Fp_MergeFailure | Fp_Exists | Fp_Unused
  | Fp_NoUserActivity | Fp_NoUserPresenceTransition

record bio_params =
  bp_template_id :: "bytes option"
  bp_template_friendly_name :: "string option"
  bp_timeout_milliseconds :: "u64 option"

record bio_request =
  bq_modality :: "bio_modality option"
  bq_subcommand :: "bio_subcommand option"
  bq_subcommand_params :: "bio_params option"
  bq_protocol :: "pin_uv_auth_protocol option"
  bq_uv_auth_param :: "bytes option"
  bq_get_modality :: "bool option"
  bq_use_legacy_preview :: bool

record bio_template_id =
  bt_template_id :: "bytes option"
  bt_template_friendly_name :: "string option"

record bio_response =
  br_modality :: "bio_modality option"
  br_fingerprint_kind :: "bio_fingerprint_kind option"
  br_max_capture_samples_required_for_enroll :: "u64 option"
  br_template_id :: "bytes option"
  br_last_enroll_sample_status :: "bio_sample_status option"
  br_remaining_samples :: "u64 option"
  br_template_infos :: "bio_template_id list option"
  br_max_template_friendly_name :: "u64 option"

definition bio_response_default :: bio_response where
  "bio_response_default = \<lparr>br_modality = None, br_fingerprint_kind = None,
     br_max_capture_samples_required_for_enroll = None, br_template_id = None,
     br_last_enroll_sample_status = None, br_remaining_samples = None, br_template_infos = None,
     br_max_template_friendly_name = None\<rparr>"

definition bio_request_new :: "bio_subcommand \<Rightarrow> bio_params option \<Rightarrow> bio_request" where
  "bio_request_new subcommand params =
     \<lparr>bq_modality = Some Fingerprint, bq_subcommand = Some subcommand, bq_subcommand_params = params,
      bq_protocol = None, bq_uv_auth_param = None, bq_get_modality = None, bq_use_legacy_preview = False\<rparr>"

definition new_get_modality :: bio_request where
  "new_get_modality =
     \<lparr>bq_modality = None, bq_subcommand = None, bq_subcommand_params = None, bq_protocol = None,
      bq_uv_auth_param = None, bq_get_modality = Some True, bq_use_legacy_preview = False\<rparr>"

definition new_fingerprint_sensor_info :: bio_request where
  "new_fingerprint_sensor_info = bio_request_new Bio_GetFingerprintSensorInfo None"

definition new_enumerate_enrollments :: bio_request where
  "new_enumerate_enrollments = bio_request_new Bio_EnumerateEnrollments None"

definition new_remove_enrollment :: "bytes \<Rightarrow> bio_request" where
  "new_remove_enrollment template_id =
     bio_request_new Bio_RemoveEnrollment (Some \<lparr>bp_template_id = Some template_id,
       bp_template_friendly_name = None, bp_timeout_milliseconds = None\<rparr>)"

definition new_rename_enrollment :: "bytes \<Rightarrow> string \<Rightarrow> bio_request" where
  "new_rename_enrollment template_id name =
     bio_request_new Bio_SetFriendlyName (Some \<lparr>bp_template_id = Some template_id,
       bp_template_friendly_name = Some name, bp_timeout_milliseconds = None\<rparr>)"

text \<open>A duration is its number of milliseconds; \<^verbatim>\<open>as u64\<close> truncates it.\<close>

definition new_start_new_enrollment :: "nat option \<Rightarrow> bio_request" where
  "new_start_new_enrollment enrollment_timeout =
     bio_request_new Bio_EnrollBegin (map_option (\<lambda>ms. \<lparr>bp_template_id = None,
       bp_template_friendly_name = None, bp_timeout_milliseconds = Some (of_nat ms)\<rparr>) enrollment_timeout)"

definition new_next_enrollment :: "bytes \<Rightarrow> nat option \<Rightarrow> bio_request" where
  "new_next_enrollment template_id enrollment_timeout =
     bio_request_new Bio_EnrollCaptureNextSample (Some \<lparr>bp_template_id = Some template_id,
       bp_template_friendly_name = None, bp_timeout_milliseconds = map_option of_nat enrollment_timeout\<rparr>)"

definition new_cancel_current_enrollment :: bio_request where
  "new_cancel_current_enrollment = bio_request_new Bio_CancelCurrentEnrollment None"

definition bio_auth_data :: "(bio_params \<Rightarrow> bytes option) \<Rightarrow> bio_request \<Rightarrow> platform_error + bytes" where
  "bio_auth_data to_vec q =
     result_bind (ok_or Pe_InvalidDeviceResponse (bq_subcommand q)) (\<lambda>subcommand.
     let data = [0x01, bio_subcommand_byte subcommand]
     in case bq_subcommand_params q of
          None \<Rightarrow> Inr data
        | Some params \<Rightarrow> result_map (\<lambda>bs. data @ bs) (ok_or Pe_CborError (to_vec params)))"

definition bio_set_uv_auth :: "(bio_params \<Rightarrow> bytes option) \<Rightarrow> crypto \<Rightarrow> pin_uv_auth_protocol
    \<Rightarrow> bytes \<Rightarrow> bio_request \<Rightarrow> platform_error + bio_request" where
  "bio_set_uv_auth to_vec c version token q =
     result_bind (bio_auth_data to_vec q) (\<lambda>data.
     result_bind (pin_authenticate c version token data) (\<lambda>uv_auth_param.
     Inr (q\<lparr>bq_protocol := Some version, bq_uv_auth_param := Some uv_auth_param\<rparr>)))"

definition bio_handle_legacy_preview :: "get_info_response \<Rightarrow> bio_request \<Rightarrow> bio_request" where
  "bio_handle_legacy_preview info q =
     (case gi_options info of
        None \<Rightarrow> q
      | Some options \<Rightarrow>
          if options ''bioEnroll'' \<noteq> Some True \<and> options ''userVerificationMgmtPreview'' = Some True
          then q\<lparr>bq_use_legacy_preview := True\<rparr> else q)"

definition bio_uv_request :: "(bio_params \<Rightarrow> bytes option) \<Rightarrow> bio_request uv_request" where
  "bio_uv_request to_vec =
     \<lparr>uq_ensure_uv_set = (\<lambda>q. q), uq_calculate_and_set_uv_auth = bio_set_uv_auth to_vec,
      uq_permissions = (\<lambda>q. BIO_ENROLLMENT), uq_permissions_rpid = (\<lambda>q. None),
      uq_can_use_uv = (\<lambda>q info. option_enabled info ''uvBioEnroll''),
      uq_handle_legacy_preview = bio_handle_legacy_preview,
      uq_needs_shared_secret = (\<lambda>q info. False), uq_set_persistent_token_use = (\<lambda>info available q. q),
      uq_wants_persistent_token = (\<lambda>q. False), uq_note_persistent_token_rejected = (\<lambda>q. q),
      uq_persistent_token_rejected = (\<lambda>q. False), uq_needs_pin_uv_auth_token = (\<lambda>q info. False)\<rparr>"

section \<open>Credential management\<close>

datatype cred_mgmt_subcommand = Cm_GetCredsMetadata | Cm_EnumerateRPsBegin | Cm_EnumerateRPsGetNextRP
  | Cm_EnumerateCredentialsBegin | Cm_EnumerateCredentialsGetNextCredential | Cm_DeleteCredential
  | Cm_UpdateUserInformation

fun cred_mgmt_subcommand_byte :: "cred_mgmt_subcommand \<Rightarrow> u8" where
  "cred_mgmt_subcommand_byte Cm_GetCredsMetadata = 0x01"
| "cred_mgmt_subcommand_byte Cm_EnumerateRPsBegin = 0x02"
| "cred_mgmt_subcommand_byte Cm_EnumerateRPsGetNextRP = 0x03"
| "cred_mgmt_subcommand_byte Cm_EnumerateCredentialsBegin = 0x04"
| "cred_mgmt_subcommand_byte Cm_EnumerateCredentialsGetNextCredential = 0x05"
| "cred_mgmt_subcommand_byte Cm_DeleteCredential = 0x06"
| "cred_mgmt_subcommand_byte Cm_UpdateUserInformation = 0x07"

fun cred_mgmt_is_read_only :: "cred_mgmt_subcommand \<Rightarrow> bool" where
  "cred_mgmt_is_read_only Cm_DeleteCredential = False"
| "cred_mgmt_is_read_only Cm_UpdateUserInformation = False"
| "cred_mgmt_is_read_only _ = True"

record cred_mgmt_params =
  cmp_rpid_hash :: "bytes option"
  cmp_credential_id :: "credential_descriptor option"
  cmp_user :: "user_entity option"

record cred_mgmt_request =
  cmq_subcommand :: "cred_mgmt_subcommand option"
  cmq_subcommand_params :: "cred_mgmt_params option"
  cmq_protocol :: "pin_uv_auth_protocol option"
  cmq_uv_auth_param :: "bytes option"
  cmq_use_legacy_preview :: bool
  cmq_use_persistent_token :: bool
  cmq_persistent_token_rejected :: bool

record cred_mgmt_response =
  cmr_existing_resident_credentials_count :: "u64 option"
  cmr_max_possible_remaining_resident_credentials_count :: "u64 option"
  cmr_rp :: "rp_entity option"
  cmr_rp_id_hash :: "bytes option"
  cmr_total_rps :: "u64 option"
  cmr_user :: "user_entity option"
  cmr_credential_id :: "credential_descriptor option"
  cmr_public_key :: "bytes option"
  cmr_total_credentials :: "u64 option"
  cmr_cred_protect :: "u64 option"
  cmr_large_blob_key :: "bytes option"

definition cred_mgmt_response_default :: cred_mgmt_response where
  "cred_mgmt_response_default = \<lparr>cmr_existing_resident_credentials_count = None,
     cmr_max_possible_remaining_resident_credentials_count = None, cmr_rp = None, cmr_rp_id_hash = None,
     cmr_total_rps = None, cmr_user = None, cmr_credential_id = None, cmr_public_key = None,
     cmr_total_credentials = None, cmr_cred_protect = None, cmr_large_blob_key = None\<rparr>"

definition cred_mgmt_request_new :: "cred_mgmt_subcommand \<Rightarrow> cred_mgmt_params option \<Rightarrow> cred_mgmt_request" where
  "cred_mgmt_request_new subcommand params =
     \<lparr>cmq_subcommand = Some subcommand, cmq_subcommand_params = params, cmq_protocol = None,
      cmq_uv_auth_param = None, cmq_use_legacy_preview = False, cmq_use_persistent_token = False,
      cmq_persistent_token_rejected = False\<rparr>"

definition new_get_credential_metadata :: cred_mgmt_request where
  "new_get_credential_metadata = cred_mgmt_request_new Cm_GetCredsMetadata None"

definition new_enumerate_rps_begin :: cred_mgmt_request where
  "new_enumerate_rps_begin = cred_mgmt_request_new Cm_EnumerateRPsBegin None"

definition new_enumerate_rps_next_rp :: cred_mgmt_request where
  "new_enumerate_rps_next_rp = cred_mgmt_request_new Cm_EnumerateRPsGetNextRP None"

definition new_enumerate_credentials_begin :: "bytes \<Rightarrow> cred_mgmt_request" where
  "new_enumerate_credentials_begin rpid_hash =
     cred_mgmt_request_new Cm_EnumerateCredentialsBegin
       (Some \<lparr>cmp_rpid_hash = Some rpid_hash, cmp_credential_id = None, cmp_user = None\<rparr>)"

definition new_enumerate_credentials_next :: cred_mgmt_request where
  "new_enumerate_credentials_next = cred_mgmt_request_new Cm_EnumerateCredentialsGetNextCredential None"

definition new_delete_credential :: "credential_descriptor \<Rightarrow> cred_mgmt_request" where
  "new_delete_credential credential_id =
     cred_mgmt_request_new Cm_DeleteCredential
       (Some \<lparr>cmp_rpid_hash = None, cmp_credential_id = Some credential_id, cmp_user = None\<rparr>)"

definition new_update_user_information :: "credential_descriptor \<Rightarrow> user_entity \<Rightarrow> cred_mgmt_request" where
  "new_update_user_information credential_id user =
     cred_mgmt_request_new Cm_UpdateUserInformation
       (Some \<lparr>cmp_rpid_hash = None, cmp_credential_id = Some credential_id, cmp_user = Some user\<rparr>)"

definition cred_mgmt_auth_data :: "(cred_mgmt_params \<Rightarrow> bytes option) \<Rightarrow> cred_mgmt_request
    \<Rightarrow> platform_error + bytes" where
  "cred_mgmt_auth_data to_vec q =
     result_bind (ok_or Pe_InvalidDeviceResponse (cmq_subcommand q)) (\<lambda>subcommand.
     let data = [cred_mgmt_subcommand_byte subcommand]
     in case cmq_subcommand_params q of
          None \<Rightarrow> Inr data
        | Some params \<Rightarrow> result_map (\<lambda>bs. data @ bs) (ok_or Pe_CborError (to_vec params)))"

definition cred_mgmt_set_uv_auth :: "(cred_mgmt_params \<Rightarrow> bytes option) \<Rightarrow> crypto \<Rightarrow> pin_uv_auth_protocol
    \<Rightarrow> bytes \<Rightarrow> cred_mgmt_request \<Rightarrow> platform_error + cred_mgmt_request" where
  "cred_mgmt_set_uv_auth to_vec c version token q =
     result_bind (cred_mgmt_auth_data to_vec q) (\<lambda>data.
     result_bind (pin_authenticate c version token data) (\<lambda>uv_auth_param.
     Inr (q\<lparr>cmq_protocol := Some version, cmq_uv_auth_param := Some uv_auth_param\<rparr>)))"

definition cred_mgmt_permissions :: "cred_mgmt_request \<Rightarrow> permission_role" where
  "cred_mgmt_permissions q =
     (if cmq_use_persistent_token q then PERSISTENT_CREDENTIAL_MANAGEMENT_READ_ONLY else CREDENTIAL_MANAGEMENT)"

definition cred_mgmt_handle_legacy_preview :: "get_info_response \<Rightarrow> cred_mgmt_request \<Rightarrow> cred_mgmt_request" where
  "cred_mgmt_handle_legacy_preview info q =
     (case gi_options info of
        None \<Rightarrow> q
      | Some options \<Rightarrow>
          if options ''credMgmt'' \<noteq> Some True \<and> options ''credentialMgmtPreview'' = Some True
          then q\<lparr>cmq_use_legacy_preview := True\<rparr> else q)"

definition cred_mgmt_set_persistent_token_use :: "get_info_response \<Rightarrow> bool \<Rightarrow> cred_mgmt_request
    \<Rightarrow> cred_mgmt_request" where
  "cred_mgmt_set_persistent_token_use info store_available q =
     q\<lparr>cmq_use_persistent_token := store_available
         \<and> supports_persistent_credential_management_read_only info
         \<and> (case cmq_subcommand q of None \<Rightarrow> False | Some subcommand \<Rightarrow> cred_mgmt_is_read_only subcommand)\<rparr>"

definition cred_mgmt_note_persistent_token_rejected :: "cred_mgmt_request \<Rightarrow> cred_mgmt_request" where
  "cred_mgmt_note_persistent_token_rejected q = q\<lparr>cmq_persistent_token_rejected := True\<rparr>"

definition cred_mgmt_uv_request :: "(cred_mgmt_params \<Rightarrow> bytes option) \<Rightarrow> cred_mgmt_request uv_request" where
  "cred_mgmt_uv_request to_vec =
     \<lparr>uq_ensure_uv_set = (\<lambda>q. q), uq_calculate_and_set_uv_auth = cred_mgmt_set_uv_auth to_vec,
      uq_permissions = cred_mgmt_permissions, uq_permissions_rpid = (\<lambda>q. None),
      uq_can_use_uv = (\<lambda>q info. True), uq_handle_legacy_preview = cred_mgmt_handle_legacy_preview,
      uq_needs_shared_secret = (\<lambda>q info. False),
      uq_set_persistent_token_use = cred_mgmt_set_persistent_token_use,
      uq_wants_persistent_token = cmq_use_persistent_token,
      uq_note_persistent_token_rejected = cred_mgmt_note_persistent_token_rejected,
      uq_persistent_token_rejected = cmq_persistent_token_rejected,
      uq_needs_pin_uv_auth_token = (\<lambda>q info. False)\<rparr>"

end
