(* ===== verification/Management.thy ===== *)
theory Management
  imports Management_Requests Ceremonies
begin

text \<open>
  Managing an authenticator, \<^verbatim>\<open>management/\<close>: configuration, bio enrollment, credential management
  and reset, each a request run through the loop around user verification.
\<close>

section \<open>Parameters\<close>

text \<open>The codecs that \<^verbatim>\<open>serde\<close> derives for the requests, their parameters and the responses.\<close>

record management_codec =
  mk_config_params :: "config_params option \<Rightarrow> bytes option"
  mk_encode_config :: "config_request \<Rightarrow> bytes option"
  mk_bio_params :: "bio_params \<Rightarrow> bytes option"
  mk_encode_bio :: "bio_request \<Rightarrow> bytes option"
  mk_decode_bio :: "bytes \<Rightarrow> bio_response option"
  mk_cred_params :: "cred_mgmt_params \<Rightarrow> bytes option"
  mk_encode_cred :: "cred_mgmt_request \<Rightarrow> bytes option"
  mk_decode_cred :: "bytes \<Rightarrow> cred_mgmt_response option"

text \<open>\<^verbatim>\<open>unwrap_field!\<close>\<close>

definition unwrap_field :: "'a option \<Rightarrow> ('d, 'te, 'a) ceremony" where
  "unwrap_field x = act_lift (ok_or (We_Platform Pe_InvalidDeviceResponse) x)"

section \<open>Configuration\<close>

definition config_loop :: "('d, 'te) platform \<Rightarrow> management_codec \<Rightarrow> ceremony_fuel \<Rightarrow> config_request
    \<Rightarrow> nat \<Rightarrow> ('d, 'te, unit) ceremony" where
  "config_loop pf M fu req timeout =
     act_bind (with_request req (verified_loop pf (config_uv_request (mk_config_params M)) (fu_verify fu)
       Uv_Required timeout (\<lambda>_. act_return ())
       (\<lambda>q. ctap2_authenticator_config pf (mk_encode_config M) q timeout) (\<lambda>q. q) (fu_turns fu))) (\<lambda>_.
     act_return ())"

definition toggle_always_uv :: "('d, 'te) platform \<Rightarrow> management_codec \<Rightarrow> ceremony_fuel \<Rightarrow> nat
    \<Rightarrow> ('d, 'te, unit) ceremony" where
  "toggle_always_uv pf M fu timeout =
     act_bind (ctap2_get_info pf) (\<lambda>info.
     if \<not> option_enabled info ''authnrCfg'' \<or> \<not> option_exists info ''alwaysUv''
     then act_fail (We_Platform Pe_NotSupported)
     else config_loop pf M fu new_toggle_always_uv timeout)"

definition enable_enterprise_attestation :: "('d, 'te) platform \<Rightarrow> management_codec \<Rightarrow> ceremony_fuel \<Rightarrow> nat
    \<Rightarrow> ('d, 'te, unit) ceremony" where
  "enable_enterprise_attestation pf M fu timeout =
     act_bind (ctap2_get_info pf) (\<lambda>info.
     if \<not> option_enabled info ''authnrCfg'' \<or> \<not> option_exists info ''ep''
     then act_fail (We_Platform Pe_NotSupported)
     else config_loop pf M fu new_enable_enterprise_attestation timeout)"

definition set_min_pin_length :: "('d, 'te) platform \<Rightarrow> management_codec \<Rightarrow> ceremony_fuel \<Rightarrow> u64 \<Rightarrow> nat
    \<Rightarrow> ('d, 'te, unit) ceremony" where
  "set_min_pin_length pf M fu new_pin_length timeout =
     act_bind (ctap2_get_info pf) (\<lambda>info.
     if \<not> option_enabled info ''authnrCfg'' \<or> \<not> option_exists info ''setMinPINLength''
     then act_fail (We_Platform Pe_NotSupported)
     else config_loop pf M fu (new_set_min_pin_length new_pin_length) timeout)"

definition force_change_pin :: "('d, 'te) platform \<Rightarrow> management_codec \<Rightarrow> ceremony_fuel \<Rightarrow> bool \<Rightarrow> nat
    \<Rightarrow> ('d, 'te, unit) ceremony" where
  "force_change_pin pf M fu force timeout =
     act_bind (ctap2_get_info pf) (\<lambda>info.
     if \<not> option_enabled info ''authnrCfg'' \<or> \<not> option_exists info ''setMinPINLength''
     then act_fail (We_Platform Pe_NotSupported)
     else config_loop pf M fu (new_force_change_pin force) timeout)"

definition set_min_pin_length_rpids :: "('d, 'te) platform \<Rightarrow> management_codec \<Rightarrow> ceremony_fuel
    \<Rightarrow> string list \<Rightarrow> nat \<Rightarrow> ('d, 'te, unit) ceremony" where
  "set_min_pin_length_rpids pf M fu rpids timeout =
     act_bind (ctap2_get_info pf) (\<lambda>info.
     if \<not> option_enabled info ''authnrCfg'' \<or> \<not> option_exists info ''setMinPINLength''
        \<or> \<not> supports_extension info ''minPinLength''
     then act_fail (We_Platform Pe_NotSupported)
     else
       let max_rpids = (case gi_max_rpids_for_setminpinlength info of None \<Rightarrow> 2 ^ 32 - 1 | Some n \<Rightarrow> unat n)
       in if length rpids > max_rpids then act_fail (We_Platform Pe_RequestTooLarge)
          else config_loop pf M fu (new_set_min_pin_length_rpids rpids) timeout)"

section \<open>Bio enrollment\<close>

definition bio_exchange :: "('d, 'te) platform \<Rightarrow> management_codec \<Rightarrow> bio_request \<Rightarrow> nat
    \<Rightarrow> ('d, 'te, bio_response) ceremony" where
  "bio_exchange pf M q timeout =
     ctap2_bio_enrollment pf (mk_encode_bio M) bq_use_legacy_preview (mk_decode_bio M) bio_response_default q timeout"

definition bio_loop :: "('d, 'te) platform \<Rightarrow> management_codec \<Rightarrow> ceremony_fuel \<Rightarrow> bio_request
    \<Rightarrow> nat \<Rightarrow> ('d, 'te, bio_response) ceremony" where
  "bio_loop pf M fu req timeout =
     act_bind (with_request req (verified_loop pf (bio_uv_request (mk_bio_params M)) (fu_verify fu)
       Uv_Preferred timeout (\<lambda>_. act_return ()) (\<lambda>q. bio_exchange pf M q timeout) (\<lambda>q. q) (fu_turns fu))) (\<lambda>(resp, _).
     act_return resp)"

definition get_bio_modality :: "('d, 'te) platform \<Rightarrow> management_codec \<Rightarrow> nat
    \<Rightarrow> ('d, 'te, bio_modality) ceremony" where
  "get_bio_modality pf M timeout =
     act_bind (bio_exchange pf M new_get_modality timeout) (\<lambda>resp.
     act_lift (ok_or (We_Ctap Ctap_Other) (br_modality resp)))"

record bio_sensor_info =
  bs_fingerprint_kind :: bio_fingerprint_kind
  bs_max_capture_samples_required_for_enroll :: "u64 option"
  bs_max_template_friendly_name :: "u64 option"

definition get_fingerprint_sensor_info :: "('d, 'te) platform \<Rightarrow> management_codec \<Rightarrow> nat
    \<Rightarrow> ('d, 'te, bio_sensor_info) ceremony" where
  "get_fingerprint_sensor_info pf M timeout =
     act_bind (bio_exchange pf M new_fingerprint_sensor_info timeout) (\<lambda>resp.
     case br_fingerprint_kind resp of
       None \<Rightarrow> act_fail (We_Ctap Ctap_Other)
     | Some kind \<Rightarrow> act_return \<lparr>bs_fingerprint_kind = kind,
         bs_max_capture_samples_required_for_enroll = br_max_capture_samples_required_for_enroll resp,
         bs_max_template_friendly_name = br_max_template_friendly_name resp\<rparr>)"

definition get_bio_enrollments :: "('d, 'te) platform \<Rightarrow> management_codec \<Rightarrow> ceremony_fuel \<Rightarrow> nat
    \<Rightarrow> ('d, 'te, bio_template_id list) ceremony" where
  "get_bio_enrollments pf M fu timeout =
     act_bind (bio_loop pf M fu new_enumerate_enrollments timeout) (\<lambda>resp.
     act_return (case br_template_infos resp of None \<Rightarrow> [] | Some infos \<Rightarrow> infos))"

definition remove_bio_enrollment :: "('d, 'te) platform \<Rightarrow> management_codec \<Rightarrow> ceremony_fuel \<Rightarrow> bytes \<Rightarrow> nat
    \<Rightarrow> ('d, 'te, unit) ceremony" where
  "remove_bio_enrollment pf M fu template_id timeout =
     act_bind (bio_loop pf M fu (new_remove_enrollment template_id) timeout) (\<lambda>_. act_return ())"

definition rename_bio_enrollment :: "('d, 'te) platform \<Rightarrow> management_codec \<Rightarrow> ceremony_fuel \<Rightarrow> bytes
    \<Rightarrow> string \<Rightarrow> nat \<Rightarrow> ('d, 'te, unit) ceremony" where
  "rename_bio_enrollment pf M fu template_id name timeout =
     act_bind (bio_loop pf M fu (new_rename_enrollment template_id name) timeout) (\<lambda>_. act_return ())"

definition start_new_bio_enrollment :: "('d, 'te) platform \<Rightarrow> management_codec \<Rightarrow> ceremony_fuel
    \<Rightarrow> nat option \<Rightarrow> nat \<Rightarrow> ('d, 'te, bytes \<times> bio_sample_status \<times> u64) ceremony" where
  "start_new_bio_enrollment pf M fu enrollment_timeout timeout =
     act_bind (bio_loop pf M fu (new_start_new_enrollment enrollment_timeout) timeout) (\<lambda>resp.
     act_bind (unwrap_field (br_remaining_samples resp)) (\<lambda>remaining_samples.
     act_bind (unwrap_field (br_template_id resp)) (\<lambda>template_id.
     act_bind (unwrap_field (br_last_enroll_sample_status resp)) (\<lambda>sample_status.
     act_return (template_id, sample_status, remaining_samples)))))"

definition capture_next_bio_enrollment_sample :: "('d, 'te) platform \<Rightarrow> management_codec \<Rightarrow> ceremony_fuel
    \<Rightarrow> bytes \<Rightarrow> nat option \<Rightarrow> nat \<Rightarrow> ('d, 'te, bio_sample_status \<times> u64) ceremony" where
  "capture_next_bio_enrollment_sample pf M fu template_id enrollment_timeout timeout =
     act_bind (bio_loop pf M fu (new_next_enrollment template_id enrollment_timeout) timeout) (\<lambda>resp.
     act_bind (unwrap_field (br_remaining_samples resp)) (\<lambda>remaining_samples.
     act_bind (unwrap_field (br_last_enroll_sample_status resp)) (\<lambda>sample_status.
     act_return (sample_status, remaining_samples))))"

definition cancel_current_bio_enrollment :: "('d, 'te) platform \<Rightarrow> management_codec \<Rightarrow> ceremony_fuel \<Rightarrow> nat
    \<Rightarrow> ('d, 'te, unit) ceremony" where
  "cancel_current_bio_enrollment pf M fu timeout =
     act_bind (bio_loop pf M fu new_cancel_current_enrollment timeout) (\<lambda>_. act_return ())"

section \<open>Credential management\<close>

definition cred_mgmt_exchange :: "('d, 'te) platform \<Rightarrow> management_codec \<Rightarrow> cred_mgmt_request \<Rightarrow> nat
    \<Rightarrow> ('d, 'te, cred_mgmt_response) ceremony" where
  "cred_mgmt_exchange pf M q timeout =
     ctap2_credential_management pf (mk_encode_cred M) cmq_use_legacy_preview (mk_decode_cred M)
       cred_mgmt_response_default q timeout"

definition cred_mgmt_loop :: "('d, 'te) platform \<Rightarrow> management_codec \<Rightarrow> ceremony_fuel
    \<Rightarrow> (used_token \<Rightarrow> ('d, cred_mgmt_request, 'te, unit) uv_flow) \<Rightarrow> cred_mgmt_request
    \<Rightarrow> nat \<Rightarrow> ('d, 'te, cred_mgmt_response \<times> cred_mgmt_request) ceremony" where
  "cred_mgmt_loop pf M fu prepare req timeout =
     with_request req (verified_loop pf (cred_mgmt_uv_request (mk_cred_params M)) (fu_verify fu)
       Uv_Preferred timeout prepare (\<lambda>q. cred_mgmt_exchange pf M q timeout)
       cred_mgmt_note_persistent_token_rejected (fu_turns fu))"

record cred_mgmt_metadata =
  cmm_existing_resident_credentials_count :: u64
  cmm_max_possible_remaining_resident_credentials_count :: u64

record credential_data =
  cdt_user :: user_entity
  cdt_credential_id :: credential_descriptor
  cdt_public_key :: bytes
  cdt_cred_protect :: u64
  cdt_large_blob_key :: "bytes option"

record rp_data =
  rpd_rp :: rp_entity
  rpd_rp_id_hash :: bytes

definition rp_data_of :: "cred_mgmt_response \<Rightarrow> ('d, 'te, rp_data) ceremony" where
  "rp_data_of resp =
     act_bind (unwrap_field (cmr_rp resp)) (\<lambda>rp.
     act_bind (unwrap_field (cmr_rp_id_hash resp)) (\<lambda>hash.
     act_return \<lparr>rpd_rp = rp, rpd_rp_id_hash = hash\<rparr>))"

definition credential_data_of :: "cred_mgmt_response \<Rightarrow> ('d, 'te, credential_data) ceremony" where
  "credential_data_of resp =
     act_bind (unwrap_field (cmr_user resp)) (\<lambda>user.
     act_bind (unwrap_field (cmr_credential_id resp)) (\<lambda>credential_id.
     act_bind (unwrap_field (cmr_public_key resp)) (\<lambda>public_key.
     act_bind (unwrap_field (cmr_cred_protect resp)) (\<lambda>cred_protect.
     act_return \<lparr>cdt_user = user, cdt_credential_id = credential_id, cdt_public_key = public_key,
       cdt_cred_protect = cred_protect, cdt_large_blob_key = cmr_large_blob_key resp\<rparr>))))"

definition get_credential_metadata :: "('d, 'te) platform \<Rightarrow> management_codec \<Rightarrow> ceremony_fuel \<Rightarrow> nat
    \<Rightarrow> ('d, 'te, cred_mgmt_metadata) ceremony" where
  "get_credential_metadata pf M fu timeout =
     act_bind (cred_mgmt_loop pf M fu (\<lambda>_. act_return ()) new_get_credential_metadata timeout) (\<lambda>(resp, _).
     act_bind (unwrap_field (cmr_existing_resident_credentials_count resp)) (\<lambda>existing.
     act_bind (unwrap_field (cmr_max_possible_remaining_resident_credentials_count resp)) (\<lambda>remaining.
     act_return \<lparr>cmm_existing_resident_credentials_count = existing,
       cmm_max_possible_remaining_resident_credentials_count = remaining\<rparr>)))"

definition enumerate_rps_begin :: "('d, 'te) platform \<Rightarrow> management_codec \<Rightarrow> ceremony_fuel \<Rightarrow> nat
    \<Rightarrow> ('d, 'te, rp_data \<times> u64) ceremony" where
  "enumerate_rps_begin pf M fu timeout =
     act_bind (cred_mgmt_loop pf M fu (\<lambda>_. act_return ()) new_enumerate_rps_begin timeout) (\<lambda>(resp, q).
     act_bind (act_modify (session_set_cred_mgmt_preview (cmq_use_legacy_preview q))) (\<lambda>_.
     act_bind (rp_data_of resp) (\<lambda>rp.
     act_bind (unwrap_field (cmr_total_rps resp)) (\<lambda>total_rps.
     act_return (rp, total_rps)))))"

definition enumerate_rps_next_rp :: "('d, 'te) platform \<Rightarrow> management_codec \<Rightarrow> nat
    \<Rightarrow> ('d, 'te, rp_data) ceremony" where
  "enumerate_rps_next_rp pf M timeout =
     act_bind (act_get sn_cred_mgmt_preview) (\<lambda>preview.
     act_bind (cred_mgmt_exchange pf M (new_enumerate_rps_next_rp\<lparr>cmq_use_legacy_preview := preview\<rparr>) timeout) (\<lambda>resp.
     rp_data_of resp))"

definition enumerate_credentials_begin :: "('d, 'te) platform \<Rightarrow> management_codec \<Rightarrow> ceremony_fuel \<Rightarrow> bytes
    \<Rightarrow> nat \<Rightarrow> ('d, 'te, credential_data \<times> u64) ceremony" where
  "enumerate_credentials_begin pf M fu rpid_hash timeout =
     act_bind (cred_mgmt_loop pf M fu (\<lambda>_. act_return ()) (new_enumerate_credentials_begin rpid_hash) timeout) (\<lambda>(resp, q).
     act_bind (act_modify (session_set_cred_mgmt_preview (cmq_use_legacy_preview q))) (\<lambda>_.
     act_bind (credential_data_of resp) (\<lambda>cred.
     act_bind (unwrap_field (cmr_total_credentials resp)) (\<lambda>total_creds.
     act_return (cred, total_creds)))))"

definition enumerate_credentials_next :: "('d, 'te) platform \<Rightarrow> management_codec \<Rightarrow> nat
    \<Rightarrow> ('d, 'te, credential_data) ceremony" where
  "enumerate_credentials_next pf M timeout =
     act_bind (act_get sn_cred_mgmt_preview) (\<lambda>preview.
     act_bind (cred_mgmt_exchange pf M (new_enumerate_credentials_next\<lparr>cmq_use_legacy_preview := preview\<rparr>) timeout) (\<lambda>resp.
     credential_data_of resp))"

definition delete_credential :: "('d, 'te) platform \<Rightarrow> management_codec \<Rightarrow> ceremony_fuel
    \<Rightarrow> credential_descriptor \<Rightarrow> nat \<Rightarrow> ('d, 'te, unit) ceremony" where
  "delete_credential pf M fu credential_id timeout =
     act_bind (cred_mgmt_loop pf M fu (\<lambda>_. act_return ()) (new_delete_credential credential_id) timeout) (\<lambda>_.
     act_return ())"

text \<open>The preview command set has no \<^verbatim>\<open>updateUserInformation\<close>.\<close>

definition refuse_legacy_preview :: "used_token \<Rightarrow> ('d, cred_mgmt_request, 'te, unit) uv_flow" where
  "refuse_legacy_preview used =
     act_bind (request_get cmq_use_legacy_preview) (\<lambda>preview.
     if preview then act_fail (We_Ctap Ctap_InvalidCommand) else act_return ())"

definition update_user_info :: "('d, 'te) platform \<Rightarrow> management_codec \<Rightarrow> ceremony_fuel
    \<Rightarrow> credential_descriptor \<Rightarrow> user_entity \<Rightarrow> nat \<Rightarrow> ('d, 'te, unit) ceremony" where
  "update_user_info pf M fu credential_id user timeout =
     act_bind (cred_mgmt_loop pf M fu refuse_legacy_preview (new_update_user_information credential_id user) timeout) (\<lambda>_.
     act_return ())"

section \<open>Reset\<close>

text \<open>The record is recognized before the reset, while the device identifier is still derivable.\<close>

definition record_before_reset :: "('d, 'te) platform \<Rightarrow> ('d, 'te, record_id option) ceremony" where
  "record_before_reset pf =
     act_bind (act_get sn_token_store) (\<lambda>store.
     case store of
       None \<Rightarrow> act_return None
     | Some _ \<Rightarrow>
         act_try (ctap2_get_info pf) (\<lambda>r.
         case r of
           Inr info \<Rightarrow> act_get (\<lambda>s. map_option fst (recognized_record pf info s))
         | Inl _ \<Rightarrow> act_return None))"

definition reset_authenticator :: "('d, 'te) platform \<Rightarrow> nat \<Rightarrow> ('d, 'te, unit) ceremony" where
  "reset_authenticator pf timeout =
     act_bind (record_before_reset pf) (\<lambda>record_id.
     act_bind (ctap2_authenticator_reset pf timeout) (\<lambda>_.
     case record_id of
       None \<Rightarrow> act_return ()
     | Some rid \<Rightarrow> act_modify (delete_record rid)))"

end
