(* ===== verification/Management_Properties.thy ===== *)
theory Management_Properties
  imports Management Ceremony_Properties
begin

text \<open>
  The properties of the management operations: the turns of their loops, what a token of which
  permission can authorise, the gates of the configuration commands, and reset.
\<close>

section \<open>The requests in the loop\<close>

interpretation configuration: fresh_request "config_uv_request to_vec" "\<lambda>_. True" for to_vec
  by unfold_locales (simp_all add: config_uv_request_def)

interpretation enrollment: fresh_request "bio_uv_request to_vec" "\<lambda>_. True" for to_vec
  by unfold_locales (simp_all add: bio_uv_request_def)

text \<open>
  Reading through credential management reuses a persistent token until it has been rejected once.
\<close>

interpretation reading: verifiable_request "cred_mgmt_uv_request to_vec" cmq_persistent_token_rejected
    cred_mgmt_note_persistent_token_rejected for to_vec
proof unfold_locales
  fix q q' c v token
  assume "cmq_persistent_token_rejected q"
    "uq_calculate_and_set_uv_auth (cred_mgmt_uv_request to_vec) c v token q = Inr q'"
  then show "cmq_persistent_token_rejected q'"
    by (auto simp: cred_mgmt_uv_request_def cred_mgmt_set_uv_auth_def result_bind_eq_Inr_conv)
qed (auto simp: cred_mgmt_uv_request_def cred_mgmt_handle_legacy_preview_def
    cred_mgmt_set_persistent_token_use_def cred_mgmt_note_persistent_token_rejected_def split: option.split)

text \<open>A request keeps its command and parameters, and only a reading command uses a persistent token.\<close>

definition cred_mgmt_asks :: "cred_mgmt_subcommand \<Rightarrow> cred_mgmt_params option \<Rightarrow> cred_mgmt_request \<Rightarrow> bool" where
  "cred_mgmt_asks subcommand params q \<longleftrightarrow> cmq_subcommand q = Some subcommand
     \<and> cmq_subcommand_params q = params
     \<and> (cmq_use_persistent_token q \<longrightarrow> cred_mgmt_is_read_only subcommand)"

interpretation command: request_invariant "cred_mgmt_uv_request to_vec" "cred_mgmt_asks subcommand params"
  for to_vec subcommand params
proof unfold_locales
  fix q q' c v token
  assume "cred_mgmt_asks subcommand params q"
    "uq_calculate_and_set_uv_auth (cred_mgmt_uv_request to_vec) c v token q = Inr q'"
  then show "cred_mgmt_asks subcommand params q'"
    by (auto simp: cred_mgmt_asks_def cred_mgmt_uv_request_def cred_mgmt_set_uv_auth_def result_bind_eq_Inr_conv)
qed (auto simp: cred_mgmt_asks_def cred_mgmt_uv_request_def cred_mgmt_handle_legacy_preview_def
    cred_mgmt_set_persistent_token_use_def split: option.splits)

lemma write_fresh:
  assumes "\<not> cred_mgmt_is_read_only subcommand"
  shows "fresh_request (cred_mgmt_uv_request to_vec) (cred_mgmt_asks subcommand params)"
  by unfold_locales (use assms in \<open>auto simp: cred_mgmt_asks_def cred_mgmt_uv_request_def\<close>)

section \<open>Turns\<close>

lemma keeps_return_prepare: "keeps P (act_return ())" "keeps P (refuse_legacy_preview used)"
  unfolding refuse_legacy_preview_def request_get_def by (intro keeps_rules)+

lemma auth_cred_mgmt_exchange: "keeps (\<lambda>s. Q (sn_auth_data s)) (cred_mgmt_exchange pf M q timeout)"
  unfolding cred_mgmt_exchange_def ctap2_credential_management_def by (intro keeps_rules auth_rules)

lemma read_loop_turns:
  "cred_mgmt_loop pf M (fu\<lparr>fu_turns := Suc (Suc (Suc n))\<rparr>) (\<lambda>_. act_return ()) req timeout s
    = cred_mgmt_loop pf M (fu\<lparr>fu_turns := Suc (Suc (Suc 0))\<rparr>) (\<lambda>_. act_return ()) req timeout s"
proof -
  have "verified_loop pf (cred_mgmt_uv_request (mk_cred_params M)) (fu_verify fu) Uv_Preferred timeout
        (\<lambda>_. act_return ()) (\<lambda>q. cred_mgmt_exchange pf M q timeout) cred_mgmt_note_persistent_token_rejected
        (Suc (Suc (Suc n))) (s, req)
      = verified_loop pf (cred_mgmt_uv_request (mk_cred_params M)) (fu_verify fu) Uv_Preferred timeout
        (\<lambda>_. act_return ()) (\<lambda>q. cred_mgmt_exchange pf M q timeout) cred_mgmt_note_persistent_token_rejected
        (Suc (Suc (Suc 0))) (s, req)"
    by (rule reading.three_turns [where R = "(=)" and rets = False])
      (auto simp: compares_def intro: keeps_return_prepare auth_cred_mgmt_exchange)
  then show ?thesis by (simp add: cred_mgmt_loop_def with_request_def del: verified_loop.simps)
qed

lemma write_loop_turns:
  assumes "\<not> cred_mgmt_is_read_only subcommand" and "cred_mgmt_asks subcommand params req"
    and "prepare = (\<lambda>_. act_return ()) \<or> prepare = refuse_legacy_preview"
  shows "cred_mgmt_loop pf M (fu\<lparr>fu_turns := Suc (Suc n)\<rparr>) prepare req timeout s
    = cred_mgmt_loop pf M (fu\<lparr>fu_turns := Suc (Suc 0)\<rparr>) prepare req timeout s"
proof -
  have "verified_loop pf (cred_mgmt_uv_request (mk_cred_params M)) (fu_verify fu) Uv_Preferred timeout
        prepare (\<lambda>q. cred_mgmt_exchange pf M q timeout) cred_mgmt_note_persistent_token_rejected
        (Suc (Suc n)) (s, req)
      = verified_loop pf (cred_mgmt_uv_request (mk_cred_params M)) (fu_verify fu) Uv_Preferred timeout
        prepare (\<lambda>q. cred_mgmt_exchange pf M q timeout) cred_mgmt_note_persistent_token_rejected
        (Suc (Suc 0)) (s, req)"
    by (rule fresh_request.two_turns_settled [OF write_fresh [OF assms(1)], where R = "(=)" and rets = False])
      (use assms(2,3) in \<open>auto simp: compares_def intro: keeps_return_prepare\<close>)
  then show ?thesis by (simp add: cred_mgmt_loop_def with_request_def del: verified_loop.simps)
qed

text \<open>
  C24: Reading through credential management takes three turns at most, since a persistent token and
  a token of the session can each be rejected once; writing takes two, since it never uses a
  persistent token.
\<close>

theorem management_turns:
  "get_credential_metadata pf M (fu\<lparr>fu_turns := Suc (Suc (Suc n))\<rparr>) timeout s
     = get_credential_metadata pf M (fu\<lparr>fu_turns := 3\<rparr>) timeout s
   \<and> enumerate_rps_begin pf M (fu\<lparr>fu_turns := Suc (Suc (Suc n))\<rparr>) timeout s
     = enumerate_rps_begin pf M (fu\<lparr>fu_turns := 3\<rparr>) timeout s
   \<and> enumerate_credentials_begin pf M (fu\<lparr>fu_turns := Suc (Suc (Suc n))\<rparr>) hash timeout s
     = enumerate_credentials_begin pf M (fu\<lparr>fu_turns := 3\<rparr>) hash timeout s
   \<and> delete_credential pf M (fu\<lparr>fu_turns := Suc (Suc n)\<rparr>) d timeout s
     = delete_credential pf M (fu\<lparr>fu_turns := 2\<rparr>) d timeout s
   \<and> update_user_info pf M (fu\<lparr>fu_turns := Suc (Suc n)\<rparr>) d user timeout s
     = update_user_info pf M (fu\<lparr>fu_turns := 2\<rparr>) d user timeout s"
proof -
  have numerals: "(3 :: nat) = Suc (Suc (Suc 0))" "(2 :: nat) = Suc (Suc 0)" by simp_all
  have writes: "cred_mgmt_asks Cm_DeleteCredential (Some \<lparr>cmp_rpid_hash = None, cmp_credential_id = Some d,
        cmp_user = None\<rparr>) (new_delete_credential d)"
      "cred_mgmt_asks Cm_UpdateUserInformation (Some \<lparr>cmp_rpid_hash = None, cmp_credential_id = Some d,
        cmp_user = Some user\<rparr>) (new_update_user_information d user)"
    by (simp_all add: cred_mgmt_asks_def new_delete_credential_def new_update_user_information_def
        cred_mgmt_request_new_def)
  have delete: "cred_mgmt_loop pf M (fu\<lparr>fu_turns := Suc (Suc n)\<rparr>) (\<lambda>_. act_return ()) (new_delete_credential d) timeout s
      = cred_mgmt_loop pf M (fu\<lparr>fu_turns := Suc (Suc 0)\<rparr>) (\<lambda>_. act_return ()) (new_delete_credential d) timeout s"
    by (rule write_loop_turns [OF _ writes(1)]) simp_all
  have update: "cred_mgmt_loop pf M (fu\<lparr>fu_turns := Suc (Suc n)\<rparr>) refuse_legacy_preview (new_update_user_information d user) timeout s
      = cred_mgmt_loop pf M (fu\<lparr>fu_turns := Suc (Suc 0)\<rparr>) refuse_legacy_preview (new_update_user_information d user) timeout s"
    by (rule write_loop_turns [OF _ writes(2)]) simp_all
  show ?thesis
    unfolding get_credential_metadata_def enumerate_rps_begin_def enumerate_credentials_begin_def
      delete_credential_def update_user_info_def numerals
    by (simp add: act_bind_def read_loop_turns [of pf M n fu] delete update)
qed

section \<open>What a credential is changed with\<close>

text \<open>
  The request carries the pinUvAuthParam over the subcommand and its parameters, under a token of
  the session that has the credential management permission and is bound to no relying party,
  and the protocol of that token.
\<close>

definition signed_with_session_token :: "('d, 'te) platform \<Rightarrow> management_codec \<Rightarrow> 'd session
    \<Rightarrow> cred_mgmt_subcommand \<Rightarrow> cred_mgmt_params \<Rightarrow> cred_mgmt_request \<Rightarrow> bool" where
  "signed_with_session_token pf M s subcommand params q \<longleftrightarrow>
     (\<exists>bytes version token mac. mk_cred_params M params = Some bytes
       \<and> get_uv_auth_token (session_get_auth_data s)
           (auth_token_permission_new version CREDENTIAL_MANAGEMENT None) = Some token
       \<and> pin_authenticate (pf_crypto pf) version token (cred_mgmt_subcommand_byte subcommand # bytes) = Inr mac
       \<and> cmq_protocol q = Some version \<and> cmq_uv_auth_param q = Some mac)"

text \<open>
  How the request is authorised, by how user verification ended: it is signed if there is a token.
  There is none only if, in the verification, the last getInfo answer of the authenticator reports
  built-in verification, which it then does by itself, or neither that nor a PIN; or if it has
  no PIN and its built-in verification is not reported, or was answered to be blocked or to
  have failed.
\<close>

definition write_authorised :: "('d, 'te) platform \<Rightarrow> management_codec \<Rightarrow> ('d \<Rightarrow> traffic list) \<Rightarrow> cred_mgmt_subcommand
    \<Rightarrow> cred_mgmt_params \<Rightarrow> 'd session \<Rightarrow> used_token \<Rightarrow> 'd session \<Rightarrow> cred_mgmt_request \<Rightarrow> bool" where
  "write_authorised pf M traffic subcommand params s0 used s1 q \<longleftrightarrow>
     (\<exists>log info. traffic (sn_device s1) = traffic (sn_device s0) @ log \<and> last_info_answer pf log info
       \<and> (case used of
            FromEphemeralStorage \<Rightarrow> signed_with_session_token pf M s1 subcommand params q
          | NewlyCalculated _ \<Rightarrow> signed_with_session_token pf M s1 subcommand params q
          | FromPersistentStorage _ \<Rightarrow> False
          | Used_LegacyUV \<Rightarrow> option_enabled info ''uv''
          | SharedSecretOnly \<Rightarrow> \<not> option_enabled info ''clientPin'' \<and> (\<not> option_enabled info ''uv'' \<or> uv_refused log)
          | Used_None \<Rightarrow> \<not> is_uv_protected info))"

text \<open>The last turn of the loop of a writing command.\<close>

lemma write_turn:
  assumes traffic: "records_traffic pf traffic"
    and loop: "cred_mgmt_loop pf M fu prepare req timeout s = Some (Inr (resp, q), s')"
    and asks: "cred_mgmt_asks subcommand (Some params) req" and writing: "\<not> cred_mgmt_is_read_only subcommand"
    and prepare: "prepare = (\<lambda>_. act_return ()) \<or> prepare = refuse_legacy_preview"
  shows "\<exists>s0 q0 used s1.
    user_verification pf (cred_mgmt_uv_request (mk_cred_params M)) (fu_verify fu) Uv_Preferred timeout (s0, q0)
      = Some (Inr used, (s1, q))
    \<and> cred_mgmt_exchange pf M q timeout s1 = Some (Inr resp, s')
    \<and> cmq_subcommand q = Some subcommand \<and> cmq_subcommand_params q = Some params
    \<and> write_authorised pf M traffic subcommand params s0 used s1 q"
proof -
  let ?ops = "cred_mgmt_uv_request (mk_cred_params M)"
  let ?asks = "cred_mgmt_asks subcommand (Some params)"
  have run: "verified_loop pf ?ops (fu_verify fu) Uv_Preferred timeout
      prepare (\<lambda>q. cred_mgmt_exchange pf M q timeout) cred_mgmt_note_persistent_token_rejected (fu_turns fu)
      (s, req) = Some (Inr resp, (s', q))"
    using loop by (auto simp: cred_mgmt_loop_def with_request_def split: option.splits sum.splits prod.splits)
  have kept: "keeps (\<lambda>(s, q). ?asks q) (prepare used)" for used using prepare keeps_return_prepare by blast
  have noted: "?asks (cred_mgmt_note_persistent_token_rejected q')" if "?asks q'" for q'
    using that by (simp add: cred_mgmt_asks_def cred_mgmt_note_persistent_token_rejected_def)
  obtain s0 q0 used s1 q1 s2 where turn: "?asks q0" "?asks q"
      "user_verification pf ?ops (fu_verify fu) Uv_Preferred timeout (s0, q0) = Some (Inr used, (s1, q1))"
      "prepare used (s1, q1) = Some (Inr (), (s2, q))" "cred_mgmt_exchange pf M q timeout s2 = Some (Inr resp, s')"
    using command.loop_last_turn [OF run asks kept noted] by blast
  have prepared: "s2 = s1" "q1 = q"
    using turn(4) prepare by (auto simp: refuse_legacy_preview_def request_get_def act_run act_bind_def split: if_splits)
  have fresh: "\<not> cmq_use_persistent_token q'" "cred_mgmt_permissions q' = CREDENTIAL_MANAGEMENT" if "?asks q'" for q'
    using that writing by (auto simp: cred_mgmt_asks_def cred_mgmt_permissions_def)
  have authorised: "\<exists>v token q2. ?asks q2 \<and> cred_mgmt_set_uv_auth (mk_cred_params M) (pf_crypto pf) v token q2 = Inr q1
      \<and> (\<not> cmq_use_persistent_token q2 \<longrightarrow> get_uv_auth_token (session_get_auth_data s1)
          (auth_token_permission_new v (cred_mgmt_permissions q2) None) = Some token)"
    if "used = FromEphemeralStorage \<or> (\<exists>op. used = NewlyCalculated op)"
    using leadsD [OF command.inv_authorised [where subcommand = subcommand and params = "Some params"] turn(3)] turn(1) that
    by (elim disjE exE) (simp add: cred_mgmt_uv_request_def image_iff; blast)+
  have signed: "signed_with_session_token pf M s1 subcommand params q"
    if token: "used = FromEphemeralStorage \<or> (\<exists>op. used = NewlyCalculated op)"
  proof -
    obtain v token q2 where t: "?asks q2" "cred_mgmt_set_uv_auth (mk_cred_params M) (pf_crypto pf) v token q2 = Inr q"
        "get_uv_auth_token (session_get_auth_data s1) (auth_token_permission_new v (cred_mgmt_permissions q2) None) = Some token"
      using authorised [OF token] fresh(1) unfolding prepared by blast
    then show ?thesis
      using fresh(2) [OF t(1)]
      by (auto simp: signed_with_session_token_def cred_mgmt_set_uv_auth_def cred_mgmt_auth_data_def cred_mgmt_asks_def
          result_bind_eq_Inr_conv result_map_eq_Inr_conv ok_or_def split: option.splits)
  qed
  have persistent: "used \<noteq> FromPersistentStorage rid" for rid
    using endsD [OF fresh_request.settled_not_persistent [OF write_fresh [OF writing]] _ turn(3)] turn(1) by auto
  obtain log info where ended: "traffic (sn_device s1) = traffic (sn_device s0) @ log" "last_info_answer pf log info"
      "case used of Used_LegacyUV \<Rightarrow> option_enabled info ''uv''
        | SharedSecretOnly \<Rightarrow> \<not> option_enabled info ''clientPin'' \<and> (\<not> option_enabled info ''uv'' \<or> uv_refused log)
        | Used_None \<Rightarrow> \<not> is_uv_protected info | _ \<Rightarrow> True"
    using leadsD [OF verified_history [where start = "traffic (sn_device s0)", OF traffic uv_requirement.distinct(6)] turn(3)]
    by (cases used) (auto simp: cred_mgmt_uv_request_def)
  then have "write_authorised pf M traffic subcommand params s0 used s1 q"
    using signed persistent unfolding write_authorised_def
    by (intro exI [of _ log] exI [of _ info]) (cases used; auto)
  then show ?thesis
    using turn unfolding prepared
    by (intro exI [of _ s0] exI [of _ q0] exI [of _ used] exI [of _ s1]) (auto simp: cred_mgmt_asks_def)
qed

text \<open>
  C25: A credential is deleted, or its user updated, only by a request for that credential that is
  authorised: if user verification gave a token, the request carries the pinUvAuthParam over
  the subcommand and its parameters under a token of the session with the full credential
  management permission, never the read-only persistent one.  It is sent without one only if the
  authenticator answered in that verification that it verifies by itself, or that no
  verification is available.
\<close>

theorem credential_writes_authorised:
  assumes "records_traffic pf traffic"
  shows "(\<forall>s s'. delete_credential pf M fu d timeout s = Some (Inr (), s') \<longrightarrow>
      (\<exists>s0 q0 used s1 q resp.
        user_verification pf (cred_mgmt_uv_request (mk_cred_params M)) (fu_verify fu) Uv_Preferred timeout (s0, q0)
          = Some (Inr used, (s1, q))
        \<and> cred_mgmt_exchange pf M q timeout s1 = Some (Inr resp, s')
        \<and> cmq_subcommand q = Some Cm_DeleteCredential
        \<and> cmq_subcommand_params q = Some \<lparr>cmp_rpid_hash = None, cmp_credential_id = Some d, cmp_user = None\<rparr>
        \<and> write_authorised pf M traffic Cm_DeleteCredential
            \<lparr>cmp_rpid_hash = None, cmp_credential_id = Some d, cmp_user = None\<rparr> s0 used s1 q))
   \<and> (\<forall>s s'. update_user_info pf M fu d user timeout s = Some (Inr (), s') \<longrightarrow>
      (\<exists>s0 q0 used s1 q resp.
        user_verification pf (cred_mgmt_uv_request (mk_cred_params M)) (fu_verify fu) Uv_Preferred timeout (s0, q0)
          = Some (Inr used, (s1, q))
        \<and> cred_mgmt_exchange pf M q timeout s1 = Some (Inr resp, s')
        \<and> cmq_subcommand q = Some Cm_UpdateUserInformation
        \<and> cmq_subcommand_params q = Some \<lparr>cmp_rpid_hash = None, cmp_credential_id = Some d, cmp_user = Some user\<rparr>
        \<and> write_authorised pf M traffic Cm_UpdateUserInformation
            \<lparr>cmp_rpid_hash = None, cmp_credential_id = Some d, cmp_user = Some user\<rparr> s0 used s1 q))"
proof -
  have starts: "cred_mgmt_asks Cm_DeleteCredential (Some \<lparr>cmp_rpid_hash = None, cmp_credential_id = Some d,
        cmp_user = None\<rparr>) (new_delete_credential d)"
      "cred_mgmt_asks Cm_UpdateUserInformation (Some \<lparr>cmp_rpid_hash = None, cmp_credential_id = Some d,
        cmp_user = Some user\<rparr>) (new_update_user_information d user)"
    by (simp_all add: cred_mgmt_asks_def new_delete_credential_def new_update_user_information_def
        cred_mgmt_request_new_def)
  have loops: "\<exists>resp q. cred_mgmt_loop pf M fu (\<lambda>_. act_return ()) (new_delete_credential d) timeout s = Some (Inr (resp, q), s')"
    if "delete_credential pf M fu d timeout s = Some (Inr (), s')" for s s'
    using that by (auto simp: delete_credential_def act_run elim!: act_bind_InrE)
  have loops': "\<exists>resp q. cred_mgmt_loop pf M fu refuse_legacy_preview (new_update_user_information d user) timeout s
      = Some (Inr (resp, q), s')"
    if "update_user_info pf M fu d user timeout s = Some (Inr (), s')" for s s'
    using that by (auto simp: update_user_info_def act_run elim!: act_bind_InrE)
  have writes: "\<not> cred_mgmt_is_read_only Cm_DeleteCredential" "\<not> cred_mgmt_is_read_only Cm_UpdateUserInformation"
    by simp_all
  show ?thesis
    by (intro conjI allI impI; (drule loops | drule loops'), elim exE,
        drule write_turn [OF assms _ starts(1) writes(1) disjI1 [OF refl]]
          write_turn [OF assms _ starts(2) writes(2) disjI2 [OF refl]], blast)
qed

definition example_management :: management_codec where
  "example_management = \<lparr>mk_config_params = \<lambda>p. Some [1], mk_encode_config = \<lambda>q. Some [13],
     mk_bio_params = \<lambda>p. Some [2], mk_encode_bio = \<lambda>q. Some [9], mk_decode_bio = \<lambda>b. Some bio_response_default,
     mk_cred_params = \<lambda>p. Some [3], mk_encode_cred = \<lambda>q. Some [10], mk_decode_cred = \<lambda>b. Some cred_mgmt_response_default\<rparr>"

definition example_descriptor :: credential_descriptor where
  "example_descriptor = \<lparr>cd_id = [4, 2], cd_public_key = True, cd_transports = None\<rparr>"

definition example_user :: user_entity where
  "example_user = \<lparr>ue_id = [7], ue_name = Some ''alice'', ue_display_name = None\<rparr>"

definition example_management_session :: "(cbor_script \<times> traffic list) session" where
  "example_management_session = example_session (([ok_response 1, ok_response 2, ok_response 3, ok_response 4], []), [])"

lemma example_delete_run:
  "map_option (\<lambda>(r, s). (r, map cr_encoded_data (snd (fst (sn_device s))))) (delete_credential
     (tapped (scripted_authenticator uv_token_info key_and_token)) example_management example_fuel example_descriptor 1000
     example_management_session) = Some (Inr (), [[], [2], [6], [10]])"
  by code_simp

lemma credential_writes_authorised_witness:
  "\<exists>s0 q0 used s1 q resp s'.
    user_verification (tapped (scripted_authenticator uv_token_info key_and_token))
      (cred_mgmt_uv_request (mk_cred_params example_management)) (fu_verify example_fuel) Uv_Preferred 1000 (s0, q0)
      = Some (Inr used, (s1, q))
    \<and> cred_mgmt_exchange (tapped (scripted_authenticator uv_token_info key_and_token)) example_management q 1000 s1
      = Some (Inr resp, s')
    \<and> map cr_encoded_data (snd (fst (sn_device s'))) = [[], [2], [6], [10]]
    \<and> cmq_subcommand q = Some Cm_DeleteCredential
    \<and> write_authorised (tapped (scripted_authenticator uv_token_info key_and_token)) example_management snd
        Cm_DeleteCredential \<lparr>cmp_rpid_hash = None, cmp_credential_id = Some example_descriptor, cmp_user = None\<rparr>
        s0 used s1 q"
proof -
  obtain s' where "delete_credential (tapped (scripted_authenticator uv_token_info key_and_token)) example_management
      example_fuel example_descriptor 1000 example_management_session = Some (Inr (), s')"
    "map cr_encoded_data (snd (fst (sn_device s'))) = [[], [2], [6], [10]]"
    using example_delete_run by auto
  note run = this
  show ?thesis
    using conjunct1 [OF credential_writes_authorised [OF tapped_records, of "scripted_authenticator uv_token_info key_and_token"
        example_management example_fuel example_descriptor 1000 example_user], rule_format, OF run(1)]
    by (elim exE conjE, intro exI conjI) (assumption | rule run(2))+
qed

section \<open>Gates of the configuration commands\<close>

text \<open>
  On an authenticator that does not report the configuration command, every configuration
  operation ends with \<^verbatim>\<open>NotSupported\<close> after the getInfo exchange, and a list of relying parties
  longer than the authenticator accepts is refused before the user is asked for anything.
\<close>

theorem configuration_gates:
  assumes "ctap2_get_info pf s = Some (Inr info, s1)"
  shows "(\<not> option_enabled info ''authnrCfg'' \<longrightarrow>
      toggle_always_uv pf M fu timeout s = Some (Inl (We_Platform Pe_NotSupported), s1)
      \<and> enable_enterprise_attestation pf M fu timeout s = Some (Inl (We_Platform Pe_NotSupported), s1)
      \<and> set_min_pin_length pf M fu len timeout s = Some (Inl (We_Platform Pe_NotSupported), s1)
      \<and> force_change_pin pf M fu force timeout s = Some (Inl (We_Platform Pe_NotSupported), s1)
      \<and> set_min_pin_length_rpids pf M fu rpids timeout s = Some (Inl (We_Platform Pe_NotSupported), s1))
    \<and> (\<forall>m. gi_max_rpids_for_setminpinlength info = Some m \<longrightarrow> unat m < length rpids \<longrightarrow>
      set_min_pin_length_rpids pf M fu rpids timeout s = Some (Inl (We_Platform Pe_NotSupported), s1)
      \<or> set_min_pin_length_rpids pf M fu rpids timeout s = Some (Inl (We_Platform Pe_RequestTooLarge), s1))"
  using assms
  by (auto simp: toggle_always_uv_def enable_enterprise_attestation_def set_min_pin_length_def
      force_change_pin_def set_min_pin_length_rpids_def act_bind_def act_run)

lemma configuration_gates_witness:
  "toggle_always_uv (scripted_authenticator uv_token_info key_and_token) example_management example_fuel 1000
     (example_session ([ok_response 1], [])) = Some (Inl (We_Platform Pe_NotSupported),
       example_session ([], [cbor_request_new AuthenticatorGetInfo]))"
proof -
  have "ctap2_get_info (scripted_authenticator uv_token_info key_and_token) (example_session ([ok_response 1], []))
      = Some (Inr uv_token_info, example_session ([], [cbor_request_new AuthenticatorGetInfo]))"
    by (simp add: ctap2_get_info_def ctap2_exchange_def scripted_authenticator_def on_transport_def example_session_def
        act_bind_def act_run ok_response_def cbor_response_new_success_def parse_required_def parse_cbor_def)
  from configuration_gates [OF this, of example_management example_fuel 1000 0 False "[]"] show ?thesis
    by (simp add: uv_token_info_def info_with_options_def option_enabled_def)
qed

section \<open>Reset\<close>

lemma keeps_store_reset:
  "keeps (\<lambda>s. Q (sn_auth_data s) (sn_token_store s)) (record_before_reset pf)"
  "keeps (\<lambda>s. Q (sn_auth_data s) (sn_token_store s)) (ctap2_authenticator_reset pf timeout)"
  unfolding record_before_reset_def ctap2_authenticator_reset_def
  by (auto intro!: keeps_rules keeps_session_commands split: option.split sum.split)

text \<open>
  A successful reset removes the stored persistent token of the authenticator, recognised from
  the getInfo response before the reset, and no other record; a reset that fails removes nothing.
\<close>

theorem reset_evicts_token:
  assumes "reset_authenticator pf timeout s = Some (r, s')"
  shows "case r of
      Inl _ \<Rightarrow> sn_token_store s' = sn_token_store s
    | Inr _ \<Rightarrow> (\<forall>info s1. ctap2_get_info pf s = Some (Inr info, s1) \<longrightarrow>
        sn_token_store s' = (case recognized_record pf info s of
           None \<Rightarrow> sn_token_store s
         | Some (rid, _) \<Rightarrow> map_option (ts_delete memory_store rid) (sn_token_store s)))"
proof -
  note same = keeps_store_reset [where Q = "\<lambda>a t. t = sn_token_store s"]
  note info_same = keeps_session_commands(2) [where Q = "\<lambda>a t. t = sn_token_store s"]
  show ?thesis
  proof (cases "record_before_reset pf s")
    case None
    with assms show ?thesis by (simp add: reset_authenticator_def act_bind_def)
  next
    case (Some z)
    then obtain r1 s2 where before: "record_before_reset pf s = Some (r1, s2)" by (cases z) auto
    have s2: "sn_token_store s2 = sn_token_store s" using keepsD [OF same(1) _ before] by simp
    have rid: "r1 = Inr (map_option fst (recognized_record pf info s))"
      if "ctap2_get_info pf s = Some (Inr info, s1)" for info s1
    proof (cases "sn_token_store s")
      case None
      with before show ?thesis
        by (simp add: record_before_reset_def recognized_record_def act_bind_def act_run)
    next
      case (Some store)
      have "sn_token_store s1 = sn_token_store s" using keepsD [OF info_same _ that] by simp
      with Some before that show ?thesis
        by (simp add: record_before_reset_def recognized_record_def act_bind_def act_try_def act_run)
    qed
    show ?thesis
    proof (cases r1)
      case (Inl e)
      have "\<And>e. r1 \<noteq> Inl e"
        using before by (auto simp: record_before_reset_def act_bind_def act_try_def act_run
            split: option.splits sum.splits prod.splits)
      with Inl show ?thesis by blast
    next
      case (Inr record_id)
      obtain r2 s3 where reset: "ctap2_authenticator_reset pf timeout s2 = Some (r2, s3)"
        using assms before Inr by (auto simp: reset_authenticator_def act_bind_def split: option.splits)
      have "sn_token_store s3 = sn_token_store s" using keepsD [OF same(2) _ reset] s2 by simp
      then show ?thesis
        using assms before Inr reset rid
        by (auto simp: reset_authenticator_def act_bind_def act_run delete_record_def split: sum.splits option.splits prod.splits)
    qed
  qed
qed

definition identified_info :: get_info_response where
  "identified_info = get_info_default\<lparr>gi_enc_identifier := Some (replicate 16 0 @ replicate 16 7)\<rparr>"

definition identified_record :: persistent_token_record where
  "identified_record = \<lparr>ptr_persistent_token = [9], ptr_pin_uv_auth_protocol = Protocol_Two,
     ptr_device_identifier = replicate 16 7, ptr_aaguid = replicate 16 0\<rparr>"

definition reset_session :: "cbor_script session" where
  "reset_session = (example_session ([ok_response 1, ok_response 2], []))
     \<lparr>sn_token_store := Some [(''other'', identified_record\<lparr>ptr_device_identifier := replicate 16 8\<rparr>),
       (''mine'', identified_record)]\<rparr>"

lemma reset_run:
  "map_option (\<lambda>(r, s). (r, map_option (map fst) (sn_token_store s)))
     (reset_authenticator (scripted_authenticator identified_info key_and_token) 1000 reset_session)
   = Some (Inr (), Some [''other''])"
  by code_simp

lemma reset_evicts_token_witness:
  "\<exists>(s' :: cbor_script session) info s1. ctap2_get_info (scripted_authenticator identified_info key_and_token) reset_session = Some (Inr info, s1)
    \<and> sn_token_store s' = (case recognized_record (scripted_authenticator identified_info key_and_token) info reset_session of
           None \<Rightarrow> sn_token_store reset_session
         | Some (rid, _) \<Rightarrow> map_option (ts_delete memory_store rid) (sn_token_store reset_session))
    \<and> map_option (map fst) (sn_token_store s') = Some [''other'']"
proof -
  obtain s' where run: "reset_authenticator (scripted_authenticator identified_info key_and_token) 1000 reset_session = Some (Inr (), s')"
    and left: "map_option (map fst) (sn_token_store s') = Some [''other'']"
    using reset_run by auto
  obtain s1 where info: "ctap2_get_info (scripted_authenticator identified_info key_and_token) reset_session
      = Some (Inr identified_info, s1)"
    by (auto simp: ctap2_get_info_def ctap2_exchange_def scripted_authenticator_def on_transport_def
        reset_session_def example_session_def act_bind_def act_run ok_response_def cbor_response_new_success_def
        parse_required_def parse_cbor_def)
  have "sn_token_store s' = (case recognized_record (scripted_authenticator identified_info key_and_token) identified_info reset_session of
           None \<Rightarrow> sn_token_store reset_session
         | Some (rid, _) \<Rightarrow> map_option (ts_delete memory_store rid) (sn_token_store reset_session))"
    using reset_evicts_token [OF run] info by simp
  with info left show ?thesis by (intro exI [of _ s'] exI [of _ identified_info] exI [of _ s1] conjI)
qed

end
