(* ===== verification/Reachable_Sessions.thy ===== *)
theory Reachable_Sessions
  imports Management_Properties
begin

text \<open>
  The states a session can reach: its start, and after it any sequence of the operations that the
  library offers on a channel, ceremonies, U2F operations, changes of the PIN and management, with
  any arguments and results.
\<close>

section \<open>Management operations and the token data\<close>

lemma auth_management [auth_rules]:
  "keeps (\<lambda>s. Q (sn_auth_data s)) (ctap2_authenticator_config pf enc req timeout)"
  "keeps (\<lambda>s. Q (sn_auth_data s)) (bio_exchange pf M bq timeout)"
  "keeps (\<lambda>s. Q (sn_auth_data s)) (cred_mgmt_exchange pf M cq timeout)"
  "keeps (\<lambda>s. Q (sn_auth_data s)) (act_modify (session_set_cred_mgmt_preview b))"
  "keeps (\<lambda>s. Q (sn_auth_data s)) (unwrap_field x)"
  "keeps (\<lambda>s. Q (sn_auth_data s)) (rp_data_of resp)"
  "keeps (\<lambda>s. Q (sn_auth_data s)) (credential_data_of resp)"
  "keeps (\<lambda>s. Q (sn_auth_data s)) (reset_authenticator pf timeout)"
  unfolding ctap2_authenticator_config_def bio_exchange_def ctap2_bio_enrollment_def cred_mgmt_exchange_def
    ctap2_credential_management_def rp_data_of_def credential_data_of_def unwrap_field_def reset_authenticator_def
    record_before_reset_def ctap2_authenticator_reset_def
  by (auto intro!: keeps_rules auth_rules split: option.split sum.split simp: delete_record_def session_defs)

lemma wf_loops:
  "keeps session_wf (config_loop pf M fu req timeout)"
  "keeps session_wf (bio_loop pf M fu bq timeout)"
  "(\<And>used. keeps (\<lambda>(s, q). session_wf s) (prepare used)) \<Longrightarrow>
    keeps session_wf (cred_mgmt_loop pf M fu prepare cq timeout)"
  unfolding config_loop_def bio_loop_def cred_mgmt_loop_def
  by (auto intro!: keeps_rules keeps_with_request wf_verified_loop auth_rules)

lemma wf_configuration:
  "keeps session_wf (toggle_always_uv pf M fu timeout)"
  "keeps session_wf (enable_enterprise_attestation pf M fu timeout)"
  "keeps session_wf (set_min_pin_length pf M fu len timeout)"
  "keeps session_wf (force_change_pin pf M fu force timeout)"
  "keeps session_wf (set_min_pin_length_rpids pf M fu rpids timeout)"
  unfolding toggle_always_uv_def enable_enterprise_attestation_def set_min_pin_length_def force_change_pin_def
    set_min_pin_length_rpids_def Let_def
  by (intro keeps_rules auth_rules wf_loops)+

lemma wf_bio_enrollment:
  "keeps session_wf (get_bio_modality pf M timeout)"
  "keeps session_wf (get_fingerprint_sensor_info pf M timeout)"
  "keeps session_wf (get_bio_enrollments pf M fu timeout)"
  "keeps session_wf (remove_bio_enrollment pf M fu template_id timeout)"
  "keeps session_wf (rename_bio_enrollment pf M fu template_id name timeout)"
  "keeps session_wf (start_new_bio_enrollment pf M fu enrollment_timeout timeout)"
  "keeps session_wf (capture_next_bio_enrollment_sample pf M fu template_id enrollment_timeout timeout)"
  "keeps session_wf (cancel_current_bio_enrollment pf M fu timeout)"
  unfolding get_bio_modality_def get_fingerprint_sensor_info_def get_bio_enrollments_def remove_bio_enrollment_def
    rename_bio_enrollment_def start_new_bio_enrollment_def capture_next_bio_enrollment_sample_def
    cancel_current_bio_enrollment_def
  by (intro keeps_rules auth_rules wf_loops)+

lemma wf_credential_management:
  "keeps session_wf (get_credential_metadata pf M fu timeout)"
  "keeps session_wf (enumerate_rps_begin pf M fu timeout)"
  "keeps session_wf (enumerate_rps_next_rp pf M timeout)"
  "keeps session_wf (enumerate_credentials_begin pf M fu rpid_hash timeout)"
  "keeps session_wf (enumerate_credentials_next pf M timeout)"
  "keeps session_wf (delete_credential pf M fu d timeout)"
  "keeps session_wf (update_user_info pf M fu d user timeout)"
  unfolding get_credential_metadata_def enumerate_rps_begin_def enumerate_rps_next_rp_def
    enumerate_credentials_begin_def enumerate_credentials_next_def delete_credential_def update_user_info_def
  by (intro keeps_rules auth_rules wf_loops keeps_return_prepare)+

lemma wf_others:
  "keeps session_wf (change_pin pf pin timeout)"
  "keeps session_wf (u2f_register pf E fu op)"
  "keeps session_wf (u2f_sign pf E fu op')"
  "keeps session_wf (reset_authenticator pf timeout)"
proof -
  have wait: "keeps session_wf (send_apdu_request_wait_uv pf turns req timeout)" for turns req timeout
    by (induction turns) (auto intro!: keeps_rules auth_rules simp: send_apdu_request_wait_uv.simps Let_def split: sum.split)
  have keys: "keeps session_wf (ctap1_preflight_keys pf turns reqs)" for turns reqs
    by (induction reqs) (auto intro!: keeps_rules auth_rules wait simp: ctap1_sign_def split: sum.split)
  show "keeps session_wf (change_pin pf pin timeout)"
    unfolding change_pin_def by (intro keeps_rules auth_rules)
  show "keeps session_wf (u2f_register pf E fu op)" "keeps session_wf (u2f_sign pf E fu op')"
    unfolding u2f_register_def u2f_sign_def u2f_negotiate_protocol_def supported_protocols_def
      ctap1_version_checked_def ctap1_version_def ctap1_register_def ctap1_sign_def
    by (auto intro!: keeps_rules auth_rules wait keys split: fido_protocol.split)
  show "keeps session_wf (reset_authenticator pf timeout)" by (rule auth_rules)
qed

section \<open>Steps\<close>

text \<open>
  A session begins without token data; a step is one operation run on it, whatever its arguments,
  its result and the fuel, over one platform.
\<close>

inductive session_step :: "('d, 'te) platform \<Rightarrow> ('d, 'te) ceremony_env \<Rightarrow> management_codec
    \<Rightarrow> 'd session \<Rightarrow> 'd session \<Rightarrow> bool" for pf E M where
  step_make_credential: "webauthn_make_credential pf E fu r s = Some (res, s') \<Longrightarrow> session_step pf E M s s'"
| step_get_assertion: "webauthn_get_assertion pf E fu r s = Some (res, s') \<Longrightarrow> session_step pf E M s s'"
| step_u2f_register: "u2f_register pf E fu op s = Some (res, s') \<Longrightarrow> session_step pf E M s s'"
| step_u2f_sign: "u2f_sign pf E fu op s = Some (res, s') \<Longrightarrow> session_step pf E M s s'"
| step_change_pin: "change_pin pf pin timeout s = Some (res, s') \<Longrightarrow> session_step pf E M s s'"
| step_toggle_always_uv: "toggle_always_uv pf M fu timeout s = Some (res, s') \<Longrightarrow> session_step pf E M s s'"
| step_enable_enterprise_attestation:
    "enable_enterprise_attestation pf M fu timeout s = Some (res, s') \<Longrightarrow> session_step pf E M s s'"
| step_set_min_pin_length: "set_min_pin_length pf M fu len timeout s = Some (res, s') \<Longrightarrow> session_step pf E M s s'"
| step_force_change_pin: "force_change_pin pf M fu force timeout s = Some (res, s') \<Longrightarrow> session_step pf E M s s'"
| step_set_min_pin_length_rpids:
    "set_min_pin_length_rpids pf M fu rpids timeout s = Some (res, s') \<Longrightarrow> session_step pf E M s s'"
| step_get_bio_modality: "get_bio_modality pf M timeout s = Some (res, s') \<Longrightarrow> session_step pf E M s s'"
| step_get_fingerprint_sensor_info:
    "get_fingerprint_sensor_info pf M timeout s = Some (res, s') \<Longrightarrow> session_step pf E M s s'"
| step_get_bio_enrollments: "get_bio_enrollments pf M fu timeout s = Some (res, s') \<Longrightarrow> session_step pf E M s s'"
| step_remove_bio_enrollment:
    "remove_bio_enrollment pf M fu template_id timeout s = Some (res, s') \<Longrightarrow> session_step pf E M s s'"
| step_rename_bio_enrollment:
    "rename_bio_enrollment pf M fu template_id name timeout s = Some (res, s') \<Longrightarrow> session_step pf E M s s'"
| step_start_new_bio_enrollment:
    "start_new_bio_enrollment pf M fu enrollment_timeout timeout s = Some (res, s') \<Longrightarrow> session_step pf E M s s'"
| step_capture_next_bio_enrollment_sample:
    "capture_next_bio_enrollment_sample pf M fu template_id enrollment_timeout timeout s = Some (res, s')
      \<Longrightarrow> session_step pf E M s s'"
| step_cancel_current_bio_enrollment:
    "cancel_current_bio_enrollment pf M fu timeout s = Some (res, s') \<Longrightarrow> session_step pf E M s s'"
| step_get_credential_metadata:
    "get_credential_metadata pf M fu timeout s = Some (res, s') \<Longrightarrow> session_step pf E M s s'"
| step_enumerate_rps_begin: "enumerate_rps_begin pf M fu timeout s = Some (res, s') \<Longrightarrow> session_step pf E M s s'"
| step_enumerate_rps_next_rp: "enumerate_rps_next_rp pf M timeout s = Some (res, s') \<Longrightarrow> session_step pf E M s s'"
| step_enumerate_credentials_begin:
    "enumerate_credentials_begin pf M fu rpid_hash timeout s = Some (res, s') \<Longrightarrow> session_step pf E M s s'"
| step_enumerate_credentials_next:
    "enumerate_credentials_next pf M timeout s = Some (res, s') \<Longrightarrow> session_step pf E M s s'"
| step_delete_credential: "delete_credential pf M fu d timeout s = Some (res, s') \<Longrightarrow> session_step pf E M s s'"
| step_update_user_info: "update_user_info pf M fu d user timeout s = Some (res, s') \<Longrightarrow> session_step pf E M s s'"
| step_reset: "reset_authenticator pf timeout s = Some (res, s') \<Longrightarrow> session_step pf E M s s'"

inductive session_reach :: "('d, 'te) platform \<Rightarrow> ('d, 'te) ceremony_env \<Rightarrow> management_codec
    \<Rightarrow> 'd session \<Rightarrow> bool" for pf E M where
  reach_start: "sn_auth_data s = None \<Longrightarrow> session_reach pf E M s"
| reach_step: "session_reach pf E M s \<Longrightarrow> session_step pf E M s s' \<Longrightarrow> session_reach pf E M s'"

lemmas wf_operations = wf_ceremonies wf_others wf_configuration wf_bio_enrollment wf_credential_management

lemma session_step_wf: "session_step pf E M s s' \<Longrightarrow> session_wf s \<Longrightarrow> session_wf s'"
  by (induction rule: session_step.induct) (rule wf_operations [THEN keepsD], assumption, assumption)+

section \<open>The state a session is left in\<close>

text \<open>
  C18: In every state a session can reach by the operations of the library on its channel, the token
  data are well formed: a token comes with the permissions it was minted for and the protocol they
  name, and has a length that protocol allows; a bare shared secret comes with neither.
\<close>

theorem session_token_well_formed:
  assumes "session_reach pf E M s"
  shows "token_wf (sn_auth_data s)"
  using assms by (induction rule: session_reach.induct) (auto intro: session_step_wf)

text \<open>An assertion, which leaves a token, and then the removal of a credential.\<close>

definition two_operations_session :: "cbor_script session" where
  "two_operations_session = example_session ([ok_response 1, ok_response 1, ok_response 2, ok_response 3, ok_response 42,
     ok_response 1, ok_response 2, ok_response 3, ok_response 4], [])"

lemma two_operations_run:
  "Option.bind (webauthn_get_assertion (scripted_authenticator uv_token_info key_and_token) example_env example_fuel
      example_ga two_operations_session) (\<lambda>(r, s).
    map_option (\<lambda>(r', s'). (r', map_option atd_permission (sn_auth_data s), map_option atd_permission (sn_auth_data s')))
      (delete_credential (scripted_authenticator uv_token_info key_and_token) example_management example_fuel
        example_descriptor 1000 s))
   = Some (Inr (),
      Some (Some (auth_token_permission_new Protocol_Two GET_ASSERTION (Some ''example.org''))),
      Some (Some (auth_token_permission_new Protocol_Two CREDENTIAL_MANAGEMENT None)))"
  by code_simp

lemma session_token_well_formed_witness:
  "\<exists>s. session_reach (scripted_authenticator uv_token_info key_and_token) example_env example_management s
    \<and> map_option atd_permission (sn_auth_data s)
      = Some (Some (auth_token_permission_new Protocol_Two CREDENTIAL_MANAGEMENT None))
    \<and> token_wf (sn_auth_data s)"
proof -
  let ?pf = "scripted_authenticator uv_token_info key_and_token"
  obtain r s r' s' where runs: "webauthn_get_assertion ?pf example_env example_fuel example_ga two_operations_session = Some (r, s)"
      "delete_credential ?pf example_management example_fuel example_descriptor 1000 s = Some (r', s')"
      "map_option atd_permission (sn_auth_data s') = Some (Some (auth_token_permission_new Protocol_Two CREDENTIAL_MANAGEMENT None))"
    using two_operations_run by (auto simp: bind_eq_Some_conv)
  have "session_reach ?pf example_env example_management two_operations_session"
    by (rule reach_start) (simp add: two_operations_session_def example_session_def)
  then have "session_reach ?pf example_env example_management s"
    using step_get_assertion [OF runs(1)] by (rule reach_step)
  then have "session_reach ?pf example_env example_management s'"
    using step_delete_credential [OF runs(2)] by (rule reach_step)
  from session_token_well_formed [OF this] this runs(3) show ?thesis by blast
qed

end
