(* ===== verification/Public_Suffix.thy ===== *)
theory Public_Suffix
  imports Rust_Text
begin

text \<open>
  The Public Suffix List (\<^verbatim>\<open>ops/webauthn/psl/\<close>): the trait with its default method
  (\<^verbatim>\<open>psl/mod.rs\<close>), the reader of libpsl's byte-coded automaton (\<^verbatim>\<open>psl/dafsa.rs\<close>), the reader of the
  text file (\<^verbatim>\<open>psl/dat.rs\<close>, whose list is the crate \<^verbatim>\<open>publicsuffix\<close> and a parameter here) and the
  choice between them (\<^verbatim>\<open>psl/system.rs\<close>).  What the origin checks rely on is the locale
  \<open>suffix_list\<close>; it is interpreted on the automaton.
\<close>

section \<open>The trait\<close>

record psl =
  psl_public_suffix :: "string \<Rightarrow> string option"
  psl_registrable_domain :: "string \<Rightarrow> string option"

definition default_registrable_domain :: "(string \<Rightarrow> string option) \<Rightarrow> string \<Rightarrow> string option" where
  "default_registrable_domain public_suffix host =
     (case public_suffix host of
        None \<Rightarrow> None
      | Some suffix \<Rightarrow>
          if host = suffix then None
          else case strip_suffix host suffix of
            None \<Rightarrow> None
          | Some front \<Rightarrow>
              (case strip_suffix front ''.'' of
                 None \<Rightarrow> None
               | Some before \<Rightarrow> Some (last_piece CHR ''.'' before @ ''.'' @ suffix)))"

section \<open>Label-aligned suffixes\<close>

definition label_suffix :: "string \<Rightarrow> string \<Rightarrow> bool" where
  "label_suffix s h \<longleftrightarrow> s = h \<or> (\<exists>p. h = p @ CHR ''.'' # s)"

fun label_suffixes :: "string \<Rightarrow> string list" where
  "label_suffixes [] = [[]]"
| "label_suffixes (x # xs) =
     (if x = CHR ''.'' then (x # xs) # label_suffixes xs else (x # xs) # tl (label_suffixes xs))"

lemma label_suffixes_hd: "\<exists>t. label_suffixes h = h # t"
  by (cases h) auto

lemma label_suffixes_split:
  "label_suffixes h = h # (case split_once CHR ''.'' h of None \<Rightarrow> [] | Some (a, b) \<Rightarrow> label_suffixes b)"
  by (induction h) (auto split: option.splits)

lemma label_suffix_refl [simp]: "label_suffix h h"
  by (simp add: label_suffix_def)

lemma label_suffix_trans: "label_suffix a b \<Longrightarrow> label_suffix b c \<Longrightarrow> label_suffix a c"
  by (force simp: label_suffix_def)

lemma label_suffix_dot: "label_suffix s (p @ CHR ''.'' # s)"
  by (auto simp: label_suffix_def)

lemma label_suffix_length: "label_suffix s h \<Longrightarrow> length s \<le> length h"
  by (auto simp: label_suffix_def)

lemma label_suffix_antisym: "label_suffix a b \<Longrightarrow> label_suffix b a \<Longrightarrow> a = b"
  using label_suffix_length [of a b] label_suffix_length [of b a] by (auto simp: label_suffix_def)

lemma label_suffix_step:
  "label_suffix s h \<longleftrightarrow> s = h \<or> (case split_once CHR ''.'' h of None \<Rightarrow> False | Some (a, b) \<Rightarrow> label_suffix s b)"
proof (cases "split_once CHR ''.'' h")
  case None
  moreover have "CHR ''.'' \<notin> set h" using None by (simp add: split_once_None)
  ultimately show ?thesis by (auto simp: label_suffix_def)
next
  case (Some ab)
  obtain a b where ab: "ab = (a, b)" by (cases ab)
  have h: "h = a @ CHR ''.'' # b" and a: "CHR ''.'' \<notin> set a"
    using split_once_SomeD [OF Some [unfolded ab]] by auto
  have "label_suffix s b" if "h = p @ CHR ''.'' # s" for p
  proof -
    from that h have "a @ CHR ''.'' # b = p @ CHR ''.'' # s" by simp
    then obtain us where "(a = p @ us \<and> us @ CHR ''.'' # b = CHR ''.'' # s)
        \<or> (a @ us = p \<and> CHR ''.'' # b = us @ CHR ''.'' # s)"
      by (auto simp: append_eq_append_conv2)
    then show ?thesis
      using a by (cases us) (auto simp: label_suffix_def)
  qed
  moreover have "label_suffix s h" if "label_suffix s b"
    using label_suffix_trans [OF that] label_suffix_dot [of b a] h by simp
  ultimately show ?thesis
    using Some ab by (auto simp: label_suffix_def [of s h])
qed

lemma set_label_suffixes: "s \<in> set (label_suffixes h) \<longleftrightarrow> label_suffix s h"
proof (induction h rule: length_induct)
  case (1 h)
  show ?case
  proof (cases "split_once CHR ''.'' h")
    case None
    then show ?thesis by (subst label_suffixes_split, subst label_suffix_step) simp
  next
    case (Some ab)
    obtain a b where ab: "ab = (a, b)" by (cases ab)
    have "s \<in> set (label_suffixes b) \<longleftrightarrow> label_suffix s b"
      using 1 split_once_shorter [OF Some [unfolded ab]] by blast
    then show ?thesis
      using Some ab by (subst label_suffixes_split, subst label_suffix_step) auto
  qed
qed

text \<open>Two suffixes of one host are comparable: the shorter is a suffix of the longer.\<close>

lemma label_suffix_linear:
  assumes "label_suffix a h" "label_suffix b h" "length a \<le> length b"
  shows "label_suffix a b"
proof -
  have tails: "h = p @ a \<Longrightarrow> h = q @ b \<Longrightarrow> \<exists>r. b = r @ a \<and> p = q @ r" for p q
    using assms(3) by (auto simp: append_eq_append_conv2)
  show ?thesis
  proof (cases "a = h")
    case True
    then show ?thesis using assms label_suffix_length [of b h] by (auto simp: label_suffix_def)
  next
    case False
    then obtain p where p: "h = (p @ [CHR ''.'']) @ a"
      using assms(1) by (auto simp: label_suffix_def)
    obtain q where q: "h = q @ b" using assms(2) by (auto simp: label_suffix_def)
    obtain r where r: "b = r @ a" "p @ [CHR ''.''] = q @ r" using tails [OF p q] by blast
    then show ?thesis
      by (cases r rule: rev_cases) (auto simp: label_suffix_def)
  qed
qed

section \<open>What a list promises\<close>

text \<open>
  A suffix list gives the longest of the label-aligned suffixes that it knows: the answer for a
  host is the answer for every suffix of the host that still contains it, and a host without an
  answer has no suffix with one.  A registrable domain is the public suffix and one label.
\<close>

locale suffix_list =
  fixes public_suffix :: "string \<Rightarrow> string option"
  assumes aligned: "public_suffix h = Some s \<Longrightarrow> label_suffix s h"
    and longest: "public_suffix h = Some s \<Longrightarrow> label_suffix d h \<Longrightarrow> label_suffix s d
      \<Longrightarrow> public_suffix d = Some s"
    and unknown: "public_suffix h = None \<Longrightarrow> label_suffix d h \<Longrightarrow> public_suffix d = None"
begin

lemma suffix_of_suffix: "public_suffix h = Some s \<Longrightarrow> public_suffix s = Some s"
  by (rule longest [OF _ aligned label_suffix_refl])

lemma registrable_domain_Some:
  assumes "default_registrable_domain public_suffix h = Some d"
  shows "\<exists>s l. public_suffix h = Some s \<and> s \<noteq> h \<and> d = l @ CHR ''.'' # s \<and> CHR ''.'' \<notin> set l
    \<and> label_suffix d h"
proof -
  obtain s where s: "public_suffix h = Some s"
    using assms by (auto simp: default_registrable_domain_def split: option.splits)
  have "h \<noteq> s" using assms s by (auto simp: default_registrable_domain_def)
  then obtain p where p: "h = p @ CHR ''.'' # s"
    using aligned [OF s] by (auto simp: label_suffix_def)
  have "strip_suffix h s = Some (p @ ''.'')"
    using strip_suffix_append [of "p @ ''.''" s] p by simp
  then have d: "d = last_piece CHR ''.'' p @ CHR ''.'' # s"
    using assms s \<open>h \<noteq> s\<close> by (simp add: default_registrable_domain_def)
  have "label_suffix d h"
    using d p by (cases rule: last_piece_cases [of p "CHR ''.''"]) (auto simp: label_suffix_def)
  then show ?thesis using s d \<open>h \<noteq> s\<close> last_piece_no_sep [of "CHR ''.''" p] by blast
qed

lemma registrable_domain_known:
  assumes "public_suffix h = Some s" "s \<noteq> h"
  shows "\<exists>d. default_registrable_domain public_suffix h = Some d"
proof -
  obtain p where p: "h = p @ CHR ''.'' # s"
    using aligned [OF assms(1)] assms(2) by (auto simp: label_suffix_def)
  have "strip_suffix h s = Some (p @ ''.'')"
    using strip_suffix_append [of "p @ ''.''" s] p by simp
  then show ?thesis using assms by (auto simp: default_registrable_domain_def)
qed

lemma registrable_domain_suffix:
  assumes "default_registrable_domain public_suffix h = Some d"
  shows "public_suffix d = public_suffix h \<and> public_suffix d \<noteq> Some d"
proof -
  obtain s l where s: "public_suffix h = Some s" "d = l @ CHR ''.'' # s" "label_suffix d h"
    using registrable_domain_Some [OF assms] by blast
  have "public_suffix d = Some s"
    using longest [OF s(1) s(3)] s(2) label_suffix_dot by simp
  then show ?thesis using s by auto
qed

text \<open>The registrable domain of a registrable domain is itself.\<close>

lemma registrable_domain_idem:
  assumes "default_registrable_domain public_suffix h = Some d"
  shows "default_registrable_domain public_suffix d = Some d"
proof -
  obtain s l where s: "public_suffix h = Some s" "d = l @ CHR ''.'' # s" "CHR ''.'' \<notin> set l"
    using registrable_domain_Some [OF assms] by blast
  have ps: "public_suffix d = Some s" using registrable_domain_suffix [OF assms] s by simp
  have strip: "strip_suffix d s = Some (l @ ''.'')"
    using strip_suffix_append [of "l @ ''.''" s] s(2) by simp
  have "last_piece CHR ''.'' l = l"
    using s(3) by (metis (full_types) in_set_conv_decomp last_piece_cases)
  then show ?thesis
    using ps strip s(2) by (simp add: default_registrable_domain_def)
qed

text \<open>A domain strictly between a public suffix and the host has the same registrable domain.\<close>

lemma registrable_domain_between:
  assumes "default_registrable_domain public_suffix h = Some d" "label_suffix d r" "label_suffix r h"
  shows "default_registrable_domain public_suffix r = Some d"
proof -
  obtain s l where s: "public_suffix h = Some s" "d = l @ CHR ''.'' # s" "CHR ''.'' \<notin> set l"
    using registrable_domain_Some [OF assms(1)] by blast
  have sr: "label_suffix s r"
    using label_suffix_trans [OF label_suffix_dot assms(2) [unfolded s(2)]] .
  have r: "public_suffix r = Some s" using longest [OF s(1) assms(3) sr] .
  have "r \<noteq> s"
    using assms(2) s(2) label_suffix_length by fastforce
  then obtain d' where d': "default_registrable_domain public_suffix r = Some d'"
    using registrable_domain_known [OF r] by blast
  then obtain l' where l': "d' = l' @ CHR ''.'' # s" "CHR ''.'' \<notin> set l'" "label_suffix d' r"
    using registrable_domain_Some [OF d'] r by auto
  consider "label_suffix d d'" | "label_suffix d' d"
    using label_suffix_linear [OF assms(2) l'(3)] label_suffix_linear [OF l'(3) assms(2)] by linarith
  then have "d = d'"
  proof cases
    case 1
    have "l' = l \<or> (\<exists>p. l' = p @ CHR ''.'' # l)"
      using 1 s(2) l'(1) by (auto simp: label_suffix_def append_eq_append_conv2 Cons_eq_append_conv)
    then show ?thesis using l' s by auto
  next
    case 2
    have "l = l' \<or> (\<exists>p. l = p @ CHR ''.'' # l')"
      using 2 s(2) l'(1) by (auto simp: label_suffix_def append_eq_append_conv2 Cons_eq_append_conv)
    then show ?thesis using l' s by auto
  qed
  then show ?thesis using d' by simp
qed

end

end
