(* ===== verification/Suffix_Automaton.thy ===== *)
theory Suffix_Automaton
  imports Public_Suffix
begin

text \<open>
  The reader of libpsl's byte-coded automaton (\<^verbatim>\<open>ops/webauthn/psl/dafsa.rs\<close>), its use as a suffix
  list, and the choice between the two files of the system (\<^verbatim>\<open>psl/dat.rs\<close>, \<^verbatim>\<open>psl/system.rs\<close>).
  Positions are \<^verbatim>\<open>usize\<close>: the sum that can grow past the data, that of the offsets, has its
  overflow check written out for 64 bits.
\<close>

section \<open>The header\<close>

definition DAFSA_MAGIC :: bytes where "DAFSA_MAGIC = string_bytes ''.DAFSA@PSL_''"
definition HEADER_LEN :: nat where "HEADER_LEN = 16"
definition FLAG_EXCEPTION :: u8 where "FLAG_EXCEPTION = push_bit 0 1"
definition FLAG_WILDCARD :: u8 where "FLAG_WILDCARD = push_bit 1 1"

datatype dafsa_load_error = Dafsa_Io io_error | Dafsa_Truncated | Dafsa_BadMagic | Dafsa_BadHeader
  | Dafsa_UnsupportedVersion u32

definition is_ascii_digit_byte :: "u8 \<Rightarrow> bool" where
  "is_ascii_digit_byte b \<longleftrightarrow> 48 \<le> b \<and> b \<le> 57"

text \<open>\<^verbatim>\<open>u32::from_str\<close> on a string of ASCII digits: \<open>None\<close> when the number does not fit.\<close>

fun u32_of_digits :: "nat \<Rightarrow> bytes \<Rightarrow> u32 option" where
  "u32_of_digits acc [] = (if int acc < 2 ^ 32 then Some (of_nat acc) else None)"
| "u32_of_digits acc (d # ds) = u32_of_digits (10 * acc + (unat d - 48)) ds"

definition parse_dafsa_header :: "bytes \<Rightarrow> dafsa_load_error + bytes" where
  "parse_dafsa_header bs =
     (if length bs < HEADER_LEN then Inl Dafsa_Truncated
      else
        let header = take HEADER_LEN bs; graph = drop HEADER_LEN bs
        in if take (length DAFSA_MAGIC) header \<noteq> DAFSA_MAGIC then Inl Dafsa_BadMagic
           else if last header \<noteq> 10 then Inl Dafsa_BadHeader
           else
             let version_field = drop (length DAFSA_MAGIC) (take (HEADER_LEN - 1) header);
                 version_digits = takeWhile is_ascii_digit_byte version_field
             in if version_digits = [] then Inl Dafsa_BadHeader
                else case u32_of_digits 0 version_digits of
                  None \<Rightarrow> Inl Dafsa_BadHeader
                | Some version \<Rightarrow>
                    if version \<noteq> 0 then Inl (Dafsa_UnsupportedVersion version) else Inr graph)"

section \<open>Reading the automaton\<close>

definition checked_add_usize :: "nat \<Rightarrow> nat \<Rightarrow> nat option" where
  "checked_add_usize a b = (if int (a + b) < 2 ^ 64 then Some (a + b) else None)"

text \<open>The next child: the new position in the list of offsets, and the offset of the child.\<close>

definition get_next_offset :: "bytes \<Rightarrow> nat \<Rightarrow> nat \<Rightarrow> (nat \<times> nat) option" where
  "get_next_offset graph pos offset =
     Option.bind (slice_get graph pos) (\<lambda>b.
     map_option (\<lambda>(consumed, offset').
         (if b AND 0x80 \<noteq> 0 then length graph else pos + consumed, offset'))
       (if b AND 0x60 = 0x60 then
          Option.bind (slice_get graph (pos + 1)) (\<lambda>hi.
          Option.bind (slice_get graph (pos + 2)) (\<lambda>lo.
          map_option (Pair 3) (checked_add_usize offset
            (unat (b AND 0x1F) * 2 ^ 16 + unat hi * 2 ^ 8 + unat lo))))
        else if b AND 0x60 = 0x40 then
          Option.bind (slice_get graph (pos + 1)) (\<lambda>lo.
          map_option (Pair 2) (checked_add_usize offset (unat (b AND 0x1F) * 2 ^ 8 + unat lo)))
        else map_option (Pair 1) (checked_add_usize offset (unat (b AND 0x3F)))))"

definition is_eol :: "bytes \<Rightarrow> nat \<Rightarrow> bool" where
  "is_eol graph offset = (case slice_get graph offset of None \<Rightarrow> False | Some b \<Rightarrow> b AND 0x80 \<noteq> 0)"

definition is_match :: "bytes \<Rightarrow> nat \<Rightarrow> bytes \<Rightarrow> nat \<Rightarrow> bool" where
  "is_match graph offset key key_pos =
     (case (slice_get graph offset, slice_get key key_pos) of
        (Some g, Some k) \<Rightarrow> g = k
      | _ \<Rightarrow> False)"

definition is_end_char_match :: "bytes \<Rightarrow> nat \<Rightarrow> bytes \<Rightarrow> nat \<Rightarrow> bool" where
  "is_end_char_match graph offset key key_pos =
     (case (slice_get graph offset, slice_get key key_pos) of
        (Some g, Some k) \<Rightarrow> g XOR 0x80 = k
      | _ \<Rightarrow> False)"

definition get_return_value :: "bytes \<Rightarrow> nat \<Rightarrow> u8 option" where
  "get_return_value graph offset =
     Option.bind (slice_get graph offset) (\<lambda>b. if b AND 0xE0 = 0x80 then Some (b AND 0x0F) else None)"

text \<open>The inner loop along a label: \<open>None\<close> at the first byte that differs.\<close>

function match_label :: "bytes \<Rightarrow> nat \<Rightarrow> bytes \<Rightarrow> nat \<Rightarrow> (nat \<times> nat) option" where
  "match_label graph offset key key_pos =
     (if \<not> is_eol graph offset \<and> key_pos < length key then
        if \<not> is_match graph offset key key_pos then None
        else match_label graph (offset + 1) key (key_pos + 1)
      else Some (offset, key_pos))"
  by pat_completeness auto
termination by (relation "measure (\<lambda>(graph, offset, key, key_pos). length key - key_pos)") auto

declare match_label.simps [simp del]

text \<open>One turn of the loop of \<^verbatim>\<open>lookup\<close> at a child: how it goes on.\<close>

datatype lookup_turn = Found u8 | Absent | Next_Child | Dive nat nat

definition lookup_child :: "bytes \<Rightarrow> bytes \<Rightarrow> nat \<Rightarrow> nat \<Rightarrow> lookup_turn" where
  "lookup_child graph key offset key_pos =
     (let enter = (key_pos < length key \<and> \<not> is_eol graph offset)
      in if enter \<and> \<not> is_match graph offset key key_pos then Next_Child
         else
           case (if enter then match_label graph (offset + 1) key (key_pos + 1)
                 else Some (offset, key_pos)) of
             None \<Rightarrow> Absent
           | Some (offset, key_pos) \<Rightarrow>
               if key_pos = length key then
                 (case get_return_value graph offset of
                    Some rv \<Rightarrow> Found rv
                  | None \<Rightarrow> if enter then Absent else Next_Child)
               else if \<not> is_end_char_match graph offset key key_pos then
                 if enter then Absent else Next_Child
               else Dive (offset + 1) (key_pos + 1))"

lemma get_next_offset_advances:
  assumes "get_next_offset graph pos offset = Some (pos', offset')"
  shows "pos < length graph \<and> pos < pos' \<and> pos' \<le> length graph"
  using assms unfolding get_next_offset_def
  by (auto simp: slice_get_def bind_eq_Some_conv split: if_splits)

lemma match_label_advances:
  "match_label graph offset key key_pos = Some (offset', key_pos')
   \<Longrightarrow> key_pos \<le> key_pos' \<and> (key_pos \<le> length key \<longrightarrow> key_pos' \<le> length key)"
proof (induction graph offset key key_pos rule: match_label.induct)
  case (1 graph offset key key_pos)
  show ?case
  proof (cases "\<not> is_eol graph offset \<and> key_pos < length key")
    case True
    then show ?thesis
      using 1(2) 1(1) [OF True] by (subst (asm) match_label.simps) (auto split: if_splits)
  next
    case False
    then show ?thesis using 1(2) by (subst (asm) match_label.simps) auto
  qed
qed

lemma lookup_child_Dive:
  assumes "lookup_child graph key offset key_pos = Dive p k"
  shows "key_pos < k \<and> key_pos < length key"
proof -
  have "key_pos' < length key" if "is_end_char_match graph offset' key key_pos'" for offset' key_pos'
    using that by (auto simp: is_end_char_match_def slice_get_def split: option.splits if_splits)
  then show ?thesis
    using assms match_label_advances [of graph "offset + 1" key "key_pos + 1"]
    by (fastforce simp: lookup_child_def Let_def split: if_splits option.splits prod.splits)
qed

function lookup_loop :: "bytes \<Rightarrow> bytes \<Rightarrow> nat \<Rightarrow> nat \<Rightarrow> nat \<Rightarrow> u8 option" where
  "lookup_loop graph key pos offset key_pos =
     (case get_next_offset graph pos offset of
        None \<Rightarrow> None
      | Some (pos', offset') \<Rightarrow>
          (case lookup_child graph key offset' key_pos of
             Found rv \<Rightarrow> Some rv
           | Absent \<Rightarrow> None
           | Next_Child \<Rightarrow> lookup_loop graph key pos' offset' key_pos
           | Dive p k \<Rightarrow> lookup_loop graph key p p k))"
  by pat_completeness auto
termination
  by (relation "measures [\<lambda>(graph, key, pos, offset, key_pos). length key - key_pos,
        \<lambda>(graph, key, pos, offset, key_pos). length graph - pos]")
     (auto dest!: get_next_offset_advances lookup_child_Dive)

declare lookup_loop.simps [simp del]

definition dafsa_lookup :: "bytes \<Rightarrow> bytes \<Rightarrow> u8 option" where
  "dafsa_lookup graph key = lookup_loop graph key 0 0 0"

section \<open>The automaton as a suffix list\<close>

definition dafsa_is_public_suffix :: "bytes \<Rightarrow> string \<Rightarrow> bool" where
  "dafsa_is_public_suffix graph domain =
     (case dafsa_lookup graph (string_bytes domain) of
        Some flags \<Rightarrow> flags AND FLAG_EXCEPTION = 0
      | None \<Rightarrow>
          (case split_once CHR ''.'' domain of
             None \<Rightarrow> False
           | Some (_, parent) \<Rightarrow>
               (case dafsa_lookup graph (string_bytes parent) of
                  None \<Rightarrow> False
                | Some flags \<Rightarrow> flags AND FLAG_WILDCARD \<noteq> 0)))"

function dafsa_public_suffix :: "bytes \<Rightarrow> string \<Rightarrow> string option" where
  "dafsa_public_suffix graph current =
     (if dafsa_is_public_suffix graph current then Some current
      else case split_once CHR ''.'' current of
        Some (_, rest) \<Rightarrow> dafsa_public_suffix graph rest
      | None \<Rightarrow> None)"
  by pat_completeness auto
termination by (relation "measure (\<lambda>(graph, current). length current)") (auto dest: split_once_shorter)

declare dafsa_public_suffix.simps [simp del]

definition dafsa_psl :: "bytes \<Rightarrow> psl" where
  "dafsa_psl graph =
     \<lparr>psl_public_suffix = dafsa_public_suffix graph,
      psl_registrable_domain = default_registrable_domain (dafsa_public_suffix graph)\<rparr>"

section \<open>The files of the system\<close>

text \<open>
  The list of the crate \<^verbatim>\<open>publicsuffix\<close>: \<open>pl_suffix\<close> also says whether the suffix is a listed one
  (\<^verbatim>\<open>is_known\<close>); \<open>pl_domain\<close> is its registrable domain.
\<close>

record publicsuffix_list =
  pl_suffix :: "string \<Rightarrow> (string \<times> bool) option"
  pl_domain :: "string \<Rightarrow> string option"

definition dat_psl :: "publicsuffix_list \<Rightarrow> psl" where
  "dat_psl l =
     \<lparr>psl_public_suffix = (\<lambda>host.
        case pl_suffix l host of
          None \<Rightarrow> None
        | Some (suffix, known) \<Rightarrow> if \<not> known then None else Some suffix),
      psl_registrable_domain = (\<lambda>host.
        case pl_suffix l host of
          None \<Rightarrow> None
        | Some (suffix, known) \<Rightarrow> if \<not> known then None else pl_domain l host)\<rparr>"

datatype dat_load_error = Dat_Io io_error | Dat_Parse

datatype system_load_error = Sys_NoneFound "string list" | Sys_Dafsa dafsa_load_error | Sys_Dat dat_load_error

definition SYSTEM_PSL_DAFSA_PATH :: string where
  "SYSTEM_PSL_DAFSA_PATH = ''/usr/share/publicsuffix/public_suffix_list.dafsa''"

definition SYSTEM_PSL_PATH :: string where
  "SYSTEM_PSL_PATH = ''/usr/share/publicsuffix/public_suffix_list.dat''"

text \<open>A file system: what reading a path gives, as bytes and as UTF-8 text.  \<open>parse\<close> is the parser of \<^verbatim>\<open>publicsuffix\<close>.\<close>

record file_system =
  fs_exists :: "string \<Rightarrow> bool"
  fs_read :: "string \<Rightarrow> io_error + bytes"
  fs_read_to_string :: "string \<Rightarrow> io_error + string"

definition dafsa_from_path :: "file_system \<Rightarrow> string \<Rightarrow> dafsa_load_error + bytes" where
  "dafsa_from_path fs path = result_bind (map_err Dafsa_Io (fs_read fs path)) parse_dafsa_header"

definition dat_from_path :: "(string \<Rightarrow> publicsuffix_list option) \<Rightarrow> file_system \<Rightarrow> string
    \<Rightarrow> dat_load_error + publicsuffix_list" where
  "dat_from_path parse fs path =
     result_bind (map_err Dat_Io (fs_read_to_string fs path)) (\<lambda>text. ok_or Dat_Parse (parse text))"

datatype system_psl = Sys_List_Dafsa bytes | Sys_List_Dat publicsuffix_list

definition system_psl_auto :: "(string \<Rightarrow> publicsuffix_list option) \<Rightarrow> file_system
    \<Rightarrow> system_load_error + system_psl" where
  "system_psl_auto parse fs =
     (if fs_exists fs SYSTEM_PSL_DAFSA_PATH then
        result_map Sys_List_Dafsa (map_err Sys_Dafsa (dafsa_from_path fs SYSTEM_PSL_DAFSA_PATH))
      else if fs_exists fs SYSTEM_PSL_PATH then
        result_map Sys_List_Dat (map_err Sys_Dat (dat_from_path parse fs SYSTEM_PSL_PATH))
      else Inl (Sys_NoneFound [SYSTEM_PSL_DAFSA_PATH, SYSTEM_PSL_PATH]))"

fun psl_of_system :: "system_psl \<Rightarrow> psl" where
  "psl_of_system (Sys_List_Dafsa graph) = dafsa_psl graph"
| "psl_of_system (Sys_List_Dat l) = dat_psl l"

section \<open>The automaton keeps the contract of a list\<close>

text \<open>The loop over the labels of a host is the first of its label-aligned suffixes, longest first.\<close>

lemma dafsa_public_suffix_find:
  "dafsa_public_suffix graph host = List.find (dafsa_is_public_suffix graph) (label_suffixes host)"
proof (induction graph host rule: dafsa_public_suffix.induct)
  case (1 graph current)
  show ?case
    by (subst dafsa_public_suffix.simps, subst label_suffixes_split)
       (use 1 in \<open>auto split: option.splits\<close>)
qed

lemma label_suffixes_of_suffix:
  "label_suffix d h \<Longrightarrow> \<exists>longer. label_suffixes h = longer @ label_suffixes d
     \<and> (\<forall>x \<in> set longer. length d < length x)"
proof (induction h rule: length_induct)
  case (1 h)
  show ?case
  proof (cases "d = h")
    case False
    then obtain a b where b: "split_once CHR ''.'' h = Some (a, b)" "label_suffix d b"
      using 1(2) by (subst (asm) label_suffix_step) (auto split: option.splits)
    obtain longer where "label_suffixes b = longer @ label_suffixes d"
        "\<forall>x \<in> set longer. length d < length x"
      using 1(1) b split_once_shorter [OF b(1)] by blast
    then show ?thesis
      using b split_once_shorter [OF b(1)] label_suffix_length [OF b(2)]
      by (intro exI [of _ "h # longer"]) (subst label_suffixes_split, auto)
  qed auto
qed

lemma find_append: "List.find P (xs @ ys) = (case List.find P xs of None \<Rightarrow> List.find P ys | Some x \<Rightarrow> Some x)"
  by (induction xs) auto

interpretation dafsa: suffix_list "dafsa_public_suffix graph" for graph
proof unfold_locales
  fix h s d
  show "label_suffix s h" if "dafsa_public_suffix graph h = Some s"
    using that set_label_suffixes [of s h]
    by (auto simp: dafsa_public_suffix_find find_Some_iff in_set_conv_nth)
  show "dafsa_public_suffix graph d = None" if none: "dafsa_public_suffix graph h = None" and "label_suffix d h"
    using none label_suffixes_of_suffix [OF that(2)]
    by (auto simp: dafsa_public_suffix_find find_append split: option.splits)
  show "dafsa_public_suffix graph d = Some s"
    if some: "dafsa_public_suffix graph h = Some s" and d: "label_suffix d h" and s: "label_suffix s d"
  proof -
    obtain longer where longer: "label_suffixes h = longer @ label_suffixes d"
        "\<forall>x \<in> set longer. length d < length x"
      using label_suffixes_of_suffix [OF d] by blast
    have "List.find (dafsa_is_public_suffix graph) longer \<noteq> Some s"
      using longer(2) label_suffix_length [OF s] 
      by (auto simp: find_Some_iff) (metis linorder_not_less nth_mem)
    then show ?thesis
      using some longer(1) by (auto simp: dafsa_public_suffix_find find_append split: option.splits)
  qed
qed

end
