(* ===== verification/Suffix_Automaton_Words.thy ===== *)
theory Suffix_Automaton_Words
  imports Suffix_Automaton
begin

text \<open>
  What the byte-coded automaton means: the words that its labels spell, as an inductive predicate
  on the bytes, and the proof that the reader finds exactly these words in an automaton whose
  nodes are deterministic.
\<close>

section \<open>The words of an automaton\<close>

function children :: "bytes \<Rightarrow> nat \<Rightarrow> nat \<Rightarrow> nat list" where
  "children graph pos offset =
     (case get_next_offset graph pos offset of
        None \<Rightarrow> []
      | Some (pos', offset') \<Rightarrow> offset' # children graph pos' offset')"
  by pat_completeness auto
termination
  by (relation "measure (\<lambda>(graph, pos, offset). length graph - pos)") (auto dest!: get_next_offset_advances)

declare children.simps [simp del]

text \<open>
  A label is a run of characters; its last character has the high bit set and is followed by the
  list of the children.  A byte with the high bits \<open>100\<close> is a value.
\<close>

inductive spells :: "bytes \<Rightarrow> nat \<Rightarrow> bytes \<Rightarrow> u8 \<Rightarrow> bool" for graph where
  spells_value: "get_return_value graph at = Some v \<Longrightarrow> spells graph at [] v"
| spells_char: "slice_get graph at = Some b \<Longrightarrow> b AND 0x80 = 0 \<Longrightarrow> spells graph (at + 1) ks v
    \<Longrightarrow> spells graph at (b # ks) v"
| spells_end: "slice_get graph at = Some b \<Longrightarrow> b AND 0x80 \<noteq> 0
    \<Longrightarrow> child \<in> set (children graph (at + 1) (at + 1)) \<Longrightarrow> spells graph child ks v
    \<Longrightarrow> spells graph at ((b XOR 0x80) # ks) v"

inductive_cases spells_NilE: "spells graph at [] v"
inductive_cases spells_ConsE: "spells graph at (k # ks) v"

definition dafsa_word :: "bytes \<Rightarrow> bytes \<Rightarrow> u8 \<Rightarrow> bool" where
  "dafsa_word graph key v \<longleftrightarrow> (\<exists>child \<in> set (children graph 0 0). spells graph child key v)"

lemma children_step:
  "get_next_offset graph pos offset = Some (pos', offset')
   \<Longrightarrow> children graph pos offset = offset' # children graph pos' offset'"
  by (subst children.simps) simp

lemma drop_key: "slice_get key n = Some k \<Longrightarrow> drop n key = k # drop (n + 1) key"
  by (auto simp: slice_get_def Cons_nth_drop_Suc split: if_splits)

lemma is_matchD:
  "is_match graph offset key n \<Longrightarrow> \<exists>k. slice_get graph offset = Some k \<and> drop n key = k # drop (n + 1) key"
  by (auto simp: is_match_def split: option.splits dest: drop_key)

lemma is_end_char_matchD:
  "is_end_char_match graph offset key n
   \<Longrightarrow> \<exists>b. slice_get graph offset = Some b \<and> drop n key = (b XOR 0x80) # drop (n + 1) key"
  by (auto simp: is_end_char_match_def split: option.splits dest: drop_key)

lemma not_eolD: "slice_get graph at = Some b \<Longrightarrow> \<not> is_eol graph at \<Longrightarrow> b AND 0x80 = 0"
  by (auto simp: is_eol_def)

lemma eolD: "slice_get graph at = Some b \<Longrightarrow> is_eol graph at \<Longrightarrow> b AND 0x80 \<noteq> 0"
  by (auto simp: is_eol_def)

section \<open>What is found is spelled\<close>

lemma match_label_exit:
  "match_label graph offset key n = Some (offset', n') \<Longrightarrow> is_eol graph offset' \<or> length key \<le> n'"
proof (induction graph offset key n rule: match_label.induct)
  case (1 graph offset key n)
  show ?case
  proof (cases "\<not> is_eol graph offset \<and> n < length key")
    case True
    then show ?thesis using 1(2) 1(1) [OF True] by (subst (asm) match_label.simps) (auto split: if_splits)
  next
    case False
    then show ?thesis using 1(2) by (subst (asm) match_label.simps) auto
  qed
qed

lemma match_label_spells:
  "match_label graph offset key n = Some (offset', n') \<Longrightarrow> spells graph offset' (drop n' key) v
   \<Longrightarrow> spells graph offset (drop n key) v"
proof (induction graph offset key n rule: match_label.induct)
  case (1 graph offset key n)
  show ?case
  proof (cases "\<not> is_eol graph offset \<and> n < length key")
    case True
    then have m: "is_match graph offset key n"
        "match_label graph (offset + 1) key (n + 1) = Some (offset', n')"
      using 1(2) by (subst (asm) match_label.simps; auto split: if_splits)+
    have "spells graph (offset + 1) (drop (n + 1) key) v"
      using 1(1) True m 1(3) by blast
    then show ?thesis
      using True is_matchD [OF m(1)] not_eolD spells_char by fastforce
  next
    case False
    then show ?thesis using 1(2,3) by (subst (asm) match_label.simps) auto
  qed
qed

text \<open>The three ways into a child: skip it, walk its label, or stay at its first byte.\<close>

lemma lookup_child_skip:
  "n < length key \<Longrightarrow> \<not> is_eol graph offset \<Longrightarrow> \<not> is_match graph offset key n
   \<Longrightarrow> lookup_child graph key offset n = Next_Child"
  by (simp add: lookup_child_def)

lemma lookup_child_enter:
  "n < length key \<Longrightarrow> \<not> is_eol graph offset \<Longrightarrow> is_match graph offset key n
   \<Longrightarrow> lookup_child graph key offset n =
     (case match_label graph (offset + 1) key (n + 1) of
        None \<Rightarrow> Absent
      | Some (at, n') \<Rightarrow>
          if n' = length key then (case get_return_value graph at of Some rv \<Rightarrow> Found rv | None \<Rightarrow> Absent)
          else if \<not> is_end_char_match graph at key n' then Absent else Dive (at + 1) (n' + 1))"
  by (auto simp: lookup_child_def split: option.splits)

lemma lookup_child_stay:
  "\<not> (n < length key \<and> \<not> is_eol graph offset)
   \<Longrightarrow> lookup_child graph key offset n =
     (if n = length key then (case get_return_value graph offset of Some rv \<Rightarrow> Found rv | None \<Rightarrow> Next_Child)
      else if \<not> is_end_char_match graph offset key n then Next_Child else Dive (offset + 1) (n + 1))"
  by (auto simp: lookup_child_def split: option.splits)

text \<open>A child that answers has a label whose last character is at the place reached.\<close>

definition reached :: "bytes \<Rightarrow> bytes \<Rightarrow> nat \<Rightarrow> nat \<Rightarrow> nat \<Rightarrow> nat \<Rightarrow> bool" where
  "reached graph key offset n at n' \<longleftrightarrow> n' \<le> length key \<and> (is_eol graph at \<or> n' = length key)
     \<and> (\<forall>v. spells graph at (drop n' key) v \<longrightarrow> spells graph offset (drop n key) v)"

lemma reached_enter:
  assumes "n < length key" "\<not> is_eol graph offset" "is_match graph offset key n"
    and l: "match_label graph (offset + 1) key (n + 1) = Some (at, n')"
  shows "reached graph key offset n at n'"
proof -
  obtain k where k: "slice_get graph offset = Some k" "drop n key = k # drop (n + 1) key"
    using is_matchD [OF assms(3)] by blast
  have "spells graph offset (drop n key) v" if "spells graph at (drop n' key) v" for v
    using spells_char [OF k(1) not_eolD [OF k(1) assms(2)] match_label_spells [OF l that]] k(2) by simp
  then show ?thesis
    using match_label_advances [OF l] match_label_exit [OF l] assms(1) by (auto simp: reached_def)
qed

lemma reached_stay:
  "\<not> (n < length key \<and> \<not> is_eol graph offset) \<Longrightarrow> n \<le> length key \<Longrightarrow> reached graph key offset n offset n"
  by (auto simp: reached_def)

lemma lookup_child_reached:
  assumes "n \<le> length key" "lookup_child graph key offset n = turn" "turn \<noteq> Absent" "turn \<noteq> Next_Child"
  shows "\<exists>at n'. reached graph key offset n at n'
    \<and> (if n' = length key then \<exists>rv. get_return_value graph at = Some rv \<and> turn = Found rv
       else is_end_char_match graph at key n' \<and> turn = Dive (at + 1) (n' + 1))"
proof (cases "n < length key \<and> \<not> is_eol graph offset")
  case True
  then have m: "is_match graph offset key n" using assms lookup_child_skip by blast
  show ?thesis
  proof (cases "match_label graph (offset + 1) key (n + 1)")
    case None
    then show ?thesis using assms True m by (simp add: lookup_child_enter)
  next
    case (Some r)
    obtain at n' where r: "r = (at, n')" by (cases r)
    have "reached graph key offset n at n'" using reached_enter True m Some r by blast
    then show ?thesis
      using assms True m Some r
      by (intro exI [of _ at] exI [of _ n']) (auto simp: lookup_child_enter split: option.splits if_splits)
  qed
next
  case False
  then show ?thesis
    using assms reached_stay [OF False assms(1)]
    by (intro exI [of _ offset] exI [of _ n]) (auto simp: lookup_child_stay split: option.splits if_splits)
qed

lemma lookup_child_Found:
  assumes "n \<le> length key" "lookup_child graph key offset n = Found rv"
  shows "spells graph offset (drop n key) rv"
  using lookup_child_reached [OF assms] spells_value
  by (fastforce simp: reached_def split: if_splits)

lemma lookup_child_Dive_spells:
  assumes "n \<le> length key" "lookup_child graph key offset n = Dive p k"
    and "child \<in> set (children graph p p)" "spells graph child (drop k key) v"
  shows "k \<le> length key \<and> spells graph offset (drop n key) v"
proof -
  obtain at n' where r: "reached graph key offset n at n'" "n' \<noteq> length key"
      "is_end_char_match graph at key n'" "p = at + 1" "k = n' + 1"
    using lookup_child_reached [OF assms(1,2)] by (auto split: if_splits)
  obtain b where b: "slice_get graph at = Some b" "drop n' key = (b XOR 0x80) # drop k key"
    using is_end_char_matchD [OF r(3)] r(5) by auto
  have "b AND 0x80 \<noteq> 0" using r(1,2) eolD [OF b(1)] by (auto simp: reached_def)
  then have "spells graph at (drop n' key) v"
    using spells_end [OF b(1)] assms(3,4) r(4) b(2) by simp
  then show ?thesis using r by (auto simp: reached_def)
qed

lemma lookup_loop_spells:
  "lookup_loop graph key pos offset n = Some v \<Longrightarrow> n \<le> length key
   \<Longrightarrow> \<exists>child \<in> set (children graph pos offset). spells graph child (drop n key) v"
proof (induction graph key pos offset n rule: lookup_loop.induct)
  case (1 graph key pos offset n)
  obtain pos' offset' where g: "get_next_offset graph pos offset = Some (pos', offset')"
    using 1(3) by (subst (asm) lookup_loop.simps) (auto split: option.splits)
  note step = 1(3) [unfolded lookup_loop.simps [of graph key pos offset n]]
  show ?case
  proof (cases "lookup_child graph key offset' n")
    case (Found rv)
    then show ?thesis
      using step g lookup_child_Found [OF 1(4) Found] children_step [OF g] by auto
  next
    case Absent
    then show ?thesis using step g by simp
  next
    case Next_Child
    then show ?thesis using step g 1(1) [OF g refl Next_Child] 1(4) children_step [OF g] by auto
  next
    case (Dive p k)
    have "k \<le> length key"
      using lookup_child_reached [OF 1(4) Dive] by (auto simp: reached_def split: if_splits)
    then obtain child where "child \<in> set (children graph p p)" "spells graph child (drop k key) v"
      using step g Dive 1(2) [OF g refl Dive] by auto
    then show ?thesis
      using lookup_child_Dive_spells [OF 1(4) Dive] children_step [OF g] by auto
  qed
qed

lemma dafsa_lookup_sound: "dafsa_lookup graph key = Some v \<Longrightarrow> dafsa_word graph key v"
  using lookup_loop_spells [of graph key 0 0 0 v] by (simp add: dafsa_lookup_def dafsa_word_def)

section \<open>What is spelled is found\<close>

text \<open>
  The symbol that a child starts with: a value, or a character (with or without the mark of the
  last one).  An automaton is deterministic on a set of nodes when the children of each start
  with different symbols, and the labels of the children lead to nodes of the set.
\<close>

definition first_symbol :: "bytes \<Rightarrow> nat \<Rightarrow> u8 option" where
  "first_symbol graph at =
     map_option (\<lambda>b. if b AND 0xE0 = 0x80 then 0x80 else b AND 0x7F) (slice_get graph at)"

function label_end :: "bytes \<Rightarrow> nat \<Rightarrow> nat" where
  "label_end graph at = (if at < length graph \<and> \<not> is_eol graph at then label_end graph (at + 1) else at)"
  by pat_completeness auto
termination by (relation "measure (\<lambda>(graph, at). length graph - at)") auto

declare label_end.simps [simp del]

definition deterministic_children :: "bytes \<Rightarrow> nat list \<Rightarrow> nat list \<Rightarrow> bool" where
  "deterministic_children graph nodes cs \<longleftrightarrow>
     distinct (map (first_symbol graph) cs)
     \<and> list_all (\<lambda>c. get_return_value graph (label_end graph c) = None
          \<longrightarrow> label_end graph c + 1 \<in> set nodes) cs"

definition deterministic_dafsa :: "bytes \<Rightarrow> nat list \<Rightarrow> bool" where
  "deterministic_dafsa graph nodes \<longleftrightarrow>
     0 \<in> set nodes \<and> list_all (\<lambda>p. deterministic_children graph nodes (children graph p p)) nodes"

lemma u8_eq_iff: "(a :: u8) = b \<longleftrightarrow> (\<forall>n \<in> {0, 1, 2, 3, 4, 5, 6, 7}. bit a n = bit b n)"
proof
  assume eq: "\<forall>n \<in> {0, 1, 2, 3, 4, 5, 6, 7}. bit a n = bit b n"
  show "a = b"
  proof (rule bit_word_eqI)
    fix n :: nat
    assume "n < LENGTH(8)"
    then have "n \<in> {0, 1, 2, 3, 4, 5, 6, 7}" by auto
    then show "bit a n = bit b n" using eq by blast
  qed
qed simp

lemma byte_value: "(b :: u8) AND 0xE0 = 0x80 \<Longrightarrow> b AND 0x80 \<noteq> 0 \<and> b AND 0x7F < 32"
proof -
  assume "b AND 0xE0 = 0x80"
  then have "bit b 7" "b AND 0x7F = b AND 0x1F" by (simp_all add: u8_eq_iff bit_simps)
  moreover have "b AND 0x1F < 32"
    using word_and_le1 [of b "0x1F"] by (simp add: word_less_nat_alt word_le_nat_alt)
  moreover have "b AND 0x80 = 0 \<longleftrightarrow> \<not> bit b 7" by (simp add: u8_eq_iff bit_simps)
  ultimately show ?thesis by simp
qed

lemma byte_high_bit:
  "(b :: u8) AND 0x80 = 0 \<Longrightarrow> b AND 0x7F = b \<and> b AND 0xE0 \<noteq> 0x80"
  "(b :: u8) AND 0x80 \<noteq> 0 \<Longrightarrow> b XOR 0x80 = b AND 0x7F"
proof -
  assume b: "b AND 0x80 = 0"
  then have "b AND 0x7F = b" by (simp add: u8_eq_iff bit_simps)
  then show "b AND 0x7F = b \<and> b AND 0xE0 \<noteq> 0x80" using b byte_value [of b] by blast
next
  assume "b AND 0x80 \<noteq> 0"
  then show "b XOR 0x80 = b AND 0x7F" by (simp add: u8_eq_iff bit_simps)
qed

lemma value_byte_end: "(b :: u8) AND 0xE0 = 0x80 \<Longrightarrow> b XOR 0x80 < 32"
  using byte_high_bit(2) [of b] byte_value [of b] by simp

text \<open>A child that spells a key starts with the first symbol of the key.\<close>

lemma spells_first_symbol:
  assumes "spells graph at ks v" "list_all (\<lambda>k. 32 \<le> k) ks"
  shows "first_symbol graph at = Some (case ks of [] \<Rightarrow> 0x80 | k # _ \<Rightarrow> k)"
proof (cases ks)
  case Nil
  then show ?thesis
    using assms(1) by (auto simp: first_symbol_def get_return_value_def bind_eq_Some_conv split: if_splits
        elim!: spells_NilE)
next
  case (Cons k ks')
  then show ?thesis
    using assms byte_value
    by (fastforce simp: first_symbol_def byte_high_bit(1,2) not_less [symmetric] elim!: spells_ConsE)
qed

text \<open>A child that starts with another symbol is skipped.\<close>

lemma other_child_skipped:
  assumes "n \<le> length key" "list_all (\<lambda>k. 32 \<le> k) key"
    and other: "first_symbol graph c \<noteq> Some (case drop n key of [] \<Rightarrow> 0x80 | k # _ \<Rightarrow> k)"
  shows "lookup_child graph key c n = Next_Child"
proof (cases "n < length key \<and> \<not> is_eol graph c")
  case True
  have "\<not> is_match graph c key n"
  proof
    assume "is_match graph c key n"
    then obtain k where k: "slice_get graph c = Some k" "drop n key = k # drop (n + 1) key"
      using is_matchD by blast
    then show False
      using other byte_high_bit(1) [OF not_eolD [OF k(1)]] True by (simp add: first_symbol_def)
  qed
  then show ?thesis using True lookup_child_skip by blast
next
  case False
  have "get_return_value graph c = None" if "n = length key"
    using that other
    by (cases "slice_get graph c") (auto simp: first_symbol_def get_return_value_def split: if_splits)
  moreover have "\<not> is_end_char_match graph c key n" if "n \<noteq> length key"
  proof
    assume "is_end_char_match graph c key n"
    then obtain b where b: "slice_get graph c = Some b" "drop n key = (b XOR 0x80) # drop (n + 1) key"
      using is_end_char_matchD by blast
    have "b AND 0x80 \<noteq> 0" using b(1) eolD False that assms(1) by auto
    moreover have "b XOR 0x80 \<in> set key" using b(2) by (metis in_set_dropD list.set_intros(1))
    then have "32 \<le> b XOR 0x80" using assms(2) by (auto simp: list_all_iff)
    moreover have "b AND 0xE0 \<noteq> 0x80"
      using value_byte_end [of b] \<open>32 \<le> b XOR 0x80\<close> by (auto simp: not_less [symmetric])
    ultimately show False
      using other b byte_high_bit(2) [of b] by (simp add: first_symbol_def)
  qed
  ultimately show ?thesis using lookup_child_stay [OF False] by simp
qed

lemma match_label_found:
  "spells graph offset (drop n key) v \<Longrightarrow> n \<le> length key
   \<Longrightarrow> \<exists>n'. match_label graph offset key n = Some (label_end graph offset, n')
     \<and> n' \<le> length key \<and> spells graph (label_end graph offset) (drop n' key) v
     \<or> match_label graph offset key n = Some (offset + (length key - n), length key)
       \<and> spells graph (offset + (length key - n)) [] v"
proof (induction graph offset key n rule: match_label.induct)
  case (1 graph offset key n)
  show ?case
  proof (cases "\<not> is_eol graph offset \<and> n < length key")
    case True
    then have "drop n key = key ! n # drop (n + 1) key" by (simp add: Cons_nth_drop_Suc)
    then have "spells graph offset (key ! n # drop (n + 1) key) v" using 1(2) by simp
    then have s: "slice_get graph offset = Some (key ! n)" "spells graph (offset + 1) (drop (n + 1) key) v"
      using True by (auto simp: is_eol_def elim: spells_ConsE)
    then have m: "is_match graph offset key n"
      using True by (simp add: is_match_def slice_get_def)
    have "label_end graph offset = label_end graph (offset + 1)"
      using s(1) True by (subst label_end.simps) (auto simp: slice_get_def split: if_splits)
    moreover have "match_label graph offset key n = match_label graph (offset + 1) key (n + 1)"
      using True m by (subst match_label.simps) simp
    moreover have "offset + 1 + (length key - (n + 1)) = offset + (length key - n)" using True by arith
    ultimately show ?thesis using 1(1) [OF True _ s(2)] m True by (metis Suc_eq_plus1 Suc_leI)
  next
    case False
    have m: "match_label graph offset key n = Some (offset, n)"
      using False by (subst match_label.simps) auto
    show ?thesis
    proof (cases "is_eol graph offset")
      case True
      then have "label_end graph offset = offset" by (subst label_end.simps) simp
      then show ?thesis using m 1(2,3) by auto
    next
      case no_eol: False
      then have "n = length key" using False 1(3) by simp
      then show ?thesis using m 1(2) by auto
    qed
  qed
qed

text \<open>The child that spells the key answers: with the value, or with the node below its label.\<close>

lemma right_child_answers:
  assumes "spells graph c (drop n key) v" "n \<le> length key" "list_all (\<lambda>k. 32 \<le> k) key"
  shows "lookup_child graph key c n = Found v
    \<or> (\<exists>k child. lookup_child graph key c n = Dive (label_end graph c + 1) k \<and> n < k \<and> k \<le> length key
        \<and> get_return_value graph (label_end graph c) = None
        \<and> child \<in> set (children graph (label_end graph c + 1) (label_end graph c + 1))
        \<and> spells graph child (drop k key) v)"
    (is "?found \<or> ?dive")
proof (cases "n = length key")
  case True
  then show ?thesis using assms(1) by (auto simp: lookup_child_stay elim: spells_NilE)
next
  case False
  then have n: "n < length key" using assms(2) by simp
  have at_end: ?dive
    if label: "spells graph (label_end graph c) (drop n' key) v" and n': "n \<le> n'" "n' < length key"
      and eol: "is_eol graph (label_end graph c)"
      and turn: "is_end_char_match graph (label_end graph c) key n'
        \<Longrightarrow> lookup_child graph key c n = Dive (label_end graph c + 1) (n' + 1)" for n'
  proof -
    have key: "drop n' key = key ! n' # drop (n' + 1) key" using n' by (simp add: Cons_nth_drop_Suc)
    then have "spells graph (label_end graph c) (key ! n' # drop (n' + 1) key) v" using label by simp
    then obtain b child where b: "slice_get graph (label_end graph c) = Some b" "key ! n' = b XOR 0x80"
        "child \<in> set (children graph (label_end graph c + 1) (label_end graph c + 1))"
        "spells graph child (drop (n' + 1) key) v"
      using eol by (cases rule: spells_ConsE) (auto simp: is_eol_def)
    have "32 \<le> b XOR 0x80" using assms(3) n' b(2) by (auto simp: list_all_length)
    then have "b AND 0xE0 \<noteq> 0x80"
      using value_byte_end [of b] by (auto simp: not_less [symmetric])
    then have "get_return_value graph (label_end graph c) = None"
      using b(1) by (simp add: get_return_value_def)
    moreover have "is_end_char_match graph (label_end graph c) key n'"
      using b n' by (simp add: is_end_char_match_def slice_get_def)
    ultimately show ?dive using turn b n'
      by (intro exI [of _ "n' + 1"] exI [of _ child]) auto
  qed
  show ?thesis
  proof (cases "is_eol graph c")
    case True
    then have c: "label_end graph c = c" by (subst label_end.simps) simp
    have ?dive
      by (rule at_end [of n]) (use True c n assms(1) in \<open>auto simp: lookup_child_stay\<close>)
    then show ?thesis by blast
  next
    case no_eol: False
    have "drop n key = key ! n # drop (n + 1) key" using n by (simp add: Cons_nth_drop_Suc)
    then have "spells graph c (key ! n # drop (n + 1) key) v" using assms(1) by simp
    then have s: "slice_get graph c = Some (key ! n)" "spells graph (c + 1) (drop (n + 1) key) v"
      using no_eol by (auto simp: is_eol_def elim: spells_ConsE)
    have m: "is_match graph c key n" using s(1) n by (simp add: is_match_def slice_get_def)
    have e: "label_end graph c = label_end graph (c + 1)"
      using s(1) no_eol by (subst label_end.simps) (auto simp: slice_get_def split: if_splits)
    note turn = lookup_child_enter [OF n no_eol m]
    consider (label) n' where "match_label graph (c + 1) key (n + 1) = Some (label_end graph c, n')"
        "n' \<le> length key" "spells graph (label_end graph c) (drop n' key) v"
      | (whole) at where "match_label graph (c + 1) key (n + 1) = Some (at, length key)" "spells graph at [] v"
      using match_label_found [OF s(2)] n e by fastforce
    then show ?thesis
    proof cases
      case (label n')
      show ?thesis
      proof (cases "n' = length key")
        case True
        then show ?thesis using label turn by (auto elim: spells_NilE)
      next
        case False
        have ?dive
          by (rule at_end [of n'])
             (use label False turn match_label_advances [OF label(1)] match_label_exit [OF label(1)] in auto)
        then show ?thesis by blast
      qed
    next
      case (whole at)
      then show ?thesis using turn by (auto elim: spells_NilE)
    qed
  qed
qed

lemma lookup_loop_complete:
  "deterministic_dafsa graph nodes \<Longrightarrow> list_all (\<lambda>k. 32 \<le> k) key
   \<Longrightarrow> deterministic_children graph nodes (children graph pos offset) \<Longrightarrow> n \<le> length key
   \<Longrightarrow> child \<in> set (children graph pos offset) \<Longrightarrow> spells graph child (drop n key) v
   \<Longrightarrow> lookup_loop graph key pos offset n = Some v"
proof (induction graph key pos offset n arbitrary: child rule: lookup_loop.induct)
  case (1 graph key pos offset n)
  obtain pos' offset' where g: "get_next_offset graph pos offset = Some (pos', offset')"
    using 1(7) by (cases "get_next_offset graph pos offset") (auto simp: children.simps [of graph pos offset])
  note cs = children_step [OF g]
  have symbol: "first_symbol graph child = Some (case drop n key of [] \<Rightarrow> 0x80 | k # _ \<Rightarrow> k)"
    using spells_first_symbol [OF 1(8)] 1(4) by (auto simp: list_all_iff dest: in_set_dropD)
  show ?case
  proof (cases "child = offset'")
    case True
    from right_child_answers [OF 1(8,6,4)] consider "lookup_child graph key offset' n = Found v"
      | k below where "lookup_child graph key offset' n = Dive (label_end graph child + 1) k" "k \<le> length key"
          "get_return_value graph (label_end graph child) = None"
          "below \<in> set (children graph (label_end graph child + 1) (label_end graph child + 1))"
          "spells graph below (drop k key) v"
      using True by auto
    then show ?thesis
    proof cases
      case 1
      then show ?thesis using g by (subst lookup_loop.simps) simp
    next
      case (2 k below)
      have "label_end graph child + 1 \<in> set nodes"
        using 1(5) cs True 2(3) by (simp add: deterministic_children_def)
      then have "deterministic_children graph nodes
          (children graph (label_end graph child + 1) (label_end graph child + 1))"
        using 1(3) by (simp add: deterministic_dafsa_def list_all_iff)
      then have "lookup_loop graph key (label_end graph child + 1) (label_end graph child + 1) k = Some v"
        using 1(2) [OF g refl 2(1) 1(3,4) _ 2(2,4,5)] by blast
      then show ?thesis using g 2(1) by (subst lookup_loop.simps) simp
    qed
  next
    case False
    then have c: "child \<in> set (children graph pos' offset')" using 1(7) cs by simp
    have "first_symbol graph offset' \<noteq> first_symbol graph child"
      using 1(5) cs c by (force simp: deterministic_children_def)
    then have turn: "lookup_child graph key offset' n = Next_Child"
      using other_child_skipped [OF 1(6,4)] symbol by simp
    have "deterministic_children graph nodes (children graph pos' offset')"
      using 1(5) cs by (simp add: deterministic_children_def)
    then have "lookup_loop graph key pos' offset' n = Some v"
      using 1(1) [OF g refl turn 1(3,4) _ 1(6) c 1(8)] by blast
    then show ?thesis using g turn by (subst lookup_loop.simps) simp
  qed
qed

lemma dafsa_lookup_complete:
  assumes "deterministic_dafsa graph nodes" "list_all (\<lambda>k. 32 \<le> k) key" "dafsa_word graph key v"
  shows "dafsa_lookup graph key = Some v"
  using assms lookup_loop_complete [OF assms(1,2), of 0 0 0]
  by (auto simp: dafsa_lookup_def dafsa_word_def deterministic_dafsa_def list_all_iff)

end
