(* ===== verification/Web_Origin.thy ===== *)
theory Web_Origin
  imports Suffix_Automaton Cbor_Json
begin

text \<open>
  Origins and relying party ids: \<^verbatim>\<open>ops/webauthn/idl/origin.rs\<close> and \<^verbatim>\<open>ops/webauthn/idl/rpid.rs\<close>.
  The crates \<^verbatim>\<open>url\<close> and \<^verbatim>\<open>idna\<close> are the parameters of the record \<open>web_lib\<close>; the addresses of
  \<^verbatim>\<open>std::net\<close> are parsed here.
\<close>

section \<open>Addresses of the standard library\<close>

definition digit_value :: "nat \<Rightarrow> char \<Rightarrow> nat option" where
  "digit_value radix c =
     (let n = of_char c :: nat;
          v = (if 48 \<le> n \<and> n \<le> 57 then Some (n - 48)
               else if 97 \<le> n \<and> n \<le> 102 then Some (n - 87)
               else if 65 \<le> n \<and> n \<le> 70 then Some (n - 55) else None)
      in case v of None \<Rightarrow> None | Some d \<Rightarrow> if d < radix then Some d else None)"

text \<open>
  \<^verbatim>\<open>Parser::read_number\<close>: at most \<open>max_digits\<close> digits whose value is at most \<open>limit\<close>; the rest of the
  input when there is such a number.
\<close>

definition read_number :: "nat \<Rightarrow> nat \<Rightarrow> bool \<Rightarrow> nat \<Rightarrow> string \<Rightarrow> string option" where
  "read_number radix max_digits allow_zero_prefix limit s =
     (let ds = takeWhile (\<lambda>c. digit_value radix c \<noteq> None) s
      in if ds = [] \<or> max_digits < length ds then None
         else if limit < foldl (\<lambda>n c. n * radix + the (digit_value radix c)) 0 ds then None
         else if \<not> allow_zero_prefix \<and> hd ds = CHR ''0'' \<and> 1 < length ds then None
         else Some (drop (length ds) s))"

definition read_given_char :: "char \<Rightarrow> string \<Rightarrow> string option" where
  "read_given_char c s = (case s of x # xs \<Rightarrow> if x = c then Some xs else None | [] \<Rightarrow> None)"

definition read_separator :: "char \<Rightarrow> nat \<Rightarrow> (string \<Rightarrow> string option) \<Rightarrow> string \<Rightarrow> string option" where
  "read_separator c index inner s =
     Option.bind (if 0 < index then read_given_char c s else Some s) inner"

definition read_octet :: "nat \<Rightarrow> string \<Rightarrow> string option" where
  "read_octet index = read_separator CHR ''.'' index (read_number 10 3 False 255)"

definition read_ipv4 :: "string \<Rightarrow> string option" where
  "read_ipv4 s =
     Option.bind (read_octet 0 s) (\<lambda>s. Option.bind (read_octet 1 s) (\<lambda>s.
     Option.bind (read_octet 2 s) (read_octet 3)))"

text \<open>\<^verbatim>\<open>read_groups\<close>: the groups read, whether the last two are an IPv4 address, and the rest.\<close>

function read_groups :: "nat \<Rightarrow> nat \<Rightarrow> string \<Rightarrow> nat \<times> bool \<times> string" where
  "read_groups limit i s =
     (if i < limit then
        (case (if i < limit - 1 then read_separator CHR '':'' i read_ipv4 s else None) of
           Some rest \<Rightarrow> (i + 2, True, rest)
         | None \<Rightarrow>
             (case read_separator CHR '':'' i (read_number 16 4 True 65535) s of
                Some rest \<Rightarrow> read_groups limit (i + 1) rest
              | None \<Rightarrow> (i, False, s)))
      else (limit, False, s))"
  by pat_completeness auto
termination by (relation "measure (\<lambda>(limit, i, s). limit - i)") auto

definition read_ipv6 :: "string \<Rightarrow> string option" where
  "read_ipv6 s =
     (case read_groups 8 0 s of (head_size, head_ipv4, rest) \<Rightarrow>
        if head_size = 8 then Some rest
        else if head_ipv4 then None
        else
          Option.bind (read_given_char CHR '':'' rest) (\<lambda>rest.
          Option.bind (read_given_char CHR '':'' rest) (\<lambda>rest.
          case read_groups (8 - (head_size + 1)) 0 rest of (_, _, rest) \<Rightarrow> Some rest)))"

definition is_ip_address :: "string \<Rightarrow> bool" where
  "is_ip_address s =
     ((case read_ipv4 s of Some rest \<Rightarrow> Some rest | None \<Rightarrow> read_ipv6 s) = Some [])"

section \<open>Parameters\<close>

datatype url_parse_error = Url_EmptyHost | Url_IdnaError | Url_InvalidPort | Url_InvalidIpv4Address
  | Url_InvalidIpv6Address | Url_RelativeUrlWithoutBase | Url_OtherError nat

text \<open>A parsed \<^verbatim>\<open>Url\<close> by its accessors; addresses are given as they are displayed.\<close>

datatype url_host = Host_Domain string | Host_Ipv4 string | Host_Ipv6 string

record url =
  url_scheme :: string
  url_username :: string
  url_password :: "string option"
  url_host :: "url_host option"
  url_host_str :: "string option"
  url_port :: "u16 option"
  url_port_or_known_default :: "u16 option"
  url_path :: string
  url_query :: "string option"
  url_fragment :: "string option"

text \<open>
  \<open>wl_parse_host\<close> is \<^verbatim>\<open>Host::parse\<close> with the host as it is displayed, \<open>wl_error_text\<close> the display of
  a parse error, \<open>wl_domain_to_ascii\<close> the function of \<^verbatim>\<open>idna\<close>.
\<close>

record web_lib =
  wl_parse_url :: "string \<Rightarrow> url_parse_error + url"
  wl_parse_host :: "string \<Rightarrow> url_parse_error + string"
  wl_error_text :: "url_parse_error \<Rightarrow> string"
  wl_domain_to_ascii :: "string \<Rightarrow> string option"

section \<open>Hosts and origins\<close>

datatype host_parse_error = Hp_Empty | Hp_InvalidIp string | Hp_InvalidDomain string

datatype origin_parse_error = Op_InvalidScheme | Op_InsecureHttpHost string | Op_MissingHost
  | Op_InvalidHost host_parse_error | Op_InvalidPort string | Op_UnexpectedPath string
  | Op_UnexpectedUserinfo

definition origin_host_from_str :: "web_lib \<Rightarrow> string \<Rightarrow> host_parse_error + string" where
  "origin_host_from_str w s =
     (if s = [] then Inl Hp_Empty
      else map_err (\<lambda>err.
          if err = Url_InvalidIpv4Address \<or> err = Url_InvalidIpv6Address
          then Hp_InvalidIp (wl_error_text w err) else Hp_InvalidDomain (wl_error_text w err))
        (wl_parse_host w s))"

datatype scheme = Https | Http

fun scheme_as_str :: "scheme \<Rightarrow> string" where
  "scheme_as_str Https = ''https''"
| "scheme_as_str Http = ''http''"

record origin =
  or_scheme :: scheme
  or_host :: string
  or_port :: "u16 option"

definition origin_new :: "string \<Rightarrow> u16 option \<Rightarrow> origin" where
  "origin_new host port = \<lparr>or_scheme = Https, or_host = host, or_port = port\<rparr>"

definition origin_to_string :: "origin \<Rightarrow> string" where
  "origin_to_string o1 =
     scheme_as_str (or_scheme o1) @ ''://'' @ or_host o1
     @ (case or_port o1 of None \<Rightarrow> [] | Some port \<Rightarrow> '':'' @ digits (unat port))"

definition host_allows_http :: "string \<Rightarrow> bool" where
  "host_allows_http host \<longleftrightarrow> host = ''localhost''"

definition map_url_parse_error :: "web_lib \<Rightarrow> url_parse_error \<Rightarrow> origin_parse_error" where
  "map_url_parse_error w err =
     (case err of
        Url_EmptyHost \<Rightarrow> Op_MissingHost
      | Url_InvalidIpv4Address \<Rightarrow> Op_InvalidHost (Hp_InvalidIp (wl_error_text w err))
      | Url_InvalidIpv6Address \<Rightarrow> Op_InvalidHost (Hp_InvalidIp (wl_error_text w err))
      | Url_InvalidPort \<Rightarrow> Op_InvalidPort (wl_error_text w err)
      | Url_RelativeUrlWithoutBase \<Rightarrow> Op_InvalidScheme
      | _ \<Rightarrow> Op_InvalidHost (Hp_InvalidDomain (wl_error_text w err)))"

definition url_scheme_of :: "url \<Rightarrow> origin_parse_error + scheme" where
  "url_scheme_of u =
     (if url_scheme u = ''https'' then Inr Https
      else if url_scheme u = ''http'' then Inr Http
      else Inl Op_InvalidScheme)"

fun host_text :: "url_host \<Rightarrow> string" where
  "host_text (Host_Domain d) = d"
| "host_text (Host_Ipv4 ip) = ip"
| "host_text (Host_Ipv6 ip) = ''['' @ ip @ '']''"

definition origin_from_str :: "web_lib \<Rightarrow> string \<Rightarrow> origin_parse_error + origin" where
  "origin_from_str w s =
     result_bind (map_err (map_url_parse_error w) (wl_parse_url w s)) (\<lambda>u.
     result_bind (url_scheme_of u) (\<lambda>scheme.
     if url_username u \<noteq> [] \<or> url_password u \<noteq> None then Inl Op_UnexpectedUserinfo
     else if \<not> (url_path u = [] \<or> url_path u = ''/'') then Inl (Op_UnexpectedPath (url_path u))
     else case url_query u of Some q \<Rightarrow> Inl (Op_UnexpectedPath (''?'' @ q)) | None \<Rightarrow>
       (case url_fragment u of Some f \<Rightarrow> Inl (Op_UnexpectedPath (''#'' @ f)) | None \<Rightarrow>
       (case url_host u of
          None \<Rightarrow> Inl Op_MissingHost
        | Some h \<Rightarrow>
            let host = host_text h
            in if scheme = Http \<and> \<not> host_allows_http host then Inl (Op_InsecureHttpHost host)
               else Inr \<lparr>or_scheme = scheme, or_host = host, or_port = url_port u\<rparr>))))"

record request_origin =
  ro_origin :: origin
  ro_top_origin :: "origin option"

definition request_origin_new :: "origin \<Rightarrow> request_origin" where
  "request_origin_new o1 = \<lparr>ro_origin = o1, ro_top_origin = None\<rparr>"

definition request_origin_cross :: "origin \<Rightarrow> origin \<Rightarrow> request_origin" where
  "request_origin_cross o1 o2 = \<lparr>ro_origin = o1, ro_top_origin = Some o2\<rparr>"

definition is_cross_origin :: "request_origin \<Rightarrow> bool" where
  "is_cross_origin r \<longleftrightarrow> ro_top_origin r \<noteq> None"

definition request_origin_from_str :: "web_lib \<Rightarrow> string \<Rightarrow> origin_parse_error + request_origin" where
  "request_origin_from_str w s = result_map request_origin_new (origin_from_str w s)"

section \<open>Registrable suffixes\<close>

definition is_registrable_domain_suffix_or_equal :: "string \<Rightarrow> string \<Rightarrow> psl \<Rightarrow> bool" where
  "is_registrable_domain_suffix_or_equal rp_id effective_domain l =
     (if rp_id = [] then False
      else if rp_id = effective_domain then True
      else if length effective_domain \<le> length rp_id then False
      else
        let boundary = length effective_domain - length rp_id - 1
        in if slice_get effective_domain boundary \<noteq> Some CHR ''.'' then False
           else if drop (boundary + 1) effective_domain \<noteq> rp_id then False
           else case psl_registrable_domain l effective_domain of
             None \<Rightarrow> False
           | Some rd \<Rightarrow>
               if rp_id = rd then True
               else if length rp_id \<le> length rd then False
               else
                 let rd_boundary = length rp_id - length rd - 1
                 in slice_get rp_id rd_boundary = Some CHR ''.'' \<and> drop (rd_boundary + 1) rp_id = rd)"

section \<open>Relying party ids\<close>

datatype rp_id_error = Rid_Empty | Rid_Invalid string | Rid_IpAddress string | Rid_DomainTooLong
  | Rid_LabelTooLong string

fun rp_id_error_text :: "rp_id_error \<Rightarrow> string" where
  "rp_id_error_text Rid_Empty = ''Empty Relying Party ID is not allowed''"
| "rp_id_error_text (Rid_Invalid s) = ''Relying Party ID must be a valid domain string: '' @ s"
| "rp_id_error_text (Rid_IpAddress s) = ''Relying Party ID must not be an IP address: '' @ s"
| "rp_id_error_text Rid_DomainTooLong = ''Relying Party ID exceeds maximum length''"
| "rp_id_error_text (Rid_LabelTooLong l) = ''Relying Party ID label exceeds maximum length: '' @ l"

definition is_ascii_alphanumeric :: "char \<Rightarrow> bool" where
  "is_ascii_alphanumeric c =
     (let n = of_char c :: nat
      in 48 \<le> n \<and> n \<le> 57 \<or> 65 \<le> n \<and> n \<le> 90 \<or> 97 \<le> n \<and> n \<le> 122)"

text \<open>The loop over the labels; \<open>value\<close> is the text of the error.\<close>

fun check_labels :: "string \<Rightarrow> string list \<Rightarrow> rp_id_error + unit" where
  "check_labels v [] = Inr ()"
| "check_labels v (label # labels) =
     (if label = [] then Inl (Rid_Invalid v)
      else if 63 < length label then Inl (Rid_LabelTooLong label)
      else if starts_with ''-'' label \<or> ends_with ''-'' label then Inl (Rid_Invalid v)
      else if \<not> list_all (\<lambda>c. is_ascii_alphanumeric c \<or> c = CHR ''-'') label then Inl (Rid_Invalid v)
      else check_labels v labels)"

definition relying_party_id_of :: "web_lib \<Rightarrow> string \<Rightarrow> rp_id_error + string" where
  "relying_party_id_of w v =
     (if v = [] then Inl Rid_Empty
      else if is_ip_address v then Inl (Rid_IpAddress v)
      else case wl_domain_to_ascii w v of
        None \<Rightarrow> Inl (Rid_Invalid v)
      | Some ascii \<Rightarrow>
          if ascii = [] then Inl (Rid_Invalid v)
          else if 253 < length ascii then Inl Rid_DomainTooLong
          else if starts_with ''.'' ascii \<or> ends_with ''.'' ascii then Inl (Rid_Invalid v)
          else result_map (\<lambda>_. ascii) (check_labels v (split_on CHR ''.'' ascii)))"

section \<open>Lemmas\<close>

lemma origin_from_str_Inr:
  assumes "origin_from_str w s = Inr o1"
  shows "\<exists>u h. wl_parse_url w s = Inr u \<and> url_host u = Some h \<and> or_host o1 = host_text h
    \<and> or_port o1 = url_port u \<and> url_scheme u = scheme_as_str (or_scheme o1)
    \<and> url_username u = [] \<and> url_password u = None \<and> url_query u = None \<and> url_fragment u = None
    \<and> (or_scheme o1 = Http \<longrightarrow> or_host o1 = ''localhost'')"
  using assms
  by (auto simp: origin_from_str_def url_scheme_of_def host_allows_http_def Let_def result_convs
      split: if_splits option.splits)

text \<open>The slicing at the boundary is the suffix relation on labels.\<close>

lemma boundary_label_suffix:
  assumes "length s < length h"
  shows "slice_get h (length h - length s - 1) = Some CHR ''.'' \<and> drop (length h - length s - 1 + 1) h = s
    \<longleftrightarrow> label_suffix s h \<and> s \<noteq> h"
proof
  let ?b = "length h - length s - 1"
  assume b: "slice_get h ?b = Some CHR ''.'' \<and> drop (?b + 1) h = s"
  then have "h = take ?b h @ CHR ''.'' # s"
    using assms id_take_nth_drop [of ?b h] by (auto simp: slice_get_def split: if_splits)
  then show "label_suffix s h \<and> s \<noteq> h"
    using assms label_suffix_dot [of s "take ?b h"] by auto
next
  assume "label_suffix s h \<and> s \<noteq> h"
  then obtain p where "h = p @ CHR ''.'' # s" by (auto simp: label_suffix_def)
  then show "slice_get h (length h - length s - 1) = Some CHR ''.'' \<and> drop (length h - length s - 1 + 1) h = s"
    by (simp add: slice_get_def)
qed

lemma registrable_suffix_iff:
  "is_registrable_domain_suffix_or_equal r h l \<longleftrightarrow>
     r \<noteq> [] \<and> (r = h \<or> label_suffix r h
       \<and> (\<exists>rd. psl_registrable_domain l h = Some rd \<and> label_suffix rd r))"
proof -
  have shorter: "label_suffix s t \<Longrightarrow> s \<noteq> t \<Longrightarrow> length s < length t" for s t :: string
    by (auto simp: label_suffix_def)
  show ?thesis
  proof (cases "r = [] \<or> r = h \<or> length h \<le> length r")
    case True
    then show ?thesis using shorter [of r h] by (auto simp: is_registrable_domain_suffix_or_equal_def)
  next
    case False
    then have r: "r \<noteq> []" "r \<noteq> h" "length r < length h" by auto
    have eq: "rd = r \<or> length rd < length r
        \<and> (slice_get r (length r - length rd - 1) = Some CHR ''.'' \<and> drop (length r - length rd - 1 + 1) r = rd)
        \<longleftrightarrow> label_suffix rd r" for rd
      using boundary_label_suffix [of rd r] shorter [of rd r] by (cases "length rd < length r") auto
    have "is_registrable_domain_suffix_or_equal r h l \<longleftrightarrow>
        label_suffix r h \<and> (case psl_registrable_domain l h of None \<Rightarrow> False
          | Some rd \<Rightarrow> rd = r \<or> length rd < length r
            \<and> (slice_get r (length r - length rd - 1) = Some CHR ''.'' \<and> drop (length r - length rd - 1 + 1) r = rd))"
      using r boundary_label_suffix [OF r(3)]
      by (auto simp: is_registrable_domain_suffix_or_equal_def Let_def split: option.splits)
    then show ?thesis using r eq by (auto split: option.splits)
  qed
qed

definition valid_label :: "string \<Rightarrow> bool" where
  "valid_label l \<longleftrightarrow> l \<noteq> [] \<and> length l \<le> 63 \<and> hd l \<noteq> CHR ''-'' \<and> last l \<noteq> CHR ''-''
     \<and> list_all (\<lambda>c. is_ascii_alphanumeric c \<or> c = CHR ''-'') l"

lemma starts_with_single: "s \<noteq> [] \<Longrightarrow> starts_with [c] s \<longleftrightarrow> hd s = c"
  by (cases s) (auto simp: starts_with_def)

lemma ends_with_single: "s \<noteq> [] \<Longrightarrow> ends_with [c] s \<longleftrightarrow> last s = c"
  by (cases s rule: rev_cases) (auto simp: ends_with_def)

lemma check_labels_Inr: "check_labels v ls = Inr () \<longleftrightarrow> list_all valid_label ls"
  by (induction ls) (auto simp: valid_label_def starts_with_single ends_with_single)

end
