(* ===== verification/Related_Origins.thy ===== *)
theory Related_Origins
  imports Web_Origin Transport_Hints
begin

text \<open>
  Related origins (\<^verbatim>\<open>ops/webauthn/related_origins/mod.rs\<close>) and the authorisation of a relying party
  id or an AppID for the origin of a request (\<^verbatim>\<open>ops/webauthn/idl/mod.rs\<close>).  The HTTP client is a
  parameter: its answer to the one request that is made.
\<close>

section \<open>Sources\<close>

definition max_registrable_labels_new :: "nat \<Rightarrow> nat option" where
  "max_registrable_labels_new n = (if 5 \<le> n then Some n else None)"

text \<open>\<^verbatim>\<open>saturating_add\<close> on 64 bits.\<close>

definition max_registrable_labels_extra :: "nat \<Rightarrow> nat" where
  "max_registrable_labels_extra n = (if 5 + int n < 2 ^ 64 then 5 + n else nat (2 ^ 64 - 1))"

definition max_registrable_labels_default :: nat where
  "max_registrable_labels_default = 5"

datatype http_client_error = Hc_Transport string | Hc_BodyTooLarge

datatype related_origins_error = Ro_Http http_client_error | Ro_UnexpectedStatus u16
  | Ro_UnexpectedContentType "string option" | Ro_MalformedJson | Ro_MalformedDocument
  | Ro_NoMatchingOrigin

text \<open>\<open>hr_content_type\<close> is the header as text, when it is there and is text.\<close>

record http_response =
  hr_status :: u16
  hr_content_type :: "string option"
  hr_body :: bytes

definition ascii_lower :: "char \<Rightarrow> char" where
  "ascii_lower c =
     (let n = of_char c :: nat in if 65 \<le> n \<and> n \<le> 90 then char_of (n + 32) else c)"

definition eq_ignore_ascii_case :: "string \<Rightarrow> string \<Rightarrow> bool" where
  "eq_ignore_ascii_case s t \<longleftrightarrow> map ascii_lower s = map ascii_lower t"

text \<open>\<open>trim\<close> is \<^verbatim>\<open>str::trim\<close>; a header value holds visible ASCII, spaces and tabs.\<close>

definition trim :: "string \<Rightarrow> string" where
  "trim s =
     (let space = (\<lambda>c. c = CHR '' '' \<or> c = char_of (9::nat))
      in rev (dropWhile space (rev (dropWhile space s))))"

definition is_application_json :: "string \<Rightarrow> bool" where
  "is_application_json v = eq_ignore_ascii_case (trim (first_piece CHR '';'' v)) ''application/json''"

text \<open>\<open>serde\<close>: a structure is read from an object; its field is an array of strings.\<close>

fun strings_of :: "json_value list \<Rightarrow> string list option" where
  "strings_of [] = Some []"
| "strings_of (Js_String s # vs) = map_option (\<lambda>ss. s # ss) (strings_of vs)"
| "strings_of (_ # vs) = None"

definition well_known_document :: "json_value \<Rightarrow> string list option" where
  "well_known_document v =
     (case v of
        Js_Object members \<Rightarrow>
          (case map_of members ''origins'' of
             Some (Js_Array vs) \<Rightarrow> strings_of vs
           | _ \<Rightarrow> None)
      | _ \<Rightarrow> None)"

text \<open>
  \<open>get\<close> is the client, \<open>from_slice\<close> the parser of \<^verbatim>\<open>serde_json\<close>.
\<close>

definition well_known_allowed_origins :: "web_lib \<Rightarrow> (url \<Rightarrow> http_client_error + http_response)
    \<Rightarrow> (bytes \<Rightarrow> json_value option) \<Rightarrow> string \<Rightarrow> related_origins_error + string list" where
  "well_known_allowed_origins w get from_slice rp_id =
     result_bind (map_err (\<lambda>e. Ro_MalformedDocument)
       (wl_parse_url w (''https://'' @ rp_id @ ''/.well-known/webauthn''))) (\<lambda>u.
     result_bind (map_err Ro_Http (get u)) (\<lambda>resp.
     if hr_status resp \<noteq> 200 then Inl (Ro_UnexpectedStatus (hr_status resp))
     else if \<not> (case hr_content_type resp of None \<Rightarrow> False | Some t \<Rightarrow> is_application_json t)
     then Inl (Ro_UnexpectedContentType (hr_content_type resp))
     else case from_slice (hr_body resp) of
       None \<Rightarrow> Inl Ro_MalformedJson
     | Some v \<Rightarrow>
         if \<not> (case v of Js_Object ms \<Rightarrow> True | _ \<Rightarrow> False) then Inl Ro_MalformedJson
         else ok_or Ro_MalformedDocument (well_known_document v)))"

text \<open>The map of \<^verbatim>\<open>StaticRelatedOriginsSource\<close>.\<close>

definition static_source_new :: "string \<Rightarrow> string list \<Rightarrow> (string \<Rightarrow> string list option)" where
  "static_source_new rp_id origins = (Map.empty)(rp_id \<mapsto> origins)"

definition static_allowed_origins :: "(string \<Rightarrow> string list option) \<Rightarrow> string
    \<Rightarrow> related_origins_error + string list" where
  "static_allowed_origins by_rp_id rp_id =
     Inr (case by_rp_id rp_id of None \<Rightarrow> [] | Some origins \<Rightarrow> origins)"

section \<open>Matching\<close>

definition registrable_origin_label :: "string \<Rightarrow> psl \<Rightarrow> string option" where
  "registrable_origin_label host l =
     (case psl_registrable_domain l host of
        None \<Rightarrow> None
      | Some registrable \<Rightarrow>
          let label = first_piece CHR ''.'' registrable
          in if label = [] then None else Some label)"

definition effective_domain_of :: "url \<Rightarrow> string option" where
  "effective_domain_of u = map_option host_text (url_host u)"

fun default_port :: "scheme \<Rightarrow> u16 option" where
  "default_port Https = Some 443"
| "default_port Http = Some 80"

definition same_origin :: "origin \<Rightarrow> url \<Rightarrow> bool" where
  "same_origin caller listed =
     (if scheme_as_str (or_scheme caller) \<noteq> url_scheme listed then False
      else case effective_domain_of listed of
        None \<Rightarrow> False
      | Some listed_host \<Rightarrow>
          if or_host caller \<noteq> listed_host then False
          else (case or_port caller of None \<Rightarrow> default_port (or_scheme caller) | Some p \<Rightarrow> Some p)
            = url_port_or_known_default listed)"

text \<open>The loop over the listed origins; the set of the labels seen is a list without repetition.\<close>

fun related_loop :: "web_lib \<Rightarrow> psl \<Rightarrow> origin \<Rightarrow> nat \<Rightarrow> string list \<Rightarrow> string list
    \<Rightarrow> related_origins_error + unit" where
  "related_loop w l caller cap seen [] = Inl Ro_NoMatchingOrigin"
| "related_loop w l caller cap seen (origin_item # items) =
     (case wl_parse_url w origin_item of
        Inl _ \<Rightarrow> related_loop w l caller cap seen items
      | Inr u \<Rightarrow>
          (case effective_domain_of u of
             None \<Rightarrow> related_loop w l caller cap seen items
           | Some domain \<Rightarrow>
               (case registrable_origin_label domain l of
                  None \<Rightarrow> related_loop w l caller cap seen items
                | Some label \<Rightarrow>
                    if label = [] then related_loop w l caller cap seen items
                    else if cap \<le> length seen \<and> label \<notin> set seen
                    then related_loop w l caller cap seen items
                    else if same_origin caller u then Inr ()
                    else related_loop w l caller cap
                           (if length seen < cap \<and> label \<notin> set seen then seen @ [label] else seen) items)))"

definition validate_related_origins :: "web_lib \<Rightarrow> origin \<Rightarrow> string list \<Rightarrow> psl \<Rightarrow> nat
    \<Rightarrow> related_origins_error + unit" where
  "validate_related_origins w caller origins l max_labels = related_loop w l caller max_labels [] origins"

section \<open>Authorisation\<close>

datatype related_origins = Ro_Disabled
  | Ro_Enabled "string \<Rightarrow> related_origins_error + string list" nat

datatype origin_validation = Ov_Trust | Ov_Validate psl related_origins

definition rp_id_authorised :: "web_lib \<Rightarrow> request_origin \<Rightarrow> string \<Rightarrow> origin_validation \<Rightarrow> bool" where
  "rp_id_authorised w ro rp settings =
     (case settings of
        Ov_Trust \<Rightarrow> True
      | Ov_Validate l related \<Rightarrow>
          if is_registrable_domain_suffix_or_equal rp (or_host (ro_origin ro)) l then True
          else (case related of
            Ro_Disabled \<Rightarrow> False
          | Ro_Enabled source max_labels \<Rightarrow>
              (case source rp of
                 Inl err \<Rightarrow> False
               | Inr origins \<Rightarrow>
                   (case validate_related_origins w (ro_origin ro) origins l max_labels of
                      Inr _ \<Rightarrow> True
                    | Inl err \<Rightarrow> False))))"

datatype appid_error = Ai_Empty | Ai_NotHttps string | Ai_InvalidUrl string | Ai_NoHost string
  | Ai_InvalidHost string | Ai_NotAuthorised

fun appid_error_text :: "appid_error \<Rightarrow> string" where
  "appid_error_text Ai_Empty = ''appid must not be empty''"
| "appid_error_text (Ai_NotHttps s) = ''appid must be an https URL: '' @ s"
| "appid_error_text (Ai_InvalidUrl s) = ''appid is not a valid URL: '' @ s"
| "appid_error_text (Ai_NoHost s) = ''appid has no host: '' @ s"
| "appid_error_text (Ai_InvalidHost s) = ''appid host is not a valid domain: '' @ s"
| "appid_error_text Ai_NotAuthorised = ''appid is not authorised for the caller origin''"

definition appid_authorised :: "web_lib \<Rightarrow> request_origin \<Rightarrow> origin_validation \<Rightarrow> string
    \<Rightarrow> appid_error + unit" where
  "appid_authorised w ro settings appid =
     (if appid = [] then Inl Ai_Empty
      else if \<not> starts_with ''https://'' appid then Inl (Ai_NotHttps appid)
      else
        result_bind (map_err (\<lambda>err. Ai_InvalidUrl (wl_error_text w err)) (wl_parse_url w appid)) (\<lambda>u.
        result_bind (ok_or (Ai_NoHost appid) (url_host_str u)) (\<lambda>host.
        result_bind (map_err (\<lambda>err. Ai_InvalidHost (rp_id_error_text err)) (relying_party_id_of w host)) (\<lambda>rp.
        if \<not> rp_id_authorised w ro rp settings then Inl Ai_NotAuthorised else Inr ()))))"

section \<open>The loop against its specification\<close>

text \<open>The listed origins that can match, with their labels.\<close>

definition usable_origin :: "web_lib \<Rightarrow> psl \<Rightarrow> string \<Rightarrow> (string \<times> url) option" where
  "usable_origin w l item =
     (case wl_parse_url w item of
        Inl _ \<Rightarrow> None
      | Inr u \<Rightarrow>
          Option.bind (effective_domain_of u) (\<lambda>domain.
          map_option (\<lambda>label. (label, u)) (registrable_origin_label domain l)))"

definition usable_origins :: "web_lib \<Rightarrow> psl \<Rightarrow> string list \<Rightarrow> (string \<times> url) list" where
  "usable_origins w l items = List.map_filter (usable_origin w l) items"

lemma usable_origins_Cons:
  "usable_origins w l (i # is) =
     (case usable_origin w l i of None \<Rightarrow> usable_origins w l is | Some lu \<Rightarrow> lu # usable_origins w l is)"
  by (simp add: usable_origins_def map_filter_simps split: option.splits)

lemma label_nonempty: "registrable_origin_label d l = Some label \<Longrightarrow> label \<noteq> []"
  by (auto simp: registrable_origin_label_def Let_def split: option.splits if_splits)

lemma related_loop_Cons:
  "related_loop w l caller cap seen (i # is) =
     (case usable_origin w l i of
        None \<Rightarrow> related_loop w l caller cap seen is
      | Some (label, u) \<Rightarrow>
          if cap \<le> length seen \<and> label \<notin> set seen then related_loop w l caller cap seen is
          else if same_origin caller u then Inr ()
          else related_loop w l caller cap
                 (if length seen < cap \<and> label \<notin> set seen then seen @ [label] else seen) is)"
  by (auto simp: usable_origin_def dest: label_nonempty split: option.splits sum.splits)

declare related_loop.simps(2) [simp del] related_loop_Cons [simp]

lemma firsts_prefix: "\<exists>more. firsts (xs @ ys) = firsts xs @ more \<and> set more \<inter> set xs = {}"
proof (induction ys rule: rev_induct)
  case (snoc y ys)
  then obtain more where "firsts (xs @ ys) = firsts xs @ more" "set more \<inter> set xs = {}" by blast
  then show ?case
    using firsts_snoc [of "xs @ ys" y]
    by (cases "y \<in> set (xs @ ys)") auto
qed simp

lemma take_firsts_snoc:
  "(if length (take n (firsts xs)) < n \<and> x \<notin> set (take n (firsts xs))
    then take n (firsts xs) @ [x] else take n (firsts xs)) = take n (firsts (xs @ [x]))"
  by (auto simp: firsts_snoc min_def split: if_splits)

lemma seen_skip:
  "cap \<le> length seen \<and> x \<notin> set seen
    \<longleftrightarrow> x \<notin> set (if length seen < cap \<and> x \<notin> set seen then seen @ [x] else seen)"
  "x \<notin> set (if length seen < cap \<and> x \<notin> set seen then seen @ [x] else seen)
    \<Longrightarrow> (if length seen < cap \<and> x \<notin> set seen then seen @ [x] else seen) = seen"
  by (auto split: if_splits)

text \<open>A label is within the first \<open>n\<close> of the whole list when it is so up to its occurrence.\<close>

lemma take_firsts_decided:
  assumes "x \<in> set xs"
  shows "x \<in> set (take n (firsts (xs @ ys))) \<longleftrightarrow> x \<in> set (take n (firsts xs))"
proof -
  obtain more where more: "firsts (xs @ ys) = firsts xs @ more" "set more \<inter> set xs = {}"
    using firsts_prefix [of xs ys] by (elim exE conjE) (rule that)
  have "x \<notin> set (take (n - length (firsts xs)) more)"
    using more(2) assms set_take_subset [of "n - length (firsts xs)" more] by blast
  then show ?thesis by (simp add: more(1))
qed

lemma related_loop_spec:
  "related_loop w l caller cap (take cap (firsts (map fst before))) items = Inr () \<longleftrightarrow>
     (\<exists>(label, u) \<in> set (usable_origins w l items). same_origin caller u
        \<and> label \<in> set (take cap (firsts (map fst (before @ usable_origins w l items)))))"
proof (induction items arbitrary: before)
  case Nil
  then show ?case by (simp add: usable_origins_def map_filter_simps)
next
  case (Cons i items)
  show ?case
  proof (cases "usable_origin w l i")
    case None
    then show ?thesis using Cons by (simp add: related_loop_Cons usable_origins_Cons)
  next
    case (Some lu)
    obtain label u where lu: "lu = (label, u)" by (cases lu)
    let ?seen = "take cap (firsts (map fst before))"
    let ?rest = "usable_origins w l items"
    have within: "label \<in> set (take cap (firsts (map fst (before @ (label, u) # ?rest))))
        \<longleftrightarrow> label \<in> set (take cap (firsts (map fst before @ [label])))"
      using take_firsts_decided [of label "map fst before @ [label]" cap "map fst ?rest"] by simp
    have seen_next: "take cap (firsts (map fst before @ [label]))
        = (if length ?seen < cap \<and> label \<notin> set ?seen then ?seen @ [label] else ?seen)"
      by (rule take_firsts_snoc [symmetric])
    have skip: "cap \<le> length ?seen \<and> label \<notin> set ?seen
        \<longleftrightarrow> label \<notin> set (take cap (firsts (map fst before @ [label])))"
      unfolding seen_next by (rule seen_skip)
    have IH: "related_loop w l caller cap (take cap (firsts (map fst (before @ [(label, u)])))) items = Inr () \<longleftrightarrow>
        (\<exists>(label', u') \<in> set ?rest. same_origin caller u'
          \<and> label' \<in> set (take cap (firsts (map fst (before @ (label, u) # ?rest)))))"
      using Cons [of "before @ [(label, u)]"] by simp
    have goal: "(\<exists>(label', u') \<in> set (usable_origins w l (i # items)). same_origin caller u'
          \<and> label' \<in> set (take cap (firsts (map fst (before @ usable_origins w l (i # items))))))
        \<longleftrightarrow> same_origin caller u \<and> label \<in> set (take cap (firsts (map fst before @ [label])))
          \<or> related_loop w l caller cap (take cap (firsts (map fst (before @ [(label, u)])))) items = Inr ()"
      unfolding IH within [symmetric] using Some lu by (simp add: usable_origins_Cons)
    have run: "related_loop w l caller cap ?seen (i # items) =
        (if label \<notin> set (take cap (firsts (map fst before @ [label])))
         then related_loop w l caller cap ?seen items
         else if same_origin caller u then Inr ()
         else related_loop w l caller cap (take cap (firsts (map fst before @ [label]))) items)"
      unfolding skip [symmetric] seen_next using Some lu by simp
    have same: "take cap (firsts (map fst before @ [label])) = ?seen"
      if "label \<notin> set (take cap (firsts (map fst before @ [label])))"
      using that unfolding seen_next by (rule seen_skip)
    show ?thesis
    proof (cases "label \<in> set (take cap (firsts (map fst before @ [label])))")
      case True
      then show ?thesis unfolding goal run by simp
    next
      case False
      then show ?thesis unfolding goal run using same [OF False] by simp
    qed
  qed
qed

end
