(* ===== verification/Request_Preparation.thy ===== *)
theory Request_Preparation
  imports Related_Origins Credential_Request
begin

text \<open>
  Preparing a request from the options of the relying party: the parsed JSON models
  (\<^verbatim>\<open>ops/webauthn/idl/get.rs\<close>, \<^verbatim>\<open>ops/webauthn/idl/create.rs\<close>) and their translation with the checks of
  the origin (\<^verbatim>\<open>from_idl_model\<close> and \<^verbatim>\<open>prepare\<close> in \<^verbatim>\<open>ops/webauthn/get_assertion.rs\<close> and
  \<^verbatim>\<open>ops/webauthn/make_credential.rs\<close>).  The parser of \<^verbatim>\<open>serde_json\<close> is a parameter.  Binary members
  (\<^verbatim>\<open>Base64UrlString\<close>) are the decoded bytes; times are in milliseconds.
\<close>

section \<open>The JSON models\<close>

record descriptor_json =
  dj_id :: bytes
  dj_public_key :: bool
  dj_transports :: "ctap2_transport list option"

definition descriptor_of_json :: "descriptor_json \<Rightarrow> credential_descriptor" where
  "descriptor_of_json d =
     \<lparr>cd_id = dj_id d, cd_public_key = dj_public_key d, cd_transports = dj_transports d\<rparr>"

record prf_values_json =
  pj_first :: bytes
  pj_second :: "bytes option"

record prf_input_json =
  ij_eval :: "prf_values_json option"
  ij_eval_by_credential :: "(string \<times> prf_values_json) list option"

record large_blob_input_json =
  lj_support :: "string option"
  lj_read :: "bool option"
  lj_write :: "bytes option"

record hmac_get_secret_input_json =
  hj_salt1 :: bytes
  hj_salt2 :: "bytes option"

record ga_extensions_json =
  xj_cred_blob :: "bool option"
  xj_large_blob :: "large_blob_input_json option"
  xj_hmac_get_secret :: "hmac_get_secret_input_json option"
  xj_prf :: "prf_input_json option"
  xj_appid :: "string option"

record request_options_json =
  oj_challenge :: bytes
  oj_timeout :: "u32 option"
  oj_relying_party_id :: "string option"
  oj_allow_credentials :: "descriptor_json list"
  oj_user_verification :: uv_requirement
  oj_hints :: "credential_hint list"
  oj_extensions :: "ga_extensions_json option"

record authenticator_selection =
  as_authenticator_attachment :: "authenticator_attachment option"
  as_resident_key :: "resident_key_requirement option"
  as_require_resident_key :: bool
  as_user_verification :: uv_requirement

definition default_user_verification :: uv_requirement where
  "default_user_verification = Uv_Preferred"

record rp_entity_json =
  rj_id :: "string option"
  rj_name :: "string option"

record user_entity_json =
  uj_id :: bytes
  uj_name :: string
  uj_display_name :: string

definition user_entity_of_json :: "user_entity_json \<Rightarrow> user_entity" where
  "user_entity_of_json u =
     \<lparr>ue_id = uj_id u, ue_name = Some (uj_name u), ue_display_name = Some (uj_display_name u)\<rparr>"

record creation_options_json =
  kj_rp :: rp_entity_json
  kj_user :: user_entity_json
  kj_challenge :: bytes
  kj_params :: "credential_type list"
  kj_timeout :: "u32 option"
  kj_exclude_credentials :: "descriptor_json list"
  kj_authenticator_selection :: "authenticator_selection option"
  kj_hints :: "credential_hint list option"
  kj_attestation :: "string option"
  kj_attestation_formats :: "string list option"
  kj_extensions :: "mc_extensions option"

section \<open>Errors and extension inputs\<close>

datatype ga_prepare_error = Gp_EncodingError | Gp_UnexpectedLength string nat | Gp_NotSupported string
  | Gp_InvalidRelyingPartyId string | Gp_MismatchingRelyingPartyId string string | Gp_InvalidAppId string

datatype mc_prepare_error = Mp_EncodingError | Mp_InvalidRelyingPartyId string
  | Mp_MismatchingRelyingPartyId string string | Mp_InvalidAppId string

definition prf_value_of_json :: "prf_values_json \<Rightarrow> prf_input_value" where
  "prf_value_of_json v = \<lparr>pv_first = pj_first v, pv_second = pj_second v\<rparr>"

definition prf_input_of_json :: "prf_input_json \<Rightarrow> ga_prepare_error + prf_input" where
  "prf_input_of_json v =
     Inr \<lparr>pi_eval = map_option prf_value_of_json (ij_eval v),
       pi_eval_by_credential =
         (case ij_eval_by_credential v of
            None \<Rightarrow> []
          | Some m \<Rightarrow> map (\<lambda>(k, pv). (k, prf_value_of_json pv)) m)\<rparr>"

definition hmac_input_of_json :: "hmac_get_secret_input_json \<Rightarrow> ga_prepare_error + hmac_get_secret_input" where
  "hmac_input_of_json v =
     (if length (hj_salt1 v) \<noteq> 32
      then Inl (Gp_UnexpectedLength ''extensions.hmacCreateSecret.salt1'' (length (hj_salt1 v)))
      else case hj_salt2 v of
        None \<Rightarrow> Inr \<lparr>hi_salt1 = hj_salt1 v, hi_salt2 = None\<rparr>
      | Some s \<Rightarrow>
          if length s \<noteq> 32
          then Inl (Gp_UnexpectedLength ''extensions.hmacCreateSecret.salt2'' (length s))
          else Inr \<lparr>hi_salt1 = hj_salt1 v, hi_salt2 = Some s\<rparr>)"

definition large_blob_of_json :: "large_blob_input_json \<Rightarrow> ga_prepare_error + large_blob_extension" where
  "large_blob_of_json v =
     (if lj_support v \<noteq> None
      then Inl (Gp_NotSupported ''largeBlob.support is only valid at registration'')
      else if lj_read v \<noteq> None \<and> lj_write v \<noteq> None
      then Inl (Gp_NotSupported ''largeBlob.read and largeBlob.write are mutually exclusive'')
      else case lj_write v of
        Some b \<Rightarrow> Inr (Lb_Write b)
      | None \<Rightarrow>
          if lj_read v = Some True then Inr Lb_Read
          else Inl (Gp_NotSupported ''largeBlob input must set read=true or write''))"

section \<open>Assertion requests\<close>

definition DEFAULT_TIMEOUT :: nat where "DEFAULT_TIMEOUT = 300 * 1000"

definition validate_appid :: "web_lib \<Rightarrow> request_origin \<Rightarrow> origin_validation \<Rightarrow> string
    \<Rightarrow> ga_prepare_error + string" where
  "validate_appid w ro settings appid =
     result_bind (map_err (\<lambda>err. Gp_InvalidAppId (appid_error_text err)) (appid_authorised w ro settings appid))
       (\<lambda>_. Inr appid)"

definition ga_resolve_rp_id :: "web_lib \<Rightarrow> request_origin \<Rightarrow> origin_validation \<Rightarrow> string option
    \<Rightarrow> ga_prepare_error + string" where
  "ga_resolve_rp_id w ro settings given =
     (let effective_rp_id = or_host (ro_origin ro)
      in case given of
           Some relying_party_id \<Rightarrow>
             result_bind (map_err (\<lambda>err. Gp_InvalidRelyingPartyId (rp_id_error_text err))
               (relying_party_id_of w relying_party_id)) (\<lambda>parsed.
             if \<not> rp_id_authorised w ro parsed settings
             then Inl (Gp_MismatchingRelyingPartyId parsed effective_rp_id)
             else Inr parsed)
         | None \<Rightarrow>
             map_err (\<lambda>err. Gp_InvalidRelyingPartyId (rp_id_error_text err))
               (relying_party_id_of w effective_rp_id))"

definition ga_from_idl_model :: "web_lib \<Rightarrow> request_origin \<Rightarrow> origin_validation \<Rightarrow> request_options_json
    \<Rightarrow> ga_prepare_error + ga_request" where
  "ga_from_idl_model w ro settings inner =
     result_bind (ga_resolve_rp_id w ro settings (oj_relying_party_id inner)) (\<lambda>resolved_rp_id.
     result_bind (case Option.bind (oj_extensions inner) xj_prf of
         Some j \<Rightarrow> result_map Some (prf_input_of_json j)
       | None \<Rightarrow> Inr None) (\<lambda>prf.
     result_bind (case Option.bind (oj_extensions inner) xj_appid of
         Some s \<Rightarrow> result_map Some (validate_appid w ro settings s)
       | None \<Rightarrow> Inr None) (\<lambda>appid.
     result_bind (case Option.bind (oj_extensions inner) xj_large_blob of
         Some lb \<Rightarrow>
           if lj_support lb = None \<and> lj_read lb \<noteq> Some True \<and> lj_write lb = None then Inr None
           else result_map Some (large_blob_of_json lb)
       | None \<Rightarrow> Inr None) (\<lambda>large_blob.
     Inr \<lparr>gr_relying_party_id = resolved_rp_id, gr_challenge = oj_challenge inner,
       gr_origin = origin_to_string (ro_origin ro),
       gr_top_origin = map_option origin_to_string (ro_top_origin ro),
       gr_allow = map descriptor_of_json (oj_allow_credentials inner),
       gr_hints = oj_hints inner,
       gr_extensions = map_option (\<lambda>e. \<lparr>ge_cred_blob = (case xj_cred_blob e of None \<Rightarrow> False | Some b \<Rightarrow> b),
           ge_prf = prf, ge_large_blob = large_blob, ge_appid = appid\<rparr>) (oj_extensions inner),
       gr_user_verification = oj_user_verification inner,
       gr_timeout = (case oj_timeout inner of None \<Rightarrow> DEFAULT_TIMEOUT | Some ms \<Rightarrow> unat ms)\<rparr>))))"

definition ga_prepare_request :: "web_lib \<Rightarrow> (string \<Rightarrow> request_options_json option) \<Rightarrow> request_origin \<Rightarrow> string
    \<Rightarrow> origin_validation \<Rightarrow> ga_prepare_error + ga_request" where
  "ga_prepare_request w from_str ro json settings =
     result_bind (ok_or Gp_EncodingError (from_str json)) (ga_from_idl_model w ro settings)"

section \<open>Registration requests\<close>

definition mc_from_idl_model :: "web_lib \<Rightarrow> request_origin \<Rightarrow> origin_validation \<Rightarrow> creation_options_json
    \<Rightarrow> mc_prepare_error + mc_request" where
  "mc_from_idl_model w ro settings inner =
     (let effective_rp_id = or_host (ro_origin ro)
      in
     result_bind (map_err (\<lambda>err. Mp_InvalidRelyingPartyId (rp_id_error_text err))
       (relying_party_id_of w (case rj_id (kj_rp inner) of None \<Rightarrow> effective_rp_id | Some i \<Rightarrow> i))) (\<lambda>rp.
     if \<not> rp_id_authorised w ro rp settings then Inl (Mp_MismatchingRelyingPartyId rp effective_rp_id)
     else
     result_bind (case Option.bind (kj_extensions inner) me_appid_exclude of
         Some appid_exclude \<Rightarrow>
           map_err (\<lambda>err. Mp_InvalidAppId (appid_error_text err)) (appid_authorised w ro settings appid_exclude)
       | None \<Rightarrow> Inr ()) (\<lambda>_.
     Inr \<lparr>mr_challenge = kj_challenge inner, mr_origin = origin_to_string (ro_origin ro),
       mr_top_origin = map_option origin_to_string (ro_top_origin ro),
       mr_relying_party = \<lparr>rp_id = rp, rp_name = rj_name (kj_rp inner)\<rparr>,
       mr_user = user_entity_of_json (kj_user inner),
       mr_resident_key =
         (if map_option as_require_resident_key (kj_authenticator_selection inner) = Some True
          then Some Rk_Required
          else Option.bind (kj_authenticator_selection inner) as_resident_key),
       mr_user_verification =
         (case kj_authenticator_selection inner of None \<Rightarrow> Uv_Preferred | Some s \<Rightarrow> as_user_verification s),
       mr_algorithms = kj_params inner,
       mr_exclude = (if kj_exclude_credentials inner = [] then None
          else Some (map descriptor_of_json (kj_exclude_credentials inner))),
       mr_hints = (case kj_hints inner of None \<Rightarrow> [] | Some hs \<Rightarrow> hs),
       mr_authenticator_attachment = Option.bind (kj_authenticator_selection inner) as_authenticator_attachment,
       mr_extensions = kj_extensions inner,
       mr_attestation = (case kj_attestation inner of None \<Rightarrow> Some ''none'' | Some a \<Rightarrow> Some a),
       mr_timeout = (case kj_timeout inner of None \<Rightarrow> DEFAULT_TIMEOUT | Some ms \<Rightarrow> unat ms)\<rparr>)))"

definition mc_prepare_request :: "web_lib \<Rightarrow> (string \<Rightarrow> creation_options_json option) \<Rightarrow> request_origin \<Rightarrow> string
    \<Rightarrow> origin_validation \<Rightarrow> mc_prepare_error + mc_request" where
  "mc_prepare_request w from_str ro json settings =
     result_bind (ok_or Mp_EncodingError (from_str json)) (mc_from_idl_model w ro settings)"

section \<open>What a prepared request carries\<close>

lemma relying_party_id_Inr:
  assumes "relying_party_id_of w v = Inr r"
  shows "wl_domain_to_ascii w v = Some r \<and> v \<noteq> [] \<and> \<not> is_ip_address v \<and> r \<noteq> [] \<and> length r \<le> 253
    \<and> list_all valid_label (split_on CHR ''.'' r)"
  using assms
  by (auto simp: relying_party_id_of_def result_map_eq_Inr_conv check_labels_Inr split: if_splits option.splits)

lemma ga_from_idl_model_rp_id:
  assumes "ga_from_idl_model w ro settings inner = Inr r"
  shows "ga_resolve_rp_id w ro settings (oj_relying_party_id inner) = Inr (gr_relying_party_id r)
    \<and> gr_origin r = origin_to_string (ro_origin ro)
    \<and> gr_top_origin r = map_option origin_to_string (ro_top_origin ro)"
  using assms unfolding ga_from_idl_model_def by (auto simp: result_convs)

lemma ga_from_idl_model_appid:
  assumes "ga_from_idl_model w ro settings inner = Inr r"
    and "Option.bind (gr_extensions r) ge_appid = Some a"
  shows "appid_authorised w ro settings a = Inr ()"
  using assms unfolding ga_from_idl_model_def validate_appid_def
  by (auto simp: result_convs bind_eq_Some_conv split: option.splits)

lemma mc_from_idl_model_rp_id:
  assumes "mc_from_idl_model w ro settings inner = Inr r"
  shows "rp_id_authorised w ro (rp_id (mr_relying_party r)) settings
    \<and> (\<exists>v. relying_party_id_of w v = Inr (rp_id (mr_relying_party r)))
    \<and> mr_origin r = origin_to_string (ro_origin ro)
    \<and> mr_top_origin r = map_option origin_to_string (ro_top_origin ro)
    \<and> (\<forall>a. Option.bind (mr_extensions r) me_appid_exclude = Some a
        \<longrightarrow> appid_authorised w ro settings a = Inr ())"
proof -
  let ?v = "case rj_id (kj_rp inner) of None \<Rightarrow> or_host (ro_origin ro) | Some i \<Rightarrow> i"
  obtain rp where rp: "relying_party_id_of w ?v = Inr rp" "rp_id_authorised w ro rp settings"
    and r: "rp_id (mr_relying_party r) = rp" "mr_extensions r = kj_extensions inner"
      "mr_origin r = origin_to_string (ro_origin ro)"
      "mr_top_origin r = map_option origin_to_string (ro_top_origin ro)"
    and appid: "(case Option.bind (kj_extensions inner) me_appid_exclude of
         Some a \<Rightarrow> map_err (\<lambda>err. Mp_InvalidAppId (appid_error_text err)) (appid_authorised w ro settings a)
       | None \<Rightarrow> Inr ()) = Inr ()"
    using assms unfolding mc_from_idl_model_def Let_def
    by (auto simp: result_bind_eq_Inr_conv split: if_splits)
  have "appid_authorised w ro settings a = Inr ()" if "Option.bind (mr_extensions r) me_appid_exclude = Some a" for a
    using appid that r(2) by simp
  then show ?thesis using rp r by blast
qed

end
