(* ===== verification/Origin_Properties.thy ===== *)
theory Origin_Properties
  imports Suffix_Automaton_Words Request_Preparation
begin

text \<open>
  The properties of the origin checks: the automaton of the suffix list, the suffix it gives, the
  relying party ids and AppIDs that an origin may use, and the requests prepared for it.
\<close>

section \<open>Examples for the witnesses\<close>

text \<open>The fixture of the tests of \<^verbatim>\<open>dafsa.rs\<close>: com, uk, co.uk, *.kw, !foo.kw and github.io.\<close>

definition example_dafsa :: bytes where
  "example_dafsa = [0x05, 0x03, 0x0a, 0x07, 0x87, 0x6b, 0x77, 0x86,
     0x67, 0x69, 0x74, 0x68, 0x75, 0x62, 0x2e, 0x69, 0x6f, 0x88,
     0x66, 0x6f, 0x6f, 0x2e, 0x6b, 0x77, 0x85, 0x63, 0xef, 0x02, 0x82, 0xed, 0x84, 0x2e, 0x75, 0x6b, 0x84]"

text \<open>URLs of the form \<^verbatim>\<open>https://host/path\<close>, and an IDNA step that maps full-width digits.\<close>

definition example_parse_url :: "string \<Rightarrow> url_parse_error + url" where
  "example_parse_url s =
     (if starts_with ''https://'' s then
        let host = takeWhile (\<lambda>c. c \<noteq> CHR ''/'') (drop 8 s)
        in Inr \<lparr>url_scheme = ''https'', url_username = [], url_password = None,
             url_host = Some (Host_Domain host), url_host_str = Some host, url_port = None,
             url_port_or_known_default = Some 443,
             url_path = dropWhile (\<lambda>c. c \<noteq> CHR ''/'') (drop 8 s), url_query = None, url_fragment = None\<rparr>
      else Inl Url_RelativeUrlWithoutBase)"

fun example_to_ascii :: "string \<Rightarrow> string" where
  "example_to_ascii (a # b # c # s) =
     (if of_char a = (0xEF :: nat) \<and> of_char b = (0xBC :: nat) \<and> (0x90 :: nat) \<le> of_char c \<and> of_char c \<le> (0x99 :: nat)
      then char_of (of_char c - 0x60 :: nat) # example_to_ascii s
      else a # example_to_ascii (b # c # s))"
| "example_to_ascii s = s"

definition example_web :: web_lib where
  "example_web =
     \<lparr>wl_parse_url = example_parse_url, wl_parse_host = Inr, wl_error_text = (\<lambda>_. []),
      wl_domain_to_ascii = (\<lambda>s. Some (example_to_ascii s))\<rparr>"

definition example_origin :: "string \<Rightarrow> request_origin" where
  "example_origin host = request_origin_new (origin_new host None)"

section \<open>The suffix list\<close>

text \<open>
  C35: The reader of the byte-coded automaton finds exactly the words that its labels spell, with
  their values, in an automaton whose nodes are deterministic.
\<close>

theorem dafsa_lookup_words:
  assumes "deterministic_dafsa graph nodes" and "list_all (\<lambda>k. 32 \<le> k) key"
  shows "dafsa_lookup graph key = Some v \<longleftrightarrow> dafsa_word graph key v"
  using dafsa_lookup_sound dafsa_lookup_complete [OF assms] by blast

theorem dafsa_lookup_words_witness:
  "dafsa_word example_dafsa (string_bytes ''co.uk'') 4 \<and> \<not> dafsa_word example_dafsa (string_bytes ''co'') 4"
proof -
  have d: "deterministic_dafsa example_dafsa [0, 27, 30]" by code_simp
  have "list_all (\<lambda>k. 32 \<le> k) (string_bytes ''co.uk'')" "list_all (\<lambda>k. 32 \<le> k) (string_bytes ''co'')"
    by code_simp+
  moreover have "dafsa_lookup example_dafsa (string_bytes ''co.uk'') = Some 4"
    "dafsa_lookup example_dafsa (string_bytes ''co'') = None" by code_simp+
  ultimately show ?thesis
    using dafsa_lookup_words [OF d, of "string_bytes ''co.uk''" 4]
      dafsa_lookup_words [OF d, of "string_bytes ''co''" 4] by simp
qed

lemma find_longest:
  "List.find P (label_suffixes h) = Some s \<longleftrightarrow>
     label_suffix s h \<and> P s \<and> (\<forall>d. label_suffix d h \<and> length s < length d \<longrightarrow> \<not> P d)"
proof (induction h rule: length_induct)
  case (1 h)
  show ?case
  proof (cases "P h")
    case True
    then have "List.find P (label_suffixes h) = Some h" by (subst label_suffixes_split) simp
    moreover have "\<not> (label_suffix s h \<and> s \<noteq> h \<and> (\<forall>d. label_suffix d h \<and> length s < length d \<longrightarrow> \<not> P d))"
      using True by (force simp: label_suffix_def)
    ultimately show ?thesis using True label_suffix_length [of _ h] by (force simp: not_less)
  next
    case False
    show ?thesis
    proof (cases "split_once CHR ''.'' h")
      case None
      have "label_suffix d h \<longleftrightarrow> d = h" for d using None by (subst label_suffix_step) simp
      then show ?thesis using None False by (subst label_suffixes_split) auto
    next
      case (Some ab)
      obtain a b where ab: "ab = (a, b)" by (cases ab)
      have step: "label_suffix d h \<longleftrightarrow> d = h \<or> label_suffix d b" for d
        using Some ab by (subst label_suffix_step) simp
      have "List.find P (label_suffixes h) = List.find P (label_suffixes b)"
        using Some ab False by (subst label_suffixes_split) simp
      then show ?thesis
        using 1 split_once_shorter [OF Some [unfolded ab]] step False by auto
    qed
  qed
qed

text \<open>
  C: The public suffix of a host is the longest of its label-aligned suffixes that the automaton
  lists, and there is none when none of them is listed.
\<close>

theorem public_suffix_longest:
  "(dafsa_public_suffix graph host = Some s \<longleftrightarrow>
      label_suffix s host \<and> dafsa_is_public_suffix graph s
      \<and> \<not> (\<exists>d. label_suffix d host \<and> length s < length d \<and> dafsa_is_public_suffix graph d))
   \<and> (dafsa_public_suffix graph host = None \<longleftrightarrow>
      \<not> (\<exists>d. label_suffix d host \<and> dafsa_is_public_suffix graph d))"
proof
  show "dafsa_public_suffix graph host = Some s \<longleftrightarrow>
      label_suffix s host \<and> dafsa_is_public_suffix graph s
      \<and> \<not> (\<exists>d. label_suffix d host \<and> length s < length d \<and> dafsa_is_public_suffix graph d)"
    unfolding dafsa_public_suffix_find find_longest by blast
  show "dafsa_public_suffix graph host = None \<longleftrightarrow>
      \<not> (\<exists>d. label_suffix d host \<and> dafsa_is_public_suffix graph d)"
    unfolding dafsa_public_suffix_find find_None_iff set_label_suffixes by blast
qed

section \<open>Relying party ids\<close>

lemmas ip_parser = is_ip_address_def read_ipv4_def read_octet_def read_separator_def read_number_def
  digit_value_def read_given_char_def read_ipv6_def

lemma valid_labels_dots:
  assumes "list_all valid_label (split_on CHR ''.'' r)"
  shows "r \<noteq> [] \<and> \<not> starts_with ''.'' r \<and> \<not> ends_with ''.'' r"
proof -
  have "r \<noteq> []" using assms by (auto simp: valid_label_def)
  moreover have "hd r \<noteq> CHR ''.''"
    using assms \<open>r \<noteq> []\<close> by (cases r) (auto simp: valid_label_def)
  moreover have "last r \<noteq> CHR ''.''"
    using assms \<open>r \<noteq> []\<close> split_on_append [of "CHR ''.''" "butlast r" "[]"]
    by (cases r rule: rev_cases) (auto simp: valid_label_def)
  ultimately show ?thesis by (simp add: starts_with_single ends_with_single)
qed

lemma relying_party_id_accepts:
  assumes "v \<noteq> []" "\<not> is_ip_address v" "wl_domain_to_ascii w v = Some r" "length r \<le> 253"
    "list_all valid_label (split_on CHR ''.'' r)"
  shows "relying_party_id_of w v = Inr r"
proof -
  have "check_labels v (split_on CHR ''.'' r) = Inr ()" using assms by (simp add: check_labels_Inr)
  then show ?thesis using assms valid_labels_dots [of r] by (simp add: relying_party_id_of_def)
qed

text \<open>
  C: A relying party id is accepted exactly when the given text is not an address and its ASCII
  form is a domain name of at most 253 characters whose labels have 1 to 63 letters, digits and
  inner hyphens; the accepted id is the ASCII form.
\<close>

theorem relying_party_id_valid:
  "relying_party_id_of w v = Inr r \<longleftrightarrow>
     v \<noteq> [] \<and> \<not> is_ip_address v \<and> wl_domain_to_ascii w v = Some r \<and> length r \<le> 253
     \<and> list_all valid_label (split_on CHR ''.'' r)"
  using relying_party_id_Inr [of w v r] relying_party_id_accepts [of v w r] by blast

text \<open>
  The address check looks at the text before it is mapped to ASCII: an address written in
  full-width digits is accepted, and the accepted relying party id is the address.
\<close>

lemma relying_party_id_mapped_address:
  "relying_party_id_of example_web
     (map char_of [0xEF, 0xBC, 0x91, 0x30 :: nat] @ ''.0.0.1'') = Inr ''10.0.0.1''
   \<and> is_ip_address ''10.0.0.1''"
proof -
  let ?given = "map char_of [0xEF, 0xBC, 0x91, 0x30 :: nat] @ ''.0.0.1''"
  have "\<not> is_ip_address ?given" by (simp add: ip_parser char_of_def)
  moreover have "wl_domain_to_ascii example_web ?given = Some ''10.0.0.1''" by code_simp
  moreover have "list_all valid_label (split_on CHR ''.'' ''10.0.0.1'')" by code_simp
  moreover have "is_ip_address ''10.0.0.1''" by (simp add: ip_parser)
  ultimately show ?thesis by (intro conjI relying_party_id_accepts) simp_all
qed

text \<open>
  C8: A relying party id that the suffix list authorises without related origins is the host of the
  origin, or a label-aligned suffix of it that is not a public suffix and has the same registrable
  domain.
\<close>

theorem authorised_rp_id_registrable:
  assumes "rp_id_authorised w ro rp (Ov_Validate (dafsa_psl graph) Ro_Disabled)"
  shows "rp = or_host (ro_origin ro)
    \<or> label_suffix rp (or_host (ro_origin ro)) \<and> dafsa_public_suffix graph rp \<noteq> Some rp
      \<and> (\<exists>rd. psl_registrable_domain (dafsa_psl graph) rp = Some rd
            \<and> psl_registrable_domain (dafsa_psl graph) (or_host (ro_origin ro)) = Some rd)"
proof (cases "rp = or_host (ro_origin ro)")
  case False
  let ?host = "or_host (ro_origin ro)"
  have "is_registrable_domain_suffix_or_equal rp ?host (dafsa_psl graph)"
    using assms by (simp add: rp_id_authorised_def split: if_splits)
  then obtain rd where rd: "label_suffix rp ?host" "label_suffix rd rp"
      "default_registrable_domain (dafsa_public_suffix graph) ?host = Some rd"
    using False by (auto simp: registrable_suffix_iff dafsa_psl_def)
  have reg: "default_registrable_domain (dafsa_public_suffix graph) rp = Some rd"
    using dafsa.registrable_domain_between [OF rd(3,2,1)] .
  then have "dafsa_public_suffix graph rp \<noteq> Some rp"
    by (auto simp: default_registrable_domain_def)
  then show ?thesis using rd reg by (auto simp: dafsa_psl_def)
qed simp

theorem authorised_rp_id_registrable_witness:
  "rp_id_authorised example_web (example_origin ''www.example.co.uk'') ''example.co.uk''
     (Ov_Validate (dafsa_psl example_dafsa) Ro_Disabled)
   \<and> dafsa_public_suffix example_dafsa ''example.co.uk'' \<noteq> Some ''example.co.uk''
   \<and> \<not> rp_id_authorised example_web (example_origin ''www.example.co.uk'') ''co.uk''
     (Ov_Validate (dafsa_psl example_dafsa) Ro_Disabled)"
proof -
  have ok: "rp_id_authorised example_web (example_origin ''www.example.co.uk'') ''example.co.uk''
      (Ov_Validate (dafsa_psl example_dafsa) Ro_Disabled)" by code_simp
  moreover have "\<not> rp_id_authorised example_web (example_origin ''www.example.co.uk'') ''co.uk''
      (Ov_Validate (dafsa_psl example_dafsa) Ro_Disabled)" by code_simp
  ultimately show ?thesis
    using authorised_rp_id_registrable [OF ok]
    by (simp add: example_origin_def request_origin_new_def origin_new_def)
qed

section \<open>Related origins\<close>

text \<open>
  C28: The matching of related origins succeeds exactly when one of the listed origins that have a
  registrable domain is same-origin with the caller and its label is among the first distinct
  labels of the list, as many as the cap.
\<close>

theorem related_origins_matching:
  "validate_related_origins w caller origins l max_labels = Inr () \<longleftrightarrow>
     (\<exists>label u. (label, u) \<in> set (usable_origins w l origins) \<and> same_origin caller u
        \<and> label \<in> set (take max_labels (firsts (map fst (usable_origins w l origins)))))"
  using related_loop_spec [of w l caller max_labels "[]" origins]
  by (auto simp: validate_related_origins_def)

section \<open>Prepared requests\<close>

text \<open>
  C13: A prepared request carries the text of the caller's origin and a valid relying party id that
  the origin is authorised for (or that is the origin's own host, when an assertion request names
  none), and its AppID, if it has one, is authorised for the origin.
\<close>

theorem prepared_requests_authorised:
  "(ga_prepare_request w parse_get ro json settings = Inr r \<longrightarrow>
      gr_origin r = origin_to_string (ro_origin ro)
      \<and> list_all valid_label (split_on CHR ''.'' (gr_relying_party_id r))
      \<and> (rp_id_authorised w ro (gr_relying_party_id r) settings
         \<or> relying_party_id_of w (or_host (ro_origin ro)) = Inr (gr_relying_party_id r))
      \<and> (\<forall>a. Option.bind (gr_extensions r) ge_appid = Some a \<longrightarrow> appid_authorised w ro settings a = Inr ()))
   \<and> (mc_prepare_request w parse_create ro json settings = Inr m \<longrightarrow>
      mr_origin m = origin_to_string (ro_origin ro)
      \<and> list_all valid_label (split_on CHR ''.'' (rp_id (mr_relying_party m)))
      \<and> rp_id_authorised w ro (rp_id (mr_relying_party m)) settings
      \<and> (\<forall>a. Option.bind (mr_extensions m) me_appid_exclude = Some a \<longrightarrow> appid_authorised w ro settings a = Inr ()))"
    (is "(?get \<longrightarrow> ?get_ok) \<and> (?create \<longrightarrow> ?create_ok)")
proof (rule conjI; rule impI)
  assume ?get
  then obtain inner where r: "ga_from_idl_model w ro settings inner = Inr r"
    by (auto simp: ga_prepare_request_def result_convs)
  have resolved: "ga_resolve_rp_id w ro settings (oj_relying_party_id inner) = Inr (gr_relying_party_id r)"
    using ga_from_idl_model_rp_id [OF r] by simp
  then obtain v where "relying_party_id_of w v = Inr (gr_relying_party_id r)"
    by (auto simp: ga_resolve_rp_id_def Let_def result_convs split: option.splits if_splits)
  then have "list_all valid_label (split_on CHR ''.'' (gr_relying_party_id r))"
    using relying_party_id_Inr by blast
  moreover have "rp_id_authorised w ro (gr_relying_party_id r) settings
      \<or> relying_party_id_of w (or_host (ro_origin ro)) = Inr (gr_relying_party_id r)"
    using resolved by (auto simp: ga_resolve_rp_id_def Let_def result_convs split: option.splits if_splits)
  ultimately show ?get_ok
    using ga_from_idl_model_rp_id [OF r] ga_from_idl_model_appid [OF r] by blast
next
  assume ?create
  then obtain inner where m: "mc_from_idl_model w ro settings inner = Inr m"
    by (auto simp: mc_prepare_request_def result_convs)
  then show ?create_ok
    using mc_from_idl_model_rp_id [OF m] relying_party_id_Inr by blast
qed

definition example_request_options :: request_options_json where
  "example_request_options =
     \<lparr>oj_challenge = [1], oj_timeout = None, oj_relying_party_id = Some ''example.co.uk'',
      oj_allow_credentials = [], oj_user_verification = Uv_Preferred, oj_hints = [], oj_extensions = None\<rparr>"

definition example_creation_options :: creation_options_json where
  "example_creation_options =
     \<lparr>kj_rp = \<lparr>rj_id = Some ''example.co.uk'', rj_name = None\<rparr>,
      kj_user = \<lparr>uj_id = [1], uj_name = [], uj_display_name = []\<rparr>, kj_challenge = [1], kj_params = [],
      kj_timeout = None, kj_exclude_credentials = [], kj_authenticator_selection = None, kj_hints = None,
      kj_attestation = None, kj_attestation_formats = None, kj_extensions = None\<rparr>"

lemma example_preparation:
  fixes settings defines "settings \<equiv> Ov_Validate (dafsa_psl example_dafsa) Ro_Disabled"
  shows "\<exists>r. ga_prepare_request example_web (\<lambda>_. Some example_request_options)
      (example_origin ''www.example.co.uk'') ''{}'' settings = Inr r"
    and "\<exists>m. mc_prepare_request example_web (\<lambda>_. Some example_creation_options)
      (example_origin ''www.example.co.uk'') ''{}'' settings = Inr m"
proof -
  have "\<not> is_ip_address ''example.co.uk''" by (simp add: ip_parser)
  moreover have "list_all valid_label (split_on CHR ''.'' ''example.co.uk'')" by code_simp
  moreover have "wl_domain_to_ascii example_web ''example.co.uk'' = Some ''example.co.uk''" by code_simp
  ultimately have rp: "relying_party_id_of example_web ''example.co.uk'' = Inr ''example.co.uk''"
    by (intro relying_party_id_accepts) simp_all
  have authorised: "rp_id_authorised example_web (example_origin ''www.example.co.uk'') ''example.co.uk'' settings"
    unfolding settings_def by code_simp
  show "\<exists>r. ga_prepare_request example_web (\<lambda>_. Some example_request_options)
      (example_origin ''www.example.co.uk'') ''{}'' settings = Inr r"
    using rp authorised
    by (simp add: ga_prepare_request_def ga_from_idl_model_def ga_resolve_rp_id_def example_request_options_def)
  show "\<exists>m. mc_prepare_request example_web (\<lambda>_. Some example_creation_options)
      (example_origin ''www.example.co.uk'') ''{}'' settings = Inr m"
    using rp authorised
    by (simp add: mc_prepare_request_def mc_from_idl_model_def example_creation_options_def)
qed

theorem prepared_requests_authorised_witness:
  "\<exists>r m. ga_prepare_request example_web (\<lambda>_. Some example_request_options)
        (example_origin ''www.example.co.uk'') ''{}'' (Ov_Validate (dafsa_psl example_dafsa) Ro_Disabled) = Inr r
    \<and> gr_origin r = ''https://www.example.co.uk''
    \<and> mc_prepare_request example_web (\<lambda>_. Some example_creation_options)
        (example_origin ''www.example.co.uk'') ''{}'' (Ov_Validate (dafsa_psl example_dafsa) Ro_Disabled) = Inr m
    \<and> mr_origin m = ''https://www.example.co.uk''"
proof -
  obtain r m where r: "ga_prepare_request example_web (\<lambda>_. Some example_request_options)
      (example_origin ''www.example.co.uk'') ''{}'' (Ov_Validate (dafsa_psl example_dafsa) Ro_Disabled) = Inr r"
    and m: "mc_prepare_request example_web (\<lambda>_. Some example_creation_options)
      (example_origin ''www.example.co.uk'') ''{}'' (Ov_Validate (dafsa_psl example_dafsa) Ro_Disabled) = Inr m"
    using example_preparation by blast
  have "origin_to_string (ro_origin (example_origin ''www.example.co.uk'')) = ''https://www.example.co.uk''"
    by code_simp
  then show ?thesis
    using prepared_requests_authorised [THEN conjunct1, THEN mp, OF r]
      prepared_requests_authorised [THEN conjunct2, THEN mp, OF m] r m by auto
qed

end
