(* ===== verification/Hid_Channel.thy ===== *)
theory Hid_Channel
  imports Hid_Framing Ceremonies
begin

text \<open>
  The CTAPHID channel, \<^verbatim>\<open>libwebauthn/src/transport/hid/channel.rs\<close>: opening a channel with INIT,
  sending a message as HID reports, the receive loop with its deadline and its cancellation, and
  the operations of the \<^verbatim>\<open>Channel\<close> trait on top of them.  The device of hidapi, the clock and the
  cancel queue are a parameter; the virtual device of the tests is not modelled.
\<close>

section \<open>Constants and errors\<close>

text \<open>Durations and instants are counted in nanoseconds.\<close>

definition millis :: "nat \<Rightarrow> nat" where "millis n = n * 1000000"

definition INIT_NONCE_LEN :: nat where "INIT_NONCE_LEN = 8"
definition INIT_PAYLOAD_LEN :: nat where "INIT_PAYLOAD_LEN = 17"
definition INIT_TIMEOUT :: nat where "INIT_TIMEOUT = millis 200"
definition PACKET_SIZE :: nat where "PACKET_SIZE = 64"
definition REPORT_ID :: u8 where "REPORT_ID = 0x00"
definition HID_READ_POLL_INTERVAL :: nat where "HID_READ_POLL_INTERVAL = millis 100"
definition WINK_MIN_WAIT :: nat where "WINK_MIN_WAIT = millis 2000"

text \<open>The error values of hidapi are only displayed and are not modelled.\<close>

datatype hid_error = He_ApiInit | He_Open | He_Write | He_Read | He_InitResponseParse io_error
  | He_PacketEncode io_error | He_FrameParse io_error | He_ResponseDecode io_error | He_TaskJoin
  | He_InvalidInit | He_DeviceLockPoisoned | He_Timeout | He_Cancelled

text \<open>\<^verbatim>\<open>Instant::checked_add\<close>: the seconds of an instant are a signed 64-bit integer.\<close>

definition instant_checked_add :: "nat \<Rightarrow> nat \<Rightarrow> nat option" where
  "instant_checked_add now duration =
     (if int (now + duration) div 1000000000 < 2 ^ 63 then Some (now + duration) else None)"

section \<open>The outside of a channel\<close>

text \<open>
  What the channel calls outside the repository: opening the device, writing a report, reading
  one (with a timeout in milliseconds; no byte when nothing arrived), the queue of cancel
  requests (true when \<^verbatim>\<open>try_recv\<close> does not answer that it is empty), whether the lock on the
  device is poisoned, the clock, the sleep and the random nonce.
\<close>

record 'd hid_backend =
  hb_open :: "'d \<Rightarrow> (hid_error + unit) \<times> 'd"
  hb_write :: "bytes \<Rightarrow> 'd \<Rightarrow> (unit + unit) \<times> 'd"
  hb_read_timeout :: "nat \<Rightarrow> 'd \<Rightarrow> (unit + bytes) \<times> 'd"
  hb_try_recv :: "'d \<Rightarrow> bool \<times> 'd"
  hb_poisoned :: "'d \<Rightarrow> bool"
  hb_now :: "'d \<Rightarrow> nat"
  hb_sleep :: "nat \<Rightarrow> 'd \<Rightarrow> 'd"
  hb_nonce :: "'d \<Rightarrow> bytes \<times> 'd"

type_synonym ('d, 'a) hid_action = "('d, hid_error, 'a) action"

definition on_hid :: "('d \<Rightarrow> 'a \<times> 'd) \<Rightarrow> ('d, 'a) hid_action" where
  "on_hid f d = (case f d of (x, d') \<Rightarrow> Some (Inr x, d'))"

definition on_hid_result :: "hid_error \<Rightarrow> ('d \<Rightarrow> (unit + 'a) \<times> 'd) \<Rightarrow> ('d, 'a) hid_action" where
  "on_hid_result e f d = (case f d of (r, d') \<Rightarrow> Some (map_err (\<lambda>_. e) r, d'))"

section \<open>Capabilities and the INIT response\<close>

text \<open>\<^verbatim>\<open>Caps\<close>; \<^verbatim>\<open>from_bits_truncate\<close> keeps the bits that have a name.\<close>

definition CAPS_WINK :: u8 where "CAPS_WINK = 0x01"
definition CAPS_CBOR :: u8 where "CAPS_CBOR = 0x04"
definition CAPS_NO_MSG :: u8 where "CAPS_NO_MSG = 0x08"

definition caps_from_bits_truncate :: "u8 \<Rightarrow> u8" where
  "caps_from_bits_truncate b = b AND (CAPS_WINK OR CAPS_CBOR OR CAPS_NO_MSG)"

definition caps_contains :: "u8 \<Rightarrow> u8 \<Rightarrow> bool" where
  "caps_contains caps c \<longleftrightarrow> caps AND c = c"

record init_response =
  ir_cid :: u32
  ir_protocol_version :: u8
  ir_version_major :: u8
  ir_version_minor :: u8
  ir_version_build :: u8
  ir_caps :: u8

definition init_response_default :: init_response where
  "init_response_default = \<lparr>ir_cid = 0, ir_protocol_version = 0, ir_version_major = 0,
     ir_version_minor = 0, ir_version_build = 0, ir_caps = 0\<rparr>"

section \<open>Sending\<close>

fun hid_write_packets :: "'d hid_backend \<Rightarrow> bytes list \<Rightarrow> ('d, unit) hid_action" where
  "hid_write_packets hb [] = act_return ()"
| "hid_write_packets hb (packet # packets) =
     act_bind (on_hid (hb_try_recv hb)) (\<lambda>cancelled.
     if cancelled then act_fail He_Cancelled
     else let report = REPORT_ID # packet @ replicate (PACKET_SIZE - length packet) 0
          in act_bind (on_hid_result He_Write (hb_write hb report)) (\<lambda>_.
             hid_write_packets hb packets))"

definition hid_send_hidapi :: "'d hid_backend \<Rightarrow> hid_message \<Rightarrow> ('d, unit) hid_action" where
  "hid_send_hidapi hb msg =
     act_bind (act_lift (map_err He_PacketEncode (hid_message_packets msg PACKET_SIZE)))
       (hid_write_packets hb)"

definition hid_cancel_message :: "init_response \<Rightarrow> hid_message" where
  "hid_cancel_message init = hid_message_new (ir_cid init) Hid_Cancel []"

definition hid_send :: "'d hid_backend \<Rightarrow> init_response \<Rightarrow> hid_message \<Rightarrow> ('d, unit) hid_action" where
  "hid_send hb init msg =
     act_bind (act_get (hb_poisoned hb)) (\<lambda>poisoned.
     if poisoned then act_fail He_DeviceLockPoisoned
     else act_try (hid_send_hidapi hb msg) (\<lambda>response.
          if response = Inl He_Cancelled
          then act_try (hid_send_hidapi hb (hid_cancel_message init)) (\<lambda>_. act_lift response)
          else act_lift response))"

definition hid_cancel :: "'d hid_backend \<Rightarrow> init_response \<Rightarrow> ('d, unit) hid_action" where
  "hid_cancel hb init = hid_send hb init (hid_cancel_message init)"

section \<open>Receiving\<close>

text \<open>
  The loop of \<^verbatim>\<open>hid_recv_hidapi\<close>, which ends with a parser that holds a message.  It may run for
  ever (a deadline past the last instant), so it is a partial function: \<open>None\<close> is no result.
\<close>

definition hid_remaining :: "'d hid_backend \<Rightarrow> nat option \<Rightarrow> nat \<Rightarrow> 'd \<Rightarrow> nat" where
  "hid_remaining hb deadline timeout d =
     (case deadline of Some t \<Rightarrow> t - hb_now hb d | None \<Rightarrow> timeout)"

partial_function (option) hid_recv_loop :: "'d hid_backend \<Rightarrow> nat option \<Rightarrow> nat
    \<Rightarrow> hid_message_parser \<Rightarrow> 'd \<Rightarrow> ((hid_error + hid_message_parser) \<times> 'd) option" where
  "hid_recv_loop hb deadline timeout parser d =
     (case hb_try_recv hb d of (cancelled, d) \<Rightarrow>
        if cancelled then Some (Inl He_Cancelled, d)
        else let remaining = hid_remaining hb deadline timeout d
        in if remaining = 0 then Some (Inl He_Timeout, d)
        else let read_for = min remaining HID_READ_POLL_INTERVAL
        in case hb_read_timeout hb (read_for div 1000000) d of
             (Inl _, d) \<Rightarrow> Some (Inl He_Read, d)
           | (Inr bytes_read, d) \<Rightarrow>
               if bytes_read = [] then hid_recv_loop hb deadline timeout parser d
               else case hid_parser_update parser (hid_report PACKET_SIZE bytes_read) of
                 (Inl e, _) \<Rightarrow> Some (Inl (He_FrameParse e), d)
               | (Inr Hid_Done, parser) \<Rightarrow> Some (Inr parser, d)
               | (Inr Hid_MorePacketsExpected, parser) \<Rightarrow> hid_recv_loop hb deadline timeout parser d)"

definition hid_recv_hidapi :: "'d hid_backend \<Rightarrow> nat \<Rightarrow> ('d, hid_message) hid_action" where
  "hid_recv_hidapi hb timeout =
     act_bind (act_get (\<lambda>d. instant_checked_add (hb_now hb d) timeout)) (\<lambda>deadline.
     act_bind (hid_recv_loop hb deadline timeout hid_parser_new) (\<lambda>parser.
     act_lift (map_err He_FrameParse (hid_parser_message parser))))"

text \<open>
  \<^verbatim>\<open>hid_recv\<close> receives until a message is no keep-alive, each receive with the whole timeout.
\<close>

definition hid_recv_once :: "'d hid_backend \<Rightarrow> nat \<Rightarrow> ('d, hid_message) hid_action" where
  "hid_recv_once hb timeout =
     act_bind (act_get (hb_poisoned hb)) (\<lambda>poisoned.
     if poisoned then act_fail He_DeviceLockPoisoned else hid_recv_hidapi hb timeout)"

partial_function (option) hid_recv :: "'d hid_backend \<Rightarrow> init_response \<Rightarrow> nat \<Rightarrow> 'd
    \<Rightarrow> ((hid_error + hid_message) \<times> 'd) option" where
  "hid_recv hb init timeout d =
     (case hid_recv_once hb timeout d of
        None \<Rightarrow> None
      | Some (Inr m, d) \<Rightarrow>
          if hm_cmd m = Hid_KeepAlive then hid_recv hb init timeout d else Some (Inr m, d)
      | Some (Inl e, d) \<Rightarrow>
          if e = He_Cancelled \<or> e = He_Timeout
          then act_try (hid_cancel hb init) (\<lambda>_. act_lift (Inl e)) d
          else Some (Inl e, d))"

section \<open>Opening a channel\<close>

text \<open>\<^verbatim>\<open>init\<close>: the checks on the answer to INIT, in their order, then the cursor from byte 8 on.\<close>

definition hid_parse_init_response :: "bytes \<Rightarrow> hid_message \<Rightarrow> hid_error + init_response" where
  "hid_parse_init_response nonce response =
     (if hm_cmd response \<noteq> Hid_Init then Inl He_InvalidInit
      else if length (hm_payload response) < INIT_PAYLOAD_LEN then Inl He_InvalidInit
      else result_bind (ok_or He_InvalidInit (slice_upto (hm_payload response) INIT_NONCE_LEN)) (\<lambda>payload_nonce.
      if payload_nonce \<noteq> nonce then Inl He_InvalidInit
      else map_err He_InitResponseParse
        (result_bind (read_u32_be (drop 8 (hm_payload response))) (\<lambda>(cid, cur).
         result_bind (read_u8 cur) (\<lambda>(protocol_version, cur).
         result_bind (read_u8 cur) (\<lambda>(version_major, cur).
         result_bind (read_u8 cur) (\<lambda>(version_minor, cur).
         result_bind (read_u8 cur) (\<lambda>(version_build, cur).
         result_bind (read_u8 cur) (\<lambda>(caps, cur).
         Inr \<lparr>ir_cid = cid, ir_protocol_version = protocol_version, ir_version_major = version_major,
           ir_version_minor = version_minor, ir_version_build = version_build,
           ir_caps = caps_from_bits_truncate caps\<rparr>)))))))))"

definition hid_init :: "'d hid_backend \<Rightarrow> init_response \<Rightarrow> nat \<Rightarrow> ('d, init_response) hid_action" where
  "hid_init hb init timeout =
     act_bind (on_hid (hb_nonce hb)) (\<lambda>nonce.
     act_bind (hid_send hb init (hid_message_broadcast Hid_Init nonce)) (\<lambda>_.
     act_bind (hid_recv hb init timeout) (\<lambda>response.
     act_lift (hid_parse_init_response nonce response))))"

text \<open>\<^verbatim>\<open>HidChannel::new\<close>: the channel is its INIT response; the other fields start empty.\<close>

definition hid_channel_new :: "'d hid_backend \<Rightarrow> ('d, hid_error webauthn_error, init_response) action" where
  "hid_channel_new hb =
     act_map_err We_Transport
       (act_bind (\<lambda>d. case hb_open hb d of (r, d') \<Rightarrow> Some (r, d')) (\<lambda>_.
        hid_init hb init_response_default INIT_TIMEOUT))"

section \<open>The operations of a channel\<close>

definition hid_wink :: "'d hid_backend \<Rightarrow> init_response \<Rightarrow> nat \<Rightarrow> ('d, bool) hid_action" where
  "hid_wink hb init timeout =
     (if \<not> caps_contains (ir_caps init) CAPS_WINK then act_return False
      else act_bind (hid_send hb init (hid_message_new (ir_cid init) Hid_Wink [])) (\<lambda>_.
           act_bind (hid_recv hb init timeout) (\<lambda>_.
           act_bind (act_modify (hb_sleep hb WINK_MIN_WAIT)) (\<lambda>_.
           act_return True))))"

text \<open>The pair is (\<^verbatim>\<open>fido2\<close>, \<^verbatim>\<open>u2f\<close>), as the ceremonies take it.\<close>

definition hid_supported_protocols :: "init_response \<Rightarrow> bool \<times> bool" where
  "hid_supported_protocols init =
     (caps_contains (ir_caps init) CAPS_CBOR, \<not> caps_contains (ir_caps init) CAPS_NO_MSG)"

definition hid_apdu_send :: "'d hid_backend \<Rightarrow> init_response \<Rightarrow> apdu_request \<Rightarrow> ('d, unit) hid_action" where
  "hid_apdu_send hb init request =
     act_bind (act_lift (map_err He_PacketEncode (apdu_raw_long request))) (\<lambda>apdu_raw.
     hid_send hb init (hid_message_new (ir_cid init) Hid_Msg apdu_raw))"

definition hid_apdu_recv :: "'d hid_backend \<Rightarrow> init_response \<Rightarrow> nat \<Rightarrow> ('d, apdu_response) hid_action" where
  "hid_apdu_recv hb init timeout =
     act_bind (hid_recv hb init timeout) (\<lambda>hid_response.
     act_lift (map_err He_ResponseDecode (apdu_response_of_bytes (hm_payload hid_response))))"

definition hid_cbor_send :: "'d hid_backend \<Rightarrow> init_response \<Rightarrow> cbor_request \<Rightarrow> ('d, unit) hid_action" where
  "hid_cbor_send hb init request =
     hid_send hb init (hid_message_new (ir_cid init) Hid_Cbor (cbor_ctap_hid_data request))"

definition hid_cbor_recv :: "'d hid_backend \<Rightarrow> init_response \<Rightarrow> nat \<Rightarrow> ('d, cbor_response) hid_action" where
  "hid_cbor_recv hb init timeout =
     act_bind (hid_recv hb init timeout) (\<lambda>hid_response.
     act_lift (map_err He_ResponseDecode (cbor_response_of_bytes (hm_payload hid_response))))"

text \<open>
  \<^verbatim>\<open>blink_and_wait_for_user_presence\<close>, over the CTAP exchanges of a platform; \<open>turns\<close> is the
  number of U2F requests the timeout allows.
\<close>

definition hid_touched :: "'te webauthn_error + 'a \<Rightarrow> bool" where
  "hid_touched r =
     (case r of
        Inr _ \<Rightarrow> True
      | Inl (We_Ctap e) \<Rightarrow> e \<in> {Ctap_PINInvalid, Ctap_PINAuthInvalid, Ctap_PINNotSet}
      | Inl _ \<Rightarrow> False)"

definition hid_blink_and_wait_for_user_presence :: "('d, 'te) platform \<Rightarrow> ('d, 'te) ceremony_env
    \<Rightarrow> init_response \<Rightarrow> nat \<Rightarrow> nat \<Rightarrow> ('d, 'te, bool) ceremony" where
  "hid_blink_and_wait_for_user_presence pf E init turns timeout =
     (let (fido2, u2f) = hid_supported_protocols init
      in if fido2 then
           act_bind (ctap2_get_info pf) (\<lambda>get_info_response.
           if supports_fido_2_1 get_info_response then
             act_try (ctap2_selection pf timeout) (\<lambda>r. act_return (\<not> isl r))
           else
             act_try (ctap2_make_credential pf (ce_encode_mc E) (ce_decode_mc E) mc_request_dummy timeout)
               (\<lambda>r. act_return (hid_touched r)))
         else if u2f then
           act_try (ctap1_register pf (ce_x509_rest E) turns (ctap1_register_request_dummy timeout))
             (\<lambda>r. act_return (hid_touched r))
         else act_return False)"

end
