(* ===== verification/Hid_Channel_Properties.thy ===== *)
theory Hid_Channel_Properties
  imports Hid_Channel
begin

text \<open>
  What the CTAPHID channel guarantees: the receive loop ends at its deadline, it refines the
  receive loop of the framing on a link that delivers reports, an accepted INIT answers the
  nonce that was sent, and a receive that gives up sends CANCEL.
\<close>

section \<open>The deadline of a receive\<close>

text \<open>
  A device whose reads take time, but not longer than they were allowed plus a lag; taking from
  the cancel queue is immediate.
\<close>

definition hid_clocked :: "'d hid_backend \<Rightarrow> nat \<Rightarrow> bool" where
  "hid_clocked hb lag \<longleftrightarrow>
     (\<forall>d. hb_now hb (snd (hb_try_recv hb d)) = hb_now hb d)
     \<and> (\<forall>n d. hb_now hb d < hb_now hb (snd (hb_read_timeout hb n d))
         \<and> hb_now hb (snd (hb_read_timeout hb n d)) \<le> hb_now hb d + millis n + lag)"

lemma hid_clockedE:
  assumes "hid_clocked hb lag"
  obtains "\<And>d c d'. hb_try_recv hb d = (c, d') \<Longrightarrow> hb_now hb d' = hb_now hb d"
    and "\<And>n d r d'. hb_read_timeout hb n d = (r, d') \<Longrightarrow> hb_now hb d < hb_now hb d'"
    and "\<And>n d r d'. hb_read_timeout hb n d = (r, d') \<Longrightarrow> hb_now hb d' \<le> hb_now hb d + millis n + lag"
  using assms unfolding hid_clocked_def by (metis snd_conv)

lemma hid_recv_loop_ends:
  assumes "hid_clocked hb lag" and "hb_now hb d \<le> t + lag"
  shows "\<exists>r d'. hid_recv_loop hb (Some t) timeout p d = Some (r, d') \<and> hb_now hb d' \<le> t + lag
    \<and> (r = Inl He_Timeout \<longrightarrow> t \<le> hb_now hb d')"
  using assms(2)
proof (induction "t - hb_now hb d" arbitrary: d p rule: less_induct)
  case less
  obtain c d1 where c: "hb_try_recv hb d = (c, d1)" by fastforce
  let ?rem = "t - hb_now hb d1"
  obtain rd d2 where r: "hb_read_timeout hb (min ?rem HID_READ_POLL_INTERVAL div 1000000) d1 = (rd, d2)"
    by fastforce
  have now: "hb_now hb d1 = hb_now hb d" "hb_now hb d < hb_now hb d2"
      "hb_now hb d2 \<le> hb_now hb d + millis (min ?rem HID_READ_POLL_INTERVAL div 1000000) + lag"
    using assms(1) c r by (metis hid_clockedE)+
  have le: "hb_now hb d2 \<le> t + lag" if "?rem \<noteq> 0"
  proof -
    have "millis (min ?rem HID_READ_POLL_INTERVAL div 1000000) \<le> ?rem"
      unfolding millis_def by (meson div_times_less_eq_dividend min.cobounded1 order_trans)
    then show ?thesis using now that by linarith
  qed
  have IH: "\<exists>r d'. hid_recv_loop hb (Some t) timeout q d2 = Some (r, d') \<and> hb_now hb d' \<le> t + lag
      \<and> (r = Inl He_Timeout \<longrightarrow> t \<le> hb_now hb d')" if "?rem \<noteq> 0" for q
    using that le [OF that] now by (intro less.hyps) auto
  show ?case
    using less.prems now le
    by (subst hid_recv_loop.simps)
      (auto simp: c r [unfolded now(1)] hid_remaining_def Let_def IH [unfolded now(1)]
        split: sum.splits hid_parser_state.splits prod.splits)
qed

text \<open>
  C37: Receiving one message always returns, at the latest one read past the timeout, and it
  reports a timeout only when the timeout has passed.
\<close>

theorem hid_receive_deadline:
  assumes "hid_clocked hb lag" and "instant_checked_add (hb_now hb d) timeout \<noteq> None"
  shows "\<exists>r d'. hid_recv_hidapi hb timeout d = Some (r, d')
    \<and> hb_now hb d' \<le> hb_now hb d + timeout + lag
    \<and> (r = Inl He_Timeout \<longrightarrow> hb_now hb d + timeout \<le> hb_now hb d')"
proof -
  have t: "instant_checked_add (hb_now hb d) timeout = Some (hb_now hb d + timeout)"
    using assms(2) by (auto simp: instant_checked_add_def split: if_splits)
  obtain r d' where r: "hid_recv_loop hb (Some (hb_now hb d + timeout)) timeout hid_parser_new d = Some (r, d')"
      "hb_now hb d' \<le> hb_now hb d + timeout + lag"
      "r = Inl He_Timeout \<longrightarrow> hb_now hb d + timeout \<le> hb_now hb d'"
    using hid_recv_loop_ends [OF assms(1), of d "hb_now hb d + timeout" timeout hid_parser_new] by auto
  show ?thesis
  proof (cases r)
    case (Inl e)
    then show ?thesis using r by (simp add: hid_recv_hidapi_def act_bind_def act_run t)
  next
    case (Inr p)
    then show ?thesis
      using r by (cases "hid_parser_message p") (simp_all add: hid_recv_hidapi_def act_bind_def act_run t)
  qed
qed

section \<open>A link that delivers reports\<close>

text \<open>
  The state of a link: the clock, the reports that wait to be read, the reports written so far
  and what the cancel queue answers.  A read takes \<open>delay\<close>, and the whole allowed time when
  nothing waits.
\<close>

record hid_link =
  hl_clock :: nat
  hl_incoming :: "bytes list"
  hl_written :: "bytes list"
  hl_cancels :: "bool list"

definition hid_link_backend :: "nat \<Rightarrow> hid_link hid_backend" where
  "hid_link_backend delay =
     \<lparr>hb_open = \<lambda>l. (Inr (), l),
      hb_write = \<lambda>report l. (Inr (), l\<lparr>hl_written := hl_written l @ [report]\<rparr>),
      hb_read_timeout = \<lambda>n l.
        (case hl_incoming l of
           [] \<Rightarrow> (Inr [], l\<lparr>hl_clock := hl_clock l + millis n + delay\<rparr>)
         | x # xs \<Rightarrow> (Inr x, l\<lparr>hl_incoming := xs, hl_clock := hl_clock l + delay\<rparr>)),
      hb_try_recv = \<lambda>l.
        (case hl_cancels l of [] \<Rightarrow> (False, l) | c # cs \<Rightarrow> (c, l\<lparr>hl_cancels := cs\<rparr>)),
      hb_poisoned = \<lambda>_. False,
      hb_now = hl_clock,
      hb_sleep = \<lambda>n l. l\<lparr>hl_clock := hl_clock l + n\<rparr>,
      hb_nonce = \<lambda>l. ([1, 2, 3, 4, 5, 6, 7, 8], l)\<rparr>"

definition example_hid_link :: "bytes list \<Rightarrow> hid_link" where
  "example_hid_link reports =
     \<lparr>hl_clock = 0, hl_incoming = reports, hl_written = [], hl_cancels = []\<rparr>"

lemma example_hid_link_fields:
  "hl_clock (example_hid_link reports) = 0" "hl_incoming (example_hid_link reports) = reports"
  "hl_written (example_hid_link reports) = []" "hl_cancels (example_hid_link reports) = []"
  by (simp_all add: example_hid_link_def)

lemma hid_link_ops [simp]:
  "hb_write (hid_link_backend delay) report l = (Inr (), l\<lparr>hl_written := hl_written l @ [report]\<rparr>)"
  "hl_incoming l = [] \<Longrightarrow> hb_read_timeout (hid_link_backend delay) n l
    = (Inr [], l\<lparr>hl_clock := hl_clock l + millis n + delay\<rparr>)"
  "hl_incoming l = x # xs \<Longrightarrow> hb_read_timeout (hid_link_backend delay) n l
    = (Inr x, l\<lparr>hl_incoming := xs, hl_clock := hl_clock l + delay\<rparr>)"
  "hl_cancels l = [] \<Longrightarrow> hb_try_recv (hid_link_backend delay) l = (False, l)"
  "hl_cancels l = False # cs \<Longrightarrow> hb_try_recv (hid_link_backend delay) l = (False, l\<lparr>hl_cancels := cs\<rparr>)"
  "hl_cancels l = True # cs \<Longrightarrow> hb_try_recv (hid_link_backend delay) l = (True, l\<lparr>hl_cancels := cs\<rparr>)"
  "hb_poisoned (hid_link_backend delay) l = False"
  "hb_now (hid_link_backend delay) = hl_clock"
  "hb_nonce (hid_link_backend delay) l = ([1, 2, 3, 4, 5, 6, 7, 8], l)"
  by (simp_all add: hid_link_backend_def)

lemma hid_link_clocked: "0 < delay \<Longrightarrow> hid_clocked (hid_link_backend delay) delay"
  by (auto simp: hid_clocked_def hid_link_backend_def split: list.split)

lemma hid_receive_deadline_witness:
  "\<exists>r d'. hid_recv_hidapi (hid_link_backend 5) (millis 150) (example_hid_link []) = Some (r, d')
    \<and> hb_now (hid_link_backend 5) d' \<le> hb_now (hid_link_backend 5) (example_hid_link []) + millis 150 + 5
    \<and> (r = Inl He_Timeout \<longrightarrow>
        hb_now (hid_link_backend 5) (example_hid_link []) + millis 150 \<le> hb_now (hid_link_backend 5) d')"
  by (rule hid_receive_deadline [OF hid_link_clocked])
    (simp_all add: example_hid_link_def instant_checked_add_def millis_def)

text \<open>Reading the reports that wait is the receive loop of the framing.\<close>

lemma hid_link_receive:
  assumes "receive hid_update_done hid_parser_message p (hl_incoming l) = Some (r, rest)"
    and "list_all (\<lambda>x. length x = PACKET_SIZE) (hl_incoming l)" and "hl_cancels l = []"
    and "hl_clock l + delay * length (hl_incoming l) < t"
  shows "act_bind (hid_recv_loop (hid_link_backend delay) (Some t) timeout p)
      (\<lambda>p. act_lift (map_err He_FrameParse (hid_parser_message p))) l
    = Some (map_err He_FrameParse r, l\<lparr>hl_incoming := rest,
        hl_clock := hl_clock l + delay * (length (hl_incoming l) - length rest)\<rparr>)"
  using assms
proof (induction "hl_incoming l" arbitrary: p l)
  case Nil
  then show ?case by simp
next
  case (Cons x xs)
  note inc = Cons.hyps(2) [symmetric]
  let ?l = "l\<lparr>hl_incoming := xs, hl_clock := hl_clock l + delay\<rparr>"
  have x: "length x = PACKET_SIZE" "x \<noteq> []" "hid_report PACKET_SIZE x = x"
    using Cons.prems(2) by (auto simp: inc PACKET_SIZE_def hid_report_full)
  have clk: "hl_clock l < t" "hl_clock ?l + delay * length xs < t"
    using Cons.prems(4) by (simp_all add: inc)
  show ?case
  proof (cases "hid_update_done p x")
    case (Pair s p')
    consider e where "s = Inl e" | "s = Inr True" | "s = Inr False" by (cases s) auto
    then show ?thesis
    proof cases
      case (1 e)
      then have u: "\<exists>q. hid_parser_update p x = (Inl e, q)"
        using Pair by (cases "hid_parser_update p x"; cases "fst (hid_parser_update p x)") (auto simp: hid_update_done_def)
      have "r = Inl e" "rest = xs" using Cons.prems(1) 1 Pair by (auto simp: inc)
      then show ?thesis
        using u x clk Cons.prems(3)
        by (subst act_bind_def, subst hid_recv_loop.simps) (auto simp: inc hid_remaining_def Let_def)
    next
      case 2
      then have u: "hid_parser_update p x = (Inr Hid_Done, p')"
        using Pair by (cases "hid_parser_update p x"; cases "fst (hid_parser_update p x)") (auto simp: hid_update_done_def)
      have "r = hid_parser_message p'" "rest = xs" using Cons.prems(1) 2 Pair by (auto simp: inc)
      then show ?thesis
        using u x clk Cons.prems(3)
        by (subst act_bind_def, subst hid_recv_loop.simps) (simp add: inc hid_remaining_def Let_def act_run)
    next
      case 3
      then have u: "hid_parser_update p x = (Inr Hid_MorePacketsExpected, p')"
        using Pair by (cases "hid_parser_update p x"; cases "fst (hid_parser_update p x)"; cases "case fst (hid_parser_update p x) of Inr y \<Rightarrow> y | _ \<Rightarrow> Hid_Done")
          (auto simp: hid_update_done_def)
      have rec: "receive hid_update_done hid_parser_message p' xs = Some (r, rest)"
        using Cons.prems(1) 3 Pair by (simp add: inc)
      have len: "length rest < length xs"
        using rec by (rule receive_rest_length)
      have IH: "act_bind (hid_recv_loop (hid_link_backend delay) (Some t) timeout p')
          (\<lambda>p. act_lift (map_err He_FrameParse (hid_parser_message p))) ?l
        = Some (map_err He_FrameParse r, ?l\<lparr>hl_incoming := rest,
            hl_clock := hl_clock ?l + delay * (length (hl_incoming ?l) - length rest)\<rparr>)"
        using rec Cons.prems clk(2) by (intro Cons.hyps(1)) (simp_all add: inc)
      have step: "hid_recv_loop (hid_link_backend delay) (Some t) timeout p l
          = hid_recv_loop (hid_link_backend delay) (Some t) timeout p' ?l"
        using u x clk Cons.prems(3)
        by (subst hid_recv_loop.simps) (simp add: inc hid_remaining_def Let_def)
      show ?thesis
        using IH len by (simp add: act_bind_def step inc Suc_diff_le)
    qed
  qed
qed

lemma hid_link_silent:
  assumes "hl_incoming l = []" and "hl_cancels l = []" and "0 < delay"
  shows "\<exists>c. hid_recv_loop (hid_link_backend delay) (Some t) timeout p l
    = Some (Inl He_Timeout, l\<lparr>hl_clock := c\<rparr>)"
  using assms(1,2)
proof (induction "t - hl_clock l" arbitrary: l rule: less_induct)
  case less
  show ?case
  proof (cases "t \<le> hl_clock l")
    case True
    then show ?thesis
      using less.prems by (subst hid_recv_loop.simps) (auto simp: hid_remaining_def intro!: exI [of _ "hl_clock l"])
  next
    case False
    let ?n = "min (t - hl_clock l) HID_READ_POLL_INTERVAL div 1000000"
    have "\<exists>c. hid_recv_loop (hid_link_backend delay) (Some t) timeout p
        (l\<lparr>hl_clock := hl_clock l + millis ?n + delay\<rparr>) = Some (Inl He_Timeout, l\<lparr>hl_clock := c\<rparr>)"
      using less.hyps [of "l\<lparr>hl_clock := hl_clock l + millis ?n + delay\<rparr>"] less.prems False assms(3) by simp
    then show ?thesis
      using less.prems False by (subst hid_recv_loop.simps) (simp add: hid_remaining_def Let_def)
  qed
qed

lemma hid_link_receive_none:
  assumes "receive hid_update_done hid_parser_message p (hl_incoming l) = None"
    and "list_all (\<lambda>x. length x = PACKET_SIZE) (hl_incoming l)" and "hl_cancels l = []"
    and "hl_clock l + delay * length (hl_incoming l) < t" and "0 < delay"
  shows "\<exists>c. hid_recv_loop (hid_link_backend delay) (Some t) timeout p l
    = Some (Inl He_Timeout, l\<lparr>hl_incoming := [], hl_clock := c\<rparr>)"
  using assms
proof (induction "hl_incoming l" arbitrary: p l)
  case Nil
  then have "l\<lparr>hl_incoming := []\<rparr> = l" by (cases l) simp
  moreover obtain c where "hid_recv_loop (hid_link_backend delay) (Some t) timeout p l
      = Some (Inl He_Timeout, l\<lparr>hl_clock := c\<rparr>)"
    using Nil hid_link_silent [of l delay t timeout p] by auto
  ultimately show ?case by (intro exI [of _ c]) simp
next
  case (Cons x xs)
  note inc = Cons.hyps(2) [symmetric]
  let ?l = "l\<lparr>hl_incoming := xs, hl_clock := hl_clock l + delay\<rparr>"
  have x: "x \<noteq> []" "hid_report PACKET_SIZE x = x"
    using Cons.prems(2) by (auto simp: inc PACKET_SIZE_def hid_report_full)
  obtain p' where u: "hid_parser_update p x = (Inr Hid_MorePacketsExpected, p')"
      "receive hid_update_done hid_parser_message p' xs = None"
    using Cons.prems(1) unfolding inc
    by (cases "hid_parser_update p x"; cases "fst (hid_parser_update p x)";
        cases "case fst (hid_parser_update p x) of Inr y \<Rightarrow> y | _ \<Rightarrow> Hid_Done")
      (auto simp: hid_update_done_def)
  have "\<exists>c. hid_recv_loop (hid_link_backend delay) (Some t) timeout p' ?l
      = Some (Inl He_Timeout, ?l\<lparr>hl_incoming := [], hl_clock := c\<rparr>)"
    using u(2) Cons.prems by (intro Cons.hyps(1)) (simp_all add: inc)
  then show ?case
    using u x Cons.prems(3,4)
    by (subst hid_recv_loop.simps) (simp add: inc hid_remaining_def Let_def)
qed

text \<open>
  C: On a link that delivers reports, receiving is the receive loop of the framing: the same
  message or error, the same reports left unread, and a timeout exactly when the reports do not
  complete a message.
\<close>

theorem hid_recv_hidapi_refines:
  assumes "list_all (\<lambda>x. length x = PACKET_SIZE) (hl_incoming l)" and "hl_cancels l = []"
    and "delay * length (hl_incoming l) < timeout" and "0 < delay"
    and "instant_checked_add (hl_clock l) timeout \<noteq> None"
  shows "(case receive hid_update_done hid_parser_message hid_parser_new (hl_incoming l) of
      Some (r, rest) \<Rightarrow> \<exists>c. hid_recv_hidapi (hid_link_backend delay) timeout l
        = Some (map_err He_FrameParse r, l\<lparr>hl_incoming := rest, hl_clock := c\<rparr>)
    | None \<Rightarrow> \<exists>c. hid_recv_hidapi (hid_link_backend delay) timeout l
        = Some (Inl He_Timeout, l\<lparr>hl_incoming := [], hl_clock := c\<rparr>))"
proof -
  let ?t = "hl_clock l + timeout"
  have t: "instant_checked_add (hl_clock l) timeout = Some ?t"
    using assms(5) by (auto simp: instant_checked_add_def split: if_splits)
  have step: "hid_recv_hidapi (hid_link_backend delay) timeout l
      = act_bind (hid_recv_loop (hid_link_backend delay) (Some ?t) timeout hid_parser_new)
          (\<lambda>p. act_lift (map_err He_FrameParse (hid_parser_message p))) l"
    unfolding hid_recv_hidapi_def by (subst act_bind_def) (simp add: act_run t)
  show ?thesis
  proof (cases "receive hid_update_done hid_parser_message hid_parser_new (hl_incoming l)")
    case None
    then show ?thesis
      using hid_link_receive_none [OF None assms(1,2) _ assms(4), of ?t timeout] assms(3)
      by (auto simp: step act_bind_def)
  next
    case (Some x)
    then show ?thesis
      using hid_link_receive [OF _ assms(1,2), of hid_parser_new "fst x" "snd x" delay ?t timeout] assms(3)
      by (auto simp: step split: prod.split)
  qed
qed

lemma hid_recv_hidapi_refines_witness:
  "case receive hid_update_done hid_parser_message hid_parser_new
      (hl_incoming (example_hid_link [hid_report 64 [0, 0, 0, 7, 0x90, 0, 1, 0]])) of
      Some (r, rest) \<Rightarrow> \<exists>c. hid_recv_hidapi (hid_link_backend 5) (millis 150)
          (example_hid_link [hid_report 64 [0, 0, 0, 7, 0x90, 0, 1, 0]])
        = Some (map_err He_FrameParse r, (example_hid_link [hid_report 64 [0, 0, 0, 7, 0x90, 0, 1, 0]])
            \<lparr>hl_incoming := rest, hl_clock := c\<rparr>)
    | None \<Rightarrow> \<exists>c. hid_recv_hidapi (hid_link_backend 5) (millis 150)
          (example_hid_link [hid_report 64 [0, 0, 0, 7, 0x90, 0, 1, 0]])
        = Some (Inl He_Timeout, (example_hid_link [hid_report 64 [0, 0, 0, 7, 0x90, 0, 1, 0]])
            \<lparr>hl_incoming := [], hl_clock := c\<rparr>)"
  by (rule hid_recv_hidapi_refines)
    (simp_all add: example_hid_link_def instant_checked_add_def millis_def hid_report_def PACKET_SIZE_def)

section \<open>Keep-alives and giving up\<close>


text \<open>How a receive ends: which message it returns, and what it did before it gave up.\<close>

lemma hid_recv_result:
  assumes "hid_recv hb init timeout d = Some y"
  shows "\<exists>d0 r d1. hid_recv_once hb timeout d0 = Some (r, d1) \<and> fst y = r
    \<and> (\<forall>m. r = Inr m \<longrightarrow> hm_cmd m \<noteq> Hid_KeepAlive)
    \<and> (if r = Inl He_Cancelled \<or> r = Inl He_Timeout
       then \<exists>s. hid_cancel hb init d1 = Some (s, snd y) else snd y = d1)"
  using assms
proof (induction rule: hid_recv.raw_induct [rotated, consumes 1, case_names step])
  case (step rec hb init timeout d y)
  show ?case
  proof (cases "hid_recv_once hb timeout d")
    case None
    then show ?thesis using step(2) by simp
  next
    case (Some x)
    obtain r d1 where x: "x = (r, d1)" by fastforce
    show ?thesis
    proof (cases "\<exists>m. r = Inr m \<and> hm_cmd m = Hid_KeepAlive")
      case True
      then have "rec hb init timeout d1 = Some y" using step(2) Some x by auto
      then show ?thesis by (rule step(1))
    next
      case False
      then show ?thesis
        using step(2) Some x
        by (intro exI [of _ d] exI [of _ r] exI [of _ d1])
          (auto simp: act_try_def act_run split: sum.splits if_splits option.splits)
    qed
  qed
qed

text \<open>
  C: A receive never hands out a keep-alive, and when it gives up, because the caller cancelled
  or the time is over, the last thing it does is to send CANCEL to the device.
\<close>

theorem hid_recv_gives_up_with_cancel:
  assumes "hid_recv hb init timeout d = Some (r, d')"
  shows "(\<forall>m. r = Inr m \<longrightarrow> hm_cmd m \<noteq> Hid_KeepAlive)
    \<and> (r = Inl He_Cancelled \<or> r = Inl He_Timeout \<longrightarrow>
        (\<exists>d0 d1 s. hid_recv_once hb timeout d0 = Some (r, d1)
          \<and> hid_send hb init (hid_message_new (ir_cid init) Hid_Cancel []) d1 = Some (s, d')))"
  using hid_recv_result [OF assms] by (fastforce simp: hid_cancel_def hid_cancel_message_def)

text \<open>
  C: Keep-alives renew the time a receive has: from a device that keeps sending them in time it
  never returns, whatever the timeout.
\<close>

theorem hid_keepalives_renew_timeout:
  assumes "\<And>d. alive d \<Longrightarrow> \<exists>m d'. hid_recv_once hb timeout d = Some (Inr m, d')
      \<and> hm_cmd m = Hid_KeepAlive \<and> alive d'"
    and "alive d"
  shows "hid_recv hb init timeout d = None"
proof (rule ccontr)
  assume "hid_recv hb init timeout d \<noteq> None"
  then obtain y where "hid_recv hb init timeout d = Some y" by blast
  then have "(\<And>d. alive d \<Longrightarrow> \<exists>m d'. hid_recv_once hb timeout d = Some (Inr m, d')
      \<and> hm_cmd m = Hid_KeepAlive \<and> alive d') \<Longrightarrow> \<not> alive d"
  proof (induction rule: hid_recv.raw_induct [rotated, consumes 1, case_names step])
    case (step rec hb init timeout d y)
    show ?case
    proof
      assume "alive d"
      then obtain m d' where "hid_recv_once hb timeout d = Some (Inr m, d')"
          "hm_cmd m = Hid_KeepAlive" "alive d'"
        using step(3) by blast
      then show False using step by auto
    qed
  qed
  then show False using assms by blast
qed

section \<open>INIT\<close>

text \<open>
  C29: A channel is accepted only when the answer to INIT repeats the random nonce that was
  broadcast, and its identifier, versions and capabilities are read from the bytes after it.
\<close>

theorem hid_init_answers_nonce:
  assumes "hid_init hb i timeout d = Some (Inr init, d')"
  shows "\<exists>nonce d1 d2 m caps rest. hb_nonce hb d = (nonce, d1)
    \<and> hid_send hb i (hid_message_broadcast Hid_Init nonce) d1 = Some (Inr (), d2)
    \<and> hid_recv hb i timeout d2 = Some (Inr m, d')
    \<and> hm_cmd m = Hid_Init \<and> length nonce = 8
    \<and> hm_payload m = nonce @ be_u32 (ir_cid init)
        @ [ir_protocol_version init, ir_version_major init, ir_version_minor init,
           ir_version_build init, caps] @ rest
    \<and> ir_caps init = caps AND 0x0D"
proof -
  obtain nonce d1 where n: "hb_nonce hb d = (nonce, d1)" by fastforce
  obtain d2 m where m: "hid_send hb i (hid_message_broadcast Hid_Init nonce) d1 = Some (Inr (), d2)"
      "hid_recv hb i timeout d2 = Some (Inr m, d')"
      "hid_parse_init_response nonce m = Inr init"
    using assms n by (auto simp: hid_init_def on_hid_def act_run act_bind_def split: option.splits sum.splits)
  have len: "17 \<le> length (hm_payload m)" and cmd: "hm_cmd m = Hid_Init"
      and non: "take 8 (hm_payload m) = nonce"
    using m(3) by (auto simp: hid_parse_init_response_def INIT_PAYLOAD_LEN_def INIT_NONCE_LEN_def
        result_convs slice_upto_def split: if_splits)
  obtain a b c e p v w x y rest where p: "drop 8 (hm_payload m) = a # b # c # e # p # v # w # x # y # rest"
    using len by (auto simp: numeral_eq_Suc Suc_le_length_iff)
  have init: "init = \<lparr>ir_cid = u32_of_be a b c e, ir_protocol_version = p, ir_version_major = v,
      ir_version_minor = w, ir_version_build = x, ir_caps = caps_from_bits_truncate y\<rparr>"
    using m(3) cmd len non
    by (simp add: hid_parse_init_response_def INIT_PAYLOAD_LEN_def INIT_NONCE_LEN_def slice_upto_def p)
  have "length nonce = 8" using non len by auto
  moreover have "hm_payload m = nonce @ a # b # c # e # p # v # w # x # y # rest"
    using non p by (metis append_take_drop_id)
  moreover have "ir_caps init = y AND 0x0D"
    by (simp add: init caps_from_bits_truncate_def CAPS_WINK_def CAPS_CBOR_def CAPS_NO_MSG_def)
  moreover have "be_u32 (ir_cid init) = [a, b, c, e]"
    by (simp add: init be_u32_of_be)
  ultimately have "hb_nonce hb d = (nonce, d1)
      \<and> hid_send hb i (hid_message_broadcast Hid_Init nonce) d1 = Some (Inr (), d2)
      \<and> hid_recv hb i timeout d2 = Some (Inr m, d') \<and> hm_cmd m = Hid_Init \<and> length nonce = 8
      \<and> hm_payload m = nonce @ be_u32 (ir_cid init) @ [ir_protocol_version init,
          ir_version_major init, ir_version_minor init, ir_version_build init, y] @ rest
      \<and> ir_caps init = y AND 0x0D"
    using n m cmd by (simp add: init)
  then show ?thesis by blast
qed

section \<open>Sending\<close>

text \<open>What reaches the device of a sent message.\<close>

definition hid_reports :: "bytes list \<Rightarrow> bytes list" where
  "hid_reports packets = map (\<lambda>p. REPORT_ID # hid_report PACKET_SIZE p) packets"

lemma hid_link_write_cancelled:
  assumes "k < length packets" and "hl_cancels l = replicate k False @ True # cs"
  shows "hid_write_packets (hid_link_backend delay) packets l
    = Some (Inl He_Cancelled, l\<lparr>hl_cancels := cs, hl_written := hl_written l @ hid_reports (take k packets)\<rparr>)"
  using assms
proof (induction packets arbitrary: l k)
  case Nil
  then show ?case by simp
next
  case (Cons p packets)
  show ?case
  proof (cases k)
    case 0
    then have "l\<lparr>hl_cancels := cs, hl_written := hl_written l\<rparr> = l\<lparr>hl_cancels := cs\<rparr>"
      by (cases l) simp
    then show ?thesis
      using 0 Cons.prems by (simp add: act_bind_def on_hid_def act_run hid_reports_def)
  next
    case (Suc k')
    then show ?thesis
      using Cons.prems
        Cons.IH [of k' "l\<lparr>hl_cancels := replicate k' False @ True # cs,
          hl_written := hl_written l @ [REPORT_ID # hid_report PACKET_SIZE p]\<rparr>"]
      by (simp add: act_bind_def on_hid_def on_hid_result_def hid_report_def hid_reports_def Let_def)
  qed
qed

lemma hid_cancel_packets:
  "\<exists>p. hid_message_packets (hid_cancel_message init) PACKET_SIZE = Inr [p]"
  by (simp add: hid_message_packets_def hid_cancel_message_def hid_message_new_def PACKET_SIZE_def
      hid_consts hid_cont_packets_Nil)

lemma hid_link_send:
  assumes "hid_message_packets m PACKET_SIZE = Inr ps" and "hl_cancels l = []"
  shows "hid_send_hidapi (hid_link_backend delay) m l
    = Some (Inr (), l\<lparr>hl_written := hl_written l @ hid_reports ps\<rparr>)"
proof -
  have "hid_write_packets (hid_link_backend delay) ps l
      = Some (Inr (), l\<lparr>hl_written := hl_written l @ hid_reports ps\<rparr>)"
    using assms(2)
  proof (induction ps arbitrary: l)
    case Nil
    then show ?case by (cases l) (simp add: act_run hid_reports_def)
  next
    case (Cons p ps)
    then show ?case
      by (simp add: act_bind_def on_hid_def on_hid_result_def hid_report_def hid_reports_def Let_def)
  qed
  then show ?thesis using assms(1) by (simp add: hid_send_hidapi_def)
qed

text \<open>
  C: A cancel request that comes while a message is sent stops it after the reports already
  written; CANCEL is sent on the channel and the caller learns of the cancellation.
\<close>

theorem hid_send_cancelled:
  assumes "hid_message_packets m PACKET_SIZE = Inr ps" and "k < length ps"
    and "hl_cancels l = replicate k False @ [True]"
  shows "\<exists>cancel. hid_message_packets (hid_message_new (ir_cid init) Hid_Cancel []) PACKET_SIZE = Inr cancel
    \<and> hid_send (hid_link_backend delay) init m l
      = Some (Inl He_Cancelled, l\<lparr>hl_cancels := [],
          hl_written := hl_written l @ hid_reports (take k ps) @ hid_reports cancel\<rparr>)"
proof -
  obtain p where p: "hid_message_packets (hid_cancel_message init) PACKET_SIZE = Inr [p]"
    using hid_cancel_packets by blast
  have "hid_send_hidapi (hid_link_backend delay) m l = Some (Inl He_Cancelled,
      l\<lparr>hl_cancels := [], hl_written := hl_written l @ hid_reports (take k ps)\<rparr>)"
    using hid_link_write_cancelled [OF assms(2), of l "[]" delay] assms
    by (simp add: hid_send_hidapi_def)
  then have "hid_send (hid_link_backend delay) init m l
      = Some (Inl He_Cancelled, l\<lparr>hl_cancels := [],
          hl_written := hl_written l @ hid_reports (take k ps) @ hid_reports [p]\<rparr>)"
    by (simp add: hid_send_def act_bind_def act_try_def act_run hid_link_send [OF p])
  then show ?thesis using p unfolding hid_cancel_message_def by blast
qed

lemma hid_send_cancelled_witness:
  "\<exists>cancel. hid_message_packets (hid_message_new (ir_cid (init_response_default\<lparr>ir_cid := 7\<rparr>)) Hid_Cancel [])
      PACKET_SIZE = Inr cancel
    \<and> hid_send (hid_link_backend 5) (init_response_default\<lparr>ir_cid := 7\<rparr>) (hid_message_new 7 Hid_Cbor [4])
        ((example_hid_link [])\<lparr>hl_cancels := replicate 0 False @ [True]\<rparr>)
      = Some (Inl He_Cancelled, ((example_hid_link [])\<lparr>hl_cancels := replicate 0 False @ [True]\<rparr>)
          \<lparr>hl_cancels := [], hl_written := hl_written ((example_hid_link [])\<lparr>hl_cancels := replicate 0 False @ [True]\<rparr>)
            @ hid_reports (take 0 [[0, 0, 0, 7, 0x90, 0, 1, 4]]) @ hid_reports cancel\<rparr>)"
  by (rule hid_send_cancelled)
    (simp_all add: hid_message_packets_def hid_message_new_def PACKET_SIZE_def hid_consts
      hid_cont_packets_Nil be_u32_def be_u16_def)

section \<open>An exchange\<close>

text \<open>What the device assembles from the reports written to it.\<close>

lemma hid_reports_received:
  assumes "hid_carried m" and "hid_message_packets m PACKET_SIZE = Inr ps"
  shows "receive hid_update_done hid_parser_message hid_parser_new (map tl (hid_reports ps)) = Some (Inr m, [])"
  using hid.receive_one [OF assms, of "[]"] by (simp add: hid_reports_def comp_def)

lemma hid_link_recv_once:
  assumes "receive hid_update_done hid_parser_message hid_parser_new (hl_incoming l) = Some (Inr m, rest)"
    and "list_all (\<lambda>x. length x = PACKET_SIZE) (hl_incoming l)" and "hl_cancels l = []"
    and "delay * length (hl_incoming l) < timeout"
    and "int (hl_clock l + timeout) div 1000000000 < 2 ^ 63"
  shows "hid_recv_once (hid_link_backend delay) timeout l
    = Some (Inr m, l\<lparr>hl_incoming := rest,
        hl_clock := hl_clock l + delay * (length (hl_incoming l) - length rest)\<rparr>)"
proof -
  have t: "instant_checked_add (hl_clock l) timeout = Some (hl_clock l + timeout)"
    unfolding instant_checked_add_def using assms(5) by (rule if_P)
  show ?thesis
    using hid_link_receive [OF assms(1-3), of delay "hl_clock l + timeout" timeout] assms(4)
    unfolding hid_recv_once_def hid_recv_hidapi_def
    by (simp add: act_bind_def [of "act_get _"] act_run t)
qed

definition hid_sent_as :: "hid_message \<Rightarrow> bytes list \<Rightarrow> bool" where
  "hid_sent_as m ps \<longleftrightarrow> hid_carried m \<and> hid_message_packets m PACKET_SIZE = Inr ps"

lemma hid_sent_as_received:
  "hid_sent_as m ps \<Longrightarrow> receive hid_update_done hid_parser_message hid_parser_new
      (map (hid_report PACKET_SIZE) ps @ rest) = Some (Inr m, rest)"
  unfolding hid_sent_as_def by (blast intro: hid.receive_one)

lemma hid_link_recv:
  assumes "list_all2 hid_sent_as ks kss" and "list_all (\<lambda>m. hm_cmd m = Hid_KeepAlive) ks"
    and "hid_sent_as reply ps" and "hm_cmd reply \<noteq> Hid_KeepAlive"
    and "hl_incoming l = concat (map (map (hid_report PACKET_SIZE)) kss) @ map (hid_report PACKET_SIZE) ps @ rest"
    and "list_all (\<lambda>x. length x = PACKET_SIZE) (hl_incoming l)" and "hl_cancels l = []"
    and "delay * length (hl_incoming l) < timeout"
    and "int (hl_clock l + delay * length (hl_incoming l) + timeout) div 1000000000 < 2 ^ 63"
  shows "\<exists>c. hid_recv (hid_link_backend delay) init timeout l
    = Some (Inr reply, l\<lparr>hl_incoming := rest, hl_clock := c\<rparr>)"
  using assms(1,2,5-)
proof (induction ks kss arbitrary: l rule: list_all2_induct)
  case Nil
  have "int (hl_clock l + timeout) div 1000000000 < 2 ^ 63"
    using Nil.prems(6) by (rule order_le_less_trans [rotated]) (simp add: zdiv_mono1)
  then show ?case
    using hid_link_recv_once [of l reply rest delay timeout] Nil.prems hid_sent_as_received [OF assms(3)] assms(4)
    by (subst hid_recv.simps) (simp, blast)
next
  case (Cons k ks ps' kss)
  let ?rest = "concat (map (map (hid_report PACKET_SIZE)) kss) @ map (hid_report PACKET_SIZE) ps @ rest"
  let ?l = "l\<lparr>hl_incoming := ?rest,
    hl_clock := hl_clock l + delay * (length (hl_incoming l) - length ?rest)\<rparr>"
  have rcv: "receive hid_update_done hid_parser_message hid_parser_new (hl_incoming l) = Some (Inr k, ?rest)"
    using hid_sent_as_received [OF Cons.hyps(1)] Cons.prems(2) by simp
  have len: "length ?rest \<le> length (hl_incoming l)"
    using Cons.prems(2) by simp
  have "int (hl_clock l + timeout) div 1000000000 < 2 ^ 63"
    using Cons.prems(6) by (rule order_le_less_trans [rotated]) (simp add: zdiv_mono1)
  then have once: "hid_recv_once (hid_link_backend delay) timeout l = Some (Inr k, ?l)"
    using hid_link_recv_once [OF rcv] Cons.prems by blast
  have "delay * (length (hl_incoming l) - length ?rest) + delay * length ?rest = delay * length (hl_incoming l)"
    using len by (simp flip: distrib_left)
  then have clk: "hl_clock ?l + delay * length (hl_incoming ?l) = hl_clock l + delay * length (hl_incoming l)"
    by simp
  have "delay * length ?rest \<le> delay * length (hl_incoming l)"
    using len by simp
  then have "\<exists>c. hid_recv (hid_link_backend delay) init timeout ?l
      = Some (Inr reply, ?l\<lparr>hl_incoming := rest, hl_clock := c\<rparr>)"
    using Cons.prems clk by (intro Cons.IH) (auto simp: list_all_iff simp del: of_nat_add)
  then show ?case
    using once Cons.prems(1) by (subst hid_recv.simps) simp
qed

text \<open>
  C26: A CBOR exchange over the link: the device assembles exactly the request from the reports
  written to it, and the caller gets the first answer that is no keep-alive, decoded; what the
  device sent after it stays unread.
\<close>

theorem hid_cbor_exchange:
  assumes "hid_sent_as (hid_message_new (ir_cid init) Hid_Cbor (cbor_ctap_hid_data request)) qs"
    and "list_all2 hid_sent_as ks kss" and "list_all (\<lambda>m. hm_cmd m = Hid_KeepAlive) ks"
    and "hid_sent_as reply ps" and "hm_cmd reply \<noteq> Hid_KeepAlive"
    and "hl_incoming l = concat (map (map (hid_report PACKET_SIZE)) kss) @ map (hid_report PACKET_SIZE) ps @ rest"
    and "list_all (\<lambda>x. length x = PACKET_SIZE) (hl_incoming l)" and "hl_cancels l = []"
    and "delay * length (hl_incoming l) < timeout"
    and "int (hl_clock l + delay * length (hl_incoming l) + timeout) div 1000000000 < 2 ^ 63"
  shows "\<exists>l1 c reports. hid_cbor_send (hid_link_backend delay) init request l = Some (Inr (), l1)
    \<and> hl_written l1 = hl_written l @ reports
    \<and> receive hid_update_done hid_parser_message hid_parser_new (map tl reports)
        = Some (Inr (hid_message_new (ir_cid init) Hid_Cbor (cbor_ctap_hid_data request)), [])
    \<and> hid_cbor_recv (hid_link_backend delay) init timeout l1
        = Some (map_err He_ResponseDecode (cbor_response_of_bytes (hm_payload reply)),
            l1\<lparr>hl_incoming := rest, hl_clock := c\<rparr>)"
proof -
  let ?l1 = "l\<lparr>hl_written := hl_written l @ hid_reports qs\<rparr>"
  let ?q = "hid_message_new (ir_cid init) Hid_Cbor (cbor_ctap_hid_data request)"
  have q: "hid_carried ?q" "hid_message_packets ?q PACKET_SIZE = Inr qs"
    using assms(1) by (simp_all add: hid_sent_as_def)
  have send: "hid_cbor_send (hid_link_backend delay) init request l = Some (Inr (), ?l1)"
    by (simp add: hid_cbor_send_def hid_send_def act_bind_def act_try_def act_run hid_link_send [OF q(2) assms(8)])
  obtain c where "hid_recv (hid_link_backend delay) init timeout ?l1
      = Some (Inr reply, ?l1\<lparr>hl_incoming := rest, hl_clock := c\<rparr>)"
    using hid_link_recv [OF assms(2-5), of ?l1 rest delay timeout init] assms(6-) by auto
  then have "hid_cbor_recv (hid_link_backend delay) init timeout ?l1
      = Some (map_err He_ResponseDecode (cbor_response_of_bytes (hm_payload reply)),
          ?l1\<lparr>hl_incoming := rest, hl_clock := c\<rparr>)"
    by (simp add: hid_cbor_recv_def act_bind_def act_run)
  then show ?thesis
    using send hid_reports_received [OF q] by (intro exI [of _ ?l1] exI [of _ c]) simp
qed

definition example_keepalive :: hid_message where
  "example_keepalive = hid_message_new 7 Hid_KeepAlive [1]"

definition example_reply :: hid_message where
  "example_reply = hid_message_new 7 Hid_Cbor [0]"

lemma example_hid_messages:
  "hid_sent_as (hid_message_new 7 Hid_Cbor [4]) [[0, 0, 0, 7, 0x90, 0, 1, 4]]"
  "hid_sent_as example_keepalive [[0, 0, 0, 7, 0xBB, 0, 1, 1]]"
  "hid_sent_as example_reply [[0, 0, 0, 7, 0x90, 0, 1, 0]]"
  by (simp_all add: hid_sent_as_def hid_carried_def hid_message_packets_def hid_message_new_def
      example_keepalive_def example_reply_def PACKET_SIZE_def hid_consts hid_cont_packets_Nil
      be_u32_def be_u16_def)

definition example_answered_link :: hid_link where
  "example_answered_link = example_hid_link
     (concat (map (map (hid_report PACKET_SIZE)) [[[0, 0, 0, 7, 0xBB, 0, 1, 1]]])
      @ map (hid_report PACKET_SIZE) [[0, 0, 0, 7, 0x90, 0, 1, 0]] @ [])"

lemma hid_cbor_exchange_witness:
  "\<exists>l1 c reports. hid_cbor_send (hid_link_backend 5) (init_response_default\<lparr>ir_cid := 7\<rparr>)
        (cbor_request_new AuthenticatorGetInfo) example_answered_link = Some (Inr (), l1)
    \<and> hl_written l1 = hl_written example_answered_link @ reports
    \<and> receive hid_update_done hid_parser_message hid_parser_new (map tl reports)
        = Some (Inr (hid_message_new (ir_cid (init_response_default\<lparr>ir_cid := 7\<rparr>)) Hid_Cbor
            (cbor_ctap_hid_data (cbor_request_new AuthenticatorGetInfo))), [])
    \<and> hid_cbor_recv (hid_link_backend 5) (init_response_default\<lparr>ir_cid := 7\<rparr>) (millis 250) l1
        = Some (map_err He_ResponseDecode (cbor_response_of_bytes (hm_payload example_reply)),
            l1\<lparr>hl_incoming := [], hl_clock := c\<rparr>)"
  by (rule hid_cbor_exchange [where ks = "[example_keepalive]"
        and kss = "[[[0, 0, 0, 7, 0xBB, 0, 1, 1]]]" and ps = "[[0, 0, 0, 7, 0x90, 0, 1, 0]]"
        and qs = "[[0, 0, 0, 7, 0x90, 0, 1, 4]]"])
    (simp_all add: example_hid_messages cbor_ctap_hid_data_def cbor_request_new_def,
     simp_all add: example_keepalive_def example_reply_def hid_message_new_def example_answered_link_def
       example_hid_link_def hid_report_def PACKET_SIZE_def millis_def)

section \<open>Closed instances\<close>

lemma example_hid_recv:
  "hid_recv (hid_link_backend 5) init_response_default (millis 1) (example_hid_link [])
    = Some (Inl He_Timeout, (example_hid_link [])\<lparr>hl_clock := 1000005,
        hl_written := hid_reports [[0, 0, 0, 0, 0x91, 0, 0]]\<rparr>)"
proof -
  have "hid_recv_once (hid_link_backend 5) (millis 1) (example_hid_link [])
      = Some (Inl He_Timeout, (example_hid_link [])\<lparr>hl_clock := 1000005\<rparr>)"
    apply (simp add: hid_recv_once_def hid_recv_hidapi_def act_bind_def act_run instant_checked_add_def
        millis_def example_hid_link_def)
    apply (subst hid_recv_loop.simps)
    apply (simp add: hid_remaining_def HID_READ_POLL_INTERVAL_def millis_def)
    apply (subst hid_recv_loop.simps)
    apply (simp add: hid_remaining_def HID_READ_POLL_INTERVAL_def millis_def)
    done
  then show ?thesis
    by (subst hid_recv.simps)
      (simp add: act_try_def act_run act_bind_def hid_cancel_def hid_send_def hid_send_hidapi_def
        hid_cancel_message_def hid_message_new_def init_response_default_def hid_message_packets_def
        PACKET_SIZE_def hid_consts hid_cont_packets_Nil be_u32_def be_u16_def on_hid_def
        on_hid_result_def example_hid_link_def hid_reports_def hid_report_def Let_def)
qed

lemma hid_recv_gives_up_with_cancel_witness:
  "(\<forall>m. (Inl He_Timeout :: hid_error + hid_message) = Inr m \<longrightarrow> hm_cmd m \<noteq> Hid_KeepAlive)
    \<and> (Inl He_Timeout = (Inl He_Cancelled :: hid_error + hid_message)
        \<or> (Inl He_Timeout :: hid_error + hid_message) = Inl He_Timeout \<longrightarrow>
        (\<exists>d0 d1 s. hid_recv_once (hid_link_backend 5) (millis 1) d0 = Some (Inl He_Timeout, d1)
          \<and> hid_send (hid_link_backend 5) init_response_default
              (hid_message_new (ir_cid init_response_default) Hid_Cancel []) d1
            = Some (s, (example_hid_link [])\<lparr>hl_clock := 1000005,
                hl_written := hid_reports [[0, 0, 0, 0, 0x91, 0, 0]]\<rparr>)))"
  by (rule hid_recv_gives_up_with_cancel [OF example_hid_recv])

text \<open>A device that answers every read with a keep-alive; its state is the clock.\<close>

definition example_chatty_backend :: "nat hid_backend" where
  "example_chatty_backend =
     \<lparr>hb_open = \<lambda>c. (Inr (), c), hb_write = \<lambda>_ c. (Inr (), c),
      hb_read_timeout = \<lambda>_ c. (Inr [0, 0, 0, 7, 0xBB, 0, 1, 1], c + 5),
      hb_try_recv = \<lambda>c. (False, c), hb_poisoned = \<lambda>_. False, hb_now = \<lambda>c. c,
      hb_sleep = \<lambda>n c. c + n, hb_nonce = \<lambda>c. ([1, 2, 3, 4, 5, 6, 7, 8], c)\<rparr>"

lemma example_keepalive_parsed:
  "hid_parser_update hid_parser_new (hid_report 64 [0, 0, 0, 7, 0xBB, 0, 1, 1])
    = (Inr Hid_Done, \<lparr>hmp_packets = [hid_report 64 [0, 0, 0, 7, 0xBB, 0, 1, 1]]\<rparr>)"
  "hid_parser_message \<lparr>hmp_packets = [hid_report 64 [0, 0, 0, 7, 0xBB, 0, 1, 1]]\<rparr>
    = Inr example_keepalive"
  by code_simp+

lemma hid_keepalives_renew_timeout_witness:
  "hid_recv example_chatty_backend init_response_default (millis 250) 0 = None"
proof (rule hid_keepalives_renew_timeout [where alive = "\<lambda>_. True"])
  fix c :: nat
  have "hid_recv_loop example_chatty_backend (instant_checked_add c (millis 250)) (millis 250) hid_parser_new c
      = Some (Inr \<lparr>hmp_packets = [hid_report 64 [0, 0, 0, 7, 0xBB, 0, 1, 1]]\<rparr>, c + 5)"
    by (subst hid_recv_loop.simps)
      (auto simp: example_chatty_backend_def hid_remaining_def instant_checked_add_def millis_def
        PACKET_SIZE_def example_keepalive_parsed Let_def simp del: of_nat_add)
  then have "hid_recv_once example_chatty_backend (millis 250) c = Some (Inr example_keepalive, c + 5)"
    by (simp add: hid_recv_once_def hid_recv_hidapi_def act_bind_def act_run)
      (simp add: example_chatty_backend_def example_keepalive_parsed act_run)
  then show "\<exists>m d'. hid_recv_once example_chatty_backend (millis 250) c = Some (Inr m, d')
      \<and> hm_cmd m = Hid_KeepAlive \<and> True"
    by (simp add: example_keepalive_def hid_message_new_def)
qed simp

lemma hid_init_answers_nonce_witness:
  "\<exists>nonce d1 d2 m caps rest. hb_nonce (hid_link_backend 5) (example_hid_link [hid_report 64
        [0xFF, 0xFF, 0xFF, 0xFF, 0x86, 0, 17, 1, 2, 3, 4, 5, 6, 7, 8, 0, 0, 0, 9, 2, 1, 0, 0, 5]]) = (nonce, d1)
    \<and> hid_send (hid_link_backend 5) init_response_default (hid_message_broadcast Hid_Init nonce) d1 = Some (Inr (), d2)
    \<and> hid_recv (hid_link_backend 5) init_response_default INIT_TIMEOUT d2
      = Some (Inr m, (example_hid_link [])\<lparr>hl_clock := 5, hl_written := hid_reports
          [[0xFF, 0xFF, 0xFF, 0xFF, 0x86, 0, 8, 1, 2, 3, 4, 5, 6, 7, 8]]\<rparr>)
    \<and> hm_cmd m = Hid_Init \<and> length nonce = 8
    \<and> hm_payload m = nonce @ be_u32 9 @ [2, 1, 0, 0, caps] @ rest
    \<and> 5 = caps AND 0x0D"
proof -
  let ?link = "example_hid_link [hid_report 64
        [0xFF, 0xFF, 0xFF, 0xFF, 0x86, 0, 17, 1, 2, 3, 4, 5, 6, 7, 8, 0, 0, 0, 9, 2, 1, 0, 0, 5]]"
  let ?final = "(example_hid_link [])\<lparr>hl_clock := 5, hl_written := hid_reports
      [[0xFF, 0xFF, 0xFF, 0xFF, 0x86, 0, 8, 1, 2, 3, 4, 5, 6, 7, 8]]\<rparr>"
  let ?init = "\<lparr>ir_cid = 9, ir_protocol_version = 2, ir_version_major = 1, ir_version_minor = 0,
      ir_version_build = 0, ir_caps = 5\<rparr>"
  let ?msg = "hid_message_new BROADCAST_CID Hid_Init
      [1, 2, 3, 4, 5, 6, 7, 8, 0, 0, 0, 9, 2, 1, 0, 0, 5]"
  let ?sent = "(?link)\<lparr>hl_written := hid_reports [[0xFF, 0xFF, 0xFF, 0xFF, 0x86, 0, 8, 1, 2, 3, 4, 5, 6, 7, 8]]\<rparr>"
  have packets: "hid_message_packets (hid_message_broadcast Hid_Init [1, 2, 3, 4, 5, 6, 7, 8]) PACKET_SIZE
      = Inr [[0xFF, 0xFF, 0xFF, 0xFF, 0x86, 0, 8, 1, 2, 3, 4, 5, 6, 7, 8]]"
    by (simp add: hid_message_packets_def hid_message_broadcast_def hid_message_new_def PACKET_SIZE_def
        hid_consts hid_cont_packets_Nil be_u32_def be_u16_def)
  have "hid_send (hid_link_backend 5) init_response_default (hid_message_broadcast Hid_Init [1, 2, 3, 4, 5, 6, 7, 8])
      ?link = Some (Inr (), ?sent)"
    by (simp add: hid_send_def act_bind_def act_try_def act_run hid_link_send [OF packets]
        example_hid_link_fields)
  moreover have "receive hid_update_done hid_parser_message hid_parser_new (hl_incoming ?sent) = Some (Inr ?msg, [])"
    unfolding example_hid_link_def by code_simp
  then have "hid_recv_once (hid_link_backend 5) INIT_TIMEOUT ?sent = Some (Inr ?msg, ?final)"
    by (subst hid_link_recv_once)
      (auto simp: example_hid_link_def PACKET_SIZE_def hid_report_def INIT_TIMEOUT_def millis_def)
  then have "hid_recv (hid_link_backend 5) init_response_default INIT_TIMEOUT ?sent = Some (Inr ?msg, ?final)"
    by (subst hid_recv.simps) (simp add: hid_message_new_def)
  moreover have "hid_parse_init_response [1, 2, 3, 4, 5, 6, 7, 8] ?msg = Inr ?init"
    by code_simp
  ultimately have "hid_init (hid_link_backend 5) init_response_default INIT_TIMEOUT ?link = Some (Inr ?init, ?final)"
    by (simp add: hid_init_def act_bind_def on_hid_def act_run)
  from hid_init_answers_nonce [OF this] show ?thesis by simp
qed

end
