(* ===== verification/Nfc_Channel.thy ===== *)
theory Nfc_Channel
  imports Session Rust_Text
begin

text \<open>
  The NFC channel, \<^verbatim>\<open>libwebauthn/src/transport/nfc/channel.rs\<close> and \<^verbatim>\<open>commands.rs\<close>: selecting the
  FIDO application, the response chaining of ISO 7816 and the command chaining of CTAP over NFC.
  The card reader and the crate \<^verbatim>\<open>apdu\<close> are parameters.
\<close>

section \<open>Commands\<close>

text \<open>
  The arguments the crate's \<^verbatim>\<open>Command\<close> is built from; a payload and a length of the response
  may be absent.
\<close>

record apdu_command =
  ac_cla :: u8
  ac_ins :: u8
  ac_p1 :: u8
  ac_p2 :: u8
  ac_le :: "u16 option"
  ac_payload :: "bytes option"

definition CLA_DEFAULT :: u8 where "CLA_DEFAULT = 0x00"
definition CLA_INTER_INDUSTRY :: u8 where "CLA_INTER_INDUSTRY = 0x80"
definition INS_GET_RESPONSE :: u8 where "INS_GET_RESPONSE = 0xC0"
definition CLA_HAS_MORE :: u8 where "CLA_HAS_MORE = 0x10"
definition INS_CTAP_MSG :: u8 where "INS_CTAP_MSG = 0x10"
definition CTAP_P2 :: u8 where "CTAP_P2 = 0x00"

definition command_get_response :: "u8 \<Rightarrow> u8 \<Rightarrow> u8 \<Rightarrow> apdu_command" where
  "command_get_response p1 p2 le =
     \<lparr>ac_cla = CLA_DEFAULT, ac_ins = INS_GET_RESPONSE, ac_p1 = p1, ac_p2 = p2,
       ac_le = Some (ucast le), ac_payload = None\<rparr>"

definition command_ctap_msg :: "bool \<Rightarrow> bytes \<Rightarrow> apdu_command" where
  "command_ctap_msg has_more payload =
     \<lparr>ac_cla = (if has_more then CLA_HAS_MORE else 0) OR CLA_INTER_INDUSTRY,
       ac_ins = INS_CTAP_MSG, ac_p1 = 0, ac_p2 = CTAP_P2, ac_le = None, ac_payload = Some payload\<rparr>"

definition command_of_apdu_request :: "apdu_request \<Rightarrow> apdu_command" where
  "command_of_apdu_request r =
     (let payload = (case ar_data r of Some d \<Rightarrow> d | None \<Rightarrow> [])
      in \<lparr>ac_cla = CLA_DEFAULT, ac_ins = ar_ins r, ac_p1 = ar_p1 r, ac_p2 = ar_p2 r,
           ac_le = map_option of_nat (ar_response_max_length r), ac_payload = Some payload\<rparr>)"

section \<open>The reader and the crate\<close>

datatype nfc_error = Nf_Apdu | Nf_Io | Nf_ResponseDecode io_error | Nf_BufferOverflow nat
  | Nf_NoReader | Nf_NoTarget | Nf_NoResponse | Nf_MutexPoisoned | Nf_Backend

text \<open>
  The crate: the bytes of a command, the \<^verbatim>\<open>SELECT\<close> command, a response as its payload and its two
  status bytes, and \<^verbatim>\<open>Result::from(Response)\<close>, \<open>None\<close> for an error status.
\<close>

record apdu_lib =
  al_encode :: "apdu_command \<Rightarrow> bytes"
  al_select_file :: "u8 \<Rightarrow> u8 \<Rightarrow> bytes \<Rightarrow> apdu_command"
  al_response :: "bytes \<Rightarrow> bytes \<times> u8 \<times> u8"
  al_result :: "bytes \<times> u8 \<times> u8 \<Rightarrow> bytes option"

text \<open>
  The backend transmits a command and writes the answer to a buffer, of which it returns the
  length used.
\<close>

record 'd nfc_backend =
  nb_handle :: "bytes \<Rightarrow> bytes \<Rightarrow> 'd \<Rightarrow> (nfc_error + nat) \<times> bytes \<times> 'd"

text \<open>The fields of \<^verbatim>\<open>NfcChannel\<close> that its operations use; supported is (\<^verbatim>\<open>fido2\<close>, \<^verbatim>\<open>u2f\<close>).\<close>

record 'd nfc_channel =
  nc_delegate :: 'd
  nc_apdu_response :: "apdu_response option"
  nc_cbor_response :: "cbor_response option"
  nc_supported :: "bool \<times> bool"

definition nfc_channel_new :: "'d \<Rightarrow> 'd nfc_channel" where
  "nfc_channel_new d = \<lparr>nc_delegate = d, nc_apdu_response = None, nc_cbor_response = None,
     nc_supported = (False, False)\<rparr>"

type_synonym ('d, 'a) nfc_action = "('d nfc_channel, nfc_error, 'a) action"

definition on_card :: "('d, nfc_error, 'a) action \<Rightarrow> ('d, 'a) nfc_action" where
  "on_card m c =
     (case m (nc_delegate c) of
        None \<Rightarrow> None
      | Some (r, d) \<Rightarrow> Some (r, c\<lparr>nc_delegate := d\<rparr>))"

section \<open>Transmitting a command\<close>

definition SELECT_P1 :: u8 where "SELECT_P1 = 0x04"
definition SELECT_P2 :: u8 where "SELECT_P2 = 0x00"
definition FIDO2_AID :: bytes where "FIDO2_AID = [0xA0, 0x00, 0x00, 0x06, 0x47, 0x2F, 0x00, 0x01]"
definition SW1_MORE_DATA :: u8 where "SW1_MORE_DATA = 0x61"

definition is_fido2_version :: "bytes \<Rightarrow> bool" where
  "is_fido2_version version \<longleftrightarrow>
     version \<in> set (map string_bytes [''FIDO_2_0'', ''FIDO_2_1_PRE'', ''FIDO_2_1'', ''FIDO_2_2''])"

text \<open>\<^verbatim>\<open>handle_in_ctx\<close> and the slice of the buffer after it; the buffer is kept for the next turn.\<close>

definition nfc_transmit :: "'d nfc_backend \<Rightarrow> bytes \<Rightarrow> bytes \<Rightarrow> ('d, nfc_error, bytes \<times> bytes) action" where
  "nfc_transmit nb command_buf buf d =
     (case nb_handle nb command_buf buf d of
        (Inl e, _, d) \<Rightarrow> Some (Inl e, d)
      | (Inr len, buf, d) \<Rightarrow>
          (case slice_upto buf len of
             None \<Rightarrow> Some (Inl (Nf_BufferOverflow len), d)
           | Some resp_bytes \<Rightarrow> Some (Inr (resp_bytes, buf), d)))"

text \<open>
  The loop of \<^verbatim>\<open>handle_raw\<close>: while the card has more data it is asked for it.  Nothing bounds the
  number of turns.
\<close>

partial_function (option) nfc_more_data :: "apdu_lib \<Rightarrow> 'd nfc_backend \<Rightarrow> bytes \<Rightarrow> bytes \<Rightarrow> u8 \<Rightarrow> u8
    \<Rightarrow> 'd \<Rightarrow> ((nfc_error + bytes) \<times> 'd) option" where
  "nfc_more_data lib nb buf rapdu sw1 sw2 d =
     (if sw1 \<noteq> SW1_MORE_DATA then Some (Inr (rapdu @ [sw1, sw2]), d)
      else case nfc_transmit nb (al_encode lib (command_get_response 0x00 0x00 sw2)) buf d of
        None \<Rightarrow> None
      | Some (Inl e, d) \<Rightarrow> Some (Inl e, d)
      | Some (Inr (resp_bytes, buf), d) \<Rightarrow>
          (case al_response lib resp_bytes of (payload, sw1, sw2) \<Rightarrow>
             nfc_more_data lib nb buf (rapdu @ payload) sw1 sw2 d))"

definition nfc_handle_raw :: "apdu_lib \<Rightarrow> 'd nfc_backend \<Rightarrow> apdu_command \<Rightarrow> ('d, nfc_error, bytes) action" where
  "nfc_handle_raw lib nb command =
     act_bind (nfc_transmit nb (al_encode lib command) (replicate 1024 0)) (\<lambda>(resp_bytes, buf).
     case al_response lib resp_bytes of (payload, sw1, sw2) \<Rightarrow>
       nfc_more_data lib nb buf payload sw1 sw2)"

definition nfc_handle :: "apdu_lib \<Rightarrow> 'd nfc_backend \<Rightarrow> apdu_command \<Rightarrow> ('d, nfc_error, bytes) action" where
  "nfc_handle lib nb command =
     act_bind (nfc_handle_raw lib nb command) (\<lambda>rapdu.
     act_lift (ok_or Nf_Apdu (al_result lib (al_response lib rapdu))))"

section \<open>The operations of the channel\<close>

definition nfc_apdu_send :: "apdu_lib \<Rightarrow> 'd nfc_backend \<Rightarrow> apdu_request \<Rightarrow> ('d, unit) nfc_action" where
  "nfc_apdu_send lib nb request =
     act_bind (on_card (nfc_handle_raw lib nb (command_of_apdu_request request))) (\<lambda>resp.
     act_bind (act_lift (map_err Nf_ResponseDecode (apdu_response_of_bytes resp))) (\<lambda>response.
     act_modify (\<lambda>c. c\<lparr>nc_apdu_response := Some response\<rparr>)))"

definition nfc_apdu_recv :: "('d, apdu_response) nfc_action" where
  "nfc_apdu_recv c =
     Some (ok_or Nf_NoResponse (nc_apdu_response c), c\<lparr>nc_apdu_response := None\<rparr>)"

text \<open>The chunks of \<^verbatim>\<open>cbor_send\<close>; the answers to all but the last are only checked for success.\<close>

function nfc_send_chunks :: "apdu_lib \<Rightarrow> 'd nfc_backend \<Rightarrow> bytes \<Rightarrow> ('d, nfc_error, bytes) action" where
  "nfc_send_chunks lib nb rest =
     (if length rest > 250
      then act_bind (nfc_handle lib nb (command_ctap_msg True (take 250 rest)))
             (\<lambda>_. nfc_send_chunks lib nb (drop 250 rest))
      else nfc_handle lib nb (command_ctap_msg False rest))"
  by pat_completeness auto
termination by (relation "measure (\<lambda>(lib, nb, rest). length rest)") auto

declare nfc_send_chunks.simps [simp del]

definition nfc_cbor_send :: "apdu_lib \<Rightarrow> 'd nfc_backend \<Rightarrow> cbor_request \<Rightarrow> ('d, unit) nfc_action" where
  "nfc_cbor_send lib nb request =
     act_bind (on_card (nfc_send_chunks lib nb (cbor_ctap_hid_data request))) (\<lambda>resp.
     act_bind (act_lift (map_err Nf_ResponseDecode (cbor_response_of_bytes resp))) (\<lambda>response.
     act_modify (\<lambda>c. c\<lparr>nc_cbor_response := Some response\<rparr>)))"

definition nfc_cbor_recv :: "('d, cbor_response) nfc_action" where
  "nfc_cbor_recv c =
     Some (ok_or Nf_NoResponse (nc_cbor_response c), c\<lparr>nc_cbor_response := None\<rparr>)"

text \<open>\<^verbatim>\<open>ctap2_get_info\<close> over this channel: whether it succeeds.\<close>

definition nfc_get_info_is_ok :: "apdu_lib \<Rightarrow> 'd nfc_backend \<Rightarrow> (bytes \<Rightarrow> get_info_response option)
    \<Rightarrow> ('d, bool) nfc_action" where
  "nfc_get_info_is_ok lib nb decode =
     act_try
       (act_bind (nfc_cbor_send lib nb (cbor_request_new AuthenticatorGetInfo)) (\<lambda>_. nfc_cbor_recv))
       (\<lambda>r. act_return
         (case r of
            Inl _ \<Rightarrow> False
          | Inr response \<Rightarrow>
              cs_status_code response = Ctap_Ok
              \<and> (case cs_data response of None \<Rightarrow> False | Some data \<Rightarrow> decode data \<noteq> None)))"

definition nfc_select_fido2 :: "apdu_lib \<Rightarrow> 'd nfc_backend \<Rightarrow> (bytes \<Rightarrow> get_info_response option)
    \<Rightarrow> ('d, unit) nfc_action" where
  "nfc_select_fido2 lib nb decode =
     act_bind (on_card (nfc_handle lib nb (al_select_file lib SELECT_P1 SELECT_P2 FIDO2_AID))) (\<lambda>response.
     act_bind
       (if is_fido2_version response then act_return (True, False)
        else if response = string_bytes ''U2F_V2''
        then act_bind (nfc_get_info_is_ok lib nb decode) (\<lambda>fido2. act_return (fido2, True))
        else act_return (False, False))
       (\<lambda>supported. act_modify (\<lambda>c. c\<lparr>nc_supported := supported\<rparr>)))"

definition nfc_supported_protocols :: "('d, bool \<times> bool) nfc_action" where
  "nfc_supported_protocols = act_get nc_supported"

section \<open>A card that answers a script\<close>

text \<open>The documented behaviour of the crate that the chaining relies on.\<close>

definition apdu_lib_laws :: "apdu_lib \<Rightarrow> bool" where
  "apdu_lib_laws lib \<longleftrightarrow>
     (\<forall>payload sw1 sw2. al_response lib (payload @ [sw1, sw2]) = (payload, sw1, sw2))
     \<and> (\<forall>payload sw1 sw2. al_result lib (payload, sw1, sw2)
          = (if sw1 = 0x90 \<and> sw2 = 0x00 then Some payload else None))"

text \<open>The state of a card: the answers it will give and the commands it has received.\<close>

type_synonym card_script = "bytes list \<times> bytes list"

definition scripted_card :: "card_script nfc_backend \<Rightarrow> bool" where
  "scripted_card nb \<longleftrightarrow>
     (\<forall>command buf a answers log. length a \<le> length buf \<longrightarrow>
        nb_handle nb command buf (a # answers, log)
        = (Inr (length a), a @ drop (length a) buf, (answers, log @ [command])))"

lemma scripted_transmit:
  assumes "scripted_card nb" and "length a \<le> length buf"
  shows "nfc_transmit nb command buf (a # answers, log)
    = Some (Inr (a, a @ drop (length a) buf), (answers, log @ [command]))"
  using assms by (simp add: scripted_card_def nfc_transmit_def slice_upto_def)

text \<open>An answer given in pieces, all but the last with the status \<^verbatim>\<open>61xx\<close>.\<close>

definition chained_answers :: "(bytes \<times> u8) list \<Rightarrow> bytes \<Rightarrow> u8 \<Rightarrow> u8 \<Rightarrow> bytes list" where
  "chained_answers pieces final sw1 sw2 =
     map (\<lambda>(p, n). p @ [SW1_MORE_DATA, n]) pieces @ [final @ [sw1, sw2]]"

lemma nfc_more_data_done:
  "sw1 \<noteq> SW1_MORE_DATA \<Longrightarrow> nfc_more_data lib nb buf rapdu sw1 sw2 d = Some (Inr (rapdu @ [sw1, sw2]), d)"
  by (simp add: nfc_more_data.simps)

lemma nfc_more_data_chain:
  assumes "apdu_lib_laws lib" and "scripted_card nb" and "sw1 \<noteq> SW1_MORE_DATA"
    and "list_all (\<lambda>a. length a \<le> 1024) (chained_answers pieces final sw1 sw2)" and "length buf = 1024"
  shows "nfc_more_data lib nb buf rapdu SW1_MORE_DATA n (chained_answers pieces final sw1 sw2 @ rest, log)
    = Some (Inr (rapdu @ concat (map fst pieces) @ final @ [sw1, sw2]),
        (rest, log @ map (\<lambda>n. al_encode lib (command_get_response 0 0 n)) (n # map snd pieces)))"
  using assms(4,5)
proof (induction pieces arbitrary: rapdu n log buf)
  case Nil
  then show ?case
    using assms(1,3) scripted_transmit [OF assms(2), of "final @ [sw1, sw2]" buf]
    by (subst nfc_more_data.simps) (simp add: chained_answers_def apdu_lib_laws_def nfc_more_data_done)
next
  case (Cons q pieces)
  obtain p m where q: "q = (p, m)" by fastforce
  let ?a = "p @ [SW1_MORE_DATA, m]"
  have a: "length ?a \<le> length buf" and rest: "list_all (\<lambda>a. length a \<le> 1024) (chained_answers pieces final sw1 sw2)"
    using Cons.prems by (auto simp: chained_answers_def q)
  have ch: "chained_answers (q # pieces) final sw1 sw2 @ rest = ?a # (chained_answers pieces final sw1 sw2 @ rest)"
    by (simp add: chained_answers_def q)
  have "length (?a @ drop (length ?a) buf) = 1024" using a Cons.prems(2) by simp
  from Cons.IH [OF rest this]
  show ?case
    using assms(1) scripted_transmit [OF assms(2) a]
    by (subst nfc_more_data.simps) (simp only: ch, simp add: apdu_lib_laws_def q)
qed

lemma nfc_handle_raw_chain:
  assumes "apdu_lib_laws lib" and "scripted_card nb" and "sw1 \<noteq> SW1_MORE_DATA"
    and "list_all (\<lambda>a. length a \<le> 1024) (chained_answers pieces final sw1 sw2)"
  shows "nfc_handle_raw lib nb command (chained_answers pieces final sw1 sw2 @ rest, log)
    = Some (Inr (concat (map fst pieces) @ final @ [sw1, sw2]),
        (rest, log @ al_encode lib command # map (\<lambda>n. al_encode lib (command_get_response 0 0 n)) (map snd pieces)))"
proof (cases pieces)
  case Nil
  then show ?thesis
    using assms scripted_transmit [OF assms(2), of "final @ [sw1, sw2]" "replicate 1024 0"]
    by (simp add: nfc_handle_raw_def act_bind_def chained_answers_def apdu_lib_laws_def nfc_more_data_done)
next
  case (Cons q qs)
  obtain p m where q: "q = (p, m)" by fastforce
  let ?a = "p @ [SW1_MORE_DATA, m]"
  have a: "length ?a \<le> length (replicate 1024 (0 :: u8))"
      and rest: "list_all (\<lambda>a. length a \<le> 1024) (chained_answers qs final sw1 sw2)"
    using assms(4) by (auto simp: chained_answers_def q Cons)
  have ch: "chained_answers pieces final sw1 sw2 @ rest = ?a # (chained_answers qs final sw1 sw2 @ rest)"
    by (simp add: chained_answers_def q Cons)
  have "length (?a @ drop (length ?a) (replicate 1024 (0 :: u8))) = 1024" using a by simp
  from nfc_more_data_chain [OF assms(1-3) rest this, of p m rest "log @ [al_encode lib command]"]
  show ?thesis
    using assms(1) scripted_transmit [OF assms(2) a]
    unfolding ch by (simp add: nfc_handle_raw_def act_bind_def apdu_lib_laws_def q Cons)
qed

text \<open>
  C: An answer that the card gives in pieces is put together: the command is sent once, each
  piece is asked for with the length its predecessor announced, and the caller gets the payloads
  in order, followed by the final status.
\<close>

theorem nfc_response_reassembled:
  assumes "apdu_lib_laws lib" and "scripted_card nb" and "sw1 \<noteq> SW1_MORE_DATA"
    and "list_all (\<lambda>a. length a \<le> 1024) (chained_answers pieces final sw1 sw2)"
  shows "nfc_handle_raw lib nb command (chained_answers pieces final sw1 sw2 @ rest, log)
      = Some (Inr (concat (map fst pieces) @ final @ [sw1, sw2]),
          (rest, log @ al_encode lib command # map (\<lambda>n. al_encode lib (command_get_response 0 0 n)) (map snd pieces)))
    \<and> fst (the (nfc_handle lib nb command (chained_answers pieces final sw1 sw2 @ rest, log)))
      = (if sw1 = 0x90 \<and> sw2 = 0x00 then Inr (concat (map fst pieces) @ final) else Inl Nf_Apdu)"
proof
  show raw: "nfc_handle_raw lib nb command (chained_answers pieces final sw1 sw2 @ rest, log)
      = Some (Inr (concat (map fst pieces) @ final @ [sw1, sw2]),
          (rest, log @ al_encode lib command # map (\<lambda>n. al_encode lib (command_get_response 0 0 n)) (map snd pieces)))"
    by (rule nfc_handle_raw_chain [OF assms])
  have "al_response lib (concat (map fst pieces) @ final @ [sw1, sw2]) = (concat (map fst pieces) @ final, sw1, sw2)"
    using assms(1) unfolding apdu_lib_laws_def by (metis append.assoc)
  then show "fst (the (nfc_handle lib nb command (chained_answers pieces final sw1 sw2 @ rest, log)))
      = (if sw1 = 0x90 \<and> sw2 = 0x00 then Inr (concat (map fst pieces) @ final) else Inl Nf_Apdu)"
    using assms(1) by (simp add: nfc_handle_def act_bind_def raw act_run apdu_lib_laws_def)
qed

section \<open>A CBOR exchange\<close>

text \<open>The chunks of a request: all but the last are full.\<close>

fun nfc_chunks :: "nat \<Rightarrow> bytes \<Rightarrow> bytes list" where
  "nfc_chunks 0 data = [data]"
| "nfc_chunks (Suc n) data =
     (if length data > 250 then take 250 data # nfc_chunks n (drop 250 data) else [data])"

definition nfc_chunk_commands :: "bytes list \<Rightarrow> apdu_command list" where
  "nfc_chunk_commands chunks =
     map (command_ctap_msg True) (butlast chunks) @ [command_ctap_msg False (last chunks)]"

lemma nfc_chunks_nonempty: "nfc_chunks n data \<noteq> []"
  by (cases n) simp_all

lemma nfc_handle_once:
  assumes "apdu_lib_laws lib" and "scripted_card nb" and "length a \<le> 1022"
  shows "nfc_handle lib nb command ((a @ [0x90, 0x00]) # rest, log)
    = Some (Inr a, (rest, log @ [al_encode lib command]))"
proof -
  have "nfc_handle_raw lib nb command ((a @ [0x90, 0x00]) # rest, log)
      = Some (Inr (a @ [0x90, 0x00]), (rest, log @ [al_encode lib command]))"
    using nfc_handle_raw_chain [OF assms(1,2), of "0x90" "[]" a "0x00" command rest log] assms(3)
    by (simp add: SW1_MORE_DATA_def chained_answers_def)
  then show ?thesis
    using assms(1) by (simp add: nfc_handle_def act_bind_def act_run apdu_lib_laws_def)
qed

lemma nfc_send_chunks_run:
  assumes "apdu_lib_laws lib" and "scripted_card nb" and "length a \<le> 1022" and "length data \<le> 250 * Suc n"
  shows "nfc_send_chunks lib nb data
      (replicate (length (nfc_chunks n data) - 1) [0x90, 0x00] @ (a @ [0x90, 0x00]) # rest, log)
    = Some (Inr a, (rest, log @ map (al_encode lib) (nfc_chunk_commands (nfc_chunks n data))))"
  using assms(4)
proof (induction n arbitrary: data log)
  case 0
  then show ?case
    using nfc_handle_once [OF assms(1-3)] by (subst nfc_send_chunks.simps) (simp add: nfc_chunk_commands_def)
next
  case (Suc n)
  show ?case
  proof (cases "length data > 250")
    case False
    then show ?thesis
      using nfc_handle_once [OF assms(1-3)] by (subst nfc_send_chunks.simps) (simp add: nfc_chunk_commands_def)
  next
    case True
    let ?more = "nfc_chunks n (drop 250 data)"
    have "length (drop 250 data) \<le> 250 * Suc n" using Suc.prems by simp
    note IH = Suc.IH [OF this]
    have ne: "0 < length ?more" using nfc_chunks_nonempty by blast
    have "replicate (length (nfc_chunks (Suc n) data) - 1) [0x90, 0x00]
        = [0x90, 0x00] # replicate (length ?more - 1) ([0x90, 0x00] :: bytes)"
      using True ne by (simp flip: replicate_Suc)
    moreover have "nfc_handle lib nb (command_ctap_msg True (take 250 data)) ([0x90, 0x00] # ys, log)
        = Some (Inr [], (ys, log @ [al_encode lib (command_ctap_msg True (take 250 data))]))" for ys log
      using nfc_handle_once [OF assms(1,2), of "[]"] by simp
    ultimately show ?thesis
      using True IH ne by (subst nfc_send_chunks.simps) (simp add: act_bind_def nfc_chunk_commands_def)
  qed
qed

lemma nfc_chunks_parts:
  assumes "length data \<le> 250 * Suc n"
  shows "concat (nfc_chunks n data) = data \<and> list_all (\<lambda>c. length c = 250) (butlast (nfc_chunks n data))
    \<and> length (last (nfc_chunks n data)) \<le> 250"
  using assms
proof (induction n arbitrary: data)
  case 0
  then show ?case by simp
next
  case (Suc n)
  then show ?case
    using Suc.IH [of "drop 250 data"] nfc_chunks_nonempty [of n "drop 250 data"] by auto
qed

text \<open>
  C40: A CBOR request is sent as a chain of commands whose payloads put together are the request,
  all but the last full and marked as having more; the answer to the last is the response, which
  is handed out once.
\<close>

theorem nfc_cbor_chaining:
  assumes "apdu_lib_laws lib" and "scripted_card nb" and "length reply \<le> 1021"
    and "length (cbor_ctap_hid_data request) \<le> 250 * Suc n"
  shows "\<exists>chunks. concat chunks = cbor_ctap_hid_data request
    \<and> list_all (\<lambda>c. length c = 250) (butlast chunks) \<and> length (last chunks) \<le> 250
    \<and> (\<forall>rest log c. nc_delegate c
          = (replicate (length chunks - 1) [0x90, 0x00] @ ((status # reply) @ [0x90, 0x00]) # rest, log) \<longrightarrow>
        (\<exists>c1. nfc_cbor_send lib nb request c = Some (Inr (), c1)
          \<and> nc_delegate c1 = (rest, log @ map (\<lambda>p. al_encode lib (command_ctap_msg True p)) (butlast chunks)
              @ [al_encode lib (command_ctap_msg False (last chunks))])
          \<and> nfc_cbor_recv c1 = Some (Inr \<lparr>cs_status_code = ctap_error_of_u8 status,
              cs_data = (if reply = [] then None else Some reply)\<rparr>, c1\<lparr>nc_cbor_response := None\<rparr>)
          \<and> nfc_cbor_recv (c1\<lparr>nc_cbor_response := None\<rparr>) = Some (Inl Nf_NoResponse, c1\<lparr>nc_cbor_response := None\<rparr>)))"
proof (intro exI [of _ "nfc_chunks n (cbor_ctap_hid_data request)"] conjI allI impI)
  let ?data = "cbor_ctap_hid_data request"
  let ?chunks = "nfc_chunks n ?data"
  show "concat ?chunks = ?data" "list_all (\<lambda>c. length c = 250) (butlast ?chunks)" "length (last ?chunks) \<le> 250"
    using nfc_chunks_parts [OF assms(4)] by simp_all
  fix rest log and c :: "card_script nfc_channel"
  assume c: "nc_delegate c
      = (replicate (length ?chunks - 1) [0x90, 0x00] @ ((status # reply) @ [0x90, 0x00]) # rest, log)"
  have len: "length (status # reply) \<le> 1022" using assms(3) by simp
  let ?r = "\<lparr>cs_status_code = ctap_error_of_u8 status, cs_data = (if reply = [] then None else Some reply)\<rparr>"
  let ?c1 = "c\<lparr>nc_delegate := (rest, log @ map (al_encode lib) (nfc_chunk_commands ?chunks)),
      nc_cbor_response := Some ?r\<rparr>"
  have "nfc_cbor_send lib nb request c = Some (Inr (), ?c1)"
    using nfc_send_chunks_run [OF assms(1,2) len assms(4), of rest log]
    by (simp add: nfc_cbor_send_def act_bind_def on_card_def c act_run)
  then show "\<exists>c1. nfc_cbor_send lib nb request c = Some (Inr (), c1)
      \<and> nc_delegate c1 = (rest, log @ map (\<lambda>p. al_encode lib (command_ctap_msg True p)) (butlast ?chunks)
          @ [al_encode lib (command_ctap_msg False (last ?chunks))])
      \<and> nfc_cbor_recv c1 = Some (Inr ?r, c1\<lparr>nc_cbor_response := None\<rparr>)
      \<and> nfc_cbor_recv (c1\<lparr>nc_cbor_response := None\<rparr>) = Some (Inl Nf_NoResponse, c1\<lparr>nc_cbor_response := None\<rparr>)"
    by (intro exI [of _ ?c1]) (simp add: nfc_chunk_commands_def nfc_cbor_recv_def)
qed

section \<open>Selecting the application\<close>

text \<open>What \<^verbatim>\<open>select_fido2\<close> learns when \<^verbatim>\<open>getInfo\<close> is answered with a status byte and a body.\<close>

definition nfc_expected_support :: "(bytes \<Rightarrow> get_info_response option) \<Rightarrow> bytes \<Rightarrow> u8 \<Rightarrow> bytes \<Rightarrow> bool \<times> bool" where
  "nfc_expected_support decode version status info =
     (if is_fido2_version version then (True, False)
      else if version = string_bytes ''U2F_V2''
      then (ctap_error_of_u8 status = Ctap_Ok \<and> info \<noteq> [] \<and> decode info \<noteq> None, True)
      else (False, False))"

lemma nfc_get_info_run:
  assumes "apdu_lib_laws lib" and "scripted_card nb" and "length info \<le> 1021"
    and "nc_delegate c = (((status # info) @ [0x90, 0x00]) # rest, log)"
  shows "\<exists>c1. nfc_get_info_is_ok lib nb decode c
    = Some (Inr (ctap_error_of_u8 status = Ctap_Ok \<and> info \<noteq> [] \<and> decode info \<noteq> None), c1)"
proof -
  let ?q = "cbor_request_new AuthenticatorGetInfo"
  have one: "nfc_chunks 0 (cbor_ctap_hid_data ?q) = [cbor_ctap_hid_data ?q]" by simp
  have "nfc_send_chunks lib nb (cbor_ctap_hid_data ?q) (nc_delegate c)
      = Some (Inr (status # info), (rest, log @ map (al_encode lib) (nfc_chunk_commands [cbor_ctap_hid_data ?q])))"
    using nfc_send_chunks_run [OF assms(1,2), of "status # info" "cbor_ctap_hid_data ?q" 0 rest log] assms(3)
    by (simp add: assms(4) cbor_ctap_hid_data_def cbor_request_new_def)
  then show ?thesis
    by (simp add: nfc_get_info_is_ok_def nfc_cbor_send_def nfc_cbor_recv_def on_card_def act_try_def
        act_bind_def act_run split: option.split)
qed

text \<open>
  C: Selecting the application classifies the authenticator by the version it answers: a FIDO2
  version is CTAP2 only, \<^verbatim>\<open>U2F_V2\<close> is CTAP1 and also CTAP2 when it answers getInfo with a
  decodable response, anything else is neither.
\<close>

theorem nfc_select_classifies:
  assumes "apdu_lib_laws lib" and "scripted_card nb" and "length version \<le> 1022" and "length info \<le> 1021"
    and "nc_delegate c = ((version @ [0x90, 0x00]) # ((status # info) @ [0x90, 0x00]) # rest, log)"
  shows "\<exists>c1. nfc_select_fido2 lib nb decode c = Some (Inr (), c1)
    \<and> nc_supported c1 = nfc_expected_support decode version status info"
proof -
  let ?log = "log @ [al_encode lib (al_select_file lib SELECT_P1 SELECT_P2 FIDO2_AID)]"
  let ?c = "c\<lparr>nc_delegate := (((status # info) @ [0x90, 0x00]) # rest, ?log)\<rparr>"
  have sel: "on_card (nfc_handle lib nb (al_select_file lib SELECT_P1 SELECT_P2 FIDO2_AID)) c = Some (Inr version, ?c)"
    using nfc_handle_once [OF assms(1-3)] by (simp add: on_card_def assms(5))
  obtain c1 where "nfc_get_info_is_ok lib nb decode ?c
      = Some (Inr (ctap_error_of_u8 status = Ctap_Ok \<and> info \<noteq> [] \<and> decode info \<noteq> None), c1)"
    using nfc_get_info_run [OF assms(1,2,4), of ?c status rest ?log decode] by auto
  then show ?thesis
    by (simp add: nfc_select_fido2_def act_bind_def sel act_run nfc_expected_support_def)
qed

section \<open>Concrete instances\<close>

definition example_apdu_lib :: apdu_lib where
  "example_apdu_lib =
     \<lparr>al_encode = \<lambda>c. [ac_cla c, ac_ins c, ac_p1 c, ac_p2 c]
        @ (case ac_payload c of None \<Rightarrow> [] | Some p \<Rightarrow> of_nat (length p) # p)
        @ (case ac_le c of None \<Rightarrow> [] | Some l \<Rightarrow> [ucast l]),
      al_select_file = \<lambda>p1 p2 name. \<lparr>ac_cla = 0, ac_ins = 0xA4, ac_p1 = p1, ac_p2 = p2,
        ac_le = None, ac_payload = Some name\<rparr>,
      al_response = \<lambda>r. (take (length r - 2) r, r ! (length r - 2), r ! (length r - 1)),
      al_result = \<lambda>(p, sw1, sw2). if sw1 = 0x90 \<and> sw2 = 0x00 then Some p else None\<rparr>"

definition example_card :: "card_script nfc_backend" where
  "example_card =
     \<lparr>nb_handle = \<lambda>command buf (answers, log).
        (case answers of
           [] \<Rightarrow> (Inl Nf_NoTarget, buf, (answers, log @ [command]))
         | a # answers \<Rightarrow> (Inr (length a), a @ drop (length a) buf, (answers, log @ [command])))\<rparr>"

lemma example_nfc: "apdu_lib_laws example_apdu_lib" "scripted_card example_card"
  by (simp_all add: apdu_lib_laws_def scripted_card_def example_apdu_lib_def example_card_def nth_append)

lemma nfc_response_reassembled_witness:
  "nfc_handle_raw example_apdu_lib example_card (command_ctap_msg False [4])
      (chained_answers [([1, 2], 3)] [9] 0x90 0x00 @ [], [])
      = Some (Inr (concat (map fst [([1, 2], 3 :: u8)]) @ [9] @ [0x90, 0x00]),
          ([], [] @ al_encode example_apdu_lib (command_ctap_msg False [4])
            # map (\<lambda>n. al_encode example_apdu_lib (command_get_response 0 0 n)) (map snd [([1, 2 :: u8], 3)])))
    \<and> fst (the (nfc_handle example_apdu_lib example_card (command_ctap_msg False [4])
        (chained_answers [([1, 2], 3)] [9] 0x90 0x00 @ [], [])))
      = (if (0x90 :: u8) = 0x90 \<and> (0x00 :: u8) = 0x00
         then Inr (concat (map fst [([1, 2], 3 :: u8)]) @ [9]) else Inl Nf_Apdu)"
  by (rule nfc_response_reassembled [OF example_nfc]) (simp_all add: SW1_MORE_DATA_def chained_answers_def)

lemma nfc_cbor_chaining_witness:
  "\<exists>chunks. concat chunks = cbor_ctap_hid_data \<lparr>cr_command = AuthenticatorGetAssertion, cr_encoded_data = replicate 300 7\<rparr>
    \<and> list_all (\<lambda>c. length c = 250) (butlast chunks) \<and> length (last chunks) \<le> 250
    \<and> (\<forall>rest log c. nc_delegate c
          = (replicate (length chunks - 1) [0x90, 0x00] @ ((0 # [0xA0]) @ [0x90, 0x00]) # rest, log) \<longrightarrow>
        (\<exists>c1. nfc_cbor_send example_apdu_lib example_card
              \<lparr>cr_command = AuthenticatorGetAssertion, cr_encoded_data = replicate 300 7\<rparr> c = Some (Inr (), c1)
          \<and> nc_delegate c1 = (rest, log @ map (\<lambda>p. al_encode example_apdu_lib (command_ctap_msg True p)) (butlast chunks)
              @ [al_encode example_apdu_lib (command_ctap_msg False (last chunks))])
          \<and> nfc_cbor_recv c1 = Some (Inr \<lparr>cs_status_code = ctap_error_of_u8 0,
              cs_data = (if [0xA0 :: u8] = [] then None else Some [0xA0])\<rparr>, c1\<lparr>nc_cbor_response := None\<rparr>)
          \<and> nfc_cbor_recv (c1\<lparr>nc_cbor_response := None\<rparr>) = Some (Inl Nf_NoResponse, c1\<lparr>nc_cbor_response := None\<rparr>)))"
  by (rule nfc_cbor_chaining [OF example_nfc, where n = 1]) (simp_all add: cbor_ctap_hid_data_def)

lemma nfc_select_classifies_witness:
  "\<exists>c1. nfc_select_fido2 example_apdu_lib example_card (\<lambda>_. Some get_info_default)
        (nfc_channel_new ((string_bytes ''U2F_V2'' @ [0x90, 0x00]) # ((0 # [0xA0]) @ [0x90, 0x00]) # [], []))
      = Some (Inr (), c1)
    \<and> nc_supported c1 = nfc_expected_support (\<lambda>_. Some get_info_default) (string_bytes ''U2F_V2'') 0 [0xA0]"
  by (rule nfc_select_classifies [OF example_nfc]) (simp_all add: nfc_channel_new_def string_bytes_def)

end
