(* ===== verification/Ble_Channel.thy ===== *)
theory Ble_Channel
  imports Ble_Framing Auth_Data Rust_Text
begin

text \<open>
  The BLE channel: bonding, service discovery and the negotiation of the FIDO revision
  (\<^verbatim>\<open>transport/ble/btleplug/manager.rs\<close>, \<^verbatim>\<open>pairing.rs\<close>, \<^verbatim>\<open>gatt.rs\<close>, \<^verbatim>\<open>connection.rs\<close>) and the
  operations of \<^verbatim>\<open>transport/ble/channel.rs\<close> over the frames of \<open>Ble_Framing\<close>.  The
  Bluetooth stack is a parameter.
\<close>

section \<open>The peripheral\<close>

record ble_characteristic =
  bch_uuid :: string
  bch_properties :: "char_prop set"

text \<open>
  Operations of btleplug and of the system bus: \<open>False\<close> and \<open>None\<close> are failures.  A managed object
  of bluez is its path and, when it has the interface \<^verbatim>\<open>org.bluez.Device1\<close>, its properties
  \<^verbatim>\<open>Paired\<close> and \<^verbatim>\<open>Bonded\<close>.  \<open>bp_address\<close> is the address in lower-case hexadecimal.
\<close>

type_synonym managed_object = "string \<times> (bool option \<times> bool option) option"

record 'w ble_peripheral =
  bp_address :: string
  bp_connect :: "'w \<Rightarrow> bool \<times> 'w"
  bp_discover :: "'w \<Rightarrow> bool \<times> 'w"
  bp_characteristics :: "'w \<Rightarrow> ble_characteristic list"
  bp_read :: "string \<Rightarrow> 'w \<Rightarrow> bytes option \<times> 'w"
  bp_write :: "string \<Rightarrow> gatt_write_type \<Rightarrow> bytes \<Rightarrow> 'w \<Rightarrow> bool \<times> 'w"
  bp_subscribe :: "string \<Rightarrow> 'w \<Rightarrow> bool \<times> 'w"
  bp_notifications :: "'w \<Rightarrow> bool \<times> 'w"
  bp_managed_objects :: "'w \<Rightarrow> managed_object list option \<times> 'w"

text \<open>\<^verbatim>\<open>operation.await.or(Err(e))?\<close>\<close>

definition on_gatt :: "gatt_error \<Rightarrow> ('w \<Rightarrow> bool \<times> 'w) \<Rightarrow> ('w, gatt_error, unit) action" where
  "on_gatt e f w = (case f w of (ok, w) \<Rightarrow> Some (if ok then Inr () else Inl e, w))"

definition on_gatt_read :: "gatt_error \<Rightarrow> ('w \<Rightarrow> 'a option \<times> 'w) \<Rightarrow> ('w, gatt_error, 'a) action" where
  "on_gatt_read e f w = (case f w of (x, w) \<Rightarrow> Some (ok_or e x, w))"

section \<open>Bonding\<close>

datatype bonding_state = Bonded | NotBonded | Bonding_Unknown

definition ascii_upper :: "char \<Rightarrow> char" where
  "ascii_upper c =
     (let n = of_char c :: nat in if 97 \<le> n \<and> n \<le> 122 then char_of (n - 32) else c)"

definition bluez_dev_segment :: "string \<Rightarrow> string" where
  "bluez_dev_segment mac_lower =
     ''dev_'' @ map ascii_upper (map (\<lambda>c. if c = CHR '':'' then CHR ''_'' else c) mac_lower)"

text \<open>The loop over the managed objects: the first device with this address decides.\<close>

fun query_bluez_bonded :: "string \<Rightarrow> managed_object list \<Rightarrow> (bool \<times> bool) option" where
  "query_bluez_bonded dev_segment [] = None"
| "query_bluez_bonded dev_segment ((path, interface) # objects) =
     (if \<not> starts_with ''/org/bluez/'' path \<or> \<not> ends_with dev_segment path
      then query_bluez_bonded dev_segment objects
      else case interface of
        None \<Rightarrow> query_bluez_bonded dev_segment objects
      | Some (paired, bonded) \<Rightarrow> Some (paired = Some True, bonded = Some True))"

definition check_bonded :: "'w ble_peripheral \<Rightarrow> 'w \<Rightarrow> bonding_state \<times> 'w" where
  "check_bonded bp w =
     (case bp_managed_objects bp w of
        (None, w) \<Rightarrow> (Bonding_Unknown, w)
      | (Some objects, w) \<Rightarrow>
          (case query_bluez_bonded (bluez_dev_segment (bp_address bp)) objects of
             None \<Rightarrow> Bonding_Unknown
           | Some (paired, bonded) \<Rightarrow> if paired \<and> bonded then Bonded else NotBonded, w))"

definition bonded_or_refused :: "bonding_state \<Rightarrow> gatt_error + unit" where
  "bonded_or_refused state = (if state = Bonded then Inr () else Inl Gatt_ConnectionFailed)"

definition enforce_bonded :: "'w ble_peripheral \<Rightarrow> ('w, gatt_error, unit) action" where
  "enforce_bonded bp w = (case check_bonded bp w of (state, w) \<Rightarrow> Some (bonded_or_refused state, w))"

section \<open>Services\<close>

definition FIDO_CONTROL_POINT_UUID :: string where
  "FIDO_CONTROL_POINT_UUID = ''f1d0fff1-deaa-ecee-b42f-c9ba7ed623bb''"
definition FIDO_STATUS_UUID :: string where
  "FIDO_STATUS_UUID = ''f1d0fff2-deaa-ecee-b42f-c9ba7ed623bb''"
definition FIDO_CONTROL_POINT_LENGTH_UUID :: string where
  "FIDO_CONTROL_POINT_LENGTH_UUID = ''f1d0fff3-deaa-ecee-b42f-c9ba7ed623bb''"
definition FIDO_REVISION_BITFIELD_UUID :: string where
  "FIDO_REVISION_BITFIELD_UUID = ''f1d0fff4-deaa-ecee-b42f-c9ba7ed623bb''"

record fido_endpoints =
  fe_control_point :: ble_characteristic
  fe_control_point_length :: ble_characteristic
  fe_status :: ble_characteristic
  fe_service_revision_bitfield :: ble_characteristic

definition get_gatt_characteristic :: "'w ble_peripheral \<Rightarrow> string \<Rightarrow> ('w, gatt_error, ble_characteristic) action" where
  "get_gatt_characteristic bp uuid w =
     Some (ok_or Gatt_ConnectionFailed (List.find (\<lambda>c. bch_uuid c = uuid) (bp_characteristics bp w)), w)"

definition discover_services :: "'w ble_peripheral \<Rightarrow> ('w, gatt_error, fido_endpoints) action" where
  "discover_services bp =
     act_bind (get_gatt_characteristic bp FIDO_CONTROL_POINT_UUID) (\<lambda>control_point.
     act_bind (get_gatt_characteristic bp FIDO_CONTROL_POINT_LENGTH_UUID) (\<lambda>control_point_length.
     act_bind (get_gatt_characteristic bp FIDO_STATUS_UUID) (\<lambda>status.
     act_bind (get_gatt_characteristic bp FIDO_REVISION_BITFIELD_UUID) (\<lambda>service_revision_bitfield.
     act_return \<lparr>fe_control_point = control_point, fe_control_point_length = control_point_length,
       fe_status = status, fe_service_revision_bitfield = service_revision_bitfield\<rparr>))))"

section \<open>Revisions\<close>

record supported_revisions =
  sr_u2fv11 :: bool
  sr_u2fv12 :: bool
  sr_v2 :: bool

fun fido_revision_to_u8 :: "fido_revision \<Rightarrow> u8" where
  "fido_revision_to_u8 Rev_V2 = 0x20"
| "fido_revision_to_u8 Rev_U2fv12 = 0x40"
| "fido_revision_to_u8 Rev_U2fv11 = 0x80"

fun select_protocol :: "supported_revisions \<Rightarrow> fido_protocol \<Rightarrow> fido_revision option" where
  "select_protocol r FIDO2 = (if sr_v2 r then Some Rev_V2 else None)"
| "select_protocol r U2F =
     (if sr_u2fv12 r then Some Rev_U2fv12 else if sr_u2fv11 r then Some Rev_U2fv11 else None)"

definition select_best :: "supported_revisions \<Rightarrow> fido_revision option" where
  "select_best r =
     (case select_protocol r FIDO2 of Some x \<Rightarrow> Some x | None \<Rightarrow> select_protocol r U2F)"

text \<open>The pairs are (\<^verbatim>\<open>fido2\<close>, \<^verbatim>\<open>u2f\<close>), as the ceremonies take them.\<close>

definition protocols_u2f_only :: "bool \<times> bool" where "protocols_u2f_only = (False, True)"
definition protocols_fido2_only :: "bool \<times> bool" where "protocols_fido2_only = (True, False)"

definition protocols_of_revisions :: "supported_revisions \<Rightarrow> bool \<times> bool" where
  "protocols_of_revisions r = (sr_v2 r, sr_u2fv11 r \<or> sr_u2fv12 r)"

fun protocols_of_revision :: "fido_revision \<Rightarrow> bool \<times> bool" where
  "protocols_of_revision Rev_V2 = protocols_fido2_only"
| "protocols_of_revision Rev_U2fv12 = protocols_u2f_only"
| "protocols_of_revision Rev_U2fv11 = protocols_u2f_only"

definition revisions_of_bitfield :: "u8 \<Rightarrow> supported_revisions" where
  "revisions_of_bitfield bitfield =
     \<lparr>sr_u2fv11 = bitfield AND fido_revision_to_u8 Rev_U2fv11 \<noteq> 0x00,
      sr_u2fv12 = bitfield AND fido_revision_to_u8 Rev_U2fv12 \<noteq> 0x00,
      sr_v2 = bitfield AND fido_revision_to_u8 Rev_V2 \<noteq> 0x00\<rparr>"

definition supported_fido_revisions :: "'w ble_peripheral \<Rightarrow> ('w, gatt_error, supported_revisions) action" where
  "supported_fido_revisions bp =
     act_bind (enforce_bonded bp) (\<lambda>_.
     act_bind (on_gatt Gatt_ConnectionFailed (bp_connect bp)) (\<lambda>_.
     act_bind (on_gatt Gatt_ConnectionFailed (bp_discover bp)) (\<lambda>_.
     act_bind (discover_services bp) (\<lambda>services.
     act_bind (on_gatt_read Gatt_ConnectionFailed
       (bp_read bp (bch_uuid (fe_service_revision_bitfield services)))) (\<lambda>revision.
     act_bind (act_lift (ok_or Gatt_OperationFailed (slice_get revision 0))) (\<lambda>bitfield.
     act_return (revisions_of_bitfield bitfield)))))))"

section \<open>Connecting\<close>

definition select_fido_revision :: "'w ble_peripheral \<Rightarrow> fido_endpoints \<Rightarrow> fido_revision
    \<Rightarrow> ('w, gatt_error, unit) action" where
  "select_fido_revision bp services revision =
     (let characteristic = fe_service_revision_bitfield services
      in on_gatt Gatt_OperationFailed (bp_write bp (bch_uuid characteristic)
           (write_type_for (bch_properties characteristic)) [fido_revision_to_u8 revision]))"

definition connection_subscribe :: "'w ble_peripheral \<Rightarrow> fido_endpoints \<Rightarrow> ('w, gatt_error, unit) action" where
  "connection_subscribe bp services =
     on_gatt Gatt_OperationFailed (bp_subscribe bp (bch_uuid (fe_status services)))"

text \<open>A connection is its endpoints; the notification stream is the event list of the channel.\<close>

definition connection_new :: "'w ble_peripheral \<Rightarrow> fido_endpoints \<Rightarrow> fido_revision
    \<Rightarrow> ('w, gatt_error, fido_endpoints) action" where
  "connection_new bp services revision =
     act_bind (connection_subscribe bp services) (\<lambda>_.
     act_bind (on_gatt Gatt_OperationFailed (bp_notifications bp)) (\<lambda>_.
     act_bind (select_fido_revision bp services revision) (\<lambda>_.
     act_return services)))"

definition ble_connect :: "'w ble_peripheral \<Rightarrow> fido_revision \<Rightarrow> ('w, gatt_error, fido_endpoints) action" where
  "ble_connect bp revision =
     act_bind (on_gatt Gatt_ConnectionFailed (bp_connect bp)) (\<lambda>_.
     act_bind (enforce_bonded bp) (\<lambda>_.
     act_bind (on_gatt Gatt_ConnectionFailed (bp_discover bp)) (\<lambda>_.
     act_bind (discover_services bp) (\<lambda>services.
     connection_new bp services revision))))"

section \<open>The channel\<close>

datatype ble_error = Be_Gatt gatt_error | Be_Framing io_error | Be_NegotiationFailed | Be_Cancelled
  | Be_UnexpectedFrame

record ble_channel =
  bc_services :: fido_endpoints
  bc_revision :: fido_revision

definition ble_channel_new :: "'w ble_peripheral \<Rightarrow> supported_revisions
    \<Rightarrow> ('w, ble_error webauthn_error, ble_channel) action" where
  "ble_channel_new bp revisions =
     act_bind (act_lift (ok_or (We_Transport Be_NegotiationFailed) (select_best revisions))) (\<lambda>revision.
     act_bind (act_map_err (We_Transport \<circ> Be_Gatt) (ble_connect bp revision)) (\<lambda>connection.
     act_bind (act_map_err (We_Transport \<circ> Be_Gatt) (connection_subscribe bp connection)) (\<lambda>_.
     act_return \<lparr>bc_services = connection, bc_revision = revision\<rparr>)))"

text \<open>\<^verbatim>\<open>BleDevice::channel\<close>: \<open>cached\<close> are the revisions the device already knows.\<close>

definition device_supported_revisions :: "'w ble_peripheral \<Rightarrow> supported_revisions option
    \<Rightarrow> ('w, ble_error, supported_revisions \<times> supported_revisions option) action" where
  "device_supported_revisions bp cached =
     (case cached of
        None \<Rightarrow>
          act_bind (act_map_err Be_Gatt (supported_fido_revisions bp)) (\<lambda>revisions.
          act_return (revisions, Some revisions))
      | Some revisions \<Rightarrow> act_return (revisions, cached))"

definition ble_device_channel :: "'w ble_peripheral \<Rightarrow> supported_revisions option
    \<Rightarrow> ('w, ble_error webauthn_error, ble_channel) action" where
  "ble_device_channel bp cached =
     act_bind (act_map_err We_Transport (device_supported_revisions bp cached)) (\<lambda>(revisions, _).
     ble_channel_new bp revisions)"

definition ble_supported_protocols :: "ble_channel \<Rightarrow> bool \<times> bool" where
  "ble_supported_protocols c = protocols_of_revision (bc_revision c)"

text \<open>The peripheral as the framing sees it, and its operations on the state with the events.\<close>

definition ble_gatt :: "'w ble_peripheral \<Rightarrow> fido_endpoints \<Rightarrow> 'w gatt_peripheral" where
  "ble_gatt bp services =
     \<lparr>gatt_read_length = bp_read bp (bch_uuid (fe_control_point_length services)),
      gatt_write = bp_write bp (bch_uuid (fe_control_point services)),
      gatt_properties = bch_properties (fe_control_point services)\<rparr>"

type_synonym ('w, 'a) ble_action = "('w \<times> ble_event list, ble_error, 'a) action"

definition ble_send_frame :: "'w ble_peripheral \<Rightarrow> ble_channel \<Rightarrow> ble_frame \<Rightarrow> ('w, unit) ble_action" where
  "ble_send_frame bp c frame s =
     (case s of (w, events) \<Rightarrow>
        case ble_frame_send (ble_gatt bp (bc_services c)) frame w of
          (r, w) \<Rightarrow> Some (map_err Be_Gatt r, (w, events)))"

definition ble_recv_frame_data :: "'w ble_peripheral \<Rightarrow> ble_channel \<Rightarrow> ('w, ble_frame) ble_action" where
  "ble_recv_frame_data bp c s =
     (case s of (w, events) \<Rightarrow>
        case ble_frame_recv (ble_gatt bp (bc_services c)) events w of
          None \<Rightarrow> None
        | Some (r, events, w) \<Rightarrow> Some (map_err Be_Gatt r, (w, events)))"

fun ble_check_command :: "ble_command \<Rightarrow> ble_error + unit" where
  "ble_check_command Ble_Error = Inl Be_UnexpectedFrame"
| "ble_check_command Ble_Cancel = Inl Be_Cancelled"
| "ble_check_command Ble_Keepalive = Inl Be_UnexpectedFrame"
| "ble_check_command Ble_Ping = Inl Be_UnexpectedFrame"
| "ble_check_command Ble_Msg = Inr ()"

definition ble_apdu_send :: "'w ble_peripheral \<Rightarrow> ble_channel \<Rightarrow> apdu_request \<Rightarrow> ('w, unit) ble_action" where
  "ble_apdu_send bp c request =
     act_bind (act_lift (map_err Be_Framing (apdu_raw_long request))) (\<lambda>packet.
     ble_send_frame bp c (ble_frame_new Ble_Msg packet))"

definition ble_apdu_recv :: "'w ble_peripheral \<Rightarrow> ble_channel \<Rightarrow> ('w, apdu_response) ble_action" where
  "ble_apdu_recv bp c =
     act_bind (ble_recv_frame_data bp c) (\<lambda>frame.
     act_bind (act_lift (ble_check_command (bf_cmd frame))) (\<lambda>_.
     act_lift (map_err Be_Framing (apdu_response_of_bytes (bf_data frame)))))"

definition ble_cbor_send :: "'w ble_peripheral \<Rightarrow> ble_channel \<Rightarrow> cbor_request \<Rightarrow> ('w, unit) ble_action" where
  "ble_cbor_send bp c request =
     act_bind (act_lift (map_err Be_Framing (cbor_raw_long request))) (\<lambda>packet.
     ble_send_frame bp c (ble_frame_new Ble_Msg packet))"

definition ble_cbor_recv :: "'w ble_peripheral \<Rightarrow> ble_channel \<Rightarrow> ('w, cbor_response) ble_action" where
  "ble_cbor_recv bp c =
     act_bind (ble_recv_frame_data bp c) (\<lambda>frame.
     act_bind (act_lift (ble_check_command (bf_cmd frame))) (\<lambda>_.
     act_lift (map_err Be_Framing (cbor_response_of_bytes (bf_data frame)))))"

section \<open>Bonding is enforced\<close>

lemma keeps_enforce_bonded:
  assumes "\<And>w. P w \<Longrightarrow> P (snd (bp_managed_objects bp w))"
  shows "keeps P (enforce_bonded bp)"
proof (rule keepsI)
  fix w r w'
  assume "P w" and "enforce_bonded bp w = Some (r, w')"
  then show "P w'"
    using assms [of w] by (auto simp: enforce_bonded_def check_bonded_def split: prod.splits option.splits)
qed

text \<open>
  C30: Over a link that the system does not report as paired and bonded, a channel is never opened,
  and nothing is read from the peripheral, written to it or subscribed: whatever property of the
  peripheral connecting and asking for the bonding state keep, opening a channel keeps it.
\<close>

theorem ble_unbonded_no_io:
  assumes "\<And>w. P w \<Longrightarrow> P (snd (bp_connect bp w))"
    and "\<And>w. P w \<Longrightarrow> P (snd (bp_managed_objects bp w))"
    and "\<And>w. P w \<Longrightarrow> fst (check_bonded bp w) \<noteq> Bonded" and "P w"
  shows "\<exists>e w'. ble_device_channel bp cached w = Some (Inl (We_Transport e), w') \<and> P w'
    \<and> (e = Be_Gatt Gatt_ConnectionFailed \<or> e = Be_NegotiationFailed)"
proof -
  have refused: "\<exists>w'. enforce_bonded bp v = Some (Inl Gatt_ConnectionFailed, w') \<and> P w'" if "P v" for v
  proof -
    obtain state w' where s: "check_bonded bp v = (state, w')" by fastforce
    then have "enforce_bonded bp v = Some (Inl Gatt_ConnectionFailed, w')"
      using assms(3) [OF that] by (simp add: enforce_bonded_def bonded_or_refused_def)
    then show ?thesis
      using keeps_enforce_bonded [of P bp] assms(2) that by (auto dest: keepsD)
  qed
  have connect: "\<exists>w'. ble_connect bp revision v = Some (Inl Gatt_ConnectionFailed, w') \<and> P w'"
    if v: "P v" for v revision
  proof -
    obtain ok v1 where c: "bp_connect bp v = (ok, v1)" by fastforce
    then have "P v1" using assms(1) [OF v] by simp
    then obtain w' where "enforce_bonded bp v1 = Some (Inl Gatt_ConnectionFailed, w')" "P w'"
      using refused by blast
    then show ?thesis
      using c \<open>P v1\<close> by (cases ok) (simp_all add: ble_connect_def act_bind_def on_gatt_def)
  qed
  have new: "\<exists>e w'. ble_channel_new bp revisions v = Some (Inl (We_Transport e), w') \<and> P w'
      \<and> (e = Be_Gatt Gatt_ConnectionFailed \<or> e = Be_NegotiationFailed)" if "P v" for v revisions
  proof (cases "select_best revisions")
    case None
    then show ?thesis using that by (simp add: ble_channel_new_def act_run)
  next
    case (Some revision)
    then show ?thesis
      using connect [OF that, of revision]
      by (auto simp: ble_channel_new_def act_bind_def act_map_err_def act_try_def act_run)
  qed
  show ?thesis
  proof (cases cached)
    case None
    then show ?thesis
      using refused [OF assms(4)]
      by (auto simp: ble_device_channel_def device_supported_revisions_def supported_fido_revisions_def
          act_bind_def act_map_err_def act_try_def act_run)
  next
    case (Some revisions)
    then show ?thesis
      using new [OF assms(4), of revisions]
      by (auto simp: ble_device_channel_def device_supported_revisions_def act_bind_def act_map_err_def
          act_try_def act_run)
  qed
qed

section \<open>The revision\<close>

lemma select_best_bits:
  "select_best (revisions_of_bitfield b) = Some rv \<longleftrightarrow>
    (case rv of
       Rev_V2 \<Rightarrow> b AND 0x20 \<noteq> 0
     | Rev_U2fv12 \<Rightarrow> b AND 0x20 = 0 \<and> b AND 0x40 \<noteq> 0
     | Rev_U2fv11 \<Rightarrow> b AND 0x20 = 0 \<and> b AND 0x40 = 0 \<and> b AND 0x80 \<noteq> 0)"
  by (cases rv) (auto simp: select_best_def revisions_of_bitfield_def split: option.splits if_splits)

lemma discover_services_uuids:
  assumes "discover_services bp w = Some (Inr services, w')"
  shows "w' = w \<and> bch_uuid (fe_control_point services) = FIDO_CONTROL_POINT_UUID
    \<and> bch_uuid (fe_control_point_length services) = FIDO_CONTROL_POINT_LENGTH_UUID
    \<and> bch_uuid (fe_status services) = FIDO_STATUS_UUID
    \<and> bch_uuid (fe_service_revision_bitfield services) = FIDO_REVISION_BITFIELD_UUID"
  using assms
  by (auto simp: discover_services_def get_gatt_characteristic_def act_run find_Some_iff
      elim!: act_bind_InrE)

lemma on_gatt_Inr: "on_gatt e f w = Some (Inr u, w') \<longleftrightarrow> f w = (True, w')"
  by (auto simp: on_gatt_def split: prod.splits if_splits)

lemma act_map_err_Inr: "act_map_err h m s = Some (Inr x, t) \<longleftrightarrow> m s = Some (Inr x, t)"
  by (auto simp: act_map_err_def act_try_def act_run split: option.splits)

text \<open>
  C: A channel opened on a device uses the best revision of the bitfield the device gave, FIDO2
  before U2F 1.2 before U2F 1.1; exactly the bit of that revision is written back to the
  device, and the channel reports the protocol of that revision and no other.
\<close>

theorem ble_revision_negotiated:
  assumes "ble_device_channel bp None w = Some (Inr c, w')"
  shows "\<exists>bitfield rest w1 w2 wt w3 w4. bp_read bp FIDO_REVISION_BITFIELD_UUID w1 = (Some (bitfield # rest), w2)
    \<and> (case bc_revision c of
         Rev_V2 \<Rightarrow> bitfield AND 0x20 \<noteq> 0
       | Rev_U2fv12 \<Rightarrow> bitfield AND 0x20 = 0 \<and> bitfield AND 0x40 \<noteq> 0
       | Rev_U2fv11 \<Rightarrow> bitfield AND 0x20 = 0 \<and> bitfield AND 0x40 = 0 \<and> bitfield AND 0x80 \<noteq> 0)
    \<and> bp_write bp FIDO_REVISION_BITFIELD_UUID wt [fido_revision_to_u8 (bc_revision c)] w3 = (True, w4)
    \<and> bitfield AND fido_revision_to_u8 (bc_revision c) \<noteq> 0
    \<and> ble_supported_protocols c = (bc_revision c = Rev_V2, bc_revision c \<noteq> Rev_V2)"
proof -
  obtain revisions v where revs: "supported_fido_revisions bp w = Some (Inr revisions, v)"
      and new: "ble_channel_new bp revisions v = Some (Inr c, w')"
    using assms by (auto simp: ble_device_channel_def device_supported_revisions_def act_map_err_Inr
        act_run elim!: act_bind_InrE)
  obtain services v0 v1 bytes v2 where disc: "discover_services bp v0 = Some (Inr services, v1)"
      and "bp_read bp (bch_uuid (fe_service_revision_bitfield services)) v1 = (Some bytes, v2)"
      and bit: "slice_get bytes 0 \<noteq> None" "revisions = revisions_of_bitfield (the (slice_get bytes 0))"
    using revs by (auto simp: supported_fido_revisions_def on_gatt_read_def act_run
        elim!: act_bind_InrE split: prod.splits)
  then have read: "bp_read bp FIDO_REVISION_BITFIELD_UUID v1 = (Some bytes, v2)"
    using discover_services_uuids [OF disc] by simp
  obtain bitfield rest where b: "bytes = bitfield # rest"
    using bit(1) by (cases bytes) (auto simp: slice_get_def)
  then have revisions: "revisions = revisions_of_bitfield bitfield"
    using bit(2) by (simp add: slice_get_def)
  have best: "select_best revisions = Some (bc_revision c)"
    using new by (auto simp: ble_channel_new_def act_run elim!: act_bind_InrE)
  obtain services' v3 v3' v4 v5 where disc': "discover_services bp v3 = Some (Inr services', v3')"
      and "bp_write bp (bch_uuid (fe_service_revision_bitfield services'))
        (write_type_for (bch_properties (fe_service_revision_bitfield services')))
        [fido_revision_to_u8 (bc_revision c)] v4 = (True, v5)"
    using new by (auto simp: ble_channel_new_def ble_connect_def connection_new_def select_fido_revision_def
        act_map_err_Inr on_gatt_Inr act_run Let_def elim!: act_bind_InrE)
  then have ack: "\<exists>wt. bp_write bp FIDO_REVISION_BITFIELD_UUID wt [fido_revision_to_u8 (bc_revision c)] v4 = (True, v5)"
    using discover_services_uuids [OF disc'] by auto
  have bits: "case bc_revision c of
         Rev_V2 \<Rightarrow> bitfield AND 0x20 \<noteq> 0
       | Rev_U2fv12 \<Rightarrow> bitfield AND 0x20 = 0 \<and> bitfield AND 0x40 \<noteq> 0
       | Rev_U2fv11 \<Rightarrow> bitfield AND 0x20 = 0 \<and> bitfield AND 0x40 = 0 \<and> bitfield AND 0x80 \<noteq> 0"
    using best by (simp add: revisions select_best_bits)
  then have "bitfield AND fido_revision_to_u8 (bc_revision c) \<noteq> 0"
    by (cases "bc_revision c") simp_all
  moreover have "ble_supported_protocols c = (bc_revision c = Rev_V2, bc_revision c \<noteq> Rev_V2)"
    by (cases "bc_revision c")
      (simp_all add: ble_supported_protocols_def protocols_fido2_only_def protocols_u2f_only_def)
  ultimately show ?thesis
    using read ack bits unfolding b by blast
qed

section \<open>An exchange\<close>

text \<open>A peripheral that takes every write, logs it, and announces a fragment length.\<close>

definition logging_peripheral :: "bytes list ble_peripheral \<Rightarrow> u16 \<Rightarrow> bool" where
  "logging_peripheral bp n \<longleftrightarrow>
     (\<forall>log. bp_read bp FIDO_CONTROL_POINT_LENGTH_UUID log = (Some (be_u16 n), log))
     \<and> (\<forall>wt x log. bp_write bp FIDO_CONTROL_POINT_UUID wt x log = (True, log @ [x]))"

definition fido_services :: "fido_endpoints \<Rightarrow> bool" where
  "fido_services services \<longleftrightarrow>
     bch_uuid (fe_control_point services) = FIDO_CONTROL_POINT_UUID
     \<and> bch_uuid (fe_control_point_length services) = FIDO_CONTROL_POINT_LENGTH_UUID"

lemma ble_logged_writes:
  assumes "\<And>wt x log. gatt_write io wt x log = (True, log @ [x])"
  shows "ble_write_fragments io wt fragments log = (Inr (), log @ fragments)"
  by (induction fragments arbitrary: log) (simp_all add: assms)

lemma ble_logged_send:
  assumes "logging_peripheral bp n" and "fido_services (bc_services c)" and "ble_fragments frame (unat n) = Inr ps"
  shows "ble_send_frame bp c frame (log, events) = Some (Inr (), (log @ ps, events))"
proof -
  have "ble_control_point_length (ble_gatt bp (bc_services c)) log = (Inr (unat n), log)"
    using assms(1,2) read_u16_be_append [of n "[]"]
    by (simp add: ble_control_point_length_def ble_gatt_def logging_peripheral_def fido_services_def)
  moreover have "ble_write_fragments (ble_gatt bp (bc_services c)) wt ps log = (Inr (), log @ ps)" for wt
    using assms(1,2) by (intro ble_logged_writes) (simp add: ble_gatt_def logging_peripheral_def fido_services_def)
  ultimately show ?thesis
    using assms(3) by (simp add: ble_send_frame_def ble_frame_send_def)
qed

text \<open>
  C: A CBOR exchange over BLE: the device assembles exactly the request from the fragments
  written to its control point, and the caller gets the first message after the keep-alives,
  decoded, or the error that a cancel or an error frame stands for.
\<close>

theorem ble_cbor_exchange:
  assumes "logging_peripheral bp n" and "fido_services (bc_services c)"
    and "ble_carried (ble_frame_new Ble_Msg (cbor_ctap_hid_data request))"
    and "ble_fragments (ble_frame_new Ble_Msg (cbor_ctap_hid_data request)) (unat n) = Inr qs"
    and "list_all2 (\<lambda>k ps. ble_carried k \<and> bf_cmd k = Ble_Keepalive \<and> ble_fragments k (unat n) = Inr ps) ks pss"
    and "ble_carried reply" and "ble_fragments reply (unat n) = Inr ps"
    and "bf_cmd reply \<in> {Ble_Msg, Ble_Cancel, Ble_Error}"
  shows "\<exists>fragments. ble_cbor_send bp c request (log, map Ble_Notification (concat pss @ ps) @ events)
        = Some (Inr (), (log @ fragments, map Ble_Notification (concat pss @ ps) @ events))
    \<and> receive ble_update_done ble_parser_frame ble_parser_new fragments
        = Some (Inr (ble_frame_new Ble_Msg (cbor_ctap_hid_data request)), [])
    \<and> ble_cbor_recv bp c (log @ fragments, map Ble_Notification (concat pss @ ps) @ events)
        = Some (case bf_cmd reply of
              Ble_Msg \<Rightarrow> map_err Be_Framing (cbor_response_of_bytes (bf_data reply))
            | Ble_Cancel \<Rightarrow> Inl (Be_Gatt Gatt_Canceled)
            | _ \<Rightarrow> Inl (Be_Gatt Gatt_OperationFailed), (log @ fragments, events))"
proof (intro exI [of _ qs] conjI)
  let ?events = "map Ble_Notification (concat pss @ ps) @ events"
  have "cbor_raw_long request = Inr (cbor_ctap_hid_data request)"
    by (simp add: cbor_raw_long_def cbor_ctap_hid_data_def)
  then show "ble_cbor_send bp c request (log, ?events) = Some (Inr (), (log @ qs, ?events))"
    using ble_logged_send [OF assms(1,2,4)] by (simp add: ble_cbor_send_def)
  show "receive ble_update_done ble_parser_frame ble_parser_new qs
      = Some (Inr (ble_frame_new Ble_Msg (cbor_ctap_hid_data request)), [])"
    using ble.receive_one [OF assms(3,4), of "[]"] by simp
  have "ble_recv_frame_data bp c (log @ qs, ?events)
      = Some (case bf_cmd reply of Ble_Msg \<Rightarrow> Inr reply | Ble_Cancel \<Rightarrow> Inl (Be_Gatt Gatt_Canceled)
          | _ \<Rightarrow> Inl (Be_Gatt Gatt_OperationFailed), (log @ qs, events))"
    using ble_frame_recv_after_keepalives [OF assms(5-8), of "ble_gatt bp (bc_services c)" events "log @ qs"] assms(8)
    by (auto simp: ble_recv_frame_data_def)
  then show "ble_cbor_recv bp c (log @ qs, ?events)
      = Some (case bf_cmd reply of
              Ble_Msg \<Rightarrow> map_err Be_Framing (cbor_response_of_bytes (bf_data reply))
            | Ble_Cancel \<Rightarrow> Inl (Be_Gatt Gatt_Canceled)
            | _ \<Rightarrow> Inl (Be_Gatt Gatt_OperationFailed), (log @ qs, events))"
    using assms(8) by (auto simp: ble_cbor_recv_def act_bind_def act_run)
qed

section \<open>Concrete instances\<close>

text \<open>A bonded peripheral whose state is the log of the writes, and the same without its bond.\<close>

definition example_ble_services :: "ble_characteristic list" where
  "example_ble_services =
     map (\<lambda>u. \<lparr>bch_uuid = u, bch_properties = {CharProp_Write}\<rparr>)
       [FIDO_CONTROL_POINT_UUID, FIDO_STATUS_UUID, FIDO_CONTROL_POINT_LENGTH_UUID, FIDO_REVISION_BITFIELD_UUID]"

definition example_ble_peripheral :: "managed_object list \<Rightarrow> bytes list ble_peripheral" where
  "example_ble_peripheral objects =
     \<lparr>bp_address = ''0a:1b'', bp_connect = \<lambda>log. (True, log), bp_discover = \<lambda>log. (True, log),
      bp_characteristics = \<lambda>_. example_ble_services,
      bp_read = \<lambda>uuid log. (Some (if uuid = FIDO_CONTROL_POINT_LENGTH_UUID then be_u16 4 else [0xA0]), log),
      bp_write = \<lambda>uuid wt x log. (True, log @ [x]),
      bp_subscribe = \<lambda>_ log. (True, log), bp_notifications = \<lambda>log. (True, log),
      bp_managed_objects = \<lambda>log. (Some objects, log)\<rparr>"

definition example_bond :: "bool \<Rightarrow> managed_object" where
  "example_bond bonded = (''/org/bluez/hci0/dev_0A_1B'', Some (Some True, Some bonded))"

lemma example_bond_query:
  "query_bluez_bonded (bluez_dev_segment ''0a:1b'') [example_bond b] = Some (True, b)"
  by (cases b) code_simp+

lemma ble_unbonded_no_io_witness:
  "\<exists>e w'. ble_device_channel (example_ble_peripheral [example_bond False]) None [] = Some (Inl (We_Transport e), w')
    \<and> w' = [] \<and> (e = Be_Gatt Gatt_ConnectionFailed \<or> e = Be_NegotiationFailed)"
  by (rule ble_unbonded_no_io)
    (simp_all add: example_ble_peripheral_def check_bonded_def example_bond_query)

definition example_endpoints :: fido_endpoints where
  "example_endpoints =
     \<lparr>fe_control_point = \<lparr>bch_uuid = FIDO_CONTROL_POINT_UUID, bch_properties = {CharProp_Write}\<rparr>,
      fe_control_point_length = \<lparr>bch_uuid = FIDO_CONTROL_POINT_LENGTH_UUID, bch_properties = {CharProp_Write}\<rparr>,
      fe_status = \<lparr>bch_uuid = FIDO_STATUS_UUID, bch_properties = {CharProp_Write}\<rparr>,
      fe_service_revision_bitfield = \<lparr>bch_uuid = FIDO_REVISION_BITFIELD_UUID, bch_properties = {CharProp_Write}\<rparr>\<rparr>"

definition example_ble_channel :: ble_channel where
  "example_ble_channel = \<lparr>bc_services = example_endpoints, bc_revision = Rev_V2\<rparr>"

lemma example_discover:
  "discover_services (example_ble_peripheral objects) log = Some (Inr example_endpoints, log)"
  by (simp add: discover_services_def get_gatt_characteristic_def example_ble_peripheral_def act_bind_def
      act_run example_ble_services_def example_endpoints_def FIDO_CONTROL_POINT_UUID_def FIDO_STATUS_UUID_def
      FIDO_CONTROL_POINT_LENGTH_UUID_def FIDO_REVISION_BITFIELD_UUID_def)

lemma example_enforce_bonded:
  "enforce_bonded (example_ble_peripheral [example_bond True]) log = Some (Inr (), log)"
  by (simp add: enforce_bonded_def check_bonded_def example_ble_peripheral_def example_bond_query bonded_or_refused_def)

lemma example_ble_ops:
  "on_gatt e (bp_connect (example_ble_peripheral objects)) log = Some (Inr (), log)"
  "on_gatt e (bp_discover (example_ble_peripheral objects)) log = Some (Inr (), log)"
  "on_gatt e (bp_subscribe (example_ble_peripheral objects) uuid) log = Some (Inr (), log)"
  "on_gatt e (bp_notifications (example_ble_peripheral objects)) log = Some (Inr (), log)"
  "on_gatt e (bp_write (example_ble_peripheral objects) uuid wt x) log = Some (Inr (), log @ [x])"
  "on_gatt_read e (bp_read (example_ble_peripheral objects)
      (bch_uuid (fe_service_revision_bitfield example_endpoints))) log = Some (Inr [0xA0], log)"
  by (simp_all add: on_gatt_def on_gatt_read_def example_ble_peripheral_def example_endpoints_def
      FIDO_CONTROL_POINT_LENGTH_UUID_def FIDO_REVISION_BITFIELD_UUID_def)

lemma example_channel_opened:
  "ble_device_channel (example_ble_peripheral [example_bond True]) None [] = Some (Inr example_ble_channel, [[0x20]])"
proof -
  let ?bp = "example_ble_peripheral [example_bond True]"
  have best: "select_best (revisions_of_bitfield 0xA0) = Some Rev_V2"
    by (simp add: select_best_bits)
  have "supported_fido_revisions ?bp [] = Some (Inr (revisions_of_bitfield 0xA0), [])"
    by (simp add: supported_fido_revisions_def act_bind_def act_run example_ble_ops example_discover
        example_enforce_bonded slice_get_def)
  moreover have "ble_connect ?bp Rev_V2 [] = Some (Inr example_endpoints, [[0x20]])"
    by (simp add: ble_connect_def connection_new_def select_fido_revision_def connection_subscribe_def
        act_bind_def act_run example_ble_ops example_discover example_enforce_bonded Let_def)
  ultimately show ?thesis
    by (simp add: ble_device_channel_def device_supported_revisions_def ble_channel_new_def
        connection_subscribe_def act_bind_def act_map_err_def act_try_def act_run best example_ble_ops
        example_ble_channel_def)
qed

lemma ble_revision_negotiated_witness:
  "\<exists>bitfield rest w1 w2 wt w3 w4. bp_read (example_ble_peripheral [example_bond True])
        FIDO_REVISION_BITFIELD_UUID w1 = (Some (bitfield # rest), w2)
    \<and> (case bc_revision example_ble_channel of
         Rev_V2 \<Rightarrow> bitfield AND 0x20 \<noteq> 0
       | Rev_U2fv12 \<Rightarrow> bitfield AND 0x20 = 0 \<and> bitfield AND 0x40 \<noteq> 0
       | Rev_U2fv11 \<Rightarrow> bitfield AND 0x20 = 0 \<and> bitfield AND 0x40 = 0 \<and> bitfield AND 0x80 \<noteq> 0)
    \<and> bp_write (example_ble_peripheral [example_bond True]) FIDO_REVISION_BITFIELD_UUID wt
        [fido_revision_to_u8 (bc_revision example_ble_channel)] w3 = (True, w4)
    \<and> bitfield AND fido_revision_to_u8 (bc_revision example_ble_channel) \<noteq> 0
    \<and> ble_supported_protocols example_ble_channel
      = (bc_revision example_ble_channel = Rev_V2, bc_revision example_ble_channel \<noteq> Rev_V2)"
  by (rule ble_revision_negotiated [OF example_channel_opened])

lemma ble_cbor_exchange_witness:
  "\<exists>fragments. ble_cbor_send (example_ble_peripheral []) example_ble_channel (cbor_request_new AuthenticatorGetInfo)
        ([], map Ble_Notification (concat [[[0x82, 0, 1, 2]]] @ [[0x83, 0, 2, 0], [0, 2]]) @ [Ble_TimedOut])
        = Some (Inr (), ([] @ fragments, map Ble_Notification (concat [[[0x82, 0, 1, 2]]] @ [[0x83, 0, 2, 0], [0, 2]]) @ [Ble_TimedOut]))
    \<and> receive ble_update_done ble_parser_frame ble_parser_new fragments
        = Some (Inr (ble_frame_new Ble_Msg (cbor_ctap_hid_data (cbor_request_new AuthenticatorGetInfo))), [])
    \<and> ble_cbor_recv (example_ble_peripheral []) example_ble_channel
        ([] @ fragments, map Ble_Notification (concat [[[0x82, 0, 1, 2]]] @ [[0x83, 0, 2, 0], [0, 2]]) @ [Ble_TimedOut])
        = Some (case bf_cmd (ble_frame_new Ble_Msg [0, 2]) of
              Ble_Msg \<Rightarrow> map_err Be_Framing (cbor_response_of_bytes (bf_data (ble_frame_new Ble_Msg [0, 2])))
            | Ble_Cancel \<Rightarrow> Inl (Be_Gatt Gatt_Canceled)
            | _ \<Rightarrow> Inl (Be_Gatt Gatt_OperationFailed), ([] @ fragments, [Ble_TimedOut]))"
proof (rule ble_cbor_exchange [where n = 4 and ks = "[ble_frame_new Ble_Keepalive [2]]"])
  show "logging_peripheral (example_ble_peripheral []) 4"
    by (simp add: logging_peripheral_def example_ble_peripheral_def)
  show "fido_services (bc_services example_ble_channel)"
    by (simp add: fido_services_def example_ble_channel_def example_endpoints_def)
  show "ble_fragments (ble_frame_new Ble_Msg (cbor_ctap_hid_data (cbor_request_new AuthenticatorGetInfo)))
      (unat (4 :: u16)) = Inr [[0x83, 0, 1, 4]]"
    "ble_fragments (ble_frame_new Ble_Msg [0, 2]) (unat (4 :: u16)) = Inr [[0x83, 0, 2, 0], [0, 2]]"
    by code_simp+
  have "ble_fragments (ble_frame_new Ble_Keepalive [2]) (unat (4 :: u16)) = Inr [[0x82, 0, 1, 2]]"
    by code_simp
  then show "list_all2 (\<lambda>k ps. ble_carried k \<and> bf_cmd k = Ble_Keepalive \<and> ble_fragments k (unat (4 :: u16)) = Inr ps)
      [ble_frame_new Ble_Keepalive [2]] [[[0x82, 0, 1, 2]]]"
    by (simp add: ble_carried_def ble_frame_new_def)
qed (simp_all add: ble_carried_def ble_frame_new_def cbor_ctap_hid_data_def cbor_request_new_def)

end
