(* ===== verification/Cable_Codes.thy ===== *)
theory Cable_Codes
  imports Cbor_Json Rust_Text
begin

text \<open>
  The text encodings of the hybrid transport (\<^verbatim>\<open>libwebauthn/src/transport/cable/\<close>): the decimal
  digits of the QR code (\<^verbatim>\<open>digit_encode.rs\<close>), the names of tunnel servers (\<^verbatim>\<open>tunnel.rs\<close>) and the
  hexadecimal identifiers of known devices.
\<close>

section \<open>Little-endian numbers\<close>

definition le_value :: "bytes \<Rightarrow> nat" where
  "le_value bs = foldr (\<lambda>b n. unat b + 256 * n) bs 0"

fun le_bytes :: "nat \<Rightarrow> nat \<Rightarrow> bytes" where
  "le_bytes 0 v = []"
| "le_bytes (Suc n) v = of_nat (v mod 256) # le_bytes n (v div 256)"

lemma le_value_simps [simp]: "le_value [] = 0" "le_value (b # bs) = unat b + 256 * le_value bs"
  by (simp_all add: le_value_def)

lemma le_value_less: "le_value bs < 256 ^ length bs"
proof (induction bs)
  case Nil
  then show ?case by simp
next
  case (Cons b bs)
  then have "unat b + 256 * le_value bs < 256 * 256 ^ length bs"
    using unat_u8_less [of b] by linarith
  then show ?case by simp
qed

lemma le_bytes_value [simp]: "le_bytes (length bs) (le_value bs) = bs"
  using unat_u8_less by (induction bs) (auto simp: mod_less div_mult_self4)

section \<open>The digits of a QR code\<close>

definition CHUNK_SIZE :: nat where "CHUNK_SIZE = 7"
definition CHUNK_DIGITS :: nat where "CHUNK_DIGITS = 17"
definition ZEROS :: string where "ZEROS = ''00000000000000000''"
definition PARTIAL_CHUNK_DIGITS :: u64 where "PARTIAL_CHUNK_DIGITS = 0x0fda8530"

definition chunk_digits :: "nat \<Rightarrow> nat" where
  "chunk_digits len =
     (if len = CHUNK_SIZE then CHUNK_DIGITS
      else unat (0x0F AND drop_bit (4 * len) PARTIAL_CHUNK_DIGITS))"

definition digit_encode_chunk :: "bytes \<Rightarrow> string" where
  "digit_encode_chunk chunk_slice =
     (let v = digits (le_value chunk_slice);
          pad_len = chunk_digits (length chunk_slice) - length v;
          pad = (case slice_upto ZEROS pad_len of Some pad \<Rightarrow> pad | None \<Rightarrow> [])
      in pad @ v)"

function digit_encode :: "bytes \<Rightarrow> string" where
  "digit_encode input =
     (if input = [] then []
      else digit_encode_chunk (take CHUNK_SIZE input) @ digit_encode (drop CHUNK_SIZE input))"
  by pat_completeness auto
termination by (relation "measure length") (auto simp: CHUNK_SIZE_def)

declare digit_encode.simps [simp del]

text \<open>The decoder an authenticator needs: the length of the last chunk tells its bytes.\<close>

definition digits_value :: "string \<Rightarrow> nat" where
  "digits_value s = foldl (\<lambda>n c. 10 * n + (of_char c - 48)) 0 s"

definition chunk_bytes :: "nat \<Rightarrow> nat" where
  "chunk_bytes n_digits =
     (case map_of [(15, 6), (13, 5), (10, 4), (8, 3), (5, 2), (3, 1)] n_digits of Some n \<Rightarrow> n | None \<Rightarrow> 0)"

function digit_decode :: "string \<Rightarrow> bytes" where
  "digit_decode s =
     (if s = [] then []
      else if length s < 17 then le_bytes (chunk_bytes (length s)) (digits_value s)
      else le_bytes 7 (digits_value (take 17 s)) @ digit_decode (drop 17 s))"
  by pat_completeness auto
termination by (relation "measure length") auto

declare digit_decode.simps [simp del]

lemma digits_value_snoc: "digits_value (s @ [c]) = 10 * digits_value s + (of_char c - 48)"
  by (simp add: digits_value_def)

lemma of_char_digit: "n < 10 \<Longrightarrow> of_char (char_of (48 + n) :: char) = (48 + n :: nat)"
  by (simp add: of_char_of)

lemma digits_value_digits: "digits_value (digits n) = n"
proof (induction n rule: digits.induct)
  case (1 n)
  show ?case
  proof (cases "n < 10")
    case True
    then show ?thesis by (subst digits.simps) (simp add: digits_value_def of_char_digit)
  next
    case False
    then show ?thesis using 1 by (subst digits.simps) (simp add: digits_value_snoc of_char_digit)
  qed
qed

lemma digits_value_zeros: "digits_value (replicate k (CHR ''0'') @ s) = digits_value s"
proof (induction k)
  case 0
  then show ?case by simp
next
  case (Suc k)
  then show ?case by (simp add: digits_value_def)
qed

lemma digits_length: "n < 10 ^ k \<Longrightarrow> 0 < k \<Longrightarrow> length (digits n) \<le> k"
proof (induction n arbitrary: k rule: digits.induct)
  case (1 n)
  show ?case
  proof (cases "n < 10")
    case True
    then show ?thesis using 1 by (subst digits.simps) simp
  next
    case False
    then obtain j where k: "k = Suc j" "0 < j"
      using 1(2) by (cases k; cases "k - 1") auto
    have "n div 10 < 10 ^ j" using 1(2) k by (simp add: less_mult_imp_div_less mult.commute)
    then show ?thesis using False 1(1) k by (subst digits.simps) simp
  qed
qed

lemma digits_are_digits: "c \<in> set (digits n) \<Longrightarrow> c \<in> set ''0123456789''"
proof (induction n rule: digits.induct)
  case (1 n)
  have d: "char_of (48 + m) \<in> set ''0123456789''" if "m < 10" for m :: nat
  proof -
    have "m \<in> {0,1,2,3,4,5,6,7,8,9}" using that by auto
    then show ?thesis by (elim insertE emptyE) (hypsubst, code_simp)+
  qed
  show ?case
  proof (cases "n < 10")
    case True
    then show ?thesis using 1 d [of n] by (subst (asm) (2) digits.simps) auto
  next
    case False
    have "c \<in> set (digits (n div 10)) \<or> c = char_of (48 + n mod 10)"
      using 1(2) False by (subst (asm) digits.simps) auto
    then show ?thesis using 1(1) False d [of "n mod 10"] by auto
  qed
qed

text \<open>Each chunk has the number of digits of its length, which no value of that many bytes exceeds.\<close>

lemma chunk_digits_table:
  "chunk_digits 7 = 17" "chunk_digits 6 = 15" "chunk_digits 5 = 13" "chunk_digits 4 = 10"
  "chunk_digits 3 = 8" "chunk_digits 2 = 5" "chunk_digits (Suc 0) = 3"
  by (simp_all add: chunk_digits_def CHUNK_SIZE_def CHUNK_DIGITS_def PARTIAL_CHUNK_DIGITS_def)

lemma chunk_length_cases:
  assumes "0 < n" and "n \<le> 7"
  shows "n = 7 \<or> n = 6 \<or> n = 5 \<or> n = 4 \<or> n = 3 \<or> n = 2 \<or> n = (1 :: nat)"
  using assms by auto

lemma chunk_digits_bound:
  assumes "0 < n" and "n \<le> 7"
  shows "256 ^ n < (10 :: nat) ^ chunk_digits n \<and> 0 < chunk_digits n \<and> chunk_digits n \<le> 17"
  using chunk_length_cases [OF assms] by (elim disjE) (simp_all add: chunk_digits_table)

lemma digit_encode_chunk:
  assumes "chunk \<noteq> []" and "length chunk \<le> 7"
  shows "length (digit_encode_chunk chunk) = chunk_digits (length chunk)
    \<and> digits_value (digit_encode_chunk chunk) = le_value chunk
    \<and> set (digit_encode_chunk chunk) \<subseteq> set ''0123456789''"
proof -
  have b: "256 ^ length chunk < (10 :: nat) ^ chunk_digits (length chunk)" "0 < chunk_digits (length chunk)"
      "chunk_digits (length chunk) \<le> 17"
    using chunk_digits_bound [of "length chunk"] assms by auto
  have len: "length (digits (le_value chunk)) \<le> chunk_digits (length chunk)"
    using le_value_less [of chunk] b by (intro digits_length) auto
  have zeros: "ZEROS = replicate 17 (CHR ''0'')"
    by (simp add: ZEROS_def numeral_eq_Suc)
  have enc: "digit_encode_chunk chunk
      = replicate (chunk_digits (length chunk) - length (digits (le_value chunk))) (CHR ''0'') @ digits (le_value chunk)"
    using b by (simp add: digit_encode_chunk_def slice_upto_def zeros Let_def)
  show ?thesis
    using len digits_are_digits unfolding enc by (auto simp: digits_value_zeros digits_value_digits)
qed

lemma chunk_bytes_digits:
  assumes "0 < n" and "n < 7"
  shows "chunk_bytes (chunk_digits n) = n \<and> chunk_digits n < 17"
proof -
  have "n = 6 \<or> n = 5 \<or> n = 4 \<or> n = 3 \<or> n = 2 \<or> n = 1" using assms by auto
  then show ?thesis by (elim disjE) (simp_all add: chunk_digits_table chunk_bytes_def)
qed

lemma digit_encode_steps:
  "input \<noteq> [] \<Longrightarrow> digit_encode input
    = digit_encode_chunk (take 7 input) @ digit_encode (drop 7 input)"
  by (subst digit_encode.simps) (simp add: CHUNK_SIZE_def)

text \<open>
  C: The digits of a QR code determine its bytes: they are decimal digits only, 17 for each seven
  bytes and fewer for a shorter rest, and the decoder that reads them back returns the bytes.
\<close>

theorem digit_encode_round_trip:
  "digit_decode (digit_encode input) = input \<and> set (digit_encode input) \<subseteq> set ''0123456789''
    \<and> length (digit_encode input) = 17 * (length input div 7)
        + (if length input mod 7 = 0 then 0 else chunk_digits (length input mod 7))"
proof (induction "length input" arbitrary: input rule: less_induct)
  case less
  show ?case
  proof (cases "input = []")
    case True
    then have "digit_encode input = []" by (simp add: digit_encode.simps)
    then show ?thesis using True by (simp add: digit_decode.simps)
  next
    case False
    let ?c = "take 7 input"
    have c: "?c \<noteq> []" "length ?c \<le> 7" using False by auto
    note chunk = digit_encode_chunk [OF c]
    show ?thesis
    proof (cases "length input < 7")
      case True
      then have enc: "digit_encode input = digit_encode_chunk input"
        using False by (simp add: digit_encode_steps digit_encode.simps [of "[]"])
      have "chunk_bytes (chunk_digits (length input)) = length input" "chunk_digits (length input) < 17"
        using chunk_bytes_digits [of "length input"] True False by auto
      moreover have "digit_encode_chunk input \<noteq> []"
        using chunk chunk_digits_bound [of "length input"] True False by auto
      ultimately show ?thesis
        using chunk True False unfolding enc by (subst digit_decode.simps) auto
    next
      case ge: False
      then have len: "length ?c = 7" by simp
      have IH: "digit_decode (digit_encode (drop 7 input)) = drop 7 input"
          "set (digit_encode (drop 7 input)) \<subseteq> set ''0123456789''"
          "length (digit_encode (drop 7 input)) = 17 * (length (drop 7 input) div 7)
            + (if length (drop 7 input) mod 7 = 0 then 0 else chunk_digits (length (drop 7 input) mod 7))"
        using less [of "drop 7 input"] ge by auto
      have l17: "length (digit_encode_chunk ?c) = 17"
        using chunk len by (simp add: chunk_digits_table)
      have "digit_decode (digit_encode input) = le_bytes 7 (le_value ?c) @ drop 7 input"
        using l17 chunk IH(1) False
        by (subst digit_decode.simps) (auto simp: digit_encode_steps)
      moreover have "le_bytes 7 (le_value ?c) = ?c"
        using le_bytes_value [of ?c] len by simp
      moreover have "length input div 7 = Suc (length (drop 7 input) div 7)"
          "length input mod 7 = length (drop 7 input) mod 7"
        using ge by (simp_all add: le_div_geq le_mod_geq)
      ultimately show ?thesis
        using chunk IH(2,3) False l17 by (simp add: digit_encode_steps)
    qed
  qed
qed

section \<open>Hexadecimal\<close>

text \<open>\<^verbatim>\<open>hex::encode\<close>\<close>

definition HEX_CHARS :: string where "HEX_CHARS = ''0123456789abcdef''"

definition hex_encode :: "bytes \<Rightarrow> string" where
  "hex_encode bs = concat (map (\<lambda>b. [HEX_CHARS ! (unat b div 16), HEX_CHARS ! (unat b mod 16)]) bs)"

lemma hex_chars_distinct: "distinct HEX_CHARS" "length HEX_CHARS = 16"
  by (simp_all add: HEX_CHARS_def)

lemma hex_byte_inj:
  assumes "HEX_CHARS ! (unat a div 16) = HEX_CHARS ! (unat (b :: u8) div 16)"
    and "HEX_CHARS ! (unat a mod 16) = HEX_CHARS ! (unat b mod 16)"
  shows "a = b"
proof -
  have "unat a div 16 < 16" "unat b div 16 < 16"
    using unat_u8_less [of a] unat_u8_less [of b] by auto
  then have "unat a div 16 = unat b div 16" "unat a mod 16 = unat b mod 16"
    using assms hex_chars_distinct by (simp_all add: nth_eq_iff_index_eq)
  then have "unat a = unat b" by (metis div_mult_mod_eq)
  then show ?thesis by (simp add: unsigned_word_eqI)
qed

lemma hex_encode_inj: "hex_encode a = hex_encode b \<Longrightarrow> a = b"
proof (induction a arbitrary: b)
  case Nil
  then show ?case by (cases b) (auto simp: hex_encode_def)
next
  case (Cons x a)
  then obtain y b' where "b = y # b'" by (cases b) (auto simp: hex_encode_def)
  then show ?case using Cons hex_byte_inj by (auto simp: hex_encode_def)
qed

section \<open>Tunnel servers\<close>

lemma unat_u64_shift: "unat (drop_bit n v :: u64) = unat v div 2 ^ n"
  by (subst unat_drop_bit_eq) (rule drop_bit_eq_div)

lemma unat_u64_mask: "n \<le> 64 \<Longrightarrow> unat (v AND mask n :: u64) = unat v mod 2 ^ n"
  unfolding take_bit_eq_mask [symmetric] unsigned_take_bit_eq by (rule take_bit_eq_mod)

definition KNOWN_TUNNEL_DOMAINS :: "string list" where
  "KNOWN_TUNNEL_DOMAINS = [''cable.ua5v.com'', ''cable.auth.com'']"
definition SHA_INPUT :: bytes where "SHA_INPUT = string_bytes ''caBLEv2 tunnel server domain''"
definition BASE32_CHARS :: string where "BASE32_CHARS = ''abcdefghijklmnopqrstuvwxyz234567''"
definition TLDS :: "string list" where "TLDS = [''.com'', ''.org'', ''.net'', ''.info'']"

text \<open>The \<^verbatim>\<open>while v != 0\<close> loop; \<open>None\<close> is the \<^verbatim>\<open>?\<close> on a character out of range.\<close>

function base32_label :: "u64 \<Rightarrow> string option" where
  "base32_label v =
     (if v = 0 then Some []
      else Option.bind (slice_get BASE32_CHARS (unat (v AND 31))) (\<lambda>ch.
        map_option (\<lambda>rest. ch # rest) (base32_label (drop_bit 5 v))))"
  by pat_completeness auto
termination
proof (relation "measure unat", goal_cases)
  case 1
  show ?case by simp
next
  case (2 v x2)
  then have "0 < unat v" by (simp add: unat_gt_0)
  then show ?case unfolding in_measure unat_u64_shift by simp
qed

declare base32_label.simps [simp del]

definition decode_tunnel_server_domain :: "(bytes \<Rightarrow> bytes) \<Rightarrow> u16 \<Rightarrow> string option" where
  "decode_tunnel_server_domain sha256 encoded =
     (if encoded < 256 then slice_get KNOWN_TUNNEL_DOMAINS (unat encoded)
      else
        let sha_input = SHA_INPUT @ [ucast encoded, ucast (drop_bit 8 encoded), 0]
        in Option.bind (slice_upto (sha256 sha_input) 8) (\<lambda>digest_head.
           let v = (of_nat (le_value digest_head) :: u64)
           in Option.bind (base32_label (drop_bit 2 v)) (\<lambda>label.
              map_option (\<lambda>tld. ''cable.'' @ label @ tld) (slice_get TLDS (unat (v AND 3))))))"

text \<open>The number a label spells.\<close>

definition base32_value :: "string \<Rightarrow> nat" where
  "base32_value s = foldr (\<lambda>c n. (LEAST i. i < 32 \<and> BASE32_CHARS ! i = c) + 32 * n) s 0"

lemma base32_chars: "distinct BASE32_CHARS" "length BASE32_CHARS = 32"
  by (simp_all add: BASE32_CHARS_def)

lemma base32_index: "i < 32 \<Longrightarrow> (LEAST j. j < 32 \<and> BASE32_CHARS ! j = BASE32_CHARS ! i) = i"
  using base32_chars by (intro Least_equality) (auto simp: nth_eq_iff_index_eq)

lemma unat_and_31: "unat (v AND 31 :: u64) = unat v mod 32"
  using unat_u64_mask [of 5 v] by (simp add: mask_eq_exp_minus_1)

lemma base32_label_spells:
  "\<exists>label. base32_label v = Some label \<and> base32_value label = unat v \<and> set label \<subseteq> set BASE32_CHARS
    \<and> (\<forall>k. unat v < 32 ^ k \<longrightarrow> length label \<le> k)"
proof (induction "unat v" arbitrary: v rule: less_induct)
  case less
  show ?case
  proof (cases "v = 0")
    case True
    then have "base32_label v = Some []" by (simp add: base32_label.simps)
    then show ?thesis using True by (intro exI [of _ "[]"]) (simp add: base32_value_def)
  next
    case False
    let ?w = "drop_bit 5 v"
    have w: "unat ?w = unat v div 32" using unat_u64_shift [of 5 v] by simp
    have "0 < unat v" using False by (simp add: unat_gt_0)
    then obtain label where l: "base32_label ?w = Some label" "base32_value label = unat ?w"
        "set label \<subseteq> set BASE32_CHARS" "\<And>k. unat ?w < 32 ^ k \<Longrightarrow> length label \<le> k"
      using less [of ?w] w by auto
    have i: "unat v mod 32 < 32" by simp
    have "base32_label v = Some (BASE32_CHARS ! (unat v mod 32) # label)"
      using False l(1) by (subst base32_label.simps) (simp add: slice_get_def base32_chars unat_and_31)
    moreover have "base32_value (BASE32_CHARS ! (unat v mod 32) # label) = unat v"
      using l(2) w base32_index [OF i] by (simp add: base32_value_def)
    moreover have "length label < k" if "unat v < 32 ^ k" for k
    proof -
      have "k \<noteq> 0" using that \<open>0 < unat v\<close> by (intro notI) simp
      then obtain j where k: "k = Suc j" by (cases k) auto
      then have "unat ?w < 32 ^ j" using that w by (simp add: less_mult_imp_div_less mult.commute)
      then show ?thesis using l(4) k by (simp add: less_Suc_eq_le)
    qed
    ultimately show ?thesis
      using l(3) base32_chars by (auto simp: Suc_le_eq)
  qed
qed

text \<open>
  C: The domain of a tunnel server is one of the two assigned names for an encoding below 256,
  and above a host under \<^verbatim>\<open>cable.\<close> whose label of at most 13 base32 characters and whose top-level
  domain spell the first eight bytes of the digest; nothing else is ever connected to.
\<close>

theorem tunnel_domain_spells_digest:
  assumes "\<And>x. 8 \<le> length (sha256 x)"
  shows "case decode_tunnel_server_domain sha256 encoded of
      None \<Rightarrow> 2 \<le> encoded \<and> encoded < 256
    | Some domain \<Rightarrow>
        (if encoded < 256 then domain = KNOWN_TUNNEL_DOMAINS ! unat encoded \<and> encoded < 2
         else \<exists>label i. domain = ''cable.'' @ label @ TLDS ! i \<and> i < 4 \<and> length label \<le> 13
           \<and> set label \<subseteq> set BASE32_CHARS
           \<and> 4 * base32_value label + i
             = le_value (take 8 (sha256 (SHA_INPUT @ [ucast encoded, ucast (drop_bit 8 encoded), 0]))))"
proof (cases "encoded < 256")
  case True
  have "unat encoded < 2 \<longleftrightarrow> encoded < 2" by (simp add: word_less_nat_alt)
  then show ?thesis
    using True by (auto simp: decode_tunnel_server_domain_def slice_get_def KNOWN_TUNNEL_DOMAINS_def not_less)
next
  case False
  let ?head = "take 8 (sha256 (SHA_INPUT @ [ucast encoded, ucast (drop_bit 8 encoded), 0]))"
  let ?v = "of_nat (le_value ?head) :: u64"
  have "le_value ?head < 256 ^ 8"
    using le_value_less [of ?head] assms by simp
  then have v: "unat ?v = le_value ?head"
    by (simp add: unat_of_nat take_bit_eq_mod)
  have w: "unat (drop_bit 2 ?v) = unat ?v div 4" using unat_u64_shift [of 2 ?v] by simp
  have i: "unat (?v AND 3) = unat ?v mod 4" using unat_u64_mask [of 2 ?v] by (simp add: mask_eq_exp_minus_1)
  obtain label where l: "base32_label (drop_bit 2 ?v) = Some label"
      "base32_value label = unat (drop_bit 2 ?v)" "set label \<subseteq> set BASE32_CHARS"
      "\<And>k. unat (drop_bit 2 ?v) < 32 ^ k \<Longrightarrow> length label \<le> k"
    using base32_label_spells [of "drop_bit 2 ?v"] by auto
  have "unat (drop_bit 2 ?v) < 32 ^ 13"
    using \<open>le_value ?head < 256 ^ 8\<close> unfolding w v by simp
  then have "length label \<le> 13" by (rule l(4))
  moreover have "decode_tunnel_server_domain sha256 encoded
      = Some (''cable.'' @ label @ TLDS ! (unat ?v mod 4))"
    using False assms l(1) i
    by (simp add: decode_tunnel_server_domain_def slice_upto_def slice_get_def TLDS_def Let_def
        del: drop_bit_numeral_minus_bit1)
  moreover have "4 * base32_value label + unat ?v mod 4 = le_value ?head"
    unfolding l(2) w using v by simp
  ultimately show ?thesis
    using False l(3) by (simp, intro exI [of _ label] exI [of _ "unat ?v mod 4"]) simp
qed

lemma tunnel_domain_spells_digest_witness:
  "case decode_tunnel_server_domain (\<lambda>_. replicate 32 7) 300 of
      None \<Rightarrow> 2 \<le> (300 :: u16) \<and> (300 :: u16) < 256
    | Some domain \<Rightarrow>
        (if (300 :: u16) < 256 then domain = KNOWN_TUNNEL_DOMAINS ! unat (300 :: u16) \<and> (300 :: u16) < 2
         else \<exists>label i. domain = ''cable.'' @ label @ TLDS ! i \<and> i < 4 \<and> length label \<le> 13
           \<and> set label \<subseteq> set BASE32_CHARS
           \<and> 4 * base32_value label + i = le_value (take 8 (replicate 32 7)))"
  by (rule tunnel_domain_spells_digest) simp

end
