(* ===== verification/Cable_Advertisement.thy ===== *)
theory Cable_Advertisement
  imports Cable_Codes
begin

text \<open>
  The advertisement of an authenticator in the hybrid transport: key derivation and trial
  decryption (\<^verbatim>\<open>transport/cable/crypto.rs\<close>), and the fields of an advertisement with its suffix
  (\<^verbatim>\<open>advertisement.rs\<close>).
\<close>

section \<open>Errors\<close>

text \<open>The causes wrapped in the errors of \<^verbatim>\<open>error.rs\<close> are only displayed and are not modelled.\<close>

datatype cable_tunnel_error = Tn_Gone | Tn_UnexpectedStatus u16 | Tn_TooManyRedirects

datatype cable_error = Ce_Noise | Ce_Io | Ce_WebSocket | Ce_Cbor | Ce_Url | Ce_Uuid | Ce_HttpHeader
  | Ce_CableTunnel cable_tunnel_error | Ce_ConnectionFailed | Ce_ConnectionLost | Ce_InvalidEndpoint
  | Ce_InvalidFraming | Ce_TransportUnavailable | Ce_Timeout | Ce_InvalidKey | Ce_InvalidSignature
  | Ce_EncryptionFailed

section \<open>Key derivation\<close>

text \<open>
  The crates \<^verbatim>\<open>hkdf\<close>, \<^verbatim>\<open>hmac\<close> and \<^verbatim>\<open>aes\<close>: the output of HKDF-SHA256 for a salt (\<open>None\<close> without
  one), a secret, an info string and a length; the HMAC-SHA256 of a key and a message; the AES-256
  decryption of one block.
\<close>

record cable_crypto =
  cc_hkdf :: "bytes option \<Rightarrow> bytes \<Rightarrow> bytes \<Rightarrow> nat \<Rightarrow> bytes option"
  cc_hmac :: "bytes \<Rightarrow> bytes \<Rightarrow> bytes option"
  cc_aes256_decrypt_block :: "bytes \<Rightarrow> bytes \<Rightarrow> bytes"
  cc_sha256 :: "bytes \<Rightarrow> bytes"

datatype key_purpose = EIDKey | TunnelID | Psk

fun key_purpose_to_u8 :: "key_purpose \<Rightarrow> u8" where
  "key_purpose_to_u8 EIDKey = 1"
| "key_purpose_to_u8 TunnelID = 2"
| "key_purpose_to_u8 Psk = 3"

definition cable_derive :: "cable_crypto \<Rightarrow> bytes \<Rightarrow> bytes option \<Rightarrow> key_purpose \<Rightarrow> cable_error + bytes" where
  "cable_derive cc secret salt purpose =
     (let purpose32 = [key_purpose_to_u8 purpose, 0, 0, 0]
      in ok_or Ce_InvalidKey (cc_hkdf cc salt secret purpose32 64))"

definition derive_psk :: "cable_crypto \<Rightarrow> bytes \<Rightarrow> bytes \<Rightarrow> cable_error + bytes" where
  "derive_psk cc secret advert_plaintext =
     result_bind (cable_derive cc secret (Some advert_plaintext) Psk) (\<lambda>derived.
     ok_or Ce_InvalidKey (slice_upto derived 32))"

section \<open>Trial decryption\<close>

definition reserved_bits_are_zero :: "bytes \<Rightarrow> bool" where
  "reserved_bits_are_zero plaintext \<longleftrightarrow> slice_get plaintext 0 = Some 0"

definition trial_decrypt_advert :: "cable_crypto \<Rightarrow> bytes \<Rightarrow> bytes \<Rightarrow> bytes option" where
  "trial_decrypt_advert cc eid_key candidate_advert =
     (case slice_upto candidate_advert 20 of
        None \<Rightarrow> None
      | Some advert \<Rightarrow>
          if length eid_key \<noteq> 64 then None
          else
            Option.bind (slice_from eid_key 32) (\<lambda>mac_key.
            Option.bind (slice_upto advert 16) (\<lambda>advert_body.
            Option.bind (slice_from advert 16) (\<lambda>advert_tag.
            Option.bind (cc_hmac cc mac_key advert_body) (\<lambda>expected_tag.
            Option.bind (slice_upto expected_tag 4) (\<lambda>expected_tag_truncated.
            if expected_tag_truncated \<noteq> advert_tag then None
            else
              Option.bind (slice_upto eid_key 32) (\<lambda>aes_key.
              let block = cc_aes256_decrypt_block cc aes_key advert_body
              in if \<not> reserved_bits_are_zero block then None
                 else Some block)))))))"

section \<open>The decrypted advertisement\<close>

text \<open>A suffix is the CBOR map of a channel identifier to its extra value, with integer keys.\<close>

type_synonym advertisement_suffix = "(int \<times> cbor_value) list"

definition TRANSPORT_CHANNEL_BLE :: int where "TRANSPORT_CHANNEL_BLE = 1"

record decrypted_advert =
  da_plaintext :: bytes
  da_nonce :: bytes
  da_routing_id :: bytes
  da_encoded_tunnel_server_domain :: u16
  da_suffix :: "advertisement_suffix option"

definition advert_of_plaintext :: "bytes \<Rightarrow> decrypted_advert" where
  "advert_of_plaintext plaintext =
     \<lparr>da_plaintext = plaintext, da_nonce = take 10 (drop 1 plaintext),
      da_routing_id = take 3 (drop 11 plaintext),
      da_encoded_tunnel_server_domain = of_nat (le_value (take 2 (drop 14 plaintext))),
      da_suffix = None\<rparr>"

text \<open>\<open>map_of_cbor\<close> is \<^verbatim>\<open>serde_cbor::from_slice\<close> to a map, ordered and without duplicate keys.\<close>

definition suffix_from_cbor :: "(bytes \<Rightarrow> (cbor_value \<times> cbor_value) list option) \<Rightarrow> bytes
    \<Rightarrow> advertisement_suffix option" where
  "suffix_from_cbor map_of_cbor bytes =
     map_option (\<lambda>m. List.map_filter (\<lambda>(k, v). case k of Cbor_Integer i \<Rightarrow> Some (i, v) | _ \<Rightarrow> None) m)
       (map_of_cbor bytes)"

definition ble_psm :: "advertisement_suffix \<Rightarrow> u16 option" where
  "ble_psm suffix =
     (case map_of suffix TRANSPORT_CHANNEL_BLE of
        Some (Cbor_Integer psm) \<Rightarrow> if 0 \<le> psm \<and> psm < 2 ^ 16 then Some (of_int psm) else None
      | _ \<Rightarrow> None)"

text \<open>The tail of the loop of \<^verbatim>\<open>await_advertisement\<close>: a malformed suffix is ignored.\<close>

definition advert_of_data :: "(bytes \<Rightarrow> (cbor_value \<times> cbor_value) list option) \<Rightarrow> bytes \<Rightarrow> bytes
    \<Rightarrow> decrypted_advert" where
  "advert_of_data map_of_cbor decrypted data =
     (let advert = advert_of_plaintext decrypted
      in case slice_from data 20 of
           None \<Rightarrow> advert
         | Some suffix_bytes \<Rightarrow>
             if suffix_bytes = [] then advert
             else case suffix_from_cbor map_of_cbor suffix_bytes of
               Some suffix \<Rightarrow> advert\<lparr>da_suffix := Some suffix\<rparr>
             | None \<Rightarrow> advert)"

text \<open>
  The advertisements that the scan delivers: a peripheral, the service data, and whether the
  properties of the peripheral can be read (\<open>None\<close> is an error, \<open>Some None\<close> a peripheral without
  properties).  \<open>stop_scan\<close> tells whether stopping the scan succeeds.
\<close>

record 'p scan_event =
  se_properties :: "'p option option"
  se_data :: bytes
  se_stop_scan :: bool

fun await_advertisement :: "cable_crypto \<Rightarrow> (bytes \<Rightarrow> (cbor_value \<times> cbor_value) list option) \<Rightarrow> bytes
    \<Rightarrow> 'p scan_event list \<Rightarrow> cable_error + 'p \<times> decrypted_advert" where
  "await_advertisement cc map_of_cbor eid_key [] = Inl Ce_TransportUnavailable"
| "await_advertisement cc map_of_cbor eid_key (e # events) =
     (case se_properties e of
        None \<Rightarrow> Inl Ce_TransportUnavailable
      | Some None \<Rightarrow> await_advertisement cc map_of_cbor eid_key events
      | Some (Some device) \<Rightarrow>
          (case trial_decrypt_advert cc eid_key (se_data e) of
             None \<Rightarrow> await_advertisement cc map_of_cbor eid_key events
           | Some decrypted \<Rightarrow>
               if \<not> se_stop_scan e then Inl Ce_TransportUnavailable
               else Inr (device, advert_of_data map_of_cbor decrypted (se_data e))))"

section \<open>Properties\<close>

text \<open>An advertisement that a holder of the key made: the body under the first half of the key, its tag under the second.\<close>

definition advert_for :: "cable_crypto \<Rightarrow> bytes \<Rightarrow> bytes \<Rightarrow> bytes \<Rightarrow> bool" where
  "advert_for cc eid_key plaintext data \<longleftrightarrow>
     (\<exists>body tag suffix hmac. data = body @ tag @ suffix \<and> length body = 16 \<and> length tag = 4
       \<and> cc_hmac cc (drop 32 eid_key) body = Some hmac \<and> take 4 hmac = tag \<and> 4 \<le> length hmac
       \<and> cc_aes256_decrypt_block cc (take 32 eid_key) body = plaintext
       \<and> slice_get plaintext 0 = Some 0)"

lemma trial_decrypt_iff:
  assumes "length eid_key = 64"
  shows "trial_decrypt_advert cc eid_key data = Some plaintext \<longleftrightarrow> advert_for cc eid_key plaintext data"
proof
  assume t: "trial_decrypt_advert cc eid_key data = Some plaintext"
  then have len: "20 \<le> length data"
    by (auto simp: trial_decrypt_advert_def slice_upto_def split: if_splits)
  obtain hmac where h: "cc_hmac cc (drop 32 eid_key) (take 16 data) = Some hmac" "4 \<le> length hmac"
      "take 4 hmac = drop 16 (take 20 data)"
      "cc_aes256_decrypt_block cc (take 32 eid_key) (take 16 data) = plaintext" "slice_get plaintext 0 = Some 0"
    using t len assms by (auto simp: trial_decrypt_advert_def slice_upto_def slice_from_def Let_def
        reserved_bits_are_zero_def bind_eq_Some_conv split: if_splits)
  have "(take 16 (take 20 data) @ drop 16 (take 20 data)) @ drop 20 data = data"
    unfolding append_take_drop_id ..
  then have "data = take 16 data @ drop 16 (take 20 data) @ drop 20 data" by simp
  moreover have "length (take 16 data) = 16" "length (drop 16 (take 20 data)) = 4" using len by auto
  ultimately show "advert_for cc eid_key plaintext data"
    unfolding advert_for_def using h by metis
next
  assume "advert_for cc eid_key plaintext data"
  then show "trial_decrypt_advert cc eid_key data = Some plaintext"
    using assms by (auto simp: advert_for_def trial_decrypt_advert_def slice_upto_def slice_from_def Let_def
        reserved_bits_are_zero_def)
qed

text \<open>
  C: The device the proximity check accepts is the first one in the scan, after advertisements
  that are not for this key, whose advertisement was made with the key: its tag is the HMAC of its
  body and the body decrypts to a plaintext with zero reserved bits.  The routing identifier and
  the tunnel domain are read from that plaintext.
\<close>

theorem proximity_check_authenticates:
  assumes "length eid_key = 64"
    and "await_advertisement cc map_of_cbor eid_key events = Inr (device, advert)"
  shows "\<exists>before e after. events = before @ e # after
    \<and> (\<forall>b\<in>set before. se_properties b = Some None \<or> (\<nexists>p. advert_for cc eid_key p (se_data b)))
    \<and> se_properties e = Some (Some device) \<and> advert_for cc eid_key (da_plaintext advert) (se_data e)
    \<and> da_routing_id advert = take 3 (drop 11 (da_plaintext advert))
    \<and> da_encoded_tunnel_server_domain advert = of_nat (le_value (take 2 (drop 14 (da_plaintext advert))))"
  using assms(2)
proof (induction events)
  case Nil
  then show ?case by simp
next
  case (Cons x events)
  show ?case
  proof (cases "\<exists>d p. se_properties x = Some (Some d) \<and> trial_decrypt_advert cc eid_key (se_data x) = Some p")
    case True
    then obtain d p where x: "se_properties x = Some (Some d)" "trial_decrypt_advert cc eid_key (se_data x) = Some p"
      by blast
    then have "device = d" "advert = advert_of_data map_of_cbor p (se_data x)"
      using Cons.prems by (auto split: if_splits)
    moreover have "da_plaintext advert = p" "da_routing_id advert = take 3 (drop 11 p)"
        "da_encoded_tunnel_server_domain advert = of_nat (le_value (take 2 (drop 14 p)))"
      unfolding calculation(2) by (auto simp: advert_of_data_def advert_of_plaintext_def Let_def split: option.split)
    moreover have "advert_for cc eid_key p (se_data x)"
      using x(2) trial_decrypt_iff [OF assms(1)] by blast
    ultimately show ?thesis
      using x(1) by (intro exI [of _ "[]"] exI [of _ x] exI [of _ events]) simp
  next
    case False
    then have rest: "await_advertisement cc map_of_cbor eid_key events = Inr (device, advert)"
      and skip: "se_properties x = Some None \<or> trial_decrypt_advert cc eid_key (se_data x) = None"
      using Cons.prems by (auto split: option.splits)
    then have "se_properties x = Some None \<or> (\<nexists>p. advert_for cc eid_key p (se_data x))"
      using trial_decrypt_iff [OF assms(1)] by (metis option.discI)
    moreover obtain before e after where ih: "events = before @ e # after"
        "\<forall>b\<in>set before. se_properties b = Some None \<or> (\<nexists>p. advert_for cc eid_key p (se_data b))"
        "se_properties e = Some (Some device) \<and> advert_for cc eid_key (da_plaintext advert) (se_data e)
    \<and> da_routing_id advert = take 3 (drop 11 (da_plaintext advert))
    \<and> da_encoded_tunnel_server_domain advert = of_nat (le_value (take 2 (drop 14 (da_plaintext advert))))"
      using Cons.IH [OF rest] by blast
    ultimately show ?thesis
      by (intro exI [of _ "x # before"] exI [of _ e] exI [of _ after]) simp
  qed
qed

definition example_cable_crypto :: cable_crypto where
  "example_cable_crypto =
     \<lparr>cc_hkdf = \<lambda>salt secret info n. Some (take n (concat (replicate n (info @ secret @ (case salt of None \<Rightarrow> [] | Some s \<Rightarrow> s))))),
      cc_hmac = \<lambda>k m. Some (take 32 (m @ k @ replicate 32 0)),
      cc_aes256_decrypt_block = \<lambda>k c. c,
      cc_sha256 = \<lambda>m. take 32 (m @ replicate 32 0)\<rparr>"

lemma proximity_check_authenticates_witness:
  "\<exists>before e after. [\<lparr>se_properties = Some (Some 1), se_data = [1, 2], se_stop_scan = True\<rparr>,
        \<lparr>se_properties = Some (Some (2 :: nat)), se_data = [0, 1, 2, 3] @ replicate 12 7 @ [0, 1, 2, 3], se_stop_scan = True\<rparr>]
      = before @ e # after
    \<and> (\<forall>b\<in>set before. se_properties b = Some None \<or> (\<nexists>p. advert_for example_cable_crypto (replicate 64 9) p (se_data b)))
    \<and> se_properties e = Some (Some 2)
    \<and> advert_for example_cable_crypto (replicate 64 9) (da_plaintext (advert_of_plaintext ([0, 1, 2, 3] @ replicate 12 7))) (se_data e)
    \<and> da_routing_id (advert_of_plaintext ([0, 1, 2, 3] @ replicate 12 7))
      = take 3 (drop 11 (da_plaintext (advert_of_plaintext ([0, 1, 2, 3] @ replicate 12 7))))
    \<and> da_encoded_tunnel_server_domain (advert_of_plaintext ([0, 1, 2, 3] @ replicate 12 7))
      = of_nat (le_value (take 2 (drop 14 (da_plaintext (advert_of_plaintext ([0, 1, 2, 3] @ replicate 12 7))))))"
proof (rule proximity_check_authenticates)
  show "length (replicate 64 (9 :: u8)) = 64" by simp
  show "await_advertisement example_cable_crypto (\<lambda>_. None) (replicate 64 9)
      [\<lparr>se_properties = Some (Some 1), se_data = [1, 2], se_stop_scan = True\<rparr>,
        \<lparr>se_properties = Some (Some (2 :: nat)), se_data = [0, 1, 2, 3] @ replicate 12 7 @ [0, 1, 2, 3], se_stop_scan = True\<rparr>]
      = Inr (2, advert_of_plaintext ([0, 1, 2, 3] @ replicate 12 7))"
    by (simp add: trial_decrypt_advert_def slice_upto_def slice_from_def example_cable_crypto_def Let_def
        reserved_bits_are_zero_def slice_get_def advert_of_data_def)
qed

end
