(* ===== verification/Cable_Data_Channel.thy ===== *)
theory Cable_Data_Channel
  imports Cable_Advertisement
begin

text \<open>
  The data channels of the hybrid transport (\<^verbatim>\<open>transport/cable/data_channel.rs\<close>, \<^verbatim>\<open>l2cap.rs\<close>): one
  binary WebSocket frame per message, or messages that end with CRLF on an L2CAP stream.  The
  interface they share is the locale \<open>data_channel\<close>.
\<close>

section \<open>The interface\<close>

text \<open>
  What a receiver relies on: while the buffer and the incoming stream carry the messages \<open>ms\<close>,
  receiving returns the first of them and leaves a buffer and a stream that carry the others.
  \<open>None\<close> is a receive that still waits when the given part of the stream is over.
\<close>

locale data_channel =
  fixes recv :: "'b \<Rightarrow> 'w list \<Rightarrow> ((cable_error + bytes option) \<times> 'b \<times> 'w list) option"
    and carries :: "bytes list \<Rightarrow> 'b \<Rightarrow> 'w list \<Rightarrow> bool"
  assumes receives: "carries (m # ms) b w \<Longrightarrow>
    \<exists>b' w'. recv b w = Some (Inr (Some m), b', w') \<and> carries ms b' w'"
begin

fun recv_many :: "nat \<Rightarrow> 'b \<Rightarrow> 'w list \<Rightarrow> bytes list option" where
  "recv_many 0 b w = Some []"
| "recv_many (Suc n) b w =
     (case recv b w of
        Some (Inr (Some m), b', w') \<Rightarrow> map_option (\<lambda>ms. m # ms) (recv_many n b' w')
      | _ \<Rightarrow> None)"

lemma receives_all: "carries (ms @ rest) b w \<Longrightarrow> recv_many (length ms) b w = Some ms"
proof (induction ms arbitrary: b w)
  case Nil
  then show ?case by simp
next
  case (Cons m ms)
  then obtain b' w' where "recv b w = Some (Inr (Some m), b', w')" "carries (ms @ rest) b' w'"
    using receives by fastforce
  then show ?case using Cons.IH by simp
qed

end

section \<open>WebSocket frames\<close>

text \<open>What the WebSocket stream yields; \<open>Ws_End\<close> is its end.\<close>

datatype ws_item = Ws_Binary bytes | Ws_Ping | Ws_Pong | Ws_Close | Ws_End | Ws_ConnectionClosed
  | Ws_OtherMessage | Ws_IoError | Ws_OtherError

fun ws_recv :: "ws_item list \<Rightarrow> ((cable_error + bytes option) \<times> ws_item list) option" where
  "ws_recv [] = None"
| "ws_recv (Ws_Binary d # items) = Some (Inr (Some d), items)"
| "ws_recv (Ws_Ping # items) = ws_recv items"
| "ws_recv (Ws_Pong # items) = ws_recv items"
| "ws_recv (Ws_Close # items) = Some (Inr None, items)"
| "ws_recv (Ws_End # items) = Some (Inr None, items)"
| "ws_recv (Ws_ConnectionClosed # items) = Some (Inr None, items)"
| "ws_recv (Ws_OtherMessage # items) = Some (Inl Ce_ConnectionFailed, items)"
| "ws_recv (Ws_IoError # items) = Some (Inl Ce_Io, items)"
| "ws_recv (Ws_OtherError # items) = Some (Inl Ce_ConnectionFailed, items)"

text \<open>\<^verbatim>\<open>send\<close>: the frame, and the error a failed send is reported as.\<close>

datatype ws_send_result = Ws_Sent | Ws_SendIo | Ws_SendOther

definition ws_send :: "(bytes \<Rightarrow> 'w \<Rightarrow> ws_send_result \<times> 'w) \<Rightarrow> bytes \<Rightarrow> 'w \<Rightarrow> (cable_error + unit) \<times> 'w" where
  "ws_send sink message w =
     (case sink message w of
        (Ws_Sent, w) \<Rightarrow> (Inr (), w)
      | (Ws_SendIo, w) \<Rightarrow> (Inl Ce_Io, w)
      | (Ws_SendOther, w) \<Rightarrow> (Inl Ce_ConnectionFailed, w))"

definition ws_recv_unbuffered :: "unit \<Rightarrow> ws_item list
    \<Rightarrow> ((cable_error + bytes option) \<times> unit \<times> ws_item list) option" where
  "ws_recv_unbuffered u items = map_option (\<lambda>(r, items). (r, (), items)) (ws_recv items)"

definition ws_carries :: "bytes list \<Rightarrow> unit \<Rightarrow> ws_item list \<Rightarrow> bool" where
  "ws_carries ms u items \<longleftrightarrow>
     (\<exists>rest. filter (\<lambda>x. x \<noteq> Ws_Ping \<and> x \<noteq> Ws_Pong) items = map Ws_Binary ms @ rest)"

lemma ws_recv_message:
  "filter (\<lambda>x. x \<noteq> Ws_Ping \<and> x \<noteq> Ws_Pong) items = Ws_Binary m # rest \<Longrightarrow>
    \<exists>items'. ws_recv items = Some (Inr (Some m), items')
      \<and> filter (\<lambda>x. x \<noteq> Ws_Ping \<and> x \<noteq> Ws_Pong) items' = rest"
  by (induction items rule: ws_recv.induct) (auto split: if_splits)

interpretation ws: data_channel ws_recv_unbuffered ws_carries
proof unfold_locales
  fix m :: bytes and ms b w
  assume "ws_carries (m # ms) b w"
  then obtain rest where "filter (\<lambda>x. x \<noteq> Ws_Ping \<and> x \<noteq> Ws_Pong) w = Ws_Binary m # map Ws_Binary ms @ rest"
    by (auto simp: ws_carries_def)
  from ws_recv_message [OF this]
  show "\<exists>b' w'. ws_recv_unbuffered b w = Some (Inr (Some m), b', w') \<and> ws_carries ms b' w'"
    by (auto simp: ws_recv_unbuffered_def ws_carries_def)
qed

section \<open>L2CAP streams\<close>

definition EOM :: bytes where "EOM = [0x0D, 0x0A]"

text \<open>\<^verbatim>\<open>send\<close> writes the message and then the end of message.\<close>

definition l2cap_send :: "(bytes \<Rightarrow> 'w \<Rightarrow> bool \<times> 'w) \<Rightarrow> bytes \<Rightarrow> 'w \<Rightarrow> (cable_error + unit) \<times> 'w" where
  "l2cap_send write_all message w =
     (case write_all message w of
        (False, w) \<Rightarrow> (Inl Ce_Io, w)
      | (True, w) \<Rightarrow>
          (case write_all EOM w of
             (False, w) \<Rightarrow> (Inl Ce_Io, w)
           | (True, w) \<Rightarrow> (Inr (), w)))"

text \<open>\<^verbatim>\<open>windows(2).position(|w| w == EOM)\<close>\<close>

fun eom_position :: "bytes \<Rightarrow> nat option" where
  "eom_position (a # b # xs) =
     (if [a, b] = EOM then Some 0 else map_option Suc (eom_position (b # xs)))"
| "eom_position _ = None"

definition split_next_message :: "bytes \<Rightarrow> (bytes \<times> bytes) option" where
  "split_next_message buf =
     map_option (\<lambda>eom. (take eom buf, drop (eom + length EOM) buf)) (eom_position buf)"

text \<open>
  A read of the stream: at most 1024 bytes, none when the peer closed, or an error, of which
  three kinds count as a close.
\<close>

datatype l2cap_read = Rd_Bytes bytes | Rd_Reset | Rd_Failed

fun l2cap_recv :: "bytes \<Rightarrow> l2cap_read list \<Rightarrow> ((cable_error + bytes option) \<times> bytes \<times> l2cap_read list) option" where
  "l2cap_recv read_buf reads =
     (case split_next_message read_buf of
        Some (message, read_buf) \<Rightarrow> Some (Inr (Some message), read_buf, reads)
      | None \<Rightarrow>
          (case reads of
             [] \<Rightarrow> None
           | Rd_Failed # reads \<Rightarrow> Some (Inl Ce_Io, read_buf, reads)
           | Rd_Reset # reads \<Rightarrow>
               Some (if read_buf = [] then Inr None else Inl Ce_ConnectionLost, read_buf, reads)
           | Rd_Bytes chunk # reads \<Rightarrow>
               if chunk = []
               then Some (if read_buf = [] then Inr None else Inl Ce_ConnectionLost, read_buf, reads)
               else l2cap_recv (read_buf @ chunk) reads))"

declare l2cap_recv.simps [simp del]

text \<open>
  The stream carries messages when its bytes are the messages with their ends, however they are
  cut into reads; no message has an end of message inside.
\<close>

definition eom_free :: "bytes \<Rightarrow> bool" where
  "eom_free m \<longleftrightarrow> eom_position m = None"

fun stream_bytes :: "l2cap_read list \<Rightarrow> bytes" where
  "stream_bytes (Rd_Bytes chunk # reads) = (if chunk = [] then [] else chunk @ stream_bytes reads)"
| "stream_bytes _ = []"

definition l2cap_carries :: "bytes list \<Rightarrow> bytes \<Rightarrow> l2cap_read list \<Rightarrow> bool" where
  "l2cap_carries ms read_buf reads \<longleftrightarrow>
     list_all eom_free ms \<and> (\<exists>rest. read_buf @ stream_bytes reads = concat (map (\<lambda>m. m @ EOM) ms) @ rest)"

lemma eom_position_append:
  "eom_position m = None \<Longrightarrow> eom_position (m @ EOM @ rest) = Some (length m)"
proof (induction m rule: eom_position.induct)
  case (1 a b xs)
  then show ?case by (auto split: if_splits)
qed (auto simp: EOM_def)

lemma split_message: "eom_free m \<Longrightarrow> split_next_message (m @ EOM @ rest) = Some (m, rest)"
  by (simp add: split_next_message_def eom_free_def eom_position_append)

lemma eom_position_split:
  "eom_position xs = Some k \<Longrightarrow> \<exists>rest. xs = take k xs @ EOM @ rest \<and> eom_position (take k xs) = None \<and> k + 2 \<le> length xs"
proof (induction xs arbitrary: k rule: eom_position.induct)
  case (1 a b xs)
  show ?case
  proof (cases "[a, b] = EOM")
    case True
    then show ?thesis using 1 by (auto simp: EOM_def)
  next
    case False
    then obtain j where j: "k = Suc j" "eom_position (b # xs) = Some j"
      using 1(2) by (auto split: if_splits)
    then obtain rest where r: "b # xs = take j (b # xs) @ EOM @ rest" "eom_position (take j (b # xs)) = None"
        "j + 2 \<le> length (b # xs)"
      using 1(1) False by blast
    have "eom_position (a # take j (b # xs)) = None"
      using r(2) False by (cases j) auto
    then show ?thesis using r j by auto
  qed
qed simp_all

lemma eom_unique_split:
  assumes "eom_free m" and "m @ EOM @ rest = xs @ ys" and "split_next_message xs = Some (m', rest')"
  shows "m' = m \<and> rest = rest' @ ys"
proof -
  obtain k where k: "eom_position xs = Some k" "m' = take k xs" "rest' = drop (k + 2) xs"
    using assms(3) by (auto simp: split_next_message_def EOM_def)
  obtain r where r: "xs = m' @ EOM @ r" "eom_free m'" "k + 2 \<le> length xs"
    using eom_position_split [OF k(1)] k(2) by (auto simp: eom_free_def)
  have "length m' = k" using k(2) r(3) by simp
  then have "rest' = r" using k(3) r(1) by (simp add: EOM_def)
  moreover have "split_next_message (m @ EOM @ rest) = Some (m', r @ ys)"
    using split_message [OF r(2), of "r @ ys"] by (simp add: assms(2) r(1))
  ultimately show ?thesis using split_message [OF assms(1), of rest] by simp
qed

lemma l2cap_recv_message:
  assumes "eom_free m" and "read_buf @ stream_bytes reads = m @ EOM @ rest"
  shows "\<exists>read_buf' reads'. l2cap_recv read_buf reads = Some (Inr (Some m), read_buf', reads')
    \<and> read_buf' @ stream_bytes reads' = rest"
  using assms(2)
proof (induction reads arbitrary: read_buf)
  case Nil
  then have "split_next_message read_buf = Some (m, rest)" using split_message [OF assms(1)] by simp
  then show ?case by (subst l2cap_recv.simps) simp
next
  case (Cons r reads)
  show ?case
  proof (cases "split_next_message read_buf")
    case (Some x)
    then obtain m' rest' where x: "split_next_message read_buf = Some (m', rest')" by (cases x) auto
    have "m' = m \<and> rest = rest' @ stream_bytes (r # reads)"
      using eom_unique_split [OF assms(1) _ x, of rest "stream_bytes (r # reads)"] Cons.prems by simp
    then show ?thesis using x by (subst l2cap_recv.simps) auto
  next
    case None
    show ?thesis
    proof (cases "\<exists>chunk. r = Rd_Bytes chunk \<and> chunk \<noteq> []")
      case True
      then obtain chunk where c: "r = Rd_Bytes chunk" "chunk \<noteq> []" by blast
      then have "(read_buf @ chunk) @ stream_bytes reads = m @ EOM @ rest" using Cons.prems by simp
      from Cons.IH [OF this] show ?thesis using None c by (subst l2cap_recv.simps) simp
    next
      case False
      then have "stream_bytes (r # reads) = []" by (cases r) auto
      then have "split_next_message read_buf = Some (m, rest)"
        using Cons.prems split_message [OF assms(1)] by simp
      then show ?thesis using None by simp
    qed
  qed
qed

interpretation l2cap: data_channel l2cap_recv l2cap_carries
proof unfold_locales
  fix m :: bytes and ms b w
  assume "l2cap_carries (m # ms) b w"
  then obtain rest where "eom_free m" "list_all eom_free ms"
      "b @ stream_bytes w = m @ EOM @ (concat (map (\<lambda>m. m @ EOM) ms) @ rest)"
    by (auto simp: l2cap_carries_def)
  from l2cap_recv_message [OF this(1,3)] this(2)
  show "\<exists>b' w'. l2cap_recv b w = Some (Inr (Some m), b', w') \<and> l2cap_carries ms b' w'"
    by (auto simp: l2cap_carries_def)
qed

section \<open>Properties\<close>

text \<open>
  C: Messages sent over an L2CAP stream are received in order and unchanged, however the stream
  is cut into reads, as long as none of them has the two bytes of an end of message inside.
\<close>

theorem l2cap_messages_received:
  assumes "list_all eom_free ms"
    and "stream_bytes reads = concat (map (\<lambda>m. m @ EOM) ms) @ rest"
  shows "l2cap.recv_many (length ms) [] reads = Some ms"
  using assms by (intro l2cap.receives_all [where rest = "[]"]) (auto simp: l2cap_carries_def)

lemma l2cap_messages_received_witness:
  "l2cap.recv_many (length [[1, 0x0D], [], [2, 3 :: u8]]) []
    [Rd_Bytes [1, 0x0D, 0x0D], Rd_Bytes [0x0A, 0x0D, 0x0A, 2], Rd_Bytes [3, 0x0D, 0x0A]]
    = Some [[1, 0x0D], [], [2, 3]]"
  by (rule l2cap_messages_received [where rest = "[]"]) (simp_all add: eom_free_def EOM_def)

text \<open>
  C: A message that has the two bytes of an end of message inside, as an encrypted frame can, is
  not received as it was sent: the receiver gets its part before them as a message.
\<close>

theorem l2cap_embedded_eom_splits:
  assumes "eom_free x" and "stream_bytes reads = (x @ EOM @ y) @ EOM @ rest"
  shows "\<exists>read_buf reads'. l2cap_recv [] reads = Some (Inr (Some x), read_buf, reads')
    \<and> x \<noteq> x @ EOM @ y \<and> read_buf @ stream_bytes reads' = y @ EOM @ rest"
  using l2cap_recv_message [OF assms(1), of "[]" reads "y @ EOM @ rest"] assms(2)
  by (auto simp: EOM_def)

lemma l2cap_embedded_eom_splits_witness:
  "\<exists>read_buf reads'. l2cap_recv [] [Rd_Bytes ([7, 0x0D, 0x0A, 8] @ EOM)] = Some (Inr (Some [7]), read_buf, reads')
    \<and> [7] \<noteq> [7] @ EOM @ [8 :: u8] \<and> read_buf @ stream_bytes reads' = [8] @ EOM @ []"
  by (rule l2cap_embedded_eom_splits) (simp_all add: eom_free_def EOM_def)

text \<open>
  Over the WebSocket tunnel every message is received as it was sent; pings and pongs in between
  are passed over.
\<close>

lemma ws_messages_received:
  assumes "filter (\<lambda>x. x \<noteq> Ws_Ping \<and> x \<noteq> Ws_Pong) items = map Ws_Binary ms @ rest"
  shows "ws.recv_many (length ms) () items = Some ms"
  using assms by (intro ws.receives_all [where rest = "[]"]) (auto simp: ws_carries_def)

end
