(* ===== verification/Cable_Tunnel.thy ===== *)
theory Cable_Tunnel
  imports Cable_Data_Channel Platform
begin

text \<open>
  The tunnel server of the hybrid transport (\<^verbatim>\<open>transport/cable/tunnel.rs\<close>: the connection with its
  redirects) and the devices a client knows (\<^verbatim>\<open>known_devices.rs\<close>: the information of a device,
  its identifier, the store).
\<close>

section \<open>Known devices\<close>

record cable_linking_info =
  ln_contact_id :: bytes
  ln_link_id :: bytes
  ln_link_secret :: bytes
  ln_authenticator_public_key :: bytes
  ln_authenticator_name :: string
  ln_handshake_signature :: bytes

record cable_known_device_info =
  kd_contact_id :: bytes
  kd_link_id :: bytes
  kd_link_secret :: bytes
  kd_public_key :: bytes
  kd_name :: string
  kd_tunnel_domain :: string

definition known_device_id :: "cable_linking_info \<Rightarrow> string" where
  "known_device_id linking_info = hex_encode (ln_authenticator_public_key linking_info)"

text \<open>\<^verbatim>\<open>try_into\<close> to an array of the given length.\<close>

definition array_of :: "nat \<Rightarrow> bytes \<Rightarrow> bytes option" where
  "array_of n bs = (if length bs = n then Some bs else None)"

definition known_device_info_new :: "string \<Rightarrow> cable_linking_info \<Rightarrow> cable_error + cable_known_device_info" where
  "known_device_info_new tunnel_domain linking_info =
     result_bind (ok_or Ce_InvalidFraming (array_of 8 (ln_link_id linking_info))) (\<lambda>link_id.
     result_bind (ok_or Ce_InvalidFraming (array_of 32 (ln_link_secret linking_info))) (\<lambda>link_secret.
     result_bind (ok_or Ce_InvalidFraming (array_of 65 (ln_authenticator_public_key linking_info))) (\<lambda>public_key.
     Inr \<lparr>kd_contact_id = ln_contact_id linking_info, kd_link_id = link_id, kd_link_secret = link_secret,
       kd_public_key = public_key, kd_name = ln_authenticator_name linking_info,
       kd_tunnel_domain = tunnel_domain\<rparr>)))"

text \<open>The trait \<^verbatim>\<open>CableKnownDeviceInfoStore\<close> and its implementation in memory.\<close>

record 's device_store =
  ds_put :: "string \<Rightarrow> cable_known_device_info \<Rightarrow> 's \<Rightarrow> 's"
  ds_delete :: "string \<Rightarrow> 's \<Rightarrow> 's"

type_synonym ephemeral_devices = "string \<rightharpoonup> cable_known_device_info"

definition ephemeral_new :: ephemeral_devices where "ephemeral_new = Map.empty"

definition ephemeral_list_all :: "ephemeral_devices \<Rightarrow> (string \<times> cable_known_device_info) set" where
  "ephemeral_list_all devices = Map.graph devices"

definition ephemeral_store :: "ephemeral_devices device_store" where
  "ephemeral_store =
     \<lparr>ds_put = \<lambda>device_id device devices. devices(device_id \<mapsto> device),
      ds_delete = \<lambda>device_id devices. devices(device_id := None)\<rparr>"

text \<open>What a store promises, with \<open>lookup\<close> as its observation.\<close>

locale known_device_store =
  fixes store :: "'s device_store" and lookup :: "'s \<Rightarrow> string \<Rightarrow> cable_known_device_info option"
  assumes lookup_put: "lookup (ds_put store i d s) j = (if j = i then Some d else lookup s j)"
    and lookup_delete: "lookup (ds_delete store i s) j = (if j = i then None else lookup s j)"
begin

lemma put_delete_lookup: "lookup (ds_delete store i (ds_put store i d s)) j = (if j = i then None else lookup s j)"
  by (simp add: lookup_put lookup_delete)

end

interpretation ephemeral: known_device_store ephemeral_store "\<lambda>devices i. devices i"
  by unfold_locales (simp_all add: ephemeral_store_def)

section \<open>The connection to the tunnel server\<close>

datatype client_payload_hint = Hint_GetAssertion | Hint_MakeCredential

record client_payload =
  cp_link_id :: bytes
  cp_client_nonce :: bytes
  cp_hint :: client_payload_hint

text \<open>The private scalar is given by its bytes.\<close>

datatype tunnel_connection_type = QrCode string string bytes | KnownDevice string bytes client_payload

definition MAX_TUNNEL_REDIRECTS :: nat where "MAX_TUNNEL_REDIRECTS = 5"

record tunnel_request =
  tr_url :: string
  tr_headers :: "string \<rightharpoonup> string"

text \<open>
  The answers of \<^verbatim>\<open>connect_async\<close>: a stream with the status of its response, an HTTP response that
  is no upgrade, with its status and its \<^verbatim>\<open>Location\<close> as far as it is text, or another error.
\<close>

datatype 'c connect_answer = Ca_Connected 'c nat | Ca_Http nat "string option" | Ca_Error

text \<open>
  The crates: the request of a URL, the parser of header values, the CBOR encoder of the client
  payload, the resolution of a reference against a base URL, and the connection itself on the
  state of the network.
\<close>

record ('w, 'c) tunnel_lib =
  tl_client_request :: "string \<Rightarrow> tunnel_request option"
  tl_header_value :: "string \<Rightarrow> string option"
  tl_payload_to_vec :: "client_payload \<Rightarrow> bytes option"
  tl_join_url :: "string \<Rightarrow> string \<Rightarrow> string option"
  tl_connect :: "tunnel_request \<Rightarrow> 'w \<Rightarrow> 'c connect_answer \<times> 'w"

definition build_tunnel_request :: "('w, 'c) tunnel_lib \<Rightarrow> string \<Rightarrow> tunnel_connection_type
    \<Rightarrow> cable_error + tunnel_request" where
  "build_tunnel_request net url connection_type =
     result_bind (ok_or Ce_WebSocket (tl_client_request net url)) (\<lambda>request.
     result_bind (ok_or Ce_HttpHeader (tl_header_value net ''fido.cable'')) (\<lambda>protocol.
     let request = request\<lparr>tr_headers := (tr_headers request)(''Sec-WebSocket-Protocol'' \<mapsto> protocol)\<rparr>
     in case connection_type of
          KnownDevice _ _ client_payload \<Rightarrow>
            result_bind (ok_or Ce_Cbor (tl_payload_to_vec net client_payload)) (\<lambda>payload.
            result_bind (ok_or Ce_HttpHeader (tl_header_value net (hex_encode payload))) (\<lambda>payload.
            Inr (request\<lparr>tr_headers := (tr_headers request)(''X-caBLE-Client-Payload'' \<mapsto> payload)\<rparr>)))
        | QrCode _ _ _ \<Rightarrow> Inr request))"

definition resolve_redirect_target :: "('w, 'c) tunnel_lib \<Rightarrow> string \<Rightarrow> string \<Rightarrow> cable_error + string" where
  "resolve_redirect_target net base location = ok_or Ce_Url (tl_join_url net base location)"

definition tunnel_status_error :: "nat \<Rightarrow> cable_error" where
  "tunnel_status_error status =
     (if status = 410 then Ce_CableTunnel Tn_Gone
      else Ce_CableTunnel (Tn_UnexpectedStatus (of_nat status)))"

fun known_device_id_to_forget :: "cable_error \<Rightarrow> tunnel_connection_type \<Rightarrow> string option" where
  "known_device_id_to_forget (Ce_CableTunnel Tn_Gone) (KnownDevice _ authenticator_public_key _) =
     Some (hex_encode authenticator_public_key)"
| "known_device_id_to_forget _ _ = None"

definition is_redirection :: "nat \<Rightarrow> bool" where
  "is_redirection status \<longleftrightarrow> 300 \<le> status \<and> status < 400"

fun tunnel_url :: "string \<Rightarrow> tunnel_connection_type \<Rightarrow> string" where
  "tunnel_url tunnel_domain (QrCode routing_id tunnel_id _) =
     ''wss://'' @ tunnel_domain @ ''/cable/connect/'' @ routing_id @ ''/'' @ tunnel_id"
| "tunnel_url tunnel_domain (KnownDevice contact_id _ _) =
     ''wss://'' @ tunnel_domain @ ''/cable/contact/'' @ contact_id"

text \<open>The loop of \<^verbatim>\<open>connect\<close>, with the attempts that are left.\<close>

fun tunnel_attempts :: "('w, 'c) tunnel_lib \<Rightarrow> tunnel_connection_type \<Rightarrow> nat \<Rightarrow> string
    \<Rightarrow> 'w \<Rightarrow> (cable_error + 'c) \<times> 'w" where
  "tunnel_attempts net connection_type 0 connect_url w = (Inl (Ce_CableTunnel Tn_TooManyRedirects), w)"
| "tunnel_attempts net connection_type (Suc n) connect_url w =
     (case build_tunnel_request net connect_url connection_type of
        Inl e \<Rightarrow> (Inl e, w)
      | Inr request \<Rightarrow>
          (case tl_connect net request w of
             (Ca_Connected ws_stream status, w) \<Rightarrow>
               if status \<noteq> 101 then (Inl Ce_ConnectionFailed, w) else (Inr ws_stream, w)
           | (Ca_Error, w) \<Rightarrow> (Inl Ce_WebSocket, w)
           | (Ca_Http status location, w) \<Rightarrow>
               if is_redirection status
               then (case location of
                       None \<Rightarrow> (Inl Ce_ConnectionFailed, w)
                     | Some location \<Rightarrow>
                         (case resolve_redirect_target net connect_url location of
                            Inl e \<Rightarrow> (Inl e, w)
                          | Inr connect_url \<Rightarrow> tunnel_attempts net connection_type n connect_url w))
               else (Inl (tunnel_status_error status), w)))"

definition tunnel_connect :: "('w, 'c) tunnel_lib \<Rightarrow> string \<Rightarrow> tunnel_connection_type
    \<Rightarrow> 'w \<Rightarrow> (cable_error + 'c) \<times> 'w" where
  "tunnel_connect net tunnel_domain connection_type w =
     tunnel_attempts net connection_type (Suc MAX_TUNNEL_REDIRECTS) (tunnel_url tunnel_domain connection_type) w"

section \<open>The answer of the tunnel server\<close>

text \<open>
  Requests that were redirected: each was built for its URL and answered with a redirection to the
  URL of the next one.
\<close>

inductive redirected :: "('w, 'c) tunnel_lib \<Rightarrow> tunnel_connection_type \<Rightarrow> string \<Rightarrow> 'w \<Rightarrow> nat \<Rightarrow> string \<Rightarrow> 'w \<Rightarrow> bool"
  for net :: "('w, 'c) tunnel_lib" and ct :: tunnel_connection_type and url :: string and w :: 'w where
  redirected_0: "redirected net ct url w 0 url w"
| redirected_Suc: "redirected net ct url w k url1 w1 \<Longrightarrow> build_tunnel_request net url1 ct = Inr request \<Longrightarrow>
    tl_connect net request w1 = (Ca_Http status (Some location), w2) \<Longrightarrow> 300 \<le> status \<Longrightarrow> status < 400 \<Longrightarrow>
    tl_join_url net url1 location = Some url2 \<Longrightarrow> redirected net ct url w (Suc k) url2 w2"

text \<open>The answer to the request at \<open>url\<close> after at most five redirections.\<close>

definition tunnel_answers :: "('w, 'c) tunnel_lib \<Rightarrow> tunnel_connection_type \<Rightarrow> string \<Rightarrow> 'w
    \<Rightarrow> 'c connect_answer \<Rightarrow> 'w \<Rightarrow> bool" where
  "tunnel_answers net ct url w answer w' \<longleftrightarrow>
     (\<exists>k url1 w1 request. k \<le> 5 \<and> redirected net ct url w k url1 w1
       \<and> build_tunnel_request net url1 ct = Inr request \<and> tl_connect net request w1 = (answer, w'))"

lemma redirected_attempts:
  "redirected net ct url w k url1 w1 \<Longrightarrow>
    tunnel_attempts net ct (k + n) url w = tunnel_attempts net ct n url1 w1"
proof (induction arbitrary: n rule: redirected.induct)
  case redirected_0
  then show ?case by simp
next
  case (redirected_Suc k url1 w1 request status location w2 url2)
  then show ?case using redirected_Suc.IH [of "Suc n"]
    by (simp add: is_redirection_def resolve_redirect_target_def ok_or_def)
qed

lemma build_no_tunnel_error: "build_tunnel_request net url ct \<noteq> Inl (Ce_CableTunnel e)"
  by (auto simp: build_tunnel_request_def result_bind_def ok_or_def Let_def
      split: option.splits sum.splits tunnel_connection_type.splits)

text \<open>The attempts that are left answer the last request.\<close>

lemma attempts_end:
  assumes "redirected net ct url w k url1 w1" and "tunnel_attempts net ct n url1 w1 = (r, w')"
    and "r = Inr c \<or> r = Inl (Ce_CableTunnel Tn_Gone)" and "k + n = 6"
  shows "\<exists>k url1 w1 request. k \<le> 5 \<and> redirected net ct url w k url1 w1
       \<and> build_tunnel_request net url1 ct = Inr request
       \<and> (r = Inr c \<and> tl_connect net request w1 = (Ca_Connected c 101, w')
          \<or> r = Inl (Ce_CableTunnel Tn_Gone) \<and> (\<exists>location. tl_connect net request w1 = (Ca_Http 410 location, w')))"
  using assms
proof (induction n arbitrary: k url1 w1)
  case 0
  then show ?case by auto
next
  case (Suc n)
  obtain request where q: "build_tunnel_request net url1 ct = Inr request"
    using Suc.prems(2,3) build_no_tunnel_error [of net url1 ct] by (cases "build_tunnel_request net url1 ct") auto
  obtain a w2 where a: "tl_connect net request w1 = (a, w2)" by fastforce
  show ?case
  proof (cases "\<exists>status location url2. a = Ca_Http status (Some location) \<and> is_redirection status
      \<and> tl_join_url net url1 location = Some url2")
    case True
    then obtain status location url2 where s: "a = Ca_Http status (Some location)" "is_redirection status"
        "tl_join_url net url1 location = Some url2" by blast
    have "redirected net ct url w (Suc k) url2 w2"
      by (rule redirected_Suc [OF Suc.prems(1) q a [unfolded s(1)] _ _ s(3)]) (use s(2) in \<open>simp_all add: is_redirection_def\<close>)
    moreover have "tunnel_attempts net ct n url2 w2 = (r, w')"
      using Suc.prems(2) q a s by (simp add: resolve_redirect_target_def ok_or_def)
    ultimately show ?thesis using Suc.IH Suc.prems(3,4) by simp
  next
    case False
    have "w' = w2 \<and> (r = Inr c \<and> a = Ca_Connected c 101
        \<or> r = Inl (Ce_CableTunnel Tn_Gone) \<and> (\<exists>location. a = Ca_Http 410 location))"
      using Suc.prems(2,3) q a False
      by (auto simp: resolve_redirect_target_def ok_or_def tunnel_status_error_def
          split: connect_answer.splits option.splits if_splits)
    then show ?thesis using Suc.prems(1,4) q a by (intro exI [of _ k] exI [of _ url1] exI [of _ w1] exI [of _ request]) auto
  qed
qed

lemma tunnel_connect_iff:
  "tunnel_connect net domain ct w = (Inr c, w') \<longleftrightarrow>
     tunnel_answers net ct (tunnel_url domain ct) w (Ca_Connected c 101) w'" (is ?connected)
  "tunnel_connect net domain ct w = (Inl (Ce_CableTunnel Tn_Gone), w') \<longleftrightarrow>
     (\<exists>location. tunnel_answers net ct (tunnel_url domain ct) w (Ca_Http 410 location) w')" (is ?gone)
proof -
  let ?u = "tunnel_url domain ct"
  note start = redirected_0 [of net ct ?u w]
  have answer: "tunnel_connect net domain ct w = tunnel_attempts net ct (Suc n) url1 w1"
    if "redirected net ct ?u w k url1 w1" "k + n = 5" for k url1 w1 n
    using redirected_attempts [OF that(1), of "Suc n"] that(2)
    by (simp add: tunnel_connect_def MAX_TUNNEL_REDIRECTS_def)
  have run: "tunnel_attempts net ct 6 ?u w = tunnel_connect net domain ct w"
    by (simp add: tunnel_connect_def MAX_TUNNEL_REDIRECTS_def)
  show ?connected
  proof
    assume "tunnel_connect net domain ct w = (Inr c, w')"
    with attempts_end [OF start, of 6 "Inr c" w' c] run
    show "tunnel_answers net ct ?u w (Ca_Connected c 101) w'"
      unfolding tunnel_answers_def by auto
  next
    assume "tunnel_answers net ct ?u w (Ca_Connected c 101) w'"
    then show "tunnel_connect net domain ct w = (Inr c, w')"
      unfolding tunnel_answers_def using answer le_Suc_ex by fastforce
  qed
  show ?gone
  proof
    assume "tunnel_connect net domain ct w = (Inl (Ce_CableTunnel Tn_Gone), w')"
    with attempts_end [OF start, of 6 "Inl (Ce_CableTunnel Tn_Gone)" w'] run
    show "\<exists>location. tunnel_answers net ct ?u w (Ca_Http 410 location) w'"
      unfolding tunnel_answers_def by simp blast
  next
    assume "\<exists>location. tunnel_answers net ct ?u w (Ca_Http 410 location) w'"
    then show "tunnel_connect net domain ct w = (Inl (Ce_CableTunnel Tn_Gone), w')"
      unfolding tunnel_answers_def using answer le_Suc_ex
      by (fastforce simp: is_redirection_def tunnel_status_error_def)
  qed
qed

section \<open>Properties\<close>

text \<open>A network that records the requests it is sent.\<close>

definition records_requests :: "('w, 'c) tunnel_lib \<Rightarrow> ('w \<Rightarrow> tunnel_request list) \<Rightarrow> bool" where
  "records_requests net sent \<longleftrightarrow> (\<forall>request w. sent (snd (tl_connect net request w)) = sent w @ [request])"

definition tunnel_headers_ok :: "('w, 'c) tunnel_lib \<Rightarrow> tunnel_connection_type \<Rightarrow> tunnel_request \<Rightarrow> bool" where
  "tunnel_headers_ok net connection_type request \<longleftrightarrow>
     tr_headers request ''Sec-WebSocket-Protocol'' = tl_header_value net ''fido.cable''
     \<and> tr_headers request ''Sec-WebSocket-Protocol'' \<noteq> None
     \<and> (case connection_type of
          KnownDevice _ _ payload \<Rightarrow> (\<exists>p. tl_payload_to_vec net payload = Some p
            \<and> tr_headers request ''X-caBLE-Client-Payload'' = tl_header_value net (hex_encode p)
            \<and> tr_headers request ''X-caBLE-Client-Payload'' \<noteq> None)
        | QrCode _ _ _ \<Rightarrow> True)"

lemma built_headers: "build_tunnel_request net url ct = Inr request \<Longrightarrow> tunnel_headers_ok net ct request"
  by (auto simp: build_tunnel_request_def tunnel_headers_ok_def result_bind_def ok_or_def Let_def
      split: option.splits sum.splits tunnel_connection_type.splits)

lemma resolve_no_tunnel_error: "resolve_redirect_target net base location \<noteq> Inl (Ce_CableTunnel e)"
  by (simp add: resolve_redirect_target_def ok_or_def split: option.split)

lemma attempts_requests:
  assumes "records_requests net sent" "tunnel_attempts net ct n url w = (r, w')"
  shows "\<exists>requests. sent w' = sent w @ requests \<and> length requests \<le> n
    \<and> (\<forall>q\<in>set requests. tunnel_headers_ok net ct q)
    \<and> (r = Inl (Ce_CableTunnel Tn_TooManyRedirects) \<longrightarrow> length requests = n)"
  using assms(2)
proof (induction n arbitrary: url w)
  case 0
  then show ?case by simp
next
  case (Suc n)
  show ?case
  proof (cases "build_tunnel_request net url ct")
    case (Inl e)
    then have "e \<noteq> Ce_CableTunnel Tn_TooManyRedirects"
      by (auto simp: build_tunnel_request_def result_bind_def ok_or_def Let_def
          split: option.splits sum.splits tunnel_connection_type.splits)
    then show ?thesis using Suc.prems Inl by auto
  next
    case (Inr request)
    obtain a w1 where c: "tl_connect net request w = (a, w1)" by fastforce
    then have s: "sent w1 = sent w @ [request]" using assms(1) by (metis records_requests_def snd_conv)
    show ?thesis
    proof (cases "\<exists>status location url'. a = Ca_Http status (Some location) \<and> is_redirection status
        \<and> resolve_redirect_target net url location = Inr url'")
      case True
      then obtain url' where "tunnel_attempts net ct n url' w1 = (r, w')"
        using Suc.prems Inr c by auto
      from Suc.IH [OF this] obtain qs where "sent w' = sent w1 @ qs" "length qs \<le> n"
          "\<forall>q\<in>set qs. tunnel_headers_ok net ct q" "r = Inl (Ce_CableTunnel Tn_TooManyRedirects) \<longrightarrow> length qs = n"
        by blast
      then show ?thesis using s built_headers [OF Inr] by (intro exI [of _ "request # qs"]) simp
    next
      case False
      then have "w' = w1" "r \<noteq> Inl (Ce_CableTunnel Tn_TooManyRedirects)"
        using Suc.prems Inr c
        by (auto simp: tunnel_status_error_def resolve_no_tunnel_error
            split: connect_answer.splits option.splits sum.splits if_splits)
      then show ?thesis using s built_headers [OF Inr] by (intro exI [of _ "[request]"]) simp
    qed
  qed
qed

text \<open>
  C31: However the tunnel server answers, a connection makes at most six requests (the first and
  five redirects), and the error for too many redirects is reported only after all six.  Each
  request, redirected or not, carries the subprotocol, and for a known device the client payload.
\<close>

theorem tunnel_redirects_bounded:
  assumes "records_requests net sent"
    and "tunnel_connect net tunnel_domain connection_type w = (r, w')"
  shows "\<exists>requests. sent w' = sent w @ requests \<and> length requests \<le> 6
    \<and> (\<forall>request\<in>set requests. tunnel_headers_ok net connection_type request)
    \<and> (r = Inl (Ce_CableTunnel Tn_TooManyRedirects) \<longrightarrow> length requests = 6)"
  using attempts_requests [OF assms(1), of connection_type "Suc MAX_TUNNEL_REDIRECTS"] assms(2)
  unfolding tunnel_connect_def MAX_TUNNEL_REDIRECTS_def by fastforce

definition redirecting_tunnel :: "(tunnel_request list, unit) tunnel_lib" where
  "redirecting_tunnel =
     \<lparr>tl_client_request = \<lambda>url. Some \<lparr>tr_url = url, tr_headers = Map.empty\<rparr>,
      tl_header_value = Some,
      tl_payload_to_vec = \<lambda>p. Some (cp_link_id p),
      tl_join_url = \<lambda>base location. Some (base @ location),
      tl_connect = \<lambda>request w. (Ca_Http 301 (Some ''x''), w @ [request])\<rparr>"

lemma tunnel_redirects_bounded_witness:
  "\<exists>requests. snd (tunnel_connect redirecting_tunnel ''a'' (KnownDevice ''c'' [4] \<lparr>cp_link_id = [1], cp_client_nonce = [], cp_hint = Hint_GetAssertion\<rparr>) [])
      = [] @ requests \<and> length requests \<le> 6
    \<and> (\<forall>request\<in>set requests. tunnel_headers_ok redirecting_tunnel
        (KnownDevice ''c'' [4] \<lparr>cp_link_id = [1], cp_client_nonce = [], cp_hint = Hint_GetAssertion\<rparr>) request)
    \<and> (Inl (Ce_CableTunnel Tn_TooManyRedirects) = (Inl (Ce_CableTunnel Tn_TooManyRedirects) :: cable_error + unit)
        \<longrightarrow> length requests = 6)"
proof (rule tunnel_redirects_bounded [where sent = "\<lambda>w. w"])
  show "records_requests redirecting_tunnel (\<lambda>w. w)"
    by (simp add: records_requests_def redirecting_tunnel_def)
  let ?ct = "KnownDevice ''c'' [4] \<lparr>cp_link_id = [1], cp_client_nonce = [], cp_hint = Hint_GetAssertion\<rparr>"
  have "fst (tunnel_attempts redirecting_tunnel ?ct n url w) = Inl (Ce_CableTunnel Tn_TooManyRedirects)" for n url w
    by (induction n arbitrary: url w) (simp_all add: build_tunnel_request_def redirecting_tunnel_def
        result_bind_def ok_or_def resolve_redirect_target_def is_redirection_def)
  then show "tunnel_connect redirecting_tunnel ''a'' ?ct []
      = (Inl (Ce_CableTunnel Tn_TooManyRedirects), snd (tunnel_connect redirecting_tunnel ''a'' ?ct []))"
    by (metis prod.collapse tunnel_connect_def)
qed

end
