(* ===== verification/Cable_Protocol.thy ===== *)
theory Cable_Protocol
  imports Cable_Tunnel Get_Info
begin

text \<open>
  The protocol over a data channel (\<^verbatim>\<open>transport/cable/protocol.rs\<close>): the Noise handshake, the frames
  with their padding, the messages of the tunnel, updates with linking information, and the loop
  that relays requests and responses.  The Noise protocol (\<^verbatim>\<open>snow\<close>), the curve (\<^verbatim>\<open>p256\<close>) and the
  CBOR decoders are parameters.
\<close>

section \<open>Tunnel messages\<close>

definition P256_X962_LENGTH :: nat where "P256_X962_LENGTH = 65"
definition MAX_CBOR_SIZE :: nat where "MAX_CBOR_SIZE = 1024 * 1024"
definition PADDING_GRANULARITY :: nat where "PADDING_GRANULARITY = 32"
definition CABLE_PROLOGUE_STATE_ASSISTED :: bytes where "CABLE_PROLOGUE_STATE_ASSISTED = [0]"
definition CABLE_PROLOGUE_QR_INITIATED :: bytes where "CABLE_PROLOGUE_QR_INITIATED = [1]"

datatype tunnel_message_type = Msg_Shutdown | Msg_Ctap | Msg_Update

fun tunnel_message_type_to_u8 :: "tunnel_message_type \<Rightarrow> u8" where
  "tunnel_message_type_to_u8 Msg_Shutdown = 0"
| "tunnel_message_type_to_u8 Msg_Ctap = 1"
| "tunnel_message_type_to_u8 Msg_Update = 2"

record tunnel_message =
  tm_type :: tunnel_message_type
  tm_payload :: bytes

definition tunnel_message_new :: "tunnel_message_type \<Rightarrow> bytes \<Rightarrow> tunnel_message" where
  "tunnel_message_new message_type payload = \<lparr>tm_type = message_type, tm_payload = payload\<rparr>"

fun tunnel_message_from_slice :: "bytes \<Rightarrow> cable_error + tunnel_message" where
  "tunnel_message_from_slice [] = Inl Ce_InvalidFraming"
| "tunnel_message_from_slice (type_byte # payload) =
     (if payload = [] then Inl Ce_InvalidFraming
      else if type_byte = 0 then Inr (tunnel_message_new Msg_Shutdown payload)
      else if type_byte = 1 then Inr (tunnel_message_new Msg_Ctap payload)
      else if type_byte = 2 then Inr (tunnel_message_new Msg_Update payload)
      else Inl Ce_InvalidFraming)"

definition tunnel_message_to_vec :: "tunnel_message \<Rightarrow> bytes" where
  "tunnel_message_to_vec message = tunnel_message_type_to_u8 (tm_type message) # tm_payload message"

definition pad_cbor_request :: "bytes \<Rightarrow> bytes" where
  "pad_cbor_request cbor_request =
     (let extra_bytes = PADDING_GRANULARITY - length cbor_request mod PADDING_GRANULARITY;
          padded = cbor_request @ replicate extra_bytes 0
      in padded[length padded - 1 := of_nat (extra_bytes - 1)])"

definition strip_frame_padding :: "bytes \<Rightarrow> cable_error + bytes" where
  "strip_frame_padding decrypted_frame =
     (if decrypted_frame = [] then Inl Ce_InvalidFraming
      else
        let padding_len = unat (last decrypted_frame)
        in if length decrypted_frame < padding_len + 1 then Inl Ce_InvalidFraming
           else Inr (take (length decrypted_frame - (padding_len + 1)) decrypted_frame))"

section \<open>The handshake\<close>

text \<open>
  A data channel: \<^verbatim>\<open>send\<close>, and \<^verbatim>\<open>recv\<close>, which is \<open>None\<close> while it waits.  The Noise library: a
  configured builder, the handshake with its messages (each is given the length of its output
  buffer), and the transport that comes out of it.
\<close>

record 'w data_channel_ops =
  dc_send :: "bytes \<Rightarrow> ('w, cable_error, unit) action"
  dc_recv :: "('w, cable_error, bytes option) action"

datatype noise_key = LocalPrivateKey bytes | RemotePublicKey bytes

record ('b, 'h, 'n) noise_lib =
  nz_configure :: "string \<Rightarrow> bytes \<Rightarrow> noise_key \<Rightarrow> bytes \<Rightarrow> 'b option"
  nz_build_initiator :: "'b \<Rightarrow> 'h option"
  nz_handshake_write :: "bytes \<Rightarrow> nat \<Rightarrow> 'h \<Rightarrow> bytes option \<times> 'h"
  nz_handshake_read :: "bytes \<Rightarrow> nat \<Rightarrow> 'h \<Rightarrow> bytes option \<times> 'h"
  nz_is_handshake_finished :: "'h \<Rightarrow> bool"
  nz_get_handshake_hash :: "'h \<Rightarrow> bytes"
  nz_into_transport_mode :: "'h \<Rightarrow> 'n option"
  nz_write_message :: "bytes \<Rightarrow> nat \<Rightarrow> 'n \<Rightarrow> bytes option \<times> 'n"
  nz_read_message :: "bytes \<Rightarrow> nat \<Rightarrow> 'n \<Rightarrow> bytes option \<times> 'n"

record 'n tunnel_noise_state =
  nt_transport_state :: 'n
  nt_handshake_hash :: bytes

fun noise_builder :: "('b, 'h, 'n) noise_lib \<Rightarrow> bytes \<Rightarrow> tunnel_connection_type \<Rightarrow> cable_error + 'b" where
  "noise_builder nz psk (QrCode _ _ private_key) =
     ok_or Ce_Noise (nz_configure nz ''Noise_KNpsk0_P256_AESGCM_SHA256'' CABLE_PROLOGUE_QR_INITIATED
       (LocalPrivateKey private_key) psk)"
| "noise_builder nz psk (KnownDevice _ authenticator_public_key _) =
     ok_or Ce_Noise (nz_configure nz ''Noise_NKpsk0_P256_AESGCM_SHA256'' CABLE_PROLOGUE_STATE_ASSISTED
       (RemotePublicKey authenticator_public_key) psk)"

definition do_handshake :: "('b, 'h, 'n) noise_lib \<Rightarrow> 'w data_channel_ops \<Rightarrow> bytes
    \<Rightarrow> tunnel_connection_type \<Rightarrow> ('w, cable_error, 'n tunnel_noise_state) action" where
  "do_handshake nz dc psk connection_type =
     act_bind (act_lift (noise_builder nz psk connection_type)) (\<lambda>builder.
     act_bind (act_lift (ok_or Ce_ConnectionFailed (nz_build_initiator nz builder))) (\<lambda>handshake.
     (case nz_handshake_write nz [] 1024 handshake of
        (None, _) \<Rightarrow> act_fail Ce_ConnectionFailed
      | (Some initial_msg, handshake) \<Rightarrow>
          act_bind (dc_send dc initial_msg) (\<lambda>_.
          act_bind (dc_recv dc) (\<lambda>message.
          (case message of
             None \<Rightarrow> act_fail Ce_ConnectionFailed
           | Some response \<Rightarrow>
               if length response < P256_X962_LENGTH then act_fail Ce_ConnectionFailed
               else (case nz_handshake_read nz response 1024 handshake of
                  (None, _) \<Rightarrow> act_fail Ce_ConnectionFailed
                | (Some _, handshake) \<Rightarrow>
                    if \<not> nz_is_handshake_finished nz handshake then act_fail Ce_ConnectionFailed
                    else
                      act_bind (act_lift (ok_or Ce_Noise (nz_into_transport_mode nz handshake))) (\<lambda>transport.
                      act_return \<lparr>nt_transport_state = transport,
                        nt_handshake_hash = nz_get_handshake_hash nz handshake\<rparr>))))))))"

section \<open>Sending and receiving frames\<close>

text \<open>
  The state of a connection: the Noise transport, the data channel, the responses handed to the
  caller and whether it still takes them, and the store.  The parameters of \<^verbatim>\<open>connection\<close>: the
  crates, the decoders (a CBOR map, the info of an initial message, an \<^verbatim>\<open>authenticatorGetInfo\<close>
  response), the store if there is one, and what the handshake left.
\<close>

record ('n, 'w, 's) tunnel_state =
  ts_noise :: "'n tunnel_noise_state"
  ts_channel :: 'w
  ts_responses :: "cbor_response list"
  ts_receiver_open :: bool
  ts_store :: 's

record p256_lib =
  p256_public_key :: "bytes \<Rightarrow> bytes option"
  p256_diffie_hellman :: "bytes \<Rightarrow> bytes \<Rightarrow> bytes"

record cable_initial_message =
  im_padding :: "bytes option"
  im_info :: bytes
  im_supported_features :: "string list option"

record ('b, 'h, 'n, 'w, 's) tunnel_env =
  te_noise :: "('b, 'h, 'n) noise_lib"
  te_channel :: "'w data_channel_ops"
  te_crypto :: cable_crypto
  te_p256 :: p256_lib
  te_map_of_cbor :: "bytes \<Rightarrow> (cbor_value \<times> cbor_value) list option"
  te_initial_of_cbor :: "bytes \<Rightarrow> cable_initial_message option"
  te_get_info_of_cbor :: "bytes \<Rightarrow> get_info_response option"
  te_store :: "'s device_store option"
  te_connection_type :: tunnel_connection_type
  te_tunnel_domain :: string

type_synonym ('n, 'w, 's, 'a) tunnel_action = "(('n, 'w, 's) tunnel_state, cable_error, 'a) action"

definition on_channel :: "('w, cable_error, 'a) action \<Rightarrow> ('n, 'w, 's, 'a) tunnel_action" where
  "on_channel m s = map_option (\<lambda>(r, w). (r, s\<lparr>ts_channel := w\<rparr>)) (m (ts_channel s))"

text \<open>A call of the Noise transport, whose state it changes.\<close>

definition on_noise :: "('n \<Rightarrow> bytes option \<times> 'n) \<Rightarrow> ('n, 'w, 's, bytes) tunnel_action" where
  "on_noise f s =
     (case f (nt_transport_state (ts_noise s)) of
        (r, n) \<Rightarrow> Some (ok_or Ce_EncryptionFailed r,
          s\<lparr>ts_noise := (ts_noise s)\<lparr>nt_transport_state := n\<rparr>\<rparr>))"

definition connection_send :: "('b, 'h, 'n, 'w, 's) tunnel_env \<Rightarrow> cbor_request \<Rightarrow> ('n, 'w, 's, unit) tunnel_action" where
  "connection_send te request =
     act_bind (act_lift (map_err (\<lambda>_. Ce_Io) (cbor_raw_long request))) (\<lambda>cbor_request.
     if length cbor_request > MAX_CBOR_SIZE then act_fail Ce_InvalidFraming
     else
       let frame = tunnel_message_new Msg_Ctap (pad_cbor_request cbor_request);
           frame_serialized = tunnel_message_to_vec frame
       in act_bind (on_noise (nz_write_message (te_noise te) frame_serialized (MAX_CBOR_SIZE + 1))) (\<lambda>encrypted_frame.
          on_channel (dc_send (te_channel te) encrypted_frame)))"

definition decrypt_frame :: "('b, 'h, 'n) noise_lib \<Rightarrow> bytes \<Rightarrow> ('n, 'w, 's, bytes) tunnel_action" where
  "decrypt_frame nz encrypted_frame =
     act_bind (on_noise (nz_read_message nz encrypted_frame MAX_CBOR_SIZE)) (\<lambda>decrypted_frame.
     act_lift (strip_frame_padding decrypted_frame))"

definition connection_recv_initial :: "('b, 'h, 'n, 'w, 's) tunnel_env \<Rightarrow> bytes \<Rightarrow> ('n, 'w, 's, bytes) tunnel_action" where
  "connection_recv_initial te encrypted_frame =
     act_bind (decrypt_frame (te_noise te) encrypted_frame) (\<lambda>decrypted_frame.
     act_bind (act_lift (ok_or Ce_InvalidFraming (te_initial_of_cbor te decrypted_frame))) (\<lambda>initial_message.
     act_bind (act_lift (ok_or Ce_InvalidFraming (te_get_info_of_cbor te (im_info initial_message)))) (\<lambda>_.
     act_return (im_info initial_message))))"

section \<open>Updates\<close>

definition map_bytes_at :: "(cbor_value \<times> cbor_value) list \<Rightarrow> int \<Rightarrow> bytes option" where
  "map_bytes_at m k = (case map_of m (Cbor_Integer k) of Some (Cbor_Bytes b) \<Rightarrow> Some b | _ \<Rightarrow> None)"

definition map_text_at :: "(cbor_value \<times> cbor_value) list \<Rightarrow> int \<Rightarrow> string option" where
  "map_text_at m k = (case map_of m (Cbor_Integer k) of Some (Cbor_Text t) \<Rightarrow> Some t | _ \<Rightarrow> None)"

definition linking_info_of_map :: "(cbor_value \<times> cbor_value) list \<Rightarrow> cable_linking_info option" where
  "linking_info_of_map m =
     Option.bind (map_bytes_at m 1) (\<lambda>contact_id.
     Option.bind (map_bytes_at m 2) (\<lambda>link_id.
     Option.bind (map_bytes_at m 3) (\<lambda>link_secret.
     Option.bind (map_bytes_at m 4) (\<lambda>authenticator_public_key.
     Option.bind (map_text_at m 5) (\<lambda>authenticator_name.
     Option.bind (map_bytes_at m 6) (\<lambda>handshake_signature.
     Some \<lparr>ln_contact_id = contact_id, ln_link_id = link_id, ln_link_secret = link_secret,
       ln_authenticator_public_key = authenticator_public_key,
       ln_authenticator_name = authenticator_name,
       ln_handshake_signature = handshake_signature\<rparr>))))))"

definition connection_recv_update :: "(bytes \<Rightarrow> (cbor_value \<times> cbor_value) list option) \<Rightarrow> bytes
    \<Rightarrow> cable_error + cable_linking_info option" where
  "connection_recv_update map_of_cbor message =
     result_map (\<lambda>update_message.
       (case map_of update_message (Cbor_Integer 1) of
          Some (Cbor_Map linking_info_map) \<Rightarrow> linking_info_of_map linking_info_map
        | _ \<Rightarrow> None))
     (ok_or Ce_InvalidFraming (map_of_cbor message))"

definition parse_known_device :: "cable_crypto \<Rightarrow> p256_lib \<Rightarrow> bytes \<Rightarrow> string \<Rightarrow> cable_linking_info
    \<Rightarrow> bytes \<Rightarrow> cable_error + cable_known_device_info" where
  "parse_known_device cc p256 private_key tunnel_domain linking_info handshake_hash =
     result_bind (known_device_info_new tunnel_domain linking_info) (\<lambda>known_device.
     result_bind (ok_or Ce_InvalidKey (p256_public_key p256 (ln_authenticator_public_key linking_info))) (\<lambda>public_key.
     result_bind (ok_or Ce_InvalidKey
         (cc_hmac cc (p256_diffie_hellman p256 private_key public_key) handshake_hash)) (\<lambda>expected_mac.
     if expected_mac \<noteq> ln_handshake_signature linking_info then Inl Ce_InvalidSignature
     else Inr known_device)))"

definition apply_linking_update :: "cable_crypto \<Rightarrow> p256_lib \<Rightarrow> 's device_store \<Rightarrow> bytes \<Rightarrow> string
    \<Rightarrow> cable_linking_info \<Rightarrow> bytes \<Rightarrow> 's \<Rightarrow> 's" where
  "apply_linking_update cc p256 store private_key tunnel_domain linking_info handshake_hash s =
     (case parse_known_device cc p256 private_key tunnel_domain linking_info handshake_hash of
        Inr known_device \<Rightarrow> ds_put store (known_device_id linking_info) known_device s
      | Inl _ \<Rightarrow> s)"

section \<open>The connection\<close>

datatype recv_outcome = Continue | PeerShutdown

text \<open>Handing a response to the caller fails once its receiver is dropped.\<close>

definition deliver_response :: "cbor_response \<Rightarrow> ('n, 'w, 's, unit) tunnel_action" where
  "deliver_response response s =
     (if ts_receiver_open s then Some (Inr (), s\<lparr>ts_responses := ts_responses s @ [response]\<rparr>)
      else Some (Inl Ce_ConnectionFailed, s))"

definition recv_update :: "('b, 'h, 'n, 'w, 's) tunnel_env \<Rightarrow> bytes \<Rightarrow> ('n, 'w, 's) tunnel_state
    \<Rightarrow> ('n, 'w, 's) tunnel_state" where
  "recv_update te payload s =
     (case connection_recv_update (te_map_of_cbor te) payload of
        Inl _ \<Rightarrow> s
      | Inr None \<Rightarrow> s
      | Inr (Some linking_info) \<Rightarrow>
          (case te_connection_type te of
             KnownDevice _ _ _ \<Rightarrow> s
           | QrCode _ _ private_key \<Rightarrow>
               (case te_store te of
                  Some store \<Rightarrow>
                    s\<lparr>ts_store := apply_linking_update (te_crypto te) (te_p256 te) store private_key
                        (te_tunnel_domain te) linking_info (nt_handshake_hash (ts_noise s)) (ts_store s)\<rparr>
                | None \<Rightarrow> s)))"

definition connection_recv :: "('b, 'h, 'n, 'w, 's) tunnel_env \<Rightarrow> bytes \<Rightarrow> ('n, 'w, 's, recv_outcome) tunnel_action" where
  "connection_recv te encrypted_frame =
     act_bind (decrypt_frame (te_noise te) encrypted_frame) (\<lambda>decrypted_frame.
     act_bind (act_lift (tunnel_message_from_slice decrypted_frame)) (\<lambda>cable_message.
     (case tm_type cable_message of
        Msg_Shutdown \<Rightarrow> act_return PeerShutdown
      | Msg_Ctap \<Rightarrow>
          act_bind (act_lift (map_err (\<lambda>_. Ce_InvalidFraming)
              (cbor_response_of_bytes (tm_payload cable_message)))) (\<lambda>cbor_response.
          act_bind (deliver_response cbor_response) (\<lambda>_.
          act_return Continue))
      | Msg_Update \<Rightarrow>
          act_bind (act_modify (recv_update te (tm_payload cable_message))) (\<lambda>_.
          act_return Continue))))"

text \<open>
  What \<^verbatim>\<open>select!\<close> sees in each turn of the loop: the data channel is ready, or a request of the
  caller; between turns the caller may drop its receiver.  The result tells whether the
  connection was closed or still runs when the given turns are over.
\<close>

datatype loop_exit = Closed | Running

datatype tunnel_event = Te_Inbound | Te_Request cbor_request | Te_ReceiverDropped

fun connection_loop :: "('b, 'h, 'n, 'w, 's) tunnel_env \<Rightarrow> bytes \<Rightarrow> tunnel_event list \<Rightarrow> ('n, 'w, 's, loop_exit) tunnel_action" where
  "connection_loop te get_info [] s = Some (Inr Running, s)"
| "connection_loop te get_info (Te_Inbound # events) s =
     act_bind (on_channel (dc_recv (te_channel te))) (\<lambda>message.
     (case message of
        None \<Rightarrow> act_return Closed
      | Some message \<Rightarrow>
          act_bind (connection_recv te message) (\<lambda>outcome.
          (case outcome of
             Continue \<Rightarrow> connection_loop te get_info events
           | PeerShutdown \<Rightarrow> act_return Closed)))) s"
| "connection_loop te get_info (Te_Request request # events) s =
     (if cr_command request = AuthenticatorGetInfo
      then act_bind (deliver_response (cbor_response_new_success get_info)) (\<lambda>_.
        connection_loop te get_info events) s
      else act_bind (connection_send te request) (\<lambda>_.
        connection_loop te get_info events) s)"
| "connection_loop te get_info (Te_ReceiverDropped # events) s =
     connection_loop te get_info events (s\<lparr>ts_receiver_open := False\<rparr>)"

definition connection :: "('b, 'h, 'n, 'w, 's) tunnel_env \<Rightarrow> tunnel_event list \<Rightarrow> ('n, 'w, 's, loop_exit) tunnel_action" where
  "connection te events =
     act_bind (on_channel (dc_recv (te_channel te))) (\<lambda>message.
     (case message of
        None \<Rightarrow> act_fail Ce_ConnectionLost
      | Some message \<Rightarrow>
          act_bind (connection_recv_initial te message) (\<lambda>get_info_response_serialized.
          connection_loop te get_info_response_serialized events)))"

end
