(* ===== verification/Cable_Session.thy ===== *)
theory Cable_Session
  imports Cable_Protocol
begin

text \<open>
  A hybrid connection from its device to its channel: the QR code (\<^verbatim>\<open>qr_code_device.rs\<close>), known
  devices (\<^verbatim>\<open>known_devices.rs\<close>), the stages of a connection (\<^verbatim>\<open>connection_stages.rs\<close>) and the
  channel over the background task (\<^verbatim>\<open>channel.rs\<close>).
\<close>

section \<open>The QR code\<close>

datatype qr_operation_hint = Qr_GetAssertionRequest | Qr_MakeCredential

datatype cable_transport_channel = Tc_WebSocket | Tc_Ble

datatype cable_transports = CloudAssistedOnly | CloudAssistedOrLocal

fun to_qr_field :: "cable_transports \<Rightarrow> cable_transport_channel list option" where
  "to_qr_field CloudAssistedOnly = None"
| "to_qr_field CloudAssistedOrLocal = Some [Tc_WebSocket, Tc_Ble]"

record cable_qr_code =
  qr_public_key :: bytes
  qr_secret :: bytes
  qr_known_tunnel_domains_count :: u8
  qr_current_time :: "nat option"
  qr_state_assisted :: "bool option"
  qr_operation_hint :: qr_operation_hint
  qr_transports :: "cable_transport_channel list option"

text \<open>\<^verbatim>\<open>Display\<close>: \<open>None\<close> is the error of a formatter; \<open>to_vec\<close> is the CBOR encoder.\<close>

definition qr_code_display :: "(cable_qr_code \<Rightarrow> bytes option) \<Rightarrow> cable_qr_code \<Rightarrow> string option" where
  "qr_code_display to_vec qr_code =
     map_option (\<lambda>serialized. ''FIDO:/'' @ digit_encode serialized) (to_vec qr_code)"

record 's qr_code_device =
  qd_qr_code :: cable_qr_code
  qd_private_key :: bytes
  qd_store :: "'s device_store option"

text \<open>
  \<open>scalar\<close> and \<open>secret\<close> are drawn from the random number generator, \<open>now\<close> is the time since the
  epoch if the clock tells it; \<open>compress\<close> is the encoding of the public key of a scalar.
\<close>

definition qr_code_device_new :: "(bytes \<Rightarrow> bytes) \<Rightarrow> bytes \<Rightarrow> bytes \<Rightarrow> nat option \<Rightarrow> qr_operation_hint
    \<Rightarrow> bool \<Rightarrow> 's device_store option \<Rightarrow> cable_transports \<Rightarrow> cable_error + 's qr_code_device" where
  "qr_code_device_new compress scalar secret now hint state_assisted store transports =
     result_bind (ok_or Ce_InvalidKey (array_of 33 (compress scalar))) (\<lambda>public_key.
     Inr \<lparr>qd_qr_code =
         \<lparr>qr_public_key = public_key, qr_secret = secret,
          qr_known_tunnel_domains_count = of_nat (length KNOWN_TUNNEL_DOMAINS),
          qr_current_time = now,
          qr_state_assisted = (if state_assisted then Some True else None),
          qr_operation_hint = hint, qr_transports = to_qr_field transports\<rparr>,
       qd_private_key = scalar, qd_store = store\<rparr>)"

definition qr_new_persistent :: "(bytes \<Rightarrow> bytes) \<Rightarrow> bytes \<Rightarrow> bytes \<Rightarrow> nat option \<Rightarrow> qr_operation_hint
    \<Rightarrow> 's device_store \<Rightarrow> cable_transports \<Rightarrow> cable_error + 's qr_code_device" where
  "qr_new_persistent compress scalar secret now hint store transports =
     qr_code_device_new compress scalar secret now hint True (Some store) transports"

definition qr_new_transient :: "(bytes \<Rightarrow> bytes) \<Rightarrow> bytes \<Rightarrow> bytes \<Rightarrow> nat option \<Rightarrow> qr_operation_hint
    \<Rightarrow> cable_transports \<Rightarrow> cable_error + 's qr_code_device" where
  "qr_new_transient compress scalar secret now hint transports =
     qr_code_device_new compress scalar secret now hint False None transports"

record 's cable_known_device =
  kn_hint :: client_payload_hint
  kn_device_info :: cable_known_device_info
  kn_store :: "'s device_store"

definition known_device_display :: "'s cable_known_device \<Rightarrow> string" where
  "known_device_display device =
     kd_name (kn_device_info device) @ '' ('' @ hex_encode (kd_public_key (kn_device_info device)) @ '')''"

section \<open>Updates to the user interface\<close>

datatype connection_state = Connecting | Connected | Terminated

datatype cable_update = Up_ProximityCheck | Up_Connecting | Up_Authenticating | Up_Connected | Up_Error cable_error

text \<open>
  The state of the task that connects: the updates sent, the connection state that the channel
  watches, the network, and the store of known devices.
\<close>

record ('w, 's) cable_world =
  cw_updates :: "cable_update list"
  cw_connection_state :: connection_state
  cw_net :: 'w
  cw_store :: 's

type_synonym ('w, 's, 'a) cable_action = "(('w, 's) cable_world, cable_error, 'a) action"

definition send_update :: "cable_update \<Rightarrow> ('w, 's) cable_world \<Rightarrow> ('w, 's) cable_world" where
  "send_update update w = w\<lparr>cw_updates := cw_updates w @ [update]\<rparr>"

definition set_connection_state :: "connection_state \<Rightarrow> ('w, 's) cable_world \<Rightarrow> ('w, 's) cable_world" where
  "set_connection_state st w = w\<lparr>cw_connection_state := st\<rparr>"

definition send_error :: "cable_error \<Rightarrow> ('w, 's) cable_world \<Rightarrow> ('w, 's) cable_world" where
  "send_error e w = set_connection_state Terminated (send_update (Up_Error e) w)"

definition on_net :: "('w, cable_error, 'a) action \<Rightarrow> ('w, 's, 'a) cable_action" where
  "on_net m w = map_option (\<lambda>(r, n). (r, w\<lparr>cw_net := n\<rparr>)) (m (cw_net w))"

section \<open>The stages\<close>

datatype address_type = Addr_Random | Addr_Public

record advertised_device =
  ad_address :: bytes
  ad_address_type :: "address_type option"

record ble_connection_params =
  bc_address :: bytes
  bc_address_type :: "address_type option"
  bc_psm :: u16

datatype ('l, 'c) cable_data_channel = Dc_L2cap 'l | Dc_WebSocket 'c

record ('b, 'h, 'n, 'w, 'l, 'c) cable_env =
  ce_crypto :: cable_crypto
  ce_noise :: "('b, 'h, 'n) noise_lib"
  ce_tunnel :: "('w, 'c) tunnel_lib"
  ce_l2cap_connect :: "ble_connection_params \<Rightarrow> 'w \<Rightarrow> (cable_error + 'l) \<times> 'w"
  ce_ops :: "('l, 'c) cable_data_channel \<Rightarrow> 'w data_channel_ops"
  ce_map_of_cbor :: "bytes \<Rightarrow> (cbor_value \<times> cbor_value) list option"
  ce_base64url :: "bytes \<Rightarrow> string"
  ce_p256 :: p256_lib
  ce_initial_of_cbor :: "bytes \<Rightarrow> cable_initial_message option"
  ce_get_info_of_cbor :: "bytes \<Rightarrow> get_info_response option"
  ce_scan :: "advertised_device scan_event list"

text \<open>\<^verbatim>\<open>ProximityCheckInput\<close> is the key of the advertisements.\<close>

definition proximity_for_qr_code :: "cable_crypto \<Rightarrow> 's qr_code_device \<Rightarrow> cable_error + bytes" where
  "proximity_for_qr_code cc qr_device = cable_derive cc (qr_secret (qd_qr_code qr_device)) None EIDKey"

definition proximity_for_known_device :: "cable_crypto \<Rightarrow> 's cable_known_device \<Rightarrow> bytes \<Rightarrow> cable_error + bytes" where
  "proximity_for_known_device cc known_device client_nonce =
     cable_derive cc (kd_link_secret (kn_device_info known_device)) (Some client_nonce) EIDKey"

record 's connection_input =
  ci_tunnel_domain :: string
  ci_connection_type :: tunnel_connection_type
  ci_ble :: "ble_connection_params option"
  ci_known_device_store :: "'s device_store option"

definition decode_tunnel_domain_from_advert :: "cable_crypto \<Rightarrow> decrypted_advert \<Rightarrow> cable_error + string" where
  "decode_tunnel_domain_from_advert cc advert =
     ok_or Ce_InvalidFraming
       (decode_tunnel_server_domain (cc_sha256 cc) (da_encoded_tunnel_server_domain advert))"

definition connection_for_qr_code :: "cable_crypto \<Rightarrow> 's qr_code_device \<Rightarrow> advertised_device \<times> decrypted_advert
    \<Rightarrow> cable_error + 's connection_input" where
  "connection_for_qr_code cc qr_device proximity_output =
     (case proximity_output of (device, advert) \<Rightarrow>
     result_bind (decode_tunnel_domain_from_advert cc advert) (\<lambda>tunnel_domain.
     result_bind (map_err (\<lambda>_. Ce_InvalidKey)
         (cable_derive cc (qr_secret (qd_qr_code qr_device)) None TunnelID)) (\<lambda>tunnel_id_full.
     result_bind (ok_or Ce_InvalidKey (slice_upto tunnel_id_full 16)) (\<lambda>tunnel_id.
     Inr \<lparr>ci_tunnel_domain = tunnel_domain,
       ci_connection_type = QrCode (hex_encode (da_routing_id advert)) (hex_encode tunnel_id) (qd_private_key qr_device),
       ci_ble = map_option (\<lambda>psm. \<lparr>bc_address = ad_address device, bc_address_type = ad_address_type device,
           bc_psm = psm\<rparr>) (Option.bind (da_suffix advert) ble_psm),
       ci_known_device_store = None\<rparr>))))"

definition connection_for_known_device :: "(bytes \<Rightarrow> string) \<Rightarrow> 's cable_known_device \<Rightarrow> bytes
    \<Rightarrow> 's connection_input" where
  "connection_for_known_device base64url known_device client_nonce =
     (let info = kn_device_info known_device;
          client_payload = \<lparr>cp_link_id = kd_link_id info, cp_client_nonce = client_nonce,
            cp_hint = kn_hint known_device\<rparr>
      in \<lparr>ci_tunnel_domain = kd_tunnel_domain info,
          ci_connection_type = KnownDevice (base64url (kd_contact_id info)) (kd_public_key info) client_payload,
          ci_ble = None,
          ci_known_device_store = Some (kn_store known_device)\<rparr>)"

definition proximity_check_stage :: "('b, 'h, 'n, 'w, 'l, 'c) cable_env \<Rightarrow> bytes
    \<Rightarrow> ('w, 's, advertised_device \<times> decrypted_advert) cable_action" where
  "proximity_check_stage ce eid_key =
     act_bind (act_modify (send_update Up_ProximityCheck)) (\<lambda>_.
     act_lift (await_advertisement (ce_crypto ce) (ce_map_of_cbor ce) eid_key (ce_scan ce)))"

text \<open>The fallback of \<^verbatim>\<open>connect_data_channel\<close> to the tunnel, which may forget a known device.\<close>

definition connect_tunnel :: "('b, 'h, 'n, 'w, 'l, 'c) cable_env \<Rightarrow> 's connection_input
    \<Rightarrow> ('w, 's, ('l, 'c) cable_data_channel) cable_action" where
  "connect_tunnel ce input w =
     (case tunnel_connect (ce_tunnel ce) (ci_tunnel_domain input) (ci_connection_type input) (cw_net w) of
        (Inr ws_stream, n) \<Rightarrow> Some (Inr (Dc_WebSocket ws_stream), w\<lparr>cw_net := n\<rparr>)
      | (Inl error, n) \<Rightarrow>
          let w = w\<lparr>cw_net := n\<rparr>
          in (case (known_device_id_to_forget error (ci_connection_type input), ci_known_device_store input) of
                (Some device_id, Some store) \<Rightarrow>
                  Some (Inl error, w\<lparr>cw_store := ds_delete store device_id (cw_store w)\<rparr>)
              | _ \<Rightarrow> Some (Inl error, w)))"

definition connect_data_channel :: "('b, 'h, 'n, 'w, 'l, 'c) cable_env \<Rightarrow> 's connection_input
    \<Rightarrow> ('w, 's, ('l, 'c) cable_data_channel) cable_action" where
  "connect_data_channel ce input =
     (case ci_ble input of
        None \<Rightarrow> connect_tunnel ce input
      | Some ble \<Rightarrow>
          act_try (on_net (\<lambda>n. Some (ce_l2cap_connect ce ble n))) (\<lambda>channel.
          (case channel of
             Inr channel \<Rightarrow> act_return (Dc_L2cap channel)
           | Inl _ \<Rightarrow> connect_tunnel ce input)))"

definition connection_stage :: "('b, 'h, 'n, 'w, 'l, 'c) cable_env \<Rightarrow> 's connection_input
    \<Rightarrow> ('w, 's, ('l, 'c) cable_data_channel) cable_action" where
  "connection_stage ce input =
     act_bind (act_modify (send_update Up_Connecting)) (\<lambda>_.
     connect_data_channel ce input)"

record ('n, 'l, 'c) handshake_output =
  ho_data_channel :: "('l, 'c) cable_data_channel"
  ho_noise_state :: "'n tunnel_noise_state"
  ho_connection_type :: tunnel_connection_type
  ho_tunnel_domain :: string

definition handshake_stage :: "('b, 'h, 'n, 'w, 'l, 'c) cable_env \<Rightarrow> ('l, 'c) cable_data_channel \<Rightarrow> bytes
    \<Rightarrow> 's connection_input \<Rightarrow> ('w, 's, ('n, 'l, 'c) handshake_output) cable_action" where
  "handshake_stage ce data_link psk input =
     act_bind (act_modify (send_update Up_Authenticating)) (\<lambda>_.
     act_bind (on_net (do_handshake (ce_noise ce) (ce_ops ce data_link) psk (ci_connection_type input))) (\<lambda>noise_state.
     act_bind (act_modify (send_update Up_Connected)) (\<lambda>_.
     act_bind (act_modify (set_connection_state Connected)) (\<lambda>_.
     act_return \<lparr>ho_data_channel = data_link, ho_noise_state = noise_state,
       ho_connection_type = ci_connection_type input, ho_tunnel_domain = ci_tunnel_domain input\<rparr>))))"

definition qr_connection :: "('b, 'h, 'n, 'w, 'l, 'c) cable_env \<Rightarrow> 's qr_code_device
    \<Rightarrow> ('w, 's, ('n, 'l, 'c) handshake_output) cable_action" where
  "qr_connection ce qr_device =
     act_bind (act_lift (proximity_for_qr_code (ce_crypto ce) qr_device)) (\<lambda>eid_key.
     act_bind (proximity_check_stage ce eid_key) (\<lambda>proximity_output.
     act_bind (act_lift (connection_for_qr_code (ce_crypto ce) qr_device proximity_output)) (\<lambda>input.
     act_bind (connection_stage ce input) (\<lambda>data_link.
     act_bind (act_lift (derive_psk (ce_crypto ce) (qr_secret (qd_qr_code qr_device))
         (da_plaintext (snd proximity_output)))) (\<lambda>psk.
     handshake_stage ce data_link psk input)))))"

definition known_device_connection :: "('b, 'h, 'n, 'w, 'l, 'c) cable_env \<Rightarrow> 's cable_known_device \<Rightarrow> bytes
    \<Rightarrow> ('w, 's, ('n, 'l, 'c) handshake_output) cable_action" where
  "known_device_connection ce known_device client_nonce =
     (let input = connection_for_known_device (ce_base64url ce) known_device client_nonce in
     act_bind (connection_stage ce input) (\<lambda>data_link.
     act_bind (act_lift (proximity_for_known_device (ce_crypto ce) known_device client_nonce)) (\<lambda>eid_key.
     act_bind (proximity_check_stage ce eid_key) (\<lambda>proximity_output.
     act_bind (act_lift (derive_psk (ce_crypto ce) (kd_link_secret (kn_device_info known_device))
         (da_plaintext (snd proximity_output)))) (\<lambda>psk.
     handshake_stage ce data_link psk input)))))"

section \<open>The task behind a channel\<close>

text \<open>The relaying of \<^verbatim>\<open>protocol::connection\<close> in the state of the task; the responses are returned.\<close>

definition tunnel_env_of :: "('b, 'h, 'n, 'w, 'l, 'c) cable_env \<Rightarrow> ('n, 'l, 'c) handshake_output
    \<Rightarrow> 's device_store option \<Rightarrow> ('b, 'h, 'n, 'w, 's) tunnel_env" where
  "tunnel_env_of ce out store =
     \<lparr>te_noise = ce_noise ce, te_channel = ce_ops ce (ho_data_channel out), te_crypto = ce_crypto ce,
      te_p256 = ce_p256 ce, te_map_of_cbor = ce_map_of_cbor ce,
      te_initial_of_cbor = ce_initial_of_cbor ce, te_get_info_of_cbor = ce_get_info_of_cbor ce,
      te_store = store, te_connection_type = ho_connection_type out,
      te_tunnel_domain = ho_tunnel_domain out\<rparr>"

definition tunnel_state_of :: "('n, 'l, 'c) handshake_output \<Rightarrow> ('w, 's) cable_world \<Rightarrow> ('n, 'w, 's) tunnel_state" where
  "tunnel_state_of out w =
     \<lparr>ts_noise = ho_noise_state out, ts_channel = cw_net w, ts_responses = [],
      ts_receiver_open = True, ts_store = cw_store w\<rparr>"

definition run_protocol :: "('b, 'h, 'n, 'w, 'l, 'c) cable_env \<Rightarrow> ('n, 'l, 'c) handshake_output
    \<Rightarrow> 's device_store option \<Rightarrow> tunnel_event list
    \<Rightarrow> ('w, 's, (cable_error + loop_exit) \<times> cbor_response list) cable_action" where
  "run_protocol ce out store events w =
     map_option (\<lambda>(result, t). (Inr (result, ts_responses t), w\<lparr>cw_net := ts_channel t, cw_store := ts_store t\<rparr>))
       (connection (tunnel_env_of ce out store) events (tunnel_state_of out w))"

text \<open>
  The task that \<^verbatim>\<open>channel\<close> spawns, the same for both devices but for the stages: a failure is
  reported and ends the connection, a clean close ends it.  Its result are the responses that were
  delivered to the caller.
\<close>

definition cable_task :: "('b, 'h, 'n, 'w, 'l, 'c) cable_env \<Rightarrow> ('w, 's, ('n, 'l, 'c) handshake_output) cable_action
    \<Rightarrow> 's device_store option \<Rightarrow> tunnel_event list \<Rightarrow> ('w, 's, cbor_response list) cable_action" where
  "cable_task ce stages store events =
     act_try stages (\<lambda>handshake.
     (case handshake of
        Inl e \<Rightarrow> act_bind (act_modify (send_error e)) (\<lambda>_. act_return [])
      | Inr handshake_output \<Rightarrow>
          act_bind (run_protocol ce handshake_output store events) (\<lambda>(result, responses).
          act_bind
            (case result of
               Inr Running \<Rightarrow> act_return ()
             | Inr Closed \<Rightarrow> act_modify (set_connection_state Terminated)
             | Inl e \<Rightarrow> act_modify (send_error e)) (\<lambda>_.
          act_return responses))))"

definition qr_task :: "('b, 'h, 'n, 'w, 'l, 'c) cable_env \<Rightarrow> 's qr_code_device \<Rightarrow> tunnel_event list
    \<Rightarrow> ('w, 's, cbor_response list) cable_action" where
  "qr_task ce qr_device events = cable_task ce (qr_connection ce qr_device) (qd_store qr_device) events"

definition known_device_task :: "('b, 'h, 'n, 'w, 'l, 'c) cable_env \<Rightarrow> 's cable_known_device \<Rightarrow> bytes
    \<Rightarrow> tunnel_event list \<Rightarrow> ('w, 's, cbor_response list) cable_action" where
  "known_device_task ce known_device client_nonce events =
     cable_task ce (known_device_connection ce known_device client_nonce) (Some (kn_store known_device)) events"

section \<open>The channel\<close>

text \<open>
  The channel watches the connection state: the values it sees when it is told of a change.  When
  they are over, the sender is gone or the channel still waits (\<open>None\<close>).
\<close>

fun state_changes :: "bool \<Rightarrow> connection_state list \<Rightarrow> (cable_error + unit) option" where
  "state_changes sender_dropped [] = (if sender_dropped then Some (Inl Ce_ConnectionLost) else None)"
| "state_changes sender_dropped (Connected # _) = Some (Inr ())"
| "state_changes sender_dropped (Terminated # _) = Some (Inl Ce_ConnectionFailed)"
| "state_changes sender_dropped (Connecting # changes) = state_changes sender_dropped changes"

fun wait_for_connection :: "connection_state \<Rightarrow> bool \<Rightarrow> connection_state list \<Rightarrow> (cable_error + unit) option" where
  "wait_for_connection Connected _ _ = Some (Inr ())"
| "wait_for_connection Terminated _ _ = Some (Inl Ce_ConnectionFailed)"
| "wait_for_connection Connecting sender_dropped changes = state_changes sender_dropped changes"

text \<open>A bounded wait on a queue between the channel and its task.\<close>

datatype 'a queue_outcome = Queue_Done 'a | Queue_Closed | Queue_Elapsed

definition cable_queue :: "(cable_error + unit) option \<Rightarrow> 'a queue_outcome \<Rightarrow> (cable_error + 'a) option" where
  "cable_queue ready outcome =
     map_option (\<lambda>r. result_bind r (\<lambda>_.
       (case outcome of
          Queue_Done x \<Rightarrow> Inr x
        | Queue_Closed \<Rightarrow> Inl Ce_TransportUnavailable
        | Queue_Elapsed \<Rightarrow> Inl Ce_Timeout))) ready"

definition cable_cbor_send :: "(cable_error + unit) option \<Rightarrow> unit queue_outcome \<Rightarrow> (cable_error + unit) option" where
  "cable_cbor_send ready outcome = cable_queue ready outcome"

definition cable_cbor_recv :: "(cable_error + unit) option \<Rightarrow> cbor_response queue_outcome
    \<Rightarrow> (cable_error + cbor_response) option" where
  "cable_cbor_recv ready outcome = cable_queue ready outcome"

definition cable_apdu_send :: "apdu_request \<Rightarrow> cable_error + unit" where
  "cable_apdu_send request = Inl Ce_TransportUnavailable"

definition cable_apdu_recv :: "cable_error + apdu_response" where
  "cable_apdu_recv = Inl Ce_TransportUnavailable"

definition cable_supports_preflight :: bool where "cable_supports_preflight \<longleftrightarrow> False"

end
