(* ===== verification/Cable_Protocol_Properties.thy ===== *)
theory Cable_Protocol_Properties
  imports Cable_Protocol
begin

text \<open>
  What the protocol over a data channel guarantees: a request arrives as it was given, requests
  are relayed in order and never the one answered from the cache, and the store of known devices
  changes only by signed updates of this session.
\<close>

section \<open>Frames\<close>

lemma blocks_of_length: "\<exists>k q. n mod 32 + k = 31 \<and> n + k + 1 = 32 * (q :: nat)"
proof -
  obtain q r where "n = 32 * q + r" "r < 32" by (metis mod_less_divisor mult_div_mod_eq zero_less_numeral)
  moreover have "r \<le> 31" using \<open>r < 32\<close> by simp
  then obtain k where "r + k = 31" by (metis le_Suc_ex)
  ultimately have "n mod 32 + k = 31 \<and> n + k + 1 = 32 * (q + 1)" by simp
  then show ?thesis by blast
qed

lemma pad_shape:
  "\<exists>k q. k < 32 \<and> pad_cbor_request raw = raw @ replicate k 0 @ [of_nat k] \<and> length raw + k + 1 = 32 * q"
proof -
  obtain k q where k: "length raw mod 32 + k = 31" "length raw + k + 1 = 32 * q"
    using blocks_of_length [of "length raw"] by blast
  then have e: "PADDING_GRANULARITY - length raw mod PADDING_GRANULARITY = Suc k"
    by (simp add: PADDING_GRANULARITY_def)
  have "pad_cbor_request raw = (raw @ replicate k 0 @ [0])[length raw + k := of_nat k]"
    unfolding pad_cbor_request_def e by (simp add: Let_def replicate_append_same)
  also have "\<dots> = raw @ replicate k 0 @ [of_nat k]"
    by (simp add: list_update_append)
  finally have p: "pad_cbor_request raw = raw @ replicate k 0 @ [of_nat k]" .
  have "k < 32" using k(1) by linarith
  then show ?thesis using p k(2) by blast
qed

lemma strip_padded: "strip_frame_padding (t # pad_cbor_request raw) = Inr (t # raw)"
proof -
  obtain k where k: "k < 32" "pad_cbor_request raw = raw @ replicate k 0 @ [of_nat k]"
    using pad_shape by blast
  have u: "unat (of_nat k :: u8) = k" using k(1) by (simp add: unat_of_nat)
  show ?thesis unfolding k(2) strip_frame_padding_def by (simp add: u)
qed

definition request_frame :: "cbor_request \<Rightarrow> bytes" where
  "request_frame request = tunnel_message_to_vec (tunnel_message_new Msg_Ctap (pad_cbor_request (cbor_ctap_hid_data request)))"

lemma request_frame_decodes:
  "\<exists>d. strip_frame_padding (request_frame request) = Inr d
    \<and> tunnel_message_from_slice d = Inr (tunnel_message_new Msg_Ctap (cbor_ctap_hid_data request))"
  by (simp add: request_frame_def tunnel_message_to_vec_def tunnel_message_new_def strip_padded
      cbor_ctap_hid_data_def)

lemma request_frame_length: "length (request_frame request) mod 32 = 1"
proof -
  obtain k q where k: "pad_cbor_request (cbor_ctap_hid_data request) = cbor_ctap_hid_data request @ replicate k 0 @ [of_nat k]"
      "length (cbor_ctap_hid_data request) + k + 1 = 32 * q"
    using pad_shape by blast
  have "length (request_frame request) = Suc (length (cbor_ctap_hid_data request) + k + 1)"
    by (simp add: request_frame_def tunnel_message_to_vec_def tunnel_message_new_def k(1))
  then have "length (request_frame request) = Suc (32 * q)" unfolding k(2) .
  then show ?thesis using mod_Suc_eq [of "32 * q" 32] by simp
qed

text \<open>The Noise transports of the two sides: what one encrypts next, the other decrypts, and a message has at most 65535 bytes.\<close>

definition noise_agrees :: "('b, 'h, 'n) noise_lib \<Rightarrow> ('b, 'h, 'm) noise_lib \<Rightarrow> ('n \<Rightarrow> 'm \<Rightarrow> bool) \<Rightarrow> bool" where
  "noise_agrees nz peer R \<longleftrightarrow>
     (\<forall>n p m len c n'. R n p \<longrightarrow> nz_write_message nz m len n = (Some c, n') \<longrightarrow>
       length m + 16 \<le> 65535
       \<and> (\<forall>len'. length m \<le> len' \<longrightarrow> (\<exists>p'. nz_read_message peer c len' p = (Some m, p') \<and> R n' p')))"

text \<open>The turns of the loop, as actions.\<close>

lemma connection_loop_turns:
  "connection_loop te get_info (Te_Inbound # events) =
     act_bind (on_channel (dc_recv (te_channel te))) (\<lambda>message.
     (case message of
        None \<Rightarrow> act_return Closed
      | Some message \<Rightarrow>
          act_bind (connection_recv te message) (\<lambda>outcome.
          (case outcome of
             Continue \<Rightarrow> connection_loop te get_info events
           | PeerShutdown \<Rightarrow> act_return Closed))))"
  "connection_loop te get_info (Te_Request request # events) =
     (if cr_command request = AuthenticatorGetInfo
      then act_bind (deliver_response (cbor_response_new_success get_info)) (\<lambda>_. connection_loop te get_info events)
      else act_bind (connection_send te request) (\<lambda>_. connection_loop te get_info events))"
  by (simp_all add: fun_eq_iff)

lemma noise_agreesD:
  assumes "noise_agrees nz peer R" "R n p" "nz_write_message nz m len n = (Some c, n')"
  shows "length m + 16 \<le> 65535" "length m \<le> len' \<Longrightarrow> \<exists>p'. nz_read_message peer c len' p = (Some m, p') \<and> R n' p'"
  using assms unfolding noise_agrees_def by blast+

lemma connection_send_steps:
  "length (cbor_ctap_hid_data request) \<le> MAX_CBOR_SIZE \<Longrightarrow> connection_send te request = act_bind
     (on_noise (nz_write_message (te_noise te) (request_frame request) (MAX_CBOR_SIZE + 1)))
     (\<lambda>c. on_channel (dc_send (te_channel te) c))"
  by (simp add: connection_send_def cbor_raw_long_def cbor_ctap_hid_data_def map_err_def request_frame_def Let_def)

lemma connection_sendE:
  assumes "connection_send te request s = Some (r, s')"
  obtains "r = Inl Ce_InvalidFraming" "s' = s" "length (cbor_ctap_hid_data request) > MAX_CBOR_SIZE"
  | n where "r = Inl Ce_EncryptionFailed"
      "nz_write_message (te_noise te) (request_frame request) (MAX_CBOR_SIZE + 1) (nt_transport_state (ts_noise s)) = (None, n)"
      "s' = s\<lparr>ts_noise := (ts_noise s)\<lparr>nt_transport_state := n\<rparr>\<rparr>"
  | c n w where "nz_write_message (te_noise te) (request_frame request) (MAX_CBOR_SIZE + 1) (nt_transport_state (ts_noise s)) = (Some c, n)"
      "dc_send (te_channel te) c (ts_channel s) = Some (r, w)"
      "s' = s\<lparr>ts_noise := (ts_noise s)\<lparr>nt_transport_state := n\<rparr>, ts_channel := w\<rparr>"
proof -
  let ?raw = "cbor_ctap_hid_data request"
  have raw: "cbor_raw_long request = Inr ?raw" by (simp add: cbor_raw_long_def cbor_ctap_hid_data_def)
  show thesis
  proof (cases "length ?raw > MAX_CBOR_SIZE")
    case True
    then show thesis using assms that(1) by (simp add: connection_send_def raw map_err_def act_run)
  next
    case False
    obtain c n where w: "nz_write_message (te_noise te) (request_frame request) (MAX_CBOR_SIZE + 1)
        (nt_transport_state (ts_noise s)) = (c, n)" by fastforce
    have step: "connection_send te request = act_bind
        (on_noise (nz_write_message (te_noise te) (request_frame request) (MAX_CBOR_SIZE + 1)))
        (\<lambda>c. on_channel (dc_send (te_channel te) c))"
      using False by (intro connection_send_steps) simp
    show thesis
    proof (cases c)
      case None
      then show thesis using assms that(2) [of n] w by (simp add: step act_bind_def on_noise_def ok_or_def)
    next
      case (Some c)
      then show thesis using assms that(3) [of c n] w
        by (auto simp: step act_bind_def on_noise_def ok_or_def on_channel_def)
    qed
  qed
qed

text \<open>
  C22: A request that was sent is one encrypted frame of a plaintext whose length tells only the
  number of 32-byte blocks, and the other side, decrypting the frame, stripping its padding and
  decoding the message, gets the command byte and the encoded data of the request.
\<close>

theorem cable_request_round_trip:
  assumes "noise_agrees (te_noise te) peer R" "R (nt_transport_state (ts_noise s)) (nt_transport_state (ts_noise p))"
    and "connection_send te request s = Some (Inr (), s')"
  shows "\<exists>c p'. dc_send (te_channel te) c (ts_channel s) = Some (Inr (), ts_channel s')
    \<and> act_bind (decrypt_frame peer c) (\<lambda>d. act_lift (tunnel_message_from_slice d)) p
      = Some (Inr (tunnel_message_new Msg_Ctap (cbor_ctap_hid_data request)), p')
    \<and> R (nt_transport_state (ts_noise s')) (nt_transport_state (ts_noise p'))
    \<and> length (request_frame request) mod 32 = 1"
  using assms(3)
proof (cases rule: connection_sendE)
  case (3 c n w)
  note bounds = noise_agreesD [OF assms(1,2) 3(1)]
  then have "length (request_frame request) \<le> MAX_CBOR_SIZE" by (simp add: MAX_CBOR_SIZE_def)
  then obtain n' where n': "nz_read_message peer c MAX_CBOR_SIZE (nt_transport_state (ts_noise p)) = (Some (request_frame request), n')"
      "R n n'"
    using bounds(2) by blast
  obtain d where d: "strip_frame_padding (request_frame request) = Inr d"
      "tunnel_message_from_slice d = Inr (tunnel_message_new Msg_Ctap (cbor_ctap_hid_data request))"
    using request_frame_decodes by blast
  let ?p' = "p\<lparr>ts_noise := (ts_noise p)\<lparr>nt_transport_state := n'\<rparr>\<rparr>"
  have "act_bind (decrypt_frame peer c) (\<lambda>d. act_lift (tunnel_message_from_slice d)) p
      = Some (Inr (tunnel_message_new Msg_Ctap (cbor_ctap_hid_data request)), ?p')"
    by (simp add: decrypt_frame_def act_bind_def on_noise_def n' ok_or_def act_run d)
  moreover have "dc_send (te_channel te) c (ts_channel s) = Some (Inr (), ts_channel s')" using 3 by simp
  ultimately show ?thesis using n'(2) 3(3) request_frame_length by fastforce
qed simp_all

section \<open>The store\<close>

text \<open>A link that was signed for this session: with the key of the QR code, over the hash of the handshake.\<close>

definition link_signed :: "('b, 'h, 'n, 'w, 's) tunnel_env \<Rightarrow> bytes \<Rightarrow> bytes \<Rightarrow> cable_linking_info \<Rightarrow> bool" where
  "link_signed te private_key handshake_hash link \<longleftrightarrow>
     (\<exists>point. p256_public_key (te_p256 te) (ln_authenticator_public_key link) = Some point
       \<and> cc_hmac (te_crypto te) (p256_diffie_hellman (te_p256 te) private_key point) handshake_hash
         = Some (ln_handshake_signature link))"

definition store_follows :: "('b, 'h, 'n, 'w, 's) tunnel_env \<Rightarrow> ('s \<Rightarrow> string \<Rightarrow> cable_known_device_info option)
    \<Rightarrow> ('n, 'w, 's) tunnel_state \<Rightarrow> ('n, 'w, 's) tunnel_state \<Rightarrow> bool" where
  "store_follows te lookup s t \<longleftrightarrow> nt_handshake_hash (ts_noise t) = nt_handshake_hash (ts_noise s)
     \<and> (\<forall>i. lookup (ts_store t) i = lookup (ts_store s) i
       \<or> (\<exists>routing_id tunnel_id private_key link info.
            te_connection_type te = QrCode routing_id tunnel_id private_key
            \<and> link_signed te private_key (nt_handshake_hash (ts_noise s)) link
            \<and> known_device_info_new (te_tunnel_domain te) link = Inr info
            \<and> i = known_device_id link \<and> lookup (ts_store t) i = Some info))"

lemma store_follows_cong:
  "store_follows te lookup s t \<Longrightarrow> ts_store t' = ts_store t \<Longrightarrow> nt_handshake_hash (ts_noise t') = nt_handshake_hash (ts_noise t)
    \<Longrightarrow> store_follows te lookup s t'"
  by (simp add: store_follows_def)

lemma keeps_frame_io:
  "keeps (store_follows te lookup s) (on_channel m)"
  "keeps (store_follows te lookup s) (on_noise f)"
  "keeps (store_follows te lookup s) (deliver_response response)"
  by (rule keepsI, erule store_follows_cong; auto simp: on_channel_def on_noise_def deliver_response_def split: prod.splits if_splits)+

lemma keeps_decrypt: "keeps (store_follows te lookup s) (decrypt_frame nz c)"
  unfolding decrypt_frame_def by (intro keeps_rules keeps_frame_io)

lemma keeps_send: "keeps (store_follows te lookup s) (connection_send te request)"
  unfolding connection_send_def Let_def by (intro keeps_rules keeps_frame_io)

context known_device_store
begin

lemma apply_update_signed:
  assumes "te_store te = Some store" "te_connection_type te = QrCode routing_id tunnel_id private_key"
    and "lookup (apply_linking_update (te_crypto te) (te_p256 te) store private_key (te_tunnel_domain te)
      link hash s) i \<noteq> lookup s i"
  shows "\<exists>info. link_signed te private_key hash link \<and> known_device_info_new (te_tunnel_domain te) link = Inr info
    \<and> i = known_device_id link
    \<and> lookup (apply_linking_update (te_crypto te) (te_p256 te) store private_key (te_tunnel_domain te)
      link hash s) i = Some info"
  using assms(3)
  by (auto simp: apply_linking_update_def parse_known_device_def lookup_put link_signed_def result_bind_def ok_or_def
      split: sum.splits option.splits if_splits)

lemma recv_update_follows:
  assumes "te_store te = Some store"
  shows "store_follows te lookup s t \<Longrightarrow> store_follows te lookup s (recv_update te payload t)"
proof -
  assume t: "store_follows te lookup s t"
  show "store_follows te lookup s (recv_update te payload t)"
  proof (cases "\<exists>link routing_id tunnel_id private_key. connection_recv_update (te_map_of_cbor te) payload = Inr (Some link)
      \<and> te_connection_type te = QrCode routing_id tunnel_id private_key")
    case True
    then obtain link routing_id tunnel_id private_key where
        u: "connection_recv_update (te_map_of_cbor te) payload = Inr (Some link)"
        and ct: "te_connection_type te = QrCode routing_id tunnel_id private_key" by blast
    have hash: "nt_handshake_hash (ts_noise t) = nt_handshake_hash (ts_noise s)"
      using t by (simp add: store_follows_def)
    let ?s' = "apply_linking_update (te_crypto te) (te_p256 te) store private_key (te_tunnel_domain te)
      link (nt_handshake_hash (ts_noise s)) (ts_store t)"
    have st: "recv_update te payload t = t\<lparr>ts_store := ?s'\<rparr>"
      by (simp add: recv_update_def u ct assms hash)
    show ?thesis unfolding st store_follows_def
    proof (intro conjI allI)
      show "nt_handshake_hash (ts_noise (t\<lparr>ts_store := ?s'\<rparr>)) = nt_handshake_hash (ts_noise s)"
        using hash by simp
      fix i
      show "lookup (ts_store (t\<lparr>ts_store := ?s'\<rparr>)) i = lookup (ts_store s) i
       \<or> (\<exists>routing_id tunnel_id private_key link info.
            te_connection_type te = QrCode routing_id tunnel_id private_key
            \<and> link_signed te private_key (nt_handshake_hash (ts_noise s)) link
            \<and> known_device_info_new (te_tunnel_domain te) link = Inr info
            \<and> i = known_device_id link \<and> lookup (ts_store (t\<lparr>ts_store := ?s'\<rparr>)) i = Some info)"
      proof (cases "lookup ?s' i = lookup (ts_store t) i")
        case True
        then show ?thesis using t by (simp add: store_follows_def)
      next
        case False
        from apply_update_signed [OF assms ct this] ct show ?thesis by auto
      qed
    qed
  next
    case False
    then have "recv_update te payload t = t"
      by (auto simp: recv_update_def split: sum.splits option.splits tunnel_connection_type.splits)
    then show ?thesis using t by simp
  qed
qed


lemma keeps_recv:
  assumes "te_store te = Some store"
  shows "keeps (store_follows te lookup s) (connection_recv te c)"
  unfolding connection_recv_def
  by (intro keeps_rules keeps_frame_io keeps_decrypt)
    (auto split: tunnel_message_type.split intro!: keeps_rules keeps_frame_io recv_update_follows [OF assms])

lemma keeps_loop:
  assumes "te_store te = Some store"
  shows "keeps (store_follows te lookup s) (connection_loop te get_info events)"
proof (induction events)
  case Nil
  then show ?case by (simp add: keeps_def)
next
  case (Cons e events)
  show ?case
  proof (cases e)
    case Te_Inbound
    show ?thesis unfolding Te_Inbound connection_loop_turns
      by (rule keeps_rules keeps_frame_io keeps_recv [OF assms] Cons.IH | split recv_outcome.split | intro conjI impI)+
  next
    case (Te_Request request)
    show ?thesis unfolding Te_Request connection_loop_turns
      by (rule keeps_rules keeps_frame_io keeps_send Cons.IH)+
  next
    case Te_ReceiverDropped
    have "store_follows te lookup s t \<Longrightarrow> store_follows te lookup s (t\<lparr>ts_receiver_open := False\<rparr>)" for t
      by (simp add: store_follows_def)
    then show ?thesis using Cons.IH unfolding Te_ReceiverDropped keeps_def connection_loop.simps by blast
  qed
qed

end

text \<open>
  C9: Over a whole connection the store of known devices changes only for devices whose link was
  signed for this session: by the holder of the link's public key, with the key of the QR code
  shown, over the hash of this handshake; the device is stored under that public key.  Nothing is
  ever removed, and a connection to a known device changes nothing.
\<close>

theorem cable_stores_only_signed:
  assumes "te_store te = Some store" "known_device_store store lookup"
    and "connection te events s = Some (r, s')"
  shows "lookup (ts_store s') i = lookup (ts_store s) i
    \<or> (\<exists>routing_id tunnel_id private_key link info.
         te_connection_type te = QrCode routing_id tunnel_id private_key
         \<and> link_signed te private_key (nt_handshake_hash (ts_noise s)) link
         \<and> known_device_info_new (te_tunnel_domain te) link = Inr info
         \<and> i = known_device_id link \<and> lookup (ts_store s') i = Some info)"
proof -
  have init: "keeps (store_follows te lookup s) (connection_recv_initial te c)" for c
    unfolding connection_recv_initial_def
    by (intro keeps_rules keeps_decrypt)
  have "keeps (store_follows te lookup s) (connection te events)"
    unfolding connection_def
    by (rule keeps_rules keeps_frame_io init known_device_store.keeps_loop [OF assms(2,1)])+
  moreover have "store_follows te lookup s s" by (simp add: store_follows_def)
  ultimately have "store_follows te lookup s s'" using assms(3) by (blast dest: keepsD)
  then show ?thesis by (simp add: store_follows_def)
qed

section \<open>The order of requests\<close>

text \<open>The transport logs the plaintexts it encrypts.\<close>

definition logs_messages :: "('b, 'h, 'n) noise_lib \<Rightarrow> ('n \<Rightarrow> bytes list) \<Rightarrow> bool" where
  "logs_messages nz sent \<longleftrightarrow>
     (\<forall>m len n. sent (snd (nz_write_message nz m len n))
        = sent n @ (case fst (nz_write_message nz m len n) of None \<Rightarrow> [] | Some _ \<Rightarrow> [m]))
     \<and> (\<forall>c len n. sent (snd (nz_read_message nz c len n)) = sent n)"

fun relayed_requests :: "tunnel_event list \<Rightarrow> cbor_request list" where
  "relayed_requests [] = []"
| "relayed_requests (Te_Request request # events) =
     (if cr_command request = AuthenticatorGetInfo then relayed_requests events
      else request # relayed_requests events)"
| "relayed_requests (_ # events) = relayed_requests events"

definition sent_so_far :: "('n \<Rightarrow> bytes list) \<Rightarrow> bytes list \<Rightarrow> ('n, 'w, 's) tunnel_state \<Rightarrow> bool" where
  "sent_so_far sent l t \<longleftrightarrow> sent (nt_transport_state (ts_noise t)) = l"

lemma keeps_sent:
  assumes "logs_messages nz sent"
  shows "keeps (sent_so_far sent l) (on_channel m)" "keeps (sent_so_far sent l) (decrypt_frame nz c)"
    "keeps (sent_so_far sent l) (deliver_response response)"
proof -
  show "keeps (sent_so_far sent l) (on_channel m)" "keeps (sent_so_far sent l) (deliver_response response)"
    by (rule keepsI, auto simp: on_channel_def deliver_response_def sent_so_far_def split: if_splits)+
  have "sent n' = sent n" if "nz_read_message nz c len n = (r, n')" for len n r n'
    using assms that unfolding logs_messages_def by (metis snd_conv)
  then have "keeps (sent_so_far sent l) (on_noise (nz_read_message nz c MAX_CBOR_SIZE))"
    by (intro keepsI) (auto simp: on_noise_def sent_so_far_def split: prod.splits)
  then show "keeps (sent_so_far sent l) (decrypt_frame nz c)"
    unfolding decrypt_frame_def by (intro keeps_rules)
qed

lemma keeps_sent_recv:
  assumes "logs_messages (te_noise te) sent"
  shows "keeps (sent_so_far sent l) (connection_recv te c)" "keeps (sent_so_far sent l) (connection_recv_initial te c)"
proof -
  have update: "keeps (sent_so_far sent l) (act_modify (recv_update te payload))" for payload
    by (rule keeps_modify) (auto simp: recv_update_def sent_so_far_def split: sum.split option.split tunnel_connection_type.split)
  show "keeps (sent_so_far sent l) (connection_recv te c)"
    unfolding connection_recv_def
    by (rule keeps_rules update keeps_sent [OF assms] | split tunnel_message_type.split | intro conjI impI)+
  show "keeps (sent_so_far sent l) (connection_recv_initial te c)"
    unfolding connection_recv_initial_def by (rule keeps_rules keeps_sent [OF assms])+
qed

lemma sent_send:
  assumes "logs_messages (te_noise te) sent" "connection_send te request s = Some (r, s')" "sent_so_far sent l s"
  shows "r = Inr () \<longrightarrow> sent_so_far sent (l @ [request_frame request]) s'"
    "sent_so_far sent l s' \<or> sent_so_far sent (l @ [request_frame request]) s'"
proof -
  have w: "sent n = l @ (case c of None \<Rightarrow> [] | Some _ \<Rightarrow> [request_frame request])"
    if "nz_write_message (te_noise te) (request_frame request) (MAX_CBOR_SIZE + 1) (nt_transport_state (ts_noise s)) = (c, n)" for c n
    using assms(1,3) that unfolding logs_messages_def sent_so_far_def by (metis fst_conv snd_conv)
  have "(r = Inr () \<longrightarrow> sent_so_far sent (l @ [request_frame request]) s')
      \<and> (sent_so_far sent l s' \<or> sent_so_far sent (l @ [request_frame request]) s')"
    using assms(2)
  proof (cases rule: connection_sendE)
    case 1
    then show ?thesis using assms(3) by simp
  next
    case (2 n)
    then show ?thesis using w [OF 2(2)] by (simp add: sent_so_far_def)
  next
    case (3 c n u)
    then show ?thesis using w [OF 3(1)] by (simp add: sent_so_far_def)
  qed
  then show "r = Inr () \<longrightarrow> sent_so_far sent (l @ [request_frame request]) s'"
      "sent_so_far sent l s' \<or> sent_so_far sent (l @ [request_frame request]) s'" by blast+
qed

definition relays :: "('n \<Rightarrow> bytes list) \<Rightarrow> bytes list \<Rightarrow> cbor_request list \<Rightarrow> cable_error + loop_exit
    \<Rightarrow> ('n, 'w, 's) tunnel_state \<Rightarrow> bool" where
  "relays sent l requests r t \<longleftrightarrow>
     (\<exists>k. sent_so_far sent (l @ map request_frame (take k requests)) t
        \<and> (r = Inr Running \<longrightarrow> k = length requests))"

lemma relays_none: "sent_so_far sent l t \<Longrightarrow> r \<noteq> Inr Running \<Longrightarrow> relays sent l requests r t"
  unfolding relays_def by (intro exI [of _ 0]) simp

lemma relays_Cons: "relays sent (l @ [request_frame q]) requests r t \<Longrightarrow> relays sent l (q # requests) r t"
  unfolding relays_def by (metis append.assoc append_Cons append_Nil length_Cons list.simps(9) take_Suc_Cons)

lemma loop_relays:
  assumes "logs_messages (te_noise te) sent"
  shows "connection_loop te get_info events s = Some (r, s') \<Longrightarrow> sent_so_far sent l s
    \<Longrightarrow> relays sent l (relayed_requests events) r s'"
proof (induction events arbitrary: s l)
  case Nil
  then show ?case by (auto simp: relays_def intro: exI [of _ 0])
next
  case (Cons e events)
  note ks = keeps_sent [OF assms] keeps_sent_recv [OF assms]
  show ?case
  proof (cases e)
    case Te_Inbound
    note run = Cons.prems(1) [unfolded Te_Inbound connection_loop_turns]
    have rel: "relayed_requests (e # events) = relayed_requests events" by (simp add: Te_Inbound)
    from run show ?thesis
    proof (cases rule: act_bind_SomeE)
      case (1 x)
      then show ?thesis using keepsD [OF ks(1) Cons.prems(2)] by (intro relays_none) auto
    next
      case (2 m t)
      note t = keepsD [OF ks(1) Cons.prems(2) 2(1)]
      show ?thesis
      proof (cases m)
        case None
        then show ?thesis using 2 t by (intro relays_none) (auto simp: act_run)
      next
        case (Some c)
        have "act_bind (connection_recv te c) (\<lambda>outcome. case outcome of
            Continue \<Rightarrow> connection_loop te get_info events | PeerShutdown \<Rightarrow> act_return Closed) t = Some (r, s')"
          using 2 Some by simp
        then show ?thesis
        proof (cases rule: act_bind_SomeE)
          case (1 x)
          then show ?thesis using keepsD [OF ks(4) t] by (intro relays_none) auto
        next
          case (2 o' u)
          note u = keepsD [OF ks(4) t 2(1)]
          show ?thesis
          proof (cases o')
            case Continue
            then show ?thesis using Cons.IH [OF _ u] 2 rel by simp
          next
            case PeerShutdown
            then show ?thesis using 2 u by (intro relays_none) (auto simp: act_run)
          qed
        qed
      qed
    qed
  next
    case (Te_Request request)
    show ?thesis
    proof (cases "cr_command request = AuthenticatorGetInfo")
      case True
      then have rel: "relayed_requests (e # events) = relayed_requests events" by (simp add: Te_Request)
      have "act_bind (deliver_response (cbor_response_new_success get_info)) (\<lambda>_. connection_loop te get_info events) s = Some (r, s')"
        using Cons.prems(1) True unfolding Te_Request connection_loop_turns by simp
      then show ?thesis
      proof (cases rule: act_bind_SomeE)
        case (1 x)
        then show ?thesis using keepsD [OF ks(3) Cons.prems(2)] by (intro relays_none) auto
      next
        case (2 m t)
        then show ?thesis using Cons.IH [OF _ keepsD [OF ks(3) Cons.prems(2) 2(1)]] rel by simp
      qed
    next
      case False
      then have rel: "relayed_requests (e # events) = request # relayed_requests events" by (simp add: Te_Request)
      have "act_bind (connection_send te request) (\<lambda>_. connection_loop te get_info events) s = Some (r, s')"
        using Cons.prems(1) False unfolding Te_Request connection_loop_turns by simp
      then show ?thesis
      proof (cases rule: act_bind_SomeE)
        case (1 x)
        then have "r \<noteq> Inr Running" by simp
        moreover have "sent_so_far sent l s' \<or> sent_so_far sent (l @ [request_frame request]) s'"
          by (rule sent_send(2) [OF assms 1(1) Cons.prems(2)])
        ultimately show ?thesis unfolding rel by (blast intro: relays_none relays_Cons)
      next
        case (2 m t)
        then have "sent_so_far sent (l @ [request_frame request]) t"
          using sent_send(1) [OF assms 2(1) Cons.prems(2)] by simp
        then show ?thesis using Cons.IH 2(2) unfolding rel by (blast intro: relays_Cons)
      qed
    qed
  next
    case Te_ReceiverDropped
    have "connection_loop te get_info events (s\<lparr>ts_receiver_open := False\<rparr>) = Some (r, s')"
      using Cons.prems(1) unfolding Te_ReceiverDropped by simp
    moreover have "sent_so_far sent l (s\<lparr>ts_receiver_open := False\<rparr>)"
      using Cons.prems(2) by (simp add: sent_so_far_def)
    ultimately show ?thesis using Cons.IH Te_ReceiverDropped by fastforce
  qed
qed

text \<open>
  C17: However requests and incoming frames interleave, the plaintexts encrypted for the device are
  the frames of the caller's requests, in their order and each at most once, without those for
  \<^verbatim>\<open>authenticatorGetInfo\<close>, which are answered from the initial message; while the connection
  runs none is missing.
\<close>

theorem cable_requests_relayed_in_order:
  assumes "logs_messages (te_noise te) sent"
    and "connection te events s = Some (r, s')"
  shows "\<exists>k. sent (nt_transport_state (ts_noise s'))
      = sent (nt_transport_state (ts_noise s)) @ map request_frame (take k (relayed_requests events))
    \<and> (r = Inr Running \<longrightarrow> k = length (relayed_requests events))"
proof -
  note ks = keeps_sent [OF assms(1)] keeps_sent_recv [OF assms(1)]
  define l where "l = sent (nt_transport_state (ts_noise s))"
  have s: "sent_so_far sent l s" by (simp add: sent_so_far_def l_def)
  have "relays sent l (relayed_requests events) r s'"
    using assms(2) [unfolded connection_def]
  proof (cases rule: act_bind_SomeE)
    case (1 x)
    then show ?thesis using keepsD [OF ks(1) s] by (intro relays_none) auto
  next
    case (2 m t)
    note t = keepsD [OF ks(1) s 2(1)]
    show ?thesis
    proof (cases m)
      case None
      then show ?thesis using 2 t by (intro relays_none) (auto simp: act_run)
    next
      case (Some c)
      have "act_bind (connection_recv_initial te c) (\<lambda>g. connection_loop te g events) t = Some (r, s')"
        using 2 Some by simp
      then show ?thesis
      proof (cases rule: act_bind_SomeE)
        case (1 x)
        then show ?thesis using keepsD [OF ks(5) t] by (intro relays_none) auto
      next
        case (2 g u)
        then show ?thesis using loop_relays [OF assms(1) 2(2) keepsD [OF ks(5) t 2(1)]] by simp
      qed
    qed
  qed
  then show ?thesis by (simp add: relays_def sent_so_far_def l_def)
qed

section \<open>Examples\<close>

text \<open>Libraries whose calls only pass data along, to run the definitions on.\<close>

definition example_noise :: "(unit, unit, bytes list) noise_lib" where
  "example_noise =
     \<lparr>nz_configure = \<lambda>_ _ _ _. Some (), nz_build_initiator = \<lambda>_. Some (),
      nz_handshake_write = \<lambda>_ _ h. (Some [], h), nz_handshake_read = \<lambda>_ _ h. (Some [], h),
      nz_is_handshake_finished = \<lambda>_. True, nz_get_handshake_hash = \<lambda>_. [], nz_into_transport_mode = \<lambda>_. Some [],
      nz_write_message = \<lambda>m len sent. if length m + 16 \<le> 65535 then (Some m, sent @ [m]) else (None, sent),
      nz_read_message = \<lambda>c len sent. if length c \<le> len then (Some c, sent) else (None, sent)\<rparr>"

definition example_link :: cable_linking_info where
  "example_link = \<lparr>ln_contact_id = [1], ln_link_id = replicate 8 2, ln_link_secret = replicate 32 3,
     ln_authenticator_public_key = replicate 65 4, ln_authenticator_name = ''phone'',
     ln_handshake_signature = replicate 32 5\<rparr>"

definition example_tunnel_env :: "(unit, unit, bytes list, bytes list, ephemeral_devices) tunnel_env" where
  "example_tunnel_env =
     \<lparr>te_noise = example_noise,
      te_channel = \<lparr>dc_send = \<lambda>m w. Some (Inr (), w), dc_recv = \<lambda>w. case w of [] \<Rightarrow> None | m # w \<Rightarrow> Some (Inr (Some m), w)\<rparr>,
      te_crypto = example_cable_crypto\<lparr>cc_hmac := \<lambda>k m. Some (replicate 32 5)\<rparr>,
      te_p256 = \<lparr>p256_public_key = Some, p256_diffie_hellman = \<lambda>k p. k\<rparr>,
      te_map_of_cbor = \<lambda>_. Some [(Cbor_Integer 1, Cbor_Map [(Cbor_Integer 1, Cbor_Bytes [1]),
        (Cbor_Integer 2, Cbor_Bytes (replicate 8 2)), (Cbor_Integer 3, Cbor_Bytes (replicate 32 3)),
        (Cbor_Integer 4, Cbor_Bytes (replicate 65 4)), (Cbor_Integer 5, Cbor_Text ''phone''),
        (Cbor_Integer 6, Cbor_Bytes (replicate 32 5))])],
      te_initial_of_cbor = \<lambda>_. Some \<lparr>im_padding = None, im_info = [0xA0], im_supported_features = None\<rparr>,
      te_get_info_of_cbor = \<lambda>_. Some get_info_default,
      te_store = Some ephemeral_store,
      te_connection_type = QrCode ''r'' ''t'' [7], te_tunnel_domain = ''d''\<rparr>"

definition example_tunnel_state :: "bytes list \<Rightarrow> (bytes list, bytes list, ephemeral_devices) tunnel_state" where
  "example_tunnel_state inbound =
     \<lparr>ts_noise = \<lparr>nt_transport_state = [], nt_handshake_hash = [9]\<rparr>, ts_channel = inbound,
      ts_responses = [], ts_receiver_open = True, ts_store = Map.empty\<rparr>"

definition example_events :: "tunnel_event list" where
  "example_events = [Te_Request (cbor_request_new AuthenticatorGetInfo), Te_Inbound,
     Te_Request (cbor_request_new AuthenticatorSelection)]"

text \<open>The initial message, then an update with a signed link; a request for the info is answered at once.\<close>

lemma example_connection:
  "\<exists>s'. connection example_tunnel_env example_events (example_tunnel_state [[1, 2, 0], [2, 9, 0]]) = Some (Inr Running, s')
    \<and> ts_store s' (known_device_id example_link) \<noteq> None
    \<and> nt_transport_state (ts_noise s') = [request_frame (cbor_request_new AuthenticatorSelection)]"
proof -
  let ?q = "cbor_request_new AuthenticatorSelection"
  have "length (cbor_ctap_hid_data ?q) \<le> MAX_CBOR_SIZE"
    by (simp add: cbor_ctap_hid_data_def cbor_request_new_def MAX_CBOR_SIZE_def)
  note send = connection_send_steps [OF this, of example_tunnel_env]
  have len: "length (request_frame ?q) + 16 \<le> 65535"
    by (simp add: request_frame_def tunnel_message_to_vec_def tunnel_message_new_def pad_cbor_request_def
        cbor_ctap_hid_data_def cbor_request_new_def PADDING_GRANULARITY_def Let_def)
  have "cr_command ?q = AuthenticatorSelection" "cr_command (cbor_request_new AuthenticatorGetInfo) = AuthenticatorGetInfo"
    by (simp_all add: cbor_request_new_def)
  then show ?thesis
    using len unfolding example_events_def connection_def connection_loop_turns send
    by (simp add: example_tunnel_env_def example_tunnel_state_def on_channel_def
      act_bind_def act_run connection_recv_initial_def decrypt_frame_def on_noise_def example_noise_def ok_or_def
      MAX_CBOR_SIZE_def strip_frame_padding_def deliver_response_def connection_recv_def
      tunnel_message_new_def recv_update_def connection_recv_update_def result_map_def linking_info_of_map_def
      map_bytes_at_def map_text_at_def apply_linking_update_def parse_known_device_def known_device_info_new_def
      array_of_def result_bind_def ephemeral_store_def known_device_id_def example_link_def)
qed

lemma cable_stores_only_signed_witness:
  "\<exists>s'. connection example_tunnel_env example_events (example_tunnel_state [[1, 2, 0], [2, 9, 0]]) = Some (Inr Running, s')
    \<and> ts_store s' (known_device_id example_link) \<noteq> None
    \<and> (ts_store s' (known_device_id example_link)
         = ts_store (example_tunnel_state [[1, 2, 0], [2, 9, 0]]) (known_device_id example_link)
       \<or> (\<exists>routing_id tunnel_id private_key link info.
           te_connection_type example_tunnel_env = QrCode routing_id tunnel_id private_key
           \<and> link_signed example_tunnel_env private_key
               (nt_handshake_hash (ts_noise (example_tunnel_state [[1, 2, 0], [2, 9, 0]]))) link
           \<and> known_device_info_new (te_tunnel_domain example_tunnel_env) link = Inr info
           \<and> known_device_id example_link = known_device_id link
           \<and> ts_store s' (known_device_id example_link) = Some info))"
proof -
  obtain s' where run: "connection example_tunnel_env example_events (example_tunnel_state [[1, 2, 0], [2, 9, 0]]) = Some (Inr Running, s')"
      and st: "ts_store s' (known_device_id example_link) \<noteq> None"
    using example_connection by blast
  have "te_store example_tunnel_env = Some ephemeral_store" by (simp add: example_tunnel_env_def)
  from cable_stores_only_signed [OF this ephemeral.known_device_store_axioms run]
  show ?thesis using run st by blast
qed

lemma cable_requests_relayed_in_order_witness:
  "\<exists>s'. connection example_tunnel_env example_events (example_tunnel_state [[1, 2, 0], [2, 9, 0]]) = Some (Inr Running, s')
    \<and> (\<exists>k. id (nt_transport_state (ts_noise s'))
      = id (nt_transport_state (ts_noise (example_tunnel_state [[1, 2, 0], [2, 9, 0]])))
        @ map request_frame (take k (relayed_requests example_events))
      \<and> ((Inr Running :: cable_error + loop_exit) = Inr Running \<longrightarrow> k = length (relayed_requests example_events)))"
proof -
  obtain s' where run: "connection example_tunnel_env example_events (example_tunnel_state [[1, 2, 0], [2, 9, 0]]) = Some (Inr Running, s')"
    using example_connection by blast
  have "logs_messages (te_noise example_tunnel_env) id"
    by (simp add: logs_messages_def example_tunnel_env_def example_noise_def)
  from cable_requests_relayed_in_order [OF this run] run show ?thesis by blast
qed

lemma cable_request_round_trip_witness:
  "\<exists>s'. connection_send example_tunnel_env (cbor_request_new AuthenticatorSelection) (example_tunnel_state []) = Some (Inr (), s')
    \<and> (\<exists>c p'. dc_send (te_channel example_tunnel_env) c (ts_channel (example_tunnel_state [])) = Some (Inr (), ts_channel s')
    \<and> act_bind (decrypt_frame example_noise c) (\<lambda>d. act_lift (tunnel_message_from_slice d)) (example_tunnel_state [])
      = Some (Inr (tunnel_message_new Msg_Ctap (cbor_ctap_hid_data (cbor_request_new AuthenticatorSelection))), p')
    \<and> True \<and> length (request_frame (cbor_request_new AuthenticatorSelection)) mod 32 = 1)"
proof -
  let ?q = "cbor_request_new AuthenticatorSelection"
  have "length (cbor_ctap_hid_data ?q) \<le> MAX_CBOR_SIZE"
    by (simp add: cbor_ctap_hid_data_def cbor_request_new_def MAX_CBOR_SIZE_def)
  note send = connection_send_steps [OF this, of example_tunnel_env]
  have len: "length (request_frame ?q) + 16 \<le> 65535"
    by (simp add: request_frame_def tunnel_message_to_vec_def tunnel_message_new_def pad_cbor_request_def
        cbor_ctap_hid_data_def cbor_request_new_def PADDING_GRANULARITY_def Let_def)
  have "\<exists>s'. connection_send example_tunnel_env ?q (example_tunnel_state []) = Some (Inr (), s')"
    using len unfolding send by (simp add: example_tunnel_env_def example_tunnel_state_def on_noise_def example_noise_def
        act_bind_def ok_or_def on_channel_def)
  then obtain s' where run: "connection_send example_tunnel_env ?q (example_tunnel_state []) = Some (Inr (), s')" ..
  have "noise_agrees (te_noise example_tunnel_env) example_noise (\<lambda>_ _. True)"
    by (auto simp: noise_agrees_def example_tunnel_env_def example_noise_def split: if_splits)
  from cable_request_round_trip [OF this _ run, of "example_tunnel_state []"] run show ?thesis by blast
qed

section \<open>Messages that end or do not end the connection\<close>

text \<open>
  An authentic update never ends the connection, whatever it holds; a shutdown message without a
  payload is a framing error.
\<close>

lemma update_keeps_connection:
  assumes "decrypt_frame (te_noise te) c s = Some (Inr (2 # payload), t)" "payload \<noteq> []"
  shows "connection_recv te c s = Some (Inr Continue, recv_update te payload t)"
  using assms by (simp add: connection_recv_def act_bind_def act_run tunnel_message_new_def)

lemma bare_shutdown_is_fault:
  assumes "decrypt_frame (te_noise te) c s = Some (Inr [0], t)"
  shows "connection_recv te c s = Some (Inl Ce_InvalidFraming, t)"
  using assms by (simp add: connection_recv_def act_bind_def act_run)

end
