(* ===== verification/Cable_Session_Properties.thy ===== *)
theory Cable_Session_Properties
  imports Cable_Session Cable_Protocol_Properties
begin

text \<open>
  What a hybrid connection guarantees from its device to its channel: the updates and the
  connection state, the binding of the session to the secret of the QR code, and when a known
  device is forgotten.
\<close>

section \<open>Updates and the connection state\<close>

definition ui_is :: "cable_update list \<Rightarrow> connection_state \<Rightarrow> ('w, 's) cable_world \<Rightarrow> bool" where
  "ui_is us st w \<longleftrightarrow> cw_updates w = us \<and> cw_connection_state w = st"

lemma ui_is_changes:
  "ui_is us st w \<Longrightarrow> ui_is (us @ [u]) st (send_update u w)"
  "ui_is us st w \<Longrightarrow> ui_is us st' (set_connection_state st' w)"
  "ui_is us st w \<Longrightarrow> ui_is (us @ [Up_Error e]) Terminated (send_error e w)"
  by (simp_all add: ui_is_def send_update_def set_connection_state_def send_error_def)

lemma keeps_ui:
  "keeps (ui_is us st) (on_net m)" "keeps (ui_is us st) (connect_tunnel ce input)"
  "keeps (ui_is us st) (run_protocol ce out store events)"
  by (auto simp: keeps_def on_net_def connect_tunnel_def run_protocol_def ui_is_def Let_def
      split: prod.splits sum.splits option.splits)

lemma keeps_connect: "keeps (ui_is us st) (connect_data_channel ce input)"
  unfolding connect_data_channel_def
  by (intro keeps_rules keeps_ui) (auto split: sum.split intro: keeps_rules keeps_ui)

text \<open>The updates of a run of the stages: all of them on success, some first ones on a failure.\<close>

definition stages_done :: "cable_update list \<Rightarrow> cable_error + 'a \<Rightarrow> ('w, 's) cable_world \<Rightarrow> bool" where
  "stages_done us r w \<longleftrightarrow>
     (case r of Inr _ \<Rightarrow> ui_is us Connected w
      | Inl _ \<Rightarrow> \<exists>k. ui_is (take k us) Connecting w)"

text \<open>A stage takes the first \<open>j\<close> updates to the first \<open>k\<close>, or fails there.\<close>

definition stage :: "cable_update list \<Rightarrow> nat \<Rightarrow> nat \<Rightarrow> ('w, 's, 'a) cable_action \<Rightarrow> bool" where
  "stage us j k m \<longleftrightarrow> ends (ui_is (take j us) Connecting) m
     (\<lambda>r w. case r of Inl _ \<Rightarrow> \<exists>n. ui_is (take n us) Connecting w | Inr _ \<Rightarrow> ui_is (take k us) Connecting w)"

lemma stage_bind:
  assumes "stage us j k m" and "\<And>x. ends (ui_is (take k us) Connecting) (f x) (stages_done us)"
  shows "ends (ui_is (take j us) Connecting) (act_bind m f) (stages_done us)"
proof (rule endsI)
  fix w r w'
  assume w: "ui_is (take j us) Connecting w" and "act_bind m f w = Some (r, w')"
  from this(2) show "stages_done us r w'"
  proof (cases rule: act_bind_SomeE)
    case (1 e)
    then show ?thesis using endsD [OF assms(1) [unfolded stage_def] w] by (auto simp: stages_done_def)
  next
    case (2 x t)
    then have "ui_is (take k us) Connecting t" using endsD [OF assms(1) [unfolded stage_def] w] by auto
    then show ?thesis using endsD [OF assms(2)] 2(2) by blast
  qed
qed

lemma stage_lift: "stage us j j (act_lift r)"
  by (auto simp: stage_def ends_run split: sum.split)

lemma stage_update:
  assumes "take k us = take j us @ [u]" and "keeps (ui_is (take k us) Connecting) m"
  shows "stage us j k (act_bind (act_modify (send_update u)) (\<lambda>_. m))"
  unfolding stage_def
proof (rule endsI)
  fix w r w'
  assume w: "ui_is (take j us) Connecting w" and "act_bind (act_modify (send_update u)) (\<lambda>_. m) w = Some (r, w')"
  then have "m (send_update u w) = Some (r, w')" by (simp add: act_bind_def act_run)
  then have "ui_is (take k us) Connecting w'"
    using keepsD [OF assms(2)] ui_is_changes(1) [OF w, of u] assms(1) by simp
  then show "case r of Inl _ \<Rightarrow> \<exists>n. ui_is (take n us) Connecting w' | Inr _ \<Rightarrow> ui_is (take k us) Connecting w'"
    by (auto split: sum.split)
qed

lemma stage_proximity: "take k us = take j us @ [Up_ProximityCheck] \<Longrightarrow> stage us j k (proximity_check_stage ce key)"
  unfolding proximity_check_stage_def by (rule stage_update) (simp_all add: keeps_run)

lemma stage_connection: "take k us = take j us @ [Up_Connecting] \<Longrightarrow> stage us j k (connection_stage ce input)"
  unfolding connection_stage_def by (rule stage_update) (simp_all add: keeps_connect)

lemma stage_handshake:
  assumes "us = take j us @ [Up_Authenticating, Up_Connected]" "j \<le> length us"
  shows "ends (ui_is (take j us) Connecting) (handshake_stage ce link psk input) (stages_done us)"
proof (rule endsI)
  fix w r w'
  assume w: "ui_is (take j us) Connecting w" and run: "handshake_stage ce link psk input w = Some (r, w')"
  note w1 = ui_is_changes(1) [OF w, of Up_Authenticating]
  have j': "take j us @ [Up_Authenticating] = take (Suc j) us"
  proof -
    define pre where "pre = take j us"
    then have "us = pre @ [Up_Authenticating, Up_Connected]" "length pre = j" using assms by simp_all
    then show ?thesis by (metis append_eq_conv_conj append_Cons append_Nil append_assoc length_append_singleton)
  qed
  have "act_bind (on_net (do_handshake (ce_noise ce) (ce_ops ce link) psk (ci_connection_type input))) (\<lambda>noise_state.
     act_bind (act_modify (send_update Up_Connected)) (\<lambda>_.
     act_bind (act_modify (set_connection_state Connected)) (\<lambda>_.
     act_return \<lparr>ho_data_channel = link, ho_noise_state = noise_state,
       ho_connection_type = ci_connection_type input, ho_tunnel_domain = ci_tunnel_domain input\<rparr>)))
     (send_update Up_Authenticating w) = Some (r, w')"
    using run by (simp add: handshake_stage_def act_bind_def act_run)
  then show "stages_done us r w'"
  proof (cases rule: act_bind_SomeE)
    case (1 e)
    then show ?thesis using keepsD [OF keeps_ui(1) w1] j' by (auto simp: stages_done_def)
  next
    case (2 n t)
    then have "w' = set_connection_state Connected (send_update Up_Connected t)" "\<exists>out. r = Inr out"
      by (auto simp: act_bind_def act_run)
    moreover have "ui_is (take j us @ [Up_Authenticating, Up_Connected]) Connected
        (set_connection_state Connected (send_update Up_Connected t))"
      using ui_is_changes(2) [OF ui_is_changes(1) [OF keepsD [OF keeps_ui(1) w1 2(1)]]] by simp
    ultimately show ?thesis unfolding assms(1) [symmetric] by (auto simp: stages_done_def)
  qed
qed

lemma qr_stages:
  "ends (ui_is [] Connecting) (qr_connection ce d)
     (stages_done [Up_ProximityCheck, Up_Connecting, Up_Authenticating, Up_Connected])"
  (is "ends _ _ (stages_done ?us)")
proof -
  have "ends (ui_is (take 0 ?us) Connecting) (qr_connection ce d) (stages_done ?us)"
    unfolding qr_connection_def
    apply (rule stage_bind [OF stage_lift])
    apply (rule stage_bind [OF stage_proximity [where k = 1]], simp)
    apply (rule stage_bind [OF stage_lift])
    apply (rule stage_bind [OF stage_connection [where k = 2]], simp)
    apply (rule stage_bind [OF stage_lift])
    apply (rule stage_handshake; simp)
    done
  then show ?thesis by simp
qed

lemma known_device_stages:
  "ends (ui_is [] Connecting) (known_device_connection ce d nonce)
     (stages_done [Up_Connecting, Up_ProximityCheck, Up_Authenticating, Up_Connected])"
  (is "ends _ _ (stages_done ?us)")
proof -
  have "ends (ui_is (take 0 ?us) Connecting) (known_device_connection ce d nonce) (stages_done ?us)"
    unfolding known_device_connection_def Let_def
    apply (rule stage_bind [OF stage_connection [where k = 1]], simp)
    apply (rule stage_bind [OF stage_lift])
    apply (rule stage_bind [OF stage_proximity [where k = 2]], simp)
    apply (rule stage_bind [OF stage_lift])
    apply (rule stage_handshake; simp)
    done
  then show ?thesis by simp
qed

section \<open>Who ends a connection\<close>

text \<open>
  The peer ends a connection by closing the data channel or by a frame that decrypts to a shutdown
  message: the byte 0 and some payload.
\<close>

definition peer_ends :: "('b, 'h, 'n, 'w, 's) tunnel_env \<Rightarrow> ('n, 'w, 's) tunnel_state \<Rightarrow> bool" where
  "peer_ends te s \<longleftrightarrow>
     (\<exists>s1. on_channel (dc_recv (te_channel te)) s = Some (Inr None, s1))
     \<or> (\<exists>frame s1 payload s2. on_channel (dc_recv (te_channel te)) s = Some (Inr (Some frame), s1)
         \<and> decrypt_frame (te_noise te) frame s1 = Some (Inr (0 # payload), s2) \<and> payload \<noteq> [])"

lemma slice_is_shutdown:
  "(\<exists>m. tunnel_message_from_slice frame = Inr m \<and> tm_type m = Msg_Shutdown) \<longleftrightarrow> (\<exists>payload. frame = 0 # payload \<and> payload \<noteq> [])"
  by (cases frame) (auto simp: tunnel_message_new_def)

lemma recv_shutdown_iff:
  "(\<exists>t. connection_recv te frame s = Some (Inr PeerShutdown, t)) \<longleftrightarrow>
     (\<exists>payload t. decrypt_frame (te_noise te) frame s = Some (Inr (0 # payload), t) \<and> payload \<noteq> [])"
proof
  assume "\<exists>t. connection_recv te frame s = Some (Inr PeerShutdown, t)"
  then obtain t frame' m s1 where d: "decrypt_frame (te_noise te) frame s = Some (Inr frame', s1)"
      "tunnel_message_from_slice frame' = Inr m"
    and "(case tm_type m of Msg_Shutdown \<Rightarrow> act_return PeerShutdown
      | Msg_Ctap \<Rightarrow> act_bind (act_lift (map_err (\<lambda>_. Ce_InvalidFraming) (cbor_response_of_bytes (tm_payload m))))
          (\<lambda>cbor_response. act_bind (deliver_response cbor_response) (\<lambda>_. act_return Continue))
      | Msg_Update \<Rightarrow> act_bind (act_modify (recv_update te (tm_payload m))) (\<lambda>_. act_return Continue)) s1
      = Some (Inr PeerShutdown, t)"
    by (auto simp: connection_recv_def act_run elim!: act_bind_InrE)
  from this(3) have "tm_type m = Msg_Shutdown"
    by (cases "tm_type m") (auto simp: act_run elim!: act_bind_InrE)
  with d slice_is_shutdown [of frame'] show "\<exists>payload t. decrypt_frame (te_noise te) frame s = Some (Inr (0 # payload), t) \<and> payload \<noteq> []"
    by blast
next
  assume "\<exists>payload t. decrypt_frame (te_noise te) frame s = Some (Inr (0 # payload), t) \<and> payload \<noteq> []"
  then show "\<exists>t. connection_recv te frame s = Some (Inr PeerShutdown, t)"
    by (auto simp: connection_recv_def act_bind_def act_run tunnel_message_new_def)
qed

text \<open>One turn of the loop, and the loop as its turns.\<close>

lemma loop_append:
  "connection_loop te g (xs @ ys) s =
     (case connection_loop te g xs s of Some (Inr Running, t) \<Rightarrow> connection_loop te g ys t | r \<Rightarrow> r)"
proof (induction xs arbitrary: s)
  case Nil
  then show ?case by simp
next
  case (Cons ev xs)
  show ?case
    by (cases ev) (auto simp: Cons.IH act_bind_def act_run split: option.split sum.split prod.split
        recv_outcome.split loop_exit.split)
qed

lemma loop_turn_closed:
  "(\<exists>t. connection_loop te g [ev] s = Some (Inr Closed, t)) \<longleftrightarrow> ev = Te_Inbound \<and> peer_ends te s"
proof (cases ev)
  case Te_Inbound
  have "(\<exists>t. connection_loop te g [Te_Inbound] s = Some (Inr Closed, t)) \<longleftrightarrow>
     (\<exists>s1. on_channel (dc_recv (te_channel te)) s = Some (Inr None, s1))
     \<or> (\<exists>frame s1. on_channel (dc_recv (te_channel te)) s = Some (Inr (Some frame), s1)
         \<and> (\<exists>t. connection_recv te frame s1 = Some (Inr PeerShutdown, t)))"
    by (auto simp: act_bind_def act_run split: option.splits sum.splits prod.splits recv_outcome.splits)
  then show ?thesis unfolding peer_ends_def recv_shutdown_iff using Te_Inbound by auto
qed (auto simp: act_bind_def split: option.splits sum.splits prod.splits if_splits)

lemma loop_closed_iff:
  "(\<exists>t. connection_loop te g events s = Some (Inr Closed, t)) \<longleftrightarrow>
     (\<exists>before after t. events = before @ Te_Inbound # after
       \<and> connection_loop te g before s = Some (Inr Running, t) \<and> peer_ends te t)" (is "?closed events s \<longleftrightarrow> ?peer events s")
proof
  show "?closed events s \<Longrightarrow> ?peer events s"
  proof (induction events arbitrary: s)
    case Nil
    then show ?case by simp
  next
    case (Cons ev events)
    show ?case
    proof (cases "\<exists>t. connection_loop te g [ev] s = Some (Inr Closed, t)")
      case True
      then have "ev = Te_Inbound" "peer_ends te s" using loop_turn_closed [of te g ev s] by simp_all
      then show ?thesis by (intro exI [of _ "[]"] exI [of _ events] exI [of _ s]) simp
    next
      case False
      from Cons.prems obtain t s1 where s1: "connection_loop te g [ev] s = Some (Inr Running, s1)"
          "connection_loop te g events s1 = Some (Inr Closed, t)"
        using False loop_append [of te g "[ev]" events s]
        by (auto split: option.splits sum.splits prod.splits loop_exit.splits)
      then obtain before after t where "events = before @ Te_Inbound # after"
          "connection_loop te g before s1 = Some (Inr Running, t)" "peer_ends te t"
        using Cons.IH by blast
      then show ?thesis using s1(1) loop_append [of te g "[ev]" before s]
        by (intro exI [of _ "ev # before"] exI [of _ after] exI [of _ t]) simp
    qed
  qed
next
  assume "?peer events s"
  then obtain before after t where e: "events = before @ Te_Inbound # after"
      "connection_loop te g before s = Some (Inr Running, t)" "peer_ends te t" by blast
  moreover obtain u where "connection_loop te g [Te_Inbound] t = Some (Inr Closed, u)"
    using loop_turn_closed [of te g Te_Inbound t] e(3) by blast
  ultimately show "?closed events s"
    using loop_append [of te g before "Te_Inbound # after" s] loop_append [of te g "[Te_Inbound]" after t] by simp
qed

lemma connection_closed_iff:
  "(\<exists>t. connection te events s = Some (Inr Closed, t)) \<longleftrightarrow>
     (\<exists>before after t. events = before @ Te_Inbound # after
       \<and> connection te before s = Some (Inr Running, t) \<and> peer_ends te t)"
proof (cases "\<exists>m s1 g s2. on_channel (dc_recv (te_channel te)) s = Some (Inr (Some m), s1)
    \<and> connection_recv_initial te m s1 = Some (Inr g, s2)")
  case True
  then obtain m s1 g s2 where "on_channel (dc_recv (te_channel te)) s = Some (Inr (Some m), s1)"
      "connection_recv_initial te m s1 = Some (Inr g, s2)" by blast
  then have "connection te es s = connection_loop te g es s2" for es
    by (simp add: connection_def act_bind_def)
  then show ?thesis using loop_closed_iff by simp
next
  case False
  have "connection te es s \<noteq> Some (Inr x, t)" for es x t
  proof
    assume "connection te es s = Some (Inr x, t)"
    then show False using False
      unfolding connection_def by (elim act_bind_InrE) (auto simp: act_run split: option.splits elim!: act_bind_InrE)
  qed
  then show ?thesis by auto
qed

section \<open>How the task of a channel ends\<close>

text \<open>The error of a task, and when its peer ended it.\<close>

definition task_fails :: "('b, 'h, 'n, 'w, 'l, 'c) cable_env \<Rightarrow> ('w, 's, ('n, 'l, 'c) handshake_output) cable_action
    \<Rightarrow> 's device_store option \<Rightarrow> tunnel_event list \<Rightarrow> ('w, 's) cable_world \<Rightarrow> cable_error \<Rightarrow> bool" where
  "task_fails ce stages store events w e \<longleftrightarrow>
     (\<exists>t. stages w = Some (Inl e, t))
     \<or> (\<exists>out t u. stages w = Some (Inr out, t)
         \<and> connection (tunnel_env_of ce out store) events (tunnel_state_of out t) = Some (Inl e, u))"

definition task_ended_by_peer :: "('b, 'h, 'n, 'w, 'l, 'c) cable_env \<Rightarrow> ('w, 's, ('n, 'l, 'c) handshake_output) cable_action
    \<Rightarrow> 's device_store option \<Rightarrow> tunnel_event list \<Rightarrow> ('w, 's) cable_world \<Rightarrow> bool" where
  "task_ended_by_peer ce stages store events w \<longleftrightarrow>
     (\<exists>out t before after u. stages w = Some (Inr out, t) \<and> events = before @ Te_Inbound # after
       \<and> connection (tunnel_env_of ce out store) before (tunnel_state_of out t) = Some (Inr Running, u)
       \<and> peer_ends (tunnel_env_of ce out store) u)"

lemma task_ended_by_peer_iff:
  "task_ended_by_peer ce stages store events w \<longleftrightarrow>
     (\<exists>out t u. stages w = Some (Inr out, t)
       \<and> connection (tunnel_env_of ce out store) events (tunnel_state_of out t) = Some (Inr Closed, u))"
  using connection_closed_iff unfolding task_ended_by_peer_def by meson

lemma task_ends:
  assumes stages: "ends (ui_is [] Connecting) stages (stages_done us)"
    and run: "cable_task ce stages store events w = Some (r, w')" and w: "ui_is [] Connecting w"
  shows "(\<exists>e k. task_fails ce stages store events w = (\<lambda>e'. e' = e) \<and> ui_is (take k us @ [Up_Error e]) Terminated w')
    \<or> (\<forall>e. \<not> task_fails ce stages store events w e)
      \<and> ui_is us (if task_ended_by_peer ce stages store events w then Terminated else Connected) w'"
proof -
  obtain h t where h: "stages w = Some (h, t)"
    using run by (auto simp: cable_task_def act_try_def split: option.splits)
  then have t: "stages_done us h t" using endsD [OF stages w] by blast
  show ?thesis
  proof (cases h)
    case (Inl e)
    then obtain k where "ui_is (take k us) Connecting t" using t by (auto simp: stages_done_def)
    moreover have "w' = send_error e t" using run h Inl by (auto simp: cable_task_def act_try_def act_bind_def act_run)
    ultimately have "ui_is (take k us @ [Up_Error e]) Terminated w'" using ui_is_changes(3) by blast
    moreover have "task_fails ce stages store events w = (\<lambda>e'. e' = e)"
      using h Inl by (auto simp: task_fails_def)
    ultimately show ?thesis by blast
  next
    case (Inr out)
    then have t: "ui_is us Connected t" using t by (simp add: stages_done_def)
    let ?te = "tunnel_env_of ce out store" and ?ts = "tunnel_state_of out t"
    obtain result u where c: "connection ?te events ?ts = Some (result, u)"
      using run h Inr by (auto simp: cable_task_def act_try_def act_bind_def run_protocol_def split: option.splits)
    define w1 where "w1 = t\<lparr>cw_net := ts_channel u, cw_store := ts_store u\<rparr>"
    have w1: "ui_is us Connected w1" using t by (simp add: w1_def ui_is_def)
    have w': "w' = (case result of Inr Running \<Rightarrow> w1 | Inr Closed \<Rightarrow> set_connection_state Terminated w1
        | Inl e \<Rightarrow> send_error e w1)"
      using run h Inr c by (auto simp: cable_task_def act_try_def act_bind_def act_run run_protocol_def w1_def
          split: sum.splits loop_exit.splits)
    have fails: "task_fails ce stages store events w e \<longleftrightarrow> result = Inl e" for e
      using h Inr c by (simp add: task_fails_def)
    have closed: "task_ended_by_peer ce stages store events w \<longleftrightarrow> result = Inr Closed"
      using h Inr c unfolding task_ended_by_peer_iff by simp
    show ?thesis
    proof (cases result)
      case (Inl e)
      have "ui_is (take (length us) us @ [Up_Error e]) Terminated w'"
        using ui_is_changes(3) [OF w1, of e] w' Inl by simp
      then show ?thesis using fails Inl by (intro disjI1 exI [of _ e] exI [of _ "length us"]) auto
    next
      case (Inr x)
      then have "ui_is us (if task_ended_by_peer ce stages store events w then Terminated else Connected) w'"
        unfolding closed using w' w1 ui_is_changes(2) [OF w1] by (cases x) auto
      then show ?thesis using fails Inr by simp
    qed
  qed
qed

text \<open>
  C19: Once the task of a QR code connection is over or relays requests, the channel is no longer
  connecting.  The user interface has seen the four updates in their order, or a beginning of them
  and then the error of the task, if it failed.  The state is terminated exactly when the task
  failed or the peer ended the connection (closed the data channel or sent a shutdown message), and
  connected otherwise; a caller that waits is told so at once, whatever else it watches.
\<close>

theorem cable_updates_in_order:
  assumes "qr_task ce qr_device events w = Some (r, w')" "cw_updates w = []" "cw_connection_state w = Connecting"
  shows "\<exists>k errors. cw_updates w'
      = take k [Up_ProximityCheck, Up_Connecting, Up_Authenticating, Up_Connected] @ map Up_Error errors
    \<and> length errors \<le> 1
    \<and> (errors = [] \<longrightarrow> k = 4)
    \<and> (\<forall>e. e \<in> set errors \<longleftrightarrow> task_fails ce (qr_connection ce qr_device) (qd_store qr_device) events w e)
    \<and> cw_connection_state w' =
        (if errors \<noteq> [] \<or> task_ended_by_peer ce (qr_connection ce qr_device) (qd_store qr_device) events w
         then Terminated else Connected)
    \<and> wait_for_connection (cw_connection_state w') dropped changes =
        Some (if cw_connection_state w' = Connected then Inr () else Inl Ce_ConnectionFailed)
    \<and> (wait_for_connection (cw_connection_state w') dropped changes = Some (Inr ()) \<longrightarrow>
        Up_Connected \<in> set (cw_updates w'))"
proof -
  let ?us = "[Up_ProximityCheck, Up_Connecting, Up_Authenticating, Up_Connected]"
  have "ui_is [] Connecting w" using assms(2,3) by (simp add: ui_is_def)
  from task_ends [OF qr_stages assms(1) [unfolded qr_task_def] this] show ?thesis
  proof (elim disjE exE conjE)
    fix e k
    assume "task_fails ce (qr_connection ce qr_device) (qd_store qr_device) events w = (\<lambda>e'. e' = e)"
      and "ui_is (take k ?us @ [Up_Error e]) Terminated w'"
    then show ?thesis by (intro exI [of _ k] exI [of _ "[e]"]) (auto simp: ui_is_def)
  next
    assume "\<forall>e. \<not> task_fails ce (qr_connection ce qr_device) (qd_store qr_device) events w e"
      and "ui_is ?us (if task_ended_by_peer ce (qr_connection ce qr_device) (qd_store qr_device) events w
            then Terminated else Connected) w'"
    then show ?thesis by (intro exI [of _ 4] exI [of _ "[]"]) (auto simp: ui_is_def split: if_splits)
  qed
qed

section \<open>The handshake and the link\<close>

text \<open>
  The handshake that \<^verbatim>\<open>do_handshake\<close> completed: with the given pattern, prologue, key and
  pre-shared key, from the first message to a state in which the library calls it finished.
\<close>

definition handshake_done :: "('b, 'h, 'n) noise_lib \<Rightarrow> 'w data_channel_ops \<Rightarrow> string \<Rightarrow> bytes \<Rightarrow> noise_key
    \<Rightarrow> bytes \<Rightarrow> 'w \<Rightarrow> 'n tunnel_noise_state \<Rightarrow> 'w \<Rightarrow> bool" where
  "handshake_done nz dc pattern prologue key psk n state n' \<longleftrightarrow>
     (\<exists>builder h0 initial h1 n1 response payload h2.
        nz_configure nz pattern prologue key psk = Some builder
      \<and> nz_build_initiator nz builder = Some h0
      \<and> nz_handshake_write nz [] 1024 h0 = (Some initial, h1)
      \<and> dc_send dc initial n = Some (Inr (), n1)
      \<and> dc_recv dc n1 = Some (Inr (Some response), n')
      \<and> 65 \<le> length response
      \<and> nz_handshake_read nz response 1024 h1 = (Some payload, h2)
      \<and> nz_is_handshake_finished nz h2
      \<and> nz_into_transport_mode nz h2 = Some (nt_transport_state state)
      \<and> nt_handshake_hash state = nz_get_handshake_hash nz h2)"

lemma do_handshake_done:
  "do_handshake nz dc psk (QrCode routing_id tunnel_id private_key) n = Some (Inr state, n') \<Longrightarrow>
    handshake_done nz dc ''Noise_KNpsk0_P256_AESGCM_SHA256'' [1] (LocalPrivateKey private_key) psk n state n'"
  "do_handshake nz dc psk (KnownDevice contact_id public_key payload) n = Some (Inr state, n') \<Longrightarrow>
    handshake_done nz dc ''Noise_NKpsk0_P256_AESGCM_SHA256'' [0] (RemotePublicKey public_key) psk n state n'"
  by (auto simp: do_handshake_def handshake_done_def act_run ok_or_def P256_X962_LENGTH_def
      CABLE_PROLOGUE_QR_INITIATED_def CABLE_PROLOGUE_STATE_ASSISTED_def elim!: act_bind_InrE
      split: prod.splits option.splits if_splits)

text \<open>
  The link that \<^verbatim>\<open>connect_data_channel\<close> opened: to the L2CAP port that was offered, or to the tunnel
  at the given URL, on the network as it is after the offer, if any, failed.
\<close>

definition link_opened :: "('b, 'h, 'n, 'w, 'l, 'c) cable_env \<Rightarrow> ble_connection_params option \<Rightarrow> tunnel_connection_type
    \<Rightarrow> string \<Rightarrow> 'w \<Rightarrow> ('l, 'c) cable_data_channel \<Rightarrow> 'w \<Rightarrow> bool" where
  "link_opened ce ble ct url n link n' \<longleftrightarrow>
     (case link of
        Dc_L2cap l \<Rightarrow> (\<exists>p. ble = Some p \<and> ce_l2cap_connect ce p n = (Inr l, n'))
      | Dc_WebSocket c \<Rightarrow>
          tunnel_answers (ce_tunnel ce) ct url
            (case ble of None \<Rightarrow> n | Some p \<Rightarrow> snd (ce_l2cap_connect ce p n)) (Ca_Connected c 101) n')"

lemma connect_tunnel_opened:
  "connect_tunnel ce input w = Some (Inr link, w') \<Longrightarrow> \<exists>c. link = Dc_WebSocket c
    \<and> tunnel_answers (ce_tunnel ce) (ci_connection_type input)
        (tunnel_url (ci_tunnel_domain input) (ci_connection_type input)) (cw_net w) (Ca_Connected c 101) (cw_net w')"
  unfolding tunnel_connect_iff(1) [symmetric]
  by (auto simp: connect_tunnel_def Let_def split: prod.splits sum.splits option.splits)

lemma connection_stage_opened:
  assumes "connection_stage ce input w = Some (Inr link, w')"
  shows "link_opened ce (ci_ble input) (ci_connection_type input)
    (tunnel_url (ci_tunnel_domain input) (ci_connection_type input)) (cw_net w) link (cw_net w')"
proof -
  let ?w = "send_update Up_Connecting w"
  have net: "cw_net ?w = cw_net w" by (simp add: send_update_def)
  have run: "connect_data_channel ce input ?w = Some (Inr link, w')"
    using assms by (simp add: connection_stage_def act_bind_def act_run)
  show ?thesis
  proof (cases "ci_ble input")
    case None
    then show ?thesis
      using connect_tunnel_opened [of ce input ?w link w'] run net by (auto simp: connect_data_channel_def link_opened_def)
  next
    case (Some p)
    obtain l n1 where l: "ce_l2cap_connect ce p (cw_net w) = (l, n1)" by fastforce
    show ?thesis
    proof (cases l)
      case (Inr channel)
      then show ?thesis using run Some l net
        by (auto simp: connect_data_channel_def link_opened_def act_try_def act_run on_net_def)
    next
      case (Inl e)
      then have "connect_tunnel ce input (?w\<lparr>cw_net := n1\<rparr>) = Some (Inr link, w')"
        using run Some l net by (simp add: connect_data_channel_def act_try_def on_net_def)
      from connect_tunnel_opened [OF this] show ?thesis using Some l by (auto simp: link_opened_def)
    qed
  qed
qed

lemma handshake_stage_output:
  assumes "handshake_stage ce link psk input w = Some (Inr out, w')"
  shows "ho_data_channel out = link \<and> ho_connection_type out = ci_connection_type input
    \<and> ho_tunnel_domain out = ci_tunnel_domain input
    \<and> do_handshake (ce_noise ce) (ce_ops ce link) psk (ci_connection_type input) (cw_net w)
        = Some (Inr (ho_noise_state out), cw_net w')"
  using assms
  by (auto simp: handshake_stage_def act_run on_net_def send_update_def set_connection_state_def elim!: act_bind_InrE)

section \<open>The session of a QR code\<close>

lemma await_from_scan:
  assumes "length eid_key = 64"
  shows "await_advertisement cc map_of_cbor eid_key events = Inr (device, advert) \<Longrightarrow>
    \<exists>e\<in>set events. se_properties e = Some (Some device) \<and> advert_for cc eid_key (da_plaintext advert) (se_data e)
      \<and> advert = advert_of_data map_of_cbor (da_plaintext advert) (se_data e)"
proof (induction events)
  case Nil
  then show ?case by simp
next
  case (Cons e events)
  show ?case
  proof (cases "await_advertisement cc map_of_cbor eid_key events = Inr (device, advert)")
    case True
    then show ?thesis using Cons.IH by auto
  next
    case False
    then obtain p where "se_properties e = Some (Some device)" "trial_decrypt_advert cc eid_key (se_data e) = Some p"
        "advert = advert_of_data map_of_cbor p (se_data e)"
      using Cons.prems by (auto split: option.splits if_splits)
    moreover then have "da_plaintext advert = p"
      by (auto simp: advert_of_data_def advert_of_plaintext_def Let_def split: option.split)
    ultimately show ?thesis using trial_decrypt_iff [OF assms] by auto
  qed
qed

lemma connection_for_qr_codeE:
  assumes "connection_for_qr_code cc qr_device (device, advert) = Inr input"
  obtains domain tunnel_key where
    "decode_tunnel_server_domain (cc_sha256 cc) (da_encoded_tunnel_server_domain advert) = Some domain"
    "cc_hkdf cc None (qr_secret (qd_qr_code qr_device)) [2, 0, 0, 0] 64 = Some tunnel_key"
    "ci_tunnel_domain input = domain"
    "ci_connection_type input = QrCode (hex_encode (da_routing_id advert)) (hex_encode (take 16 tunnel_key))
       (qd_private_key qr_device)"
    "ci_ble input = map_option (\<lambda>psm. \<lparr>bc_address = ad_address device, bc_address_type = ad_address_type device,
       bc_psm = psm\<rparr>) (Option.bind (da_suffix advert) ble_psm)"
  using assms
  by (auto simp: connection_for_qr_code_def result_bind_def map_err_def decode_tunnel_domain_from_advert_def
      cable_derive_def Let_def ok_or_def slice_upto_def split: sum.splits option.splits if_splits)

text \<open>
  C16: A QR code connection that succeeds is with a device that knows the secret of this code.  An
  advertisement in the scan was made with the key derived from the secret.  The link is the L2CAP
  port of the device that advertises, as its advertisement offers, or the tunnel at the domain and
  the routing id that the advertisement names and the tunnel id derived from the secret: the
  server accepted the request for this URL, or one it redirected to.  Over this link, and with
  nothing in between, the Noise handshake ran to its end with the private key of the code and the
  pre-shared key derived from the secret and the advertisement.
\<close>

theorem qr_session_bound_to_secret:
  assumes "qr_connection ce qr_device w = Some (Inr out, w')"
    and "\<forall>salt secret info n k. cc_hkdf (ce_crypto ce) salt secret info n = Some k \<longrightarrow> length k = n"
  shows "\<exists>eid_key tunnel_key psk_key e device (advert :: decrypted_advert) domain n.
    cc_hkdf (ce_crypto ce) None (qr_secret (qd_qr_code qr_device)) [1, 0, 0, 0] 64 = Some eid_key
    \<and> cc_hkdf (ce_crypto ce) None (qr_secret (qd_qr_code qr_device)) [2, 0, 0, 0] 64 = Some tunnel_key
    \<and> cc_hkdf (ce_crypto ce) (Some (da_plaintext advert)) (qr_secret (qd_qr_code qr_device)) [3, 0, 0, 0] 64
        = Some psk_key
    \<and> e \<in> set (ce_scan ce) \<and> se_properties e = Some (Some device)
    \<and> advert_for (ce_crypto ce) eid_key (da_plaintext advert) (se_data e)
    \<and> advert = advert_of_data (ce_map_of_cbor ce) (da_plaintext advert) (se_data e)
    \<and> decode_tunnel_server_domain (cc_sha256 (ce_crypto ce)) (da_encoded_tunnel_server_domain advert) = Some domain
    \<and> ho_tunnel_domain out = domain
    \<and> ho_connection_type out = QrCode (hex_encode (da_routing_id advert)) (hex_encode (take 16 tunnel_key))
        (qd_private_key qr_device)
    \<and> link_opened ce
        (map_option (\<lambda>psm. \<lparr>bc_address = ad_address device, bc_address_type = ad_address_type device, bc_psm = psm\<rparr>)
          (Option.bind (da_suffix advert) ble_psm))
        (ho_connection_type out)
        (''wss://'' @ domain @ ''/cable/connect/'' @ hex_encode (da_routing_id advert) @ ''/''
          @ hex_encode (take 16 tunnel_key))
        (cw_net w) (ho_data_channel out) n
    \<and> handshake_done (ce_noise ce) (ce_ops ce (ho_data_channel out)) ''Noise_KNpsk0_P256_AESGCM_SHA256'' [1]
        (LocalPrivateKey (qd_private_key qr_device)) (take 32 psk_key) n (ho_noise_state out) (cw_net w')"
  using assms(1) [unfolded qr_connection_def]
proof (elim act_bind_InrE)
  fix eid_key w1 proximity w2 input w3 link w4 psk w5
  assume key: "act_lift (proximity_for_qr_code (ce_crypto ce) qr_device) w = Some (Inr eid_key, w1)"
    and prox: "proximity_check_stage ce eid_key w1 = Some (Inr proximity, w2)"
    and inp: "act_lift (connection_for_qr_code (ce_crypto ce) qr_device proximity) w2 = Some (Inr input, w3)"
    and conn: "connection_stage ce input w3 = Some (Inr link, w4)"
    and psk: "act_lift (derive_psk (ce_crypto ce) (qr_secret (qd_qr_code qr_device)) (da_plaintext (snd proximity))) w4
      = Some (Inr psk, w5)"
    and hs: "handshake_stage ce link psk input w5 = Some (Inr out, w')"
  obtain device advert where pr: "proximity = (device, advert)" by fastforce
  have k: "cc_hkdf (ce_crypto ce) None (qr_secret (qd_qr_code qr_device)) [1, 0, 0, 0] 64 = Some eid_key"
    using key by (auto simp: act_run proximity_for_qr_code_def cable_derive_def ok_or_def split: option.splits)
  have "await_advertisement (ce_crypto ce) (ce_map_of_cbor ce) eid_key (ce_scan ce) = Inr (device, advert)"
    using prox pr by (simp add: proximity_check_stage_def act_bind_def act_run)
  from await_from_scan [OF assms(2) [rule_format, OF k] this] obtain e where e: "e \<in> set (ce_scan ce)"
      "se_properties e = Some (Some device)" "advert_for (ce_crypto ce) eid_key (da_plaintext advert) (se_data e)"
      "advert = advert_of_data (ce_map_of_cbor ce) (da_plaintext advert) (se_data e)" by blast
  have "connection_for_qr_code (ce_crypto ce) qr_device (device, advert) = Inr input"
    using inp pr by (simp add: act_run)
  then obtain domain tunnel_key where t:
      "decode_tunnel_server_domain (cc_sha256 (ce_crypto ce)) (da_encoded_tunnel_server_domain advert) = Some domain"
      "cc_hkdf (ce_crypto ce) None (qr_secret (qd_qr_code qr_device)) [2, 0, 0, 0] 64 = Some tunnel_key"
      "ci_tunnel_domain input = domain"
      "ci_connection_type input = QrCode (hex_encode (da_routing_id advert)) (hex_encode (take 16 tunnel_key))
         (qd_private_key qr_device)"
      "ci_ble input = map_option (\<lambda>psm. \<lparr>bc_address = ad_address device, bc_address_type = ad_address_type device,
         bc_psm = psm\<rparr>) (Option.bind (da_suffix advert) ble_psm)"
    by (rule connection_for_qr_codeE)
  obtain psk_key where p: "psk = take 32 psk_key"
      "cc_hkdf (ce_crypto ce) (Some (da_plaintext advert)) (qr_secret (qd_qr_code qr_device)) [3, 0, 0, 0] 64 = Some psk_key"
    using psk pr by (auto simp: act_run derive_psk_def cable_derive_def ok_or_def slice_upto_def split: option.splits if_splits)
  note hs = handshake_stage_output [OF hs]
  have net: "cw_net w3 = cw_net w" "cw_net w5 = cw_net w4"
    using key prox inp psk by (auto simp: act_run proximity_check_stage_def act_bind_def send_update_def split: sum.splits)
  have link: "link_opened ce (ci_ble input) (ci_connection_type input)
      (tunnel_url domain (ci_connection_type input)) (cw_net w) link (cw_net w4)"
    using connection_stage_opened [OF conn] by (simp add: t(3) net)
  have hand: "handshake_done (ce_noise ce) (ce_ops ce link) ''Noise_KNpsk0_P256_AESGCM_SHA256'' [1]
      (LocalPrivateKey (qd_private_key qr_device)) psk (cw_net w4) (ho_noise_state out) (cw_net w')"
    using hs by (intro do_handshake_done(1) [where routing_id = "hex_encode (da_routing_id advert)"
          and tunnel_id = "hex_encode (take 16 tunnel_key)"]) (simp add: t(4) net)
  show ?thesis
    by (intro exI conjI, rule k, rule t(2), rule p(2), rule e(1), rule e(2), rule e(3), rule e(4), rule t(1))
      (use hs link hand in \<open>simp_all add: t p(1)\<close>)
qed

section \<open>Forgetting a known device\<close>

text \<open>
  C38: The connection stage removes from the store at most the device it was asked to contact, and
  it removes it exactly when the tunnel server answers 410 Gone: to the request for the contact id
  of this device at its domain, with its client payload, or to the last of the at most five
  requests it redirected this one to.
\<close>

theorem known_device_forgotten_iff_gone:
  assumes "known_device_store (kn_store known_device) lookup"
    and "connection_stage ce (connection_for_known_device (ce_base64url ce) known_device client_nonce) w = Some (r, w')"
  shows "lookup (cw_store w') i
    = (if (\<exists>location. tunnel_answers (ce_tunnel ce)
              (KnownDevice (ce_base64url ce (kd_contact_id (kn_device_info known_device)))
                (kd_public_key (kn_device_info known_device))
                \<lparr>cp_link_id = kd_link_id (kn_device_info known_device), cp_client_nonce = client_nonce,
                 cp_hint = kn_hint known_device\<rparr>)
              (''wss://'' @ kd_tunnel_domain (kn_device_info known_device) @ ''/cable/contact/''
                @ ce_base64url ce (kd_contact_id (kn_device_info known_device)))
              (cw_net w) (Ca_Http 410 location) (cw_net w'))
          \<and> i = hex_encode (kd_public_key (kn_device_info known_device))
       then None else lookup (cw_store w) i)"
proof -
  note lookup_delete = known_device_store.lookup_delete [OF assms(1)]
  let ?info = "kn_device_info known_device"
  let ?ct = "KnownDevice (ce_base64url ce (kd_contact_id ?info)) (kd_public_key ?info)
    \<lparr>cp_link_id = kd_link_id ?info, cp_client_nonce = client_nonce, cp_hint = kn_hint known_device\<rparr>"
  let ?input = "connection_for_known_device (ce_base64url ce) known_device client_nonce"
  obtain t n where t: "tunnel_connect (ce_tunnel ce) (kd_tunnel_domain ?info) ?ct (cw_net w) = (t, n)" by fastforce
  have run: "connect_tunnel ce ?input (send_update Up_Connecting w) = Some (r, w')"
    using assms(2) by (simp add: connection_stage_def connect_data_channel_def connection_for_known_device_def
        Let_def act_bind_def act_run)
  have n: "cw_net w' = n"
    using run t by (auto simp: connect_tunnel_def connection_for_known_device_def Let_def send_update_def
        split: prod.splits sum.splits option.splits)
  have gone: "(\<exists>location. tunnel_answers (ce_tunnel ce) ?ct (tunnel_url (kd_tunnel_domain ?info) ?ct) (cw_net w)
      (Ca_Http 410 location) (cw_net w')) \<longleftrightarrow> t = Inl (Ce_CableTunnel Tn_Gone)"
    using t unfolding tunnel_connect_iff(2) [symmetric] n by auto
  have "lookup (cw_store w') i = (if t = Inl (Ce_CableTunnel Tn_Gone) \<and> i = hex_encode (kd_public_key ?info) then None
      else lookup (cw_store w) i)"
    using run t
    by (auto simp: connect_tunnel_def connection_for_known_device_def Let_def send_update_def lookup_delete
        split: prod.splits sum.splits option.splits cable_error.splits cable_tunnel_error.splits
        elim: known_device_id_to_forget.elims)
  then show ?thesis using gone by simp
qed

section \<open>Examples\<close>

text \<open>A handshake and two frames on an in-memory network; the lists are what is received.\<close>

definition example_cable_env :: "(unit, unit, bytes list, bytes list, unit, unit) cable_env" where
  "example_cable_env =
     \<lparr>ce_crypto = example_cable_crypto\<lparr>cc_hkdf := \<lambda>salt secret info n. Some (replicate n 0)\<rparr>,
      ce_noise = example_noise,
      ce_tunnel = \<lparr>tl_client_request = \<lambda>url. Some \<lparr>tr_url = url, tr_headers = Map.empty\<rparr>, tl_header_value = Some,
        tl_payload_to_vec = \<lambda>p. Some (cp_link_id p), tl_join_url = \<lambda>base location. Some (base @ location),
        tl_connect = \<lambda>request w. (if tr_url request = ''wss://gone/cable/contact/c'' then Ca_Http 410 None
          else Ca_Connected () 101, w)\<rparr>,
      ce_l2cap_connect = \<lambda>_ w. (Inl Ce_Io, w),
      ce_ops = \<lambda>_. \<lparr>dc_send = \<lambda>m w. Some (Inr (), w), dc_recv = \<lambda>w. case w of [] \<Rightarrow> None | m # w \<Rightarrow> Some (Inr (Some m), w)\<rparr>,
      ce_map_of_cbor = \<lambda>_. None, ce_base64url = \<lambda>_. ''c'',
      ce_p256 = \<lparr>p256_public_key = Some, p256_diffie_hellman = \<lambda>k p. k\<rparr>,
      ce_initial_of_cbor = \<lambda>_. Some \<lparr>im_padding = None, im_info = [0xA0], im_supported_features = None\<rparr>,
      ce_get_info_of_cbor = \<lambda>_. Some get_info_default,
      ce_scan = [\<lparr>se_properties = Some (Some \<lparr>ad_address = replicate 6 1, ad_address_type = None\<rparr>),
        se_data = replicate 20 0, se_stop_scan = True\<rparr>]\<rparr>"

definition example_qr_device :: "ephemeral_devices qr_code_device" where
  "example_qr_device =
     \<lparr>qd_qr_code = \<lparr>qr_public_key = replicate 33 2, qr_secret = replicate 16 0, qr_known_tunnel_domains_count = 2,
        qr_current_time = None, qr_state_assisted = None, qr_operation_hint = Qr_MakeCredential, qr_transports = None\<rparr>,
      qd_private_key = [7], qd_store = None\<rparr>"

definition example_world :: "bytes list \<Rightarrow> ephemeral_devices \<Rightarrow> (bytes list, ephemeral_devices) cable_world" where
  "example_world inbound devices =
     \<lparr>cw_updates = [], cw_connection_state = Connecting, cw_net = inbound, cw_store = devices\<rparr>"

lemma le_value_zeros: "le_value (replicate n 0) = 0"
  by (induction n) simp_all

lemma example_qr_connection:
  "\<exists>out w'. qr_connection example_cable_env example_qr_device (example_world [replicate 65 0, [1, 2, 0]] Map.empty)
    = Some (Inr out, w') \<and> cw_net w' = [[1, 2, 0]]"
  by (simp add: set_connection_state_def qr_connection_def act_bind_def act_run proximity_for_qr_code_def cable_derive_def example_cable_env_def
      ok_or_def proximity_check_stage_def trial_decrypt_advert_def slice_upto_def slice_from_def example_cable_crypto_def
      reserved_bits_are_zero_def slice_get_def advert_of_data_def advert_of_plaintext_def Let_def
      connection_for_qr_code_def result_bind_def decode_tunnel_domain_from_advert_def decode_tunnel_server_domain_def
      le_value_zeros KNOWN_TUNNEL_DOMAINS_def map_err_def connection_stage_def connect_data_channel_def
      connect_tunnel_def tunnel_connect_def build_tunnel_request_def derive_psk_def handshake_stage_def on_net_def
      do_handshake_def example_noise_def P256_X962_LENGTH_def example_world_def send_update_def example_qr_device_def)

lemma cable_updates_in_order_witness:
  "\<exists>r w' k errors. qr_task example_cable_env example_qr_device [] (example_world [replicate 65 0, [1, 2, 0]] Map.empty) = Some (r, w')
    \<and> cw_updates w'
      = take k [Up_ProximityCheck, Up_Connecting, Up_Authenticating, Up_Connected] @ map Up_Error errors
    \<and> length errors \<le> 1
    \<and> cw_connection_state w' =
        (if errors \<noteq> [] \<or> task_ended_by_peer example_cable_env (qr_connection example_cable_env example_qr_device)
              (qd_store example_qr_device) [] (example_world [replicate 65 0, [1, 2, 0]] Map.empty)
         then Terminated else Connected)"
proof -
  let ?w = "example_world [replicate 65 0, [1, 2, 0]] Map.empty"
  have "\<exists>r w'. qr_task example_cable_env example_qr_device [] ?w = Some (r, w')"
  proof -
    obtain out w1 where q: "qr_connection example_cable_env example_qr_device ?w = Some (Inr out, w1)"
        "cw_net w1 = [[1, 2, 0]]"
      using example_qr_connection by blast
    have "\<exists>p w2. run_protocol example_cable_env out None [] w1 = Some (Inr p, w2)"
      using q(2) by (simp add: run_protocol_def tunnel_state_of_def connection_def tunnel_env_of_def example_cable_env_def
          on_channel_def act_bind_def connection_recv_initial_def decrypt_frame_def on_noise_def example_noise_def ok_or_def
          MAX_CBOR_SIZE_def act_run strip_frame_padding_def)
    then obtain p w2 where "run_protocol example_cable_env out None [] w1 = Some (Inr p, w2)" by blast
    moreover have "qd_store example_qr_device = None" by (simp add: example_qr_device_def)
    ultimately show ?thesis using q(1)
      by (cases p) (auto simp: qr_task_def cable_task_def act_try_def act_bind_def act_run split: sum.split loop_exit.split)
  qed
  then obtain r w' where run: "qr_task example_cable_env example_qr_device [] ?w = Some (r, w')" by blast
  have "cw_updates ?w = []" "cw_connection_state ?w = Connecting" by (simp_all add: example_world_def)
  from cable_updates_in_order [OF run this, of False "[]"] run show ?thesis by blast
qed

lemma qr_session_bound_to_secret_witness:
  "\<exists>out w' domain ct url psk n. qr_connection example_cable_env example_qr_device (example_world [replicate 65 0, [1, 2, 0]] Map.empty)
      = Some (Inr out, w')
    \<and> ho_tunnel_domain out = domain \<and> ho_connection_type out = ct
    \<and> link_opened example_cable_env None ct url [replicate 65 0, [1, 2, 0]] (ho_data_channel out) n
    \<and> handshake_done (ce_noise example_cable_env) (ce_ops example_cable_env (ho_data_channel out))
        ''Noise_KNpsk0_P256_AESGCM_SHA256'' [1] (LocalPrivateKey [7]) psk n (ho_noise_state out) (cw_net w')"
proof -
  let ?w = "example_world [replicate 65 0, [1, 2, 0]] Map.empty"
  obtain out w' where run: "qr_connection example_cable_env example_qr_device ?w = Some (Inr out, w')"
    using example_qr_connection by blast
  have "\<forall>salt secret info n k. cc_hkdf (ce_crypto example_cable_env) salt secret info n = Some k \<longrightarrow> length k = n"
    by (auto simp: example_cable_env_def)
  note bound = qr_session_bound_to_secret [OF run this]
  have suffix: "da_suffix (advert_of_data (ce_map_of_cbor example_cable_env) p (se_data e)) = None"
    if "e \<in> set (ce_scan example_cable_env)" for p e
    using that by (simp add: example_cable_env_def advert_of_data_def advert_of_plaintext_def slice_from_def Let_def)
  from bound show ?thesis
  proof (elim exE conjE)
    fix eid_key tunnel_key psk_key e device domain n and advert :: decrypted_advert
    assume "e \<in> set (ce_scan example_cable_env)"
      and "advert = advert_of_data (ce_map_of_cbor example_cable_env) (da_plaintext advert) (se_data e)"
      and link: "link_opened example_cable_env
        (map_option (\<lambda>psm. \<lparr>bc_address = ad_address device, bc_address_type = ad_address_type device, bc_psm = psm\<rparr>)
          (Option.bind (da_suffix advert) ble_psm)) (ho_connection_type out)
        (''wss://'' @ domain @ ''/cable/connect/'' @ hex_encode (da_routing_id advert) @ ''/''
          @ hex_encode (take 16 tunnel_key)) (cw_net ?w) (ho_data_channel out) n"
      and hand: "handshake_done (ce_noise example_cable_env) (ce_ops example_cable_env (ho_data_channel out))
        ''Noise_KNpsk0_P256_AESGCM_SHA256'' [1] (LocalPrivateKey (qd_private_key example_qr_device)) (take 32 psk_key) n
        (ho_noise_state out) (cw_net w')"
    then have "da_suffix advert = None" using suffix by metis
    with link have "link_opened example_cable_env None (ho_connection_type out)
        (''wss://'' @ domain @ ''/cable/connect/'' @ hex_encode (da_routing_id advert) @ ''/''
          @ hex_encode (take 16 tunnel_key)) [replicate 65 0, [1, 2, 0]] (ho_data_channel out) n"
      by (simp add: example_world_def)
    moreover have "qd_private_key example_qr_device = [7]" by (simp add: example_qr_device_def)
    ultimately show ?thesis using run hand by metis
  qed
qed

text \<open>A device whose tunnel is gone, among two that are known.\<close>

definition example_known_device :: "ephemeral_devices cable_known_device" where
  "example_known_device =
     \<lparr>kn_hint = Hint_GetAssertion,
      kn_device_info = \<lparr>kd_contact_id = [1], kd_link_id = replicate 8 2, kd_link_secret = replicate 32 3,
        kd_public_key = [4], kd_name = ''phone'', kd_tunnel_domain = ''gone''\<rparr>,
      kn_store = ephemeral_store\<rparr>"

definition example_devices :: ephemeral_devices where
  "example_devices = [''04'' \<mapsto> kn_device_info example_known_device, ''05'' \<mapsto> kn_device_info example_known_device]"

lemma known_device_forgotten_iff_gone_witness:
  "\<exists>r w' location. connection_stage example_cable_env
      (connection_for_known_device (ce_base64url example_cable_env) example_known_device [0]) (example_world [] example_devices)
      = Some (r, w')
    \<and> tunnel_answers (ce_tunnel example_cable_env)
        (KnownDevice ''c'' [4] \<lparr>cp_link_id = replicate 8 2, cp_client_nonce = [0], cp_hint = Hint_GetAssertion\<rparr>)
        ''wss://gone/cable/contact/c'' [] (Ca_Http 410 location) (cw_net w')
    \<and> cw_store w' ''04'' = None \<and> cw_store w' ''05'' = example_devices ''05''"
proof -
  let ?input = "connection_for_known_device (ce_base64url example_cable_env) example_known_device [0]"
  obtain r w' where run: "connection_stage example_cable_env ?input (example_world [] example_devices) = Some (r, w')"
      "cw_net w' = []"
    by (simp add: connection_stage_def act_bind_def act_run connect_data_channel_def connection_for_known_device_def
        Let_def connect_tunnel_def tunnel_connect_def build_tunnel_request_def example_cable_env_def ok_or_def
        result_bind_def example_known_device_def is_redirection_def tunnel_status_error_def
        send_update_def example_world_def)
  have gone: "tunnel_answers (ce_tunnel example_cable_env)
        (KnownDevice ''c'' [4] \<lparr>cp_link_id = replicate 8 2, cp_client_nonce = [0], cp_hint = Hint_GetAssertion\<rparr>)
        ''wss://gone/cable/contact/c'' [] (Ca_Http 410 None) []"
    unfolding tunnel_answers_def using redirected_0
    by (intro exI [of _ 0] exI [of _ "''wss://gone/cable/contact/c''"] exI [of _ "[]"])
      (simp add: build_tunnel_request_def example_cable_env_def ok_or_def result_bind_def)
  have "known_device_store (kn_store example_known_device) (\<lambda>devices i. devices i)"
    by (simp add: example_known_device_def ephemeral.known_device_store_axioms)
  note forgotten = known_device_forgotten_iff_gone [OF this run(1)]
  have known: "kd_contact_id (kn_device_info example_known_device) = [1]"
      "kd_public_key (kn_device_info example_known_device) = [4]"
      "kd_link_id (kn_device_info example_known_device) = replicate 8 2"
      "kd_tunnel_domain (kn_device_info example_known_device) = ''gone''"
      "kn_hint example_known_device = Hint_GetAssertion" "ce_base64url example_cable_env [1] = ''c''"
      "cw_net (example_world [] example_devices) = []" "cw_store (example_world [] example_devices) = example_devices"
    by (simp_all add: example_known_device_def example_cable_env_def example_world_def)
  have url: "''wss://'' @ ''gone'' @ ''/cable/contact/'' @ ''c'' = ''wss://gone/cable/contact/c''" by simp
  have hex: "hex_encode [4] = ''04''" by code_simp
  have "cw_store w' ''04'' = None"
    using forgotten [of "''04''"] gone unfolding known hex url run(2) by simp blast
  moreover have "cw_store w' ''05'' = example_devices ''05''"
    using forgotten [of "''05''"] unfolding known hex by simp
  ultimately show ?thesis using run gone by metis
qed

end
