(* ===== verification/Cable_L2cap.thy ===== *)
theory Cable_L2cap
  imports Cable_Session
begin

text \<open>
  Opening an L2CAP channel to an authenticator (\<^verbatim>\<open>transport/cable/l2cap.rs\<close>, \<^verbatim>\<open>connect\<close> and the wait
  for the send MTU).  The stack \<^verbatim>\<open>bluer\<close> and the clock are parameters; times are in milliseconds.
\<close>

definition MTU_READY_TIMEOUT :: nat where "MTU_READY_TIMEOUT = 2000"
definition MTU_POLL_INTERVAL :: nat where "MTU_POLL_INTERVAL = 50"

datatype bluer_address_type = LePublic | LeRandom

text \<open>
  \<open>ls_parse_address\<close> reads the text in which btleplug writes an address, \<open>ls_send_mtu\<close> is \<open>None\<close> for an error.
\<close>

record ('a, 'd) l2cap_stack =
  ls_parse_address :: "bytes \<Rightarrow> 'a option"
  ls_connect :: "'a \<Rightarrow> bluer_address_type \<Rightarrow> u16 \<Rightarrow> 'd \<Rightarrow> bool \<times> 'd"
  ls_send_mtu :: "'d \<Rightarrow> u16 option"
  ls_now :: "'d \<Rightarrow> nat"
  ls_sleep :: "nat \<Rightarrow> 'd \<Rightarrow> 'd"

definition bdaddr_to_bluer :: "('a, 'd) l2cap_stack \<Rightarrow> bytes \<Rightarrow> address_type option
    \<Rightarrow> cable_error + 'a \<times> bluer_address_type" where
  "bdaddr_to_bluer ls addr addr_type =
     result_bind (ok_or Ce_InvalidEndpoint (ls_parse_address ls addr)) (\<lambda>addr.
     Inr (addr, case addr_type of Some Addr_Public \<Rightarrow> LePublic | Some Addr_Random \<Rightarrow> LeRandom | None \<Rightarrow> LePublic))"

partial_function (option) await_mtu_until :: "('a, 'd) l2cap_stack \<Rightarrow> nat \<Rightarrow> 'd \<Rightarrow> 'd option" where
  "await_mtu_until ls deadline d =
     (if (case ls_send_mtu ls d of Some mtu \<Rightarrow> 0 < mtu | None \<Rightarrow> False) then Some d
      else if deadline \<le> ls_now ls d then Some d
      else await_mtu_until ls deadline (ls_sleep ls MTU_POLL_INTERVAL d))"

definition await_send_mtu :: "('a, 'd) l2cap_stack \<Rightarrow> 'd \<Rightarrow> 'd option" where
  "await_send_mtu ls d = await_mtu_until ls (ls_now ls d + MTU_READY_TIMEOUT) d"

text \<open>The channel is the state of the stream; its buffer is empty.\<close>

definition l2cap_connect :: "('a, 'd) l2cap_stack \<Rightarrow> ble_connection_params \<Rightarrow> 'd
    \<Rightarrow> ((cable_error + bytes) \<times> 'd) option" where
  "l2cap_connect ls ble d =
     (case bdaddr_to_bluer ls (bc_address ble) (bc_address_type ble) of
        Inl e \<Rightarrow> Some (Inl e, d)
      | Inr (addr, addr_type) \<Rightarrow>
          (case ls_connect ls addr addr_type (bc_psm ble) d of
             (False, d) \<Rightarrow> Some (Inl Ce_Io, d)
           | (True, d) \<Rightarrow> map_option (\<lambda>d. (Inr [], d)) (await_send_mtu ls d)))"

section \<open>Properties\<close>

text \<open>The clock of a sleep: it lasts at least as long as asked, and at most \<open>lag\<close> longer.\<close>

definition sleeps_for :: "('a, 'd) l2cap_stack \<Rightarrow> nat \<Rightarrow> bool" where
  "sleeps_for ls lag \<longleftrightarrow>
     (\<forall>n d. ls_now ls d + n \<le> ls_now ls (ls_sleep ls n d) \<and> ls_now ls (ls_sleep ls n d) \<le> ls_now ls d + n + lag)"

lemma await_mtu_ends:
  assumes "sleeps_for ls lag" "ls_now ls d \<le> deadline + MTU_POLL_INTERVAL + lag"
  shows "\<exists>d'. await_mtu_until ls deadline d = Some d' \<and> ls_now ls d' \<le> deadline + MTU_POLL_INTERVAL + lag
    \<and> ((\<exists>mtu>0. ls_send_mtu ls d' = Some mtu) \<or> deadline \<le> ls_now ls d')"
  using assms(2)
proof (induction "deadline - ls_now ls d" arbitrary: d rule: less_induct)
  case less
  let ?d = "ls_sleep ls MTU_POLL_INTERVAL d"
  have now: "ls_now ls d + MTU_POLL_INTERVAL \<le> ls_now ls ?d" "ls_now ls ?d \<le> ls_now ls d + MTU_POLL_INTERVAL + lag"
    using assms(1) by (simp_all add: sleeps_for_def)
  consider (ready) "\<exists>mtu>0. ls_send_mtu ls d = Some mtu" | (late) "deadline \<le> ls_now ls d" "\<not> (\<exists>mtu>0. ls_send_mtu ls d = Some mtu)"
    | (again) "ls_now ls d < deadline" "\<not> (\<exists>mtu>0. ls_send_mtu ls d = Some mtu)"
    by (metis not_le)
  then show ?case
  proof cases
    case ready
    then show ?thesis using less.prems by (subst await_mtu_until.simps) auto
  next
    case late
    then show ?thesis using less.prems by (subst await_mtu_until.simps) (auto split: option.split)
  next
    case again
    then have "await_mtu_until ls deadline d = await_mtu_until ls deadline ?d"
      by (subst await_mtu_until.simps) (auto split: option.split)
    moreover have "deadline - ls_now ls ?d < deadline - ls_now ls d"
      using again(1) now(1) by (simp add: MTU_POLL_INTERVAL_def)
    ultimately show ?thesis using less.hyps [of ?d] now again(1) by auto
  qed
qed

text \<open>
  Connecting returns; the wait for the MTU ends when there is one or at its deadline, late by at most
  one interval of the polls and the lag of the clock.
\<close>

theorem l2cap_connect_returns:
  assumes "sleeps_for ls lag" "\<And>a t p d. ls_now ls (snd (ls_connect ls a t p d)) \<le> ls_now ls d + connecting"
  shows "\<exists>r d'. l2cap_connect ls ble d = Some (r, d')
    \<and> ls_now ls d' \<le> ls_now ls d + connecting + MTU_READY_TIMEOUT + MTU_POLL_INTERVAL + lag"
proof (cases "bdaddr_to_bluer ls (bc_address ble) (bc_address_type ble)")
  case (Inl e)
  then show ?thesis by (simp add: l2cap_connect_def)
next
  case (Inr x)
  obtain a t where x: "x = (a, t)" by fastforce
  obtain ok d1 where c: "ls_connect ls a t (bc_psm ble) d = (ok, d1)" by fastforce
  then have d1: "ls_now ls d1 \<le> ls_now ls d + connecting" using assms(2) [of a t "bc_psm ble" d] by simp
  obtain d2 where "await_send_mtu ls d1 = Some d2" "ls_now ls d2 \<le> ls_now ls d1 + MTU_READY_TIMEOUT + MTU_POLL_INTERVAL + lag"
    using await_mtu_ends [OF assms(1), of d1 "ls_now ls d1 + MTU_READY_TIMEOUT"]
    by (auto simp: await_send_mtu_def)
  then show ?thesis using d1 by (cases ok) (auto simp: l2cap_connect_def Inr x c)
qed

end
