(* ===== verification/Device_Discovery.thy ===== *)
theory Device_Discovery
  imports Nfc_Channel Ble_Channel Hid_Channel Cable_Codes
begin

text \<open>
  Finding devices: the USB device behind a key (\<^verbatim>\<open>transport/usb.rs\<close>), HID devices
  (\<^verbatim>\<open>transport/hid/device.rs\<close>), NFC readers and their two backends (\<^verbatim>\<open>transport/nfc/device.rs\<close>,
  \<^verbatim>\<open>libnfc/mod.rs\<close>, \<^verbatim>\<open>pcsc/mod.rs\<close>), BLE devices (\<^verbatim>\<open>transport/ble/device.rs\<close> and
  \<^verbatim>\<open>btleplug/manager.rs\<close>) and the transports available (\<^verbatim>\<open>lib.rs\<close>).  The crates, the file system and
  the operating system are parameters; a lock that a panic has poisoned is not modelled.
\<close>

section \<open>USB devices\<close>

record usb_device_id =
  usb_bus :: u8
  usb_address :: u8

definition usb_from_channel_id :: "u32 \<Rightarrow> usb_device_id option" where
  "usb_from_channel_id dword =
     (if drop_bit 16 dword \<noteq> 0x0020 then None
      else Some \<lparr>usb_bus = ucast (drop_bit 8 (dword AND 0xffff)), usb_address = ucast (dword AND 0xff)\<rparr>)"

text \<open>The byte order of the host is a parameter.\<close>

definition u32_from_ne_bytes :: "bool \<Rightarrow> u8 \<Rightarrow> u8 \<Rightarrow> u8 \<Rightarrow> u8 \<Rightarrow> u32" where
  "u32_from_ne_bytes big_endian a b c d = (if big_endian then u32_of_be a b c d else u32_of_be d c b a)"

definition u32_swap_bytes :: "u32 \<Rightarrow> u32" where
  "u32_swap_bytes dword =
     u32_of_be (ucast dword) (ucast (drop_bit 8 dword)) (ucast (drop_bit 16 dword)) (ucast (drop_bit 24 dword))"

definition usb_from_channel_id_bytes :: "bool \<Rightarrow> u8 \<Rightarrow> u8 \<Rightarrow> u8 \<Rightarrow> u8 \<Rightarrow> usb_device_id option" where
  "usb_from_channel_id_bytes big_endian a b c d =
     (let dword = u32_from_ne_bytes big_endian a b c d
      in case usb_from_channel_id dword of
           Some i \<Rightarrow> Some i
         | None \<Rightarrow> usb_from_channel_id (u32_swap_bytes dword))"

text \<open>The file system; a path is the list of its components, the root the empty list.\<close>

record file_system =
  fs_canonicalize :: "string list \<Rightarrow> string list option"
  fs_is_file :: "string list \<Rightarrow> bool"
  fs_read_to_string :: "string list \<Rightarrow> string option"

definition path_file_name :: "string \<Rightarrow> string option" where
  "path_file_name path =
     (let components = filter (\<lambda>c. c \<noteq> [] \<and> c \<noteq> ''.'') (split_on CHR ''/'' path)
      in if components = [] \<or> last components = ''..'' then None else Some (last components))"

text \<open>\<^verbatim>\<open>trim\<close> for ASCII white space and \<^verbatim>\<open>parse::<u32>\<close>.\<close>

definition ascii_space :: "char \<Rightarrow> bool" where
  "ascii_space c \<longleftrightarrow> (let n = of_char c :: nat in 9 \<le> n \<and> n \<le> 13 \<or> n = 32)"

definition trim_ascii :: "string \<Rightarrow> string" where
  "trim_ascii s = List.rev (dropWhile ascii_space (List.rev (dropWhile ascii_space s)))"

definition parse_u32 :: "string \<Rightarrow> nat option" where
  "parse_u32 s =
     (let ds = (case s of c # cs \<Rightarrow> if c = CHR ''+'' then cs else s | [] \<Rightarrow> []);
          codes = map of_char ds :: nat list
      in if ds = [] \<or> (\<exists>n\<in>set codes. n < 48 \<or> 57 < n) then None
         else let n = foldl (\<lambda>n c. n * 10 + (c - 48)) 0 codes
              in if n < 2 ^ 32 then Some n else None)"

definition read_sysfs_u8 :: "file_system \<Rightarrow> string list \<Rightarrow> u8 option" where
  "read_sysfs_u8 fs path =
     Option.bind (fs_read_to_string fs path) (\<lambda>content.
     Option.bind (parse_u32 (trim_ascii content)) (\<lambda>n.
     if n < 256 then Some (of_nat n) else None))"

function usb_id_upwards :: "file_system \<Rightarrow> string list \<Rightarrow> usb_device_id option" where
  "usb_id_upwards fs dir =
     (let busnum = dir @ [''busnum'']; devnum = dir @ [''devnum'']
      in if fs_is_file fs busnum \<and> fs_is_file fs devnum then
           Option.bind (read_sysfs_u8 fs busnum) (\<lambda>bus.
           Option.bind (read_sysfs_u8 fs devnum) (\<lambda>address.
           Some \<lparr>usb_bus = bus, usb_address = address\<rparr>))
         else if dir = [] then None
         else usb_id_upwards fs (butlast dir))"
  by pat_completeness auto
termination by (relation "measure (\<lambda>(fs, dir). length dir)") auto

declare usb_id_upwards.simps [simp del]

definition usb_id_from_hidraw :: "file_system \<Rightarrow> string \<Rightarrow> usb_device_id option" where
  "usb_id_from_hidraw fs path =
     Option.bind (path_file_name path) (\<lambda>name.
     Option.bind (fs_canonicalize fs [''sys'', ''class'', ''hidraw'', name, ''device'']) (usb_id_upwards fs))"

section \<open>HID devices\<close>

text \<open>What hidapi tells of a device; the virtual device is not modelled.\<close>

record hid_device =
  hd_path :: string
  hd_usage_page :: u16
  hd_usage :: u16
  hd_manufacturer :: "string option"
  hd_product :: "string option"
  hd_release :: u16

definition hid_usb_device_id :: "file_system \<Rightarrow> hid_device \<Rightarrow> usb_device_id option" where
  "hid_usb_device_id fs d = usb_id_from_hidraw fs (hd_path d)"

definition hid_device_display :: "hid_device \<Rightarrow> string" where
  "hid_device_display d =
     (let manufacturer = (case hd_manufacturer d of None \<Rightarrow> [] | Some s \<Rightarrow> s);
          product = (case hd_product d of None \<Rightarrow> [] | Some s \<Rightarrow> s);
          name = manufacturer @ '' '' @ product
      in trim_ascii name @ '' (r'' @ digits (unat (hd_release d)) @ '')'')"

text \<open>\<open>api\<close> is the enumeration of hidapi, \<open>None\<close> when the library cannot be initialised.\<close>

definition hid_list_devices :: "hid_device list option \<Rightarrow> hid_error + hid_device list" where
  "hid_list_devices api =
     result_bind (ok_or He_ApiInit api) (\<lambda>devices.
     Inr (filter (\<lambda>d. hd_usage d = 0x0001) (filter (\<lambda>d. hd_usage_page d = 0xF1D0) devices)))"

section \<open>NFC readers\<close>

text \<open>
  The operations of the two libraries on the state of the readers: \<open>False\<close> and \<open>None\<close> are failures.
  A target is the length of its identifier, when it is an ISO 14443 A target.
\<close>

type_synonym nfc_target = "nat option"

record 'w libnfc =
  ln_context :: "'w \<Rightarrow> bool \<times> 'w"
  ln_list_devices :: "nat \<Rightarrow> 'w \<Rightarrow> string list option \<times> 'w"
  ln_open :: "string \<Rightarrow> 'w \<Rightarrow> bool \<times> 'w"
  ln_initiator_init :: "'w \<Rightarrow> bool \<times> 'w"
  ln_set_infinite_select :: "bool \<Rightarrow> 'w \<Rightarrow> bool \<times> 'w"
  ln_information :: "'w \<Rightarrow> bool \<times> 'w"
  ln_baud_rates :: "'w \<Rightarrow> nat list option \<times> 'w"
  ln_select_target :: "nat \<Rightarrow> 'w \<Rightarrow> nfc_target option \<times> 'w"
  ln_deselect :: "'w \<Rightarrow> bool \<times> 'w"
  ln_transceive :: "bytes \<Rightarrow> nat \<Rightarrow> 'w \<Rightarrow> bytes option \<times> 'w"
  ln_close :: "'w \<Rightarrow> 'w"

record 'w pcsc =
  ps_establish :: "'w \<Rightarrow> bool \<times> 'w"
  ps_list_readers_len :: "'w \<Rightarrow> nat option \<times> 'w"
  ps_list_readers :: "nat \<Rightarrow> 'w \<Rightarrow> string list option \<times> 'w"
  ps_connect_shared :: "string \<Rightarrow> 'w \<Rightarrow> bool \<times> 'w"
  ps_connect_direct :: "string \<Rightarrow> 'w \<Rightarrow> bool \<times> 'w"
  ps_channel_id :: "'w \<Rightarrow> bytes option \<times> 'w"
  ps_disconnect_leave :: "'w \<Rightarrow> bool \<times> 'w"
  ps_disconnect_unpower :: "'w \<Rightarrow> 'w"
  ps_transmit :: "bytes \<Rightarrow> bytes \<Rightarrow> 'w \<Rightarrow> bytes option \<times> bytes \<times> 'w"

definition on_reader :: "('w \<Rightarrow> bool \<times> 'w) \<Rightarrow> ('w, nfc_error, unit) action" where
  "on_reader f w = (case f w of (ok, w) \<Rightarrow> Some (if ok then Inr () else Inl Nf_Backend, w))"

definition on_reader_get :: "('w \<Rightarrow> 'a option \<times> 'w) \<Rightarrow> ('w, nfc_error, 'a) action" where
  "on_reader_get f w = (case f w of (x, w) \<Rightarrow> Some (ok_or Nf_Backend x, w))"

subsection \<open>libnfc\<close>

definition MAX_NFC_DEVICES :: nat where "MAX_NFC_DEVICES = 10"

definition libnfc_select_target :: "'w libnfc \<Rightarrow> nat \<Rightarrow> ('w, nfc_error, nfc_target) action" where
  "libnfc_select_target ln rate =
     act_bind (on_reader_get (ln_select_target ln rate)) (\<lambda>target.
     case target of
       Some uid_len \<Rightarrow> if 0 < uid_len then act_return target else act_fail Nf_Backend
     | None \<Rightarrow> act_fail Nf_Backend)"

fun libnfc_try_rates :: "'w libnfc \<Rightarrow> nat list \<Rightarrow> ('w, nfc_error, nfc_target option) action" where
  "libnfc_try_rates ln [] = act_return None"
| "libnfc_try_rates ln (rate # rates) =
     act_bind (on_reader (ln_deselect ln)) (\<lambda>_.
     act_bind (on_reader (ln_initiator_init ln)) (\<lambda>_.
     act_try (libnfc_select_target ln rate) (\<lambda>r.
     case r of
       Inr target \<Rightarrow> act_return (Some target)
     | Inl _ \<Rightarrow> libnfc_try_rates ln rates)))"

text \<open>The loop of \<^verbatim>\<open>connect_to_target\<close>: the argument counts the turns that are left.\<close>

fun libnfc_poll :: "'w libnfc \<Rightarrow> nat list \<Rightarrow> nat \<Rightarrow> ('w, nfc_error, nfc_target) action" where
  "libnfc_poll ln rates 0 = act_fail Nf_NoTarget"
| "libnfc_poll ln rates (Suc n) =
     act_try (libnfc_select_target ln (last rates)) (\<lambda>r.
     case r of
       Inl _ \<Rightarrow> libnfc_poll ln rates n
     | Inr target \<Rightarrow>
         if length rates = 1 then act_return target
         else act_bind (libnfc_try_rates ln rates) (\<lambda>found.
           case found of Some target \<Rightarrow> act_return target | None \<Rightarrow> libnfc_poll ln rates n))"

definition libnfc_connect_to_target :: "'w libnfc \<Rightarrow> ('w, nfc_error, nfc_target) action" where
  "libnfc_connect_to_target ln =
     act_bind (on_reader_get (ln_baud_rates ln)) (\<lambda>rates.
     if rates = [] then act_fail Nf_NoTarget else libnfc_poll ln rates 2)"

text \<open>The device is closed when it is dropped, as on each early return.\<close>

definition libnfc_open :: "'w libnfc \<Rightarrow> string \<Rightarrow> ('w, nfc_error, unit) action" where
  "libnfc_open ln connstring =
     act_bind (on_reader (ln_context ln)) (\<lambda>_.
     act_bind (on_reader (ln_open ln connstring)) (\<lambda>_.
     act_try
       (act_bind (on_reader (ln_initiator_init ln)) (\<lambda>_.
        act_bind (on_reader (ln_set_infinite_select ln False)) (\<lambda>_.
        act_bind (on_reader (ln_information ln)) (\<lambda>_.
        libnfc_connect_to_target ln))))
       (\<lambda>r. case r of
          Inr _ \<Rightarrow> act_return ()
        | Inl e \<Rightarrow> act_bind (act_modify (ln_close ln)) (\<lambda>_. act_fail e))))"

definition libnfc_backend :: "'w libnfc \<Rightarrow> 'w nfc_backend" where
  "libnfc_backend ln = \<lparr>nb_handle = (\<lambda>command response w.
     case ln_transceive ln command (length response) w of
       (None, w) \<Rightarrow> (Inl Nf_Backend, response, w)
     | (Some rapdu, w) \<Rightarrow>
         if length response < length rapdu then (Inl (Nf_BufferOverflow (length rapdu)), response, w)
         else (Inr (length rapdu), rapdu @ drop (length rapdu) response, w))\<rparr>"

definition libnfc_list_devices :: "'w libnfc \<Rightarrow> ('w, nfc_error, string list) action" where
  "libnfc_list_devices ln =
     act_bind (on_reader (ln_context ln)) (\<lambda>_. on_reader_get (ln_list_devices ln MAX_NFC_DEVICES))"

definition libnfc_is_available :: "'w libnfc \<Rightarrow> ('w, nfc_error, bool) action" where
  "libnfc_is_available ln =
     act_try (on_reader (ln_context ln)) (\<lambda>context.
     case context of
       Inl _ \<Rightarrow> act_return False
     | Inr _ \<Rightarrow> act_try (on_reader_get (ln_list_devices ln 1)) (\<lambda>devices.
         act_return (0 < (case devices of Inl _ \<Rightarrow> 0 | Inr ds \<Rightarrow> length ds))))"

subsection \<open>PC/SC\<close>

definition pcsc_open :: "'w pcsc \<Rightarrow> string \<Rightarrow> ('w, nfc_error, unit) action" where
  "pcsc_open ps name =
     act_bind (on_reader (ps_establish ps)) (\<lambda>_. on_reader (ps_connect_shared ps name))"

definition pcsc_backend :: "'w pcsc \<Rightarrow> 'w nfc_backend" where
  "pcsc_backend ps = \<lparr>nb_handle = (\<lambda>command response w.
     case ps_transmit ps command response w of
       (None, response, w) \<Rightarrow> (Inl Nf_Backend, response, w)
     | (Some rapdu, response, w) \<Rightarrow> (Inr (length rapdu), response, w))\<rparr>"

definition pcsc_list_devices :: "'w pcsc \<Rightarrow> ('w, nfc_error, string list) action" where
  "pcsc_list_devices ps =
     act_bind (on_reader (ps_establish ps)) (\<lambda>_.
     act_bind (on_reader_get (ps_list_readers_len ps)) (\<lambda>len.
     if len = 0 then act_fail Nf_NoReader
     else on_reader_get (ps_list_readers ps len)))"

definition pcsc_is_available :: "'w pcsc \<Rightarrow> ('w, nfc_error, bool) action" where
  "pcsc_is_available ps =
     act_try (on_reader (ps_establish ps)) (\<lambda>context.
     case context of
       Inl _ \<Rightarrow> act_return False
     | Inr _ \<Rightarrow> act_try (on_reader_get (ps_list_readers_len ps)) (\<lambda>len.
         act_return (0 < (case len of Inl _ \<Rightarrow> 0 | Inr n \<Rightarrow> n))))"

text \<open>\<^verbatim>\<open>usb_id_from_reader\<close>: whatever goes wrong, there is no identifier; the card is always released.\<close>

definition pcsc_usb_device_id :: "bool \<Rightarrow> 'w pcsc \<Rightarrow> string \<Rightarrow> 'w \<Rightarrow> usb_device_id option \<times> 'w" where
  "pcsc_usb_device_id big_endian ps name w =
     (case ps_establish ps w of
        (False, w) \<Rightarrow> (None, w)
      | (True, w) \<Rightarrow>
          (case ps_connect_direct ps name w of
             (False, w) \<Rightarrow> (None, w)
           | (True, w) \<Rightarrow>
               (case ps_channel_id ps w of
                  (attr, w) \<Rightarrow>
                    let i = (case Option.bind attr (\<lambda>attr. slice_upto attr 4) of
                        Some [a, b, c, d] \<Rightarrow> usb_from_channel_id_bytes big_endian a b c d
                      | _ \<Rightarrow> None)
                    in case ps_disconnect_leave ps w of (_, w) \<Rightarrow> (i, w))))"

subsection \<open>Devices\<close>

datatype nfc_device = Nd_LibNfc string | Nd_Pcsc string

text \<open>The backends that are compiled in.\<close>

record 'w nfc_host =
  nh_libnfc :: "'w libnfc option"
  nh_pcsc :: "'w pcsc option"
  nh_big_endian :: bool

text \<open>Opening a device of a backend, its transmission, and dropping its channel.\<close>

definition nfc_open :: "'w nfc_host \<Rightarrow> nfc_device \<Rightarrow> ('w, nfc_error, 'w nfc_backend \<times> ('w \<Rightarrow> 'w)) action" where
  "nfc_open h dev =
     (case dev of
        Nd_LibNfc connstring \<Rightarrow>
          (case nh_libnfc h of
             None \<Rightarrow> act_fail Nf_Backend
           | Some ln \<Rightarrow> act_bind (libnfc_open ln connstring) (\<lambda>_. act_return (libnfc_backend ln, ln_close ln)))
      | Nd_Pcsc name \<Rightarrow>
          (case nh_pcsc h of
             None \<Rightarrow> act_fail Nf_Backend
           | Some ps \<Rightarrow> act_bind (pcsc_open ps name) (\<lambda>_. act_return (pcsc_backend ps, ps_disconnect_unpower ps))))"

definition nfc_usb_device_id :: "'w nfc_host \<Rightarrow> nfc_device \<Rightarrow> 'w \<Rightarrow> usb_device_id option \<times> 'w" where
  "nfc_usb_device_id h dev w =
     (case (dev, nh_pcsc h) of
        (Nd_Pcsc name, Some ps) \<Rightarrow> pcsc_usb_device_id (nh_big_endian h) ps name w
      | _ \<Rightarrow> (None, w))"

text \<open>
  \<^verbatim>\<open>channel_sync\<close>: the channel with the state of the reader, its transmission, and what dropping it does.
\<close>

definition nfc_device_channel :: "'w nfc_host \<Rightarrow> apdu_lib \<Rightarrow> (bytes \<Rightarrow> get_info_response option) \<Rightarrow> nfc_device
    \<Rightarrow> ('w, nfc_error webauthn_error, 'w nfc_channel \<times> 'w nfc_backend \<times> ('w \<Rightarrow> 'w)) action" where
  "nfc_device_channel h lib decode dev w =
     (case nfc_open h dev w of
        None \<Rightarrow> None
      | Some (Inl e, w) \<Rightarrow> Some (Inl (We_Transport e), w)
      | Some (Inr (nb, drop_it), w) \<Rightarrow>
          (case nfc_select_fido2 lib nb decode (nfc_channel_new w) of
             None \<Rightarrow> None
           | Some (Inl e, c) \<Rightarrow> Some (Inl (We_Transport e), drop_it (nc_delegate c))
           | Some (Inr _, c) \<Rightarrow> Some (Inr (c, nb, drop_it), nc_delegate c)))"

definition nfc_is_fido :: "'w nfc_host \<Rightarrow> apdu_lib \<Rightarrow> (bytes \<Rightarrow> get_info_response option) \<Rightarrow> nfc_device
    \<Rightarrow> ('w, nfc_error webauthn_error, bool) action" where
  "nfc_is_fido h lib decode dev =
     act_try
       (act_bind (nfc_device_channel h lib decode dev) (\<lambda>(chan, nb, drop_it).
        act_bind (act_modify drop_it) (\<lambda>_.
        let protocols = nc_supported chan in act_return (fst protocols \<or> snd protocols))))
       (\<lambda>r. act_return (case r of Inl _ \<Rightarrow> False | Inr _ \<Rightarrow> True))"

definition nfc_listers :: "'w nfc_host \<Rightarrow> ('w, nfc_error, nfc_device list) action list" where
  "nfc_listers h =
     (case nh_libnfc h of
        None \<Rightarrow> [] | Some ln \<Rightarrow> [act_bind (libnfc_list_devices ln) (\<lambda>ds. act_return (map Nd_LibNfc ds))])
     @ (case nh_pcsc h of
        None \<Rightarrow> [] | Some ps \<Rightarrow> [act_bind (pcsc_list_devices ps) (\<lambda>ds. act_return (map Nd_Pcsc ds))])"

fun first_fido_device :: "'w nfc_host \<Rightarrow> apdu_lib \<Rightarrow> (bytes \<Rightarrow> get_info_response option) \<Rightarrow> nfc_device list
    \<Rightarrow> ('w, nfc_error webauthn_error, nfc_device option) action" where
  "first_fido_device h lib decode [] = act_return None"
| "first_fido_device h lib decode (dev # devs) =
     act_bind (nfc_is_fido h lib decode dev) (\<lambda>fido.
     if fido then act_return (Some dev) else first_fido_device h lib decode devs)"

fun first_in_backends :: "'w nfc_host \<Rightarrow> apdu_lib \<Rightarrow> (bytes \<Rightarrow> get_info_response option)
    \<Rightarrow> ('w, nfc_error, nfc_device list) action list \<Rightarrow> ('w, nfc_error webauthn_error, nfc_device option) action" where
  "first_in_backends h lib decode [] = act_return None"
| "first_in_backends h lib decode (lister # listers) =
     act_bind (act_map_err We_Transport lister) (\<lambda>devices.
     act_bind (first_fido_device h lib decode devices) (\<lambda>found.
     case found of
       Some dev \<Rightarrow> act_return (Some dev)
     | None \<Rightarrow> first_in_backends h lib decode listers))"

definition get_nfc_device :: "'w nfc_host \<Rightarrow> apdu_lib \<Rightarrow> (bytes \<Rightarrow> get_info_response option)
    \<Rightarrow> ('w, nfc_error webauthn_error, nfc_device option) action" where
  "get_nfc_device h lib decode = first_in_backends h lib decode (nfc_listers h)"

fun nfc_collect_devices :: "('w, nfc_error, nfc_device list) action list \<Rightarrow> ('w, nfc_error, nfc_device list) action" where
  "nfc_collect_devices [] = act_return []"
| "nfc_collect_devices (lister # listers) =
     act_try lister (\<lambda>found.
     act_bind (nfc_collect_devices listers) (\<lambda>devices.
     act_return ((case found of Inl _ \<Rightarrow> [] | Inr ds \<Rightarrow> ds) @ devices)))"

definition nfc_list_devices :: "'w nfc_host \<Rightarrow> ('w, nfc_error, nfc_device list) action" where
  "nfc_list_devices h = nfc_collect_devices (nfc_listers h)"

definition is_nfc_available :: "'w nfc_host \<Rightarrow> ('w, nfc_error, bool) action" where
  "is_nfc_available h =
     act_bind (case nh_libnfc h of None \<Rightarrow> act_return False | Some ln \<Rightarrow> libnfc_is_available ln) (\<lambda>libnfc.
     act_bind (case nh_pcsc h of None \<Rightarrow> act_return False | Some ps \<Rightarrow> pcsc_is_available ps) (\<lambda>pcsc.
     act_return (libnfc \<or> pcsc)))"

definition dedup_keep_mask :: "usb_device_id option list \<Rightarrow> usb_device_id list \<Rightarrow> bool list" where
  "dedup_keep_mask nfc_ids hid_ids =
     map (\<lambda>i. case i of Some i \<Rightarrow> i \<notin> set hid_ids | None \<Rightarrow> True) nfc_ids"

fun nfc_usb_device_ids :: "'w nfc_host \<Rightarrow> nfc_device list \<Rightarrow> 'w \<Rightarrow> usb_device_id option list \<times> 'w" where
  "nfc_usb_device_ids h [] w = ([], w)"
| "nfc_usb_device_ids h (dev # devs) w =
     (case nfc_usb_device_id h dev w of
        (i, w) \<Rightarrow> (case nfc_usb_device_ids h devs w of (ids, w) \<Rightarrow> (i # ids, w)))"

definition without_hid_duplicates :: "file_system \<Rightarrow> 'w nfc_host \<Rightarrow> nfc_device list \<Rightarrow> hid_device list
    \<Rightarrow> 'w \<Rightarrow> nfc_device list \<times> 'w" where
  "without_hid_duplicates fs h devices hid w =
     (let hid_ids = List.map_filter (hid_usb_device_id fs) hid
      in case nfc_usb_device_ids h devices w of
           (nfc_ids, w) \<Rightarrow> (map fst (filter snd (zip devices (dedup_keep_mask nfc_ids hid_ids))), w))"

section \<open>BLE devices\<close>

text \<open>
  btleplug: adapters and peripherals are handles; the properties of a peripheral may be absent, or
  fail to be read.  An event of a scan is the service data of a peripheral, or another event.
\<close>

record ble_properties =
  bpr_address :: bytes
  bpr_local_name :: "string option"
  bpr_services :: "string list"

datatype central_event = Ev_ServiceData string "string \<rightharpoonup> bytes" | Ev_Other

record 'w ble_host =
  bh_manager :: "'w \<Rightarrow> bool \<times> 'w"
  bh_adapters :: "'w \<Rightarrow> nat list option \<times> 'w"
  bh_start_scan :: "nat \<Rightarrow> string list \<Rightarrow> 'w \<Rightarrow> bool \<times> 'w"
  bh_stop_scan :: "nat \<Rightarrow> 'w \<Rightarrow> bool \<times> 'w"
  bh_sleep :: "'w \<Rightarrow> 'w"
  bh_peripherals :: "nat \<Rightarrow> 'w \<Rightarrow> string list option \<times> 'w"
  bh_peripheral :: "nat \<Rightarrow> string \<Rightarrow> bool"
  bh_properties :: "string \<Rightarrow> 'w \<Rightarrow> ble_properties option option \<times> 'w"

definition FIDO_PROFILE_UUID :: string where
  "FIDO_PROFILE_UUID = ''0000fffd-0000-1000-8000-00805f9b34fb''"

definition ble_get_adapter :: "'w ble_host \<Rightarrow> ('w, gatt_error, nat) action" where
  "ble_get_adapter bh =
     act_bind (on_gatt Gatt_Unavailable (bh_manager bh)) (\<lambda>_.
     act_bind (on_gatt_read Gatt_Unavailable (bh_adapters bh)) (\<lambda>adapters.
     act_lift (ok_or Gatt_PoweredOff (case adapters of [] \<Rightarrow> None | a # _ \<Rightarrow> Some a))))"

definition ble_is_available :: "'w ble_host \<Rightarrow> ('w, gatt_error, bool) action" where
  "ble_is_available bh =
     act_try (ble_get_adapter bh) (\<lambda>r. act_return (case r of Inl _ \<Rightarrow> False | Inr _ \<Rightarrow> True))"

fun ble_discover_properties :: "'w ble_host \<Rightarrow> string list
    \<Rightarrow> ('w, gatt_error, (string \<times> ble_properties) list) action" where
  "ble_discover_properties bh [] = act_return []"
| "ble_discover_properties bh (peripheral # peripherals) =
     act_bind (on_gatt_read Gatt_ConnectionFailed (bh_properties bh peripheral)) (\<lambda>properties.
     act_bind (ble_discover_properties bh peripherals) (\<lambda>result.
     act_return (case properties of None \<Rightarrow> result | Some p \<Rightarrow> (peripheral, p) # result)))"

definition list_fido_devices :: "'w ble_host \<Rightarrow> ('w, gatt_error, (string \<times> ble_properties) list) action" where
  "list_fido_devices bh =
     act_bind (ble_get_adapter bh) (\<lambda>adapter.
     act_bind (on_gatt Gatt_ConnectionFailed (bh_start_scan bh adapter [FIDO_PROFILE_UUID])) (\<lambda>_.
     act_bind (act_modify (bh_sleep bh)) (\<lambda>_.
     act_bind (act_modify (\<lambda>w. snd (bh_stop_scan bh adapter w))) (\<lambda>_.
     act_bind (on_gatt_read Gatt_ConnectionFailed (bh_peripherals bh adapter)) (\<lambda>peripherals.
     act_bind (ble_discover_properties bh peripherals) (\<lambda>found.
     act_return (filter (\<lambda>(_, p). FIDO_PROFILE_UUID \<in> set (bpr_services p)) found)))))))"

definition ble_get_device :: "'w ble_host \<Rightarrow> string \<Rightarrow> ('w, gatt_error, (string \<times> ble_properties) option) action" where
  "ble_get_device bh peripheral =
     act_bind (on_gatt_read Gatt_ConnectionFailed (bh_properties bh peripheral)) (\<lambda>properties.
     act_return (map_option (Pair peripheral) properties))"

fun on_peripheral_service_data :: "'w ble_host \<Rightarrow> nat \<Rightarrow> string \<Rightarrow> string list \<Rightarrow> (string \<rightharpoonup> bytes)
    \<Rightarrow> (nat \<times> string \<times> bytes) option" where
  "on_peripheral_service_data bh adapter i [] service_data = None"
| "on_peripheral_service_data bh adapter i (uuid # uuids) service_data =
     (case service_data uuid of
        None \<Rightarrow> on_peripheral_service_data bh adapter i uuids service_data
      | Some data \<Rightarrow> if bh_peripheral bh adapter i then Some (adapter, i, data) else None)"

text \<open>The stream of a scan over the events that arrive.\<close>

definition discovery_for_service_data :: "'w ble_host \<Rightarrow> (nat \<Rightarrow> 'w \<Rightarrow> central_event list option \<times> 'w) \<Rightarrow> string list
    \<Rightarrow> ('w, gatt_error, (nat \<times> string \<times> bytes) list) action" where
  "discovery_for_service_data bh events uuids =
     act_bind (ble_get_adapter bh) (\<lambda>adapter.
     act_bind (on_gatt_read Gatt_Unavailable (events adapter)) (\<lambda>stream.
     act_bind (on_gatt Gatt_ConnectionFailed (bh_start_scan bh adapter [])) (\<lambda>_.
     act_return (List.map_filter (\<lambda>event.
       case event of
         Ev_ServiceData i service_data \<Rightarrow> on_peripheral_service_data bh adapter i uuids service_data
       | Ev_Other \<Rightarrow> None) stream))))"

record ble_device =
  bd_device :: "string \<times> ble_properties"
  bd_revisions :: "supported_revisions option"

definition ble_list_devices :: "'w ble_host \<Rightarrow> ('w, ble_error, ble_device list) action" where
  "ble_list_devices bh =
     act_bind (act_map_err Be_Gatt (list_fido_devices bh)) (\<lambda>devices.
     act_return (map (\<lambda>d. \<lparr>bd_device = d, bd_revisions = None\<rparr>) devices))"

definition ble_device_alias :: "ble_device \<Rightarrow> string" where
  "ble_device_alias d =
     (case bpr_local_name (snd (bd_device d)) of
        Some local_name \<Rightarrow> local_name
      | None \<Rightarrow> hex_encode (bpr_address (snd (bd_device d))))"

section \<open>The transports available\<close>

definition available_transports :: "'w ble_host \<Rightarrow> 'w nfc_host \<Rightarrow> ('w, gatt_error, transport list) action" where
  "available_transports bh h =
     act_bind (ble_is_available bh) (\<lambda>ble.
     act_try (is_nfc_available h) (\<lambda>nfc.
     act_return ([Tr_Usb] @ (if ble then [Tr_Ble, Tr_Hybrid] else [])
       @ (case nfc of Inr True \<Rightarrow> [Tr_Nfc] | _ \<Rightarrow> []))))"

section \<open>Properties\<close>

lemma u32_bytes:
  "(ucast (drop_bit 24 (u32_of_be a b c d)) :: u8) = a" "(ucast (drop_bit 16 (u32_of_be a b c d)) :: u8) = b"
  "(ucast (drop_bit 8 (u32_of_be a b c d)) :: u8) = c" "(ucast (u32_of_be a b c d) :: u8) = d"
  using be_u32_of_be [of a b c d] by (simp_all add: be_u32_def)

lemma u32_swap_of_be: "u32_swap_bytes (u32_of_be a b c d) = u32_of_be d c b a"
  by (simp add: u32_swap_bytes_def u32_bytes)

lemma usb_from_channel_id_bits:
  "usb_from_channel_id (u32_of_be a b c d) = (if a = 0 \<and> b = 0x20 then Some \<lparr>usb_bus = c, usb_address = d\<rparr> else None)"
proof -
  have "drop_bit 16 (u32_of_be a b c d) = ucast (u16_of_be a b)"
    by (rule bit_word_eqI) (auto simp: u32_of_be_def u16_of_be_def bit_simps dest: bit_imp_le_length)
  moreover have "(ucast (u16_of_be a b) :: u32) = 0x20 \<longleftrightarrow> a = 0 \<and> b = 0x20"
  proof
    assume "(ucast (u16_of_be a b) :: u32) = 0x20"
    then have "(ucast (ucast (u16_of_be a b) :: u32) :: u16) = 0x20" by simp
    moreover have "(ucast (ucast (u16_of_be a b) :: u32) :: u16) = u16_of_be a b"
      by (rule bit_word_eqI) (simp add: bit_simps)
    ultimately have "be_u16 (u16_of_be a b) = be_u16 0x20" by simp
    then show "a = 0 \<and> b = 0x20" unfolding be_u16_of_be by (simp add: be_u16_def)
  qed (simp add: u16_of_be_def)
  moreover have "(ucast (drop_bit 8 (w AND mask 16)) :: u8) = ucast (drop_bit 8 w)"
      "(ucast (w AND mask 8) :: u8) = ucast w" for w :: u32
    by (rule bit_word_eqI, auto simp: bit_simps)+
  then have "(ucast (drop_bit 8 (u32_of_be a b c d AND mask 16)) :: u8) = c" "(ucast (u32_of_be a b c d AND mask 8) :: u8) = d"
    by (simp_all only: u32_bytes)
  moreover have "mask 16 = (0xffff :: u32)" "mask 8 = (0xff :: u32)" by (simp_all add: mask_eq_exp_minus_1)
  ultimately show ?thesis by (auto simp: usb_from_channel_id_def)
qed

text \<open>
  The identifier that PC/SC gives is read on a host of either byte order, and written in either byte order.
\<close>

theorem usb_id_either_byte_order:
  "usb_from_channel_id_bytes big_endian a b c d =
     (if a = 0 \<and> b = 0x20 then Some \<lparr>usb_bus = c, usb_address = d\<rparr>
      else if d = 0 \<and> c = 0x20 then Some \<lparr>usb_bus = b, usb_address = a\<rparr>
      else None)"
  by (auto simp: usb_from_channel_id_bytes_def u32_from_ne_bytes_def u32_swap_of_be usb_from_channel_id_bits Let_def)

text \<open>The directories from a directory up to the root.\<close>

definition upwards :: "string list \<Rightarrow> string list list" where
  "upwards dir = map (\<lambda>n. take n dir) (List.rev [0..<Suc (length dir)])"

text \<open>
  The USB device of a node is given by the nearest directory above it that has both files; when one of
  them does not hold a byte there is no identifier, even if a directory further up has both.
\<close>

theorem usb_id_upwards_nearest:
  "usb_id_upwards fs dir =
     (case find (\<lambda>d. fs_is_file fs (d @ [''busnum'']) \<and> fs_is_file fs (d @ [''devnum''])) (upwards dir) of
        None \<Rightarrow> None
      | Some d \<Rightarrow> Option.bind (read_sysfs_u8 fs (d @ [''busnum''])) (\<lambda>bus.
          Option.bind (read_sysfs_u8 fs (d @ [''devnum''])) (\<lambda>address.
          Some \<lparr>usb_bus = bus, usb_address = address\<rparr>)))"
proof (induction dir rule: rev_induct)
  case Nil
  then show ?case by (simp add: usb_id_upwards.simps upwards_def Let_def)
next
  case (snoc x dir)
  have "upwards (dir @ [x]) = (dir @ [x]) # upwards dir"
    by (simp add: upwards_def)
  then show ?case
    using snoc by (subst usb_id_upwards.simps) (simp add: Let_def)
qed

text \<open>
  A reader is left out exactly when it is known to be the USB device of a HID key; the order is kept.
\<close>

theorem without_hid_duplicates_keeps:
  assumes "\<And>dev w. nfc_usb_device_id h dev w = (known dev, w)"
  shows "without_hid_duplicates fs h devices hid w
    = (filter (\<lambda>dev. \<forall>i. known dev = Some i \<longrightarrow> (\<forall>d\<in>set hid. hid_usb_device_id fs d \<noteq> Some i)) devices, w)"
proof -
  have ids: "nfc_usb_device_ids h devices w = (map known devices, w)"
    by (induction devices) (simp_all add: assms)
  have hid_ids: "i \<in> set (List.map_filter (hid_usb_device_id fs) hid) \<longleftrightarrow> (\<exists>d\<in>set hid. hid_usb_device_id fs d = Some i)" for i
    by (force simp: List.map_filter_def)
  have "map fst (filter snd (zip devices (map f devices))) = filter f devices" for f :: "nfc_device \<Rightarrow> bool"
    by (induction devices) simp_all
  from this [of "\<lambda>dev. case known dev of Some i \<Rightarrow> i \<notin> set (List.map_filter (hid_usb_device_id fs) hid) | None \<Rightarrow> True"]
  show ?thesis
    unfolding without_hid_duplicates_def ids dedup_keep_mask_def
    by (simp add: comp_def hid_ids) (rule filter_cong, auto simp: hid_ids split: option.splits)
qed

text \<open>What polling selects and how often: each turn of a rate selects once.\<close>

definition polls_counted :: "'w libnfc \<Rightarrow> ('w \<Rightarrow> nat) \<Rightarrow> bool" where
  "polls_counted ln polls \<longleftrightarrow>
     (\<forall>rate w. polls (snd (ln_select_target ln rate w)) \<le> Suc (polls w))
     \<and> (\<forall>w. polls (snd (ln_deselect ln w)) \<le> polls w)
     \<and> (\<forall>w. polls (snd (ln_initiator_init ln w)) \<le> polls w)
     \<and> (\<forall>w. polls (snd (ln_baud_rates ln w)) \<le> polls w)"

definition polls_within :: "('w \<Rightarrow> nat) \<Rightarrow> nat \<Rightarrow> ('w, nfc_error, 'a) action \<Rightarrow> ('a \<Rightarrow> bool) \<Rightarrow> bool" where
  "polls_within polls n m ok \<longleftrightarrow>
     (\<forall>w. \<exists>r w'. m w = Some (r, w') \<and> polls w' \<le> polls w + n \<and> (\<forall>x. r = Inr x \<longrightarrow> ok x))"

lemma polls_bind:
  assumes "polls_within polls k m ok1" "\<And>x. ok1 x \<Longrightarrow> polls_within polls l (f x) ok2"
  shows "polls_within polls (k + l) (act_bind m f) ok2"
  unfolding polls_within_def
proof
  fix w
  obtain r w1 where m: "m w = Some (r, w1)" "polls w1 \<le> polls w + k" "\<forall>x. r = Inr x \<longrightarrow> ok1 x"
    using assms(1) unfolding polls_within_def by meson
  show "\<exists>r w'. act_bind m f w = Some (r, w') \<and> polls w' \<le> polls w + (k + l) \<and> (\<forall>x. r = Inr x \<longrightarrow> ok2 x)"
  proof (cases r)
    case (Inl e)
    then show ?thesis using m by (simp add: act_bind_def)
  next
    case (Inr x)
    then have "polls_within polls l (f x) ok2" using assms(2) m(3) by simp
    then obtain r' w2 where "f x w1 = Some (r', w2)" "polls w2 \<le> polls w1 + l" "\<forall>x. r' = Inr x \<longrightarrow> ok2 x"
      unfolding polls_within_def by meson
    then show ?thesis using m Inr by (simp add: act_bind_def)
  qed
qed

lemma polls_try:
  assumes "polls_within polls k m ok1" "\<And>e. polls_within polls l (f (Inl e)) ok2"
    and "\<And>x. ok1 x \<Longrightarrow> polls_within polls l (f (Inr x)) ok2"
  shows "polls_within polls (k + l) (act_try m f) ok2"
  unfolding polls_within_def
proof
  fix w
  obtain r w1 where m: "m w = Some (r, w1)" "polls w1 \<le> polls w + k" "\<forall>x. r = Inr x \<longrightarrow> ok1 x"
    using assms(1) unfolding polls_within_def by meson
  then have "polls_within polls l (f r) ok2" using assms(2,3) by (cases r) auto
  then obtain r' w2 where "f r w1 = Some (r', w2)" "polls w2 \<le> polls w1 + l" "\<forall>x. r' = Inr x \<longrightarrow> ok2 x"
    unfolding polls_within_def by meson
  then show "\<exists>r w'. act_try m f w = Some (r, w') \<and> polls w' \<le> polls w + (k + l) \<and> (\<forall>x. r = Inr x \<longrightarrow> ok2 x)"
    using m by (simp add: act_try_def)
qed

lemma polls_done:
  "ok x \<Longrightarrow> polls_within polls n (act_return x) ok"
  "polls_within polls n (act_fail e) ok"
  by (simp_all add: polls_within_def act_run)

lemma polls_weaken: "polls_within polls k m ok \<Longrightarrow> k \<le> n \<Longrightarrow> polls_within polls n m ok"
  unfolding polls_within_def by (meson add_left_mono le_trans)

lemma polls_steps:
  assumes "polls_counted ln polls"
  shows "polls_within polls 0 (on_reader (ln_deselect ln)) (\<lambda>_. True)"
    and "polls_within polls 0 (on_reader (ln_initiator_init ln)) (\<lambda>_. True)"
    and "polls_within polls 1 (on_reader_get (ln_select_target ln rate)) (\<lambda>_. True)"
  using assms
  by (auto simp: polls_counted_def polls_within_def on_reader_def on_reader_get_def split: prod.splits)
    (metis snd_conv)+

lemma polls_select:
  assumes "polls_counted ln polls"
  shows "polls_within polls 1 (libnfc_select_target ln rate) (\<lambda>t. \<exists>n>0. t = Some n)"
proof -
  have "polls_within polls (1 + 0) (libnfc_select_target ln rate) (\<lambda>t. \<exists>n>0. t = Some n)"
    unfolding libnfc_select_target_def
    by (rule polls_bind [OF polls_steps(3) [OF assms]]) (auto intro: polls_done split: option.split)
  then show ?thesis by simp
qed

lemma polls_rates:
  assumes "polls_counted ln polls"
  shows "polls_within polls (length rates) (libnfc_try_rates ln rates) (\<lambda>f. \<forall>t. f = Some t \<longrightarrow> (\<exists>n>0. t = Some n))"
proof (induction rates)
  case Nil
  show ?case by (simp add: polls_done)
next
  case (Cons rate rates)
  have "polls_within polls (0 + (0 + (1 + length rates))) (libnfc_try_rates ln (rate # rates))
      (\<lambda>f. \<forall>t. f = Some t \<longrightarrow> (\<exists>n>0. t = Some n))"
    unfolding libnfc_try_rates.simps
    by (rule polls_bind [OF polls_steps(1) [OF assms]], rule polls_bind [OF polls_steps(2) [OF assms]],
        rule polls_try [OF polls_select [OF assms]]) (auto intro: polls_done Cons.IH)
  then show ?case by simp
qed

lemma polls_loop:
  assumes "polls_counted ln polls"
  shows "polls_within polls (turns * Suc (length rates)) (libnfc_poll ln rates turns) (\<lambda>t. \<exists>n>0. t = Some n)"
proof (induction turns)
  case 0
  show ?case by (simp add: polls_done)
next
  case (Suc turns)
  let ?l = "length rates + turns * Suc (length rates)"
  have later: "polls_within polls ?l (libnfc_poll ln rates turns) (\<lambda>t. \<exists>n>0. t = Some n)"
    by (rule polls_weaken [OF Suc.IH]) simp
  have next_turn: "polls_within polls ?l (act_bind (libnfc_try_rates ln rates) (\<lambda>found.
      case found of Some target \<Rightarrow> act_return target | None \<Rightarrow> libnfc_poll ln rates turns)) (\<lambda>t. \<exists>n>0. t = Some n)"
    using Suc.IH by (intro polls_bind [OF polls_rates [OF assms]]) (auto intro: polls_done split: option.split)
  have found: "polls_within polls ?l (if length rates = 1 then act_return target
      else act_bind (libnfc_try_rates ln rates) (\<lambda>found.
        case found of Some target \<Rightarrow> act_return target | None \<Rightarrow> libnfc_poll ln rates turns)) (\<lambda>t. \<exists>n>0. t = Some n)"
    if "\<exists>n>0. target = Some n" for target :: nfc_target
    using that next_turn by (simp add: polls_done)
  have "polls_within polls (1 + ?l) (libnfc_poll ln rates (Suc turns)) (\<lambda>t. \<exists>n>0. t = Some n)"
    unfolding libnfc_poll.simps
    by (rule polls_try [OF polls_select [OF assms]]) (simp_all only: sum.case later found)
  moreover have "1 + ?l = Suc turns * Suc (length rates)" by simp
  ultimately show ?case by (simp only:)
qed

text \<open>
  Connecting to a card on a libnfc reader ends after at most two turns over the baud rates, and the
  target it answers with is an ISO 14443 A target with an identifier.
\<close>

theorem nfc_target_polls_bounded:
  assumes "polls_counted ln polls"
  shows "\<exists>r w'. libnfc_connect_to_target ln w = Some (r, w')
    \<and> polls w' \<le> polls w + 2 * (case fst (ln_baud_rates ln w) of None \<Rightarrow> 0 | Some rates \<Rightarrow> Suc (length rates))
    \<and> (\<forall>t. r = Inr t \<longrightarrow> (\<exists>n>0. t = Some n))"
proof -
  obtain rates w1 where baud: "ln_baud_rates ln w = (rates, w1)" by fastforce
  then have less: "polls w1 \<le> polls w" using assms unfolding polls_counted_def by (metis snd_conv)
  show ?thesis
  proof (cases rates)
    case None
    then show ?thesis using less
      by (simp add: libnfc_connect_to_target_def act_bind_def on_reader_get_def baud)
  next
    case (Some rs)
    show ?thesis
    proof (cases "rs = []")
      case True
      then show ?thesis using less Some
        by (simp add: libnfc_connect_to_target_def act_bind_def on_reader_get_def baud act_run)
    next
      case False
      obtain r w2 where "libnfc_poll ln rs 2 w1 = Some (r, w2)" "polls w2 \<le> polls w1 + 2 * Suc (length rs)"
          "\<forall>t. r = Inr t \<longrightarrow> (\<exists>n>0. t = Some n)"
        using polls_loop [OF assms, of 2 rs] unfolding polls_within_def by meson
      then show ?thesis using less Some False
        by (simp add: libnfc_connect_to_target_def act_bind_def on_reader_get_def baud del: libnfc_poll.simps)
    qed
  qed
qed

text \<open>
  Whether a reader is taken for a FIDO device is whether selecting the application succeeds; the
  protocols that the answer names are read and ignored.
\<close>

theorem nfc_fido_is_selected:
  assumes "nfc_device_channel h lib decode dev w = Some (r, w')"
  shows "\<exists>w''. nfc_is_fido h lib decode dev w = Some (Inr (\<exists>c. r = Inr c), w'')"
  using assms by (cases r) (auto simp: nfc_is_fido_def act_try_def act_bind_def act_run Let_def)

text \<open>On a host with PC/SC only and no reader, looking for a device is an error and not the answer that there is none.\<close>

lemma no_reader_is_error:
  assumes "nh_libnfc h = None" "nh_pcsc h = Some ps"
    and "ps_establish ps w = (True, w1)" "ps_list_readers_len ps w1 = (Some 0, w2)"
  shows "get_nfc_device h lib decode w = Some (Inl (We_Transport Nf_NoReader), w2)"
    and "nfc_list_devices h w = Some (Inr [], w2)"
  using assms
  by (simp_all add: get_nfc_device_def nfc_list_devices_def nfc_listers_def pcsc_list_devices_def on_reader_def
      on_reader_get_def act_bind_def act_try_def act_map_err_def act_run)

end
