(* ===== verification/User_Replies.thy ===== *)
theory User_Replies
  imports Session
begin

text \<open>
  How a user answers a prompt for a PIN (\<^verbatim>\<open>PinRequiredUpdate\<close> and \<^verbatim>\<open>PinNotSetUpdate\<close> of \<^verbatim>\<open>lib.rs\<close>).  Each
  subscriber of a channel gets a copy of the update; the copies share one sender (an \<^verbatim>\<open>Arc\<close>), and the
  ceremony waits for the value sent or for the last copy to be dropped.
\<close>

text \<open>The copies that are left, the value sent, and whether the ceremony still waits.\<close>

record 'pin pending_reply =
  pr_references :: nat
  pr_sent :: "'pin option"
  pr_receiver_waits :: bool

text \<open>\<^verbatim>\<open>Arc::into_inner\<close> drops a reference and gives the sender to the last one; \<^verbatim>\<open>send\<close> fails without a receiver.\<close>

definition send_pin :: "'pin \<Rightarrow> 'pin pending_reply \<Rightarrow> (string + unit) \<times> 'pin pending_reply" where
  "send_pin pin s =
     (let s' = s\<lparr>pr_references := pr_references s - 1\<rparr>
      in if pr_references s = 1 then
           if pr_receiver_waits s then (Inr (), s'\<lparr>pr_sent := Some pin\<rparr>)
           else (Inl ''Failed to send PIN'', s')
         else (Inl ''Multiple references to reply_to exist; cannot send PIN'', s'))"

definition cancel_pin :: "'pin pending_reply \<Rightarrow> 'pin pending_reply" where
  "cancel_pin s = s\<lparr>pr_references := pr_references s - 1\<rparr>"

text \<open>What the ceremony is waiting for: nothing yet, the PIN, or that the user hung up.\<close>

datatype 'pin reply_status = Rs_Pending | Rs_Answered 'pin | Rs_Cancelled

definition reply_status :: "'pin pending_reply \<Rightarrow> 'pin reply_status" where
  "reply_status s =
     (case pr_sent s of
        Some pin \<Rightarrow> Rs_Answered pin
      | None \<Rightarrow> if pr_references s = 0 then Rs_Cancelled else Rs_Pending)"

datatype 'pin subscriber_step = Ss_Send 'pin | Ss_Cancel

fun subscriber_steps :: "'pin subscriber_step list \<Rightarrow> 'pin pending_reply \<Rightarrow> 'pin pending_reply" where
  "subscriber_steps [] s = s"
| "subscriber_steps (Ss_Send pin # steps) s = subscriber_steps steps (snd (send_pin pin s))"
| "subscriber_steps (Ss_Cancel # steps) s = subscriber_steps steps (cancel_pin s)"

definition prompted :: "nat \<Rightarrow> 'pin pending_reply" where
  "prompted copies = \<lparr>pr_references = copies, pr_sent = None, pr_receiver_waits = True\<rparr>"

text \<open>
  With several subscribers only the last one to act decides: the PIN is the one it sends, and when it
  hangs up the ceremony is cancelled, even if another subscriber has sent a PIN.  Until then the
  ceremony waits.
\<close>

theorem last_subscriber_decides:
  "reply_status (subscriber_steps steps (prompted (length steps + left))) =
     (if 0 < left then Rs_Pending
      else case steps of
        [] \<Rightarrow> Rs_Cancelled
      | _ \<Rightarrow> (case last steps of Ss_Send pin \<Rightarrow> Rs_Answered pin | Ss_Cancel \<Rightarrow> Rs_Cancelled))"
proof (induction steps)
  case Nil
  show ?case by (simp add: prompted_def reply_status_def)
next
  case (Cons step steps)
  have early: "subscriber_steps (step # steps) (prompted (length (step # steps) + left))
      = subscriber_steps steps (prompted (length steps + left))" if "steps \<noteq> [] \<or> 0 < left"
    using that by (cases step) (auto simp: send_pin_def cancel_pin_def prompted_def Let_def)
  show ?case
  proof (cases "steps \<noteq> [] \<or> 0 < left")
    case True
    then show ?thesis unfolding early [OF True] Cons.IH by (auto split: list.split)
  next
    case False
    then show ?thesis
      by (cases step) (simp_all add: send_pin_def cancel_pin_def prompted_def reply_status_def Let_def)
  qed
qed

end
