(* ===== verification/Http_Client.thy ===== *)
theory Http_Client
  imports Related_Origins
begin

text \<open>
  The HTTP client of the related origins (\<^verbatim>\<open>ops/webauthn/related_origins/reqwest_impl.rs\<close>): its
  limits, the policy for redirects, and the reading of a body.  The crate \<^verbatim>\<open>reqwest\<close> is a parameter:
  building a client from its configuration and sending a request, which answers with the chunks of
  the body.  Times are in milliseconds.
\<close>

section \<open>The policy\<close>

record http_policy =
  hp_request_timeout :: nat
  hp_max_body_bytes :: nat
  hp_max_redirects :: nat

definition http_policy_default :: http_policy where
  "http_policy_default = \<lparr>hp_request_timeout = 10000, hp_max_body_bytes = 256 * 1024, hp_max_redirects = 5\<rparr>"

datatype redirect_action = Rd_Error string | Rd_Follow

text \<open>An attempt: the URLs requested before it, and the URL it would request.\<close>

definition redirect_policy :: "nat \<Rightarrow> url list \<Rightarrow> url \<Rightarrow> redirect_action" where
  "redirect_policy max_redirects previous u =
     (if max_redirects \<le> length previous then Rd_Error ''redirect limit exceeded''
      else if url_scheme u \<noteq> ''https'' then Rd_Error ''non-https redirect''
      else Rd_Follow)"

section \<open>The client\<close>

record client_config =
  cf_https_only :: bool
  cf_redirect :: "url list \<Rightarrow> url \<Rightarrow> redirect_action"
  cf_referer :: bool
  cf_timeout :: nat

record reqwest_response =
  rq_status :: u16
  rq_content_type :: "string option"
  rq_chunks :: "(string + bytes) list"

record 'c reqwest =
  rw_build :: "client_config \<Rightarrow> string + 'c"
  rw_send :: "'c \<Rightarrow> url \<Rightarrow> string + reqwest_response"

record 'c reqwest_http_client =
  rh_client :: 'c
  rh_max_body_bytes :: nat

definition client_with_policy :: "'c reqwest \<Rightarrow> http_policy \<Rightarrow> http_client_error + 'c reqwest_http_client" where
  "client_with_policy rw policy =
     result_bind (map_err Hc_Transport (rw_build rw
       \<lparr>cf_https_only = True, cf_redirect = redirect_policy (hp_max_redirects policy), cf_referer = False,
        cf_timeout = hp_request_timeout policy\<rparr>)) (\<lambda>client.
     Inr \<lparr>rh_client = client, rh_max_body_bytes = hp_max_body_bytes policy\<rparr>)"

definition client_new :: "'c reqwest \<Rightarrow> http_client_error + 'c reqwest_http_client" where
  "client_new rw = client_with_policy rw http_policy_default"

text \<open>The loop over the stream of chunks.\<close>

fun collect_body :: "nat \<Rightarrow> bytes \<Rightarrow> (string + bytes) list \<Rightarrow> http_client_error + bytes" where
  "collect_body max_body_bytes body [] = Inr body"
| "collect_body max_body_bytes body (chunk # stream) =
     (case chunk of
        Inl e \<Rightarrow> Inl (Hc_Transport e)
      | Inr chunk \<Rightarrow>
          if max_body_bytes < length body + length chunk then Inl Hc_BodyTooLarge
          else collect_body max_body_bytes (body @ chunk) stream)"

definition reqwest_get :: "'c reqwest \<Rightarrow> 'c reqwest_http_client \<Rightarrow> url \<Rightarrow> http_client_error + http_response" where
  "reqwest_get rw c u =
     result_bind (map_err Hc_Transport (rw_send rw (rh_client c) u)) (\<lambda>response.
     result_bind (collect_body (rh_max_body_bytes c) [] (rq_chunks response)) (\<lambda>body.
     Inr \<lparr>hr_status = rq_status response, hr_content_type = rq_content_type response, hr_body = body\<rparr>))"

text \<open>The related origins of a relying party id over this client.\<close>

definition reqwest_allowed_origins :: "'c reqwest \<Rightarrow> http_policy \<Rightarrow> web_lib \<Rightarrow> (bytes \<Rightarrow> json_value option) \<Rightarrow> string
    \<Rightarrow> related_origins_error + string list" where
  "reqwest_allowed_origins rw policy w from_slice rp_id =
     result_bind (map_err Ro_Http (client_with_policy rw policy)) (\<lambda>c.
     well_known_allowed_origins w (reqwest_get rw c) from_slice rp_id)"

section \<open>Properties\<close>

text \<open>
  A chain of requests that the policy lets through: each request but the first is a redirect that it follows.
\<close>

definition redirects_allowed :: "nat \<Rightarrow> url list \<Rightarrow> bool" where
  "redirects_allowed max_redirects chain \<longleftrightarrow>
     (\<forall>i < length chain. 0 < i \<longrightarrow> redirect_policy max_redirects (take i chain) (chain ! i) = Rd_Follow)"

text \<open>
  C36: The policy lets through exactly the chains that stay on https after the first request and have at
  most as many requests, the first included, as it allows redirects: one redirect less than its name says.
\<close>

theorem redirects_followed:
  "redirects_allowed max_redirects (u # us) \<longleftrightarrow>
     list_all (\<lambda>v. url_scheme v = ''https'') us \<and> (us = [] \<or> length us < max_redirects)"
  unfolding list_all_iff
proof
  assume allowed: "redirects_allowed max_redirects (u # us)"
  have each: "Suc i < max_redirects \<and> url_scheme (us ! i) = ''https''" if "i < length us" for i
    using allowed [unfolded redirects_allowed_def, rule_format, of "Suc i"] that
    by (auto simp: redirect_policy_def split: if_splits)
  have "length us < max_redirects" if "us \<noteq> []" using each [of "length us - 1"] that by (cases us) auto
  then show "(\<forall>v\<in>set us. url_scheme v = ''https'') \<and> (us = [] \<or> length us < max_redirects)"
    using each by (auto simp: in_set_conv_nth)
next
  assume "(\<forall>v\<in>set us. url_scheme v = ''https'') \<and> (us = [] \<or> length us < max_redirects)"
  then show "redirects_allowed max_redirects (u # us)"
    by (auto simp: redirects_allowed_def redirect_policy_def nth_Cons' gr0_conv_Suc)
qed

text \<open>A body is the chunks in order, all of them, and never longer than allowed.\<close>

theorem collect_body_result:
  assumes "length body \<le> max_body_bytes"
  shows "collect_body max_body_bytes body chunks = Inr whole \<longleftrightarrow>
    (\<exists>parts. chunks = map Inr parts \<and> whole = body @ concat parts \<and> length whole \<le> max_body_bytes)"
  using assms
proof (induction chunks arbitrary: body)
  case Nil
  then show ?case by auto
next
  case (Cons c cs)
  show ?case
  proof (cases c)
    case (Inl e)
    then show ?thesis by auto
  next
    case (Inr part)
    show ?thesis
    proof (cases "max_body_bytes < length body + length part")
      case True
      then show ?thesis using Inr by (auto simp: Cons_eq_map_conv)
    next
      case False
      then show ?thesis using Inr Cons.IH [of "body @ part"]
        by (force simp: Cons_eq_map_conv)
    qed
  qed
qed

text \<open>
  What the parser of the well-known document is given is never longer than the policy allows.
\<close>

theorem related_document_bounded:
  assumes "reqwest_allowed_origins rw policy w from_slice rp_id = Inr origins"
  shows "\<exists>document v. length document \<le> hp_max_body_bytes policy \<and> from_slice document = Some v
    \<and> well_known_document v = Some origins"
proof -
  obtain c where c: "client_with_policy rw policy = Inr c"
      "well_known_allowed_origins w (reqwest_get rw c) from_slice rp_id = Inr origins"
    using assms by (auto simp: reqwest_allowed_origins_def result_bind_eq_Inr_conv map_err_eq_Inr_conv)
  obtain u resp where resp: "reqwest_get rw c u = Inr resp"
      "\<exists>v. from_slice (hr_body resp) = Some v \<and> well_known_document v = Some origins"
    using c(2) by (auto simp: well_known_allowed_origins_def result_bind_eq_Inr_conv map_err_eq_Inr_conv
        ok_or_eq_Inr_conv split: if_splits option.splits)
  have "rh_max_body_bytes c = hp_max_body_bytes policy"
    using c(1) by (auto simp: client_with_policy_def result_bind_eq_Inr_conv)
  moreover have "length (hr_body resp) \<le> rh_max_body_bytes c"
    using resp(1) by (auto simp: reqwest_get_def result_bind_eq_Inr_conv collect_body_result)
  ultimately show ?thesis using resp(2) by auto
qed

end
