(* ===== verification/Cose_Key.thy ===== *)
theory Cose_Key
  imports Credential_Request Cbor_Json
begin

text \<open>
  Credential public keys as COSE keys (\<^verbatim>\<open>proto/ctap2/cose.rs\<close>): reading the algorithm, and the
  conversion to a \<^verbatim>\<open>SubjectPublicKeyInfo\<close>.  The CBOR decoder and the DER encoder are parameters.
\<close>

section \<open>Algorithm identifiers\<close>

definition EDDSA :: int where "EDDSA = -8"
definition ESP256 :: int where "ESP256 = -9"
definition ES384 :: int where "ES384 = -35"
definition ES512 :: int where "ES512 = -36"
definition PS256 :: int where "PS256 = -37"
definition PS384 :: int where "PS384 = -38"
definition PS512 :: int where "PS512 = -39"
definition ES256K :: int where "ES256K = -47"
definition RS256 :: int where "RS256 = -257"
definition RS384 :: int where "RS384 = -258"
definition RS512 :: int where "RS512 = -259"
definition RS1 :: int where "RS1 = -65535"

lemmas cose_algorithms = ES256_def EDDSA_def ESP256_def ES384_def ES512_def PS256_def PS384_def PS512_def
  ES256K_def RS256_def RS384_def RS512_def RS1_def

definition cose_is_known :: "int \<Rightarrow> bool" where
  "cose_is_known alg \<longleftrightarrow> alg \<in> {ES256, EDDSA, ESP256, ES384, ES512, PS256, PS384, PS512, ES256K, RS256, RS384,
     RS512, RS1}"

section \<open>Labels\<close>

definition COSE_KEY_LABEL_KTY :: int where "COSE_KEY_LABEL_KTY = 1"
definition COSE_KEY_LABEL_ALG :: int where "COSE_KEY_LABEL_ALG = 3"
definition COSE_KEY_LABEL_CRV :: int where "COSE_KEY_LABEL_CRV = -1"
definition COSE_KEY_LABEL_X :: int where "COSE_KEY_LABEL_X = -2"
definition COSE_KEY_LABEL_Y :: int where "COSE_KEY_LABEL_Y = -3"
definition COSE_KEY_LABEL_N :: int where "COSE_KEY_LABEL_N = -1"
definition COSE_KEY_LABEL_E :: int where "COSE_KEY_LABEL_E = -2"
definition COSE_KTY_OKP :: int where "COSE_KTY_OKP = 1"
definition COSE_KTY_EC2 :: int where "COSE_KTY_EC2 = 2"
definition COSE_KTY_RSA :: int where "COSE_KTY_RSA = 3"
definition COSE_CRV_P256 :: int where "COSE_CRV_P256 = 1"
definition COSE_CRV_ED25519 :: int where "COSE_CRV_ED25519 = 6"
definition OID_EC_PUBLIC_KEY :: string where "OID_EC_PUBLIC_KEY = ''1.2.840.10045.2.1''"
definition OID_SECP256R1 :: string where "OID_SECP256R1 = ''1.2.840.10045.3.1.7''"
definition OID_ED25519 :: string where "OID_ED25519 = ''1.3.101.112''"
definition OID_RSA_ENCRYPTION :: string where "OID_RSA_ENCRYPTION = ''1.2.840.113549.1.1.1''"

lemmas cose_labels = COSE_KEY_LABEL_KTY_def COSE_KEY_LABEL_ALG_def COSE_KEY_LABEL_CRV_def COSE_KEY_LABEL_X_def
  COSE_KEY_LABEL_Y_def COSE_KEY_LABEL_N_def COSE_KEY_LABEL_E_def COSE_KTY_OKP_def COSE_KTY_EC2_def COSE_KTY_RSA_def
  COSE_CRV_P256_def COSE_CRV_ED25519_def

section \<open>Reading a key\<close>

text \<open>A map is given by its entries, without duplicate keys.\<close>

type_synonym cose_map = "(cbor_value \<times> cbor_value) list"

definition parse_cose_map :: "(bytes \<Rightarrow> cbor_value option) \<Rightarrow> bytes \<Rightarrow> platform_error + cose_map" where
  "parse_cose_map from_slice bytes =
     (case from_slice bytes of
        Some (Cbor_Map m) \<Rightarrow> Inr m
      | _ \<Rightarrow> Inl Pe_InvalidDeviceResponse)"

definition map_integer :: "cose_map \<Rightarrow> int \<Rightarrow> platform_error + int" where
  "map_integer m label =
     (case map_of m (Cbor_Integer label) of
        Some (Cbor_Integer i) \<Rightarrow> Inr i
      | _ \<Rightarrow> Inl Pe_InvalidDeviceResponse)"

definition map_bytes :: "cose_map \<Rightarrow> int \<Rightarrow> platform_error + bytes" where
  "map_bytes m label =
     (case map_of m (Cbor_Integer label) of
        Some (Cbor_Bytes b) \<Rightarrow> Inr b
      | _ \<Rightarrow> Inl Pe_InvalidDeviceResponse)"

definition read_alg_from_map :: "cose_map \<Rightarrow> platform_error + int" where
  "read_alg_from_map m =
     result_bind (map_integer m COSE_KEY_LABEL_ALG) (\<lambda>alg.
     if - (2 ^ 31) \<le> alg \<and> alg < 2 ^ 31 then Inr alg else Inl Pe_InvalidDeviceResponse)"

definition read_alg :: "(bytes \<Rightarrow> cbor_value option) \<Rightarrow> bytes \<Rightarrow> platform_error + int" where
  "read_alg from_slice bytes = result_bind (parse_cose_map from_slice bytes) read_alg_from_map"

section \<open>SubjectPublicKeyInfo\<close>

datatype der_any = Any_Oid string | Any_Null

record spki =
  sp_oid :: string
  sp_parameters :: "der_any option"
  sp_subject_public_key :: bytes

text \<open>The DER encoders: of a key info, and of the modulus and exponent of an RSA key.\<close>

record der_lib =
  dl_spki_to_der :: "spki \<Rightarrow> bytes option"
  dl_pkcs1_to_der :: "bytes \<Rightarrow> bytes \<Rightarrow> bytes option"

definition require_kty :: "cose_map \<Rightarrow> int \<Rightarrow> platform_error + unit" where
  "require_kty m expected =
     result_bind (map_integer m COSE_KEY_LABEL_KTY) (\<lambda>kty.
     if kty \<noteq> expected then Inl Pe_InvalidDeviceResponse else Inr ())"

definition require_crv :: "cose_map \<Rightarrow> int \<Rightarrow> platform_error + unit" where
  "require_crv m expected =
     result_bind (map_integer m COSE_KEY_LABEL_CRV) (\<lambda>crv.
     if crv \<noteq> expected then Inl Pe_InvalidDeviceResponse else Inr ())"

definition p256_spki :: "der_lib \<Rightarrow> bytes \<Rightarrow> bytes \<Rightarrow> platform_error + bytes" where
  "p256_spki dl x y =
     (if length x \<noteq> 32 \<or> length y \<noteq> 32 then Inl Pe_InvalidDeviceResponse
      else
        let point = [0x04] @ x @ y
        in ok_or Pe_InvalidDeviceResponse (dl_spki_to_der dl
             \<lparr>sp_oid = OID_EC_PUBLIC_KEY, sp_parameters = Some (Any_Oid OID_SECP256R1),
               sp_subject_public_key = point\<rparr>))"

definition ed25519_spki :: "der_lib \<Rightarrow> bytes \<Rightarrow> platform_error + bytes" where
  "ed25519_spki dl x =
     (if length x \<noteq> 32 then Inl Pe_InvalidDeviceResponse
      else ok_or Pe_InvalidDeviceResponse (dl_spki_to_der dl
             \<lparr>sp_oid = OID_ED25519, sp_parameters = None, sp_subject_public_key = x\<rparr>))"

definition rs256_spki :: "der_lib \<Rightarrow> bytes \<Rightarrow> bytes \<Rightarrow> platform_error + bytes" where
  "rs256_spki dl n e =
     result_bind (ok_or Pe_InvalidDeviceResponse (dl_pkcs1_to_der dl n e)) (\<lambda>inner_der.
     ok_or Pe_InvalidDeviceResponse (dl_spki_to_der dl
       \<lparr>sp_oid = OID_RSA_ENCRYPTION, sp_parameters = Some Any_Null, sp_subject_public_key = inner_der\<rparr>))"

definition to_spki :: "(bytes \<Rightarrow> cbor_value option) \<Rightarrow> der_lib \<Rightarrow> bytes \<Rightarrow> platform_error + bytes option" where
  "to_spki from_slice dl bytes =
     result_bind (parse_cose_map from_slice bytes) (\<lambda>m.
     result_bind (read_alg_from_map m) (\<lambda>alg.
     if alg = ES256 \<or> alg = ESP256 then
       result_bind (require_kty m COSE_KTY_EC2) (\<lambda>_.
       result_bind (require_crv m COSE_CRV_P256) (\<lambda>_.
       result_bind (map_bytes m COSE_KEY_LABEL_X) (\<lambda>x.
       result_bind (map_bytes m COSE_KEY_LABEL_Y) (\<lambda>y.
       result_map Some (p256_spki dl x y)))))
     else if alg = EDDSA then
       result_bind (require_kty m COSE_KTY_OKP) (\<lambda>_.
       result_bind (require_crv m COSE_CRV_ED25519) (\<lambda>_.
       result_bind (map_bytes m COSE_KEY_LABEL_X) (\<lambda>x.
       result_map Some (ed25519_spki dl x))))
     else if alg = RS256 then
       result_bind (require_kty m COSE_KTY_RSA) (\<lambda>_.
       result_bind (map_bytes m COSE_KEY_LABEL_N) (\<lambda>n.
       result_bind (map_bytes m COSE_KEY_LABEL_E) (\<lambda>e.
       result_map Some (rs256_spki dl n e))))
     else Inr None))"

section \<open>Properties\<close>

text \<open>The key that a map states, as what is encoded.\<close>

definition stated_key :: "der_lib \<Rightarrow> cose_map \<Rightarrow> int \<Rightarrow> spki option" where
  "stated_key dl m alg =
     (if alg \<in> {ES256, ESP256} \<and> map_integer m 1 = Inr 2 \<and> map_integer m (-1) = Inr 1 then
        (case (map_bytes m (-2), map_bytes m (-3)) of
           (Inr x, Inr y) \<Rightarrow>
             if length x = 32 \<and> length y = 32
             then Some \<lparr>sp_oid = OID_EC_PUBLIC_KEY, sp_parameters = Some (Any_Oid OID_SECP256R1),
               sp_subject_public_key = 4 # x @ y\<rparr>
             else None
         | _ \<Rightarrow> None)
      else if alg = EDDSA \<and> map_integer m 1 = Inr 1 \<and> map_integer m (-1) = Inr 6 then
        (case map_bytes m (-2) of
           Inr x \<Rightarrow> if length x = 32
             then Some \<lparr>sp_oid = OID_ED25519, sp_parameters = None, sp_subject_public_key = x\<rparr> else None
         | _ \<Rightarrow> None)
      else if alg = RS256 \<and> map_integer m 1 = Inr 3 then
        (case (map_bytes m (-1), map_bytes m (-2)) of
           (Inr n, Inr e) \<Rightarrow> map_option (\<lambda>key. \<lparr>sp_oid = OID_RSA_ENCRYPTION, sp_parameters = Some Any_Null,
             sp_subject_public_key = key\<rparr>) (dl_pkcs1_to_der dl n e)
         | _ \<Rightarrow> None)
      else None)"

lemma cose_errors:
  "map_bytes m l = Inl e \<Longrightarrow> e = Pe_InvalidDeviceResponse"
  "map_integer m l = Inl e \<Longrightarrow> e = Pe_InvalidDeviceResponse"
  by (auto simp: map_bytes_def map_integer_def split: option.splits cbor_value.splits)

lemma require_simps:
  "require_kty m k = (if map_integer m 1 = Inr k then Inr () else Inl Pe_InvalidDeviceResponse)"
  "require_crv m k = (if map_integer m (-1) = Inr k then Inr () else Inl Pe_InvalidDeviceResponse)"
  by (auto simp: require_kty_def require_crv_def cose_labels result_bind_def dest: cose_errors split: sum.splits)

definition encode_stated :: "der_lib \<Rightarrow> spki option \<Rightarrow> platform_error + bytes option" where
  "encode_stated dl key =
     (case Option.bind key (dl_spki_to_der dl) of
        Some der \<Rightarrow> Inr (Some der)
      | None \<Rightarrow> Inl Pe_InvalidDeviceResponse)"

lemma encode_stated_simps:
  "result_map Some (ok_or Pe_InvalidDeviceResponse (dl_spki_to_der dl key)) = encode_stated dl (Some key)"
  "encode_stated dl None = Inl Pe_InvalidDeviceResponse"
  by (simp_all add: encode_stated_def result_map_def ok_or_def split: option.split)

lemma to_spki_parsed:
  assumes "from_slice bytes = Some (Cbor_Map m)" "read_alg_from_map m = Inr alg" "alg \<in> {ES256, ESP256, EDDSA, RS256}"
  shows "to_spki from_slice dl bytes = encode_stated dl (stated_key dl m alg)"
proof -
  have parse: "parse_cose_map from_slice bytes = Inr m" by (simp add: parse_cose_map_def assms(1))
  have ne: "EDDSA \<noteq> ES256" "EDDSA \<noteq> ESP256" "RS256 \<noteq> ES256" "RS256 \<noteq> ESP256" "RS256 \<noteq> EDDSA"
    by (simp_all add: cose_algorithms)
  consider "alg = ES256 \<or> alg = ESP256" | "alg = EDDSA" | "alg = RS256" using assms(3) by blast
  then show ?thesis
  proof cases
    case 1
    then have "alg \<noteq> EDDSA" "alg \<noteq> RS256" using ne by metis+
    then show ?thesis using 1
      by (cases "map_bytes m (-2)"; cases "map_bytes m (-3)")
        (auto simp: to_spki_def parse assms(2) require_simps stated_key_def cose_labels p256_spki_def Let_def
          encode_stated_simps dest: cose_errors)
  next
    case 2
    then show ?thesis
      by (cases "map_bytes m (-2)")
        (auto simp: to_spki_def parse assms(2) ne ne [symmetric] require_simps stated_key_def cose_labels ed25519_spki_def
          encode_stated_simps dest: cose_errors)
  next
    case 3
    then show ?thesis
      by (cases "map_bytes m (-1)"; cases "map_bytes m (-2)"; cases "\<exists>d. dl_pkcs1_to_der dl (projr (map_bytes m (-1))) (projr (map_bytes m (-2))) = Some d")
        (auto simp: to_spki_def parse assms(2) ne ne [symmetric] require_simps stated_key_def cose_labels rs256_spki_def
          encode_stated_simps dest: cose_errors)
  qed
qed

text \<open>
  C: The public key handed to the relying party is the DER encoding of exactly the key the
  authenticator stated; for an algorithm outside the four supported ones there is no key and no
  error, whatever else the map holds; a malformed key of a supported algorithm, or one without a
  readable algorithm, is an error.
\<close>

theorem cose_spki_outcomes:
  "to_spki from_slice dl bytes =
     (case read_alg from_slice bytes of
        Inl e \<Rightarrow> Inl Pe_InvalidDeviceResponse
      | Inr alg \<Rightarrow>
          if alg \<notin> {ES256, ESP256, EDDSA, RS256} then Inr None
          else
            (case from_slice bytes of
               Some (Cbor_Map m) \<Rightarrow>
                 (case Option.bind (stated_key dl m alg) (dl_spki_to_der dl) of
                    Some der \<Rightarrow> Inr (Some der)
                  | None \<Rightarrow> Inl Pe_InvalidDeviceResponse)
             | _ \<Rightarrow> Inl Pe_InvalidDeviceResponse))"
proof (cases "read_alg from_slice bytes")
  case (Inl e)
  then have "to_spki from_slice dl bytes = Inl e"
  proof (cases "parse_cose_map from_slice bytes")
    case (Inr m)
    then have "read_alg_from_map m = Inl e" using Inl by (simp add: read_alg_def)
    then show ?thesis unfolding to_spki_def Inr by simp
  qed (simp add: to_spki_def read_alg_def)
  moreover have "e = Pe_InvalidDeviceResponse"
    using Inl by (auto simp: read_alg_def parse_cose_map_def read_alg_from_map_def result_bind_def
        split: option.splits cbor_value.splits sum.splits if_splits dest: cose_errors)
  ultimately show ?thesis by (simp add: Inl)
next
  case (Inr alg)
  then obtain m where m: "from_slice bytes = Some (Cbor_Map m)" "read_alg_from_map m = Inr alg"
    by (auto simp: read_alg_def parse_cose_map_def result_bind_def split: option.splits cbor_value.splits)
  show ?thesis
  proof (cases "alg \<in> {ES256, ESP256, EDDSA, RS256}")
    case True
    then show ?thesis using to_spki_parsed [of from_slice bytes m alg dl, OF m True] by (simp add: Inr m encode_stated_def)
  next
    case False
    then have "alg \<noteq> ES256" "alg \<noteq> ESP256" "alg \<noteq> EDDSA" "alg \<noteq> RS256" by simp_all
    then have "to_spki from_slice dl bytes = Inr None"
      unfolding to_spki_def parse_cose_map_def m by (simp add: m)
    then show ?thesis using False by (simp only: Inr) simp
  qed
qed

end
