(* ===== verification/Response_Json.thy ===== *)
theory Response_Json
  imports Cose_Key Credential_Response "HOL-Library.Char_ord" "HOL-Library.List_Lexorder"
begin

text \<open>
  Responses as the JSON handed to the relying party (\<^verbatim>\<open>ops/webauthn/idl/response.rs\<close>, the
  conversions of \<^verbatim>\<open>ops/webauthn/make_credential.rs\<close> and \<^verbatim>\<open>get_assertion.rs\<close>).  A \<^verbatim>\<open>Base64UrlString\<close>
  is its bytes until it is written; the texts of the errors are not modelled.
\<close>

section \<open>The models of the responses\<close>

datatype response_serialization_error = Se_AuthenticatorData | Se_AttestationObject | Se_PublicKey
  | Se_Json | Se_Cbor

record credential_properties_json =
  pj_rk :: "bool option"

record hmac_get_secret_json =
  hj_output1 :: bytes
  hj_output2 :: "bytes option"

record large_blob_json =
  bj_supported :: "bool option"
  bj_blob :: "bytes option"
  bj_written :: "bool option"

record prf_output_values_json =
  vj_first :: bytes
  vj_second :: "bytes option"

record prf_json =
  fj_enabled :: "bool option"
  fj_results :: "prf_output_values_json option"

record client_outputs_json =
  xj_appid :: "bool option"
  xj_appid_exclude :: "bool option"
  xj_cred_props :: "credential_properties_json option"
  xj_hmac_create_secret :: "bool option"
  xj_hmac_get_secret :: "hmac_get_secret_json option"
  xj_large_blob :: "large_blob_json option"
  xj_prf :: "prf_json option"
  xj_unsigned_extension_outputs :: "(string \<times> json_value) list"

definition client_outputs_default :: client_outputs_json where
  "client_outputs_default =
     \<lparr>xj_appid = None, xj_appid_exclude = None, xj_cred_props = None, xj_hmac_create_secret = None,
      xj_hmac_get_secret = None, xj_large_blob = None, xj_prf = None, xj_unsigned_extension_outputs = []\<rparr>"

record attestation_response_json =
  tj_client_data_json :: bytes
  tj_authenticator_data :: bytes
  tj_transports :: "string list"
  tj_public_key :: "bytes option"
  tj_public_key_algorithm :: int
  tj_attestation_object :: bytes

record registration_response_json =
  jr_id :: string
  jr_raw_id :: bytes
  jr_response :: attestation_response_json
  jr_authenticator_attachment :: "string option"
  jr_client_extension_results :: client_outputs_json
  jr_type :: string

record assertion_response_json =
  sj_client_data_json :: bytes
  sj_authenticator_data :: bytes
  sj_signature :: bytes
  sj_user_handle :: "bytes option"

record authentication_response_json =
  aj_id :: string
  aj_raw_id :: bytes
  aj_response :: assertion_response_json
  aj_authenticator_attachment :: "string option"
  aj_client_extension_results :: client_outputs_json
  aj_type :: string

section \<open>Serialization\<close>

text \<open>The derived serializers: members with their JSON names; an absent optional member is left out.\<close>

fun optional_member :: "string \<Rightarrow> ('a \<Rightarrow> json_value) \<Rightarrow> 'a option \<Rightarrow> (string \<times> json_value) list" where
  "optional_member name f None = []"
| "optional_member name f (Some x) = [(name, f x)]"

definition base64_json :: "(bytes \<Rightarrow> string) \<Rightarrow> bytes \<Rightarrow> json_value" where
  "base64_json b64 bs = Js_String (b64 bs)"

definition credential_properties_to_json :: "credential_properties_json \<Rightarrow> json_value" where
  "credential_properties_to_json p = Js_Object (optional_member ''rk'' Js_Bool (pj_rk p))"

definition hmac_get_secret_to_json :: "(bytes \<Rightarrow> string) \<Rightarrow> hmac_get_secret_json \<Rightarrow> json_value" where
  "hmac_get_secret_to_json b64 h =
     Js_Object ((''output1'', base64_json b64 (hj_output1 h)) # optional_member ''output2'' (base64_json b64) (hj_output2 h))"

definition large_blob_to_json :: "(bytes \<Rightarrow> string) \<Rightarrow> large_blob_json \<Rightarrow> json_value" where
  "large_blob_to_json b64 b =
     Js_Object (optional_member ''supported'' Js_Bool (bj_supported b)
       @ optional_member ''blob'' (base64_json b64) (bj_blob b)
       @ optional_member ''written'' Js_Bool (bj_written b))"

definition prf_output_values_to_json :: "(bytes \<Rightarrow> string) \<Rightarrow> prf_output_values_json \<Rightarrow> json_value" where
  "prf_output_values_to_json b64 v =
     Js_Object ((''first'', base64_json b64 (vj_first v)) # optional_member ''second'' (base64_json b64) (vj_second v))"

definition prf_to_json :: "(bytes \<Rightarrow> string) \<Rightarrow> prf_json \<Rightarrow> json_value" where
  "prf_to_json b64 p =
     Js_Object (optional_member ''enabled'' Js_Bool (fj_enabled p)
       @ optional_member ''results'' (prf_output_values_to_json b64) (fj_results p))"

definition typed_output_members :: "(bytes \<Rightarrow> string) \<Rightarrow> client_outputs_json \<Rightarrow> (string \<times> json_value) list" where
  "typed_output_members b64 x =
     optional_member ''appid'' Js_Bool (xj_appid x)
     @ optional_member ''appidExclude'' Js_Bool (xj_appid_exclude x)
     @ optional_member ''credProps'' credential_properties_to_json (xj_cred_props x)
     @ optional_member ''hmacCreateSecret'' Js_Bool (xj_hmac_create_secret x)
     @ optional_member ''hmacGetSecret'' (hmac_get_secret_to_json b64) (xj_hmac_get_secret x)
     @ optional_member ''largeBlob'' (large_blob_to_json b64) (xj_large_blob x)
     @ optional_member ''prf'' (prf_to_json b64) (xj_prf x)"

text \<open>The flattened map comes last, and a later member of an object replaces an earlier one.\<close>

definition client_outputs_to_json :: "(bytes \<Rightarrow> string) \<Rightarrow> client_outputs_json \<Rightarrow> json_value" where
  "client_outputs_to_json b64 x =
     Js_Object (collect_object (typed_output_members b64 x @ xj_unsigned_extension_outputs x))"

definition registration_to_json :: "(bytes \<Rightarrow> string) \<Rightarrow> registration_response_json \<Rightarrow> json_value" where
  "registration_to_json b64 j =
     Js_Object ([(''id'', Js_String (jr_id j)), (''rawId'', base64_json b64 (jr_raw_id j)),
       (''response'', Js_Object ([(''clientDataJSON'', base64_json b64 (tj_client_data_json (jr_response j))),
          (''authenticatorData'', base64_json b64 (tj_authenticator_data (jr_response j))),
          (''transports'', Js_Array (map Js_String (tj_transports (jr_response j))))]
         @ optional_member ''publicKey'' (base64_json b64) (tj_public_key (jr_response j))
         @ [(''publicKeyAlgorithm'', Js_Integer (tj_public_key_algorithm (jr_response j))),
            (''attestationObject'', base64_json b64 (tj_attestation_object (jr_response j)))]))]
      @ optional_member ''authenticatorAttachment'' Js_String (jr_authenticator_attachment j)
      @ [(''clientExtensionResults'', client_outputs_to_json b64 (jr_client_extension_results j)),
         (''type'', Js_String (jr_type j))])"

definition authentication_to_json :: "(bytes \<Rightarrow> string) \<Rightarrow> authentication_response_json \<Rightarrow> json_value" where
  "authentication_to_json b64 j =
     Js_Object ([(''id'', Js_String (aj_id j)), (''rawId'', base64_json b64 (aj_raw_id j)),
       (''response'', Js_Object ([(''clientDataJSON'', base64_json b64 (sj_client_data_json (aj_response j))),
          (''authenticatorData'', base64_json b64 (sj_authenticator_data (aj_response j))),
          (''signature'', base64_json b64 (sj_signature (aj_response j)))]
         @ optional_member ''userHandle'' (base64_json b64) (sj_user_handle (aj_response j))))]
      @ optional_member ''authenticatorAttachment'' Js_String (aj_authenticator_attachment j)
      @ [(''clientExtensionResults'', client_outputs_to_json b64 (aj_client_extension_results j)),
         (''type'', Js_String (aj_type j))])"

section \<open>The text of a response\<close>

text \<open>The printers of \<^verbatim>\<open>serde_json\<close> are a parameter; building its value of these models does not fail.\<close>

datatype json_format = Minified | Prettified

definition to_json_value :: "('m \<Rightarrow> json_value) \<Rightarrow> response_serialization_error + 'm
    \<Rightarrow> response_serialization_error + json_value" where
  "to_json_value to_value model = result_bind model (\<lambda>m. Inr (to_value m))"

definition to_json_string :: "(json_value \<Rightarrow> string option) \<Rightarrow> (json_value \<Rightarrow> string option) \<Rightarrow> ('m \<Rightarrow> json_value)
    \<Rightarrow> response_serialization_error + 'm \<Rightarrow> json_format \<Rightarrow> response_serialization_error + string" where
  "to_json_string to_text to_pretty to_value model format =
     result_bind (to_json_value to_value model) (\<lambda>value.
     case format of
       Minified \<Rightarrow> ok_or Se_Json (to_text value)
     | Prettified \<Rightarrow> ok_or Se_Json (to_pretty value))"

section \<open>Registration responses\<close>

fun ctap2_transport_of :: "transport \<Rightarrow> ctap2_transport" where
  "ctap2_transport_of Tr_Usb = T2_Usb"
| "ctap2_transport_of Tr_Ble = T2_Ble"
| "ctap2_transport_of Tr_Nfc = T2_Nfc"
| "ctap2_transport_of Tr_Hybrid = T2_Hybrid"

fun ctap2_transport_as_str :: "ctap2_transport \<Rightarrow> string" where
  "ctap2_transport_as_str T2_Ble = ''ble''"
| "ctap2_transport_as_str T2_Nfc = ''nfc''"
| "ctap2_transport_as_str T2_Usb = ''usb''"
| "ctap2_transport_as_str T2_Internal = ''internal''"
| "ctap2_transport_as_str T2_Hybrid = ''hybrid''"
| "ctap2_transport_as_str T2_SmartCard = ''smart-card''"
| "ctap2_transport_as_str (T2_Other value) = value"

definition ctap2_transport_of_string :: "string \<Rightarrow> ctap2_transport" where
  "ctap2_transport_of_string value =
     (if value = ''ble'' then T2_Ble
      else if value = ''nfc'' then T2_Nfc
      else if value = ''usb'' then T2_Usb
      else if value = ''internal'' then T2_Internal
      else if value = ''hybrid'' then T2_Hybrid
      else if value = ''smart-card'' then T2_SmartCard
      else T2_Other value)"

fun ctap2_transport_to_string :: "ctap2_transport \<Rightarrow> string" where
  "ctap2_transport_to_string (T2_Other value) = value"
| "ctap2_transport_to_string known = ctap2_transport_as_str known"

fun authenticator_attachment_of :: "transport \<Rightarrow> string" where
  "authenticator_attachment_of Tr_Usb = ''cross-platform''"
| "authenticator_attachment_of Tr_Ble = ''cross-platform''"
| "authenticator_attachment_of Tr_Nfc = ''cross-platform''"
| "authenticator_attachment_of Tr_Hybrid = ''cross-platform''"

definition registration_transports :: "transport option \<Rightarrow> string list" where
  "registration_transports t =
     remdups_adj (sort (case t of None \<Rightarrow> [] | Some t \<Rightarrow> [ctap2_transport_to_string (ctap2_transport_of t)]))"

definition AAGUID_OFFSET :: nat where "AAGUID_OFFSET = 37"
definition AAGUID_LEN :: nat where "AAGUID_LEN = 16"

definition scrub_aaguid :: "bytes \<Rightarrow> response_serialization_error + bytes" where
  "scrub_aaguid d =
     (if AAGUID_OFFSET + AAGUID_LEN \<le> length d
      then Inr (take AAGUID_OFFSET d @ replicate AAGUID_LEN 0 @ drop (AAGUID_OFFSET + AAGUID_LEN) d)
      else Inl Se_AuthenticatorData)"

text \<open>
  The encoders of a response: of the extensions in authenticator data and of an attestation object
  (its format, authenticator data and statement); the COSE decoder and the DER encoder.
\<close>

record response_codec =
  rc_extensions_to_vec :: "ctap2_mc_response_extensions option \<Rightarrow> bytes option"
  rc_assertion_extensions_to_vec :: "ctap2_ga_response_extensions option \<Rightarrow> bytes option"
  rc_attestation_to_vec :: "string \<Rightarrow> bytes \<Rightarrow> attestation_statement \<Rightarrow> bytes option"
  rc_value_from_slice :: "bytes \<Rightarrow> cbor_value option"
  rc_der :: der_lib

definition build_attestation_object :: "response_codec \<Rightarrow> string \<Rightarrow> attestation_statement \<Rightarrow> bytes
    \<Rightarrow> response_serialization_error + bytes" where
  "build_attestation_object rc format statement authenticator_data =
     ok_or Se_AttestationObject (rc_attestation_to_vec rc format authenticator_data statement)"

definition mc_client_extension_results :: "mc_unsigned_extensions \<Rightarrow> client_outputs_json" where
  "mc_client_extension_results u =
     client_outputs_default\<lparr>xj_appid_exclude := um_appid_exclude u,
       xj_cred_props := map_option (\<lambda>rk. \<lparr>pj_rk = rk\<rparr>) (um_cred_props u),
       xj_hmac_create_secret := um_hmac_create_secret u,
       xj_large_blob := map_option (\<lambda>supported. \<lparr>bj_supported = supported, bj_blob = None, bj_written = None\<rparr>) (um_large_blob u),
       xj_prf := map_option (\<lambda>prf. \<lparr>fj_enabled = mp_enabled prf,
         fj_results = map_option (\<lambda>v. \<lparr>vj_first = po_first v, vj_second = po_second v\<rparr>) (mp_results prf)\<rparr>) (um_prf u)\<rparr>"

definition registration_to_idl_model :: "response_codec \<Rightarrow> text_codec \<Rightarrow> mc_response \<Rightarrow> mc_request
    \<Rightarrow> response_serialization_error + registration_response_json" where
  "registration_to_idl_model rc tc response request =
     result_bind (ok_or Se_AuthenticatorData (ad_attested_credential (ar_authenticator_data response))) (\<lambda>attested.
     result_bind (map_err (\<lambda>_. Se_AuthenticatorData)
         (to_response_bytes (rc_extensions_to_vec rc) (ar_authenticator_data response))) (\<lambda>data0.
     let scrub_attestation = mr_attestation request = Some ''none'' in
     result_bind (if scrub_attestation then scrub_aaguid data0 else Inr data0) (\<lambda>data.
     result_bind (map_err (\<lambda>_. Se_PublicKey)
         (read_alg (rc_value_from_slice rc) (ac_credential_public_key attested))) (\<lambda>public_key_algorithm.
     result_bind (map_err (\<lambda>_. Se_PublicKey)
         (to_spki (rc_value_from_slice rc) (rc_der rc) (ac_credential_public_key attested))) (\<lambda>public_key.
     let (format, statement) =
       (if scrub_attestation then (''none'', Ast_None []) else (ar_format response, ar_attestation_statement response)) in
     result_bind (build_attestation_object rc format statement data) (\<lambda>attestation_object.
     let transports = remdups_adj (sort ((case ar_authenticator_transports response of None \<Rightarrow> [] | Some ts \<Rightarrow> ts)
           @ registration_transports (ar_transport response)))
     in Inr \<lparr>jr_id = tc_base64url tc (ac_credential_id attested), jr_raw_id = ac_credential_id attested,
          jr_response = \<lparr>tj_client_data_json = string_bytes (client_data_json tc (mc_client_data request)),
            tj_authenticator_data = data, tj_transports = transports, tj_public_key = public_key,
            tj_public_key_algorithm = public_key_algorithm, tj_attestation_object = attestation_object\<rparr>,
          jr_authenticator_attachment = map_option authenticator_attachment_of (ar_transport response),
          jr_client_extension_results = mc_client_extension_results (ar_unsigned_extensions_output response),
          jr_type = ''public-key''\<rparr>))))))"

section \<open>Assertion responses\<close>

definition TYPED_MEMBERS :: "string list" where
  "TYPED_MEMBERS = [''appid'', ''credProps'', ''hmacCreateSecret'', ''hmacGetSecret'', ''largeBlob'', ''prf'']"

definition ga_client_extension_results :: "ga_unsigned_extensions option \<Rightarrow> client_outputs_json" where
  "ga_client_extension_results unsigned_output =
     (case unsigned_output of
        None \<Rightarrow> client_outputs_default
      | Some u \<Rightarrow>
          client_outputs_default\<lparr>xj_appid := ug_appid u,
            xj_hmac_get_secret := map_option (\<lambda>h. \<lparr>hj_output1 = ho_output1 h, hj_output2 = ho_output2 h\<rparr>) (ug_hmac_get_secret u),
            xj_large_blob := map_option (\<lambda>b. \<lparr>bj_supported = None, bj_blob = lo_blob b, bj_written = lo_written b\<rparr>) (ug_large_blob u),
            xj_prf := map_option (\<lambda>results. \<lparr>fj_enabled = None,
              fj_results = map_option (\<lambda>v. \<lparr>vj_first = po_first v, vj_second = po_second v\<rparr>) results\<rparr>) (ug_prf u),
            xj_unsigned_extension_outputs := filter (\<lambda>(member, value). member \<notin> set TYPED_MEMBERS) (ug_unsigned_outputs u)\<rparr>)"

definition assertion_to_idl_model :: "response_codec \<Rightarrow> text_codec \<Rightarrow> assertion \<Rightarrow> ga_request
    \<Rightarrow> response_serialization_error + authentication_response_json" where
  "assertion_to_idl_model rc tc a request =
     (let credential_id = (case as_credential_id a of None \<Rightarrow> [] | Some cred \<Rightarrow> cd_id cred) in
     result_bind (map_err (\<lambda>_. Se_AuthenticatorData)
         (to_response_bytes (rc_assertion_extensions_to_vec rc) (as_authenticator_data a))) (\<lambda>data.
     Inr \<lparr>aj_id = tc_base64url tc credential_id, aj_raw_id = credential_id,
       aj_response = \<lparr>sj_client_data_json = string_bytes (client_data_json tc (ga_client_data request)),
         sj_authenticator_data = data, sj_signature = as_signature a, sj_user_handle = map_option ue_id (as_user a)\<rparr>,
       aj_authenticator_attachment = map_option authenticator_attachment_of (as_transport a),
       aj_client_extension_results = ga_client_extension_results (as_unsigned_extensions a),
       aj_type = ''public-key''\<rparr>))"

section \<open>Properties\<close>

text \<open>Two registrations as the relying party may tell them apart without attestation: equal but for the format, the statement and the AAGUID.\<close>

definition same_but_attestation :: "response_codec \<Rightarrow> mc_response \<Rightarrow> mc_response \<Rightarrow> bool" where
  "same_but_attestation rc a b \<longleftrightarrow>
     map_option (\<lambda>c. (ac_credential_id c, ac_credential_public_key c)) (ad_attested_credential (ar_authenticator_data a))
       = map_option (\<lambda>c. (ac_credential_id c, ac_credential_public_key c)) (ad_attested_credential (ar_authenticator_data b))
     \<and> ar_unsigned_extensions_output a = ar_unsigned_extensions_output b
     \<and> ar_transport a = ar_transport b
     \<and> ar_authenticator_transports a = ar_authenticator_transports b
     \<and> (case (to_response_bytes (rc_extensions_to_vec rc) (ar_authenticator_data a),
              to_response_bytes (rc_extensions_to_vec rc) (ar_authenticator_data b)) of
          (Inr d, Inr e) \<Rightarrow> length d = length e \<and> take 37 d = take 37 e \<and> drop 53 d = drop 53 e
        | (Inl _, Inl _) \<Rightarrow> True
        | _ \<Rightarrow> False)"

lemma scrub_same:
  "length d = length e \<Longrightarrow> take 37 d = take 37 e \<Longrightarrow> drop 53 d = drop 53 e \<Longrightarrow> scrub_aaguid d = scrub_aaguid e"
  by (simp add: scrub_aaguid_def AAGUID_OFFSET_def AAGUID_LEN_def)

text \<open>
  C27: With the conveyance preference none, the registration handed to the relying party does not
  depend on the attestation statement, its format or the AAGUID of the authenticator: two
  registrations that differ only there give the same JSON, or fail alike.
\<close>

theorem attestation_none_hides_model:
  assumes "mr_attestation request = Some ''none''" "same_but_attestation rc a b"
  shows "to_json_string to_text to_pretty (registration_to_json b64) (registration_to_idl_model rc tc a request) format
    = to_json_string to_text to_pretty (registration_to_json b64) (registration_to_idl_model rc tc b request) format"
proof -
  let ?data = "\<lambda>r. result_bind (map_err (\<lambda>_. Se_AuthenticatorData)
      (to_response_bytes (rc_extensions_to_vec rc) (ar_authenticator_data r))) scrub_aaguid"
  have data: "?data a = ?data b"
    using assms(2) unfolding same_but_attestation_def
    by (auto simp: map_err_def intro: scrub_same split: sum.splits)
  have "registration_to_idl_model rc tc a request = registration_to_idl_model rc tc b request"
  proof (cases "ad_attested_credential (ar_authenticator_data a)")
    case None
    then have "ad_attested_credential (ar_authenticator_data b) = None"
      using assms(2) by (auto simp: same_but_attestation_def)
    then show ?thesis using None by (simp add: registration_to_idl_model_def)
  next
    case (Some c)
    then obtain c' where c': "ad_attested_credential (ar_authenticator_data b) = Some c'"
        "ac_credential_id c' = ac_credential_id c" "ac_credential_public_key c' = ac_credential_public_key c"
      using assms(2) by (cases "ad_attested_credential (ar_authenticator_data b)") (auto simp: same_but_attestation_def)
    have bind: "result_bind (map_err (\<lambda>_. Se_AuthenticatorData)
          (to_response_bytes (rc_extensions_to_vec rc) (ar_authenticator_data r))) (\<lambda>d. result_bind (scrub_aaguid d) f)
        = result_bind (?data r) f" for r f
      by (simp add: result_bind_def split: sum.split)
    show ?thesis
      using assms(2) unfolding registration_to_idl_model_def
      by (simp add: Some c' assms(1) Let_def bind data same_but_attestation_def)
  qed
  then show ?thesis by simp
qed

text \<open>A key and a codec for examples: every key decodes to one P-256 key, and DER keeps the key bits.\<close>

definition example_cose_map :: cose_map where
  "example_cose_map = [(Cbor_Integer 1, Cbor_Integer 2), (Cbor_Integer 3, Cbor_Integer (-7)),
     (Cbor_Integer (-1), Cbor_Integer 1), (Cbor_Integer (-2), Cbor_Bytes (replicate 32 5)),
     (Cbor_Integer (-3), Cbor_Bytes (replicate 32 6))]"

definition example_response_codec :: response_codec where
  "example_response_codec = \<lparr>rc_extensions_to_vec = (\<lambda>e. Some [160]), rc_assertion_extensions_to_vec = (\<lambda>e. Some [160]),
     rc_attestation_to_vec = (\<lambda>format data statement. Some (string_bytes format @ data
       @ (case statement of Ast_FidoU2F signature certificates \<Rightarrow> signature | _ \<Rightarrow> []))),
     rc_value_from_slice = (\<lambda>bs. Some (Cbor_Map example_cose_map)),
     rc_der = \<lparr>dl_spki_to_der = (\<lambda>k. Some (sp_subject_public_key k)), dl_pkcs1_to_der = (\<lambda>n e. Some (n @ e))\<rparr>\<rparr>"

definition example_idl_codec :: text_codec where
  "example_idl_codec = \<lparr>tc_base64url = (\<lambda>bs. map (\<lambda>b. char_of (unat b)) bs), tc_base64url_decode = (\<lambda>s. None),
     tc_json_string = (\<lambda>s. s)\<rparr>"

definition example_registration :: "bytes \<Rightarrow> bytes \<Rightarrow> mc_response" where
  "example_registration aaguid signature = \<lparr>ar_format = ''fido-u2f'',
     ar_authenticator_data = \<lparr>ad_rp_id_hash = replicate 32 1, ad_flags = 0x41, ad_signature_count = 0,
       ad_attested_credential = Some \<lparr>ac_aaguid = aaguid, ac_credential_id = [3, 4], ac_credential_public_key = [9]\<rparr>,
       ad_extensions = None, ad_raw = None\<rparr>,
     ar_attestation_statement = Ast_FidoU2F signature [], ar_enterprise_attestation = None, ar_large_blob_key = None,
     ar_unsigned_extensions_output = \<lparr>um_appid_exclude = None, um_cred_props = Some (Some True),
       um_hmac_create_secret = None, um_large_blob = None, um_prf = None\<rparr>,
     ar_transport = Some Tr_Usb, ar_authenticator_transports = Some [''usb'', ''nfc'', ''internal'']\<rparr>"

definition example_registration_request :: "string option \<Rightarrow> mc_request" where
  "example_registration_request attestation = \<lparr>mr_challenge = [1], mr_origin = ''https://example.org'', mr_top_origin = None,
     mr_relying_party = \<lparr>rp_id = ''example.org'', rp_name = None\<rparr>,
     mr_user = \<lparr>ue_id = [1], ue_name = None, ue_display_name = None\<rparr>,
     mr_resident_key = None, mr_user_verification = Uv_Discouraged, mr_algorithms = [], mr_exclude = None,
     mr_hints = [], mr_authenticator_attachment = None, mr_extensions = None, mr_attestation = attestation, mr_timeout = 1000\<rparr>"

lemma example_scrubbed_same:
  "same_but_attestation example_response_codec (example_registration (replicate 16 7) [1, 2]) (example_registration (replicate 16 8) [3])"
  by code_simp

lemma attestation_none_hides_model_witness:
  "\<forall>to_text to_pretty b64. to_json_string to_text to_pretty (registration_to_json b64)
      (registration_to_idl_model example_response_codec example_idl_codec
        (example_registration (replicate 16 7) [1, 2]) (example_registration_request (Some ''none''))) Minified
    = to_json_string to_text to_pretty (registration_to_json b64)
      (registration_to_idl_model example_response_codec example_idl_codec
        (example_registration (replicate 16 8) [3]) (example_registration_request (Some ''none''))) Minified"
  by (intro allI, rule attestation_none_hides_model)
    (simp_all add: example_registration_request_def example_scrubbed_same)

lemma sorted_distinct_remdups: "sorted (xs :: string list) \<Longrightarrow> distinct (remdups_adj xs)"
proof (induction xs rule: remdups_adj.induct)
  case (3 x y xs)
  show ?case
  proof (cases "x = y")
    case True
    then show ?thesis using 3 by simp
  next
    case False
    have "x \<notin> set (y # xs)"
    proof
      assume "x \<in> set (y # xs)"
      then have "y \<le> x" "x \<le> y" using "3.prems" by auto
      then show False using False by simp
    qed
    then show ?thesis using 3 False by simp
  qed
qed simp_all

text \<open>
  C: The transports of a registration are in lexicographic order without duplicates, and are those
  the authenticator listed with the one of the ceremony.
\<close>

theorem registration_transports_sorted:
  assumes "registration_to_idl_model rc tc response request = Inr j"
  shows "sorted (tj_transports (jr_response j)) \<and> distinct (tj_transports (jr_response j))
    \<and> set (tj_transports (jr_response j))
      = set (case ar_authenticator_transports response of None \<Rightarrow> [] | Some ts \<Rightarrow> ts)
        \<union> set (map (ctap2_transport_to_string \<circ> ctap2_transport_of) (case ar_transport response of None \<Rightarrow> [] | Some t \<Rightarrow> [t]))"
proof -
  have "tj_transports (jr_response j) = remdups_adj (sort ((case ar_authenticator_transports response of None \<Rightarrow> [] | Some ts \<Rightarrow> ts)
           @ registration_transports (ar_transport response)))"
    using assms by (auto simp: registration_to_idl_model_def Let_def result_bind_eq_Inr_conv split: if_splits)
  then show ?thesis
    by (auto simp: registration_transports_def sorted_remdups_adj sorted_distinct_remdups split: option.splits)
qed

lemma example_registration_model:
  "result_map (\<lambda>j. tj_transports (jr_response j)) (registration_to_idl_model example_response_codec example_idl_codec
      (example_registration (replicate 16 7) [1, 2]) (example_registration_request None))
    = Inr [''internal'', ''nfc'', ''usb'']"
  by code_simp

lemma registration_transports_sorted_witness:
  "\<exists>j. registration_to_idl_model example_response_codec example_idl_codec
      (example_registration (replicate 16 7) [1, 2]) (example_registration_request None) = Inr j
    \<and> tj_transports (jr_response j) = [''internal'', ''nfc'', ''usb'']
    \<and> set (tj_transports (jr_response j)) = set [''usb'', ''nfc'', ''internal''] \<union> {''usb''}"
proof -
  obtain j where j: "registration_to_idl_model example_response_codec example_idl_codec
      (example_registration (replicate 16 7) [1, 2]) (example_registration_request None) = Inr j"
    "tj_transports (jr_response j) = [''internal'', ''nfc'', ''usb'']"
    using example_registration_model by (auto simp: result_map_eq_Inr_conv)
  show ?thesis
    using registration_transports_sorted [OF j(1)] j
    by (intro exI [of _ j]) (auto simp: example_registration_def)
qed

lemma map_of_optional: "map_of (optional_member k f v) n = (if n = k then map_option f v else None)"
  by (cases v) auto

lemma fst_optional: "map fst (optional_member k f v) = (if v = None then [] else [k])"
  by (cases v) auto

lemma map_of_reversed: "distinct (map fst xs) \<Longrightarrow> map_of (rev xs) = map_of xs"
  by (rule map_of_eqI) (auto simp: rev_map [symmetric] simp del: map_of_eq_None_iff intro: weak_map_of_SomeI)

lemma distinct_collect: "distinct (map fst (collect_object xs))"
  unfolding collect_object_def by (rule distinct_foldl_update) simp

lemma map_of_filter_key: "map_of (filter (\<lambda>(k, v). P k) xs) n = (if P n then map_of xs n else None)"
  by (induction xs) auto

text \<open>
  C: The members of the client extension results of an assertion: each typed member has the
  value of its extension or is absent, whatever the authenticator returned unsigned under its
  name; every other member is the unsigned output of that name.
\<close>

theorem assertion_outputs_not_shadowed:
  assumes "distinct (map fst (ug_unsigned_outputs u))"
  shows "\<exists>members. client_outputs_to_json b64 (ga_client_extension_results (Some u)) = Js_Object members
    \<and> distinct (map fst members)
    \<and> map_of members = (\<lambda>name.
        if name = ''appid'' then map_option Js_Bool (ug_appid u)
        else if name = ''hmacGetSecret'' then map_option (\<lambda>h. hmac_get_secret_to_json b64
          \<lparr>hj_output1 = ho_output1 h, hj_output2 = ho_output2 h\<rparr>) (ug_hmac_get_secret u)
        else if name = ''largeBlob'' then map_option (\<lambda>b. large_blob_to_json b64
          \<lparr>bj_supported = None, bj_blob = lo_blob b, bj_written = lo_written b\<rparr>) (ug_large_blob u)
        else if name = ''prf'' then map_option (\<lambda>results. prf_to_json b64 \<lparr>fj_enabled = None,
          fj_results = map_option (\<lambda>v. \<lparr>vj_first = po_first v, vj_second = po_second v\<rparr>) results\<rparr>) (ug_prf u)
        else if name = ''credProps'' \<or> name = ''hmacCreateSecret'' then None
        else map_of (ug_unsigned_outputs u) name)"
proof -
  let ?x = "ga_client_extension_results (Some u)"
  let ?typed = "typed_output_members b64 ?x"
  let ?flat = "filter (\<lambda>(k, v). k \<notin> set TYPED_MEMBERS) (ug_unsigned_outputs u)"
  have flat: "distinct (map fst ?flat)" using assms by (simp add: distinct_map_filter)
  have "distinct (map fst ?typed)"
    by (simp add: typed_output_members_def fst_optional)
  then have "map_of (rev ?typed) = map_of ?typed" by (rule map_of_reversed)
  moreover have "map_of (rev ?flat) = map_of ?flat" using flat by (rule map_of_reversed)
  ultimately have "map_of (collect_object (?typed @ ?flat)) = map_of ?typed ++ map_of ?flat"
    by (simp add: map_of_collect)
  moreover have "client_outputs_to_json b64 ?x = Js_Object (collect_object (?typed @ ?flat))"
    by (simp add: client_outputs_to_json_def ga_client_extension_results_def)
  ultimately show ?thesis
    by (intro exI [of _ "collect_object (?typed @ ?flat)"] conjI distinct_collect)
      (auto simp: fun_eq_iff typed_output_members_def map_of_optional map_add_def map_of_filter_key TYPED_MEMBERS_def
        ga_client_extension_results_def client_outputs_default_def option.map_comp comp_def split: option.splits)
qed

definition example_ga_outputs :: ga_unsigned_extensions where
  "example_ga_outputs = ga_unsigned_default\<lparr>ug_appid := Some True,
     ug_unsigned_outputs := [(''appid'', Js_Bool False), (''prf'', Js_Bool True), (''thirdPartyPayment'', Js_Bool True)]\<rparr>"

lemma assertion_outputs_not_shadowed_witness:
  "\<exists>members. client_outputs_to_json (\<lambda>bs. []) (ga_client_extension_results (Some example_ga_outputs)) = Js_Object members
    \<and> map_of members ''appid'' = Some (Js_Bool True) \<and> map_of members ''prf'' = None
    \<and> map_of members ''thirdPartyPayment'' = Some (Js_Bool True)"
proof -
  have distinct: "distinct (map fst (ug_unsigned_outputs example_ga_outputs))"
    by (simp add: example_ga_outputs_def)
  show ?thesis
    using assertion_outputs_not_shadowed [OF distinct, of "\<lambda>bs. []"]
    by (auto simp: example_ga_outputs_def ga_unsigned_default_def)
qed

end
