(* ===== verification/Spec2Isabelle.thy ===== *)
theory Spec2Isabelle
  imports Hid_Framing Ble_Framing Ctap1_Protocol Blob_Device Ceremony_Binding Reachable_Sessions
    Origin_Properties Hid_Channel_Properties Nfc_Channel Ble_Channel Cable_Session_Properties
    Cable_L2cap Device_Discovery User_Replies Http_Client Response_Json
begin

text \<open>
  A verification development for libwebauthn, the Rust library that lets a program act as the client of FIDO authenticators (WebAuthn, CTAP1/U2F and
  CTAP2) over HID, Bluetooth Low Energy, NFC and the hybrid transport (caBLE).  Paths below are relative to
  \<^verbatim>\<open>libwebauthn/src/\<close>.

  \<^bold>\<open>The program and its parts\<close>

  A relying party hands the library a request as JSON.  The request is parsed and checked against the origin (request preparation, which asks the
  origin checks, the public suffix list and the related origins).  A ceremony of \<^verbatim>\<open>webauthn.rs\<close> runs it on a channel: it
  negotiates FIDO2 or U2F, obtains user verification (\<^verbatim>\<open>webauthn/pin_uv_auth_token.rs\<close> over the protocols of
  \<^verbatim>\<open>pin/mod.rs\<close>, with the tokens of \<^verbatim>\<open>transport/channel.rs\<close> and
  \<^verbatim>\<open>pin/persistent_token.rs\<close>), sends the CTAP message (\<^verbatim>\<open>proto/\<close>) and turns the answer into the
  response of the relying party.  The management operations of \<^verbatim>\<open>management/\<close> share the loop around user verification.  A
  channel carries messages in the framing of its transport.  The response is written as JSON at the end.

  \<^bold>\<open>Theories\<close>

  Shared vocabulary.  \<open>Prelude\<close>: machine integers, byte strings, results as sums (\<^verbatim>\<open>Inl\<close> the error), the readers
  of \<^verbatim>\<open>byteorder\<close> and \<^verbatim>\<open>Cursor\<close>.  \<open>Rust_Text\<close>: the operations of
  \<^verbatim>\<open>str\<close>.  \<open>Platform\<close>: the errors of \<^verbatim>\<open>webauthn/error.rs\<close>, actions (a function from a
  state to a result and a state, None when it ran out of fuel) and the parameters of the ceremonies.

  Messages.  \<open>Ctap_Messages\<close>: \<^verbatim>\<open>proto/error.rs\<close>, \<^verbatim>\<open>proto/ctap1\<close>,
  \<^verbatim>\<open>proto/ctap2/cbor\<close>.  \<open>Get_Info\<close>: \<^verbatim>\<open>proto/ctap2/model/get_info.rs\<close>.
  \<open>Auth_Data\<close>: \<^verbatim>\<open>fido.rs\<close>.  \<open>Cbor_Json\<close>: \<^verbatim>\<open>proto/ctap2/cbor/json.rs\<close>.
  \<open>Cose_Key\<close>: \<^verbatim>\<open>proto/ctap2/cose.rs\<close>.  \<open>Transport_Hints\<close>:
  \<^verbatim>\<open>ops/webauthn/hints.rs\<close>.

  Transports.  \<open>Message_Framing\<close> is the contract of a packet framing (locale \<open>message_framing\<close>); \<open>Hid_Framing\<close>
  (\<^verbatim>\<open>transport/hid/framing.rs\<close>) and \<open>Ble_Framing\<close> (\<^verbatim>\<open>transport/ble/framing.rs\<close>,
  \<^verbatim>\<open>transport/ble/btleplug/connection.rs\<close>) interpret it.  \<open>Hid_Channel\<close> and
  \<open>Hid_Channel_Properties\<close>: \<^verbatim>\<open>transport/hid/channel.rs\<close>.  \<open>Ble_Channel\<close>:
  \<^verbatim>\<open>transport/ble/channel.rs\<close> with \<^verbatim>\<open>manager.rs\<close>, \<^verbatim>\<open>pairing.rs\<close> and
  \<^verbatim>\<open>gatt.rs\<close> of \<^verbatim>\<open>transport/ble/btleplug/\<close>.  \<open>Nfc_Channel\<close>:
  \<^verbatim>\<open>transport/nfc/channel.rs\<close> and \<^verbatim>\<open>commands.rs\<close>.  \<open>Device_Discovery\<close>:
  \<^verbatim>\<open>transport/usb.rs\<close>, \<^verbatim>\<open>transport/hid/device.rs\<close>, \<^verbatim>\<open>transport/nfc/device.rs\<close>
  with its backends \<^verbatim>\<open>libnfc/mod.rs\<close> and \<^verbatim>\<open>pcsc/mod.rs\<close>,
  \<^verbatim>\<open>transport/ble/device.rs\<close>, the transports of \<^verbatim>\<open>lib.rs\<close>.  Hybrid,
  \<^verbatim>\<open>transport/cable/\<close>: \<open>Cable_Codes\<close> (\<^verbatim>\<open>digit_encode.rs\<close>, the names of tunnel servers),
  \<open>Cable_Advertisement\<close> (\<^verbatim>\<open>crypto.rs\<close>, \<^verbatim>\<open>advertisement.rs\<close>),
  \<open>Cable_Data_Channel\<close> (\<^verbatim>\<open>data_channel.rs\<close>, \<^verbatim>\<open>l2cap.rs\<close>; locale
  \<open>data_channel\<close>), \<open>Cable_Tunnel\<close> (\<^verbatim>\<open>tunnel.rs\<close>, the store of
  \<^verbatim>\<open>known_devices.rs\<close>; locale \<open>known_device_store\<close>), \<open>Cable_Protocol\<close> and its properties
  (\<^verbatim>\<open>protocol.rs\<close>), \<open>Cable_L2cap\<close> (opening an L2CAP channel), \<open>Cable_Session\<close> and its properties
  (\<^verbatim>\<open>qr_code_device.rs\<close>, \<^verbatim>\<open>known_devices.rs\<close>, \<^verbatim>\<open>connection_stages.rs\<close>,
  \<^verbatim>\<open>channel.rs\<close>).

  Tokens and user verification.  \<open>Client_Pin\<close>: \<^verbatim>\<open>proto/ctap2/model/client_pin.rs\<close> and the token of a channel
  (locale \<open>auth_token_store\<close>).  \<open>Persistent_Token\<close>: \<^verbatim>\<open>pin/persistent_token.rs\<close> (locale
  \<open>persistent_token_store\<close>).  \<open>Session\<close>: the state of a channel and the exchanges of
  \<^verbatim>\<open>proto/ctap2/protocol.rs\<close>.  \<open>Pin_Protocol\<close>: \<^verbatim>\<open>pin/mod.rs\<close>.  \<open>Uv_Token\<close>:
  \<^verbatim>\<open>webauthn/pin_uv_auth_token.rs\<close>, \<open>User_Replies\<close> (the answers to its prompts), with \<open>Uv_Safety\<close>,
  \<open>Uv_Termination\<close>, \<open>Uv_History\<close> (the traffic of a run) and \<open>Uv_Properties\<close>.

  Ceremonies.  \<open>Assertion_Request\<close>, \<open>Assertion_Response\<close>, \<open>Credential_Request\<close>,
  \<open>Credential_Response\<close>: \<^verbatim>\<open>ops/webauthn/get_assertion.rs\<close>, \<^verbatim>\<open>make_credential.rs\<close>,
  \<^verbatim>\<open>client_data.rs\<close>, \<^verbatim>\<open>ops/u2f.rs\<close> and their CTAP2 models.  \<open>Ctap1_Protocol\<close>:
  \<^verbatim>\<open>proto/ctap1/protocol.rs\<close>.  \<open>Large_Blob\<close>, \<open>Large_Blob_Array\<close>, \<open>Blob_Device\<close>:
  \<^verbatim>\<open>ops/webauthn/large_blob.rs\<close>.  \<open>Ceremonies\<close>: \<^verbatim>\<open>webauthn.rs\<close>,
  \<^verbatim>\<open>u2f.rs\<close>, \<^verbatim>\<open>proto/ctap2/preflight.rs\<close>, with \<open>Session_Safety\<close>,
  \<open>Ceremony_Properties\<close>, \<open>Ceremony_Binding\<close>.  \<open>Management_Requests\<close>, \<open>Management\<close>,
  \<open>Management_Properties\<close>: \<^verbatim>\<open>management/\<close> and its models.  \<open>Reachable_Sessions\<close>: the
  operations of all these modules as the steps of one session.

  Origins and JSON.  \<open>Public_Suffix\<close>, \<open>Suffix_Automaton\<close>, \<open>Suffix_Automaton_Words\<close>:
  \<^verbatim>\<open>ops/webauthn/psl/\<close> (locale \<open>suffix_list\<close>).  \<open>Web_Origin\<close>:
  \<^verbatim>\<open>ops/webauthn/idl/origin.rs\<close>, \<^verbatim>\<open>rpid.rs\<close>.  \<open>Related_Origins\<close>:
  \<^verbatim>\<open>ops/webauthn/related_origins/mod.rs\<close>, \<^verbatim>\<open>ops/webauthn/idl/mod.rs\<close>.  \<open>Http_Client\<close>:
  \<^verbatim>\<open>ops/webauthn/related_origins/reqwest_impl.rs\<close>.  \<open>Request_Preparation\<close>, \<open>Origin_Properties\<close>:
  \<^verbatim>\<open>ops/webauthn/idl/get.rs\<close>, \<^verbatim>\<open>create.rs\<close> and the preparation of requests.
  \<open>Response_Json\<close>: \<^verbatim>\<open>ops/webauthn/idl/response.rs\<close> and the responses as JSON.

  \<^bold>\<open>How the model reads the code\<close>

  A struct is a record, an enum a datatype, an integer that may wrap a word of its width, a \<^verbatim>\<open>Vec<u8>\<close> a list of 8-bit words,
  a \<^verbatim>\<open>String\<close> the list of its characters (one per byte of UTF-8), a \<^verbatim>\<open>Result\<close> a sum, an async function
  an action.  A \<^verbatim>\<open>BTreeMap\<close> or \<^verbatim>\<open>HashMap\<close> is an association list or a map.  Texts of errors, log
  messages and the zeroizing of memory are left out; every error variant the code can return is a value.

  \<^bold>\<open>Interfaces\<close>

  Each interface is a locale and is interpreted on the code's own operations: the framing (HID and BLE), the data channel (WebSocket and L2CAP), the
  token store of a channel, the store of persistent tokens (the in-memory store), the store of known devices (the ephemeral store), the suffix list
  (the automaton), and the requests that can be verified (\<open>request_invariant\<close>, \<open>fresh_request\<close>,
  \<open>verifiable_request\<close>: registration, assertion, configuration, bio enrollment and credential management).

  \<^bold>\<open>What the lemmas show\<close>

  User verification: how required verification can end, read off the getInfo answers of the run itself (with a token, with the legacy flag, or with a
  bare shared secret in the one case the code leaves open), that no PIN token is asked for where the device forbids it, reuse and eviction of tokens,
  that the flow returns.  Ceremonies: they return after at most two turns, the result answers the request that was sent, for the relying party and an
  allowed credential, and nothing is downgraded to U2F that must not be.  Management: a credential is changed only by a request that carries the
  pinUvAuthParam under a token of the session, unless the authenticator answered that it verifies by itself or not at all.  The session invariant: a
  stored token has its data, over every state reached by ceremonies, U2F operations, PIN changes, management and reset.

  Origins: a relying party id that is accepted is a registrable suffix of the host or a related origin, and a prepared request carries an authorised
  id.  The automaton accepts exactly the words its bytes spell.  Framings: what is sent is what is received, what is assembled is well formed, the
  receive loop ends at its deadline and refines that of the framing.  Hybrid: the tunnel or channel of a session is the one its advertisement names and
  the handshake there is with a device that knows the secret of the QR code, the connection is terminated exactly by an error or the end from the other
  side, a known device is forgotten exactly on the tunnel server's status 410, requests are relayed in order, only signed links are stored, redirects
  are bounded.  Large blobs: the chunked writer refines the write of the device's array, and reading gives what was written.  JSON: attestation none
  hides the model of the authenticator; a typed extension output cannot be shadowed.

  \<^bold>\<open>Bounds and fuel\<close>

  A loop that a device or a user keeps going takes fuel, and None means that it ran out.  \<open>ceremonies_return\<close>,
  \<open>user_verification_returns\<close> and \<open>management_turns\<close> show which fuel suffices: two turns of the verification loop (a turn
  repeats only with verification blocked), two turns of a ceremony (a rejected token is dropped once), three for reading with a persistent token;
  \<^verbatim>\<open>LARGE_BLOB_MAX_ARRAY_BYTES\<close> + 2 turns for fetching the large blob array, since a turn adds at least one byte.  The receive
  loops of HID and the response chaining of NFC are partial functions to an option, where None is a loop that never ends; the deadline theorem shows
  that HID receives return.  The tunnel server is asked at most six times (\<^verbatim>\<open>MAX_TUNNEL_REDIRECTS\<close> + 1).  The relaying loop of
  a hybrid connection runs over an explicit list of events and says whether it closed or still runs when they are used up.

  \<^bold>\<open>Parameters\<close>

  Code outside the repository is an argument: the cryptographic crates (AES, HMAC, HKDF, SHA, P-256, AES-GCM, DEFLATE), the CBOR encoders and decoders
  that \<^verbatim>\<open>serde\<close> derives, the X.509 and DER crates, \<^verbatim>\<open>url\<close>, \<^verbatim>\<open>idna\<close>,
  \<^verbatim>\<open>publicsuffix\<close>, \<^verbatim>\<open>serde_json\<close>, base64url, the crate \<^verbatim>\<open>reqwest\<close>, hidapi, the
  Bluetooth stack, libnfc, PC/SC, bluer and the crate \<^verbatim>\<open>apdu\<close>, \<^verbatim>\<open>snow\<close>,
  \<^verbatim>\<open>tungstenite\<close>, random numbers, the clock and the user.  What a theorem needs of them is a named hypothesis of it.  \<open>records_traffic\<close>
  says that the outside world keeps the messages exchanged with the authenticator; \<open>tapped\<close> makes any world do so.

  \<^bold>\<open>Not modelled\<close>

  \<^verbatim>\<open>cbor/serde.rs\<close> is an adapter of \<^verbatim>\<open>serde_cbor_2\<close>; the field names and numbers of the CBOR
  structures are derived by macros.  \<^verbatim>\<open>transport/mock\<close> and the feature \<^verbatim>\<open>virt\<close> serve tests.
  \<^verbatim>\<open>ui.rs\<close> is in no module of the crate.  Concurrency is modelled as far as a task handles one event at a time; two tasks on
  one channel are not.  Timing is modelled by the clock of the HID channel only; elsewhere a timeout is the number of turns it allows.
\<close>

end
